(* ===== verification/Prelude.thy ===== *)
theory Prelude
  imports Main
begin

text \<open>
  What every theory of the development shares: the result type of code that can throw,
  its sequencing, and the lemma collections the proofs of the components use.

  A TypeScript function that throws is a HOL function into \<open>'e + 'a\<close>: \<open>Inl\<close> is the
  thrown error, \<open>Inr\<close> the returned value. \<open>rbind\<close> is the sequencing of two such calls (the
  second is not reached when the first throws) and \<open>rmapM\<close> is \<open>Array.prototype.map\<close> with a
  callback that may throw (the first error wins).
\<close>

named_theorems result_simps \<open>unfolding of the result combinators\<close>
named_theorems model_defs \<open>definitions of the model that proofs unfold together\<close>

section \<open>Results\<close>

type_synonym ('e, 'a) result = "'e + 'a"

definition rbind :: "('e, 'a) result \<Rightarrow> ('a \<Rightarrow> ('e, 'b) result) \<Rightarrow> ('e, 'b) result" where
  "rbind r f = (case r of Inl e \<Rightarrow> Inl e | Inr a \<Rightarrow> f a)"

lemma rbind_Inl [simp, result_simps]: "rbind (Inl e) f = Inl e"
  by (simp add: rbind_def)

lemma rbind_Inr [simp, result_simps]: "rbind (Inr a) f = f a"
  by (simp add: rbind_def)

lemma rbind_eq_Inr: "rbind r f = Inr b \<longleftrightarrow> (\<exists>a. r = Inr a \<and> f a = Inr b)"
  by (cases r) simp_all

lemma rbind_eq_Inl: "rbind r f = Inl e \<longleftrightarrow> r = Inl e \<or> (\<exists>a. r = Inr a \<and> f a = Inl e)"
  by (cases r) auto

lemma rbind_split:
  "P (rbind r f) \<longleftrightarrow> (\<forall>e. r = Inl e \<longrightarrow> P (Inl e)) \<and> (\<forall>a. r = Inr a \<longrightarrow> P (f a))"
  by (cases r) simp_all

lemma rbindE [elim]:
  assumes "rbind r f = Inr b"
  obtains a where "r = Inr a" "f a = Inr b"
  using assms by (auto simp: rbind_eq_Inr)

text \<open>\<open>if (!ok) throw e\<close>.\<close>

definition guard :: "bool \<Rightarrow> 'e \<Rightarrow> ('e, unit) result" where
  "guard ok e = (if ok then Inr () else Inl e)"

lemma guard_simps [simp, result_simps]: "guard True e = Inr ()" "guard False e = Inl e"
  by (simp_all add: guard_def)

lemma guard_eq_Inr [simp]: "guard ok e = Inr u \<longleftrightarrow> ok"
  by (simp add: guard_def)

text \<open>\<open>const row = ...; if (!row) throw e\<close>.\<close>

definition require :: "'a option \<Rightarrow> 'e \<Rightarrow> ('e, 'a) result" where
  "require x e = (case x of None \<Rightarrow> Inl e | Some a \<Rightarrow> Inr a)"

lemma require_simps [simp, result_simps]: "require None e = Inl e" "require (Some a) e = Inr a"
  by (simp_all add: require_def)

lemma require_eq_Inr [simp]: "require x e = Inr a \<longleftrightarrow> x = Some a"
  by (cases x) simp_all

fun rmapM :: "('a \<Rightarrow> ('e, 'b) result) \<Rightarrow> 'a list \<Rightarrow> ('e, 'b list) result" where
  "rmapM f [] = Inr []"
| "rmapM f (x # xs) = rbind (f x) (\<lambda>y. rbind (rmapM f xs) (\<lambda>ys. Inr (y # ys)))"

lemma rmapM_Inr_iff: "rmapM f xs = Inr ys \<longleftrightarrow> list_all2 (\<lambda>x y. f x = Inr y) xs ys"
proof (induction xs arbitrary: ys)
  case Nil
  then show ?case by auto
next
  case (Cons x xs)
  then show ?case by (cases ys) (auto simp: rbind_eq_Inr)
qed

lemma rmapM_length: "rmapM f xs = Inr ys \<Longrightarrow> length ys = length xs"
  by (auto simp: rmapM_Inr_iff dest: list_all2_lengthD)

lemma rmapM_total: "\<lbrakk>\<And>x. x \<in> set xs \<Longrightarrow> \<exists>y. f x = Inr y\<rbrakk> \<Longrightarrow> \<exists>ys. rmapM f xs = Inr ys"
  by (induction xs) (fastforce simp: rbind_eq_Inr)+

lemma rmapM_source: "\<lbrakk>rmapM f xs = Inr ys; y \<in> set ys\<rbrakk> \<Longrightarrow> \<exists>x \<in> set xs. f x = Inr y"
proof (induction xs arbitrary: ys)
  case (Cons x xs)
  then show ?case by (fastforce simp: rbind_eq_Inr)
qed simp

section \<open>Lists and maps\<close>

lemma sum_list_replace:
  fixes xs :: "int list"
  shows "i < length xs \<Longrightarrow> sum_list (xs[i := xs ! i + d]) = sum_list xs + d"
proof (induction xs arbitrary: i)
  case (Cons x xs)
  then show ?case by (cases i) simp_all
qed simp

lemma sum_list_nonneg_int: "(\<And>x. x \<in> set xs \<Longrightarrow> (0::int) \<le> x) \<Longrightarrow> 0 \<le> sum_list xs"
  by (rule sum_list_nonneg)

text \<open>The first element satisfying a predicate, as \<open>findFirst\<close> returns a row or \<open>null\<close>.\<close>

lemma find_Some_iff': "find P xs = Some x \<Longrightarrow> x \<in> set xs \<and> P x"
  by (induction xs) (auto split: if_splits)

lemma find_None_iff': "find P xs = None \<longleftrightarrow> (\<forall>x \<in> set xs. \<not> P x)"
  by (induction xs) auto

end
