(* ===== verification/Effect.thy ===== *)
theory Effect
  imports Prelude
begin

text \<open>
  Asynchronous service code as a function of the world: a computation returns a result (an
  error or a value) and the world it leaves behind. The world is returned with an error too,
  because what a gateway or a mail server did is not undone by a later throw; what a database
  transaction did is (\<open>transaction\<close>). \<open>await a; b\<close> is \<open>ebind\<close>, \<open>throw\<close> is \<open>ethrow\<close>.

  The contracts of the services are stated with \<open>preserves\<close>, an invariant of the world kept on
  every outcome, and proved with \<open>wp\<close>, the weakest precondition of a computation.
\<close>

type_synonym ('w, 'e, 'a) eff = "'w \<Rightarrow> ('e, 'a) result \<times> 'w"

named_theorems eff_simps \<open>running computations\<close>
named_theorems preserves_intros \<open>rules that keep an invariant\<close>

definition ereturn :: "'a \<Rightarrow> ('w, 'e, 'a) eff" where
  "ereturn a = (\<lambda>w. (Inr a, w))"

definition ethrow :: "'e \<Rightarrow> ('w, 'e, 'a) eff" where
  "ethrow e = (\<lambda>w. (Inl e, w))"

definition ebind :: "('w, 'e, 'a) eff \<Rightarrow> ('a \<Rightarrow> ('w, 'e, 'b) eff) \<Rightarrow> ('w, 'e, 'b) eff" where
  "ebind m f = (\<lambda>w. case m w of (Inl e, w') \<Rightarrow> (Inl e, w') | (Inr a, w') \<Rightarrow> f a w')"

definition elift :: "('e, 'a) result \<Rightarrow> ('w, 'e, 'a) eff" where
  "elift r = (\<lambda>w. (r, w))"

definition egets :: "('w \<Rightarrow> 'a) \<Rightarrow> ('w, 'e, 'a) eff" where
  "egets f = (\<lambda>w. (Inr (f w), w))"

definition emodify :: "('w \<Rightarrow> 'w) \<Rightarrow> ('w, 'e, unit) eff" where
  "emodify f = (\<lambda>w. (Inr (), f w))"

text \<open>\<open>try { m } catch (e) { h e }\<close>: the effects of \<open>m\<close> stay.\<close>

definition ecatch :: "('w, 'e, 'a) eff \<Rightarrow> ('e \<Rightarrow> ('w, 'e, 'a) eff) \<Rightarrow> ('w, 'e, 'a) eff" where
  "ecatch m h = (\<lambda>w. case m w of (Inl e, w') \<Rightarrow> h e w' | (Inr a, w') \<Rightarrow> (Inr a, w'))"

fun eforeach :: "('a \<Rightarrow> ('w, 'e, 'b) eff) \<Rightarrow> 'a list \<Rightarrow> ('w, 'e, 'b list) eff" where
  "eforeach f [] = ereturn []"
| "eforeach f (x # xs) = ebind (f x) (\<lambda>y. ebind (eforeach f xs) (\<lambda>ys. ereturn (y # ys)))"

text \<open>\<open>rollback saved w\<close> puts back the part of the world a transaction owns.\<close>

definition transaction :: "('w \<Rightarrow> 'w \<Rightarrow> 'w) \<Rightarrow> ('w, 'e, 'a) eff \<Rightarrow> ('w, 'e, 'a) eff" where
  "transaction rollback m = (\<lambda>w. case m w of (Inl e, w') \<Rightarrow> (Inl e, rollback w w') | (Inr a, w') \<Rightarrow> (Inr a, w'))"

section \<open>Running\<close>

lemma run_simps [simp, eff_simps]:
  "ereturn a w = (Inr a, w)" "ethrow e w = (Inl e, w)" "elift r w = (r, w)" "egets g w = (Inr (g w), w)"
  "emodify h w = (Inr (), h w)"
  by (simp_all add: ereturn_def ethrow_def elift_def egets_def emodify_def)

lemma run_bind [eff_simps]:
  "ebind m f w = (case m w of (Inl e, w') \<Rightarrow> (Inl e, w') | (Inr a, w') \<Rightarrow> f a w')"
  by (simp add: ebind_def)

lemma run_bind_simps [simp, eff_simps]:
  "ebind (ereturn a) f w = f a w" "ebind (ethrow e) f w = (Inl e, w)" "ebind (egets g) f w = f (g w) w"
  "ebind (emodify h) k w = k () (h w)" "ebind (elift (Inl e)) f w = (Inl e, w)" "ebind (elift (Inr a)) f w = f a w"
  by (simp_all add: ebind_def)

lemma bind_Inr: "ebind m f w = (Inr b, w'') \<longleftrightarrow> (\<exists>a w'. m w = (Inr a, w') \<and> f a w' = (Inr b, w''))"
  by (auto simp: ebind_def split: prod.splits sum.splits)

lemma bind_Inl: "ebind m f w = (Inl e, w'') \<longleftrightarrow> m w = (Inl e, w'') \<or> (\<exists>a w'. m w = (Inr a, w') \<and> f a w' = (Inl e, w''))"
  by (auto simp: ebind_def split: prod.splits sum.splits)

lemma transaction_Inr [simp]: "transaction rb m w = (Inr a, w') \<longleftrightarrow> m w = (Inr a, w')"
  by (auto simp: transaction_def split: prod.splits sum.splits)

lemma transaction_Inl: "transaction rb m w = (Inl e, w') \<longleftrightarrow> (\<exists>w''. m w = (Inl e, w'') \<and> w' = rb w w'')"
  by (auto simp: transaction_def split: prod.splits sum.splits)

lemma run_guard:
  "ebind (elift (guard b e)) f w = (if b then f () w else (Inl e, w))"
  by simp

lemma run_require:
  "ebind (elift (require x e)) f w = (case x of None \<Rightarrow> (Inl e, w) | Some a \<Rightarrow> f a w)"
  by (cases x) simp_all

section \<open>Invariants and outcomes\<close>

definition preserves :: "('w \<Rightarrow> bool) \<Rightarrow> ('w, 'e, 'a) eff \<Rightarrow> bool" where
  "preserves I m \<longleftrightarrow> (\<forall>w. I w \<longrightarrow> I (snd (m w)))"

lemma preservesD: "\<lbrakk>preserves I m; I w; m w = (r, w')\<rbrakk> \<Longrightarrow> I w'"
  by (metis preserves_def snd_conv)

lemma preservesI: "(\<And>w r w'. I w \<Longrightarrow> m w = (r, w') \<Longrightarrow> I w') \<Longrightarrow> preserves I m"
  by (metis preserves_def prod.collapse)

lemma preserves_pure [preserves_intros]:
  "preserves I (ereturn a)" "preserves I (ethrow e)" "preserves I (elift r)" "preserves I (egets g)"
  by (simp_all add: preserves_def)

lemma preserves_bind [preserves_intros]:
  "\<lbrakk>preserves I m; \<And>a. preserves I (f a)\<rbrakk> \<Longrightarrow> preserves I (ebind m f)"
  unfolding preserves_def ebind_def by (fastforce split: prod.splits sum.splits)

lemma preserves_modify: "(\<And>w. I w \<Longrightarrow> I (h w)) \<Longrightarrow> preserves I (emodify h)"
  by (simp add: preserves_def)

lemma preserves_catch [preserves_intros]:
  "\<lbrakk>preserves I m; \<And>e. preserves I (h e)\<rbrakk> \<Longrightarrow> preserves I (ecatch m h)"
  unfolding preserves_def ecatch_def by (fastforce split: prod.splits sum.splits)

lemma preserves_foreach [preserves_intros]:
  "(\<And>x. preserves I (f x)) \<Longrightarrow> preserves I (eforeach f xs)"
  by (induction xs) (auto intro!: preserves_intros)

lemma preserves_if [preserves_intros]:
  "\<lbrakk>b \<Longrightarrow> preserves I m; \<not> b \<Longrightarrow> preserves I n\<rbrakk> \<Longrightarrow> preserves I (if b then m else n)"
  by simp

lemma preserves_option [preserves_intros]:
  "\<lbrakk>x = None \<Longrightarrow> preserves I m; \<And>a. x = Some a \<Longrightarrow> preserves I (f a)\<rbrakk> \<Longrightarrow>
     preserves I (case x of None \<Rightarrow> m | Some a \<Rightarrow> f a)"
  by (cases x) simp_all

lemma preserves_sum [preserves_intros]:
  "\<lbrakk>\<And>e. x = Inl e \<Longrightarrow> preserves I (g e); \<And>a. x = Inr a \<Longrightarrow> preserves I (f a)\<rbrakk> \<Longrightarrow>
     preserves I (case x of Inl e \<Rightarrow> g e | Inr a \<Rightarrow> f a)"
  by (cases x) simp_all

section \<open>Weakest preconditions\<close>

text \<open>\<open>wp m Q E w\<close>: from \<open>w\<close>, a value and the world it leaves satisfy \<open>Q\<close>, an error and its world \<open>E\<close>.\<close>

named_theorems wp_simps \<open>weakest preconditions of the combinators and of the store\<close>

definition wp :: "('w, 'e, 'a) eff \<Rightarrow> ('a \<Rightarrow> 'w \<Rightarrow> bool) \<Rightarrow> ('e \<Rightarrow> 'w \<Rightarrow> bool) \<Rightarrow> 'w \<Rightarrow> bool" where
  "wp m Q E w = (case m w of (Inl e, w') \<Rightarrow> E e w' | (Inr a, w') \<Rightarrow> Q a w')"

lemma wpI: "\<lbrakk>\<And>a w'. m w = (Inr a, w') \<Longrightarrow> Q a w'; \<And>e w'. m w = (Inl e, w') \<Longrightarrow> E e w'\<rbrakk> \<Longrightarrow> wp m Q E w"
  by (auto simp: wp_def split: prod.splits sum.splits)

lemma wp_value: "\<lbrakk>wp m Q E w; m w = (Inr a, w')\<rbrakk> \<Longrightarrow> Q a w'"
  by (simp add: wp_def)

lemma wp_error: "\<lbrakk>wp m Q E w; m w = (Inl e, w')\<rbrakk> \<Longrightarrow> E e w'"
  by (simp add: wp_def)

lemma wp_succeeds: "wp m Q (\<lambda>_ _. False) w \<Longrightarrow> \<exists>a w'. m w = (Inr a, w') \<and> Q a w'"
  by (auto simp: wp_def split: prod.splits sum.splits)

lemma wp_any: "wp m (\<lambda>_. P) (\<lambda>_. P) w \<Longrightarrow> P (snd (m w))"
  by (auto simp: wp_def split: prod.splits sum.splits)

lemma wp_mono: "\<lbrakk>wp m Q E w; \<And>a w'. Q a w' \<Longrightarrow> Q' a w'; \<And>e w'. E e w' \<Longrightarrow> E' e w'\<rbrakk> \<Longrightarrow> wp m Q' E' w"
  by (auto simp: wp_def split: prod.splits sum.splits)

lemma wp_bind [wp_simps]: "wp (ebind m f) Q E = wp m (\<lambda>a. wp (f a) Q E) E"
  by (rule ext) (auto simp: wp_def ebind_def split: prod.splits sum.splits)

lemma wp_pure [wp_simps]:
  "wp (ereturn a) Q E = Q a" "wp (ethrow e) Q E = E e" "wp (egets g) Q2 E = (\<lambda>w. Q2 (g w) w)"
  "wp (emodify h) Q3 E = (\<lambda>w. Q3 () (h w))"
  by (auto simp: wp_def fun_eq_iff)

lemma wp_lift [wp_simps]: "wp (elift r) Q E = (\<lambda>w. case r of Inl e \<Rightarrow> E e w | Inr a \<Rightarrow> Q a w)"
  by (rule ext) (simp add: wp_def split: sum.splits)

lemma wp_guard [wp_simps]: "wp (elift (guard b e)) Q E = (\<lambda>w. if b then Q () w else E e w)"
  by (rule ext) (simp add: wp_lift)

lemma wp_require [wp_simps]: "wp (elift (require x e)) Q E = (\<lambda>w. case x of None \<Rightarrow> E e w | Some a \<Rightarrow> Q a w)"
  by (cases x) (simp_all add: wp_lift)

lemma case_require [wp_simps]:
  "(case require x e of Inl e \<Rightarrow> f e | Inr a \<Rightarrow> g a) = (case x of None \<Rightarrow> f e | Some a \<Rightarrow> g a)"
  by (cases x) simp_all

lemma case_guard [wp_simps]: "(case guard b e of Inl e \<Rightarrow> f e | Inr a \<Rightarrow> g a) = (if b then g () else f e)"
  by simp

lemma wp_catch [wp_simps]: "wp (ecatch m h) Q E = wp m Q (\<lambda>e. wp (h e) Q E)"
  by (rule ext) (auto simp: wp_def ecatch_def split: prod.splits sum.splits)

lemma wp_transaction [wp_simps]: "wp (transaction rb m) Q E = (\<lambda>w. wp m Q (\<lambda>e w'. E e (rb w w')) w)"
  by (rule ext) (auto simp: wp_def transaction_def split: prod.splits sum.splits)

lemma wp_if [wp_simps]: "wp (if b then m else n) Q E = (\<lambda>w. if b then wp m Q E w else wp n Q E w)"
  by auto

lemma wp_option [wp_simps]:
  "wp (case x of None \<Rightarrow> m | Some a \<Rightarrow> f a) Q E = (\<lambda>w. case x of None \<Rightarrow> wp m Q E w | Some a \<Rightarrow> wp (f a) Q E w)"
  by (cases x) auto

lemma wp_sum [wp_simps]:
  "wp (case x of Inl e \<Rightarrow> g e | Inr a \<Rightarrow> f a) Q E = (\<lambda>w. case x of Inl e \<Rightarrow> wp (g e) Q E w | Inr a \<Rightarrow> wp (f a) Q E w)"
  by (cases x) auto

lemma wp_prod [wp_simps]: "wp (case x of (a, b) \<Rightarrow> f a b) Q E = (case x of (a, b) \<Rightarrow> wp (f a b) Q E)"
  by (cases x) simp

lemma wp_let [wp_simps]: "wp (let x = a in f x) Q E = (let x = a in wp (f x) Q E)"
  by simp

lemma wp_foreach_inv:
  assumes "\<And>x w. x \<in> set xs \<Longrightarrow> I w \<Longrightarrow> wp (f x) (\<lambda>_. I) (\<lambda>_. I) w"
  shows "I w \<Longrightarrow> wp (eforeach f xs) (\<lambda>_. I) (\<lambda>_. I) w"
  using assms
proof (induction xs arbitrary: w)
  case (Cons x xs)
  have "wp (f x) (\<lambda>_. I) (\<lambda>_. I) w" by (rule Cons.prems(2)) (simp_all add: Cons.prems(1))
  then have "wp (f x) (\<lambda>a. wp (ebind (eforeach f xs) (\<lambda>ys. ereturn (a # ys))) (\<lambda>_. I) (\<lambda>_. I)) (\<lambda>_. I) w"
  proof (rule wp_mono)
    fix a w' assume "I w'"
    then have "wp (eforeach f xs) (\<lambda>_. I) (\<lambda>_. I) w'" using Cons by simp
    then show "wp (ebind (eforeach f xs) (\<lambda>ys. ereturn (a # ys))) (\<lambda>_. I) (\<lambda>_. I) w'" by (simp add: wp_simps)
  qed
  then show ?case by (simp add: wp_simps)
qed (simp add: wp_simps)

lemma preserves_wp: "preserves I m \<longleftrightarrow> (\<forall>w. I w \<longrightarrow> wp m (\<lambda>_. I) (\<lambda>_. I) w)"
proof -
  have "wp m (\<lambda>_. I) (\<lambda>_. I) w = I (snd (m w))" for w
    by (simp add: wp_def split: prod.splits sum.splits)
  then show ?thesis by (simp add: preserves_def)
qed

lemma preserves_conj: "\<lbrakk>preserves I m; preserves J m\<rbrakk> \<Longrightarrow> preserves (\<lambda>w. I w \<and> J w) m"
  by (simp add: preserves_def)

lemma wp_preserves: "\<lbrakk>preserves I m; I w\<rbrakk> \<Longrightarrow> wp m (\<lambda>_. I) (\<lambda>_. I) w"
  by (simp add: preserves_wp)

section \<open>Errors that can be thrown\<close>

named_theorems raises_intros \<open>rules for the errors of a computation\<close>

definition raises_only :: "('e \<Rightarrow> bool) \<Rightarrow> ('w, 'e, 'a) eff \<Rightarrow> bool" where
  "raises_only P m \<longleftrightarrow> (\<forall>w e w'. m w = (Inl e, w') \<longrightarrow> P e)"

lemma raises_onlyD: "\<lbrakk>raises_only P m; m w = (Inl e, w')\<rbrakk> \<Longrightarrow> P e"
  unfolding raises_only_def by blast

lemma raises_pure [raises_intros]:
  "raises_only P (ereturn a)" "raises_only P (egets g)" "raises_only P (emodify h)" "P e \<Longrightarrow> raises_only P (ethrow e)"
  "raises_only P (elift (Inr a))" "P e \<Longrightarrow> raises_only P (elift (Inl e))"
  by (simp_all add: raises_only_def)

lemma raises_guard [raises_intros]: "P e \<Longrightarrow> raises_only P (elift (guard b e))"
  by (cases b) (simp_all add: raises_only_def)

lemma raises_require [raises_intros]: "P e \<Longrightarrow> raises_only P (elift (require x e))"
  by (cases x) (simp_all add: raises_only_def)

lemma raises_bind [raises_intros]: "\<lbrakk>raises_only P m; \<And>a. raises_only P (f a)\<rbrakk> \<Longrightarrow> raises_only P (ebind m f)"
  unfolding raises_only_def bind_Inl by blast

lemma raises_catch: "\<lbrakk>raises_only Q m; \<And>e. Q e \<Longrightarrow> raises_only P (h e)\<rbrakk> \<Longrightarrow> raises_only P (ecatch m h)"
  unfolding raises_only_def ecatch_def by (fastforce split: prod.splits sum.splits)

lemma raises_any: "raises_only (\<lambda>_. True) m"
  by (simp add: raises_only_def)

lemma raises_handled [raises_intros]: "(\<And>e. raises_only P (h e)) \<Longrightarrow> raises_only P (ecatch m h)"
  by (rule raises_catch[OF raises_any])

lemma raises_transaction [raises_intros]: "raises_only P m \<Longrightarrow> raises_only P (transaction rb m)"
  unfolding raises_only_def transaction_Inl by blast

lemma raises_foreach [raises_intros]: "(\<And>x. x \<in> set xs \<Longrightarrow> raises_only P (f x)) \<Longrightarrow> raises_only P (eforeach f xs)"
  by (induction xs) (auto intro!: raises_intros)

lemma raises_if [raises_intros]: "\<lbrakk>b \<Longrightarrow> raises_only P m; \<not> b \<Longrightarrow> raises_only P n\<rbrakk> \<Longrightarrow> raises_only P (if b then m else n)"
  by simp

lemma raises_option [raises_intros]:
  "\<lbrakk>x = None \<Longrightarrow> raises_only P m; \<And>a. x = Some a \<Longrightarrow> raises_only P (f a)\<rbrakk> \<Longrightarrow> raises_only P (case x of None \<Rightarrow> m | Some a \<Rightarrow> f a)"
  by (cases x) simp_all

end
