(* ===== verification/JsNumber.thy ===== *)
theory JsNumber
  imports Prelude
begin

text \<open>
  JavaScript's \<open>number\<close> as the monetary code uses it. A value is either an integer
  (\<open>JInt\<close>, exact, of any size a double can hold) or anything else (\<open>JOther\<close>: a fraction,
  \<open>NaN\<close> or an infinity), which is what \<open>Number.isInteger\<close> distinguishes. Negative zero is
  identified with zero, as \<open>===\<close> does. \<open>BigInt\<close> arithmetic is \<open>int\<close>.

  Addition, subtraction and multiplication of two integer-valued doubles round the exact
  result to the nearest double, ties to even: \<open>round_double\<close>. Results at or above
  \<open>2 ^ 1024\<close> after rounding are infinite.
\<close>

datatype jsnum = JInt int | JOther

section \<open>The safe range\<close>

definition max_safe :: int where
  "max_safe = 9007199254740991"

definition safe :: "int \<Rightarrow> bool" where
  "safe n \<longleftrightarrow> - max_safe \<le> n \<and> n \<le> max_safe"

lemma safe_0 [simp]: "safe 0" and safe_1 [simp]: "safe 1"
  by (simp_all add: safe_def max_safe_def)

lemma safe_uminus [simp]: "safe (- n) \<longleftrightarrow> safe n"
  by (auto simp: safe_def)

lemma safe_abs [simp]: "safe \<bar>n\<bar> \<longleftrightarrow> safe n"
  by (auto simp: safe_def max_safe_def abs_if)

text \<open>The range check as the source writes it: \<open>v > MAX_SAFE_INTEGER || v < MIN_SAFE_INTEGER\<close>.\<close>

lemma range_check: "(max_safe < n \<or> n < - max_safe) = (\<not> safe n)"
  by (auto simp: safe_def)

lemma safe_between: "\<lbrakk>safe a; safe b; a \<le> n; n \<le> b\<rbrakk> \<Longrightarrow> safe n"
  by (auto simp: safe_def)

section \<open>Rounding to a double\<close>

text \<open>The gap between neighbouring doubles at an integer of this magnitude (at least 1).\<close>

fun ulp :: "nat \<Rightarrow> nat" where
  "ulp m = (if m < 9007199254740992 then 1 else 2 * ulp (m div 2))"

declare ulp.simps [simp del]

lemma ulp_small [simp]: "m < 9007199254740992 \<Longrightarrow> ulp m = 1"
  by (simp add: ulp.simps)

lemma ulp_step: "9007199254740992 \<le> m \<Longrightarrow> ulp m = 2 * ulp (m div 2)"
  by (subst ulp.simps) simp

lemma ulp_pos [simp]: "0 < ulp m"
proof (induction m rule: ulp.induct)
  case (1 m)
  then show ?case by (cases "m < 9007199254740992") (simp_all add: ulp_step)
qed

definition round_half_even :: "nat \<Rightarrow> nat \<Rightarrow> nat" where
  "round_half_even m u =
     (let q = m div u; r = m mod u in
      (if 2 * r < u then q else if u < 2 * r then q + 1 else if even q then q else q + 1) * u)"

lemma round_half_even_1 [simp]: "round_half_even m 1 = m"
  by (simp add: round_half_even_def)

lemma round_half_even_Suc0 [simp]: "round_half_even m (Suc 0) = m"
  using round_half_even_1 by simp

definition round_double :: "int \<Rightarrow> int" where
  "round_double n = sgn n * int (round_half_even (nat \<bar>n\<bar>) (ulp (nat \<bar>n\<bar>)))"

lemma round_double_exact: "\<bar>n\<bar> < 9007199254740992 \<Longrightarrow> round_double n = n"
  by (simp add: round_double_def nat_less_iff sgn_mult_abs)

lemma round_double_safe [simp]: "safe n \<Longrightarrow> round_double n = n"
  by (rule round_double_exact) (auto simp: safe_def max_safe_def)

definition double_limit :: int where
  "double_limit = 2 ^ 1024"

definition js_of_int :: "int \<Rightarrow> jsnum" where
  "js_of_int n = (if \<bar>round_double n\<bar> < double_limit then JInt (round_double n) else JOther)"

lemma safe_small: "safe n \<Longrightarrow> \<bar>n\<bar> < double_limit"
  by (auto simp: safe_def max_safe_def double_limit_def abs_less_iff)

lemma js_of_int_safe [simp]: "safe n \<Longrightarrow> js_of_int n = JInt n"
  by (simp add: js_of_int_def safe_small)

text \<open>
  The operators. \<open>JOther\<close> is absorbing: the model applies them only to integers and to the
  infinities that \<open>js_of_int\<close> yields, where this is what JavaScript computes.
\<close>

fun js_lift :: "(int \<Rightarrow> int \<Rightarrow> int) \<Rightarrow> jsnum \<Rightarrow> jsnum \<Rightarrow> jsnum" where
  "js_lift f (JInt a) (JInt b) = js_of_int (f a b)"
| "js_lift f _ _ = JOther"

definition js_mul :: "jsnum \<Rightarrow> jsnum \<Rightarrow> jsnum" where
  "js_mul = js_lift (*)"

definition js_add :: "jsnum \<Rightarrow> jsnum \<Rightarrow> jsnum" where
  "js_add = js_lift (+)"

text \<open>Addition and subtraction of two integers in the safe range: never infinite.\<close>

definition int_add :: "int \<Rightarrow> int \<Rightarrow> int" where
  "int_add a b = round_double (a + b)"

definition int_sub :: "int \<Rightarrow> int \<Rightarrow> int" where
  "int_sub a b = round_double (a - b)"

lemma int_add_safe [simp]: "safe (a + b) \<Longrightarrow> int_add a b = a + b"
  by (simp add: int_add_def)

lemma int_sub_safe [simp]: "safe (a - b) \<Longrightarrow> int_sub a b = a - b"
  by (simp add: int_sub_def)

lemma int_add_0 [simp]: "safe a \<Longrightarrow> int_add a 0 = a" "safe a \<Longrightarrow> int_sub a 0 = a"
  by simp_all

text \<open>Above the range a sum can lose its last bit: the value stored is not the sum.\<close>

lemma int_add_rounds: "int_add max_safe 2 = max_safe + 1"
  by (simp add: int_add_def round_double_def round_half_even_def max_safe_def ulp.simps Let_def)

end
