(* ===== verification/JsString.thy ===== *)
theory JsString
  imports JsNumber
begin

text \<open>
  The string operations the source uses, on \<open>string\<close> (a list of code units up to 255; the
  model does not cover code units above that). \<open>show_nat\<close> is \<open>String(n)\<close> for a
  non-negative integer and \<open>digits_val\<close> is \<open>BigInt(digits)\<close>. The decimal pattern
  \<open>^(-)?(\d+)(?:\.(\d+))?$\<close> that amounts and quantities share is \<open>match_decimal\<close>, an
  executable matcher with a declarative characterisation.
\<close>

section \<open>Digits\<close>

definition is_digit :: "char \<Rightarrow> bool" where
  "is_digit c \<longleftrightarrow> (of_char c :: nat) \<in> {48..57}"

definition digit_val :: "char \<Rightarrow> nat" where
  "digit_val c = of_char c - 48"

definition digit_char :: "nat \<Rightarrow> char" where
  "digit_char d = char_of (48 + d)"

lemma digit_char_props [simp]:
  assumes "d < 10"
  shows "is_digit (digit_char d)" "digit_val (digit_char d) = d"
  using assms by (simp_all add: is_digit_def digit_val_def digit_char_def)

lemma is_digit_simps [simp]:
  "is_digit (CHR ''0'')" "is_digit (CHR ''1'')" "is_digit (CHR ''2'')" "is_digit (CHR ''3'')"
  "is_digit (CHR ''4'')" "is_digit (CHR ''5'')" "is_digit (CHR ''6'')" "is_digit (CHR ''7'')"
  "is_digit (CHR ''8'')" "is_digit (CHR ''9'')"
  "\<not> is_digit (CHR ''-'')" "\<not> is_digit (CHR ''.'')" "\<not> is_digit (CHR '','')" "\<not> is_digit (CHR ''%'')"
  "\<not> is_digit (CHR '' '')" "\<not> is_digit (CHR ''+'')" "\<not> is_digit (CHR ''('')" "\<not> is_digit (CHR '')'')"
  by (simp_all add: is_digit_def)

lemma digit_val_0 [simp]: "digit_val (CHR ''0'') = 0"
  by (simp add: digit_val_def)

lemma digit_char_0 [simp]: "digit_char 0 = CHR ''0''"
  by code_simp

lemma digit_val_le: "is_digit c \<Longrightarrow> digit_val c \<le> 9"
  by (auto simp: is_digit_def digit_val_def)

lemma digit_char_val: "is_digit c \<Longrightarrow> digit_char (digit_val c) = c"
  by (auto simp: is_digit_def digit_val_def digit_char_def)

definition digits_val :: "string \<Rightarrow> nat" where
  "digits_val s = foldl (\<lambda>a c. 10 * a + digit_val c) 0 s"

lemma foldl_digits: "foldl (\<lambda>a c. 10 * a + digit_val c) n s = n * 10 ^ length s + digits_val s"
proof (induction s arbitrary: n)
  case Nil
  then show ?case by (simp add: digits_val_def)
next
  case (Cons c s)
  show ?case
    using Cons[of "10 * n + digit_val c"] Cons[of "digit_val c"]
    by (simp add: digits_val_def algebra_simps)
qed

lemma digits_val_Nil [simp]: "digits_val [] = 0"
  by (simp add: digits_val_def)

lemma digits_val_Cons: "digits_val (c # s) = digit_val c * 10 ^ length s + digits_val s"
  using foldl_digits[of "digit_val c" s] by (simp add: digits_val_def)

lemma digits_val_append: "digits_val (s @ t) = digits_val s * 10 ^ length t + digits_val t"
  using foldl_digits[of "digits_val s" t] by (simp add: digits_val_def)

lemma digits_val_zeros [simp]: "digits_val (replicate n (CHR ''0'')) = 0"
  by (induction n) (simp_all add: digits_val_Cons)

lemma digits_val_less: "list_all is_digit s \<Longrightarrow> digits_val s < 10 ^ length s"
proof (induction s)
  case (Cons c s)
  then have "digit_val c \<le> 9" and IH: "digits_val s < 10 ^ length s"
    using digit_val_le by simp_all
  then have "digit_val c * 10 ^ length s \<le> 9 * 10 ^ length s" by (intro mult_le_mono1)
  with IH have "digit_val c * 10 ^ length s + digits_val s < 9 * 10 ^ length s + 10 ^ length s"
    by linarith
  then show ?case by (simp add: digits_val_Cons)
qed simp

fun show_nat :: "nat \<Rightarrow> string" where
  "show_nat n = (if n < 10 then [digit_char n] else show_nat (n div 10) @ [digit_char (n mod 10)])"

declare show_nat.simps [simp del]

lemma show_nat_small: "n < 10 \<Longrightarrow> show_nat n = [digit_char n]"
  by (simp add: show_nat.simps)

lemma show_nat_step: "10 \<le> n \<Longrightarrow> show_nat n = show_nat (n div 10) @ [digit_char (n mod 10)]"
  by (subst show_nat.simps) simp

lemma show_nat_digits [simp]: "list_all is_digit (show_nat n)"
proof (induction n rule: show_nat.induct)
  case (1 n)
  then show ?case by (cases "n < 10") (simp_all add: show_nat_small show_nat_step)
qed

lemma show_nat_nonempty [simp]: "show_nat n \<noteq> []"
  by (cases "n < 10") (simp_all add: show_nat_small show_nat_step)

lemma digits_val_show_nat [simp]: "digits_val (show_nat n) = n"
proof (induction n rule: show_nat.induct)
  case (1 n)
  then show ?case
    by (cases "n < 10") (simp_all add: show_nat_small show_nat_step digits_val_append digits_val_Cons)
qed

lemma show_nat_inj: "show_nat m = show_nat n \<longleftrightarrow> m = n"
  by (metis digits_val_show_nat)

lemma show_nat_length: "n < 10 ^ k \<Longrightarrow> 0 < k \<Longrightarrow> length (show_nat n) \<le> k"
proof (induction n arbitrary: k rule: show_nat.induct)
  case (1 n)
  show ?case
  proof (cases "n < 10")
    case True
    with "1.prems" show ?thesis by (simp add: show_nat_small)
  next
    case False
    then obtain k' where k: "k = Suc k'" "0 < k'"
      using "1.prems" by (cases k; cases "k - 1") auto
    then have "n div 10 < 10 ^ k'" using "1.prems" by (simp add: less_mult_imp_div_less)
    with "1.IH"[OF False, of k'] k False show ?thesis by (simp add: show_nat_step)
  qed
qed

section \<open>Trimming and padding\<close>

definition is_space :: "char \<Rightarrow> bool" where
  "is_space c \<longleftrightarrow> (of_char c :: nat) \<in> {9, 10, 11, 12, 13, 32, 160}"

definition js_trim :: "string \<Rightarrow> string" where
  "js_trim s = rev (dropWhile is_space (rev (dropWhile is_space s)))"

lemma digit_not_space [simp]: "is_digit c \<Longrightarrow> \<not> is_space c"
  by (auto simp: is_digit_def is_space_def)

lemma punct_not_space [simp]: "\<not> is_space (CHR ''%'')" "\<not> is_space (CHR ''-'')" "\<not> is_space (CHR ''.'')"
  by (simp_all add: is_space_def)

lemma dropWhile_id: "s = [] \<or> \<not> P (hd s) \<Longrightarrow> dropWhile P s = s"
  by (cases s) auto

lemma js_trim_id: "\<lbrakk>s \<noteq> [] \<Longrightarrow> \<not> is_space (hd s); s \<noteq> [] \<Longrightarrow> \<not> is_space (last s)\<rbrakk> \<Longrightarrow> js_trim s = s"
  by (cases "s = []") (simp_all add: js_trim_def dropWhile_id hd_rev)

lemma js_trim_Nil [simp]: "js_trim [] = []"
  by (simp add: js_trim_def)

definition pad_start :: "nat \<Rightarrow> char \<Rightarrow> string \<Rightarrow> string" where
  "pad_start n c s = replicate (n - length s) c @ s"

definition pad_end :: "nat \<Rightarrow> char \<Rightarrow> string \<Rightarrow> string" where
  "pad_end n c s = s @ replicate (n - length s) c"

lemma length_pad_start [simp]: "length (pad_start n c s) = max n (length s)"
  by (simp add: pad_start_def)

lemma digits_val_pad_start [simp]: "digits_val (pad_start n (CHR ''0'') s) = digits_val s"
  by (simp add: pad_start_def digits_val_append)

lemma digits_val_pad_end: "digits_val (pad_end n (CHR ''0'') s) = digits_val s * 10 ^ (n - length s)"
  by (simp add: pad_end_def digits_val_append)

lemma list_all_pad_start [simp]: "list_all P (pad_start n c s) \<longleftrightarrow> (n \<le> length s \<or> P c) \<and> list_all P s"
  by (auto simp: pad_start_def list_all_iff)

text \<open>\<open>s.replace(/0+$/, '')\<close>.\<close>

definition strip_zeros :: "string \<Rightarrow> string" where
  "strip_zeros s = rev (dropWhile (\<lambda>c. c = CHR ''0'') (rev s))"

lemma strip_zeros_decomp: "\<exists>k. s = strip_zeros s @ replicate k (CHR ''0'')"
proof -
  let ?z = "takeWhile (\<lambda>c. c = CHR ''0'') (rev s)"
  have "?z = replicate (length ?z) (CHR ''0'')"
    by (rule replicate_eqI) (auto dest: set_takeWhileD)
  moreover have "s = rev (dropWhile (\<lambda>c. c = CHR ''0'') (rev s)) @ rev ?z"
    by (metis rev_append rev_rev_ident takeWhile_dropWhile_id)
  ultimately show ?thesis
    unfolding strip_zeros_def by (metis rev_replicate)
qed

lemma strip_zeros_digits: "list_all is_digit s \<Longrightarrow> list_all is_digit (strip_zeros s)"
  using strip_zeros_decomp[of s] by (metis list_all_append)

lemma strip_zeros_length: "length (strip_zeros s) \<le> length s"
  using strip_zeros_decomp[of s] by (metis length_append le_add1)

lemma pad_end_strip_zeros: "pad_end (length s) (CHR ''0'') (strip_zeros s) = s"
proof -
  obtain k where k: "s = strip_zeros s @ replicate k (CHR ''0'')"
    using strip_zeros_decomp by blast
  then have "length s - length (strip_zeros s) = k"
    by (metis add_diff_cancel_left' length_append length_replicate)
  with k show ?thesis by (simp add: pad_end_def)
qed

section \<open>The decimal pattern\<close>

fun match_fraction :: "string \<Rightarrow> string option" where
  "match_fraction [] = Some []"
| "match_fraction (c # frac) =
     (if c = CHR ''.'' \<and> frac \<noteq> [] \<and> list_all is_digit frac then Some frac else None)"

definition match_unsigned :: "string \<Rightarrow> (string \<times> string) option" where
  "match_unsigned s =
     (let whole = takeWhile is_digit s in
      if whole = [] then None
      else map_option (Pair whole) (match_fraction (dropWhile is_digit s)))"

fun match_decimal :: "string \<Rightarrow> (bool \<times> string \<times> string) option" where
  "match_decimal [] = None"
| "match_decimal (c # s) =
     (if c = CHR ''-'' then map_option (Pair True) (match_unsigned s)
      else map_option (Pair False) (match_unsigned (c # s)))"

text \<open>The text a match stands for: sign, integer part, and a fraction only after a point.\<close>

definition unsigned_text :: "string \<Rightarrow> string \<Rightarrow> string" where
  "unsigned_text whole frac = whole @ (if frac = [] then [] else CHR ''.'' # frac)"

definition decimal_text :: "bool \<Rightarrow> string \<Rightarrow> string \<Rightarrow> string" where
  "decimal_text neg whole frac = (if neg then ''-'' else []) @ unsigned_text whole frac"

definition decimal_parts :: "string \<Rightarrow> string \<Rightarrow> bool" where
  "decimal_parts whole frac \<longleftrightarrow> whole \<noteq> [] \<and> list_all is_digit whole \<and> list_all is_digit frac"

lemma takeWhile_digits_append:
  "list_all is_digit w \<Longrightarrow> takeWhile is_digit (w @ r) = w @ takeWhile is_digit r"
  "list_all is_digit w \<Longrightarrow> dropWhile is_digit (w @ r) = dropWhile is_digit r"
  by (simp_all add: list_all_iff)

lemma match_fraction_iff:
  "match_fraction r = Some frac \<longleftrightarrow>
     r = (if frac = [] then [] else CHR ''.'' # frac) \<and> list_all is_digit frac"
  by (cases r) auto

lemma match_unsigned_iff:
  "match_unsigned s = Some (whole, frac) \<longleftrightarrow> s = unsigned_text whole frac \<and> decimal_parts whole frac"
proof
  assume "match_unsigned s = Some (whole, frac)"
  then have w: "whole = takeWhile is_digit s" "whole \<noteq> []"
    and f: "dropWhile is_digit s = (if frac = [] then [] else CHR ''.'' # frac)" "list_all is_digit frac"
    by (auto simp: match_unsigned_def Let_def match_fraction_iff split: if_splits)
  have "s = whole @ dropWhile is_digit s" using w(1) by simp
  with f(1) have "s = unsigned_text whole frac" by (simp add: unsigned_text_def)
  moreover have "list_all is_digit whole" using w(1) by (auto simp: list_all_iff dest: set_takeWhileD)
  ultimately show "s = unsigned_text whole frac \<and> decimal_parts whole frac"
    using w(2) f(2) by (simp add: decimal_parts_def)
next
  assume a: "s = unsigned_text whole frac \<and> decimal_parts whole frac"
  then have "takeWhile is_digit s = whole"
    and "dropWhile is_digit s = (if frac = [] then [] else CHR ''.'' # frac)"
    by (auto simp: unsigned_text_def decimal_parts_def takeWhile_digits_append takeWhile_eq_all_conv
        dropWhile_eq_Nil_conv list_all_iff)
  with a show "match_unsigned s = Some (whole, frac)"
    by (simp add: match_unsigned_def Let_def decimal_parts_def)
qed

lemma match_unsigned_text [simp]:
  "decimal_parts whole frac \<Longrightarrow> match_unsigned (unsigned_text whole frac) = Some (whole, frac)"
  by (simp add: match_unsigned_iff)

lemma unsigned_text_hd: "decimal_parts whole frac \<Longrightarrow> \<exists>c r. unsigned_text whole frac = c # r \<and> is_digit c"
  by (cases whole) (auto simp: unsigned_text_def decimal_parts_def)

lemma match_decimal_iff:
  "match_decimal s = Some (neg, whole, frac) \<longleftrightarrow> s = decimal_text neg whole frac \<and> decimal_parts whole frac"
proof (cases s)
  case Nil
  then show ?thesis by (auto simp: decimal_text_def dest: unsigned_text_hd)
next
  case (Cons c r)
  have "CHR ''-'' # r \<noteq> unsigned_text whole frac" if "decimal_parts whole frac" for r
    using unsigned_text_hd[OF that] by auto
  with Cons show ?thesis
    by (auto simp: match_unsigned_iff decimal_text_def dest: unsigned_text_hd)
qed

lemma match_decimal_text [simp]:
  "decimal_parts whole frac \<Longrightarrow> match_decimal (decimal_text neg whole frac) = Some (neg, whole, frac)"
  by (simp add: match_decimal_iff)

text \<open>Such a text has no surrounding white space and no comma.\<close>

lemma decimal_text_chars:
  assumes "decimal_parts whole frac" "c \<in> set (decimal_text neg whole frac)"
  shows "is_digit c \<or> c = CHR ''-'' \<or> c = CHR ''.''"
  using assms by (auto simp: decimal_text_def unsigned_text_def decimal_parts_def list_all_iff split: if_splits)

lemma decimal_text_trim [simp]:
  assumes "decimal_parts whole frac"
  shows "js_trim (decimal_text neg whole frac) = decimal_text neg whole frac"
proof (rule js_trim_id)
  have sp: "is_digit c \<or> c = CHR ''-'' \<or> c = CHR ''.'' \<Longrightarrow> \<not> is_space c" for c
    by (auto simp: is_space_def is_digit_def)
  show "\<not> is_space (hd (decimal_text neg whole frac))" if "decimal_text neg whole frac \<noteq> []"
    using that decimal_text_chars[OF assms] sp by (metis hd_in_set)
  show "\<not> is_space (last (decimal_text neg whole frac))" if "decimal_text neg whole frac \<noteq> []"
    using that decimal_text_chars[OF assms] sp by (metis last_in_set)
qed

section \<open>Lower case\<close>

text \<open>\<open>toLowerCase\<close> on code units below 256: A to Z, and the accented capitals from 192 to 222 (215 is a sign).\<close>

definition to_lower :: "char \<Rightarrow> char" where
  "to_lower c = (let n = of_char c :: nat
     in if 65 \<le> n \<and> n \<le> 90 \<or> 192 \<le> n \<and> n \<le> 222 \<and> n \<noteq> 215 then char_of (n + 32) else c)"

definition js_lower :: "string \<Rightarrow> string" where
  "js_lower s = map to_lower s"

lemma to_lower_idem [simp]: "to_lower (to_lower c) = to_lower c"
proof -
  have "of_char c < (256 :: nat)" by simp
  then show ?thesis by (auto simp: to_lower_def Let_def)
qed

lemma js_lower_idem [simp]: "js_lower (js_lower s) = js_lower s"
  by (simp add: js_lower_def)

end
