(* ===== verification/Codec.thy ===== *)
theory Codec
  imports JsString
begin

text \<open>
  The interface of a formatter and the parser of the same quantity: on its valid values the
  formatter returns, and the parser reads the text back. Minor amounts, quantities and basis
  points provide it (\<open>Money\<close>, \<open>Quantity\<close>); checks and manual payments rely on it when an
  amount crosses a service boundary as text.
\<close>

locale text_codec =
  fixes fmt :: "'a \<Rightarrow> ('e, string) result"
    and parse :: "string \<Rightarrow> ('f, 'a) result"
    and valid :: "'a \<Rightarrow> bool"
  assumes codec_total: "valid a \<Longrightarrow> \<exists>s. fmt a = Inr s"
    and codec_back: "valid a \<Longrightarrow> fmt a = Inr s \<Longrightarrow> parse s = Inr a"
begin

lemma codec_roundtrip: "valid a \<Longrightarrow> \<exists>s. fmt a = Inr s \<and> parse s = Inr a"
  using codec_total codec_back by blast

lemma codec_inj: "\<lbrakk>valid a; valid b; fmt a = fmt b\<rbrakk> \<Longrightarrow> a = b"
  using codec_roundtrip by (metis sum.inject(2))

lemma codec_stable: "\<lbrakk>valid a; fmt a = Inr s; parse s = Inr b\<rbrakk> \<Longrightarrow> b = a \<and> fmt b = Inr s"
  using codec_back by fastforce

end

end
