(* ===== verification/Money.thy ===== *)
theory Money
  imports Codec Complex_Main
begin

text \<open>
  \<open>packages/shared/src/money/money.ts\<close>: integer minor units, basis points, rounding division,
  the arithmetic with its range checks, proportional allocation, and the conversion between
  minor units and decimal strings. \<open>MoneyError\<close> and \<open>RangeError\<close> are the constructors of
  \<open>money_error\<close>; the label argument of the source is kept, the printed value is not.
  The locale-aware formatters call \<open>Intl\<close> and are not modelled.
\<close>

section \<open>Currencies\<close>

datatype currency = USD | CAD | EUR | GBP | PKR

definition supported_currencies :: "currency list" where
  "supported_currencies = [USD, CAD, EUR, GBP, PKR]"

fun currency_code :: "currency \<Rightarrow> string" where
  "currency_code USD = ''USD''"
| "currency_code CAD = ''CAD''"
| "currency_code EUR = ''EUR''"
| "currency_code GBP = ''GBP''"
| "currency_code PKR = ''PKR''"

fun minorUnitExponent :: "currency \<Rightarrow> nat" where
  "minorUnitExponent USD = 2"
| "minorUnitExponent CAD = 2"
| "minorUnitExponent EUR = 2"
| "minorUnitExponent GBP = 2"
| "minorUnitExponent PKR = 2"

lemma minorUnitExponent_2 [simp]: "minorUnitExponent c = 2"
  by (cases c) simp_all

text \<open>\<open>null\<close> and \<open>undefined\<close> are both \<open>None\<close>; \<open>value ?? ''\<close> makes them the empty string.\<close>

definition isSupportedCurrency :: "string option \<Rightarrow> bool" where
  "isSupportedCurrency value =
     ((case value of None \<Rightarrow> [] | Some v \<Rightarrow> v) \<in> set (map currency_code supported_currencies))"

definition toCurrencyCode :: "string option \<Rightarrow> currency \<Rightarrow> currency" where
  "toCurrencyCode value fallback =
     (if isSupportedCurrency value
      then (case find (\<lambda>c. Some (currency_code c) = value) supported_currencies of
              Some c \<Rightarrow> c | None \<Rightarrow> fallback)
      else fallback)"

lemma currency_code_inj [simp]: "currency_code c = currency_code d \<longleftrightarrow> c = d"
  by (cases c; cases d) simp_all

lemma toCurrencyCode_code [simp]: "toCurrencyCode (Some (currency_code c)) fb = c"
  by (cases c) (simp_all add: toCurrencyCode_def isSupportedCurrency_def supported_currencies_def)

section \<open>Errors and checks\<close>

datatype money_error =
    NotInteger string
  | NotSafe string
  | NegativeRate string
  | Overflows string
  | DivisionByZero
  | NoWeights
  | BadWeight
  | NotDecimal string
  | TooPrecise string
  | NotPercentage string
  | FractionalNumber
  | RangeErr string

fun assertMinor :: "jsnum \<Rightarrow> string \<Rightarrow> (money_error, int) result" where
  "assertMinor JOther label = Inl (NotInteger label)"
| "assertMinor (JInt v) label = (if safe v then Inr v else Inl (NotSafe label))"

fun assertBasisPoints :: "jsnum \<Rightarrow> string \<Rightarrow> (money_error, int) result" where
  "assertBasisPoints JOther label = Inl (NotInteger label)"
| "assertBasisPoints (JInt v) label = (if v < 0 then Inl (NegativeRate label) else Inr v)"

definition toSafeNumber :: "int \<Rightarrow> string \<Rightarrow> (money_error, int) result" where
  "toSafeNumber v label = (if v > max_safe \<or> v < - max_safe then Inl (Overflows label) else Inr v)"

lemma toSafeNumber_if: "toSafeNumber v l = (if safe v then Inr v else Inl (Overflows l))"
  by (auto simp: toSafeNumber_def safe_def)

lemma toSafeNumber_safe [simp]: "safe v \<Longrightarrow> toSafeNumber v l = Inr v"
  by (simp add: toSafeNumber_if)

lemma toSafeNumber_eq_Inr [simp]: "toSafeNumber v l = Inr a \<longleftrightarrow> safe v \<and> a = v"
  by (auto simp: toSafeNumber_if)

lemma assertMinor_eq_Inr: "assertMinor x l = Inr a \<longleftrightarrow> x = JInt a \<and> safe a"
  by (cases x) auto

lemma assertBasisPoints_eq_Inr: "assertBasisPoints x l = Inr a \<longleftrightarrow> x = JInt a \<and> 0 \<le> a"
  by (cases x) auto

section \<open>Rounding division\<close>

text \<open>\<open>BigInt\<close> division truncates; both operands of the rounding quotient are non-negative.\<close>

function divideRoundHalfUp :: "int \<Rightarrow> int \<Rightarrow> (money_error, int) result" where
  "divideRoundHalfUp num den =
     (if den = 0 then Inl DivisionByZero
      else if den < 0 then divideRoundHalfUp (- num) (- den)
      else let negative = num < 0;
               magnitude = (if negative then - num else num);
               rounded = (magnitude * 2 + den) div (den * 2)
           in Inr (if negative then - rounded else rounded))"
  by pat_completeness auto
termination
  by (relation "measure (\<lambda>(num, den). if den < 0 then 1 else 0)") auto

declare divideRoundHalfUp.simps [simp del]

text \<open>The reference: the integer nearest to the quotient, halves away from zero.\<close>

definition round_half_away :: "int \<Rightarrow> int \<Rightarrow> int" where
  "round_half_away n d = sgn n * ((2 * \<bar>n\<bar> + d) div (2 * d))"

lemma divideRoundHalfUp_pos:
  "0 < d \<Longrightarrow> divideRoundHalfUp n d = Inr (round_half_away n d)"
  by (subst divideRoundHalfUp.simps)
     (auto simp: round_half_away_def Let_def sgn_if mult.commute div_pos_pos_trivial)

lemma divideRoundHalfUp_neg:
  "d < 0 \<Longrightarrow> divideRoundHalfUp n d = Inr (round_half_away (- n) (- d))"
  by (subst divideRoundHalfUp.simps) (simp add: divideRoundHalfUp_pos)

lemma round_half_away_nonneg_bounds:
  assumes "0 \<le> n" "0 < d"
  shows "2 * round_half_away n d * d \<le> 2 * n + d" "2 * n < 2 * round_half_away n d * d + d"
proof -
  let ?q = "(2 * n + d) div (2 * d)"
  have q: "round_half_away n d = ?q" using assms by (cases "n = 0") (auto simp: round_half_away_def)
  have "2 * d * ?q + (2 * n + d) mod (2 * d) = 2 * n + d" by (rule mult_div_mod_eq)
  moreover have "0 \<le> (2 * n + d) mod (2 * d)" "(2 * n + d) mod (2 * d) < 2 * d"
    using assms(2) by simp_all
  ultimately show "2 * round_half_away n d * d \<le> 2 * n + d" "2 * n < 2 * round_half_away n d * d + d"
    unfolding q by (simp_all add: algebra_simps)
qed

lemma round_half_away_minus: "round_half_away (- n) d = - round_half_away n d"
  by (simp add: round_half_away_def sgn_minus)

lemma round_half_away_close:
  assumes "0 < d"
  shows "2 * \<bar>round_half_away n d * d - n\<bar> \<le> d"
proof -
  have *: "2 * \<bar>round_half_away m d * d - m\<bar> \<le> d" if "0 \<le> m" for m
    using round_half_away_nonneg_bounds[OF that assms] by (auto simp: abs_if)
  show ?thesis
    using *[of n] *[of "- n"] by (cases "0 \<le> n") (simp_all add: round_half_away_minus abs_minus_commute)
qed

lemma round_half_away_exact: "0 < d \<Longrightarrow> round_half_away (m * d) d = m"
proof (rule ccontr)
  assume d: "0 < d" and ne: "round_half_away (m * d) d \<noteq> m"
  let ?e = "\<bar>round_half_away (m * d) d - m\<bar>"
  have "2 * (?e * d) \<le> d"
    using round_half_away_close[OF d, of "m * d"] d by (simp add: abs_mult flip: left_diff_distrib)
  moreover have "1 * d \<le> ?e * d" using ne d by (intro mult_right_mono) auto
  ultimately show False using d by linarith
qed

lemma round_half_away_tie:
  assumes "0 < d" "2 * \<bar>round_half_away n d * d - n\<bar> = d"
  shows "\<bar>n\<bar> < \<bar>round_half_away n d * d\<bar>"
proof -
  have *: "\<bar>m\<bar> < \<bar>round_half_away m d * d\<bar>" if "0 \<le> m" "2 * \<bar>round_half_away m d * d - m\<bar> = d" for m
  proof -
    have q: "0 \<le> round_half_away m d" using that(1) assms(1)
      by (simp add: round_half_away_def pos_imp_zdiv_nonneg_iff sgn_if)
    obtain x where x: "x = round_half_away m d * d" by blast
    have "0 \<le> x" unfolding x using q assms(1) by simp
    moreover have "2 * m < 2 * x + d"
      using round_half_away_nonneg_bounds(2)[OF that(1) assms(1)] unfolding x by (simp add: mult.assoc)
    moreover have "2 * \<bar>x - m\<bar> = d" using that(2) unfolding x .
    ultimately show ?thesis using that(1) assms(1) unfolding x[symmetric] by (auto simp: abs_if split: if_splits)
  qed
  show ?thesis
    using *[of n] *[of "- n"] assms(2)
    by (cases "0 \<le> n") (simp_all add: round_half_away_minus abs_minus_commute)
qed

lemma round_half_away_mono_nonneg: "0 < d \<Longrightarrow> 0 \<le> n \<Longrightarrow> 0 \<le> round_half_away n d"
  by (simp add: round_half_away_def pos_imp_zdiv_nonneg_iff sgn_if)

lemma round_half_away_mono:
  assumes "0 < d" "m \<le> n"
  shows "round_half_away m d \<le> round_half_away n d"
proof -
  have *: "round_half_away a d \<le> round_half_away b d" if "0 \<le> a" "a \<le> b" for a b
    using that assms(1) by (cases "a = 0") (auto simp: round_half_away_def zdiv_mono1 sgn_if pos_imp_zdiv_nonneg_iff)
  have nn: "0 \<le> round_half_away a d" if "0 \<le> a" for a
    using that assms(1) by (rule round_half_away_mono_nonneg[rotated])
  show ?thesis
  proof (cases "0 \<le> m")
    case True
    with assms(2) show ?thesis by (intro *)
  next
    case False
    then have m: "0 \<le> - m" by simp
    show ?thesis
    proof (cases "0 \<le> n")
      case True
      with nn[OF m] nn[OF True] show ?thesis by (simp add: round_half_away_minus)
    next
      case False
      with *[of "- n" "- m"] assms(2) show ?thesis by (simp add: round_half_away_minus)
    qed
  qed
qed

section \<open>Arithmetic\<close>

definition addMinor :: "jsnum list \<Rightarrow> (money_error, int) result" where
  "addMinor amounts =
     rbind (rmapM (\<lambda>a. assertMinor a ''amount'') amounts) (\<lambda>vs. toSafeNumber (sum_list vs) ''sum'')"

definition subtractMinor :: "jsnum \<Rightarrow> jsnum \<Rightarrow> (money_error, int) result" where
  "subtractMinor a b =
     rbind (assertMinor a ''amount'') (\<lambda>x.
     rbind (assertMinor b ''amount'') (\<lambda>y. toSafeNumber (x - y) ''difference''))"

definition negateMinor :: "jsnum \<Rightarrow> (money_error, int) result" where
  "negateMinor a = rbind (assertMinor a ''amount'') (\<lambda>x. Inr (- x))"

definition basis_points_scale :: int where
  "basis_points_scale = 10000"

definition applyBasisPoints :: "jsnum \<Rightarrow> jsnum \<Rightarrow> (money_error, int) result" where
  "applyBasisPoints amount rateBp =
     rbind (assertMinor amount ''amount'') (\<lambda>a.
     rbind (assertBasisPoints rateBp ''rate'') (\<lambda>r.
     rbind (divideRoundHalfUp (a * r) basis_points_scale) (\<lambda>q.
     toSafeNumber q ''rate application'')))"

definition isZero :: "jsnum \<Rightarrow> (money_error, bool) result" where
  "isZero amount = rbind (assertMinor amount ''amount'') (\<lambda>a. Inr (a = 0))"

definition isPositive :: "jsnum \<Rightarrow> (money_error, bool) result" where
  "isPositive amount = rbind (assertMinor amount ''amount'') (\<lambda>a. Inr (a > 0))"

definition maxMinor :: "jsnum \<Rightarrow> jsnum \<Rightarrow> (money_error, int) result" where
  "maxMinor a b =
     rbind (assertMinor a ''amount'') (\<lambda>x.
     rbind (assertMinor b ''amount'') (\<lambda>y. Inr (if x \<ge> y then x else y)))"

definition minMinor :: "jsnum \<Rightarrow> jsnum \<Rightarrow> (money_error, int) result" where
  "minMinor a b =
     rbind (assertMinor a ''amount'') (\<lambda>x.
     rbind (assertMinor b ''amount'') (\<lambda>y. Inr (if x \<le> y then x else y)))"

lemma assertMinor_safe [simp]: "safe a \<Longrightarrow> assertMinor (JInt a) l = Inr a"
  by simp

lemma rmapM_assertMinor:
  "rmapM (\<lambda>a. assertMinor a l) xs = Inr vs \<longleftrightarrow> xs = map JInt vs \<and> (\<forall>v \<in> set vs. safe v)"
  unfolding rmapM_Inr_iff
  by (induction vs arbitrary: xs) (auto simp: list_all2_Cons2 assertMinor_eq_Inr)

lemma addMinor_eq_Inr:
  "addMinor xs = Inr s \<longleftrightarrow> (\<exists>vs. xs = map JInt vs \<and> (\<forall>v \<in> set vs. safe v) \<and> s = sum_list vs \<and> safe s)"
  by (auto simp: addMinor_def rbind_eq_Inr rmapM_assertMinor split: if_splits)

lemma applyBasisPoints_eq:
  assumes "safe a" "0 \<le> r"
  shows "applyBasisPoints (JInt a) (JInt r) =
    (let q = round_half_away (a * r) 10000 in
     if safe q then Inr q else Inl (Overflows ''rate application''))"
  using assms by (simp add: applyBasisPoints_def divideRoundHalfUp_pos basis_points_scale_def Let_def toSafeNumber_if)

lemma applyBasisPoints_eq_Inr:
  "applyBasisPoints x y = Inr q \<longleftrightarrow>
     (\<exists>a r. x = JInt a \<and> y = JInt r \<and> safe a \<and> 0 \<le> r \<and> q = round_half_away (a * r) 10000 \<and> safe q)"
  by (auto simp: applyBasisPoints_def rbind_eq_Inr assertMinor_eq_Inr assertBasisPoints_eq_Inr
      divideRoundHalfUp_pos basis_points_scale_def split: if_splits)

section \<open>Proportional allocation\<close>

text \<open>
  A weight is a finite number or not (\<open>Number.isFinite\<close>). A finite double is a rational; the
  rounding of the double product \<open>w * 1_000_000\<close> itself is not modelled (there is none when
  the weight is a whole number below \<open>2 ^ 33\<close>). The sums below are of values in the safe
  range (\<open>allocate_safe\<close>), where double arithmetic is exact.
\<close>

datatype weight = Finite rat | NonFinite

fun weight_bad :: "weight \<Rightarrow> bool" where
  "weight_bad NonFinite = True"
| "weight_bad (Finite w) = (w < 0)"

fun weight_val :: "weight \<Rightarrow> rat" where
  "weight_val (Finite w) = w"
| "weight_val NonFinite = 0"

definition scale_weight :: "weight \<Rightarrow> int" where
  "scale_weight w = \<lfloor>weight_val w * 1000000 + 1 / 2\<rfloor>"

text \<open>\<open>BigInt\<close> division by a positive divisor.\<close>

definition trunc_div :: "int \<Rightarrow> int \<Rightarrow> int" where
  "trunc_div a b = (if 0 \<le> a then a div b else - ((- a) div b))"

text \<open>The remainder loop. \<open>step\<close> is the sign of the remainder, which no iteration changes.\<close>

function alloc_loop :: "int \<Rightarrow> nat \<Rightarrow> int list \<Rightarrow> int list" where
  "alloc_loop remainder i res =
     (if remainder = 0 then res
      else let step = (if 0 \<le> remainder then 1 else - 1)
           in alloc_loop (remainder - step) ((i + 1) mod length res) (res[i := res ! i + step]))"
  by pat_completeness auto
termination
  by (relation "measure (\<lambda>(remainder, i, res). nat \<bar>remainder\<bar>)") (auto simp: Let_def)

declare alloc_loop.simps [simp del]

definition allocate_base :: "int \<Rightarrow> int list \<Rightarrow> int list" where
  "allocate_base amount scaled =
     (let total = sum_list scaled
      in map (\<lambda>w. trunc_div (amount * w) (if total = 0 then 1 else total)) scaled)"

definition allocate :: "jsnum \<Rightarrow> weight list \<Rightarrow> (money_error, int list) result" where
  "allocate amount weights =
     rbind (assertMinor amount ''amount'') (\<lambda>a.
     if weights = [] then Inl NoWeights
     else if list_ex weight_bad weights then Inl BadWeight
     else if sum_list (map weight_val weights) = 0
     then Inr (map (\<lambda>i. if i = 0 then a else 0) [0..<length weights])
     else rbind (rmapM (\<lambda>q. toSafeNumber q ''allocation'') (allocate_base a (map scale_weight weights))) (\<lambda>base.
       Inr (alloc_loop (a - sum_list base) 0 base)))"

lemma alloc_loop_0 [simp]: "alloc_loop 0 i res = res"
  by (simp add: alloc_loop.simps)

lemma alloc_loop_length [simp]: "length (alloc_loop r i res) = length res"
proof (induction r i res rule: alloc_loop.induct)
  case (1 r i res)
  then show ?case by (subst alloc_loop.simps) (simp add: Let_def)
qed

lemma alloc_loop_sum:
  "i < length res \<Longrightarrow> sum_list (alloc_loop r i res) = sum_list res + r"
proof (induction r i res rule: alloc_loop.induct)
  case (1 r i res)
  show ?case
  proof (cases "r = 0")
    case False
    let ?step = "if 0 \<le> r then 1 else - 1 :: int"
    have "0 < length res" using "1.prems" by linarith
    then have "(i + 1) mod length res < length (res[i := res ! i + ?step])"
      by (simp add: mod_less_divisor)
    from "1.IH"[OF False refl this]
    show ?thesis
      using False "1.prems" by (subst alloc_loop.simps) (simp add: Let_def sum_list_replace)
  qed simp
qed

text \<open>
  While the remainder is at most the number of slots left, one pass is enough: each slot
  from \<open>i\<close> on gets at most one unit.
\<close>

lemma alloc_loop_one_pass:
  "\<lbrakk>i + nat \<bar>r\<bar> \<le> length res; j < length res\<rbrakk> \<Longrightarrow>
     alloc_loop r i res ! j = res ! j + (if i \<le> j \<and> j < i + nat \<bar>r\<bar> then sgn r else 0)"
proof (induction r i res rule: alloc_loop.induct)
  case (1 r i res)
  show ?case
  proof (cases "r = 0")
    case False
    let ?step = "if 0 \<le> r then 1 else - 1 :: int"
    let ?res = "res[i := res ! i + ?step]"
    have step: "nat \<bar>r - ?step\<bar> + 1 = nat \<bar>r\<bar>" using False by auto
    have unfold: "alloc_loop r i res = alloc_loop (r - ?step) ((i + 1) mod length res) ?res"
      using False by (subst alloc_loop.simps) (simp add: Let_def)
    show ?thesis
    proof (cases "i + 1 = length res")
      case True
      with step "1.prems" have "r - ?step = 0" by linarith
      moreover have "sgn r = ?step" "nat \<bar>r\<bar> = 1"
        using calculation False by (auto split: if_splits)
      ultimately show ?thesis
        using True "1.prems" unfolding unfold by (auto simp: nth_list_update)
    next
      case neq: False
      with step "1.prems" have i: "i + 1 < length res" by linarith
      then have m: "(i + 1) mod length res = i + 1" by simp
      have "(i + 1) mod length res + nat \<bar>r - ?step\<bar> \<le> length ?res"
        unfolding m using step "1.prems"(1) by simp
      then have "alloc_loop (r - ?step) ((i + 1) mod length res) ?res ! j =
        ?res ! j + (if i + 1 \<le> j \<and> j < i + 1 + nat \<bar>r - ?step\<bar> then sgn (r - ?step) else 0)"
        using "1.IH"[OF False refl] "1.prems"(2) by (simp only: m length_list_update)
      then show ?thesis
        unfolding unfold using step i "1.prems"
        by (auto simp: nth_list_update sgn_if split: if_splits)
    qed
  qed simp
qed

lemma scale_weight_nonneg: "\<not> weight_bad w \<Longrightarrow> 0 \<le> scale_weight w"
  by (cases w) (auto simp: scale_weight_def)

lemma trunc_div_minus: "0 < d \<Longrightarrow> trunc_div (- a) d = - trunc_div a d"
  by (auto simp: trunc_div_def)

lemma trunc_div_abs_le: "\<lbrakk>0 \<le> w; w \<le> t; 0 < t\<rbrakk> \<Longrightarrow> \<bar>trunc_div (a * w) t\<bar> \<le> \<bar>a\<bar>"
proof -
  assume w: "0 \<le> w" "w \<le> t" "0 < t"
  have nn: "0 \<le> (b * w) div t \<and> (b * w) div t \<le> b" if "0 \<le> b" for b
  proof
    show "0 \<le> (b * w) div t" using that w by (simp add: pos_imp_zdiv_nonneg_iff)
    have "b * w \<le> b * t" using that w by (simp add: mult_left_mono)
    then have "(b * w) div t \<le> (b * t) div t" using w(3) by (rule zdiv_mono1)
    then show "(b * w) div t \<le> b" using w by simp
  qed
  show ?thesis
  proof (cases "0 \<le> a")
    case True
    with nn[OF True] w show ?thesis by (simp add: trunc_div_def)
  next
    case False
    then have "a * w \<le> 0" using w by (simp add: mult_nonpos_nonneg)
    then have "trunc_div (a * w) t = - ((- (a * w)) div t)" by (auto simp: trunc_div_def)
    with nn[of "- a"] False show ?thesis by simp
  qed
qed

lemma trunc_div_error: "0 < t \<Longrightarrow> \<bar>trunc_div x t * t - x\<bar> < t"
proof -
  assume t: "0 < t"
  have "\<bar>y div t * t - y\<bar> < t" for y
    using t pos_mod_sign[OF t, of y] pos_mod_bound[OF t, of y]
    by (simp add: minus_mod_eq_div_mult [symmetric])
  from this[of x] this[of "- x"] show ?thesis by (auto simp: trunc_div_def abs_minus_commute)
qed

lemma trunc_div_sgn: "0 < t \<Longrightarrow> (0 \<le> x \<longrightarrow> trunc_div x t * t \<le> x) \<and> (x \<le> 0 \<longrightarrow> x \<le> trunc_div x t * t)"
proof -
  assume t: "0 < t"
  have "y div t * t \<le> y" for y
    using pos_mod_sign[OF t, of y] by (simp add: minus_mod_eq_div_mult [symmetric])
  from this[of x] this[of "- x"] show ?thesis by (auto simp: trunc_div_def)
qed

lemma allocate_base_total:
  fixes a :: int
  assumes w: "\<forall>w \<in> set ws. 0 \<le> w" and T: "0 < sum_list ws"
  defines "b \<equiv> allocate_base a ws"
  shows "length b = length ws" "\<forall>q \<in> set b. \<bar>q\<bar> \<le> \<bar>a\<bar>"
    "nat \<bar>a - sum_list b\<bar> \<le> length b" "0 < a - sum_list b \<longrightarrow> 0 < a" "a - sum_list b < 0 \<longrightarrow> a < 0"
proof -
  let ?t = "sum_list ws" and ?e = "\<lambda>w. a * w - trunc_div (a * w) (sum_list ws) * sum_list ws"
  have b: "b = map (\<lambda>w. trunc_div (a * w) ?t) ws"
    using T by (simp add: b_def allocate_base_def Let_def)
  then show "length b = length ws" by simp
  have le: "w \<le> ?t" if "w \<in> set ws" for w
    using that w by (simp add: member_le_sum_list)
  show "\<forall>q \<in> set b. \<bar>q\<bar> \<le> \<bar>a\<bar>"
    using b w le T trunc_div_abs_le by auto
  have sum: "(a - sum_list b) * ?t = (\<Sum>w\<leftarrow>ws. ?e w)"
    unfolding b by (simp add: sum_list_subtractf sum_list_const_mult sum_list_mult_const algebra_simps)
  have "\<bar>\<Sum>w\<leftarrow>xs. ?e w\<bar> \<le> int (length xs) * ?t" for xs
  proof (induction xs)
    case (Cons x xs)
    have "\<bar>?e x\<bar> < ?t" using trunc_div_error[OF T, of "a * x"] by (simp add: abs_minus_commute)
    with Cons show ?case by (simp add: algebra_simps)
  qed simp
  then have "\<bar>a - sum_list b\<bar> * ?t \<le> int (length ws) * ?t"
    using T sum by (metis abs_mult abs_of_pos)
  then show "nat \<bar>a - sum_list b\<bar> \<le> length b"
    using T b by simp
  have nonneg: "0 \<le> (\<Sum>w\<leftarrow>ws. ?e w)" if "0 \<le> a"
    using that w trunc_div_sgn[OF T] by (intro sum_list_nonneg) (auto simp: mult_nonneg_nonneg)
  have nonpos: "0 \<le> (\<Sum>w\<leftarrow>ws. - ?e w)" if "a \<le> 0"
    using that w trunc_div_sgn[OF T] by (intro sum_list_nonneg) (auto simp: mult_nonpos_nonneg)
  have neg: "(\<Sum>w\<leftarrow>ws. - ?e w) = - (\<Sum>w\<leftarrow>ws. ?e w)"
    by (simp add: uminus_sum_list_map o_def)
  show "0 < a - sum_list b \<longrightarrow> 0 < a"
  proof
    assume "0 < a - sum_list b"
    then have "0 < (a - sum_list b) * ?t" using T by simp
    with sum nonpos neg show "0 < a" by linarith
  qed
  show "a - sum_list b < 0 \<longrightarrow> a < 0"
  proof
    assume "a - sum_list b < 0"
    then have "(a - sum_list b) * ?t < 0" using T by (simp add: mult_neg_pos)
    with sum nonneg show "a < 0" by linarith
  qed
qed

lemma rmapM_toSafeNumber: "rmapM (\<lambda>q. toSafeNumber q l) xs = Inr ys \<longleftrightarrow> ys = xs \<and> (\<forall>x \<in> set xs. safe x)"
proof (induction xs arbitrary: ys)
  case (Cons x xs)
  then show ?case by (auto simp: rbind_eq_Inr split: if_splits)
qed auto

lemma sum_first_slot: "0 < n \<Longrightarrow> sum_list (map (\<lambda>i. if i = 0 then a else 0) [0..<n]) = (a::int)"
proof (induction n)
  case (Suc n)
  then show ?case by (cases "n = 0") simp_all
qed simp

lemma allocate_spread:
  assumes "safe a" "ws \<noteq> []" "\<forall>w \<in> set ws. \<not> weight_bad w" "sum_list (map weight_val ws) \<noteq> 0"
  shows "allocate (JInt a) ws =
    Inr (alloc_loop (a - sum_list (allocate_base a (map scale_weight ws))) 0 (allocate_base a (map scale_weight ws)))"
proof -
  let ?ws = "map scale_weight ws" and ?b = "allocate_base a (map scale_weight ws)"
  have nn: "\<forall>w \<in> set ?ws. 0 \<le> w" using assms(3) scale_weight_nonneg by auto
  have "\<forall>q \<in> set ?b. safe q"
  proof (cases "sum_list ?ws = 0")
    case True
    then have "\<forall>w \<in> set ?ws. w = 0" using nn sum_list_nonneg_eq_0_iff[of ?ws] by auto
    then show ?thesis by (auto simp: allocate_base_def Let_def trunc_div_def)
  next
    case False
    then have "0 < sum_list ?ws" using nn by (metis order_le_less sum_list_nonneg_int)
    then have "\<forall>q \<in> set ?b. \<bar>q\<bar> \<le> \<bar>a\<bar>" by (rule allocate_base_total(2)[OF nn])
    then show ?thesis using assms(1) by (auto simp: safe_def abs_le_iff abs_if split: if_splits)
  qed
  then have "rmapM (\<lambda>q. toSafeNumber q ''allocation'') ?b = Inr ?b" by (simp add: rmapM_toSafeNumber)
  then show ?thesis
    using assms by (simp add: allocate_def list_ex_iff)
qed

text \<open>On valid input the parts sum to the amount: nothing is lost or invented.\<close>

lemma allocate_exact:
  assumes "safe a" "ws \<noteq> []" "\<forall>w \<in> set ws. \<not> weight_bad w"
  shows "\<exists>parts. allocate (JInt a) ws = Inr parts \<and> length parts = length ws \<and> sum_list parts = a"
proof (cases "sum_list (map weight_val ws) = 0")
  case True
  with assms show ?thesis by (simp add: allocate_def list_ex_iff sum_first_slot)
next
  case False
  have "length (allocate_base a (map scale_weight ws)) = length ws"
    by (simp add: allocate_base_def Let_def)
  with allocate_spread[OF assms False] assms(2) show ?thesis
    by (simp add: alloc_loop_sum)
qed

text \<open>Each part is within one unit of its exact share of the scaled weights.\<close>

lemma allocate_proportional:
  assumes "safe a" "\<forall>w \<in> set ws. \<not> weight_bad w" "sum_list (map weight_val ws) \<noteq> 0"
    and T: "0 < sum_list (map scale_weight ws)" and j: "j < length ws"
    and parts: "allocate (JInt a) ws = Inr parts"
  shows "\<bar>parts ! j * sum_list (map scale_weight ws) - a * scale_weight (ws ! j)\<bar> \<le> sum_list (map scale_weight ws)"
proof -
  let ?s = "map scale_weight ws" and ?b = "allocate_base a (map scale_weight ws)" and ?t = "sum_list (map scale_weight ws)"
  have nn: "\<forall>w \<in> set ?s. 0 \<le> w" using assms(2) scale_weight_nonneg by auto
  note B = allocate_base_total[OF nn T, of a]
  have "ws \<noteq> []" using j by auto
  with parts allocate_spread[OF assms(1) _ assms(2,3)] have P: "parts = alloc_loop (a - sum_list ?b) 0 ?b"
    by simp
  let ?r = "a - sum_list ?b" and ?x = "a * scale_weight (ws ! j)"
  have base: "?b ! j = trunc_div ?x ?t"
    using T j by (simp add: allocate_base_def Let_def)
  have pj: "parts ! j = trunc_div ?x ?t + (if j < nat \<bar>?r\<bar> then sgn ?r else 0)"
    unfolding P using alloc_loop_one_pass[of 0 ?r ?b j] B(1,3) j base by simp
  have w0: "0 \<le> scale_weight (ws ! j)" using nn j by (simp add: all_set_conv_all_nth)
  have "\<bar>trunc_div ?x ?t * ?t - ?x\<bar> < ?t" by (rule trunc_div_error[OF T])
  moreover have "0 \<le> a \<longrightarrow> trunc_div ?x ?t * ?t \<le> ?x" "a \<le> 0 \<longrightarrow> ?x \<le> trunc_div ?x ?t * ?t"
    using trunc_div_sgn[OF T, of ?x] w0 by (auto simp: mult_nonneg_nonneg mult_nonpos_nonneg)
  moreover have "0 < ?r \<longrightarrow> 0 < a" "?r < 0 \<longrightarrow> a < 0" by (fact B(4,5))+
  ultimately show ?thesis
    unfolding pj using T by (auto simp: sgn_if distrib_right abs_le_iff)
qed

section \<open>Decimal strings\<close>

text \<open>\<open>BigInt(whole) * 10^k + BigInt(fraction.padEnd(k, '0'))\<close> with its sign.\<close>

definition decimal_scaled :: "nat \<Rightarrow> bool \<Rightarrow> string \<Rightarrow> string \<Rightarrow> int" where
  "decimal_scaled k neg whole fraction =
     (let value = int (digits_val whole) * 10 ^ k + int (digits_val (pad_end k (CHR ''0'') fraction))
      in if neg then - value else value)"

definition formatMinor :: "jsnum \<Rightarrow> currency \<Rightarrow> (money_error, string) result" where
  "formatMinor amount cur =
     rbind (assertMinor amount ''amount'') (\<lambda>a.
     let exponent = minorUnitExponent cur;
         divisor = 10 ^ exponent;
         magnitude = \<bar>a\<bar>;
         major = magnitude div divisor;
         minor = magnitude mod divisor
     in Inr ((if a < 0 then ''-'' else []) @ show_nat (nat major) @ ''.'' @
             pad_start exponent (CHR ''0'') (show_nat (nat minor))))"

definition parseMinor :: "string \<Rightarrow> currency \<Rightarrow> (money_error, int) result" where
  "parseMinor input cur =
     (let exponent = minorUnitExponent cur;
          trimmed = filter (\<lambda>c. c \<noteq> CHR '','') (js_trim input)
      in case match_decimal trimmed of
           None \<Rightarrow> Inl (NotDecimal input)
         | Some (neg, whole, fraction) \<Rightarrow>
             (if length fraction > exponent then Inl (TooPrecise input)
              else toSafeNumber (decimal_scaled exponent neg whole fraction) ''parsed amount''))"

lemma decimal_text_no_comma:
  assumes "decimal_parts whole fraction"
  shows "filter (\<lambda>c. c \<noteq> CHR '','') (decimal_text neg whole fraction) = decimal_text neg whole fraction"
  using decimal_text_chars[OF assms] by (intro filter_True) fastforce

text \<open>A scaled magnitude written as integer part and \<open>k\<close> fraction digits reads back as itself.\<close>

lemma scaled_digits:
  assumes "0 \<le> (n::int)" "0 < k"
  defines "fraction \<equiv> pad_start k (CHR ''0'') (show_nat (nat (n mod 10 ^ k)))"
  shows "decimal_parts (show_nat (nat (n div 10 ^ k))) fraction" "length fraction = k"
    "int (digits_val (show_nat (nat (n div 10 ^ k)))) * 10 ^ k + int (digits_val fraction) = n"
proof -
  have "nat (n mod 10 ^ k) < 10 ^ k" by (simp add: nat_less_iff)
  then have "length (show_nat (nat (n mod 10 ^ k))) \<le> k" by (rule show_nat_length[OF _ assms(2)])
  then show "length fraction = k" unfolding fraction_def length_pad_start by (rule max_absorb1)
  show "decimal_parts (show_nat (nat (n div 10 ^ k))) fraction"
    by (simp add: decimal_parts_def fraction_def)
  show "int (digits_val (show_nat (nat (n div 10 ^ k)))) * 10 ^ k + int (digits_val fraction) = n"
    using assms(1) by (simp add: fraction_def pos_imp_zdiv_nonneg_iff div_mult_mod_eq)
qed

lemma parseMinor_text:
  assumes "decimal_parts whole fraction" "length fraction \<le> minorUnitExponent cur"
  shows "parseMinor (decimal_text neg whole fraction) cur =
    toSafeNumber (decimal_scaled (minorUnitExponent cur) neg whole fraction) ''parsed amount''"
  using assms by (simp add: parseMinor_def Let_def decimal_text_no_comma)

lemma formatMinor_total: "safe a \<Longrightarrow> \<exists>s. formatMinor (JInt a) cur = Inr s"
  by (simp add: formatMinor_def Let_def)

lemma parse_formatMinor:
  assumes "safe a" "formatMinor (JInt a) cur = Inr s"
  shows "parseMinor s cur = Inr a"
proof -
  let ?k = "minorUnitExponent cur" and ?m = "\<bar>a\<bar>"
  let ?w = "show_nat (nat (?m div 10 ^ ?k))" and ?f = "pad_start ?k (CHR ''0'') (show_nat (nat (?m mod 10 ^ ?k)))"
  have k: "0 < ?k" by simp
  have D: "decimal_parts ?w ?f" "length ?f = ?k" "int (digits_val ?w) * 10 ^ ?k + int (digits_val ?f) = ?m"
    using scaled_digits[OF abs_ge_zero k, of a] by blast+
  have "?f \<noteq> []" using D(2) k by (metis length_0_conv less_numeral_extra(3))
  then have "s = decimal_text (a < 0) ?w ?f"
    using assms by (simp add: formatMinor_def Let_def decimal_text_def unsigned_text_def)
  moreover have "decimal_scaled ?k (a < 0) ?w ?f = a"
    using D(2,3) by (simp add: decimal_scaled_def Let_def pad_end_def)
  ultimately show ?thesis
    using parseMinor_text[OF D(1) eq_imp_le[OF D(2)], of "a < 0"] assms(1) by (simp only: toSafeNumber_safe)
qed

section \<open>Basis points as text\<close>

text \<open>
  \<open>percent\<close> is the double \<open>rateBp / 100\<close>. For a rate below \<open>7 * 10 ^ 15\<close> it is whole
  exactly when the rate is a multiple of 100 and \<open>toFixed(2)\<close> gives back the two digits of
  the rate, which is what the model writes. The argument of \<open>parseBasisPoints\<close> is a string,
  or a number given here by its \<open>String(n)\<close>.
\<close>

definition formatBasisPoints :: "jsnum \<Rightarrow> (money_error, string) result" where
  "formatBasisPoints rateBp =
     rbind (assertBasisPoints rateBp ''rate'') (\<lambda>r.
     let whole = show_nat (nat (r div 100));
         fraction = strip_zeros (pad_start 2 (CHR ''0'') (show_nat (nat (r mod 100))))
     in Inr ((if r mod 100 = 0 then whole else whole @ ''.'' @ fraction) @ ''%''))"

datatype percent_input = PercentText string | PercentNumber string

fun replace_first :: "char \<Rightarrow> string \<Rightarrow> string" where
  "replace_first c [] = []"
| "replace_first c (x # xs) = (if x = c then xs else x # replace_first c xs)"

definition parseBasisPoints :: "percent_input \<Rightarrow> (money_error, jsnum) result" where
  "parseBasisPoints input =
     (let txt = (case input of PercentNumber s \<Rightarrow> s | PercentText s \<Rightarrow> replace_first (CHR ''%'') (js_trim s))
      in case match_unsigned txt of
           Some (whole, fraction) \<Rightarrow>
             (if length fraction \<le> 2
              then Inr (js_add (js_mul (js_of_int (int (digits_val whole))) (JInt 100))
                               (js_of_int (int (digits_val (pad_end 2 (CHR ''0'') fraction)))))
              else Inl (NotPercentage txt))
         | None \<Rightarrow> Inl (NotPercentage txt))"

lemma replace_first_append: "c \<notin> set s \<Longrightarrow> replace_first c (s @ c # t) = s @ t"
  by (induction s) auto

lemma unsigned_text_chars:
  assumes "decimal_parts whole fraction" "c \<in> set (unsigned_text whole fraction)"
  shows "is_digit c \<or> c = CHR ''.''"
  using assms by (auto simp: unsigned_text_def decimal_parts_def list_all_iff split: if_splits)

lemma percent_text_trim:
  assumes "decimal_parts whole fraction"
  shows "replace_first (CHR ''%'') (js_trim (unsigned_text whole fraction @ ''%'')) = unsigned_text whole fraction"
proof -
  have "js_trim (unsigned_text whole fraction @ ''%'') = unsigned_text whole fraction @ ''%''"
    using unsigned_text_hd[OF assms] by (intro js_trim_id) auto
  moreover have "CHR ''%'' \<notin> set (unsigned_text whole fraction)"
    using unsigned_text_chars[OF assms] by fastforce
  ultimately show ?thesis by (simp add: replace_first_append)
qed

lemma parseBasisPoints_text:
  assumes "decimal_parts whole fraction" "length fraction \<le> 2"
  shows "parseBasisPoints (PercentText (unsigned_text whole fraction @ ''%'')) =
    Inr (js_add (js_mul (js_of_int (int (digits_val whole))) (JInt 100))
                (js_of_int (int (digits_val (pad_end 2 (CHR ''0'') fraction)))))"
  using assms by (simp add: parseBasisPoints_def Let_def percent_text_trim)

lemma js_scale_100:
  assumes "0 \<le> a" "0 \<le> b" "b < 100" "safe (a * 100 + b)"
  shows "js_add (js_mul (js_of_int a) (JInt 100)) (js_of_int b) = JInt (a * 100 + b)"
proof -
  have "safe a" "safe b" "safe (a * 100)" using assms by (auto simp: safe_def max_safe_def)
  with assms(4) show ?thesis by (simp add: js_mul_def js_add_def)
qed

lemma parse_formatBasisPoints:
  assumes "0 \<le> r" "safe r" "formatBasisPoints (JInt r) = Inr s"
  shows "parseBasisPoints (PercentText s) = Inr (JInt r)"
proof -
  let ?w = "show_nat (nat (r div 100))" and ?p = "pad_start 2 (CHR ''0'') (show_nat (nat (r mod 100)))"
  define f where "f = (if r mod 100 = 0 then [] else strip_zeros ?p)"
  have D: "decimal_parts ?w ?p" "length ?p = 2" "int (digits_val ?w) * 100 + int (digits_val ?p) = r"
    using scaled_digits[OF assms(1), of 2] by auto
  have pad: "pad_end (length ?p) (CHR ''0'') (strip_zeros ?p) = ?p"
    by (rule pad_end_strip_zeros)
  have f: "decimal_parts ?w f" "length f \<le> 2" "digits_val (pad_end 2 (CHR ''0'') f) = digits_val ?p"
    using D(1,2) pad strip_zeros_digits[of ?p] strip_zeros_length[of ?p]
    by (auto simp: f_def decimal_parts_def pad_end_def)
  have "strip_zeros ?p \<noteq> []" if "r mod 100 \<noteq> 0"
  proof
    assume "strip_zeros ?p = []"
    with pad have "digits_val ?p = 0" by (metis append_Nil digits_val_zeros pad_end_def)
    then have "nat (r mod 100) = 0" by simp
    with that pos_mod_sign[of 100 r] show False by linarith
  qed
  then have "s = unsigned_text ?w f @ ''%''"
    using assms(1,3) by (auto simp: formatBasisPoints_def Let_def f_def unsigned_text_def split: if_splits)
  then have "parseBasisPoints (PercentText s) =
    Inr (js_add (js_mul (js_of_int (int (digits_val ?w))) (JInt 100)) (js_of_int (int (digits_val ?p))))"
    using parseBasisPoints_text[OF f(1,2)] f(3) by simp
  also have "\<dots> = Inr (JInt r)"
    using js_scale_100[of "int (digits_val ?w)" "int (digits_val ?p)"] D(3) assms(2)
    by (simp add: nat_less_iff)
  finally show ?thesis .
qed

section \<open>Codecs\<close>

interpretation minor_text: text_codec "\<lambda>a. formatMinor (JInt a) cur" "\<lambda>s. parseMinor s cur" safe for cur
  by unfold_locales (fact formatMinor_total, fact parse_formatMinor)

interpretation percent_text: text_codec "\<lambda>r. formatBasisPoints (JInt r)"
  "\<lambda>s. rbind (parseBasisPoints (PercentText s)) (\<lambda>n. case n of JInt r \<Rightarrow> Inr r | JOther \<Rightarrow> Inl (NotPercentage s))"
  "\<lambda>r. 0 \<le> r \<and> safe r"
  by unfold_locales (auto simp: parse_formatBasisPoints, simp add: formatBasisPoints_def Let_def)

section \<open>Properties\<close>

text \<open>\<open>divideRoundHalfUp\<close> returns for every non-zero denominator; the result is a nearest
  integer to the quotient, an exact half is rounded away from zero, and negating the numerator
  negates the result.\<close>

theorem divideRoundHalfUp_nearest:
  assumes "d \<noteq> 0"
  shows "\<exists>q. divideRoundHalfUp n d = Inr q \<and> 2 * \<bar>q * d - n\<bar> \<le> \<bar>d\<bar> \<and>
    (2 * \<bar>q * d - n\<bar> = \<bar>d\<bar> \<longrightarrow> \<bar>n\<bar> < \<bar>q * d\<bar>) \<and> divideRoundHalfUp (- n) d = Inr (- q)"
proof -
  have *: "2 * \<bar>round_half_away m e * e - m\<bar> \<le> \<bar>e\<bar> \<and>
      (2 * \<bar>round_half_away m e * e - m\<bar> = \<bar>e\<bar> \<longrightarrow> \<bar>m\<bar> < \<bar>round_half_away m e * e\<bar>)" if "0 < e" for m e
    using round_half_away_close[OF that, of m] round_half_away_tie[OF that, of m] that by auto
  show ?thesis
  proof (cases "0 < d")
    case True
    with *[OF True, of n] show ?thesis by (auto simp: divideRoundHalfUp_pos round_half_away_minus)
  next
    case False
    with assms have "0 < - d" by simp
    let ?q = "round_half_away (- n) (- d)"
    have flip: "?q * - d - - n = - (?q * d - n)" "?q * - d = - (?q * d)" by simp_all
    have "divideRoundHalfUp n d = Inr ?q" "divideRoundHalfUp (- n) d = Inr (- ?q)"
      using \<open>0 < - d\<close> divideRoundHalfUp_neg[of d] by (simp_all add: round_half_away_minus)
    with *[OF \<open>0 < - d\<close>, of "- n"] show ?thesis
      unfolding flip(1) unfolding flip(2) by (auto simp: abs_minus_commute simp del: mult_minus_left mult_minus_right)
  qed
qed

theorem divideRoundHalfUp_nearest_witness:
  "\<exists>q. divideRoundHalfUp (- 5) 2 = Inr q \<and> 2 * \<bar>q * 2 - (- 5)\<bar> \<le> 2 \<and> divideRoundHalfUp 5 2 = Inr (- q)"
  using divideRoundHalfUp_nearest[of 2 "- 5"] by auto

text \<open>\<open>applyBasisPoints\<close> with a rate of at most 100% never overflows: the result lies between
  zero and the amount, and differs from the exact product by at most half a minor unit.\<close>

theorem applyBasisPoints_bounds:
  assumes "safe a" "0 \<le> r" "r \<le> 10000"
  shows "\<exists>q. applyBasisPoints (JInt a) (JInt r) = Inr q \<and> min 0 a \<le> q \<and> q \<le> max 0 a \<and>
    2 * \<bar>q * 10000 - a * r\<bar> \<le> 10000"
proof -
  let ?q = "round_half_away (a * r) 10000"
  have b: "0 \<le> round_half_away (m * r) 10000 \<and> round_half_away (m * r) 10000 \<le> m" if "0 \<le> m" for m
  proof
    show "0 \<le> round_half_away (m * r) 10000"
      using that assms(2) by (simp add: round_half_away_mono_nonneg)
    have "m * r \<le> m * 10000" using that assms(3) by (rule mult_left_mono[rotated])
    then have "round_half_away (m * r) 10000 \<le> round_half_away (m * 10000) 10000"
      by (simp add: round_half_away_mono)
    also have "\<dots> = m" using round_half_away_exact[of 10000 m] by simp
    finally show "round_half_away (m * r) 10000 \<le> m" .
  qed
  have q: "min 0 a \<le> ?q \<and> ?q \<le> max 0 a"
  proof (cases "0 \<le> a")
    case True
    with b[of a] show ?thesis by simp
  next
    case False
    with b[of "- a"] show ?thesis by (simp add: round_half_away_minus min_def max_def)
  qed
  then have "safe ?q" using assms(1) by (auto simp: safe_def min_def max_def split: if_splits)
  with q show ?thesis
    using applyBasisPoints_eq[OF assms(1,2)] round_half_away_close[of 10000 "a * r"] by simp
qed

theorem applyBasisPoints_bounds_witness:
  "\<exists>q. applyBasisPoints (JInt 1005) (JInt 290) = Inr q \<and> 0 \<le> q \<and> q \<le> 1005"
  using applyBasisPoints_bounds[of 1005 290] by (auto simp: safe_def max_safe_def)


text \<open>C40: minor amounts survive text. Every amount in the safe range formats, and parsing the text
  with the same currency gives the amount back.\<close>

theorem minor_text_roundtrip:
  assumes "safe a"
  shows "\<exists>s. formatMinor (JInt a) cur = Inr s \<and> parseMinor s cur = Inr a"
  using assms by (rule minor_text.codec_roundtrip)

theorem minor_text_roundtrip_witness:
  "\<exists>s. formatMinor (JInt (- 1050)) USD = Inr s \<and> parseMinor s USD = Inr (- 1050)"
  using minor_text_roundtrip[of "- 1050" USD] by (simp add: safe_def max_safe_def)

text \<open>a basis-point rate survives being printed as a percentage and parsed again.\<close>

theorem percent_text_roundtrip:
  assumes "0 \<le> r" "safe r"
  shows "\<exists>s. formatBasisPoints (JInt r) = Inr s \<and> parseBasisPoints (PercentText s) = Inr (JInt r)"
  using percent_text.codec_total[of r] parse_formatBasisPoints[of r] assms by blast

theorem percent_text_roundtrip_witness:
  "\<exists>s. formatBasisPoints (JInt 825) = Inr s \<and> parseBasisPoints (PercentText s) = Inr (JInt 825)"
  using percent_text_roundtrip[of 825] by (simp add: safe_def max_safe_def)

text \<open>C39: \<open>allocate\<close> loses and invents nothing. For a safe amount and a non-empty list of
  non-negative finite weights it returns one part per weight, the parts sum to the amount
  exactly, and when the weights do not all vanish after scaling each part is within one minor
  unit of its exact share.\<close>

theorem allocate_conserves:
  assumes "safe a" "ws \<noteq> []" "\<forall>w \<in> set ws. \<not> weight_bad w"
  shows "\<exists>parts. allocate (JInt a) ws = Inr parts \<and> length parts = length ws \<and> sum_list parts = a \<and>
    (let t = sum_list (map scale_weight ws) in
       sum_list (map weight_val ws) \<noteq> 0 \<and> 0 < t \<longrightarrow>
       (\<forall>j < length ws. \<bar>parts ! j * t - a * scale_weight (ws ! j)\<bar> \<le> t))"
proof -
  obtain parts where P: "allocate (JInt a) ws = Inr parts" "length parts = length ws" "sum_list parts = a"
    using allocate_exact[OF assms] by blast
  then show ?thesis
    using allocate_proportional[OF assms(1,3) _ _ _ P(1)] by (auto simp: Let_def)
qed

theorem allocate_conserves_witness:
  "\<exists>parts. allocate (JInt 10) [Finite 1, Finite 2] = Inr parts \<and> length parts = 2 \<and> sum_list parts = 10"
  using allocate_conserves[of 10 "[Finite 1, Finite 2]"] by (auto simp: safe_def max_safe_def)

text \<open>the residue of an allocation goes to the first slots, not to the slots with the largest
  remainders: splitting 10 in the ratio 1 : 2 gives 4 and 6 although the second slot has the
  larger remainder, and a slot of weight zero can receive a unit.\<close>

theorem allocate_residue_first:
  "allocate (JInt 10) [Finite 1, Finite 2] = Inr [4, 6] \<and>
   allocate (JInt 10) [Finite 0, Finite 1, Finite 2] = Inr [1, 3, 6]"
proof -
  have w: "scale_weight (Finite 0) = 0" "scale_weight (Finite 1) = 1000000" "scale_weight (Finite 2) = 2000000"
    by (simp_all add: scale_weight_def floor_eq_iff)
  have "alloc_loop 1 0 [3, 6] = [4, 6]" "alloc_loop 1 0 [0, 3, 6] = [1, 3, 6]"
    by (simp_all add: alloc_loop.simps[of 1])
  then show ?thesis
    by (simp add: allocate_def allocate_base_def w trunc_div_def safe_def max_safe_def toSafeNumber_if Let_def)
qed

end
