(* ===== verification/Quantity.thy ===== *)
theory Quantity
  imports Money
begin

text \<open>
  \<open>packages/shared/src/money/quantity.ts\<close>: quantities as integer counts of ten-thousandths,
  their check, parser and formatter. \<open>quantityFrom\<close> takes a string or a number; the number
  branch multiplies in double arithmetic and has no range check.
\<close>

definition quantity_scale :: int where
  "quantity_scale = 10000"

definition quantity_decimals :: nat where
  "quantity_decimals = 4"

fun assertQuantity :: "jsnum \<Rightarrow> string \<Rightarrow> (money_error, int) result" where
  "assertQuantity JOther label = Inl (NotInteger label)"
| "assertQuantity (JInt v) label = (if safe v then Inr v else Inl (NotSafe label))"

lemma assertQuantity_eq_Inr: "assertQuantity x l = Inr a \<longleftrightarrow> x = JInt a \<and> safe a"
  by (cases x) auto

datatype quantity_input = QuantityText string | QuantityNumber jsnum

fun quantityFrom :: "quantity_input \<Rightarrow> (money_error, jsnum) result" where
  "quantityFrom (QuantityNumber n) =
     (case n of JOther \<Rightarrow> Inl FractionalNumber | JInt k \<Rightarrow> Inr (js_mul (JInt k) (JInt quantity_scale)))"
| "quantityFrom (QuantityText input) =
     (case match_decimal (js_trim input) of
        None \<Rightarrow> Inl (NotDecimal input)
      | Some (neg, whole, fraction) \<Rightarrow>
          (if length fraction > quantity_decimals then Inl (TooPrecise input)
           else let padded = pad_end quantity_decimals (CHR ''0'') fraction;
                    v = int (digits_val whole) * quantity_scale + int (digits_val padded);
                    signed = (if neg then - v else v)
                in if signed > max_safe \<or> signed < - max_safe then Inl (Overflows input)
                   else Inr (JInt signed)))"

definition formatQuantity :: "jsnum \<Rightarrow> (money_error, string) result" where
  "formatQuantity quantity =
     rbind (assertQuantity quantity ''quantity'') (\<lambda>q.
     let negative = q < 0;
         magnitude = \<bar>q\<bar>;
         whole = show_nat (nat (magnitude div quantity_scale));
         fraction = strip_zeros (pad_start quantity_decimals (CHR ''0'') (show_nat (nat (magnitude mod quantity_scale))))
     in Inr ((if negative then ''-'' else []) @ whole @ (if fraction \<noteq> [] then ''.'' @ fraction else [])))"

lemma quantity_const [simp]: "quantity_scale = 10000" "quantity_decimals = 4"
  by (simp_all add: quantity_scale_def quantity_decimals_def)

lemma quantityFrom_text:
  assumes "decimal_parts whole fraction" "length fraction \<le> 4"
    and "v = int (digits_val whole) * 10000 + int (digits_val (pad_end 4 (CHR ''0'') fraction))"
    and "safe v"
  shows "quantityFrom (QuantityText (decimal_text neg whole fraction)) = Inr (JInt (if neg then - v else v))"
  using assms by (auto simp: Let_def safe_def)

lemma quantityFrom_format:
  assumes "safe q" "formatQuantity (JInt q) = Inr s"
  shows "quantityFrom (QuantityText s) = Inr (JInt q)"
proof -
  let ?w = "show_nat (nat (\<bar>q\<bar> div 10000))" and ?p = "pad_start 4 (CHR ''0'') (show_nat (nat (\<bar>q\<bar> mod 10000)))"
  let ?f = "strip_zeros ?p"
  have D: "decimal_parts ?w ?p" "length ?p = 4" "int (digits_val ?w) * 10000 + int (digits_val ?p) = \<bar>q\<bar>"
    using scaled_digits[OF abs_ge_zero, of 4 q] by auto
  have pad: "pad_end 4 (CHR ''0'') ?f = ?p"
    using pad_end_strip_zeros[of ?p] unfolding D(2) .
  have "decimal_parts ?w ?f" "length ?f \<le> 4"
    using D(1,2) strip_zeros_digits[of ?p] strip_zeros_length[of ?p] by (auto simp: decimal_parts_def)
  then have "quantityFrom (QuantityText (decimal_text (q < 0) ?w ?f)) = Inr (JInt (if q < 0 then - \<bar>q\<bar> else \<bar>q\<bar>))"
    using D(3) assms(1) unfolding pad by (intro quantityFrom_text) (simp_all only: pad safe_abs)
  moreover have "s = decimal_text (q < 0) ?w ?f"
    using assms by (auto simp: formatQuantity_def Let_def decimal_text_def unsigned_text_def)
  ultimately show ?thesis by simp
qed

text \<open>The parser of the interface: the number a text denotes.\<close>

definition quantity_of_text :: "string \<Rightarrow> (money_error, int) result" where
  "quantity_of_text s =
     rbind (quantityFrom (QuantityText s)) (\<lambda>n. assertQuantity n ''quantity'')"

interpretation quantity_text: text_codec "\<lambda>q. formatQuantity (JInt q)" quantity_of_text safe
  by unfold_locales
    (simp add: formatQuantity_def Let_def,
     simp add: quantity_of_text_def quantityFrom_format del: quantityFrom.simps)

lemma quantityFrom_text_safe: "quantityFrom (QuantityText s) = Inr n \<Longrightarrow> \<exists>q. n = JInt q \<and> safe q"
  by (auto simp: Let_def safe_def split: option.splits if_splits prod.splits)

section \<open>Properties\<close>

text \<open>quantities survive text: every quantity in the safe range formats, the text parses back to
  the same quantity, and two different quantities never share a text.\<close>

theorem quantity_text_roundtrip:
  assumes "safe q" "safe r"
  shows "\<exists>s. formatQuantity (JInt q) = Inr s \<and> quantityFrom (QuantityText s) = Inr (JInt q) \<and>
    (formatQuantity (JInt r) = Inr s \<longleftrightarrow> r = q)"
proof -
  obtain s where s: "formatQuantity (JInt q) = Inr s" using quantity_text.codec_total[OF assms(1)] by blast
  moreover have "formatQuantity (JInt r) = Inr s \<longleftrightarrow> r = q"
    using quantity_text.codec_inj[OF assms] s by auto
  ultimately show ?thesis using quantityFrom_format[OF assms(1)] by blast
qed

theorem quantity_text_roundtrip_witness:
  "\<exists>s. formatQuantity (JInt 15000) = Inr s \<and> quantityFrom (QuantityText s) = Inr (JInt 15000) \<and>
    formatQuantity (JInt 15001) \<noteq> Inr s"
  using quantity_text_roundtrip[of 15000 15001] by (auto simp: safe_def max_safe_def)

text \<open>the two branches of \<open>quantityFrom\<close> do not share a range check: a text that parses always
  yields a safe integer, while a whole number above \<open>max_safe / 10000\<close> is multiplied in
  double arithmetic and yields a count outside the safe range, which \<open>assertQuantity\<close> refuses.\<close>

theorem quantityFrom_range:
  "(\<forall>s n. quantityFrom (QuantityText s) = Inr n \<longrightarrow> (\<exists>q. n = JInt q \<and> safe q)) \<and>
   quantityFrom (QuantityNumber (JInt 900719925475)) = Inr (JInt 9007199254750000) \<and>
   assertQuantity (JInt 9007199254750000) ''quantity'' = Inl (NotSafe ''quantity'')"
proof (intro conjI)
  have "round_double 9007199254750000 = 9007199254750000"
    by (simp add: round_double_def round_half_even_def ulp.simps Let_def)
  then show "quantityFrom (QuantityNumber (JInt 900719925475)) = Inr (JInt 9007199254750000)"
    by (simp add: js_mul_def js_of_int_def double_limit_def)
qed (use quantityFrom_text_safe in \<open>simp_all add: safe_def max_safe_def del: quantityFrom.simps\<close>)

theorem quantityFrom_range_witness:
  "quantityFrom (QuantityText ''1.5'') = Inr (JInt 15000) \<and> safe 15000"
proof -
  have e: "quantityFrom (QuantityText ''1.5'') = Inr (JInt 15000)" by code_simp
  then obtain q where "JInt 15000 = JInt q" "safe q" using quantityFrom_range by blast
  with e show ?thesis by simp
qed

end
