(* ===== verification/Calculation.thy ===== *)
theory Calculation
  imports Quantity
begin

text \<open>
  \<open>packages/shared/src/money/calculation.ts\<close>: line totals, subtotal, tax, card fee, total and
  balance of an invoice. The three roundings are those of the source. Sums are computed in
  \<open>BigInt\<close> and range-checked; the additions that form the pre-fee total, the total and the
  balance are additions of numbers (\<open>int_add\<close>, \<open>int_sub\<close>), with no check.
\<close>

datatype payment_method = CARD | WALLET | ACH | CHECK | MANUAL

definition payment_methods :: "payment_method list" where
  "payment_methods = [CARD, WALLET, ACH, CHECK, MANUAL]"

definition fee_bearing_methods :: "payment_method list" where
  "fee_bearing_methods = [CARD, WALLET]"

definition incursCardFee :: "payment_method \<Rightarrow> bool" where
  "incursCardFee m = (m \<in> set fee_bearing_methods)"

lemma incursCardFee_simps [simp]:
  "incursCardFee CARD" "incursCardFee WALLET" "\<not> incursCardFee ACH" "\<not> incursCardFee CHECK" "\<not> incursCardFee MANUAL"
  by (simp_all add: incursCardFee_def fee_bearing_methods_def)

record calc_line =
  cl_quantity :: jsnum
  cl_unitPriceMinor :: jsnum
  cl_taxExempt :: "bool option"

record calc_input =
  ci_lines :: "calc_line list"
  ci_taxRateBp :: jsnum
  ci_cardFeeRateBp :: jsnum
  ci_paymentMethod :: payment_method
  ci_settledMinor :: "jsnum option"

record calc_line_result =
  lr_lineTotalMinor :: int
  lr_taxExempt :: bool

record calc_result =
  cr_lines :: "calc_line_result list"
  cr_subtotalMinor :: int
  cr_taxableBaseMinor :: int
  cr_taxRateBpApplied :: int
  cr_taxMinor :: int
  cr_preFeeTotalMinor :: int
  cr_cardFeeRateBpApplied :: int
  cr_cardFeeMinor :: int
  cr_cardFeeApplied :: bool
  cr_totalMinor :: int
  cr_settledMinor :: int
  cr_balanceMinor :: int

definition calculateLineTotal :: "jsnum \<Rightarrow> jsnum \<Rightarrow> (money_error, int) result" where
  "calculateLineTotal quantity unitPriceMinor =
     rbind (assertQuantity quantity ''quantity'') (\<lambda>q.
     rbind (assertMinor unitPriceMinor ''unit price'') (\<lambda>p.
     rbind (divideRoundHalfUp (q * p) quantity_scale) (\<lambda>rounded.
     if rounded > max_safe \<or> rounded < - max_safe then Inl (RangeErr ''line total'') else Inr rounded)))"

definition sum_minor :: "int list \<Rightarrow> (money_error, int) result" where
  "sum_minor values =
     rbind (rmapM (\<lambda>v. assertMinor (JInt v) ''amount'') values) (\<lambda>vs.
     let total = sum_list vs in
     if total > max_safe \<or> total < - max_safe then Inl (RangeErr ''sum'') else Inr total)"

definition calculate_line :: "calc_line \<Rightarrow> (money_error, calc_line_result) result" where
  "calculate_line l =
     rbind (calculateLineTotal (cl_quantity l) (cl_unitPriceMinor l)) (\<lambda>t.
     Inr \<lparr> lr_lineTotalMinor = t, lr_taxExempt = (cl_taxExempt l = Some True) \<rparr>)"

definition calculate :: "calc_input \<Rightarrow> (money_error, calc_result) result" where
  "calculate input =
     rbind (assertBasisPoints (ci_taxRateBp input) ''tax rate'') (\<lambda>taxRateBp.
     rbind (assertBasisPoints (ci_cardFeeRateBp input) ''card fee rate'') (\<lambda>cardFeeRateBp.
     rbind (assertMinor (case ci_settledMinor input of None \<Rightarrow> JInt 0 | Some s \<Rightarrow> s) ''settled amount'') (\<lambda>settledMinor.
     rbind (rmapM calculate_line (ci_lines input)) (\<lambda>lines.
     rbind (sum_minor (map lr_lineTotalMinor lines)) (\<lambda>subtotalMinor.
     rbind (sum_minor (map lr_lineTotalMinor (filter (\<lambda>l. \<not> lr_taxExempt l) lines))) (\<lambda>taxableBaseMinor.
     rbind (applyBasisPoints (JInt taxableBaseMinor) (JInt taxRateBp)) (\<lambda>taxMinor.
     let preFeeTotalMinor = int_add subtotalMinor taxMinor;
         cardFeeApplied = incursCardFee (ci_paymentMethod input)
     in rbind (if cardFeeApplied then applyBasisPoints (JInt preFeeTotalMinor) (JInt cardFeeRateBp) else Inr 0) (\<lambda>cardFeeMinor.
     let totalMinor = int_add preFeeTotalMinor cardFeeMinor;
         balanceMinor = int_sub totalMinor settledMinor
     in Inr \<lparr> cr_lines = lines, cr_subtotalMinor = subtotalMinor, cr_taxableBaseMinor = taxableBaseMinor,
              cr_taxRateBpApplied = taxRateBp, cr_taxMinor = taxMinor, cr_preFeeTotalMinor = preFeeTotalMinor,
              cr_cardFeeRateBpApplied = cardFeeRateBp, cr_cardFeeMinor = cardFeeMinor,
              cr_cardFeeApplied = cardFeeApplied, cr_totalMinor = totalMinor,
              cr_settledMinor = settledMinor, cr_balanceMinor = balanceMinor \<rparr>))))))))"

definition quoteForMethod :: "calc_input \<Rightarrow> payment_method \<Rightarrow> (money_error, calc_result) result" where
  "quoteForMethod input method = calculate (input\<lparr> ci_paymentMethod := method \<rparr>)"

section \<open>What a successful calculation computed\<close>

definition line_exact :: "calc_line \<Rightarrow> int \<Rightarrow> bool" where
  "line_exact l t \<longleftrightarrow> (\<exists>q p. cl_quantity l = JInt q \<and> cl_unitPriceMinor l = JInt p \<and> safe q \<and> safe p \<and>
     t = round_half_away (q * p) 10000 \<and> safe t)"

lemma calculateLineTotal_eq:
  "\<lbrakk>safe q; safe p\<rbrakk> \<Longrightarrow> calculateLineTotal (JInt q) (JInt p) =
     (if safe (round_half_away (q * p) 10000) then Inr (round_half_away (q * p) 10000) else Inl (RangeErr ''line total''))"
  by (simp add: calculateLineTotal_def divideRoundHalfUp_pos range_check)

lemma calculate_line_eq_Inr:
  "calculate_line l = Inr r \<longleftrightarrow> line_exact l (lr_lineTotalMinor r) \<and> lr_taxExempt r = (cl_taxExempt l = Some True)"
  by (cases r) (auto simp: calculate_line_def line_exact_def calculateLineTotal_def rbind_eq_Inr
      assertQuantity_eq_Inr assertMinor_eq_Inr divideRoundHalfUp_pos range_check split: if_splits)

lemma sum_minor_eq_Inr:
  "sum_minor vs = Inr s \<longleftrightarrow> (\<forall>v \<in> set vs. safe v) \<and> s = sum_list vs \<and> safe s"
proof -
  have "rmapM (\<lambda>v. assertMinor (JInt v) l) vs = Inr ws \<longleftrightarrow> ws = vs \<and> (\<forall>v \<in> set vs. safe v)" for l ws
    by (induction vs arbitrary: ws) (auto simp: rbind_eq_Inr assertMinor_eq_Inr split: if_splits)
  then show ?thesis
    unfolding sum_minor_def rbind_eq_Inr Let_def by (auto simp: range_check split: if_splits)
qed

abbreviation card_fee :: "bool \<Rightarrow> int \<Rightarrow> int \<Rightarrow> int" where
  "card_fee applied amount rate \<equiv> (if applied then round_half_away (amount * rate) 10000 else 0)"

lemma calculate_eq_Inr:
  "calculate i = Inr r \<longleftrightarrow>
     ci_taxRateBp i = JInt (cr_taxRateBpApplied r) \<and> 0 \<le> cr_taxRateBpApplied r \<and>
     ci_cardFeeRateBp i = JInt (cr_cardFeeRateBpApplied r) \<and> 0 \<le> cr_cardFeeRateBpApplied r \<and>
     (case ci_settledMinor i of None \<Rightarrow> JInt 0 | Some s \<Rightarrow> s) = JInt (cr_settledMinor r) \<and> safe (cr_settledMinor r) \<and>
     rmapM calculate_line (ci_lines i) = Inr (cr_lines r) \<and>
     sum_minor (map lr_lineTotalMinor (cr_lines r)) = Inr (cr_subtotalMinor r) \<and>
     sum_minor (map lr_lineTotalMinor (filter (\<lambda>l. \<not> lr_taxExempt l) (cr_lines r))) = Inr (cr_taxableBaseMinor r) \<and>
     cr_taxMinor r = round_half_away (cr_taxableBaseMinor r * cr_taxRateBpApplied r) 10000 \<and> safe (cr_taxMinor r) \<and>
     cr_preFeeTotalMinor r = int_add (cr_subtotalMinor r) (cr_taxMinor r) \<and>
     cr_cardFeeApplied r = incursCardFee (ci_paymentMethod i) \<and>
     (cr_cardFeeApplied r \<longrightarrow> safe (cr_preFeeTotalMinor r)) \<and>
     cr_cardFeeMinor r = card_fee (cr_cardFeeApplied r) (cr_preFeeTotalMinor r) (cr_cardFeeRateBpApplied r) \<and>
     safe (cr_cardFeeMinor r) \<and>
     cr_totalMinor r = int_add (cr_preFeeTotalMinor r) (cr_cardFeeMinor r) \<and>
     cr_balanceMinor r = int_sub (cr_totalMinor r) (cr_settledMinor r)"
proof (cases r)
  case (fields ls sub base tr tax pre fr fee app tot paid bal)
  have base: "safe base" if "sum_minor xs = Inr base" for xs
    using that unfolding sum_minor_eq_Inr by blast
  show ?thesis
    unfolding fields calculate_def
    by (auto simp: rbind_eq_Inr assertBasisPoints_eq_Inr assertMinor_eq_Inr applyBasisPoints_eq_Inr Let_def base
        split: if_splits)
qed

lemma quoteForMethod_eq_Inr:
  "quoteForMethod i m = Inr r \<longleftrightarrow> calculate (i\<lparr> ci_paymentMethod := m \<rparr>) = Inr r"
  by (simp add: quoteForMethod_def)

section \<open>Bounds under which every sum is exact\<close>

lemma abs_sum_list_le: "(\<And>x. x \<in> set xs \<Longrightarrow> \<bar>x\<bar> \<le> (b::int)) \<Longrightarrow> 0 \<le> b \<Longrightarrow> \<bar>sum_list xs\<bar> \<le> b * int (length xs)"
proof (induction xs)
  case (Cons x xs)
  then have "\<bar>x\<bar> \<le> b" "\<bar>sum_list xs\<bar> \<le> b * int (length xs)" by simp_all
  then show ?case by (simp add: distrib_left)
qed simp

lemma abs_round_half_away_le:
  assumes "0 < d" "\<bar>n\<bar> \<le> b * d"
  shows "\<bar>round_half_away n d\<bar> \<le> b"
proof -
  have "round_half_away n d \<le> b"
    using round_half_away_mono[OF assms(1), of n "b * d"] assms by (simp add: round_half_away_exact abs_le_iff)
  moreover have "round_half_away (- n) d \<le> b"
    using round_half_away_mono[OF assms(1), of "- n" "b * d"] assms by (simp add: round_half_away_exact abs_le_iff)
  ultimately show ?thesis by (simp add: round_half_away_minus)
qed

definition line_small :: "calc_line \<Rightarrow> bool" where
  "line_small l \<longleftrightarrow> (case (cl_quantity l, cl_unitPriceMinor l) of
     (JInt q, JInt p) \<Rightarrow> \<bar>q\<bar> \<le> 10 ^ 8 \<and> \<bar>p\<bar> \<le> 10 ^ 9 | _ \<Rightarrow> False)"

lemma calculate_line_small:
  assumes "line_small l"
  shows "\<exists>r. calculate_line l = Inr r \<and> \<bar>lr_lineTotalMinor r\<bar> \<le> 10 ^ 13"
proof -
  obtain q p where l: "cl_quantity l = JInt q" "cl_unitPriceMinor l = JInt p" "\<bar>q\<bar> \<le> 10 ^ 8" "\<bar>p\<bar> \<le> 10 ^ 9"
    using assms by (auto simp: line_small_def split: jsnum.splits)
  have "\<bar>q * p\<bar> \<le> 10 ^ 8 * 10 ^ 9"
    unfolding abs_mult by (intro mult_mono l(3,4)) simp_all
  then have *: "\<bar>round_half_away (q * p) 10000\<bar> \<le> 10 ^ 13"
    by (intro abs_round_half_away_le) simp_all
  moreover have "safe q" "safe p" "safe (round_half_away (q * p) 10000)"
    using l(3,4) * by (auto simp: safe_def max_safe_def)
  ultimately show ?thesis by (simp add: calculate_line_def l(1,2) calculateLineTotal_eq)
qed

lemma sum_minor_small:
  assumes "\<And>v. v \<in> set vs \<Longrightarrow> \<bar>v\<bar> \<le> 10 ^ 13" "length vs \<le> 100"
  shows "sum_minor vs = Inr (sum_list vs) \<and> \<bar>sum_list vs\<bar> \<le> 10 ^ 15"
proof -
  have "\<bar>sum_list vs\<bar> \<le> 10 ^ 13 * int (length vs)"
    by (rule abs_sum_list_le) (simp_all add: assms(1)[simplified])
  also have "\<dots> \<le> 10 ^ 15" using assms(2) by simp
  finally have s: "\<bar>sum_list vs\<bar> \<le> 10 ^ 15" .
  moreover have "safe v" if "v \<in> set vs" for v
    using assms(1)[OF that] by (auto simp: safe_def max_safe_def)
  moreover have "safe (sum_list vs)" using s by (auto simp: safe_def max_safe_def)
  ultimately show ?thesis by (simp add: sum_minor_eq_Inr)
qed

lemma rate_small:
  assumes "\<bar>a\<bar> \<le> b" "0 \<le> r" "r \<le> 10000"
  shows "\<bar>round_half_away (a * r) 10000\<bar> \<le> b"
proof -
  have "\<bar>a * r\<bar> \<le> b * 10000"
    unfolding abs_mult using assms by (intro mult_mono) auto
  then show ?thesis by (intro abs_round_half_away_le) simp_all
qed

abbreviation plain_total :: "calc_result \<Rightarrow> int" where
  "plain_total r \<equiv> sum_list (map lr_lineTotalMinor (cr_lines r))"

section \<open>Properties\<close>



text \<open>the payment method changes only the fee. When the quote for a card succeeds, the quote for
  every method without a fee succeeds too, with the same lines, subtotal, tax and pre-fee total,
  no fee, and a total that is the pre-fee total; the card total is that total plus the fee, and
  the fee of a non-negative amount is not negative.\<close>

theorem quoteForMethod_fee_only:
  assumes "quoteForMethod i CARD = Inr c" "\<not> incursCardFee m"
  shows "\<exists>r. quoteForMethod i m = Inr r \<and> cr_lines r = cr_lines c \<and> cr_subtotalMinor r = cr_subtotalMinor c \<and>
    cr_taxMinor r = cr_taxMinor c \<and> cr_preFeeTotalMinor r = cr_preFeeTotalMinor c \<and>
    cr_cardFeeMinor r = 0 \<and> cr_totalMinor r = cr_preFeeTotalMinor c \<and>
    cr_totalMinor c = int_add (cr_totalMinor r) (cr_cardFeeMinor c) \<and>
    (0 \<le> cr_preFeeTotalMinor c \<longrightarrow> 0 \<le> cr_cardFeeMinor c)"
proof (cases c)
  case (fields ls sub base tr tax pre fr fee app tot paid bal)
  let ?r = "\<lparr> cr_lines = ls, cr_subtotalMinor = sub, cr_taxableBaseMinor = base, cr_taxRateBpApplied = tr,
    cr_taxMinor = tax, cr_preFeeTotalMinor = pre, cr_cardFeeRateBpApplied = fr, cr_cardFeeMinor = 0,
    cr_cardFeeApplied = False, cr_totalMinor = pre, cr_settledMinor = paid, cr_balanceMinor = int_sub pre paid \<rparr>"
  have c: "calculate (i\<lparr> ci_paymentMethod := CARD \<rparr>) = Inr c"
    using assms(1) by (simp add: quoteForMethod_def)
  then have "quoteForMethod i m = Inr ?r"
    using assms(2) unfolding quoteForMethod_eq_Inr calculate_eq_Inr fields by (auto simp: int_add_def)
  then show ?thesis
    using c unfolding calculate_eq_Inr fields
    by (intro exI[of _ ?r]) (auto simp: round_half_away_mono_nonneg)
qed

definition sample_input :: "calc_line list \<Rightarrow> payment_method \<Rightarrow> calc_input" where
  "sample_input ls m = \<lparr> ci_lines = ls, ci_taxRateBp = JInt 2000, ci_cardFeeRateBp = JInt 300,
     ci_paymentMethod = m, ci_settledMinor = None \<rparr>"

lemma sample_calculation:
  "calculate (sample_input [\<lparr> cl_quantity = JInt 10000, cl_unitPriceMinor = JInt 1000, cl_taxExempt = None \<rparr>] CARD) =
    Inr \<lparr> cr_lines = [\<lparr> lr_lineTotalMinor = 1000, lr_taxExempt = False \<rparr>], cr_subtotalMinor = 1000,
      cr_taxableBaseMinor = 1000, cr_taxRateBpApplied = 2000, cr_taxMinor = 200, cr_preFeeTotalMinor = 1200,
      cr_cardFeeRateBpApplied = 300, cr_cardFeeMinor = 36, cr_cardFeeApplied = True, cr_totalMinor = 1236,
      cr_settledMinor = 0, cr_balanceMinor = 1236 \<rparr>"
  unfolding calculate_eq_Inr
  by (simp add: sample_input_def calculate_line_def calculateLineTotal_eq sum_minor_eq_Inr safe_def max_safe_def
      round_half_away_def)

theorem quoteForMethod_fee_only_witness:
  "\<exists>r. quoteForMethod (sample_input [\<lparr> cl_quantity = JInt 10000, cl_unitPriceMinor = JInt 1000, cl_taxExempt = None \<rparr>] WALLET) ACH = Inr r \<and>
    cr_totalMinor r = 1200 \<and> cr_cardFeeMinor r = 0"
proof -
  let ?ls = "[\<lparr> cl_quantity = JInt 10000, cl_unitPriceMinor = JInt 1000, cl_taxExempt = None \<rparr>]"
  have "quoteForMethod (sample_input ?ls WALLET) CARD = calculate (sample_input ?ls CARD)"
    by (simp add: quoteForMethod_def sample_input_def)
  from quoteForMethod_fee_only[OF trans[OF this sample_calculation], of ACH] show ?thesis by auto
qed

text \<open>the total has no range check. With a subtotal at the top of the safe range and two units of
  tax, the ACH quote returns a total that is one unit short of subtotal plus tax, while the card
  quote of the same invoice throws.\<close>

theorem calculate_total_unchecked:
  "let ls = [\<lparr> cl_quantity = JInt 10000, cl_unitPriceMinor = JInt (max_safe - 10), cl_taxExempt = Some True \<rparr>,
             \<lparr> cl_quantity = JInt 10000, cl_unitPriceMinor = JInt 10, cl_taxExempt = None \<rparr>]
   in (\<exists>r. quoteForMethod (sample_input ls CARD) ACH = Inr r \<and> cr_subtotalMinor r = max_safe \<and> cr_taxMinor r = 2 \<and>
         cr_totalMinor r = cr_subtotalMinor r + cr_taxMinor r - 1) \<and>
      quoteForMethod (sample_input ls WALLET) CARD = Inl (NotSafe ''amount'')"
proof -
  let ?x = "\<lparr> cl_quantity = JInt 10000, cl_unitPriceMinor = JInt (max_safe - 10), cl_taxExempt = Some True \<rparr>"
  let ?y = "\<lparr> cl_quantity = JInt 10000, cl_unitPriceMinor = JInt 10, cl_taxExempt = None \<rparr>"
  let ?X = "\<lparr> lr_lineTotalMinor = max_safe - 10, lr_taxExempt = True \<rparr>"
  let ?Y = "\<lparr> lr_lineTotalMinor = 10, lr_taxExempt = False \<rparr>"
  have lines: "rmapM calculate_line [?x, ?y] = Inr [?X, ?Y]"
    by (simp add: calculate_line_def calculateLineTotal_eq safe_def max_safe_def round_half_away_def)
  have sums: "sum_minor [max_safe - 10, 10] = Inr max_safe" "sum_minor [10] = Inr 10"
    by (simp_all add: sum_minor_eq_Inr safe_def max_safe_def)
  have tax: "applyBasisPoints (JInt 10) (JInt 2000) = Inr 2"
    by (simp add: applyBasisPoints_eq_Inr safe_def max_safe_def round_half_away_def)
  have card: "applyBasisPoints (JInt (max_safe + 1)) (JInt 300) = Inl (NotSafe ''amount'')"
    by (simp add: applyBasisPoints_def safe_def max_safe_def)
  have "\<not> safe (max_safe + 1)" by (simp add: safe_def)
  have "round_double (max_safe + 1) = max_safe + 1"
    by (simp add: round_double_def round_half_even_def max_safe_def ulp.simps Let_def)
  then show ?thesis
    unfolding Let_def quoteForMethod_def calculate_def sample_input_def
    by (simp add: lines sums tax card int_add_rounds int_add_def[of "max_safe + 1"] int_sub_def del: rmapM.simps assertMinor.simps)
qed

end
