(* ===== verification/Gateway.thy ===== *)
theory Gateway
  imports Effect Calculation
begin

text \<open>
  \<open>packages/shared/src/ports/errors.ts\<close>: the classes of integration failures, the retry policy
  and the backoff. \<open>packages/shared/src/ports/payment-gateway.port.ts\<close>: the interface the
  payment service calls, as a record of operations on the state \<open>'g\<close> of a gateway.
  \<open>apps/api/src/adapters/gateway/fake-gateway.adapter.ts\<close> and \<open>numbers-gateway.adapter.ts\<close>:
  the two adapters that need no provider.

  Identifiers drawn at random, the clock, the HMAC and the JSON reader are fields of the fake
  gateway's state or parameters. Instants are milliseconds.
\<close>

section \<open>Integration errors\<close>

datatype error_class = TRANSIENT | AUTHENTICATION | VALIDATION | CONFLICT | PERMANENT

record retry_policy =
  rp_retryable :: bool
  rp_maxAttempts :: nat
  rp_haltStream :: bool
  rp_alertImmediately :: bool

fun retry_policy_of :: "error_class \<Rightarrow> retry_policy" where
  "retry_policy_of TRANSIENT = \<lparr> rp_retryable = True, rp_maxAttempts = 5, rp_haltStream = False, rp_alertImmediately = False \<rparr>"
| "retry_policy_of AUTHENTICATION = \<lparr> rp_retryable = False, rp_maxAttempts = 1, rp_haltStream = True, rp_alertImmediately = True \<rparr>"
| "retry_policy_of VALIDATION = \<lparr> rp_retryable = False, rp_maxAttempts = 1, rp_haltStream = False, rp_alertImmediately = False \<rparr>"
| "retry_policy_of CONFLICT = \<lparr> rp_retryable = False, rp_maxAttempts = 1, rp_haltStream = False, rp_alertImmediately = False \<rparr>"
| "retry_policy_of PERMANENT = \<lparr> rp_retryable = False, rp_maxAttempts = 1, rp_haltStream = False, rp_alertImmediately = True \<rparr>"

record integration_error =
  ie_message :: string
  ie_errorClass :: error_class
  ie_provider :: string
  ie_providerMessage :: "string option"
  ie_providerCode :: "string option"
  ie_httpStatus :: "int option"
  ie_retryAfterMs :: "int option"

definition error_policy :: "integration_error \<Rightarrow> retry_policy" where
  "error_policy e = retry_policy_of (ie_errorClass e)"

definition error_retryable :: "integration_error \<Rightarrow> bool" where
  "error_retryable e = rp_retryable (error_policy e)"

definition classifyHttpStatus :: "int \<Rightarrow> error_class" where
  "classifyHttpStatus status =
     (if status = 401 \<or> status = 403 then AUTHENTICATION
      else if status = 404 \<or> status = 410 then PERMANENT
      else if status = 409 \<or> status = 412 then CONFLICT
      else if status = 422 \<or> (status \<ge> 400 \<and> status < 429) then VALIDATION
      else if status = 429 then TRANSIENT
      else if status \<ge> 500 then TRANSIENT
      else PERMANENT)"

text \<open>The random number is a rational in \<open>[0, 1)\<close>; \<open>Math.round\<close> rounds halves up.\<close>

definition backoff_base :: "int \<Rightarrow> int" where
  "backoff_base attempt = min (60000 * 2 ^ nat (max 0 (attempt - 1))) (15 * 60000)"

definition backoffMs :: "int \<Rightarrow> rat \<Rightarrow> int" where
  "backoffMs attempt random = \<lfloor>of_int (backoff_base attempt) * (1 / 2 + random * (1 / 2)) + 1 / 2\<rfloor>"

section \<open>The port\<close>

datatype intent_status = REQUIRES_ACTION | INTENT_PROCESSING | SUCCEEDED | INTENT_FAILED | INTENT_CANCELLED

record create_intent_input =
  cin_idempotencyKey :: string
  cin_invoiceId :: string
  cin_brandId :: string
  cin_amountMinor :: int
  cin_currency :: string
  cin_method :: payment_method
  cin_description :: string
  cin_customerEmail :: "string option"
  cin_customerName :: "string option"
  cin_returnUrl :: string
  cin_metadata :: "(string \<times> string) list option"

record payment_intent =
  pi_gatewayReference :: string
  pi_status :: intent_status
  pi_amountMinor :: int
  pi_currency :: string
  pi_actionUrl :: "string option"
  pi_clientToken :: "string option"
  pi_occurredAt :: int
  pi_declineReason :: "string option"

record capture_input =
  cap_gatewayReference :: string
  cap_brandId :: string
  cap_amountMinor :: "int option"
  cap_idempotencyKey :: string

record refund_input =
  ref_gatewayReference :: string
  ref_brandId :: string
  ref_amountMinor :: int
  ref_reason :: "string option"
  ref_idempotencyKey :: string

datatype refund_status = REFUND_PENDING | REFUND_SUCCEEDED | REFUND_FAILED

record refund_result =
  rr_refundReference :: string
  rr_amountMinor :: int
  rr_status :: refund_status
  rr_occurredAt :: int

text \<open>\<open>EV_OTHER\<close> is a value outside the declared union, which a cast lets through.\<close>

datatype gateway_event_type =
    EV_PAYMENT_SUCCEEDED | EV_PAYMENT_FAILED | EV_PAYMENT_PENDING | EV_PAYMENT_CANCELLED
  | EV_REFUND_SUCCEEDED | EV_REFUND_FAILED | EV_UNKNOWN | EV_OTHER string

record webhook_event =
  we_id :: string
  we_type :: gateway_event_type
  we_gatewayReference :: string
  we_amountMinor :: "jsnum option"
  we_currency :: "string option"
  we_occurredAt :: int
  we_declineReason :: "string option"
  we_accountRef :: "string option"

text \<open>A throw of an adapter is an \<open>IntegrationError\<close> or any other exception.\<close>

datatype gateway_error = Integration integration_error | OtherError string

type_synonym headers = "(string \<times> string) list"

record 'g gateway =
  gw_createIntent :: "create_intent_input \<Rightarrow> ('g, gateway_error, payment_intent) eff"
  gw_capture :: "capture_input \<Rightarrow> ('g, gateway_error, payment_intent) eff"
  gw_refund :: "refund_input \<Rightarrow> ('g, gateway_error, refund_result) eff"
  gw_void :: "string \<Rightarrow> string \<Rightarrow> ('g, gateway_error, payment_intent) eff"
  gw_retrieve :: "string \<Rightarrow> string \<Rightarrow> ('g, gateway_error, payment_intent) eff"
  gw_verifySignature :: "string \<Rightarrow> headers \<Rightarrow> string option \<Rightarrow> ('g, gateway_error, bool) eff"
  gw_parseWebhook :: "string \<Rightarrow> string option \<Rightarrow> ('g, gateway_error, webhook_event) eff"
  gw_resolveBrandId :: "(webhook_event \<Rightarrow> ('g, gateway_error, string option) eff) option"

text \<open>
  What the payment service relies on: an attempt is charged at most once. \<open>charge_of g k\<close> is the
  reference of the charge made under the idempotency key \<open>k\<close>; a repeated key returns the intent
  of that charge and changes nothing, and no operation forgets a charge.
\<close>

locale payment_gateway =
  fixes createIntent :: "create_intent_input \<Rightarrow> ('g, gateway_error, payment_intent) eff"
    and other_step :: "'g \<Rightarrow> 'g \<Rightarrow> bool"
    and charge_of :: "'g \<Rightarrow> string \<Rightarrow> string option"
    and ok :: "'g \<Rightarrow> bool"
  assumes create_ok: "ok g \<Longrightarrow> ok (snd (createIntent i g))"
    and other_ok: "\<lbrakk>ok g; other_step g g'\<rbrakk> \<Longrightarrow> ok g'"
    and create_charges: "\<lbrakk>ok g; createIntent i g = (Inr p, g')\<rbrakk> \<Longrightarrow>
        charge_of g' (cin_idempotencyKey i) = Some (pi_gatewayReference p)"
    and create_replays: "\<lbrakk>ok g; charge_of g (cin_idempotencyKey i) = Some r\<rbrakk> \<Longrightarrow>
        \<exists>p. createIntent i g = (Inr p, g) \<and> pi_gatewayReference p = r"
    and create_keeps: "\<lbrakk>ok g; charge_of g k = Some r\<rbrakk> \<Longrightarrow> charge_of (snd (createIntent i g)) k = Some r"
    and other_keeps: "\<lbrakk>ok g; other_step g g'; charge_of g k = Some r\<rbrakk> \<Longrightarrow> charge_of g' k = Some r"
begin

inductive gateway_step :: "'g \<Rightarrow> 'g \<Rightarrow> bool" where
  create: "gateway_step g (snd (createIntent i g))"
| other: "other_step g g' \<Longrightarrow> gateway_step g g'"

lemma step_ok: "\<lbrakk>ok g; gateway_step g g'\<rbrakk> \<Longrightarrow> ok g'"
  by (auto elim!: gateway_step.cases intro: create_ok other_ok)

lemma step_keeps: "\<lbrakk>gateway_step g g'; ok g; charge_of g k = Some r\<rbrakk> \<Longrightarrow> charge_of g' k = Some r"
  by (auto elim!: gateway_step.cases intro: create_keeps other_keeps)

lemma charge_for_ever:
  "\<lbrakk>gateway_step\<^sup>*\<^sup>* g g'; ok g; charge_of g k = Some r\<rbrakk> \<Longrightarrow> ok g' \<and> charge_of g' k = Some r"
  by (induction rule: rtranclp_induct) (auto intro: step_ok step_keeps)

lemma charged_once:
  assumes "ok g" "createIntent i g = (Inr p, g')" "gateway_step\<^sup>*\<^sup>* g' h" "cin_idempotencyKey j = cin_idempotencyKey i"
  shows "\<exists>q. createIntent j h = (Inr q, h) \<and> pi_gatewayReference q = pi_gatewayReference p"
proof -
  have "ok g'" using create_ok[OF assms(1), of i] assms(2) by simp
  from charge_for_ever[OF assms(3) this create_charges[OF assms(1,2)]] show ?thesis
    using create_replays[of h j] assms(4) by auto
qed

end

section \<open>The fake gateway\<close>

datatype scenario = Success | Decline | Pending | Timeout

record stored_intent =
  si_intent :: payment_intent
  si_scenario :: scenario
  si_idempotencyKey :: string
  si_invoiceId :: string

text \<open>\<open>fg_uuids\<close> is what \<open>randomUUID\<close> will return (an infinite supply), \<open>fg_drawn\<close> how many are drawn.\<close>

record fake_gateway =
  fg_byReference :: "string \<Rightarrow> stored_intent option"
  fg_byIdempotencyKey :: "string \<Rightarrow> string option"
  fg_now :: int
  fg_uuids :: "nat \<Rightarrow> string"
  fg_drawn :: nat

definition fake_provider :: string where
  "fake_provider = ''fake-gateway''"

definition fg_uuid :: "fake_gateway \<Rightarrow> string" where
  "fg_uuid g = fg_uuids g (fg_drawn g)"

definition fg_reference :: "fake_gateway \<Rightarrow> string" where
  "fg_reference g = ''fake_pi_'' @ take 24 (filter (\<lambda>c. c \<noteq> CHR ''-'') (fg_uuid g))"

fun scenario_of_text :: "string \<Rightarrow> scenario option" where
  "scenario_of_text s =
     (if s = ''success'' then Some Success else if s = ''decline'' then Some Decline
      else if s = ''pending'' then Some Pending else if s = ''timeout'' then Some Timeout else None)"

definition resolveScenario :: "create_intent_input \<Rightarrow> scenario" where
  "resolveScenario input =
     (let explicit = (case cin_metadata input of None \<Rightarrow> None | Some m \<Rightarrow> map_of m ''scenario'')
      in case Option.bind explicit scenario_of_text of
           Some s \<Rightarrow> s
         | None \<Rightarrow>
             (let cents = \<bar>cin_amountMinor input\<bar> mod 100
              in if cents = 11 then Decline else if cents = 22 then Pending
                 else if cents = 33 then Timeout else Success))"

definition fake_createIntent :: "create_intent_input \<Rightarrow> (fake_gateway, gateway_error, payment_intent) eff" where
  "fake_createIntent input = (\<lambda>g.
     case Option.bind (fg_byIdempotencyKey g (cin_idempotencyKey input)) (fg_byReference g) of
       Some existing \<Rightarrow> (Inr (si_intent existing), g)
     | None \<Rightarrow>
         (let scenario = resolveScenario input in
          if scenario = Timeout
          then (Inl (Integration \<lparr> ie_message = ''simulated gateway timeout'', ie_errorClass = TRANSIENT,
                   ie_provider = fake_provider,
                   ie_providerMessage = Some ''Gateway did not respond within 30000ms'',
                   ie_providerCode = None, ie_httpStatus = None, ie_retryAfterMs = None \<rparr>), g)
          else let reference = fg_reference g;
                   status = (if scenario = Success then SUCCEEDED else if scenario = Decline then INTENT_FAILED
                             else INTENT_PROCESSING);
                   intent = \<lparr> pi_gatewayReference = reference, pi_status = status,
                     pi_amountMinor = cin_amountMinor input, pi_currency = cin_currency input,
                     pi_actionUrl = (if scenario = Pending then Some (cin_returnUrl input @ ''?simulated=pending'') else None),
                     pi_clientToken = Some (''fake_secret_'' @ reference), pi_occurredAt = fg_now g,
                     pi_declineReason = (if scenario = Decline then Some ''card_declined: insufficient funds'' else None) \<rparr>
               in (Inr intent,
                   g\<lparr> fg_byReference := (fg_byReference g)(reference \<mapsto>
                         \<lparr> si_intent = intent, si_scenario = scenario,
                           si_idempotencyKey = cin_idempotencyKey input, si_invoiceId = cin_invoiceId input \<rparr>),
                      fg_byIdempotencyKey := (fg_byIdempotencyKey g)(cin_idempotencyKey input \<mapsto> reference),
                      fg_drawn := fg_drawn g + 1 \<rparr>)))"

definition fake_require :: "string \<Rightarrow> (fake_gateway, gateway_error, stored_intent) eff" where
  "fake_require reference = (\<lambda>g.
     (case fg_byReference g reference of
        Some stored \<Rightarrow> (Inr stored, g)
      | None \<Rightarrow> (Inl (Integration \<lparr> ie_message = ''unknown gateway reference '' @ reference, ie_errorClass = PERMANENT,
          ie_provider = fake_provider, ie_providerMessage = None, ie_providerCode = None,
          ie_httpStatus = Some 404, ie_retryAfterMs = None \<rparr>), g)))"

definition fake_store_intent :: "string \<Rightarrow> stored_intent \<Rightarrow> payment_intent \<Rightarrow> fake_gateway \<Rightarrow> fake_gateway" where
  "fake_store_intent reference stored intent g =
     g\<lparr> fg_byReference := (fg_byReference g)(reference \<mapsto> stored\<lparr> si_intent := intent \<rparr>) \<rparr>"

definition fake_capture :: "capture_input \<Rightarrow> (fake_gateway, gateway_error, payment_intent) eff" where
  "fake_capture input =
     ebind (fake_require (cap_gatewayReference input)) (\<lambda>stored.
     ebind (egets fg_now) (\<lambda>now.
     let intent = (si_intent stored)\<lparr> pi_status := SUCCEEDED,
           pi_amountMinor := (case cap_amountMinor input of None \<Rightarrow> pi_amountMinor (si_intent stored) | Some a \<Rightarrow> a),
           pi_occurredAt := now \<rparr>
     in ebind (emodify (fake_store_intent (cap_gatewayReference input) stored intent)) (\<lambda>_. ereturn intent)))"

definition fake_refund :: "refund_input \<Rightarrow> (fake_gateway, gateway_error, refund_result) eff" where
  "fake_refund input =
     ebind (fake_require (ref_gatewayReference input)) (\<lambda>stored.
     if ref_amountMinor input > pi_amountMinor (si_intent stored)
     then ethrow (Integration \<lparr> ie_message = ''refund exceeds the captured amount'', ie_errorClass = VALIDATION,
            ie_provider = fake_provider, ie_providerMessage = Some ''Refund amount greater than original charge'',
            ie_providerCode = None, ie_httpStatus = None, ie_retryAfterMs = None \<rparr>)
     else (\<lambda>g. (Inr \<lparr> rr_refundReference = ''fake_re_'' @ take 20 (filter (\<lambda>c. c \<noteq> CHR ''-'') (fg_uuid g)),
            rr_amountMinor = ref_amountMinor input, rr_status = REFUND_SUCCEEDED, rr_occurredAt = fg_now g \<rparr>,
            g\<lparr> fg_drawn := fg_drawn g + 1 \<rparr>)))"

definition fake_void :: "string \<Rightarrow> string \<Rightarrow> (fake_gateway, gateway_error, payment_intent) eff" where
  "fake_void reference brandId =
     ebind (fake_require reference) (\<lambda>stored.
     ebind (egets fg_now) (\<lambda>now.
     let intent = (si_intent stored)\<lparr> pi_status := INTENT_CANCELLED, pi_occurredAt := now \<rparr>
     in ebind (emodify (fake_store_intent reference stored intent)) (\<lambda>_. ereturn intent)))"

definition fake_retrieve :: "string \<Rightarrow> string \<Rightarrow> (fake_gateway, gateway_error, payment_intent) eff" where
  "fake_retrieve reference brandId = ebind (fake_require reference) (\<lambda>stored. ereturn (si_intent stored))"

text \<open>\<open>sign\<close> is the HMAC of the payload under the local secret. Buffers are compared bytewise.\<close>

definition fake_verifySignature ::
  "(string \<Rightarrow> string) \<Rightarrow> string \<Rightarrow> headers \<Rightarrow> string option \<Rightarrow> (fake_gateway, gateway_error, bool) eff" where
  "fake_verifySignature sign payload hdrs brandId =
     ereturn (let provided = (case map_of hdrs ''x-fake-signature'' of Some s \<Rightarrow> Some s
                                | None \<Rightarrow> map_of hdrs ''X-Fake-Signature'')
              in case provided of
                   None \<Rightarrow> False
                 | Some p \<Rightarrow> p \<noteq> [] \<and> length p = length (sign payload) \<and> p = sign payload)"

definition fake_reset :: "fake_gateway \<Rightarrow> fake_gateway" where
  "fake_reset g = g\<lparr> fg_byReference := Map.empty, fg_byIdempotencyKey := Map.empty \<rparr>"

text \<open>
  \<open>parseWebhook\<close> reads the members of the parsed body. \<open>JSON.parse\<close>, \<open>String(v)\<close> and
  \<open>new Date(text)\<close> are the parameters \<open>parse\<close> (\<open>None\<close>: a \<open>SyntaxError\<close>), \<open>text_of\<close> and
  \<open>date_of\<close>. The event type is cast, not checked.
\<close>

datatype json_value = JsonString string | JsonNumber jsnum | JsonNull | JsonOther

type_synonym json_object = "(string \<times> json_value) list"

definition json_member :: "json_object \<Rightarrow> string \<Rightarrow> json_value option" where
  "json_member body k = (case map_of body k of Some JsonNull \<Rightarrow> None | v \<Rightarrow> v)"

definition event_type_names :: "(string \<times> gateway_event_type) list" where
  "event_type_names =
     [(''PAYMENT_SUCCEEDED'', EV_PAYMENT_SUCCEEDED), (''PAYMENT_FAILED'', EV_PAYMENT_FAILED),
      (''PAYMENT_PENDING'', EV_PAYMENT_PENDING), (''PAYMENT_CANCELLED'', EV_PAYMENT_CANCELLED),
      (''REFUND_SUCCEEDED'', EV_REFUND_SUCCEEDED), (''REFUND_FAILED'', EV_REFUND_FAILED), (''UNKNOWN'', EV_UNKNOWN)]"

definition event_type_cast :: "string \<Rightarrow> gateway_event_type" where
  "event_type_cast s = (case map_of event_type_names s of Some t \<Rightarrow> t | None \<Rightarrow> EV_OTHER s)"

fun json_truthy :: "json_value \<Rightarrow> bool" where
  "json_truthy (JsonString s) = (s \<noteq> [])"
| "json_truthy (JsonNumber n) = (n \<noteq> JInt 0)"
| "json_truthy JsonNull = False"
| "json_truthy JsonOther = True"

definition fake_parseWebhook ::
  "(string \<Rightarrow> json_object option) \<Rightarrow> (json_value \<Rightarrow> string) \<Rightarrow> (string \<Rightarrow> int) \<Rightarrow> string \<Rightarrow> string option \<Rightarrow>
     (fake_gateway, gateway_error, webhook_event) eff" where
  "fake_parseWebhook parse text_of date_of payload brandId =
     (case parse payload of
        None \<Rightarrow> ethrow (OtherError ''SyntaxError'')
      | Some body \<Rightarrow> (\<lambda>g.
          (Inr \<lparr> we_id = (case json_member body ''id'' of Some v \<Rightarrow> text_of v | None \<Rightarrow> fg_uuid g),
                 we_type = (case json_member body ''type'' of Some v \<Rightarrow> event_type_cast (text_of v) | None \<Rightarrow> EV_UNKNOWN),
                 we_gatewayReference = (case json_member body ''gatewayReference'' of Some v \<Rightarrow> text_of v | None \<Rightarrow> []),
                 we_amountMinor = (case map_of body ''amountMinor'' of Some (JsonNumber n) \<Rightarrow> Some n | _ \<Rightarrow> None),
                 we_currency = map_option text_of (json_member body ''currency''),
                 we_occurredAt = (case map_of body ''occurredAt'' of
                     Some v \<Rightarrow> (if json_truthy v then date_of (text_of v) else fg_now g)
                   | None \<Rightarrow> fg_now g),
                 we_declineReason = map_option text_of (json_member body ''declineReason''),
                 we_accountRef = None \<rparr>,
           if json_member body ''id'' = None then g\<lparr> fg_drawn := fg_drawn g + 1 \<rparr> else g)))"

definition fake_adapter ::
  "(string \<Rightarrow> string) \<Rightarrow> (string \<Rightarrow> json_object option) \<Rightarrow> (json_value \<Rightarrow> string) \<Rightarrow> (string \<Rightarrow> int) \<Rightarrow> fake_gateway gateway" where
  "fake_adapter sign parse text_of date_of =
     \<lparr> gw_createIntent = fake_createIntent, gw_capture = fake_capture, gw_refund = fake_refund, gw_void = fake_void,
       gw_retrieve = fake_retrieve, gw_verifySignature = fake_verifySignature sign,
       gw_parseWebhook = fake_parseWebhook parse text_of date_of, gw_resolveBrandId = None \<rparr>"

section \<open>The placeholder adapter\<close>

definition numbers_blocked :: "string \<Rightarrow> gateway_error" where
  "numbers_blocked operation =
     Integration \<lparr> ie_message = ''NumbersGatewayAdapter.'' @ operation @ '' is not implemented'',
       ie_errorClass = PERMANENT, ie_provider = ''numbers-gateway'', ie_providerMessage = None, ie_providerCode = None,
       ie_httpStatus = None, ie_retryAfterMs = None \<rparr>"

definition numbers_adapter :: "'g gateway" where
  "numbers_adapter =
     \<lparr> gw_createIntent = (\<lambda>_. ethrow (numbers_blocked ''createIntent'')),
       gw_capture = (\<lambda>_. ethrow (numbers_blocked ''capture'')),
       gw_refund = (\<lambda>_. ethrow (numbers_blocked ''refund'')),
       gw_void = (\<lambda>_ _. ethrow (numbers_blocked ''void'')),
       gw_retrieve = (\<lambda>_ _. ethrow (numbers_blocked ''retrieve'')),
       gw_verifySignature = (\<lambda>_ _ _. ereturn False),
       gw_parseWebhook = (\<lambda>_ _. ethrow (numbers_blocked ''parseWebhook'')),
       gw_resolveBrandId = None \<rparr>"

section \<open>The fake gateway honours the interface\<close>

definition fake_ok :: "fake_gateway \<Rightarrow> bool" where
  "fake_ok g \<longleftrightarrow> (\<forall>k r. fg_byIdempotencyKey g k = Some r \<longrightarrow>
     (\<exists>s. fg_byReference g r = Some s \<and> pi_gatewayReference (si_intent s) = r)) \<and>
   (\<forall>r s. fg_byReference g r = Some s \<longrightarrow> pi_gatewayReference (si_intent s) = r)"

text \<open>Everything but a creation and a reset: captures, refunds, voids, and the passing of time.\<close>

inductive fake_other :: "fake_gateway \<Rightarrow> fake_gateway \<Rightarrow> bool" where
  capture: "fake_other g (snd (fake_capture i g))"
| refund: "fake_other g (snd (fake_refund j g))"
| void: "fake_other g (snd (fake_void r b g))"
| retrieve: "fake_other g (snd (fake_retrieve r b g))"
| webhook: "fake_other g (snd (fake_parseWebhook parse text_of date_of payload b g))"
| clock: "fake_other g (g\<lparr> fg_now := t \<rparr>)"

inductive_cases fake_otherE [elim!]: "fake_other g g'"

definition fake_charge :: "fake_gateway \<Rightarrow> string \<Rightarrow> string option" where
  "fake_charge g k = fg_byIdempotencyKey g k"

lemma fake_require_run [simp]:
  "fg_byReference g r = Some s \<Longrightarrow> fake_require r g = (Inr s, g)"
  "fg_byReference g r = None \<Longrightarrow> snd (fake_require r g) = g"
  by (simp_all add: fake_require_def)

lemma fake_require_bind:
  "ebind (fake_require r) f g = (case fg_byReference g r of None \<Rightarrow> (Inl (projl (fst (fake_require r g))), g) | Some s \<Rightarrow> f s g)"
  by (cases "fg_byReference g r") (simp_all add: ebind_def fake_require_def)

lemma fake_store_ok:
  "\<lbrakk>fake_ok g; fg_byReference g r = Some s; pi_gatewayReference p = pi_gatewayReference (si_intent s)\<rbrakk> \<Longrightarrow>
     fake_ok (fake_store_intent r s p g)"
  by (auto simp: fake_ok_def fake_store_intent_def)

lemma fake_store_keys [simp]: "fg_byIdempotencyKey (fake_store_intent r s p g) = fg_byIdempotencyKey g"
  by (simp add: fake_store_intent_def)

lemma fake_ok_drawn [simp]: "fake_ok (g\<lparr> fg_drawn := n \<rparr>) = fake_ok g" "fake_ok (g\<lparr> fg_now := t \<rparr>) = fake_ok g"
  by (simp_all add: fake_ok_def)

lemma fake_other_ok: "\<lbrakk>fake_other g g'; fake_ok g\<rbrakk> \<Longrightarrow> fake_ok g' \<and> fg_byIdempotencyKey g' = fg_byIdempotencyKey g"
  by (auto simp: fake_capture_def fake_refund_def fake_void_def fake_retrieve_def fake_parseWebhook_def
      fake_require_bind Let_def fake_store_ok split: option.splits)

lemma fake_createIntent_ok: "fake_ok g \<Longrightarrow> fake_ok (snd (fake_createIntent i g))"
  by (auto simp: fake_createIntent_def Let_def fake_ok_def split: option.splits)

lemma fake_createIntent_charges:
  assumes "fake_ok g" "fake_createIntent i g = (Inr p, g')"
  shows "fg_byIdempotencyKey g' (cin_idempotencyKey i) = Some (pi_gatewayReference p)"
  using assms by (auto simp: fake_createIntent_def Let_def fake_ok_def split: option.splits if_splits Option.bind_splits)

lemma fake_createIntent_replays:
  assumes "fake_ok g" "fg_byIdempotencyKey g (cin_idempotencyKey i) = Some r"
  shows "\<exists>p. fake_createIntent i g = (Inr p, g) \<and> pi_gatewayReference p = r"
  using assms by (force simp: fake_createIntent_def fake_ok_def)

lemma fake_createIntent_keeps:
  assumes "fake_ok g" "fg_byIdempotencyKey g k = Some r"
  shows "fg_byIdempotencyKey (snd (fake_createIntent i g)) k = Some r"
proof (cases "k = cin_idempotencyKey i")
  case True
  with fake_createIntent_replays[of g i r] assms show ?thesis by auto
next
  case False
  with assms show ?thesis by (auto simp: fake_createIntent_def Let_def split: option.splits)
qed

interpretation fake: payment_gateway fake_createIntent fake_other fake_charge fake_ok
proof unfold_locales
  fix g g' i p k r
  show "fake_ok g \<Longrightarrow> fake_ok (snd (fake_createIntent i g))" by (rule fake_createIntent_ok)
  show "fake_ok g \<Longrightarrow> fake_other g g' \<Longrightarrow> fake_ok g'" by (rule conjunct1[OF fake_other_ok])
  show "fake_ok g \<Longrightarrow> fake_createIntent i g = (Inr p, g') \<Longrightarrow>
      fake_charge g' (cin_idempotencyKey i) = Some (pi_gatewayReference p)"
    unfolding fake_charge_def by (rule fake_createIntent_charges)
  show "fake_ok g \<Longrightarrow> fake_charge g (cin_idempotencyKey i) = Some r \<Longrightarrow>
      \<exists>p. fake_createIntent i g = (Inr p, g) \<and> pi_gatewayReference p = r"
    unfolding fake_charge_def by (rule fake_createIntent_replays)
  show "fake_ok g \<Longrightarrow> fake_charge g k = Some r \<Longrightarrow> fake_charge (snd (fake_createIntent i g)) k = Some r"
    unfolding fake_charge_def by (rule fake_createIntent_keeps)
  show "fake_ok g \<Longrightarrow> fake_other g g' \<Longrightarrow> fake_charge g k = Some r \<Longrightarrow> fake_charge g' k = Some r"
    unfolding fake_charge_def using fake_other_ok by simp
qed

section \<open>Properties\<close>

text \<open>an attempt is charged once. After a successful creation, through any sequence of further
  creations, captures, refunds, voids, retrievals, parsed webhooks and clock changes, a repeated call with the same
  idempotency key (whatever the rest of the request says) returns an intent with the original
  reference and leaves the gateway as it is.\<close>

theorem fake_gateway_charges_once:
  assumes "fake_ok g" "fake_createIntent i g = (Inr p, g')" "fake.gateway_step\<^sup>*\<^sup>* g' h"
    and "cin_idempotencyKey j = cin_idempotencyKey i"
  shows "\<exists>q. fake_createIntent j h = (Inr q, h) \<and> pi_gatewayReference q = pi_gatewayReference p"
  using assms by (rule fake.charged_once)

definition sample_gateway :: fake_gateway where
  "sample_gateway = \<lparr> fg_byReference = Map.empty, fg_byIdempotencyKey = Map.empty, fg_now = 1000,
     fg_uuids = (\<lambda>n. if n = 0 then ''u-0'' else ''u-1''), fg_drawn = 0 \<rparr>"

definition sample_intent :: "string \<Rightarrow> int \<Rightarrow> create_intent_input" where
  "sample_intent key amount = \<lparr> cin_idempotencyKey = key, cin_invoiceId = ''i1'', cin_brandId = ''b1'',
     cin_amountMinor = amount, cin_currency = ''USD'', cin_method = CARD, cin_description = [],
     cin_customerEmail = None, cin_customerName = None, cin_returnUrl = [], cin_metadata = None \<rparr>"

theorem fake_gateway_charges_once_witness:
  "\<exists>p g' q. fake_createIntent (sample_intent ''k'' 1000) sample_gateway = (Inr p, g') \<and>
     (let h = snd (fake_createIntent (sample_intent ''other'' 2011) g') in
      fake_createIntent (sample_intent ''k'' 99) h = (Inr q, h) \<and> pi_gatewayReference q = pi_gatewayReference p)"
proof -
  have ok: "fake_ok sample_gateway" by (simp add: fake_ok_def sample_gateway_def)
  have "\<exists>p g'. fake_createIntent (sample_intent ''k'' 1000) sample_gateway = (Inr p, g')"
    by (simp add: fake_createIntent_def sample_intent_def sample_gateway_def resolveScenario_def Let_def)
  then obtain p g' where c: "fake_createIntent (sample_intent ''k'' 1000) sample_gateway = (Inr p, g')" by blast
  have "fake.gateway_step\<^sup>*\<^sup>* g' (snd (fake_createIntent (sample_intent ''other'' 2011) g'))"
    by (rule r_into_rtranclp) (rule fake.gateway_step.create)
  from fake_gateway_charges_once[OF ok c this, of "sample_intent ''k'' 99"] c show ?thesis
    by (auto simp: sample_intent_def Let_def)
qed

text \<open>the retry schedule. The backoff of a transient failure lies between half of the base delay
  and the base delay, the base never falls from one attempt to the next and never exceeds fifteen
  minutes; and every HTTP status from 400 up is given a class whose policy retries it
  exactly when the status is 429 or 500 and above.\<close>

theorem retry_schedule:
  assumes "0 \<le> random" "random < 1"
  shows "backoff_base attempt \<le> 2 * backoffMs attempt random \<and> backoffMs attempt random \<le> backoff_base attempt \<and>
    backoff_base attempt \<le> backoff_base (attempt + 1) \<and> backoff_base attempt \<le> 900000 \<and>
    (400 \<le> status \<longrightarrow> (rp_retryable (retry_policy_of (classifyHttpStatus status)) \<longleftrightarrow> status = 429 \<or> 500 \<le> status))"
proof -
  let ?b = "backoff_base attempt" and ?x = "of_int (backoff_base attempt) * (1 / 2 + random * (1 / 2)) :: rat"
  have b0: "0 \<le> ?b" by (simp add: backoff_base_def)
  have "rat_of_int ?b * (1 / 2) \<le> ?x" "?x \<le> rat_of_int ?b * 1"
    using assms b0 by (intro mult_left_mono; simp)+
  then have x: "rat_of_int ?b \<le> 2 * ?x" "?x \<le> rat_of_int ?b" by simp_all
  have "?x + 1 / 2 < rat_of_int (backoffMs attempt random) + 1" "rat_of_int (backoffMs attempt random) \<le> ?x + 1 / 2"
    unfolding backoffMs_def by linarith+
  then have y: "rat_of_int ?b < 2 * rat_of_int (backoffMs attempt random) + 1" "rat_of_int (backoffMs attempt random) < rat_of_int ?b + 1"
    using x by linarith+
  have "rat_of_int ?b < rat_of_int (2 * backoffMs attempt random + 1)" "rat_of_int (backoffMs attempt random) < rat_of_int (?b + 1)"
    using y by simp_all
  then have "?b \<le> 2 * backoffMs attempt random" "backoffMs attempt random \<le> ?b"
    unfolding of_int_less_iff by linarith+
  moreover have "?b \<le> backoff_base (attempt + 1)"
  proof -
    have "(2::int) ^ nat (max 0 (attempt - 1)) \<le> 2 ^ nat (max 0 attempt)" by (intro power_increasing) auto
    then have "min (60000 * 2 ^ nat (max 0 (attempt - 1))) (15 * 60000) \<le> min (60000 * 2 ^ nat (max 0 attempt)) (15 * 60000 :: int)"
      by (intro min.mono) simp_all
    then show ?thesis by (simp add: backoff_base_def)
  qed
  moreover have "?b \<le> 900000" by (simp add: backoff_base_def)
  moreover have "400 \<le> status \<longrightarrow> (rp_retryable (retry_policy_of (classifyHttpStatus status)) \<longleftrightarrow> status = 429 \<or> 500 \<le> status)"
    by (auto simp: classifyHttpStatus_def)
  ultimately show ?thesis by blast
qed

theorem retry_schedule_witness:
  "backoff_base 3 \<le> 2 * backoffMs 3 (1 / 4) \<and> backoffMs 3 (1 / 4) \<le> 240000"
  using retry_schedule[of "1 / 4" 3 429] by (simp add: backoff_base_def)

end
