(* ===== verification/Lifecycle.thy ===== *)
theory Lifecycle
  imports Prelude
begin

text \<open>
  The interfaces of the state machines: a transition relation with an invariant, and one whose
  terminal states have no way out. The invoice status machine and the payment store provide
  them; their clients use the facts about whole histories proved here once.
\<close>

locale invariant_system =
  fixes step :: "'s \<Rightarrow> 's \<Rightarrow> bool" and inv :: "'s \<Rightarrow> bool"
  assumes inv_step: "\<lbrakk>inv s; step s t\<rbrakk> \<Longrightarrow> inv t"
begin

lemma inv_reachable: "\<lbrakk>step\<^sup>*\<^sup>* s t; inv s\<rbrakk> \<Longrightarrow> inv t"
  by (induction rule: rtranclp_induct) (auto intro: inv_step)

lemma inv_foldl:
  assumes "\<And>s e. inv s \<Longrightarrow> f s e = s \<or> step s (f s e)"
  shows "inv s \<Longrightarrow> inv (foldl f s es)"
proof (induction es arbitrary: s)
  case (Cons e es)
  have "inv (f s e)" using assms[OF Cons.prems] Cons.prems inv_step by metis
  then show ?case by (simp add: Cons.IH)
qed simp

end

locale terminal_system =
  fixes step :: "'s \<Rightarrow> 's \<Rightarrow> bool" and terminal :: "'s \<Rightarrow> bool"
  assumes terminal_stuck: "terminal s \<Longrightarrow> \<not> step s t"
begin

lemma terminal_forever: "\<lbrakk>step\<^sup>*\<^sup>* s t; terminal s\<rbrakk> \<Longrightarrow> t = s"
  by (induction rule: converse_rtranclp_induct) (use terminal_stuck in blast)+

lemma terminal_last: "\<lbrakk>step\<^sup>*\<^sup>* s t; step\<^sup>*\<^sup>* t u; terminal t\<rbrakk> \<Longrightarrow> u = t"
  using terminal_forever by blast

end

sublocale terminal_system \<subseteq> stays: invariant_system step "\<lambda>s. step\<^sup>*\<^sup>* s\<^sub>0 s" for s\<^sub>0
  by unfold_locales simp

end
