(* ===== verification/InvoiceStatus.thy ===== *)
theory InvoiceStatus
  imports Lifecycle
begin

text \<open>
  \<open>packages/shared/src/domain/invoice-status.ts\<close> and \<open>payment-status.ts\<close>: the invoice state
  machine, its guards in the order of the source, and the overlays computed from a status.
  A refusal is \<open>Inl\<close> of its code; the message, a function of the transition, the status and
  the code, is left out. Amounts are \<open>int\<close> and dates are their \<open>getTime()\<close>.
\<close>

datatype invoice_status = DRAFT | SENT | VIEWED | PENDING_PAYMENT | PARTIALLY_PAID | PAID | CANCELLED

definition invoice_statuses :: "invoice_status list" where
  "invoice_statuses = [DRAFT, SENT, VIEWED, PENDING_PAYMENT, PARTIALLY_PAID, PAID, CANCELLED]"

definition terminal_statuses :: "invoice_status list" where
  "terminal_statuses = [PAID, CANCELLED]"

definition payable_statuses :: "invoice_status list" where
  "payable_statuses = [SENT, VIEWED, PENDING_PAYMENT, PARTIALLY_PAID]"

datatype invoice_transition =
    ISSUE | FIRST_VIEW | INITIATE_PAYMENT | SETTLE_PARTIAL | SETTLE_FULL | PAYMENT_FAILED | CANCEL | RECORD_PAYMENT

fun allowed :: "invoice_transition \<Rightarrow> invoice_status list" where
  "allowed ISSUE = [DRAFT]"
| "allowed FIRST_VIEW = [SENT]"
| "allowed INITIATE_PAYMENT = [SENT, VIEWED, PARTIALLY_PAID, PENDING_PAYMENT]"
| "allowed SETTLE_PARTIAL = [PENDING_PAYMENT, PARTIALLY_PAID]"
| "allowed SETTLE_FULL = [PENDING_PAYMENT, PARTIALLY_PAID]"
| "allowed PAYMENT_FAILED = [PENDING_PAYMENT]"
| "allowed CANCEL = [DRAFT, SENT, VIEWED, PENDING_PAYMENT]"
| "allowed RECORD_PAYMENT = [SENT, VIEWED, PENDING_PAYMENT, PARTIALLY_PAID]"

record transition_context =
  tc_status :: invoice_status
  tc_previousStatus :: "invoice_status option"
  tc_lineItemCount :: int
  tc_totalMinor :: int
  tc_balanceMinor :: int
  tc_settledMinor :: int
  tc_customerHasDeliverableEmail :: bool

datatype transition_failure =
    ILLEGAL_FROM_STATUS | NO_LINE_ITEMS | NON_POSITIVE_TOTAL | NO_DELIVERABLE_EMAIL | ALREADY_SETTLED
  | BALANCE_NOT_CLEARED | BALANCE_ALREADY_CLEARED | SETTLED_PAYMENT_EXISTS | NO_PREVIOUS_STATUS | EXCEEDS_BALANCE

fun transition_guards :: "invoice_transition \<Rightarrow> transition_context \<Rightarrow> (transition_failure, invoice_status) result" where
  "transition_guards ISSUE c =
     (if tc_lineItemCount c < 1 then Inl NO_LINE_ITEMS
      else if tc_totalMinor c \<le> 0 then Inl NON_POSITIVE_TOTAL
      else if \<not> tc_customerHasDeliverableEmail c then Inl NO_DELIVERABLE_EMAIL
      else Inr SENT)"
| "transition_guards FIRST_VIEW c = Inr VIEWED"
| "transition_guards INITIATE_PAYMENT c =
     (if tc_balanceMinor c \<le> 0 then Inl ALREADY_SETTLED else Inr PENDING_PAYMENT)"
| "transition_guards SETTLE_PARTIAL c =
     (if tc_settledMinor c \<le> 0 then Inl BALANCE_NOT_CLEARED
      else if tc_settledMinor c \<ge> tc_totalMinor c then Inl BALANCE_ALREADY_CLEARED
      else Inr PARTIALLY_PAID)"
| "transition_guards SETTLE_FULL c =
     (if tc_settledMinor c < tc_totalMinor c then Inl BALANCE_NOT_CLEARED else Inr PAID)"
| "transition_guards PAYMENT_FAILED c =
     (case tc_previousStatus c of
        None \<Rightarrow> Inl NO_PREVIOUS_STATUS
      | Some p \<Rightarrow> if p = PENDING_PAYMENT then Inl NO_PREVIOUS_STATUS else Inr p)"
| "transition_guards CANCEL c =
     (if tc_settledMinor c > 0 then Inl SETTLED_PAYMENT_EXISTS else Inr CANCELLED)"
| "transition_guards RECORD_PAYMENT c =
     (if tc_settledMinor c \<le> tc_totalMinor c - tc_balanceMinor c then Inl BALANCE_NOT_CLEARED
      else if tc_settledMinor c > tc_totalMinor c then Inl EXCEEDS_BALANCE
      else Inr (if tc_settledMinor c = tc_totalMinor c then PAID else PARTIALLY_PAID))"

definition evaluateTransition ::
  "invoice_transition \<Rightarrow> transition_context \<Rightarrow> (transition_failure, invoice_status) result" where
  "evaluateTransition t c =
     (if tc_status c \<notin> set (allowed t) then Inl ILLEGAL_FROM_STATUS else transition_guards t c)"

definition isOverdue :: "invoice_status \<Rightarrow> int \<Rightarrow> int \<Rightarrow> int \<Rightarrow> bool" where
  "isOverdue status dueDate balanceMinor asOf =
     (if status = PAID \<or> status = CANCELLED then False
      else if status = DRAFT then False
      else balanceMinor > 0 \<and> asOf > dueDate)"

definition isTerminal :: "invoice_status \<Rightarrow> bool" where
  "isTerminal s = (s \<in> set terminal_statuses)"

definition isPayable :: "invoice_status \<Rightarrow> bool" where
  "isPayable s = (s \<in> set payable_statuses)"

definition terminalStatusLabel :: "invoice_status \<Rightarrow> string option" where
  "terminalStatusLabel s =
     (if s = PAID then Some ''This invoice has been paid.''
      else if s = CANCELLED then Some ''This invoice was cancelled.''
      else None)"

text \<open>\<open>PaymentStatus\<close> of \<open>payment-status.ts\<close>; its \<open>CANCELLED\<close> is \<open>PAYMENT_CANCELLED\<close> here.\<close>

datatype payment_status =
    INITIATED | PROCESSING | SETTLED | FAILED | REFUNDED | PARTIALLY_REFUNDED | PAYMENT_CANCELLED

section \<open>Facts the services use\<close>

lemma isTerminal_simps [simp]:
  "isTerminal PAID" "isTerminal CANCELLED" "\<not> isTerminal DRAFT" "\<not> isTerminal SENT" "\<not> isTerminal VIEWED"
  "\<not> isTerminal PENDING_PAYMENT" "\<not> isTerminal PARTIALLY_PAID"
  by (simp_all add: isTerminal_def terminal_statuses_def)

lemma isPayable_simps [simp]:
  "isPayable SENT" "isPayable VIEWED" "isPayable PENDING_PAYMENT" "isPayable PARTIALLY_PAID"
  "\<not> isPayable PAID" "\<not> isPayable CANCELLED" "\<not> isPayable DRAFT"
  by (simp_all add: isPayable_def payable_statuses_def)

lemma evaluate_eq_Inr:
  "evaluateTransition t c = Inr s \<longleftrightarrow> tc_status c \<in> set (allowed t) \<and> transition_guards t c = Inr s"
  by (simp add: evaluateTransition_def)

lemma allowed_not_terminal: "s \<in> set (allowed t) \<Longrightarrow> \<not> isTerminal s"
  by (cases t) auto

text \<open>The previous status the services store with a payment attempt: never draft nor terminal.\<close>

definition previous_ok :: "transition_context \<Rightarrow> bool" where
  "previous_ok c \<longleftrightarrow> (case tc_previousStatus c of None \<Rightarrow> True | Some p \<Rightarrow> isPayable p)"

inductive invoice_step :: "invoice_status \<Rightarrow> invoice_status \<Rightarrow> bool" where
  step: "\<lbrakk>previous_ok c; evaluateTransition t c = Inr s\<rbrakk> \<Longrightarrow> invoice_step (tc_status c) s"

inductive_cases invoice_stepE [elim!]: "invoice_step s s'"

lemma invoice_step_terminal: "isTerminal s \<Longrightarrow> \<not> invoice_step s s'"
  by (auto simp: evaluate_eq_Inr dest: allowed_not_terminal)

interpretation invoice_terminal: terminal_system invoice_step isTerminal
  by unfold_locales (rule invoice_step_terminal)

lemma invoice_step_not_draft: "invoice_step s s' \<Longrightarrow> s' \<noteq> DRAFT"
  by (elim invoice_stepE) (rename_tac c t, case_tac t,
    auto simp: evaluate_eq_Inr previous_ok_def split: if_splits option.splits)

interpretation invoice_issued: invariant_system invoice_step "\<lambda>s. s \<noteq> DRAFT"
  by unfold_locales (rule invoice_step_not_draft)

section \<open>Properties\<close>

text \<open>terminal statuses are absorbing: in a paid or cancelled invoice every transition is
  refused with \<open>ILLEGAL_FROM_STATUS\<close> whatever the context, and the two are the only statuses
  with that property.\<close>

theorem terminal_absorbing:
  "isTerminal s \<longleftrightarrow> (\<forall>t c. evaluateTransition t (c\<lparr> tc_status := s \<rparr>) = Inl ILLEGAL_FROM_STATUS)"
proof
  assume "isTerminal s"
  then show "\<forall>t c. evaluateTransition t (c\<lparr> tc_status := s \<rparr>) = Inl ILLEGAL_FROM_STATUS"
    using allowed_not_terminal by (auto simp: evaluateTransition_def)
next
  assume *: "\<forall>t c. evaluateTransition t (c\<lparr> tc_status := s \<rparr>) = Inl ILLEGAL_FROM_STATUS"
  show "isTerminal s"
  proof (rule ccontr)
    assume "\<not> isTerminal s"
    then show False
      using *[rule_format, of CANCEL "undefined\<lparr> tc_settledMinor := 0 \<rparr>"] *[rule_format, of RECORD_PAYMENT undefined]
      by (cases s) (auto simp: evaluateTransition_def split: if_splits)
  qed
qed



text \<open>an invoice becomes \<open>PAID\<close> in exactly two ways. A transition other than the return from a
  failed attempt yields \<open>PAID\<close> exactly when it is a full settlement of a pending or part-paid
  invoice whose cumulative settlement covers the total, or a recorded payment on a payable
  invoice that raises the settled amount to the total exactly.\<close>

theorem paid_iff_covered:
  assumes "t \<noteq> PAYMENT_FAILED"
  shows "evaluateTransition t c = Inr PAID \<longleftrightarrow>
    t = SETTLE_FULL \<and> tc_status c \<in> {PENDING_PAYMENT, PARTIALLY_PAID} \<and> tc_totalMinor c \<le> tc_settledMinor c \<or>
    t = RECORD_PAYMENT \<and> isPayable (tc_status c) \<and> tc_settledMinor c = tc_totalMinor c \<and> 0 < tc_balanceMinor c"
  using assms by (cases t; cases "tc_status c") (auto simp: evaluateTransition_def)

theorem paid_iff_covered_witness:
  "evaluateTransition SETTLE_FULL \<lparr> tc_status = PENDING_PAYMENT, tc_previousStatus = None, tc_lineItemCount = 1,
     tc_totalMinor = 5, tc_balanceMinor = 5, tc_settledMinor = 5, tc_customerHasDeliverableEmail = True \<rparr> = Inr PAID"
  by (subst paid_iff_covered) simp_all

text \<open>settlement is decided, never ambiguous: for a pending or part-paid invoice with a positive
  cumulative settlement exactly one of the partial and the full settlement is accepted, by whether
  the total is covered, and the other is refused with the code that names it.\<close>

theorem settle_exclusive:
  assumes "tc_status c \<in> {PENDING_PAYMENT, PARTIALLY_PAID}" "0 < tc_settledMinor c"
  shows "if tc_totalMinor c \<le> tc_settledMinor c
    then evaluateTransition SETTLE_FULL c = Inr PAID \<and> evaluateTransition SETTLE_PARTIAL c = Inl BALANCE_ALREADY_CLEARED
    else evaluateTransition SETTLE_PARTIAL c = Inr PARTIALLY_PAID \<and> evaluateTransition SETTLE_FULL c = Inl BALANCE_NOT_CLEARED"
  using assms by (auto simp: evaluateTransition_def)

theorem settle_exclusive_witness:
  "evaluateTransition SETTLE_PARTIAL \<lparr> tc_status = PENDING_PAYMENT, tc_previousStatus = None, tc_lineItemCount = 1,
     tc_totalMinor = 5, tc_balanceMinor = 5, tc_settledMinor = 3, tc_customerHasDeliverableEmail = True \<rparr> = Inr PARTIALLY_PAID"
  using settle_exclusive[of "\<lparr> tc_status = PENDING_PAYMENT, tc_previousStatus = None, tc_lineItemCount = 1,
     tc_totalMinor = 5, tc_balanceMinor = 5, tc_settledMinor = 3, tc_customerHasDeliverableEmail = True \<rparr>"] by simp

text \<open>the status sets of the module agree. A status is payable exactly when a payment can be
  initiated and when one can be recorded by hand, an overdue invoice is always payable, and every
  status is exactly one of draft, payable and terminal, the terminal ones being those with a label.\<close>

theorem status_sets_agree:
  "(isPayable s \<longleftrightarrow> s \<in> set (allowed INITIATE_PAYMENT)) \<and> (isPayable s \<longleftrightarrow> s \<in> set (allowed RECORD_PAYMENT)) \<and>
   (isOverdue s due bal now \<longleftrightarrow> isPayable s \<and> 0 < bal \<and> due < now) \<and>
   (isTerminal s \<longleftrightarrow> terminalStatusLabel s \<noteq> None) \<and> (s = DRAFT \<longleftrightarrow> \<not> isPayable s \<and> \<not> isTerminal s) \<and>
   \<not> (isPayable s \<and> isTerminal s)"
  by (cases s) (auto simp: isOverdue_def terminalStatusLabel_def)

end
