(* ===== verification/Roles.thy ===== *)
theory Roles
  imports Prelude
begin

text \<open>
  \<open>packages/shared/src/domain/roles.ts\<close>: roles, the permission matrix, the table built from it
  when the module is loaded, role assignment and the access check. An unknown letter in the
  matrix throws at load time (\<open>UnknownLetter\<close>); \<open>permissions\<close> is the table as the other
  functions read it. \<open>Object\<close> lookups by role and resource are function application.
\<close>

datatype role = MERCHANT_OWNER | MERCHANT_ADMIN | BRAND_ADMIN | FINANCE_USER | SALES_USER | READ_ONLY

definition roles :: "role list" where
  "roles = [MERCHANT_OWNER, MERCHANT_ADMIN, BRAND_ADMIN, FINANCE_USER, SALES_USER, READ_ONLY]"

datatype resource =
    ORGANISATION_PROFILE
  | PLAN_AND_BILLING
  | USERS
  | BRANDS
  | BRAND_CONFIGURATION
  | TEMPLATES
  | CUSTOM_DOMAIN
  | INTEGRATIONS
  | CUSTOMERS
  | INVOICES
  | INVOICE_SEND
  | PAYMENTS
  | CHECK_APPROVAL
  | TAX_AND_FEE_CONFIG
  | REPORTS
  | AUDIT_LOG
  | SYSTEM_ADMINISTRATION

definition resources :: "resource list" where
  "resources = [ORGANISATION_PROFILE, PLAN_AND_BILLING, USERS, BRANDS, BRAND_CONFIGURATION,
    TEMPLATES, CUSTOM_DOMAIN, INTEGRATIONS, CUSTOMERS, INVOICES,
    INVOICE_SEND, PAYMENTS, CHECK_APPROVAL, TAX_AND_FEE_CONFIG, REPORTS,
    AUDIT_LOG, SYSTEM_ADMINISTRATION]"

fun matrix :: "resource \<Rightarrow> string list" where
  "matrix ORGANISATION_PROFILE = [''RWD'', ''R'', ''R'', ''R'', ''R'', ''R'']"
| "matrix PLAN_AND_BILLING = [''RWD'', '''', '''', '''', '''', '''']"
| "matrix USERS = [''RWD'', ''RWD'', ''RW'', '''', '''', '''']"
| "matrix BRANDS = [''RWD'', ''RWD'', ''R'', ''R'', ''R'', ''R'']"
| "matrix BRAND_CONFIGURATION = [''RWD'', ''RWD'', ''RWD'', ''R'', ''R'', ''R'']"
| "matrix TEMPLATES = [''RWD'', ''RWD'', ''RWD'', ''R'', ''R'', ''R'']"
| "matrix CUSTOM_DOMAIN = [''RWD'', ''RWD'', ''RWD'', '''', '''', '''']"
| "matrix INTEGRATIONS = [''RWD'', ''RWD'', ''RWD'', ''R'', '''', '''']"
| "matrix CUSTOMERS = [''RWD'', ''RWD'', ''RWD'', ''RW'', ''RW'', ''R'']"
| "matrix INVOICES = [''RWDA'', ''RWDA'', ''RWDA'', ''RWD'', ''RW'', ''R'']"
| "matrix INVOICE_SEND = [''W'', ''W'', ''W'', ''W'', ''W'', '''']"
| "matrix PAYMENTS = [''RWDA'', ''RWDA'', ''RWDA'', ''RWA'', ''R'', ''R'']"
| "matrix CHECK_APPROVAL = [''A'', ''A'', ''A'', ''A'', '''', '''']"
| "matrix TAX_AND_FEE_CONFIG = [''RWD'', ''RWD'', ''RWD'', ''R'', '''', '''']"
| "matrix REPORTS = [''R'', ''R'', ''R'', ''R'', ''R'', ''R'']"
| "matrix AUDIT_LOG = [''R'', ''R'', ''R'', '''', '''', '''']"
| "matrix SYSTEM_ADMINISTRATION = [''RWD'', ''R'', '''', '''', '''', '''']"

text \<open>R = read, W = create or update, D = delete or void, A = approve.\<close>

datatype action = READ | WRITE | DELETE | APPROVE

definition actions :: "action list" where
  "actions = [READ, WRITE, DELETE, APPROVE]"

definition action_by_letter :: "char \<Rightarrow> action option" where
  "action_by_letter c =
     (if c = CHR ''R'' then Some READ else if c = CHR ''W'' then Some WRITE
      else if c = CHR ''D'' then Some DELETE else if c = CHR ''A'' then Some APPROVE else None)"

datatype load_error = UnknownLetter char resource

definition build_cell :: "resource \<Rightarrow> string \<Rightarrow> (load_error, action list) result" where
  "build_cell res cell = rmapM (\<lambda>c. require (action_by_letter c) (UnknownLetter c res)) cell"

text \<open>\<open>MATRIX[resource][roleIndex] ?? ''\<close>, for every role of \<open>ROLES.entries()\<close> and every resource.\<close>

definition matrix_cell :: "nat \<Rightarrow> resource \<Rightarrow> string" where
  "matrix_cell i res = (if i < length (matrix res) then matrix res ! i else [])"

definition buildPermissions :: "(load_error, (role \<times> (resource \<times> action list) list) list) result" where
  "buildPermissions =
     rmapM (\<lambda>(roleIndex, role).
       rbind (rmapM (\<lambda>res. rbind (build_cell res (matrix_cell roleIndex res)) (\<lambda>as. Inr (res, as))) resources) (\<lambda>row.
       Inr (role, row))) (enumerate 0 roles)"

definition permissions :: "role \<Rightarrow> resource \<Rightarrow> action list" where
  "permissions role res =
     (case buildPermissions of
        Inl _ \<Rightarrow> []
      | Inr table \<Rightarrow> (case map_of table role of
          None \<Rightarrow> [] | Some row \<Rightarrow> (case map_of row res of None \<Rightarrow> [] | Some as \<Rightarrow> as)))"

definition all_brand_roles :: "role list" where
  "all_brand_roles = [MERCHANT_OWNER, MERCHANT_ADMIN]"

definition coversAllBrands :: "role \<Rightarrow> bool" where
  "coversAllBrands r = (r \<in> set all_brand_roles)"

definition can :: "role \<Rightarrow> resource \<Rightarrow> action \<Rightarrow> bool" where
  "can role res act = (act \<in> set (permissions role res))"

definition actionsFor :: "role \<Rightarrow> resource \<Rightarrow> action list" where
  "actionsFor role res = permissions role res"

fun rankOf :: "role \<Rightarrow> nat" where
  "rankOf MERCHANT_OWNER = 6"
| "rankOf MERCHANT_ADMIN = 5"
| "rankOf BRAND_ADMIN = 4"
| "rankOf FINANCE_USER = 3"
| "rankOf SALES_USER = 2"
| "rankOf READ_ONLY = 1"

text \<open>Seniority orders the roles.\<close>

instantiation role :: linorder
begin

definition less_eq_role :: "role \<Rightarrow> role \<Rightarrow> bool" where
  "less_eq_role r s \<longleftrightarrow> rankOf r \<le> rankOf s"

definition less_role :: "role \<Rightarrow> role \<Rightarrow> bool" where
  "less_role r s \<longleftrightarrow> rankOf r < rankOf s"

instance
proof
  fix r s t :: role
  show "r < s \<longleftrightarrow> r \<le> s \<and> \<not> s \<le> r" by (auto simp: less_eq_role_def less_role_def)
  show "r \<le> r" by (simp add: less_eq_role_def)
  show "r \<le> s \<Longrightarrow> s \<le> t \<Longrightarrow> r \<le> t" by (simp add: less_eq_role_def)
  show "r \<le> s \<Longrightarrow> s \<le> r \<Longrightarrow> r = s" by (cases r; cases s) (simp_all add: less_eq_role_def)
  show "r \<le> s \<or> s \<le> r" by (auto simp: less_eq_role_def)
qed

end

definition mayAssignRole :: "role \<Rightarrow> role \<Rightarrow> bool" where
  "mayAssignRole actor target = (can actor USERS WRITE \<and> rankOf actor \<ge> rankOf target)"

definition grantsFor :: "role \<Rightarrow> (resource \<times> action list) list" where
  "grantsFor role = map (\<lambda>res. (res, filter (\<lambda>a. a \<in> set (permissions role res)) actions)) resources"

definition hasGrant :: "(resource \<times> action list) list option \<Rightarrow> resource \<Rightarrow> action \<Rightarrow> bool" where
  "hasGrant grants res act =
     (case grants of
        None \<Rightarrow> False
      | Some g \<Rightarrow> (case map_of g res of None \<Rightarrow> False | Some as \<Rightarrow> act \<in> set as))"

definition assignableRolesFor :: "role \<Rightarrow> role list" where
  "assignableRolesFor actor = filter (mayAssignRole actor) roles"

record access_request =
  ar_role :: role
  ar_resource :: resource
  ar_action :: action
  ar_assignedBrandIds :: "string list"
  ar_brandId :: "string option"

datatype access_denial = ROLE_LACKS_ACTION | BRAND_NOT_ASSIGNED

definition checkAccess :: "access_request \<Rightarrow> (access_denial, unit) result" where
  "checkAccess r =
     (if \<not> can (ar_role r) (ar_resource r) (ar_action r) then Inl ROLE_LACKS_ACTION
      else if ar_brandId r = None \<or> coversAllBrands (ar_role r) then Inr ()
      else if the (ar_brandId r) \<in> set (ar_assignedBrandIds r) then Inr ()
      else Inl BRAND_NOT_ASSIGNED)"

section \<open>The table\<close>

lemma action_by_letter_simps [simp]:
  "action_by_letter (CHR ''R'') = Some READ" "action_by_letter (CHR ''W'') = Some WRITE"
  "action_by_letter (CHR ''D'') = Some DELETE" "action_by_letter (CHR ''A'') = Some APPROVE"
  by (simp_all add: action_by_letter_def)

definition role_index :: "role \<Rightarrow> nat" where
  "role_index r = 6 - rankOf r"

definition cell_actions :: "string \<Rightarrow> action list" where
  "cell_actions s = map (\<lambda>c. the (action_by_letter c)) s"

lemma build_cell_known:
  "list_all (\<lambda>c. action_by_letter c \<noteq> None) s \<Longrightarrow> build_cell res s = Inr (cell_actions s)"
  by (induction s) (auto simp: build_cell_def cell_actions_def)

lemma matrix_known: "i < 6 \<Longrightarrow> list_all (\<lambda>c. action_by_letter c \<noteq> None) (matrix_cell i res)"
  by (cases res) (auto simp: matrix_cell_def less_Suc_eq eval_nat_numeral)

lemma matrix_width: "length (matrix res) = 6"
  by (cases res) simp_all

lemma rmapM_Inr [simp]: "rmapM (\<lambda>x. Inr (f x)) xs = Inr (map f xs)"
  by (induction xs) simp_all

lemma resources_all: "set resources = UNIV" "distinct resources"
proof -
  show "set resources = UNIV"
  proof (intro equalityI subsetI UNIV_I)
    show "res \<in> set resources" for res by (cases res) (simp_all add: resources_def)
  qed
qed (simp add: resources_def)

definition permission_row :: "nat \<Rightarrow> (resource \<times> action list) list" where
  "permission_row i = map (\<lambda>res. (res, cell_actions (matrix_cell i res))) resources"

lemma map_of_permission_row [simp]: "map_of (permission_row i) res = Some (cell_actions (matrix_cell i res))"
  using resources_all by (simp add: permission_row_def map_of_map_restrict restrict_map_def)

lemma permission_row_build:
  assumes "i < 6"
  shows "rmapM (\<lambda>res. rbind (build_cell res (matrix_cell i res)) (\<lambda>as. Inr (res, as))) resources = Inr (permission_row i)"
proof -
  have *: "build_cell res (matrix_cell i res) = Inr (cell_actions (matrix_cell i res))" for res
    by (rule build_cell_known[OF matrix_known[OF assms]])
  show ?thesis unfolding * by (simp add: permission_row_def)
qed

lemma buildPermissions_eq:
  "buildPermissions = Inr (map (\<lambda>r. (r, permission_row (role_index r))) roles)"
  unfolding buildPermissions_def roles_def
  by (simp add: permission_row_build role_index_def eval_nat_numeral)

lemma permissions_eq: "permissions r res = cell_actions (matrix res ! role_index r)"
proof -
  have "map_of (map (\<lambda>r. (r, permission_row (role_index r))) roles) r = Some (permission_row (role_index r))"
    by (cases r) (simp_all add: roles_def)
  moreover have "role_index r < 6" by (cases r) (simp_all add: role_index_def)
  ultimately show ?thesis
    by (simp add: permissions_def buildPermissions_eq matrix_cell_def matrix_width)
qed

lemma can_eq: "can r res a \<longleftrightarrow> a \<in> set (cell_actions (matrix res ! role_index r))"
  by (simp add: can_def permissions_eq)

lemma can_users_write [simp]: "can r USERS WRITE \<longleftrightarrow> BRAND_ADMIN \<le> r"
  by (cases r) (simp_all add: can_eq cell_actions_def role_index_def less_eq_role_def)

lemma mayAssignRole_iff: "mayAssignRole a t \<longleftrightarrow> BRAND_ADMIN \<le> a \<and> t \<le> a"
  by (simp add: mayAssignRole_def less_eq_role_def)

lemma coversAllBrands_iff: "coversAllBrands r \<longleftrightarrow> MERCHANT_ADMIN \<le> r"
  by (cases r) (simp_all add: coversAllBrands_def all_brand_roles_def less_eq_role_def)

section \<open>Properties\<close>

text \<open>the module loads and the matrix is a hierarchy. Building the table meets no unknown
  letter, and a more senior role may do everything a less senior one may.\<close>

theorem permissions_monotone:
  "(\<exists>table. buildPermissions = Inr table) \<and> (r \<le> s \<and> can r res a \<longrightarrow> can s res a)"
proof
  show "\<exists>table. buildPermissions = Inr table" by (simp add: buildPermissions_eq)
  have "set (matrix res ! role_index r) \<subseteq> set (matrix res ! role_index s)" if "r \<le> s"
    using that by (cases res; cases r; cases s) (simp_all add: role_index_def less_eq_role_def)
  then show "r \<le> s \<and> can r res a \<longrightarrow> can s res a"
    by (auto simp: can_eq cell_actions_def)
qed

theorem permissions_monotone_witness: "can FINANCE_USER PAYMENTS APPROVE \<and> can MERCHANT_ADMIN PAYMENTS APPROVE"
proof -
  have "can FINANCE_USER PAYMENTS APPROVE" by (simp add: can_eq cell_actions_def role_index_def)
  then show ?thesis
    using permissions_monotone[of FINANCE_USER MERCHANT_ADMIN PAYMENTS APPROVE] by (simp add: less_eq_role_def)
qed

text \<open>role assignment never escalates. An actor may hand out a role exactly when it may administer
  users at all and the role is at or below its own; what the pickers offer is that set, and nobody
  can reach by two assignments a role that one could not give.\<close>

theorem role_assignment_no_escalation:
  "set (assignableRolesFor a) = {t. BRAND_ADMIN \<le> a \<and> t \<le> a} \<and>
   (mayAssignRole a b \<and> mayAssignRole b c \<longrightarrow> mayAssignRole a c)"
proof -
  have "set roles = UNIV" by (auto simp: roles_def intro: role.exhaust)
  then show ?thesis by (auto simp: assignableRolesFor_def mayAssignRole_iff)
qed

theorem role_assignment_no_escalation_witness:
  "mayAssignRole MERCHANT_ADMIN BRAND_ADMIN \<and> mayAssignRole BRAND_ADMIN READ_ONLY \<and> mayAssignRole MERCHANT_ADMIN READ_ONLY"
proof -
  have "mayAssignRole MERCHANT_ADMIN BRAND_ADMIN" "mayAssignRole BRAND_ADMIN READ_ONLY"
    by (simp_all add: mayAssignRole_iff less_eq_role_def)
  with role_assignment_no_escalation[of MERCHANT_ADMIN BRAND_ADMIN READ_ONLY] show ?thesis by blast
qed

text \<open>the grants handed to the client decide as the server does, for every role, resource and
  action, and without grants nothing is permitted.\<close>

theorem grants_agree_with_matrix:
  "hasGrant (Some (grantsFor r)) res a = can r res a \<and> \<not> hasGrant None res a"
proof -
  have "map_of (grantsFor r) res = Some (filter (\<lambda>a. a \<in> set (permissions r res)) actions)"
    using resources_all by (simp add: grantsFor_def map_of_map_restrict restrict_map_def)
  moreover have "a \<in> set actions" by (cases a) (simp_all add: actions_def)
  ultimately show ?thesis by (simp add: hasGrant_def can_def)
qed

text \<open>access is granted exactly when the matrix permits the action and the brand, when one is
  named, is assigned or covered by the role; the matrix is consulted first, so a role that lacks
  the action gets the same refusal for every brand.\<close>

theorem checkAccess_sound:
  "(checkAccess q = Inr () \<longleftrightarrow> can (ar_role q) (ar_resource q) (ar_action q) \<and>
     (case ar_brandId q of None \<Rightarrow> True
      | Some b \<Rightarrow> MERCHANT_ADMIN \<le> ar_role q \<or> b \<in> set (ar_assignedBrandIds q))) \<and>
   (checkAccess q = Inl ROLE_LACKS_ACTION \<longleftrightarrow> \<not> can (ar_role q) (ar_resource q) (ar_action q))"
  by (auto simp: checkAccess_def coversAllBrands_iff split: option.splits)

end
