(* ===== verification/Tenancy.thy ===== *)
theory Tenancy
  imports Roles JsString
begin

text \<open>
  The tenant isolation layers. \<open>packages/shared/src/tenancy.ts\<close>: the request and public scopes,
  the brands they reach and the database settings they become. The accessors and the brand
  predicate of \<open>apps/api/prisma/migrations/20260727180200_rls_and_grants\<close> that read those
  settings (an empty setting is \<open>NULL\<close>; identifiers are canonical, so the cast to \<open>uuid\<close> is the
  identity). \<open>apps/api/src/tenancy/authorisation.ts\<close>: the guard in front of every handler, with
  the session lookup as a parameter, and \<open>system-scope.ts\<close>.
\<close>

section \<open>Scopes\<close>

record request_scope =
  rs_merchantId :: string
  rs_userId :: string
  rs_role :: role
  rs_assignedBrandIds :: "string list"
  rs_sessionId :: string
  rs_sourceIp :: "string option"

record public_scope =
  ps_merchantId :: string
  ps_brandId :: string
  ps_invoiceId :: string
  ps_sourceIp :: "string option"

datatype scope = RequestScope request_scope | PublicScope public_scope

fun isPublicScope :: "scope \<Rightarrow> bool" where
  "isPublicScope (PublicScope _) = True"
| "isPublicScope (RequestScope _) = False"

text \<open>\<open>null\<close>, every brand of the merchant, is \<open>None\<close>.\<close>

fun readableBrandIds :: "scope \<Rightarrow> string list option" where
  "readableBrandIds (PublicScope p) = Some [ps_brandId p]"
| "readableBrandIds (RequestScope r) =
     (if coversAllBrands (rs_role r) then None else Some (rs_assignedBrandIds r))"

definition canReachBrand :: "scope \<Rightarrow> string \<Rightarrow> bool" where
  "canReachBrand sc brandId = (case readableBrandIds sc of None \<Rightarrow> True | Some bs \<Rightarrow> brandId \<in> set bs)"

record scope_settings =
  ss_merchant_id :: string
  ss_brand_ids :: string
  ss_user_id :: string
  ss_all_brands :: string

fun join_with :: "char \<Rightarrow> string list \<Rightarrow> string" where
  "join_with c [] = []"
| "join_with c [s] = s"
| "join_with c (s # t # ss) = s @ c # join_with c (t # ss)"

fun databaseScopeSettings :: "scope \<Rightarrow> scope_settings" where
  "databaseScopeSettings (PublicScope p) =
     \<lparr> ss_merchant_id = ps_merchantId p, ss_brand_ids = ps_brandId p, ss_user_id = [], ss_all_brands = ''off'' \<rparr>"
| "databaseScopeSettings (RequestScope r) =
     (let allBrands = coversAllBrands (rs_role r)
      in \<lparr> ss_merchant_id = rs_merchantId r,
           ss_brand_ids = (if allBrands then [] else join_with (CHR '','') (rs_assignedBrandIds r)),
           ss_user_id = rs_userId r,
           ss_all_brands = (if allBrands then ''on'' else ''off'') \<rparr>)"

fun scope_merchant :: "scope \<Rightarrow> string" where
  "scope_merchant (PublicScope p) = ps_merchantId p"
| "scope_merchant (RequestScope r) = rs_merchantId r"

section \<open>Row-level security\<close>

text \<open>\<open>String.prototype.split\<close> and \<open>string_to_array\<close> with a one-character separator.\<close>

fun split_on :: "char \<Rightarrow> string \<Rightarrow> string list" where
  "split_on c [] = [[]]"
| "split_on c (x # xs) =
     (if x = c then [] # split_on c xs
      else case split_on c xs of [] \<Rightarrow> [[x]] | s # ss \<Rightarrow> (x # s) # ss)"

definition app_merchant_id :: "scope_settings \<Rightarrow> string option" where
  "app_merchant_id st = (if ss_merchant_id st = [] then None else Some (ss_merchant_id st))"

definition app_all_brands :: "scope_settings \<Rightarrow> bool" where
  "app_all_brands st = ((if ss_all_brands st = [] then ''off'' else ss_all_brands st) = ''on'')"

definition app_brand_ids :: "scope_settings \<Rightarrow> string list" where
  "app_brand_ids st = (if ss_brand_ids st = [] then [] else split_on (CHR '','') (ss_brand_ids st))"

text \<open>\<open>brand_merchant\<close> is the brand table: the merchant of a brand that exists.\<close>

definition app_brand_visible :: "(string \<Rightarrow> string option) \<Rightarrow> scope_settings \<Rightarrow> string \<Rightarrow> bool" where
  "app_brand_visible brand_merchant st target =
     (case app_merchant_id st of
        None \<Rightarrow> False
      | Some m \<Rightarrow> brand_merchant target = Some m \<and> (app_all_brands st \<or> target \<in> set (app_brand_ids st)))"

lemma split_on_nonempty: "split_on c s \<noteq> []"
  by (induction s) (auto split: list.splits)

lemma split_on_plain [simp]: "c \<notin> set s \<Longrightarrow> split_on c s = [s]"
  by (induction s) auto

lemma split_on_append: "c \<notin> set s \<Longrightarrow> split_on c (s @ c # t) = s # split_on c t"
  by (induction s) auto

lemma split_join: "\<lbrakk>ss \<noteq> []; \<forall>s \<in> set ss. c \<notin> set s\<rbrakk> \<Longrightarrow> split_on c (join_with c ss) = ss"
  by (induction c ss rule: join_with.induct) (auto simp: split_on_append)

lemma join_eq_Nil: "\<forall>s \<in> set ss. s \<noteq> [] \<Longrightarrow> join_with c ss = [] \<longleftrightarrow> ss = []"
  by (induction c ss rule: join_with.induct) auto

definition id_ok :: "string \<Rightarrow> bool" where
  "id_ok s \<longleftrightarrow> s \<noteq> [] \<and> CHR '','' \<notin> set s"

fun scope_ok :: "scope \<Rightarrow> bool" where
  "scope_ok (PublicScope p) = (id_ok (ps_merchantId p) \<and> id_ok (ps_brandId p))"
| "scope_ok (RequestScope r) = (id_ok (rs_merchantId r) \<and> list_all id_ok (rs_assignedBrandIds r))"

lemma app_brand_ids_join:
  "\<lbrakk>ss_brand_ids st = join_with (CHR '','') bs; list_all id_ok bs\<rbrakk> \<Longrightarrow> app_brand_ids st = bs"
  using join_eq_Nil[of bs "CHR '',''"] split_join[of bs "CHR '',''"]
  by (auto simp: app_brand_ids_def id_ok_def list_all_iff)

lemma brand_visible_iff:
  assumes "scope_ok sc"
  shows "app_brand_visible bm (databaseScopeSettings sc) b \<longleftrightarrow> bm b = Some (scope_merchant sc) \<and> canReachBrand sc b"
proof (cases sc)
  case (RequestScope r)
  let ?st = "databaseScopeSettings sc"
  have "app_merchant_id ?st = Some (rs_merchantId r)" "app_all_brands ?st = coversAllBrands (rs_role r)"
    using assms RequestScope by (simp_all add: app_merchant_id_def app_all_brands_def id_ok_def Let_def)
  moreover have "\<not> coversAllBrands (rs_role r) \<Longrightarrow> app_brand_ids ?st = rs_assignedBrandIds r"
    using assms RequestScope by (intro app_brand_ids_join) (simp_all add: Let_def)
  ultimately show ?thesis
    unfolding RequestScope by (auto simp: app_brand_visible_def canReachBrand_def)
next
  case (PublicScope p)
  have "app_brand_ids (databaseScopeSettings sc) = [ps_brandId p]"
    using assms PublicScope by (intro app_brand_ids_join) simp_all
  then show ?thesis
    using assms unfolding PublicScope
    by (auto simp: app_brand_visible_def canReachBrand_def app_merchant_id_def app_all_brands_def id_ok_def)
qed

text \<open>
  The contract of a visibility predicate that isolates tenants: a scope sees only rows of its
  own tenant. What its clients get is that a filtered table holds nothing of another tenant.
\<close>

locale tenant_isolation =
  fixes visible :: "'scope \<Rightarrow> 'row \<Rightarrow> bool"
    and tenant :: "'scope \<Rightarrow> string"
    and row_tenant :: "'row \<Rightarrow> string option"
  assumes visible_tenant: "visible sc r \<Longrightarrow> row_tenant r = Some (tenant sc)"
begin

lemma filtered_tenant: "r \<in> set (filter (visible sc) rows) \<Longrightarrow> row_tenant r = Some (tenant sc)"
  by (simp add: visible_tenant)

lemma tenants_disjoint:
  "tenant sc \<noteq> tenant sc' \<Longrightarrow> set (filter (visible sc) rows) \<inter> set (filter (visible sc') rows) = {}"
  by (auto dest!: visible_tenant)

end

definition visible_to :: "(string \<Rightarrow> string option) \<Rightarrow> scope \<Rightarrow> string \<Rightarrow> bool" where
  "visible_to bm sc = app_brand_visible bm (databaseScopeSettings sc)"

lemma app_merchant_id_settings: "app_merchant_id (databaseScopeSettings sc) = Some m \<Longrightarrow> m = scope_merchant sc"
  by (cases sc) (auto simp: app_merchant_id_def Let_def split: if_splits)

interpretation rls: tenant_isolation "visible_to bm" scope_merchant bm for bm
  by unfold_locales
    (auto simp: visible_to_def app_brand_visible_def split: option.splits dest: app_merchant_id_settings)

section \<open>The authorisation guard\<close>

text \<open>
  A handler's metadata is \<open>isPublic\<close> and the optional requirement. Request values are strings
  or something else. \<open>request.body\<close> and \<open>request.params\<close> may be missing.
\<close>

datatype brand_from = FromParams | FromQuery | FromBody | FromNone

record permission_requirement =
  pr_resource :: resource
  pr_action :: action
  pr_brandFrom :: "brand_from option"
  pr_brandKey :: "string option"

datatype request_value = ValueString string | ValueOther

record http_request =
  rq_authorization :: "string option"
  rq_cookie :: "string option"
  rq_ip :: "string option"
  rq_params :: "(string \<times> request_value) list option"
  rq_query :: "(string \<times> request_value) list option"
  rq_body :: "(string \<times> request_value) list option"

datatype guard_error =
    UriMalformed | AuthenticationRequired | NoRequirementDeclared | MissingPathParameter string | InsufficientPermissions

definition starts_with :: "string \<Rightarrow> string \<Rightarrow> bool" where
  "starts_with prefix s = (take (length prefix) s = prefix)"

definition hex_val :: "char \<Rightarrow> nat option" where
  "hex_val c =
     (let n = of_char c :: nat in
      if 48 \<le> n \<and> n \<le> 57 then Some (n - 48)
      else if 65 \<le> n \<and> n \<le> 70 then Some (n - 55)
      else if 97 \<le> n \<and> n \<le> 102 then Some (n - 87)
      else None)"

text \<open>
  \<open>decodeURIComponent\<close>: escapes below \<open>%80\<close> are one character, \<open>%C2\<close> and \<open>%C3\<close> start a
  two-byte sequence. A malformed escape is a \<open>URIError\<close>, \<open>None\<close> here; so are the sequences
  of code points above \<open>U+00FF\<close>, which no string of the model contains.
\<close>

fun decodeURIComponent :: "string \<Rightarrow> string option" where
  "decodeURIComponent [] = Some []"
| "decodeURIComponent (x # xs) =
     (if x \<noteq> CHR ''%'' then map_option (Cons x) (decodeURIComponent xs)
      else case xs of
        a # b # rest \<Rightarrow>
          (case (hex_val a, hex_val b) of
             (Some h, Some l) \<Rightarrow>
               (let v = 16 * h + l in
                if v < 128 then map_option (Cons (char_of v)) (decodeURIComponent rest)
                else if v = 194 \<or> v = 195 then
                  (case rest of
                     p # d # e # rest' \<Rightarrow>
                       (case (hex_val d, hex_val e) of
                          (Some h', Some l') \<Rightarrow>
                            (let w = 16 * h' + l' in
                             if p = CHR ''%'' \<and> 128 \<le> w \<and> w < 192
                             then map_option (Cons (char_of (64 * (v - 192) + (w - 128)))) (decodeURIComponent rest')
                             else None)
                        | _ \<Rightarrow> None)
                   | _ \<Rightarrow> None)
                else None)
           | _ \<Rightarrow> None)
      | _ \<Rightarrow> None)"

definition session_cookie :: string where
  "session_cookie = ''sugrpay_session''"

text \<open>The loop over the cookie parts: the first part of the name wins.\<close>

fun cookie_token :: "string list \<Rightarrow> (guard_error, string option) result" where
  "cookie_token [] = Inr None"
| "cookie_token (part # parts) =
     (case split_on (CHR ''='') (js_trim part) of
        [] \<Rightarrow> cookie_token parts
      | name # rest \<Rightarrow>
          (if name = session_cookie
           then (case decodeURIComponent (join_with (CHR ''='') rest) of
                   None \<Rightarrow> Inl UriMalformed | Some t \<Rightarrow> Inr (Some t))
           else cookie_token parts))"

definition extractToken :: "http_request \<Rightarrow> (guard_error, string option) result" where
  "extractToken request =
     (case rq_authorization request of
        Some header \<Rightarrow>
          (if starts_with ''Bearer '' header then Inr (Some (js_trim (drop 7 header)))
           else (case rq_cookie request of None \<Rightarrow> Inr None | Some c \<Rightarrow>
                   (if c = [] then Inr None else cookie_token (split_on (CHR '';'') c))))
      | None \<Rightarrow> (case rq_cookie request of None \<Rightarrow> Inr None | Some c \<Rightarrow>
                   (if c = [] then Inr None else cookie_token (split_on (CHR '';'') c))))"

definition resolveBrandId :: "http_request \<Rightarrow> permission_requirement \<Rightarrow> (guard_error, string option) result" where
  "resolveBrandId request requirement =
     (let origin = (case pr_brandFrom requirement of None \<Rightarrow> FromParams | Some f \<Rightarrow> f);
          key = (case pr_brandKey requirement of None \<Rightarrow> ''brandId'' | Some k \<Rightarrow> k);
          params = (case rq_params request of None \<Rightarrow> [] | Some p \<Rightarrow> p)
      in if origin = FromNone then Inr None
         else if origin = FromParams \<and> map_of params key = None then Inl (MissingPathParameter key)
         else let source = (case origin of FromParams \<Rightarrow> rq_params request | FromQuery \<Rightarrow> rq_query request
                              | _ \<Rightarrow> rq_body request)
              in Inr (case source of
                   None \<Rightarrow> None
                 | Some m \<Rightarrow> (case map_of m key of
                     Some (ValueString v) \<Rightarrow> (if length v > 0 then Some v else None)
                   | _ \<Rightarrow> None)))"

text \<open>
  \<open>canActivate\<close>. \<open>Inr None\<close> lets a public route through with no scope, \<open>Inr (Some scope)\<close>
  lets a protected one through with the scope stored on the request.
\<close>

definition canActivate ::
  "(string \<Rightarrow> string option \<Rightarrow> request_scope option) \<Rightarrow> bool \<Rightarrow> permission_requirement option \<Rightarrow> http_request
     \<Rightarrow> (guard_error, request_scope option) result" where
  "canActivate resolve isPublic requirement request =
     (if isPublic then Inr None
      else rbind (extractToken request) (\<lambda>tok.
        case tok of
          None \<Rightarrow> Inl AuthenticationRequired
        | Some token \<Rightarrow>
            if token = [] then Inl AuthenticationRequired
            else rbind (require (resolve token (rq_ip request)) AuthenticationRequired) (\<lambda>sc.
              rbind (require requirement NoRequirementDeclared) (\<lambda>needed.
              rbind (resolveBrandId request needed) (\<lambda>brandId.
              case checkAccess \<lparr> ar_role = rs_role sc, ar_resource = pr_resource needed, ar_action = pr_action needed,
                                ar_assignedBrandIds = rs_assignedBrandIds sc, ar_brandId = brandId \<rparr> of
                Inl _ \<Rightarrow> Inl InsufficientPermissions
              | Inr _ \<Rightarrow> Inr (Some sc))))))"

text \<open>\<open>SystemScopeResolver.forBrand\<close>: the merchant comes from the unscoped brand lookup.\<close>

definition forBrand :: "(string \<Rightarrow> string option) \<Rightarrow> string \<Rightarrow> string \<Rightarrow> request_scope option" where
  "forBrand brand_merchant brandId actor =
     (case brand_merchant brandId of
        None \<Rightarrow> None
      | Some m \<Rightarrow> Some \<lparr> rs_merchantId = m, rs_userId = ''system:'' @ actor, rs_role = MERCHANT_OWNER,
          rs_assignedBrandIds = [], rs_sessionId = ''system:'' @ actor, rs_sourceIp = None \<rparr>)"

lemma resolveBrandId_params:
  assumes "resolveBrandId request needed = Inr b" "pr_brandFrom needed = None \<or> pr_brandFrom needed = Some FromParams"
  shows "\<exists>p v. rq_params request = Some p \<and>
    map_of p (case pr_brandKey needed of None \<Rightarrow> ''brandId'' | Some k \<Rightarrow> k) = Some v \<and>
    b = (case v of ValueString s \<Rightarrow> if s = [] then None else Some s | ValueOther \<Rightarrow> None)"
  using assms by (auto simp: resolveBrandId_def Let_def split: option.splits if_splits request_value.splits)

abbreviation needed_access :: "request_scope \<Rightarrow> permission_requirement \<Rightarrow> string option \<Rightarrow> access_request" where
  "needed_access sc needed b \<equiv> \<lparr> ar_role = rs_role sc, ar_resource = pr_resource needed, ar_action = pr_action needed,
     ar_assignedBrandIds = rs_assignedBrandIds sc, ar_brandId = b \<rparr>"

lemma granted_iff:
  "(case checkAccess q of Inl _ \<Rightarrow> Inl InsufficientPermissions | Inr _ \<Rightarrow> Inr (Some sc)) = Inr e \<longleftrightarrow>
     checkAccess q = Inr () \<and> e = Some sc"
  by (cases "checkAccess q") auto

lemma token_case_iff:
  "(case tok of None \<Rightarrow> Inl AuthenticationRequired
     | Some token \<Rightarrow> if token = [] then Inl AuthenticationRequired else k token) = Inr e \<longleftrightarrow>
   (\<exists>token. tok = Some token \<and> token \<noteq> [] \<and> k token = Inr e)"
  by (cases tok) auto

lemma canActivate_eq_Inr:
  "canActivate resolve False requirement request = Inr e \<longleftrightarrow>
     (\<exists>token sc needed b. extractToken request = Inr (Some token) \<and> token \<noteq> [] \<and>
       resolve token (rq_ip request) = Some sc \<and> requirement = Some needed \<and> resolveBrandId request needed = Inr b \<and>
       checkAccess (needed_access sc needed b) = Inr () \<and> e = Some sc)"
  unfolding canActivate_def if_False rbind_eq_Inr token_case_iff granted_iff require_eq_Inr by blast

section \<open>Properties\<close>

text \<open>C37: the request scope and the database agree. For a scope with non-empty, comma-free ids the
  row-level-security predicate, computed from the settings the transaction pushes, admits a brand
  exactly when the brand is one of the scope's merchant and the application-level check
  \<open>canReachBrand\<close> admits it.\<close>

theorem rls_agrees_with_scope:
  assumes "scope_ok sc"
  shows "app_brand_visible bm (databaseScopeSettings sc) b \<longleftrightarrow> bm b = Some (scope_merchant sc) \<and> canReachBrand sc b"
  using assms by (rule brand_visible_iff)

definition sample_scope :: request_scope where
  "sample_scope = \<lparr> rs_merchantId = ''m1'', rs_userId = ''u1'', rs_role = SALES_USER,
     rs_assignedBrandIds = [''b1'', ''b2''], rs_sessionId = ''s1'', rs_sourceIp = None \<rparr>"

theorem rls_agrees_with_scope_witness:
  "app_brand_visible (\<lambda>_. Some ''m1'') (databaseScopeSettings (RequestScope sample_scope)) ''b2'' \<and>
   \<not> app_brand_visible (\<lambda>_. Some ''m1'') (databaseScopeSettings (RequestScope sample_scope)) ''b3''"
proof -
  have "scope_ok (RequestScope sample_scope)" by (simp add: sample_scope_def id_ok_def)
  note * = rls_agrees_with_scope[OF this]
  have "\<not> coversAllBrands SALES_USER" by (simp add: coversAllBrands_iff less_eq_role_def)
  then show ?thesis unfolding * by (simp add: sample_scope_def canReachBrand_def)
qed

text \<open>no row of another merchant is ever visible, whatever ids, roles or brand lists the scope
  holds (even with an empty merchant id), and two scopes of different merchants see disjoint
  brands.\<close>

theorem rls_isolates_merchants:
  "(app_brand_visible bm (databaseScopeSettings sc) b \<longrightarrow> bm b = Some (scope_merchant sc)) \<and>
   (scope_merchant sc \<noteq> scope_merchant sc' \<longrightarrow>
      \<not> (app_brand_visible bm (databaseScopeSettings sc) b \<and> app_brand_visible bm (databaseScopeSettings sc') b))"
  using rls.visible_tenant[of bm sc b] rls.visible_tenant[of bm sc' b] unfolding visible_to_def by auto

theorem rls_isolates_merchants_witness:
  "app_brand_visible (\<lambda>_. Some ''m1'') (databaseScopeSettings (RequestScope sample_scope)) ''b1'' \<and>
   \<not> app_brand_visible (\<lambda>_. Some ''m1'')
      (databaseScopeSettings (RequestScope (sample_scope\<lparr> rs_merchantId := ''m2'' \<rparr>))) ''b1''"
proof -
  have "app_brand_visible (\<lambda>_. Some ''m1'') (databaseScopeSettings (RequestScope sample_scope)) ''b1''"
    by (subst brand_visible_iff) (simp_all add: sample_scope_def id_ok_def canReachBrand_def)
  with rls_isolates_merchants[of "\<lambda>_. Some ''m1''" "RequestScope sample_scope" "''b1''"
    "RequestScope (sample_scope\<lparr> rs_merchantId := ''m2'' \<rparr>)"]
  show ?thesis by (simp add: sample_scope_def)
qed

text \<open>C38: the guard fails closed. A protected route is entered only with a non-empty token that
  resolves to a session, a declared requirement whose action the role has, and, when the brand
  is taken from the path, a path that carries it; a brand id given there must be one the scope
  reaches. The scope stored on the request is the one the session resolved to.\<close>

theorem guard_fails_closed:
  assumes "canActivate resolve False requirement request = Inr entered"
  shows "\<exists>sc token needed b. entered = Some sc \<and> extractToken request = Inr (Some token) \<and> token \<noteq> [] \<and>
    resolve token (rq_ip request) = Some sc \<and> requirement = Some needed \<and>
    resolveBrandId request needed = Inr b \<and> can (rs_role sc) (pr_resource needed) (pr_action needed) \<and>
    (pr_brandFrom needed \<noteq> Some FromNone \<and> b \<noteq> None \<longrightarrow> canReachBrand (RequestScope sc) (the b)) \<and>
    (pr_brandFrom needed = None \<longrightarrow> rq_params request \<noteq> None)"
proof -
  obtain token sc needed b where *: "extractToken request = Inr (Some token)" "token \<noteq> []"
    "resolve token (rq_ip request) = Some sc" "requirement = Some needed" "resolveBrandId request needed = Inr b"
    "checkAccess (needed_access sc needed b) = Inr ()" "entered = Some sc"
    using assms unfolding canActivate_eq_Inr by blast
  have "can (rs_role sc) (pr_resource needed) (pr_action needed)"
    "b \<noteq> None \<longrightarrow> canReachBrand (RequestScope sc) (the b)"
    using *(6) by (auto simp: checkAccess_def canReachBrand_def split: if_splits)
  moreover have "pr_brandFrom needed = None \<longrightarrow> rq_params request \<noteq> None"
    using resolveBrandId_params[OF *(5)] by auto
  ultimately show ?thesis using * by (intro exI[of _ sc] exI[of _ token] exI[of _ needed] exI[of _ b]) simp
qed

definition sample_request :: http_request where
  "sample_request = \<lparr> rq_authorization = Some ''Bearer abc'', rq_cookie = None, rq_ip = None,
     rq_params = Some [(''brandId'', ValueString ''b1'')], rq_query = None, rq_body = None \<rparr>"

theorem guard_fails_closed_witness:
  "can SALES_USER INVOICES WRITE \<and>
   canActivate (\<lambda>t _. if t = ''abc'' then Some sample_scope else None) False
     (Some \<lparr> pr_resource = INVOICES, pr_action = WRITE, pr_brandFrom = None, pr_brandKey = None \<rparr>) sample_request =
     Inr (Some sample_scope)"
proof -
  have c: "can SALES_USER INVOICES WRITE" by (simp add: can_eq cell_actions_def role_index_def)
  have t: "extractToken sample_request = Inr (Some ''abc'')" by code_simp
  have *: "canActivate (\<lambda>t _. if t = ''abc'' then Some sample_scope else None) False
     (Some \<lparr> pr_resource = INVOICES, pr_action = WRITE, pr_brandFrom = None, pr_brandKey = None \<rparr>) sample_request =
     Inr (Some sample_scope)"
    unfolding canActivate_def t
    by (simp add: resolveBrandId_def checkAccess_def c sample_scope_def sample_request_def)
  from guard_fails_closed[OF *] have "can (rs_role sample_scope) INVOICES WRITE"
    by (auto simp: sample_request_def)
  with * show ?thesis by (simp add: sample_scope_def)
qed

end
