(* ===== verification/Store.thy ===== *)
theory Store
  imports Gateway InvoiceStatus Tenancy
begin

text \<open>
  The database as the services see it (\<open>apps/api/prisma/schema.prisma\<close>), and
  \<open>apps/api/src/infra/prisma/prisma.service.ts\<close>: a table is the list of its rows in insertion
  order, a query filters it by the row-level-security predicate of the transaction's scope and
  by its \<open>where\<close>, an update of a row that is not there or not visible throws
  (\<open>RecordNotFound\<close>), an insert that breaks a unique constraint throws (\<open>UniqueViolation\<close>) and
  one outside the scope is refused (\<open>RlsViolation\<close>). \<open>withScope\<close> runs a computation as a
  transaction. The columns are those the modelled services read or write; stored amounts are
  integers (they are all written from numbers, so reading one back as a number is exact).

  The world of the services is the database, the queue of sync jobs, the mails sent, the object
  store, the state of the payment gateway, the clock and the supply of random identifiers.
\<close>

section \<open>Rows\<close>

record brand_row =
  b_id :: string
  b_merchantId :: string
  b_displayName :: string

record settings_row =
  st_brandId :: string
  st_invoicePrefix :: string
  st_nextSequence :: int
  st_cardEnabled :: bool
  st_applePayEnabled :: bool
  st_googlePayEnabled :: bool
  st_achEnabled :: bool
  st_checkEnabled :: bool
  st_partialPaymentEnabled :: bool
  st_emailReceiptSubject :: string
  st_emailReceiptBody :: string

record customer_row =
  c_id :: string
  c_brandId :: string
  c_displayName :: string
  c_email :: "string option"

record invoice_row =
  i_id :: string
  i_brandId :: string
  i_customerId :: string
  i_number :: string
  i_status :: invoice_status
  i_invoiceDate :: int
  i_dueDate :: int
  i_currency :: string
  i_subtotalMinor :: int
  i_taxRateBpApplied :: int
  i_taxMinor :: int
  i_cardFeeRateBpApplied :: int
  i_cardFeeMinor :: int
  i_totalMinor :: int
  i_balanceMinor :: int
  i_publicToken :: string
  i_publicTokenActive :: bool
  i_notes :: "string option"
  i_internalNotes :: "string option"
  i_zohoInvoiceId :: "string option"
  i_issuedAt :: "int option"
  i_firstViewedAt :: "int option"
  i_paidAt :: "int option"
  i_cancelledAt :: "int option"
  i_previousStatus :: "invoice_status option"
  i_overdue :: bool
  i_createdAt :: int

record line_row =
  l_invoiceId :: string
  l_position :: nat
  l_itemName :: string
  l_description :: "string option"
  l_quantity :: int
  l_unitPriceMinor :: int
  l_lineTotalMinor :: int
  l_taxExempt :: bool

record payment_row =
  p_id :: string
  p_invoiceId :: string
  p_brandId :: string
  p_method :: payment_method
  p_amountMinor :: int
  p_currency :: string
  p_status :: payment_status
  p_gatewayReference :: "string option"
  p_idempotencyKey :: string
  p_lastEventAt :: "int option"
  p_declineReason :: "string option"
  p_settledAt :: "int option"
  p_createdAt :: int

datatype event_payload =
    NoPayload
  | DeclinePayload string
  | ManualPayload string int payment_method "string option"

record event_row =
  e_invoiceId :: string
  e_eventType :: string
  e_fromStatus :: "invoice_status option"
  e_toStatus :: "invoice_status option"
  e_actor :: string
  e_payload :: event_payload
  e_occurredAt :: int

datatype check_status = SUBMITTED | UNDER_REVIEW | APPROVED | REJECTED

record check_row =
  k_id :: string
  k_invoiceId :: string
  k_brandId :: string
  k_checkNumber :: string
  k_amountMinor :: int
  k_frontImageKey :: string
  k_backImageKey :: string
  k_customerNote :: "string option"
  k_status :: check_status
  k_reviewedBy :: "string option"
  k_reviewNote :: "string option"
  k_reviewedAt :: "int option"
  k_createdAt :: int

record db =
  brands :: "brand_row list"
  settings :: "settings_row list"
  customers :: "customer_row list"
  invoices :: "invoice_row list"
  line_items :: "line_row list"
  payments :: "payment_row list"
  events :: "event_row list"
  checks :: "check_row list"

section \<open>The world\<close>

datatype job = PushInvoice string string | PushPayment string string

text \<open>A message handed to the mail port; \<open>m_attachments\<close> are names, the HTML alternative is left out.\<close>

record mail =
  m_to :: string
  m_cc :: "string option"
  m_from :: string
  m_subject :: string
  m_text :: string
  m_attachments :: "string list"
  m_brandId :: string
  m_invoiceId :: string
  m_templateKey :: string
  m_idempotencyKey :: string

record 'g world =
  w_db :: db
  w_jobs :: "job list"
  w_mails :: "mail list"
  w_objects :: "string list"
  w_gateway :: 'g
  w_now :: int
  w_ids :: "nat \<Rightarrow> string"
  w_drawn :: nat

datatype service_error =
    BadRequest string
  | ConflictWith string
  | TransitionRefused transition_failure
  | NotFoundErr string
  | BadGatewayErr string
  | MoneyThrew money_error
  | GatewayThrew gateway_error
  | UniqueViolation string
  | RecordNotFound
  | RlsViolation
  | MissingRelation string
  | ColumnRange string
  | InternalErr string

type_synonym ('g, 'a) service = "('g world, service_error, 'a) eff"

definition withScope :: "('g, 'a) service \<Rightarrow> ('g, 'a) service" where
  "withScope m = transaction (\<lambda>w\<^sub>0 w. w\<lparr> w_db := w_db w\<^sub>0 \<rparr>) m"

definition now_ms :: "('g, int) service" where
  "now_ms = egets w_now"

definition draw_id :: "('g, string) service" where
  "draw_id = (\<lambda>w. (Inr (w_ids w (w_drawn w)), w\<lparr> w_drawn := w_drawn w + 1 \<rparr>))"

definition enqueue :: "job \<Rightarrow> ('g, unit) service" where
  "enqueue j = emodify (\<lambda>w. w\<lparr> w_jobs := w_jobs w @ [j] \<rparr>)"

text \<open>An \<open>IntegrationError\<close> or any other exception of the gateway propagates as it is.\<close>

definition call_gateway :: "('g, gateway_error, 'a) eff \<Rightarrow> ('g, 'a) service" where
  "call_gateway m = (\<lambda>w. case m (w_gateway w) of
       (Inl e, g) \<Rightarrow> (Inl (GatewayThrew e), w\<lparr> w_gateway := g \<rparr>)
     | (Inr a, g) \<Rightarrow> (Inr a, w\<lparr> w_gateway := g \<rparr>))"

definition money :: "(money_error, 'a) result \<Rightarrow> ('g, 'a) service" where
  "money r = elift (case r of Inl e \<Rightarrow> Inl (MoneyThrew e) | Inr a \<Rightarrow> Inr a)"

definition decide :: "(transition_failure, 'a) result \<Rightarrow> ('g, 'a) service" where
  "decide r = elift (case r of Inl e \<Rightarrow> Inl (TransitionRefused e) | Inr a \<Rightarrow> Inr a)"

definition show_int :: "int \<Rightarrow> string" where
  "show_int n = (if n < 0 then ''-'' @ show_nat (nat (- n)) else show_nat (nat n))"

section \<open>Queries and updates\<close>

definition brand_merchant :: "db \<Rightarrow> string \<Rightarrow> string option" where
  "brand_merchant d b = map_option b_merchantId (find (\<lambda>r. b_id r = b) (brands d))"

definition sees :: "scope \<Rightarrow> db \<Rightarrow> string \<Rightarrow> bool" where
  "sees sc d b = visible_to (brand_merchant d) sc b"

definition map_rows :: "('r \<Rightarrow> bool) \<Rightarrow> ('r \<Rightarrow> 'r) \<Rightarrow> 'r list \<Rightarrow> 'r list" where
  "map_rows P f rows = map (\<lambda>r. if P r then f r else r) rows"

definition invoice_find :: "scope \<Rightarrow> (invoice_row \<Rightarrow> bool) \<Rightarrow> ('g, invoice_row option) service" where
  "invoice_find sc P = egets (\<lambda>w. find (\<lambda>r. sees sc (w_db w) (i_brandId r) \<and> P r) (invoices (w_db w)))"

definition invoice_all :: "scope \<Rightarrow> (invoice_row \<Rightarrow> bool) \<Rightarrow> ('g, invoice_row list) service" where
  "invoice_all sc P = egets (\<lambda>w. filter (\<lambda>r. sees sc (w_db w) (i_brandId r) \<and> P r) (invoices (w_db w)))"

definition invoice_updateMany :: "scope \<Rightarrow> (invoice_row \<Rightarrow> bool) \<Rightarrow> (invoice_row \<Rightarrow> invoice_row) \<Rightarrow> ('g, nat) service" where
  "invoice_updateMany sc P f = (\<lambda>w.
     let d = w_db w; Q = (\<lambda>r. sees sc d (i_brandId r) \<and> P r)
     in (Inr (length (filter Q (invoices d))), w\<lparr> w_db := d\<lparr> invoices := map_rows Q f (invoices d) \<rparr> \<rparr>))"

definition invoice_update :: "scope \<Rightarrow> string \<Rightarrow> (invoice_row \<Rightarrow> invoice_row) \<Rightarrow> ('g, unit) service" where
  "invoice_update sc rid f =
     ebind (invoice_updateMany sc (\<lambda>r. i_id r = rid) f) (\<lambda>n. if n = 0 then ethrow RecordNotFound else ereturn ())"

definition invoice_create :: "scope \<Rightarrow> invoice_row \<Rightarrow> ('g, unit) service" where
  "invoice_create sc r = (\<lambda>w.
     let d = w_db w in
     if \<not> sees sc d (i_brandId r) then (Inl RlsViolation, w)
     else if list_ex (\<lambda>x. i_id x = i_id r) (invoices d) then (Inl (UniqueViolation ''id''), w)
     else if list_ex (\<lambda>x. i_publicToken x = i_publicToken r) (invoices d) then (Inl (UniqueViolation ''public_token''), w)
     else if list_ex (\<lambda>x. i_brandId x = i_brandId r \<and> i_number x = i_number r) (invoices d) then (Inl (UniqueViolation ''number''), w)
     else (Inr (), w\<lparr> w_db := d\<lparr> invoices := invoices d @ [r] \<rparr> \<rparr>))"

text \<open>\<open>quantity\<close> is a 32-bit column.\<close>

definition int32 :: "int \<Rightarrow> bool" where
  "int32 n \<longleftrightarrow> - 2147483648 \<le> n \<and> n \<le> 2147483647"

definition lines_create :: "line_row list \<Rightarrow> ('g, unit) service" where
  "lines_create ls = (\<lambda>w.
     if list_ex (\<lambda>l. \<not> int32 (l_quantity l)) ls then (Inl (ColumnRange ''quantity''), w)
     else (Inr (), w\<lparr> w_db := (w_db w)\<lparr> line_items := line_items (w_db w) @ ls \<rparr> \<rparr>))"

text \<open>\<open>include: { lineItems: { orderBy: { position: 'asc' } } }\<close> of an invoice already read.\<close>

definition lines_of :: "db \<Rightarrow> string \<Rightarrow> line_row list" where
  "lines_of d iid = sort_key l_position (filter (\<lambda>l. l_invoiceId l = iid) (line_items d))"

definition customer_find :: "scope \<Rightarrow> (customer_row \<Rightarrow> bool) \<Rightarrow> ('g, customer_row option) service" where
  "customer_find sc P = egets (\<lambda>w. find (\<lambda>r. sees sc (w_db w) (c_brandId r) \<and> P r) (customers (w_db w)))"

text \<open>The required relation \<open>customer\<close> of an invoice, and \<open>brand\<close>.\<close>

definition invoice_customer :: "scope \<Rightarrow> invoice_row \<Rightarrow> ('g, customer_row) service" where
  "invoice_customer sc iv =
     ebind (customer_find sc (\<lambda>r. c_id r = i_customerId iv)) (\<lambda>c. elift (require c (MissingRelation ''customer'')))"

definition invoice_brand :: "scope \<Rightarrow> invoice_row \<Rightarrow> ('g, brand_row) service" where
  "invoice_brand sc iv =
     ebind (egets (\<lambda>w. find (\<lambda>r. sees sc (w_db w) (b_id r) \<and> b_id r = i_brandId iv) (brands (w_db w))))
       (\<lambda>b. elift (require b (MissingRelation ''brand'')))"

definition settings_find :: "scope \<Rightarrow> string \<Rightarrow> ('g, settings_row option) service" where
  "settings_find sc b = egets (\<lambda>w. find (\<lambda>r. sees sc (w_db w) (st_brandId r) \<and> st_brandId r = b) (settings (w_db w)))"

definition settings_modify :: "scope \<Rightarrow> string \<Rightarrow> (settings_row \<Rightarrow> settings_row) \<Rightarrow> ('g, settings_row) service" where
  "settings_modify sc b f = (\<lambda>w.
     let d = w_db w; Q = (\<lambda>r. sees sc d (st_brandId r) \<and> st_brandId r = b)
     in case find Q (settings d) of
          None \<Rightarrow> (Inl RecordNotFound, w)
        | Some r \<Rightarrow> (Inr (f r), w\<lparr> w_db := d\<lparr> settings := map_rows Q f (settings d) \<rparr> \<rparr>))"

definition payment_find :: "scope \<Rightarrow> (payment_row \<Rightarrow> bool) \<Rightarrow> ('g, payment_row option) service" where
  "payment_find sc P = egets (\<lambda>w. find (\<lambda>r. sees sc (w_db w) (p_brandId r) \<and> P r) (payments (w_db w)))"

definition payment_all :: "scope \<Rightarrow> (payment_row \<Rightarrow> bool) \<Rightarrow> ('g, payment_row list) service" where
  "payment_all sc P = egets (\<lambda>w. filter (\<lambda>r. sees sc (w_db w) (p_brandId r) \<and> P r) (payments (w_db w)))"

definition payment_create :: "scope \<Rightarrow> payment_row \<Rightarrow> ('g, unit) service" where
  "payment_create sc r = (\<lambda>w.
     let d = w_db w in
     if \<not> sees sc d (p_brandId r) then (Inl RlsViolation, w)
     else if list_ex (\<lambda>x. p_id x = p_id r) (payments d) then (Inl (UniqueViolation ''id''), w)
     else if list_ex (\<lambda>x. p_idempotencyKey x = p_idempotencyKey r) (payments d) then (Inl (UniqueViolation ''idempotency_key''), w)
     else (Inr (), w\<lparr> w_db := d\<lparr> payments := payments d @ [r] \<rparr> \<rparr>))"

definition payment_update :: "scope \<Rightarrow> string \<Rightarrow> (payment_row \<Rightarrow> payment_row) \<Rightarrow> ('g, unit) service" where
  "payment_update sc rid f = (\<lambda>w.
     let d = w_db w; Q = (\<lambda>r. sees sc d (p_brandId r) \<and> p_id r = rid)
     in if list_ex Q (payments d)
        then (Inr (), w\<lparr> w_db := d\<lparr> payments := map_rows Q f (payments d) \<rparr> \<rparr>)
        else (Inl RecordNotFound, w))"

text \<open>The update that sets \<open>gatewayReference\<close>, which is unique.\<close>

definition payment_setReference :: "scope \<Rightarrow> string \<Rightarrow> string \<Rightarrow> ('g, unit) service" where
  "payment_setReference sc rid reference = (\<lambda>w.
     if list_ex (\<lambda>x. p_id x \<noteq> rid \<and> p_gatewayReference x = Some reference) (payments (w_db w))
     then (Inl (UniqueViolation ''gateway_reference''), w)
     else payment_update sc rid (\<lambda>p. p\<lparr> p_gatewayReference := Some reference \<rparr>) w)"

definition event_create :: "event_row \<Rightarrow> ('g, unit) service" where
  "event_create r = emodify (\<lambda>w. w\<lparr> w_db := (w_db w)\<lparr> events := events (w_db w) @ [r] \<rparr> \<rparr>)"

definition check_find :: "scope \<Rightarrow> (check_row \<Rightarrow> bool) \<Rightarrow> ('g, check_row option) service" where
  "check_find sc P = egets (\<lambda>w. find (\<lambda>r. sees sc (w_db w) (k_brandId r) \<and> P r) (checks (w_db w)))"

definition check_all :: "scope \<Rightarrow> (check_row \<Rightarrow> bool) \<Rightarrow> ('g, check_row list) service" where
  "check_all sc P = egets (\<lambda>w. filter (\<lambda>r. sees sc (w_db w) (k_brandId r) \<and> P r) (checks (w_db w)))"

definition check_create :: "scope \<Rightarrow> check_row \<Rightarrow> ('g, unit) service" where
  "check_create sc r = (\<lambda>w.
     let d = w_db w in
     if \<not> sees sc d (k_brandId r) then (Inl RlsViolation, w)
     else if list_ex (\<lambda>x. k_id x = k_id r) (checks d) then (Inl (UniqueViolation ''id''), w)
     else (Inr (), w\<lparr> w_db := d\<lparr> checks := checks d @ [r] \<rparr> \<rparr>))"

definition check_updateMany :: "scope \<Rightarrow> (check_row \<Rightarrow> bool) \<Rightarrow> (check_row \<Rightarrow> check_row) \<Rightarrow> ('g, nat) service" where
  "check_updateMany sc P f = (\<lambda>w.
     let d = w_db w; Q = (\<lambda>r. sees sc d (k_brandId r) \<and> P r)
     in (Inr (length (filter Q (checks d))), w\<lparr> w_db := d\<lparr> checks := map_rows Q f (checks d) \<rparr> \<rparr>))"

text \<open>\<open>skip: (page - 1) * pageSize, take: pageSize\<close> of rows ordered by creation, newest first.\<close>

definition page_of :: "nat \<Rightarrow> nat \<Rightarrow> 'r list \<Rightarrow> 'r list" where
  "page_of page pageSize rows = take pageSize (drop ((page - 1) * pageSize) rows)"

definition newest_first :: "('r \<Rightarrow> int) \<Rightarrow> 'r list \<Rightarrow> 'r list" where
  "newest_first created rows = sort_key (\<lambda>r. - created r) rows"

text \<open>\<open>isPublicScope(scope) ? 'system' : scope.userId\<close>.\<close>

fun scope_actor :: "scope \<Rightarrow> string" where
  "scope_actor (PublicScope _) = ''system''"
| "scope_actor (RequestScope r) = rs_userId r"

section \<open>Rows and their updates\<close>

lemma map_rows_none: "\<not> list_ex P rows \<Longrightarrow> map_rows P f rows = rows"
  by (induction rows) (auto simp: map_rows_def)

lemma map_rows_keys: "(\<And>r. key (f r) = key r) \<Longrightarrow> map key (map_rows P f rows) = map key rows"
  by (induction rows) (auto simp: map_rows_def)

lemma set_map_rows: "set (map_rows P f rows) = (\<lambda>r. if P r then f r else r) ` set rows"
  by (simp add: map_rows_def)

lemma map_rows_map_rows:
  "(\<And>r. P r \<Longrightarrow> P (f r)) \<Longrightarrow> map_rows P g (map_rows P f rows) = map_rows P (\<lambda>r. g (f r)) rows"
  by (simp add: map_rows_def)

lemma find_map_rows:
  "(\<And>r. Q (f r) = Q r) \<Longrightarrow> find Q (map_rows P f rows) = map_option (\<lambda>r. if P r then f r else r) (find Q rows)"
  by (induction rows) (auto simp: map_rows_def)

lemma list_ex_map_rows: "(\<And>r. Q (f r) = Q r) \<Longrightarrow> list_ex Q (map_rows P f rows) = list_ex Q rows"
  by (induction rows) (auto simp: map_rows_def)

lemma length_filter_pos: "0 < length (filter P rows) \<longleftrightarrow> list_ex P rows"
  by (induction rows) auto

lemma filter_empty_list_ex: "filter P rows = [] \<longleftrightarrow> \<not> list_ex P rows"
  by (induction rows) auto

lemma find_list_ex: "find P rows = Some r \<Longrightarrow> list_ex P rows"
  by (auto simp: list_ex_iff dest: find_Some_iff')

lemma found_again: "\<lbrakk>r \<in> set rows; Q (if P r then f r else r)\<rbrakk> \<Longrightarrow> find Q (map_rows P f rows) \<noteq> None"
  by (cases "P r") (auto simp: find_None_iff' set_map_rows)

lemma find_distinct:
  "\<lbrakk>distinct (map key rows); r \<in> set rows; P r; \<And>x. P x \<Longrightarrow> key x = key r\<rbrakk> \<Longrightarrow> find P rows = Some r"
proof (induction rows)
  case (Cons a rows)
  show ?case
  proof (cases "P a")
    case True
    then have "key a = key r" by (rule Cons.prems(4))
    then have "r = a" using Cons.prems(1,2) by (metis distinct.simps(2) image_eqI list.set_map list.simps(9) set_ConsD)
    with True show ?thesis by simp
  next
    case False
    then have "r \<in> set rows" using Cons.prems(2,3) by auto
    then have "find P rows = Some r" using Cons.prems(1) by (intro Cons.IH Cons.prems(3,4)) auto
    with False show ?thesis by simp
  qed
qed simp

lemma distinct_key_eq: "\<lbrakk>distinct (map key rows); r \<in> set rows; s \<in> set rows; key r = key s\<rbrakk> \<Longrightarrow> r = s"
  by (auto simp: distinct_map dest: inj_onD)

section \<open>Weakest preconditions of the store\<close>

declare invoice_find_def [wp_simps] invoice_all_def [wp_simps] customer_find_def [wp_simps]
  invoice_customer_def [wp_simps] invoice_brand_def [wp_simps] settings_find_def [wp_simps] payment_find_def [wp_simps]
  payment_all_def [wp_simps] event_create_def [wp_simps] check_find_def [wp_simps] check_all_def [wp_simps]
  now_ms_def [wp_simps] enqueue_def [wp_simps] withScope_def [wp_simps]

abbreviation with_invoices :: "'g world \<Rightarrow> invoice_row list \<Rightarrow> 'g world" where
  "with_invoices w rows \<equiv> w\<lparr> w_db := (w_db w)\<lparr> invoices := rows \<rparr> \<rparr>"

abbreviation with_payments :: "'g world \<Rightarrow> payment_row list \<Rightarrow> 'g world" where
  "with_payments w rows \<equiv> w\<lparr> w_db := (w_db w)\<lparr> payments := rows \<rparr> \<rparr>"

abbreviation seen_invoice :: "scope \<Rightarrow> 'g world \<Rightarrow> string \<Rightarrow> invoice_row \<Rightarrow> bool" where
  "seen_invoice sc w rid \<equiv> (\<lambda>r. sees sc (w_db w) (i_brandId r) \<and> i_id r = rid)"

abbreviation seen_payment :: "scope \<Rightarrow> 'g world \<Rightarrow> string \<Rightarrow> payment_row \<Rightarrow> bool" where
  "seen_payment sc w rid \<equiv> (\<lambda>r. sees sc (w_db w) (p_brandId r) \<and> p_id r = rid)"

lemma wp_draw_id [wp_simps]: "wp draw_id Q E = (\<lambda>w. Q (w_ids w (w_drawn w)) (w\<lparr> w_drawn := w_drawn w + 1 \<rparr>))"
  by (rule ext) (simp add: wp_def draw_id_def)

lemma wp_call_gateway [wp_simps]:
  "wp (call_gateway m) Q E = (\<lambda>w. case m (w_gateway w) of
     (Inl e, g) \<Rightarrow> E (GatewayThrew e) (w\<lparr> w_gateway := g \<rparr>) | (Inr a, g) \<Rightarrow> Q a (w\<lparr> w_gateway := g \<rparr>))"
  by (rule ext) (simp add: wp_def call_gateway_def split: prod.splits sum.splits)

lemma wp_money [wp_simps]: "wp (money r) Q E = (\<lambda>w. case r of Inl e \<Rightarrow> E (MoneyThrew e) w | Inr a \<Rightarrow> Q a w)"
  by (rule ext) (simp add: wp_def money_def split: sum.splits)

lemma wp_decide [wp_simps]: "wp (decide r) Q E = (\<lambda>w. case r of Inl e \<Rightarrow> E (TransitionRefused e) w | Inr a \<Rightarrow> Q a w)"
  by (rule ext) (simp add: wp_def decide_def split: sum.splits)

lemma wp_invoice_updateMany [wp_simps]:
  "wp (invoice_updateMany sc P f) Q E = (\<lambda>w.
     let R = (\<lambda>r. sees sc (w_db w) (i_brandId r) \<and> P r)
     in Q (length (filter R (invoices (w_db w)))) (with_invoices w (map_rows R f (invoices (w_db w)))))"
  by (rule ext) (simp add: wp_def invoice_updateMany_def Let_def)

lemma wp_invoice_update [wp_simps]:
  "wp (invoice_update sc rid f) Q E = (\<lambda>w.
     if list_ex (seen_invoice sc w rid) (invoices (w_db w))
     then Q () (with_invoices w (map_rows (seen_invoice sc w rid) f (invoices (w_db w))))
     else E RecordNotFound w)"
  unfolding invoice_update_def wp_bind
  by (rule ext) (auto simp: wp_simps Let_def filter_empty_list_ex map_rows_none)

lemma wp_payment_update [wp_simps]:
  "wp (payment_update sc rid f) Q E = (\<lambda>w.
     if list_ex (seen_payment sc w rid) (payments (w_db w))
     then Q () (with_payments w (map_rows (seen_payment sc w rid) f (payments (w_db w))))
     else E RecordNotFound w)"
  by (rule ext) (simp add: wp_def payment_update_def Let_def)

lemma wp_payment_setReference [wp_simps]:
  "wp (payment_setReference sc rid reference) Q E = (\<lambda>w.
     if list_ex (\<lambda>x. p_id x \<noteq> rid \<and> p_gatewayReference x = Some reference) (payments (w_db w))
     then E (UniqueViolation ''gateway_reference'') w
     else wp (payment_update sc rid (\<lambda>p. p\<lparr> p_gatewayReference := Some reference \<rparr>)) Q E w)"
  by (rule ext) (simp add: wp_def payment_setReference_def)

lemma wp_payment_create [wp_simps]:
  "wp (payment_create sc r) Q E = (\<lambda>w.
     if \<not> sees sc (w_db w) (p_brandId r) then E RlsViolation w
     else if list_ex (\<lambda>x. p_id x = p_id r) (payments (w_db w)) then E (UniqueViolation ''id'') w
     else if list_ex (\<lambda>x. p_idempotencyKey x = p_idempotencyKey r) (payments (w_db w)) then E (UniqueViolation ''idempotency_key'') w
     else Q () (with_payments w (payments (w_db w) @ [r])))"
  by (rule ext) (simp add: wp_def payment_create_def Let_def)

lemma wp_invoice_create [wp_simps]:
  "wp (invoice_create sc r) Q E = (\<lambda>w.
     let rows = invoices (w_db w) in
     if \<not> sees sc (w_db w) (i_brandId r) then E RlsViolation w
     else if list_ex (\<lambda>x. i_id x = i_id r) rows then E (UniqueViolation ''id'') w
     else if list_ex (\<lambda>x. i_publicToken x = i_publicToken r) rows then E (UniqueViolation ''public_token'') w
     else if list_ex (\<lambda>x. i_brandId x = i_brandId r \<and> i_number x = i_number r) rows then E (UniqueViolation ''number'') w
     else Q () (with_invoices w (rows @ [r])))"
  by (rule ext) (simp add: wp_def invoice_create_def Let_def)

lemma wp_lines_create [wp_simps]:
  "wp (lines_create ls) Q E = (\<lambda>w.
     if list_ex (\<lambda>l. \<not> int32 (l_quantity l)) ls then E (ColumnRange ''quantity'') w
     else Q () (w\<lparr> w_db := (w_db w)\<lparr> line_items := line_items (w_db w) @ ls \<rparr> \<rparr>))"
  by (rule ext) (simp add: wp_def lines_create_def)

lemma wp_settings_modify [wp_simps]:
  "wp (settings_modify sc b f) Q E = (\<lambda>w.
     let R = (\<lambda>r. sees sc (w_db w) (st_brandId r) \<and> st_brandId r = b)
     in case find R (settings (w_db w)) of
          None \<Rightarrow> E RecordNotFound w
        | Some r \<Rightarrow> Q (f r) (w\<lparr> w_db := (w_db w)\<lparr> settings := map_rows R f (settings (w_db w)) \<rparr> \<rparr>))"
  by (rule ext) (simp add: wp_def settings_modify_def Let_def split: option.splits)

lemma wp_check_create [wp_simps]:
  "wp (check_create sc r) Q E = (\<lambda>w.
     if \<not> sees sc (w_db w) (k_brandId r) then E RlsViolation w
     else if list_ex (\<lambda>x. k_id x = k_id r) (checks (w_db w)) then E (UniqueViolation ''id'') w
     else Q () (w\<lparr> w_db := (w_db w)\<lparr> checks := checks (w_db w) @ [r] \<rparr> \<rparr>))"
  by (rule ext) (simp add: wp_def check_create_def Let_def)

lemma wp_check_updateMany [wp_simps]:
  "wp (check_updateMany sc P f) Q E = (\<lambda>w.
     let R = (\<lambda>r. sees sc (w_db w) (k_brandId r) \<and> P r)
     in Q (length (filter R (checks (w_db w)))) (w\<lparr> w_db := (w_db w)\<lparr> checks := map_rows R f (checks (w_db w)) \<rparr> \<rparr>))"
  by (rule ext) (simp add: wp_def check_updateMany_def Let_def)

text \<open>Who sees what depends on the brands alone, and no modelled operation changes a brand.\<close>

lemma brand_merchant_simps [simp]:
  "brand_merchant (d\<lparr> settings := a \<rparr>) = brand_merchant d" "brand_merchant (d\<lparr> customers := a1 \<rparr>) = brand_merchant d"
  "brand_merchant (d\<lparr> invoices := a2 \<rparr>) = brand_merchant d" "brand_merchant (d\<lparr> line_items := a3 \<rparr>) = brand_merchant d"
  "brand_merchant (d\<lparr> payments := a4 \<rparr>) = brand_merchant d" "brand_merchant (d\<lparr> events := a5 \<rparr>) = brand_merchant d"
  "brand_merchant (d\<lparr> checks := a6 \<rparr>) = brand_merchant d"
  by (simp_all add: brand_merchant_def fun_eq_iff)

lemma sees_simps [simp]:
  "sees sc (d\<lparr> settings := a \<rparr>) b = sees sc d b" "sees sc (d\<lparr> customers := a1 \<rparr>) b = sees sc d b"
  "sees sc (d\<lparr> invoices := a2 \<rparr>) b = sees sc d b" "sees sc (d\<lparr> line_items := a3 \<rparr>) b = sees sc d b"
  "sees sc (d\<lparr> payments := a4 \<rparr>) b = sees sc d b" "sees sc (d\<lparr> events := a5 \<rparr>) b = sees sc d b"
  "sees sc (d\<lparr> checks := a6 \<rparr>) b = sees sc d b"
  by (simp_all add: sees_def)

lemma world_same_db [simp]: "w\<lparr> w_db := w_db w \<rparr> = w"
  by (cases w) simp

section \<open>The outbox\<close>

text \<open>What a transaction leaves alone: the queue, the mails and the object store.\<close>

definition outbox :: "'g world \<Rightarrow> job list \<times> mail list \<times> string list" where
  "outbox w = (w_jobs w, w_mails w, w_objects w)"

lemma outbox_simps [simp]:
  "outbox (w\<lparr> w_db := d \<rparr>) = outbox w" "outbox (w\<lparr> w_gateway := g \<rparr>) = outbox w" "outbox (w\<lparr> w_drawn := n \<rparr>) = outbox w"
  "outbox (w\<lparr> w_now := t \<rparr>) = outbox w"
  by (simp_all add: outbox_def)

lemma outbox_primitives [preserves_intros]:
  "preserves (\<lambda>w. outbox w = b) (invoice_find sc P)" "preserves (\<lambda>w. outbox w = b) (invoice_all sc P)"
  "preserves (\<lambda>w. outbox w = b) (invoice_updateMany sc P f)" "preserves (\<lambda>w. outbox w = b) (invoice_update sc rid f)"
  "preserves (\<lambda>w. outbox w = b) (invoice_create sc r)" "preserves (\<lambda>w. outbox w = b) (lines_create ls)"
  "preserves (\<lambda>w. outbox w = b) (customer_find sc Pc)" "preserves (\<lambda>w. outbox w = b) (invoice_customer sc iv)"
  "preserves (\<lambda>w. outbox w = b) (invoice_brand sc iv)" "preserves (\<lambda>w. outbox w = b) (settings_find sc k)"
  "preserves (\<lambda>w. outbox w = b) (settings_modify sc k fs)" "preserves (\<lambda>w. outbox w = b) (payment_find sc Pp)"
  "preserves (\<lambda>w. outbox w = b) (payment_all sc Pp)" "preserves (\<lambda>w. outbox w = b) (payment_create sc p)"
  "preserves (\<lambda>w. outbox w = b) (payment_update sc rid fp)" "preserves (\<lambda>w. outbox w = b) (payment_setReference sc rid k)"
  "preserves (\<lambda>w. outbox w = b) (event_create ev)" "preserves (\<lambda>w. outbox w = b) (check_find sc Pk)"
  "preserves (\<lambda>w. outbox w = b) (check_all sc Pk)" "preserves (\<lambda>w. outbox w = b) (check_create sc kr)"
  "preserves (\<lambda>w. outbox w = b) (check_updateMany sc Pk fk)" "preserves (\<lambda>w. outbox w = b) now_ms"
  "preserves (\<lambda>w. outbox w = b) draw_id" "preserves (\<lambda>w. outbox w = b) (call_gateway m)"
  "preserves (\<lambda>w. outbox w = b) (money rm)" "preserves (\<lambda>w. outbox w = b) (decide rd)"
  by (auto simp: preserves_wp wp_simps Let_def split: option.splits sum.splits prod.splits)

lemma rollback_atomic:
  assumes "preserves (\<lambda>w. outbox w = b) m" "outbox w = b" "withScope m w = (Inl e, w')"
  shows "w_db w' = w_db w \<and> outbox w' = outbox w"
proof -
  obtain w'' where "m w = (Inl e, w'')" "w' = w''\<lparr> w_db := w_db w \<rparr>"
    using assms(3) by (auto simp: withScope_def transaction_Inl)
  with preservesD[OF assms(1,2) this(1)] assms(2) show ?thesis by simp
qed

section \<open>Appended rows\<close>

lemma map_rows_new:
  "\<not> list_ex (\<lambda>x. key x = key r) rows \<Longrightarrow>
     map_rows (\<lambda>x. Q x \<and> key x = key r) f (rows @ [r]) = rows @ [if Q r then f r else r]"
  by (induction rows) (auto simp: map_rows_def)

lemma map_rows_cong:
  "(\<And>r. r \<in> set rows \<Longrightarrow> P r = P' r \<and> (P r \<longrightarrow> f r = g r)) \<Longrightarrow> map_rows P f rows = map_rows P' g rows"
  by (auto simp: map_rows_def)

lemma map_rows_id: "(\<And>r. r \<in> set rows \<Longrightarrow> P r \<Longrightarrow> f r = r) \<Longrightarrow> map_rows P f rows = rows"
  by (induction rows) (auto simp: map_rows_def)

lemma list_ex_or: "list_ex (\<lambda>x. P x \<or> Q x) xs \<longleftrightarrow> list_ex P xs \<or> list_ex Q xs"
  by (induction xs) auto

end
