(* ===== verification/Ledger.thy ===== *)
theory Ledger
  imports Store
begin

text \<open>
  The invariant of the invoice ledger that every service operation keeps: what the status of an
  invoice says about its balance. A draft or cancelled invoice owes its total, an issued one a
  positive total, a part-paid one strictly between nothing and the total, a paid one nothing.
  While a payment is pending the balance is that of the status stored as the one to return to,
  and no other status stores one.
\<close>

fun standing :: "invoice_status \<Rightarrow> invoice_status option \<Rightarrow> int \<Rightarrow> int \<Rightarrow> bool" where
  "standing DRAFT prev t b = (prev = None \<and> b = t)"
| "standing CANCELLED prev t b = (prev = None \<and> b = t)"
| "standing SENT prev t b = (prev = None \<and> b = t \<and> 0 < t)"
| "standing VIEWED prev t b = (prev = None \<and> b = t \<and> 0 < t)"
| "standing PARTIALLY_PAID prev t b = (prev = None \<and> 0 < b \<and> b < t)"
| "standing PAID prev t b = (prev = None \<and> b = 0 \<and> 0 < t)"
| "standing PENDING_PAYMENT prev t b =
     (prev = Some SENT \<and> b = t \<and> 0 < t \<or> prev = Some VIEWED \<and> b = t \<and> 0 < t \<or>
      prev = Some PARTIALLY_PAID \<and> 0 < b \<and> b < t \<or> prev = Some PENDING_PAYMENT \<and> 0 < b \<and> b \<le> t)"

definition invoice_ok :: "invoice_row \<Rightarrow> bool" where
  "invoice_ok i \<longleftrightarrow> safe (i_totalMinor i) \<and>
     standing (i_status i) (i_previousStatus i) (i_totalMinor i) (i_balanceMinor i)"

definition ledger_rows :: "invoice_row list \<Rightarrow> bool" where
  "ledger_rows rows \<longleftrightarrow> distinct (map i_id rows) \<and> list_all invoice_ok rows"

definition ledger_ok :: "db \<Rightarrow> bool" where
  "ledger_ok d \<longleftrightarrow> ledger_rows (invoices d)"

lemma ledger_rowD: "\<lbrakk>ledger_rows rows; r \<in> set rows\<rbrakk> \<Longrightarrow> invoice_ok r"
  by (simp add: ledger_rows_def list_all_iff)

lemma ledger_row: "\<lbrakk>ledger_rows rows; r \<in> set rows; s \<in> set rows; i_id r = i_id s\<rbrakk> \<Longrightarrow> r = s"
  unfolding ledger_rows_def using distinct_key_eq[of i_id rows] by blast

lemma ledger_map_rows:
  assumes "ledger_rows rows" "\<And>r. i_id (f r) = i_id r" "\<And>r. r \<in> set rows \<Longrightarrow> P r \<Longrightarrow> invoice_ok r \<Longrightarrow> invoice_ok (f r)"
  shows "ledger_rows (map_rows P f rows)"
proof -
  have "list_all invoice_ok (map_rows P f rows)"
    using assms(1,3) by (auto simp: ledger_rows_def list_all_iff set_map_rows)
  then show ?thesis
    using assms(1) by (simp add: ledger_rows_def map_rows_keys[of i_id f, OF assms(2)])
qed

lemma ledger_append:
  assumes "ledger_rows rows" "invoice_ok r" "\<not> list_ex (\<lambda>x. i_id x = i_id r) rows"
  shows "ledger_rows (rows @ [r])"
  using assms by (auto simp: ledger_rows_def list_ex_iff)

text \<open>An invoice found by its id is the only row with that id.\<close>

lemma found_row:
  assumes "ledger_rows rows" "find P rows = Some iv" "r \<in> set rows" "i_id r = i_id iv"
  shows "r = iv"
  using ledger_row[OF assms(1,3) _ assms(4)] find_Some_iff'[OF assms(2)] by blast

lemma read_back:
  assumes "ledger_rows rows" "iv \<in> set rows" "P iv" "\<And>r. P r \<Longrightarrow> i_id r = i_id iv"
  shows "find P rows = Some iv"
proof (cases "find P rows")
  case None
  then show ?thesis using assms by (simp add: find_None_iff')
next
  case (Some r)
  have "P r" using find_Some_iff'[OF Some] by simp
  then have "i_id iv = i_id r" using assms(4)[OF \<open>P r\<close>] by simp
  then show ?thesis using found_row[OF assms(1) Some assms(2)] Some by simp
qed

lemma standing_bounds: "invoice_ok i \<Longrightarrow> i_status i \<notin> {DRAFT, CANCELLED} \<Longrightarrow>
    0 \<le> i_balanceMinor i \<and> i_balanceMinor i \<le> i_totalMinor i \<and> 0 < i_totalMinor i"
  unfolding invoice_ok_def by (cases "i_status i") auto

end
