(* ===== verification/Payments.thy ===== *)
theory Payments
  imports Ledger
begin

text \<open>
  \<open>apps/api/src/payments/payments.service.ts\<close>: payment attempts on the public page, the webhook
  receiver, the client-side confirmation and the one settlement path they share. The gateway is
  any value of the port's record type; \<open>hash\<close> is the hexadecimal SHA-256 of the source. Log
  lines are left out.
\<close>

record 'g pay_env =
  pe_gateway :: "'g gateway"
  pe_hash :: "string \<Rightarrow> string"
  pe_publicUrl :: string

record attempt_result =
  at_gatewayStatus :: intent_status
  at_invoiceStatus :: invoice_status
  at_declineReason :: "string option"
  at_clientToken :: "string option"

record settlement_input =
  sn_invoiceId :: string
  sn_paymentId :: string
  sn_invoiceTotalMinor :: int
  sn_invoiceStatusBeforeAttempt :: invoice_status
  sn_currentInvoiceStatus :: invoice_status
  sn_gatewayStatus :: intent_status
  sn_occurredAt :: int
  sn_declineReason :: "string option"

fun paymentStatusToIntentStatus :: "payment_status \<Rightarrow> intent_status" where
  "paymentStatusToIntentStatus SETTLED = SUCCEEDED"
| "paymentStatusToIntentStatus PARTIALLY_REFUNDED = SUCCEEDED"
| "paymentStatusToIntentStatus REFUNDED = SUCCEEDED"
| "paymentStatusToIntentStatus FAILED = INTENT_FAILED"
| "paymentStatusToIntentStatus _ = INTENT_PROCESSING"

fun isMethodEnabled :: "payment_method \<Rightarrow> settings_row \<Rightarrow> bool" where
  "isMethodEnabled CARD s = st_cardEnabled s"
| "isMethodEnabled WALLET s = (st_applePayEnabled s \<or> st_googlePayEnabled s)"
| "isMethodEnabled ACH s = st_achEnabled s"
| "isMethodEnabled CHECK s = st_checkEnabled s"
| "isMethodEnabled MANUAL s = True"

definition settle_full_context :: "settlement_input \<Rightarrow> transition_context" where
  "settle_full_context n =
     \<lparr> tc_status = sn_currentInvoiceStatus n, tc_previousStatus = None, tc_lineItemCount = 0,
       tc_totalMinor = sn_invoiceTotalMinor n, tc_balanceMinor = 0, tc_settledMinor = sn_invoiceTotalMinor n,
       tc_customerHasDeliverableEmail = True \<rparr>"

definition payment_failed_context :: "settlement_input \<Rightarrow> transition_context" where
  "payment_failed_context n =
     \<lparr> tc_status = sn_currentInvoiceStatus n, tc_previousStatus = Some (sn_invoiceStatusBeforeAttempt n),
       tc_lineItemCount = 0, tc_totalMinor = sn_invoiceTotalMinor n, tc_balanceMinor = sn_invoiceTotalMinor n,
       tc_settledMinor = 0, tc_customerHasDeliverableEmail = True \<rparr>"

definition settlement_event :: "settlement_input \<Rightarrow> string \<Rightarrow> invoice_status \<Rightarrow> event_payload \<Rightarrow> int \<Rightarrow> event_row" where
  "settlement_event n kind to payload now =
     \<lparr> e_invoiceId = sn_invoiceId n, e_eventType = kind, e_fromStatus = Some (sn_currentInvoiceStatus n),
       e_toStatus = Some to, e_actor = ''system'', e_payload = payload, e_occurredAt = now \<rparr>"

definition decline_payload :: "string option \<Rightarrow> event_payload" where
  "decline_payload reason = (case reason of None \<Rightarrow> NoPayload | Some r \<Rightarrow> if r = [] then NoPayload else DeclinePayload r)"

definition applySettlement :: "scope \<Rightarrow> settlement_input \<Rightarrow> ('g, unit) service" where
  "applySettlement sc n =
     (if sn_gatewayStatus n = SUCCEEDED then
        ebind (payment_update sc (sn_paymentId n) (\<lambda>p. p\<lparr> p_status := SETTLED,
            p_settledAt := Some (sn_occurredAt n), p_lastEventAt := Some (sn_occurredAt n) \<rparr>)) (\<lambda>_.
        case evaluateTransition SETTLE_FULL (settle_full_context n) of
          Inl _ \<Rightarrow> ereturn ()
        | Inr to \<Rightarrow>
            ebind (invoice_update sc (sn_invoiceId n) (\<lambda>i. i\<lparr> i_status := to, i_balanceMinor := 0,
              i_paidAt := Some (sn_occurredAt n), i_previousStatus := None \<rparr>)) (\<lambda>_.
            ebind now_ms (\<lambda>now.
            event_create (settlement_event n ''PAYMENT_SETTLED'' to NoPayload now))))
      else if sn_gatewayStatus n = INTENT_FAILED then
        ebind (payment_update sc (sn_paymentId n) (\<lambda>p. p\<lparr> p_status := FAILED,
            p_declineReason := sn_declineReason n, p_lastEventAt := Some (sn_occurredAt n) \<rparr>)) (\<lambda>_.
        case evaluateTransition PAYMENT_FAILED (payment_failed_context n) of
          Inl _ \<Rightarrow> ereturn ()
        | Inr to \<Rightarrow>
            ebind (invoice_update sc (sn_invoiceId n) (\<lambda>i. i\<lparr> i_status := to, i_previousStatus := None \<rparr>)) (\<lambda>_.
            ebind now_ms (\<lambda>now.
            event_create (settlement_event n ''PAYMENT_FAILED'' to (decline_payload (sn_declineReason n)) now))))
      else
        payment_update sc (sn_paymentId n) (\<lambda>p. p\<lparr> p_status := PROCESSING, p_lastEventAt := Some (sn_occurredAt n) \<rparr>))"

text \<open>The calculation of an attempt's charge, from the stored lines and the rates frozen at issue.\<close>

definition attempt_quote :: "invoice_row \<Rightarrow> line_row list \<Rightarrow> payment_method \<Rightarrow> calc_input" where
  "attempt_quote iv ls method =
     \<lparr> ci_lines = map (\<lambda>l. \<lparr> cl_quantity = JInt (l_quantity l), cl_unitPriceMinor = JInt (l_unitPriceMinor l),
                              cl_taxExempt = Some (l_taxExempt l) \<rparr>) ls,
       ci_taxRateBp = JInt (i_taxRateBpApplied iv), ci_cardFeeRateBp = JInt (i_cardFeeRateBpApplied iv),
       ci_paymentMethod = method, ci_settledMinor = None \<rparr>"

definition idempotency_key :: "(string \<Rightarrow> string) \<Rightarrow> string \<Rightarrow> int \<Rightarrow> string \<Rightarrow> string" where
  "idempotency_key hash invoiceId chargeMinor nonce = hash (invoiceId @ '':'' @ show_int chargeMinor @ '':'' @ nonce)"

definition has_email :: "customer_row \<Rightarrow> bool" where
  "has_email c = (case c_email c of None \<Rightarrow> False | Some e \<Rightarrow> e \<noteq> [])"

text \<open>The value of a new attempt: what the page is told, and the payment to push if it settled.\<close>

definition attempt_outcome ::
  "invoice_row \<Rightarrow> string \<Rightarrow> payment_intent \<Rightarrow> invoice_row \<Rightarrow> attempt_result \<times> (string \<times> string) option" where
  "attempt_outcome iv pid g finalInvoice =
     (\<lparr> at_gatewayStatus = pi_status g, at_invoiceStatus = i_status finalInvoice,
        at_declineReason = pi_declineReason g,
        at_clientToken = (if pi_status g = REQUIRES_ACTION then pi_clientToken g else None) \<rparr>,
      if pi_status g = SUCCEEDED then Some (i_brandId iv, pid) else None)"

fun start_failure :: "service_error \<Rightarrow> service_error" where
  "start_failure (GatewayThrew (Integration _)) =
     ConflictWith ''The payment could not be started. Please try again in a moment.''"
| "start_failure e = e"

text \<open>
  The transaction of \<open>createIntent\<close>. Its value is the result and the payment to push to the
  accounting system, if any. \<open>IntegrationError\<close> becomes a conflict; other throws propagate.
\<close>

definition createIntent_tx ::
  "'g pay_env \<Rightarrow> public_scope \<Rightarrow> payment_method \<Rightarrow> string \<Rightarrow> ('g, attempt_result \<times> (string \<times> string) option) service" where
  "createIntent_tx env ps method attemptNonce =
    (let sc = PublicScope ps in
     ebind (invoice_find sc (\<lambda>r. i_id r = ps_invoiceId ps)) (\<lambda>found.
     ebind (elift (require found (BadRequest ''invoice not found''))) (\<lambda>iv.
     ebind (egets (\<lambda>w. lines_of (w_db w) (i_id iv))) (\<lambda>ls.
     ebind (invoice_customer sc iv) (\<lambda>customer.
     ebind (settings_find sc (i_brandId iv)) (\<lambda>st.
     ebind (elift (guard (case st of None \<Rightarrow> False | Some s \<Rightarrow> isMethodEnabled method s)
              (ConflictWith ''method is not enabled for this brand''))) (\<lambda>_.
     ebind (money (calculate (attempt_quote iv ls method))) (\<lambda>quote.
     let chargeMinor = cr_totalMinor quote;
         key = idempotency_key (pe_hash env) (i_id iv) chargeMinor attemptNonce
     in ebind (payment_find sc (\<lambda>p. p_idempotencyKey p = key)) (\<lambda>existing.
     case existing of
       Some p \<Rightarrow> ereturn (\<lparr> at_gatewayStatus = paymentStatusToIntentStatus (p_status p), at_invoiceStatus = i_status iv,
                   at_declineReason = p_declineReason p, at_clientToken = None \<rparr>, None)
     | None \<Rightarrow>
     ebind (decide (evaluateTransition INITIATE_PAYMENT
        \<lparr> tc_status = i_status iv, tc_previousStatus = None, tc_lineItemCount = int (length ls),
          tc_totalMinor = i_totalMinor iv, tc_balanceMinor = i_balanceMinor iv, tc_settledMinor = 0,
          tc_customerHasDeliverableEmail = has_email customer \<rparr>)) (\<lambda>to.
     ebind draw_id (\<lambda>pid.
     ebind now_ms (\<lambda>now.
     ebind (payment_create sc \<lparr> p_id = pid, p_invoiceId = i_id iv, p_brandId = i_brandId iv, p_method = method,
         p_amountMinor = chargeMinor, p_currency = i_currency iv, p_status = INITIATED, p_gatewayReference = None,
         p_idempotencyKey = key, p_lastEventAt = None, p_declineReason = None, p_settledAt = None,
         p_createdAt = now \<rparr>) (\<lambda>_.
     ebind (invoice_update sc (i_id iv) (\<lambda>i. i\<lparr> i_status := to, i_previousStatus := Some (i_status iv) \<rparr>)) (\<lambda>_.
     ebind (ecatch
        (call_gateway (gw_createIntent (pe_gateway env)
          \<lparr> cin_idempotencyKey = key, cin_invoiceId = i_id iv, cin_brandId = i_brandId iv,
            cin_amountMinor = chargeMinor, cin_currency = i_currency iv, cin_method = method,
            cin_description = ''Invoice '' @ i_number iv, cin_customerEmail = c_email customer,
            cin_customerName = None, cin_returnUrl = pe_publicUrl env @ ''/i/'' @ i_publicToken iv,
            cin_metadata = None \<rparr>))
        (\<lambda>e. ethrow (start_failure e))) (\<lambda>g.
     ebind (payment_setReference sc pid (pi_gatewayReference g)) (\<lambda>_.
     ebind (applySettlement sc \<lparr> sn_invoiceId = i_id iv, sn_paymentId = pid, sn_invoiceTotalMinor = i_totalMinor iv,
         sn_invoiceStatusBeforeAttempt = i_status iv, sn_currentInvoiceStatus = to, sn_gatewayStatus = pi_status g,
         sn_occurredAt = pi_occurredAt g, sn_declineReason = pi_declineReason g \<rparr>) (\<lambda>_.
     ebind (invoice_find sc (\<lambda>r. i_id r = i_id iv)) (\<lambda>final.
     ebind (elift (require final RecordNotFound)) (\<lambda>finalInvoice.
     ereturn (attempt_outcome iv pid g finalInvoice))))))))))))))))))))"

definition createIntent ::
  "'g pay_env \<Rightarrow> public_scope \<Rightarrow> payment_method \<Rightarrow> string \<Rightarrow> ('g, attempt_result) service" where
  "createIntent env ps method attemptNonce =
     ebind (withScope (createIntent_tx env ps method attemptNonce)) (\<lambda>(result, sync).
     ebind (case sync of None \<Rightarrow> ereturn () | Some (b, p) \<Rightarrow> enqueue (PushPayment b p)) (\<lambda>_.
     ereturn result))"

text \<open>The lookup by gateway reference runs on the owner connection: no scope filters it.\<close>

definition payment_by_reference ::
  "string \<Rightarrow> ('g, (payment_row \<times> invoice_row \<times> string) option) service" where
  "payment_by_reference reference = egets (\<lambda>w.
     case find (\<lambda>p. p_gatewayReference p = Some reference) (payments (w_db w)) of
       None \<Rightarrow> None
     | Some p \<Rightarrow>
         (case find (\<lambda>i. i_id i = p_invoiceId p) (invoices (w_db w)) of
            None \<Rightarrow> None
          | Some i \<Rightarrow> (case brand_merchant (w_db w) (i_brandId i) of None \<Rightarrow> None | Some m \<Rightarrow> Some (p, i, m))))"

definition event_intent_status :: "gateway_event_type \<Rightarrow> intent_status" where
  "event_intent_status t =
     (if t = EV_PAYMENT_SUCCEEDED then SUCCEEDED else if t = EV_PAYMENT_FAILED then INTENT_FAILED else INTENT_PROCESSING)"

definition nonempty :: "string option \<Rightarrow> bool" where
  "nonempty s = (case s of None \<Rightarrow> False | Some t \<Rightarrow> t \<noteq> [])"

definition attribute_brand :: "'g pay_env \<Rightarrow> webhook_event \<Rightarrow> string option \<Rightarrow> ('g, bool \<times> string option) service" where
  "attribute_brand env event brandId =
     (case gw_resolveBrandId (pe_gateway env) of
        None \<Rightarrow> ereturn (True, brandId)
      | Some resolve \<Rightarrow>
          (if nonempty (we_accountRef event)
           then ebind (call_gateway (resolve event)) (\<lambda>b. ereturn (nonempty b, b))
           else ereturn (True, brandId)))"

definition webhook_scope :: "string \<Rightarrow> invoice_row \<Rightarrow> public_scope" where
  "webhook_scope merchantId iv =
     \<lparr> ps_merchantId = merchantId, ps_brandId = i_brandId iv, ps_invoiceId = i_id iv, ps_sourceIp = None \<rparr>"

definition webhook_settlement :: "webhook_event \<Rightarrow> payment_row \<Rightarrow> invoice_row \<Rightarrow> settlement_input" where
  "webhook_settlement event p iv =
     \<lparr> sn_invoiceId = i_id iv, sn_paymentId = p_id p, sn_invoiceTotalMinor = i_totalMinor iv,
       sn_invoiceStatusBeforeAttempt = (case i_previousStatus iv of None \<Rightarrow> i_status iv | Some s \<Rightarrow> s),
       sn_currentInvoiceStatus = i_status iv, sn_gatewayStatus = event_intent_status (we_type event),
       sn_occurredAt = we_occurredAt event, sn_declineReason = we_declineReason event \<rparr>"

definition stale :: "payment_row \<Rightarrow> webhook_event \<Rightarrow> bool" where
  "stale p event = (case p_lastEventAt p of None \<Rightarrow> False | Some t \<Rightarrow> we_occurredAt event \<le> t)"

text \<open>From the point where the event is attributed: the discards in their order, then settlement.\<close>

definition process_event :: "webhook_event \<Rightarrow> string option \<Rightarrow> ('g, unit) service" where
  "process_event event attributed =
     ebind (payment_by_reference (we_gatewayReference event)) (\<lambda>found.
     case found of
       None \<Rightarrow> ereturn ()
     | Some (p, iv, merchantId) \<Rightarrow>
         if nonempty attributed \<and> attributed \<noteq> Some (p_brandId p) then ereturn ()
         else if we_type event = EV_UNKNOWN then ereturn ()
         else if stale p event then ereturn ()
         else ebind (withScope (applySettlement (PublicScope (webhook_scope merchantId iv)) (webhook_settlement event p iv))) (\<lambda>_.
              if event_intent_status (we_type event) = SUCCEEDED
              then enqueue (PushPayment (i_brandId iv) (p_id p)) else ereturn ()))"

definition handleWebhook :: "'g pay_env \<Rightarrow> string \<Rightarrow> headers \<Rightarrow> string option \<Rightarrow> ('g, unit) service" where
  "handleWebhook env rawBody hdrs brandId =
     ebind (call_gateway (gw_verifySignature (pe_gateway env) rawBody hdrs brandId)) (\<lambda>verified.
     ebind (elift (guard verified (BadRequest ''invalid webhook signature''))) (\<lambda>_.
     ebind (call_gateway (gw_parseWebhook (pe_gateway env) rawBody brandId)) (\<lambda>event.
     ebind (attribute_brand env event brandId) (\<lambda>(attributable, attributed).
     if \<not> attributable then ereturn () else process_event event attributed))))"

definition confirm_settle :: "scope \<Rightarrow> payment_row \<Rightarrow> invoice_row \<Rightarrow> payment_intent \<Rightarrow> ('g, unit) service" where
  "confirm_settle sc p iv intent =
     (if pi_status intent = SUCCEEDED \<or> pi_status intent = INTENT_FAILED
      then ebind now_ms (\<lambda>now.
           ebind (applySettlement sc \<lparr> sn_invoiceId = p_invoiceId p, sn_paymentId = p_id p,
             sn_invoiceTotalMinor = i_totalMinor iv,
             sn_invoiceStatusBeforeAttempt = (case i_previousStatus iv of None \<Rightarrow> i_status iv | Some s \<Rightarrow> s),
             sn_currentInvoiceStatus = i_status iv, sn_gatewayStatus = pi_status intent,
             sn_occurredAt = now, sn_declineReason = pi_declineReason intent \<rparr>) (\<lambda>_.
           if pi_status intent = SUCCEEDED then enqueue (PushPayment (p_brandId p) (p_id p)) else ereturn ()))
      else ereturn ())"

definition confirmClientResult :: "'g pay_env \<Rightarrow> public_scope \<Rightarrow> string \<Rightarrow> ('g, attempt_result) service" where
  "confirmClientResult env ps gatewayReference = withScope
    (let sc = PublicScope ps in
     ebind (payment_find sc (\<lambda>p. p_invoiceId p = ps_invoiceId ps \<and> p_gatewayReference p = Some gatewayReference)) (\<lambda>found.
     ebind (elift (require found (BadRequest ''no matching payment attempt for this invoice''))) (\<lambda>p.
     ebind (invoice_find sc (\<lambda>i. i_id i = p_invoiceId p)) (\<lambda>found_invoice.
     ebind (elift (require found_invoice (MissingRelation ''invoice''))) (\<lambda>iv.
     if p_status p \<noteq> INITIATED \<and> p_status p \<noteq> PROCESSING
     then ereturn \<lparr> at_gatewayStatus = paymentStatusToIntentStatus (p_status p), at_invoiceStatus = i_status iv,
            at_declineReason = p_declineReason p, at_clientToken = None \<rparr>
     else
     ebind (call_gateway (gw_retrieve (pe_gateway env) gatewayReference (p_brandId p))) (\<lambda>intent.
     ebind (confirm_settle sc p iv intent) (\<lambda>_.
     ebind (payment_find sc (\<lambda>q. p_id q = p_id p)) (\<lambda>again.
     ebind (elift (require again RecordNotFound)) (\<lambda>refreshed.
     ebind (invoice_find sc (\<lambda>i. i_id i = p_invoiceId refreshed)) (\<lambda>again_invoice.
     ebind (elift (require again_invoice (MissingRelation ''invoice''))) (\<lambda>refreshed_invoice.
     ereturn \<lparr> at_gatewayStatus = paymentStatusToIntentStatus (p_status refreshed),
       at_invoiceStatus = i_status refreshed_invoice, at_declineReason = p_declineReason refreshed,
       at_clientToken = None \<rparr>)))))))))))"

record payment_list_query =
  pq_page :: nat
  pq_pageSize :: nat
  pq_status :: "payment_status list option"
  pq_method :: "payment_method list option"
  pq_from :: "int option"
  pq_to :: "int option"

definition payment_where :: "string \<Rightarrow> payment_list_query \<Rightarrow> payment_row \<Rightarrow> bool" where
  "payment_where brandId query p =
     (p_brandId p = brandId \<and>
      (case pq_status query of Some (s # ss) \<Rightarrow> p_status p \<in> set (s # ss) | _ \<Rightarrow> True) \<and>
      (case pq_method query of Some (m # ms) \<Rightarrow> p_method p \<in> set (m # ms) | _ \<Rightarrow> True) \<and>
      (case pq_from query of None \<Rightarrow> True | Some t \<Rightarrow> t \<le> p_createdAt p) \<and>
      (case pq_to query of None \<Rightarrow> True | Some t \<Rightarrow> p_createdAt p \<le> t))"

record payment_list_row =
  pl_payment :: payment_row
  pl_invoiceNumber :: string
  pl_customerName :: string

record 'r list_result =
  ls_data :: "'r list"
  ls_page :: nat
  ls_pageSize :: nat
  ls_total :: nat

definition payment_row_view :: "scope \<Rightarrow> payment_row \<Rightarrow> ('g, payment_list_row) service" where
  "payment_row_view sc p =
     ebind (invoice_find sc (\<lambda>i. i_id i = p_invoiceId p)) (\<lambda>found.
     ebind (elift (require found (MissingRelation ''invoice''))) (\<lambda>iv.
     ebind (invoice_customer sc iv) (\<lambda>c.
     ereturn \<lparr> pl_payment = p, pl_invoiceNumber = i_number iv, pl_customerName = c_displayName c \<rparr>)))"

definition payments_list :: "scope \<Rightarrow> string \<Rightarrow> payment_list_query \<Rightarrow> ('g, payment_list_row list_result) service" where
  "payments_list sc brandId query = withScope
     (ebind (payment_all sc (payment_where brandId query)) (\<lambda>rows.
      ebind (eforeach (payment_row_view sc)
               (page_of (pq_page query) (pq_pageSize query) (newest_first p_createdAt rows))) (\<lambda>data.
      ereturn \<lparr> ls_data = data, ls_page = pq_page query, ls_pageSize = pq_pageSize query, ls_total = length rows \<rparr>)))"

section \<open>The ledger under settlement\<close>

text \<open>
  What settlement needs to know of the invoice row it will update: the caller has read its
  status, and, for a failure, the status to return to.
\<close>

definition settlement_fits :: "settlement_input \<Rightarrow> invoice_row \<Rightarrow> bool" where
  "settlement_fits n r \<longleftrightarrow> i_status r = sn_currentInvoiceStatus n \<and>
     (i_status r = PENDING_PAYMENT \<longrightarrow> i_previousStatus r = Some (sn_invoiceStatusBeforeAttempt n))"

lemma settle_full_decision:
  "evaluateTransition SETTLE_FULL (settle_full_context n) =
     (if sn_currentInvoiceStatus n \<in> {PENDING_PAYMENT, PARTIALLY_PAID} then Inr PAID else Inl ILLEGAL_FROM_STATUS)"
  by (simp add: evaluateTransition_def settle_full_context_def)

lemma payment_failed_decision:
  "evaluateTransition PAYMENT_FAILED (payment_failed_context n) =
     (if sn_currentInvoiceStatus n = PENDING_PAYMENT
      then if sn_invoiceStatusBeforeAttempt n = PENDING_PAYMENT then Inl NO_PREVIOUS_STATUS
           else Inr (sn_invoiceStatusBeforeAttempt n)
      else Inl ILLEGAL_FROM_STATUS)"
  by (simp add: evaluateTransition_def payment_failed_context_def)

lemma settled_invoice_ok:
  "\<lbrakk>invoice_ok r; i_status r \<in> {PENDING_PAYMENT, PARTIALLY_PAID}\<rbrakk> \<Longrightarrow>
     invoice_ok (r\<lparr> i_status := PAID, i_balanceMinor := 0, i_paidAt := t, i_previousStatus := None \<rparr>)"
  by (auto simp: invoice_ok_def)

lemma reverted_invoice_ok:
  "\<lbrakk>invoice_ok r; i_status r = PENDING_PAYMENT; i_previousStatus r = Some p; p \<noteq> PENDING_PAYMENT\<rbrakk> \<Longrightarrow>
     invoice_ok (r\<lparr> i_status := p, i_previousStatus := None \<rparr>)"
  by (cases p) (auto simp: invoice_ok_def)

lemma wp_applySettlement_ledger:
  assumes "ledger_ok (w_db w)"
    and fits: "\<And>r. r \<in> set (invoices (w_db w)) \<Longrightarrow> i_id r = sn_invoiceId n \<Longrightarrow> settlement_fits n r"
  shows "wp (applySettlement sc n) (\<lambda>_ w'. ledger_ok (w_db w')) (\<lambda>_ w'. ledger_ok (w_db w')) w"
proof -
  let ?rows = "invoices (w_db w)" and ?P = "seen_invoice sc w (sn_invoiceId n)"
  have rows: "ledger_rows ?rows" using assms(1) by (simp add: ledger_ok_def)
  have paid: "ledger_rows (map_rows ?P (\<lambda>i. i\<lparr> i_status := PAID, i_balanceMinor := 0,
        i_paidAt := Some t, i_previousStatus := None \<rparr>) ?rows)"
    if "sn_currentInvoiceStatus n \<in> {PENDING_PAYMENT, PARTIALLY_PAID}" for t
    using rows that fits by (intro ledger_map_rows) (auto simp: settlement_fits_def intro!: settled_invoice_ok)
  have revert: "ledger_rows (map_rows ?P (\<lambda>i. i\<lparr> i_status := sn_invoiceStatusBeforeAttempt n,
        i_previousStatus := None \<rparr>) ?rows)"
    if "sn_currentInvoiceStatus n = PENDING_PAYMENT" "sn_invoiceStatusBeforeAttempt n \<noteq> PENDING_PAYMENT"
    using rows that fits by (intro ledger_map_rows) (auto simp: settlement_fits_def intro!: reverted_invoice_ok)
  show ?thesis
    using rows paid revert
    by (simp add: applySettlement_def wp_simps settle_full_decision payment_failed_decision ledger_ok_def)
qed

lemma initiate_decision:
  "evaluateTransition INITIATE_PAYMENT c = Inr to \<longleftrightarrow> isPayable (tc_status c) \<and> 0 < tc_balanceMinor c \<and> to = PENDING_PAYMENT"
  by (cases "tc_status c") (auto simp: evaluateTransition_def)

lemma pending_invoice_ok:
  "\<lbrakk>invoice_ok r; isPayable (i_status r); 0 < i_balanceMinor r\<rbrakk> \<Longrightarrow>
     invoice_ok (r\<lparr> i_status := PENDING_PAYMENT, i_previousStatus := Some (i_status r) \<rparr>)"
  by (cases "i_status r") (auto simp: invoice_ok_def)

lemma settle_pending:
  assumes L: "ledger_ok (w_db w)" and iv: "find (seen_invoice sc w i) (invoices (w_db w)) = Some iv"
    and pay: "isPayable (i_status iv)" "0 < i_balanceMinor iv"
    and rows: "invoices (w_db w2) = map_rows (seen_invoice sc w (i_id iv))
        (\<lambda>r. r\<lparr> i_status := PENDING_PAYMENT, i_previousStatus := Some (i_status iv) \<rparr>) (invoices (w_db w))"
    and n: "sn_invoiceId n = i_id iv" "sn_currentInvoiceStatus n = PENDING_PAYMENT" "sn_invoiceStatusBeforeAttempt n = i_status iv"
  shows "wp (applySettlement sc' n) (\<lambda>_ w'. ledger_ok (w_db w')) (\<lambda>_ w'. ledger_ok (w_db w')) w2"
proof (rule wp_applySettlement_ledger)
  have row: "r = iv" if "r \<in> set (invoices (w_db w))" "i_id r = i_id iv" for r
    using found_row[OF L[unfolded ledger_ok_def] iv that] .
  have "iv \<in> set (invoices (w_db w))" "sees sc (w_db w) (i_brandId iv)" using find_Some_iff'[OF iv] by auto
  show "ledger_ok (w_db w2)"
    unfolding ledger_ok_def rows using L pay row
    by (intro ledger_map_rows) (auto simp: ledger_ok_def intro!: pending_invoice_ok)
  show "settlement_fits n r" if "r \<in> set (invoices (w_db w2))" "i_id r = sn_invoiceId n" for r
    using that row \<open>sees sc (w_db w) (i_brandId iv)\<close> unfolding rows
    by (auto simp: settlement_fits_def n set_map_rows split: if_splits)
qed

lemma createIntent_tx_ledger:
  assumes "ledger_ok (w_db w)"
  shows "wp (createIntent_tx env ps m nonce) (\<lambda>_ w'. ledger_ok (w_db w')) (\<lambda>_ _. True) w"
  unfolding createIntent_tx_def Let_def
  apply (simp only: wp_simps)
  apply (intro conjI allI impI | simp add: assms initiate_decision split: option.splits sum.splits prod.splits)+
  apply (rule wp_mono, rule settle_pending[OF assms], assumption+)
  apply simp_all
  done

lemma createIntent_ledger: "preserves (\<lambda>w. ledger_ok (w_db w)) (createIntent env ps m nonce)"
  unfolding preserves_wp createIntent_def
  by (auto simp: wp_simps split: option.splits intro!: wp_mono[OF createIntent_tx_ledger])

lemma pending_previous: "\<lbrakk>invoice_ok r; i_status r = PENDING_PAYMENT\<rbrakk> \<Longrightarrow> i_previousStatus r \<noteq> None"
  by (auto simp: invoice_ok_def)

lemma settle_read_row:
  assumes L: "ledger_ok (w_db w)" and iv: "find P (invoices (w_db w)) = Some iv"
    and n: "sn_invoiceId n = i_id iv" "sn_currentInvoiceStatus n = i_status iv"
      "sn_invoiceStatusBeforeAttempt n = (case i_previousStatus iv of None \<Rightarrow> i_status iv | Some s \<Rightarrow> s)"
  shows "wp (applySettlement sc n) (\<lambda>_ w'. ledger_ok (w_db w')) (\<lambda>_ w'. ledger_ok (w_db w')) w"
proof (rule wp_applySettlement_ledger[OF L])
  fix r assume r: "r \<in> set (invoices (w_db w))" "i_id r = sn_invoiceId n"
  have "r = iv" using found_row[OF L[unfolded ledger_ok_def] iv] r n(1) by simp
  moreover have "invoice_ok r" using L r(1) by (simp add: ledger_ok_def ledger_rowD)
  ultimately show "settlement_fits n r"
    using pending_previous[of r] n by (auto simp: settlement_fits_def)
qed

lemma process_event_ledger: "preserves (\<lambda>w. ledger_ok (w_db w)) (process_event event attributed)"
  unfolding preserves_wp process_event_def payment_by_reference_def
  by (auto simp: wp_simps webhook_settlement_def split: option.splits intro!: wp_mono[OF settle_read_row])

lemma call_gateway_ledger: "preserves (\<lambda>w. ledger_ok (w_db w)) (call_gateway m)"
  unfolding preserves_wp by (auto simp: wp_simps split: prod.splits sum.splits)

lemma handleWebhook_ledger: "preserves (\<lambda>w. ledger_ok (w_db w)) (handleWebhook env raw hdrs b)"
  unfolding handleWebhook_def attribute_brand_def
  by (auto intro!: preserves_intros call_gateway_ledger process_event_ledger split: prod.splits option.splits)

lemma confirm_settle_ledger:
  assumes "ledger_ok (w_db w)" "find P (invoices (w_db w)) = Some iv" "i_id iv = p_invoiceId p"
  shows "wp (confirm_settle sc p iv intent) (\<lambda>_ w'. ledger_ok (w_db w')) (\<lambda>_ w'. ledger_ok (w_db w')) w"
  unfolding confirm_settle_def using assms
  by (auto simp: wp_simps intro!: wp_mono[OF settle_read_row])

lemma confirmClientResult_ledger: "preserves (\<lambda>w. ledger_ok (w_db w)) (confirmClientResult env ps ref)"
proof -
  let ?L = "\<lambda>_ w'. ledger_ok (w_db w')"
  have "wp (confirmClientResult env ps ref) ?L ?L w" if L: "ledger_ok (w_db w)" for w
    unfolding confirmClientResult_def Let_def
    by (auto simp: wp_simps L split: option.splits sum.splits prod.splits dest: find_Some_iff'
      intro!: wp_mono[OF confirm_settle_ledger])
  then show ?thesis by (simp add: preserves_wp)
qed

section \<open>Attempts\<close>

lemma applySettlement_outbox [preserves_intros]: "preserves (\<lambda>w. outbox w = b) (applySettlement sc n)"
  unfolding applySettlement_def by (auto intro!: preserves_intros)

lemma createIntent_tx_outbox [preserves_intros]: "preserves (\<lambda>w. outbox w = b) (createIntent_tx env ps m nonce)"
  unfolding createIntent_tx_def Let_def by (auto intro!: preserves_intros)

lemma createIntent_error:
  assumes "createIntent env ps m nonce w = (Inl e, w')"
  shows "w_db w' = w_db w \<and> outbox w' = outbox w"
proof -
  have "withScope (createIntent_tx env ps m nonce) w = (Inl e, w')"
    using assms unfolding createIntent_def bind_Inl by (auto simp: enqueue_def split: option.splits prod.splits)
  then show ?thesis by (rule rollback_atomic[OF createIntent_tx_outbox refl])
qed

text \<open>What one attempt makes of the invoice it pays.\<close>

fun attempted_invoice :: "intent_status \<Rightarrow> int \<Rightarrow> invoice_row \<Rightarrow> invoice_row" where
  "attempted_invoice SUCCEEDED t iv =
     iv\<lparr> i_status := PAID, i_balanceMinor := 0, i_paidAt := Some t, i_previousStatus := None \<rparr>"
| "attempted_invoice INTENT_FAILED t iv =
     (if i_status iv = PENDING_PAYMENT then iv\<lparr> i_previousStatus := Some PENDING_PAYMENT \<rparr> else iv)"
| "attempted_invoice _ t iv = iv\<lparr> i_status := PENDING_PAYMENT, i_previousStatus := Some (i_status iv) \<rparr>"

fun attempt_status :: "intent_status \<Rightarrow> payment_status" where
  "attempt_status SUCCEEDED = SETTLED"
| "attempt_status INTENT_FAILED = FAILED"
| "attempt_status _ = PROCESSING"

definition attempt_done ::
  "'g pay_env \<Rightarrow> public_scope \<Rightarrow> payment_method \<Rightarrow> string \<Rightarrow> 'g world \<Rightarrow> attempt_result \<Rightarrow> (string \<times> string) option \<Rightarrow> 'g world \<Rightarrow> bool" where
  "attempt_done env ps m nonce w r sync w' \<longleftrightarrow>
     (\<exists>iv quote p g t.
        find (seen_invoice (PublicScope ps) w (ps_invoiceId ps)) (invoices (w_db w)) = Some iv \<and>
        calculate (attempt_quote iv (lines_of (w_db w) (i_id iv)) m) = Inr quote \<and>
        isPayable (i_status iv) \<and> 0 < i_balanceMinor iv \<and>
        at_gatewayStatus r = g \<and>
        invoices (w_db w') = map_rows (\<lambda>i. i_id i = i_id iv) (attempted_invoice g t) (invoices (w_db w)) \<and>
        at_invoiceStatus r = i_status (attempted_invoice g t iv) \<and>
        payments (w_db w') = payments (w_db w) @ [p] \<and>
        p_invoiceId p = i_id iv \<and> p_amountMinor p = cr_totalMinor quote \<and> p_status p = attempt_status g \<and>
        p_idempotencyKey p = idempotency_key (pe_hash env) (i_id iv) (cr_totalMinor quote) nonce \<and>
        \<not> list_ex (\<lambda>q. p_idempotencyKey q = p_idempotencyKey p) (payments (w_db w)) \<and>
        sync = (if g = SUCCEEDED then Some (i_brandId iv, p_id p) else None))"

definition attempt_replayed ::
  "'g pay_env \<Rightarrow> public_scope \<Rightarrow> payment_method \<Rightarrow> string \<Rightarrow> 'g world \<Rightarrow> attempt_result \<Rightarrow> (string \<times> string) option \<Rightarrow> 'g world \<Rightarrow> bool" where
  "attempt_replayed env ps m nonce w r sync w' \<longleftrightarrow>
     w' = w \<and> sync = None \<and> (\<exists>iv quote p.
        find (seen_invoice (PublicScope ps) w (ps_invoiceId ps)) (invoices (w_db w)) = Some iv \<and>
        calculate (attempt_quote iv (lines_of (w_db w) (i_id iv)) m) = Inr quote \<and>
        p \<in> set (payments (w_db w)) \<and>
        p_idempotencyKey p = idempotency_key (pe_hash env) (i_id iv) (cr_totalMinor quote) nonce \<and>
        at_gatewayStatus r = paymentStatusToIntentStatus (p_status p) \<and> at_invoiceStatus r = i_status iv)"

lemma attempted_invoice_keys [simp]:
  "i_id (attempted_invoice g t iv) = i_id iv" "i_brandId (attempted_invoice g t iv) = i_brandId iv"
  by (cases g; simp)+

lemma list_ex_append_row: "list_ex P (rows @ [r]) \<longleftrightarrow> list_ex P rows \<or> P r"
  by simp

lemma attempt_settled:
  assumes L: "ledger_ok (w_db w)" and iv: "find (seen_invoice sc w i) (invoices (w_db w)) = Some iv"
    and pay: "isPayable (i_status iv)"
    and rows: "invoices (w_db w2) = map_rows (seen_invoice sc w (i_id iv))
        (\<lambda>r. r\<lparr> i_status := PENDING_PAYMENT, i_previousStatus := Some (i_status iv) \<rparr>) (invoices (w_db w))"
    and pays: "payments (w_db w2) = payments (w_db w) @ [p]" "\<not> list_ex (\<lambda>x. p_id x = p_id p) (payments (w_db w))"
    and see: "\<And>b. sees sc (w_db w2) b = sees sc (w_db w) b" "p_brandId p = i_brandId iv"
    and n: "sn_invoiceId n = i_id iv" "sn_paymentId n = p_id p" "sn_currentInvoiceStatus n = PENDING_PAYMENT"
      "sn_invoiceStatusBeforeAttempt n = i_status iv"
  shows "wp (applySettlement sc n) (\<lambda>_ w'. \<exists>q.
      invoices (w_db w') = map_rows (\<lambda>i. i_id i = i_id iv) (attempted_invoice (sn_gatewayStatus n) (sn_occurredAt n)) (invoices (w_db w)) \<and>
      payments (w_db w') = payments (w_db w) @ [q] \<and> p_status q = attempt_status (sn_gatewayStatus n) \<and>
      p_id q = p_id p \<and> p_invoiceId q = p_invoiceId p \<and> p_amountMinor q = p_amountMinor p \<and>
      p_idempotencyKey q = p_idempotencyKey p \<and> (\<forall>b. sees sc (w_db w') b = sees sc (w_db w) b)) (\<lambda>_ _. True) w2"
proof -
  let ?rows = "invoices (w_db w)" and ?P = "seen_invoice sc w (i_id iv)"
  have iv': "iv \<in> set ?rows" "sees sc (w_db w) (i_brandId iv)" using find_Some_iff'[OF iv] by auto
  have row: "r = iv" if "r \<in> set ?rows" "i_id r = i_id iv" for r
    using found_row[OF L[unfolded ledger_ok_def] iv that] .
  have prev: "i_previousStatus iv = None" if "i_status iv \<noteq> PENDING_PAYMENT"
    using ledger_rowD[OF L[unfolded ledger_ok_def] iv'(1)] that pay by (cases "i_status iv") (auto simp: invoice_ok_def)
  have shape: "map_rows ?P f ?rows = map_rows (\<lambda>i. i_id i = i_id iv) (attempted_invoice g t) ?rows"
    if "f iv = attempted_invoice g t iv" for f g t
    by (rule map_rows_cong) (use row iv' that in auto)
  have seen: "seen_invoice sc w2 x = seen_invoice sc w x" "seen_payment sc w2 y = seen_payment sc w y" for x y
    by (simp_all add: see(1))
  have ex: "list_ex ?P (invoices (w_db w2))" unfolding rows
    by (subst list_ex_map_rows) (use iv' in \<open>auto simp: list_ex_iff\<close>)
  have comp: "map_rows ?P f (invoices (w_db w2)) =
      map_rows ?P (\<lambda>r. f (r\<lparr> i_status := PENDING_PAYMENT, i_previousStatus := Some (i_status iv) \<rparr>)) ?rows"
    for f unfolding rows by (rule map_rows_map_rows) simp
  have new: "map_rows (\<lambda>r. sees sc (w_db w) (p_brandId r) \<and> p_id r = p_id p) f (payments (w_db w2)) = payments (w_db w) @ [f p]" for f
    unfolding pays(1) using map_rows_new[OF pays(2), of "\<lambda>r. sees sc (w_db w) (p_brandId r)" f] iv'(2) see(2) by simp
  have exp: "list_ex (seen_payment sc w (p_id p)) (payments (w_db w2))"
    using pays(1) see(2) iv'(2) by simp
  have init: "invoices (w_db w2) = map_rows (\<lambda>i. i_id i = i_id iv) (attempted_invoice g t) ?rows"
    if "g \<noteq> SUCCEEDED" "g \<noteq> INTENT_FAILED \<or> i_status iv = PENDING_PAYMENT" for g t
    unfolding rows by (rule shape) (use that in \<open>cases g; auto\<close>)
  show ?thesis
  proof (cases "sn_gatewayStatus n = SUCCEEDED")
    case True
    then show ?thesis
      by (simp add: applySettlement_def wp_simps settle_full_decision n seen see ex exp comp new shape)
  next
    case False
    then show ?thesis
      using prev init
      by (cases "sn_gatewayStatus n"; cases "i_status iv = PENDING_PAYMENT")
        (auto simp: applySettlement_def wp_simps payment_failed_decision n seen see ex exp comp new intro!: shape)
  qed
qed

lemma new_payment_row:
  "\<lbrakk>p_id r = pid; \<not> list_ex (\<lambda>x. p_id x = pid) rows; sees sc d (p_brandId r)\<rbrakk> \<Longrightarrow>
     map_rows (\<lambda>x. sees sc d (p_brandId x) \<and> p_id x = pid) f (rows @ [r]) = rows @ [f r]"
  using map_rows_new[of p_id r rows "\<lambda>x. sees sc d (p_brandId x)" f] by simp

lemma attempt_doneI:
  assumes "find (seen_invoice (PublicScope ps) w (ps_invoiceId ps)) (invoices (w_db w)) = Some iv"
    and "calculate (attempt_quote iv (lines_of (w_db w) (i_id iv)) m) = Inr quote"
    and "isPayable (i_status iv) \<and> 0 < i_balanceMinor iv"
    and L: "ledger_ok (w_db w)"
    and "attempt_outcome iv pid g fin = (r, snc)"
    and fin: "find (seen_invoice (PublicScope ps) w' (i_id iv)) (invoices (w_db w')) = Some fin"
    and fresh: "\<not> list_ex (\<lambda>q. p_idempotencyKey q = idempotency_key (pe_hash env) (i_id iv) (cr_totalMinor quote) nonce) (payments (w_db w))"
    and rows: "invoices (w_db w') = map_rows (\<lambda>i. i_id i = i_id iv) (attempted_invoice (pi_status g) t) (invoices (w_db w))"
    and post: "\<exists>q. payments (w_db w') = payments (w_db w) @ [q] \<and> p_status q = attempt_status (pi_status g) \<and>
      p_id q = pid \<and> p_invoiceId q = i_id iv \<and> p_amountMinor q = cr_totalMinor quote \<and>
      p_idempotencyKey q = idempotency_key (pe_hash env) (i_id iv) (cr_totalMinor quote) nonce \<and>
      (\<forall>b. sees (PublicScope ps) (w_db w') b = sees (PublicScope ps) (w_db w) b)"
  shows "attempt_done env ps m nonce w r snc w'"
proof -
  obtain q where q: "invoices (w_db w') = map_rows (\<lambda>i. i_id i = i_id iv) (attempted_invoice (pi_status g) t) (invoices (w_db w))"
      "payments (w_db w') = payments (w_db w) @ [q]" "p_status q = attempt_status (pi_status g)"
      "p_id q = pid" "p_invoiceId q = i_id iv" "p_amountMinor q = cr_totalMinor quote"
      "p_idempotencyKey q = idempotency_key (pe_hash env) (i_id iv) (cr_totalMinor quote) nonce"
    using rows post by blast
  have "fin \<in> set (invoices (w_db w'))" "i_id fin = i_id iv" using find_Some_iff'[OF fin] by auto
  then obtain r where r: "r \<in> set (invoices (w_db w))" "i_id r = i_id iv" "fin = attempted_invoice (pi_status g) t r"
    unfolding q(1) set_map_rows by (auto split: if_splits)
  then have "fin = attempted_invoice (pi_status g) t iv"
    using found_row[OF L[unfolded ledger_ok_def] assms(1)] by blast
  then show ?thesis
    unfolding attempt_done_def using assms(1-3,5) fresh q
    by (intro exI[of _ iv] exI[of _ quote] exI[of _ q] exI[of _ "pi_status g"] exI[of _ t])
      (auto simp: attempt_outcome_def)
qed

lemma createIntent_tx_outcome:
  assumes "ledger_ok (w_db w)"
  shows "wp (createIntent_tx env ps m nonce)
    (\<lambda>(r, snc) w'. attempt_replayed env ps m nonce w r snc w' \<or> attempt_done env ps m nonce w r snc w') (\<lambda>_ _. True) w"
  unfolding createIntent_tx_def Let_def
  apply (simp only: wp_simps)
  apply (intro conjI allI impI | simp add: assms initiate_decision new_payment_row split: option.splits sum.splits prod.splits)+
  apply (auto simp: attempt_replayed_def dest: find_Some_iff')[1]
  apply (rule wp_mono, rule attempt_settled[OF assms], assumption)
  apply simp_all
  apply simp_all
   apply (intro allI impI disjI2, elim conjE[of "invoices _ = _"])
   apply (rule attempt_doneI[OF _ _ _ assms], assumption, assumption, assumption, assumption, simp, assumption, assumption, assumption)
  apply (auto simp: attempt_replayed_def dest: find_Some_iff')
  done

section \<open>Webhooks\<close>

text \<open>A settlement touches one payment row and one invoice row.\<close>

definition other_tables_same :: "db \<Rightarrow> db \<Rightarrow> bool" where
  "other_tables_same d d' \<longleftrightarrow> brands d' = brands d \<and> settings d' = settings d \<and> customers d' = customers d \<and>
     line_items d' = line_items d \<and> checks d' = checks d"

definition settlement_frame :: "scope \<Rightarrow> settlement_input \<Rightarrow> db \<Rightarrow> db \<Rightarrow> bool" where
  "settlement_frame sc n d d' \<longleftrightarrow>
     (\<exists>fp. payments d' = map_rows (\<lambda>p. sees sc d (p_brandId p) \<and> p_id p = sn_paymentId n) fp (payments d) \<and>
        (\<forall>p. p_id (fp p) = p_id p \<and> p_brandId (fp p) = p_brandId p \<and> p_invoiceId (fp p) = p_invoiceId p \<and>
           p_gatewayReference (fp p) = p_gatewayReference p \<and> p_status (fp p) = attempt_status (sn_gatewayStatus n) \<and>
           p_lastEventAt (fp p) = Some (sn_occurredAt n))) \<and>
     (\<exists>fi. invoices d' = map_rows (\<lambda>i. sees sc d (i_brandId i) \<and> i_id i = sn_invoiceId n) fi (invoices d) \<and>
        (\<forall>i. i_id (fi i) = i_id i \<and> i_brandId (fi i) = i_brandId i)) \<and>
     list_ex (\<lambda>p. sees sc d (p_brandId p) \<and> p_id p = sn_paymentId n) (payments d) \<and> other_tables_same d d'"

lemma applySettlement_frame: "wp (applySettlement sc n) (\<lambda>_ w'. settlement_frame sc n (w_db w) (w_db w')) (\<lambda>_ _. True) w"
proof -
  have same: "\<exists>fi. rows = map_rows P fi rows \<and> (\<forall>i. i_id (fi i) = i_id i \<and> i_brandId (fi i) = i_brandId i)" for P and rows :: "invoice_row list"
    by (intro exI[of _ "\<lambda>i. i"]) (simp add: map_rows_def)
  show ?thesis
    by (cases "sn_gatewayStatus n")
      (auto simp: applySettlement_def wp_simps settle_full_decision payment_failed_decision settlement_frame_def
        other_tables_same_def intro!: same)
qed

text \<open>The brand an event was attributed to: by its account when the gateway resolves accounts.\<close>

definition attributed_to :: "'g pay_env \<Rightarrow> webhook_event \<Rightarrow> string option \<Rightarrow> 'g \<Rightarrow> string \<Rightarrow> bool" where
  "attributed_to env event b g brand \<longleftrightarrow>
     (case gw_resolveBrandId (pe_gateway env) of
        Some resolve \<Rightarrow> (if nonempty (we_accountRef event) then \<exists>g'. resolve event g = (Inr (Some brand), g')
                         else nonempty b \<longrightarrow> b = Some brand)
      | None \<Rightarrow> (nonempty b \<longrightarrow> b = Some brand))"

lemma find_reference: "find (\<lambda>p. p_gatewayReference p = Some k) rows = Some p \<Longrightarrow> p \<in> set rows"
  using find_Some_iff' by metis

text \<open>What a processed event leaves: of the payment named and of its invoice one row each may differ.\<close>

definition event_applied :: "webhook_event \<Rightarrow> payment_row \<Rightarrow> db \<Rightarrow> db \<Rightarrow> bool" where
  "event_applied event p d d' \<longleftrightarrow>
     we_type event \<noteq> EV_UNKNOWN \<and> \<not> stale p event \<and>
     (\<exists>m iv. find (\<lambda>i. i_id i = p_invoiceId p) (invoices d) = Some iv \<and>
        settlement_frame (PublicScope (webhook_scope m iv)) (webhook_settlement event p iv) d d')"

lemma process_event_effect:
  "wp (process_event event a) (\<lambda>_ w'. w' = w \<or> (\<exists>p.
      find (\<lambda>q. p_gatewayReference q = Some (we_gatewayReference event)) (payments (w_db w)) = Some p \<and>
      (nonempty a \<longrightarrow> a = Some (p_brandId p)) \<and> event_applied event p (w_db w) (w_db w')))
    (\<lambda>_ w'. w_db w' = w_db w) w"
  unfolding process_event_def payment_by_reference_def
  by (auto simp: wp_simps event_applied_def split: option.splits intro!: wp_mono[OF applySettlement_frame])

lemma process_event_total: "\<exists>r w'. process_event event a w = (r, w')"
  by (meson surj_pair)

lemma process_event_stale:
  "find (\<lambda>q. p_gatewayReference q = Some (we_gatewayReference event)) (payments (w_db w)) = Some p \<Longrightarrow>
     stale p event \<Longrightarrow> process_event event a w = (Inr (), w)"
  by (auto simp: process_event_def payment_by_reference_def split: option.splits)

lemma applied_is_stale:
  assumes ids: "distinct (map p_id (payments d))"
    and p: "find (\<lambda>q. p_gatewayReference q = Some k) (payments d) = Some p"
    and applied: "event_applied event p d d'"
  shows "\<exists>p'. find (\<lambda>q. p_gatewayReference q = Some k) (payments d') = Some p' \<and> p_lastEventAt p' = Some (we_occurredAt event)"
proof -
  obtain P fp where pays: "payments d' = map_rows (\<lambda>q. P q \<and> p_id q = p_id p) fp (payments d)"
      "list_ex (\<lambda>q. P q \<and> p_id q = p_id p) (payments d)"
      "\<And>q. p_gatewayReference (fp q) = p_gatewayReference q" "\<And>q. p_lastEventAt (fp q) = Some (we_occurredAt event)"
    using applied by (auto simp: event_applied_def settlement_frame_def webhook_settlement_def)
  obtain q where q: "q \<in> set (payments d)" "P q" "p_id q = p_id p" using pays(2) by (auto simp: list_ex_iff)
  have "q = p" using distinct_key_eq[OF ids q(1) _ q(3)] find_reference[OF p] by blast
  with q have "P p" by simp
  have "find (\<lambda>q. p_gatewayReference q = Some k) (payments d') =
      map_option (\<lambda>r. if P r \<and> p_id r = p_id p then fp r else r) (find (\<lambda>q. p_gatewayReference q = Some k) (payments d))"
    unfolding pays(1) by (rule find_map_rows) (simp add: pays(3))
  with p \<open>P p\<close> pays(4) show ?thesis by simp
qed

lemma handleWebhook_effect:
  "wp (handleWebhook env raw hdrs b) (\<lambda>_ w'. w_db w' = w_db w \<and> w_jobs w' = w_jobs w \<or>
      (\<exists>g1 event g2 p. gw_verifySignature (pe_gateway env) raw hdrs b (w_gateway w) = (Inr True, g1) \<and>
        gw_parseWebhook (pe_gateway env) raw b g1 = (Inr event, g2) \<and> attributed_to env event b g2 (p_brandId p) \<and>
        find (\<lambda>q. p_gatewayReference q = Some (we_gatewayReference event)) (payments (w_db w)) = Some p \<and>
        event_applied event p (w_db w) (w_db w')))
    (\<lambda>_ w'. w_db w' = w_db w) w"
proof -
  have P: "wp (process_event event a) (\<lambda>_ w'. w_db w' = w_db w \<and> w_jobs w' = w_jobs w \<or> Ex (\<lambda>p.
      find (\<lambda>q. p_gatewayReference q = Some (we_gatewayReference event)) (payments (w_db w)) = Some p \<and>
      (nonempty a \<longrightarrow> a = Some (p_brandId p)) \<and> event_applied event p (w_db w) (w_db w')))
    (\<lambda>_ w'. w_db w' = w_db w) (w\<lparr> w_gateway := g \<rparr>)" for event a g
    by (rule wp_mono[OF process_event_effect]) auto
  show ?thesis
    unfolding handleWebhook_def attribute_brand_def
    by (auto simp: wp_simps attributed_to_def nonempty_def split: option.splits prod.splits sum.splits if_splits
      intro!: wp_mono[OF P])
qed

text \<open>What an event makes of the payment it names and of the invoice that payment is for.\<close>

fun event_payment :: "webhook_event \<Rightarrow> payment_row \<Rightarrow> payment_row" where
  "event_payment event p = (case we_type event of
     EV_PAYMENT_SUCCEEDED \<Rightarrow> p\<lparr> p_status := SETTLED, p_settledAt := Some (we_occurredAt event), p_lastEventAt := Some (we_occurredAt event) \<rparr>
   | EV_PAYMENT_FAILED \<Rightarrow> p\<lparr> p_status := FAILED, p_declineReason := we_declineReason event, p_lastEventAt := Some (we_occurredAt event) \<rparr>
   | _ \<Rightarrow> p\<lparr> p_status := PROCESSING, p_lastEventAt := Some (we_occurredAt event) \<rparr>)"

fun event_invoice :: "webhook_event \<Rightarrow> invoice_row \<Rightarrow> invoice_row" where
  "event_invoice event i = (case we_type event of
     EV_PAYMENT_SUCCEEDED \<Rightarrow> (if i_status i \<in> {PENDING_PAYMENT, PARTIALLY_PAID}
       then i\<lparr> i_status := PAID, i_balanceMinor := 0, i_paidAt := Some (we_occurredAt event), i_previousStatus := None \<rparr> else i)
   | EV_PAYMENT_FAILED \<Rightarrow> (if i_status i = PENDING_PAYMENT \<and> i_previousStatus i \<noteq> Some PENDING_PAYMENT
       then i\<lparr> i_status := the (i_previousStatus i), i_previousStatus := None \<rparr> else i)
   | _ \<Rightarrow> i)"

lemma process_event_outcome:
  assumes L: "ledger_ok (w_db w)"
    and p: "find (\<lambda>q. p_gatewayReference q = Some (we_gatewayReference event)) (payments (w_db w)) = Some p"
    and iv: "find (\<lambda>i. i_id i = p_invoiceId p) (invoices (w_db w)) = Some iv"
    and m: "brand_merchant (w_db w) (i_brandId iv) = Some m" "sees (PublicScope (webhook_scope m iv)) (w_db w) (i_brandId iv)"
    and brand: "p_brandId p = i_brandId iv" "nonempty a \<longrightarrow> a = Some (p_brandId p)"
    and event: "we_type event \<noteq> EV_UNKNOWN" "\<not> stale p event" and ids: "distinct (map p_id (payments (w_db w)))"
  shows "\<exists>w'. process_event event a w = (Inr (), w') \<and>
      payments (w_db w') = map_rows (\<lambda>q. p_id q = p_id p) (event_payment event) (payments (w_db w)) \<and>
      invoices (w_db w') = map_rows (\<lambda>i. i_id i = i_id iv) (event_invoice event) (invoices (w_db w)) \<and>
      w_jobs w' = w_jobs w @ (if we_type event = EV_PAYMENT_SUCCEEDED then [PushPayment (i_brandId iv) (p_id p)] else [])"
proof -
  have "p \<in> set (payments (w_db w))" using find_reference[OF p] .
  have "iv \<in> set (invoices (w_db w))" using find_Some_iff'[OF iv] by simp
  have row: "r = iv" if "r \<in> set (invoices (w_db w))" "i_id r = i_id iv" for r
    using found_row[OF L[unfolded ledger_ok_def] iv that] .
  have prow: "q = p" if "q \<in> set (payments (w_db w))" "p_id q = p_id p" for q
    using distinct_key_eq[OF ids that(1) \<open>p \<in> _\<close> that(2)] .
  have prev: "i_previousStatus iv \<noteq> None" if "i_status iv = PENDING_PAYMENT"
    using pending_previous[OF _ that] ledger_rowD[OF L[unfolded ledger_ok_def] \<open>iv \<in> _\<close>] .
  let ?sc = "PublicScope (webhook_scope m iv)"
  have pays: "map_rows (seen_payment ?sc w (p_id p)) f (payments (w_db w)) = map_rows (\<lambda>q. p_id q = p_id p) f' (payments (w_db w))"
    if "f p = f' p" for f f'
    by (rule map_rows_cong) (use prow m brand that in fastforce)
  have invs: "map_rows (seen_invoice ?sc w (i_id iv)) f (invoices (w_db w)) = map_rows (\<lambda>i. i_id i = i_id iv) f' (invoices (w_db w))"
    if "f iv = f' iv" for f f'
    by (rule map_rows_cong) (use row m that in auto)
  have same: "invoices (w_db w) = map_rows (\<lambda>i. i_id i = i_id iv) f (invoices (w_db w))" if "f iv = iv" for f
    by (rule sym, rule map_rows_id) (use row that in auto)
  have ex: "list_ex (seen_payment ?sc w (p_id p)) (payments (w_db w))" "list_ex (seen_invoice ?sc w (i_id iv)) (invoices (w_db w))"
    using m brand(1) \<open>p \<in> _\<close> \<open>iv \<in> _\<close> unfolding list_ex_iff by (metis, metis)
  have "wp (process_event event a) (\<lambda>_ w'.
      payments (w_db w') = map_rows (\<lambda>q. p_id q = p_id p) (event_payment event) (payments (w_db w)) \<and>
      invoices (w_db w') = map_rows (\<lambda>i. i_id i = i_id iv) (event_invoice event) (invoices (w_db w)) \<and>
      w_jobs w' = w_jobs w @ (if we_type event = EV_PAYMENT_SUCCEEDED then [PushPayment (i_brandId iv) (p_id p)] else []))
      (\<lambda>_ _. False) w"
    using prev brand event(1)
    by (cases "we_type event") (auto simp: event_intent_status_def process_event_def payment_by_reference_def p iv m event wp_simps applySettlement_def webhook_settlement_def
        settle_full_decision payment_failed_decision ex intro!: pays invs same)
  from wp_succeeds[OF this] show ?thesis by auto
qed
section \<open>A sample world\<close>

definition sample_settings :: settings_row where
  "sample_settings = \<lparr> st_brandId = ''b1'', st_invoicePrefix = ''INV'', st_nextSequence = 7, st_cardEnabled = True,
     st_applePayEnabled = False, st_googlePayEnabled = False, st_achEnabled = True, st_checkEnabled = True,
     st_partialPaymentEnabled = False, st_emailReceiptSubject = [], st_emailReceiptBody = [] \<rparr>"

definition sample_invoice :: "string \<Rightarrow> string \<Rightarrow> invoice_status \<Rightarrow> int \<Rightarrow> invoice_row" where
  "sample_invoice rid number status amount = \<lparr> i_id = rid, i_brandId = ''b1'', i_customerId = ''c1'', i_number = number,
     i_status = status, i_invoiceDate = 0, i_dueDate = 5000, i_currency = ''USD'', i_subtotalMinor = amount,
     i_taxRateBpApplied = 0, i_taxMinor = 0, i_cardFeeRateBpApplied = 0, i_cardFeeMinor = 0, i_totalMinor = amount,
     i_balanceMinor = amount, i_publicToken = ''tok-'' @ rid, i_publicTokenActive = True, i_notes = None, i_internalNotes = None,
     i_zohoInvoiceId = None, i_issuedAt = Some 1, i_firstViewedAt = None, i_paidAt = None, i_cancelledAt = None,
     i_previousStatus = None, i_overdue = False, i_createdAt = 1 \<rparr>"

definition sample_line :: "string \<Rightarrow> int \<Rightarrow> line_row" where
  "sample_line rid amount = \<lparr> l_invoiceId = rid, l_position = 0, l_itemName = ''Work'', l_description = None, l_quantity = 10000,
     l_unitPriceMinor = amount, l_lineTotalMinor = amount, l_taxExempt = False \<rparr>"

definition sample_db :: "invoice_status \<Rightarrow> int \<Rightarrow> db" where
  "sample_db status amount = \<lparr>
     brands = [\<lparr> b_id = ''b1'', b_merchantId = ''m1'', b_displayName = ''Brand'' \<rparr>], settings = [sample_settings],
     customers = [\<lparr> c_id = ''c1'', c_brandId = ''b1'', c_displayName = ''Acme'', c_email = Some ''a@acme.test'' \<rparr>],
     invoices = [sample_invoice ''i1'' ''INV-1'' status amount], line_items = [sample_line ''i1'' amount],
     payments = [], events = [], checks = [] \<rparr>"

definition sample_world :: "db \<Rightarrow> fake_gateway world" where
  "sample_world d = \<lparr> w_db = d, w_jobs = [], w_mails = [], w_objects = [], w_gateway = sample_gateway, w_now = 1000,
     w_ids = (\<lambda>n. if n = 0 then ''id-0'' else if n = 1 then ''id-1'' else ''id-2''), w_drawn = 0 \<rparr>"

definition page_scope :: public_scope where
  "page_scope = \<lparr> ps_merchantId = ''m1'', ps_brandId = ''b1'', ps_invoiceId = ''i1'', ps_sourceIp = None \<rparr>"

text \<open>A gateway whose webhook payloads are references, of payments that succeeded at a given time.\<close>

definition sample_env :: "string \<Rightarrow> int \<Rightarrow> fake_gateway pay_env" where
  "sample_env kind t = \<lparr> pe_gateway = fake_adapter (\<lambda>s. s)
       (\<lambda>s. Some [(''type'', JsonString kind), (''gatewayReference'', JsonString s), (''occurredAt'', JsonNumber (JInt t))])
       (\<lambda>v. case v of JsonString s \<Rightarrow> s | _ \<Rightarrow> []) (\<lambda>_. t),
     pe_hash = (\<lambda>s. s), pe_publicUrl = ''https://pay'' \<rparr>"





lemmas sample_defs = sample_env_def page_scope_def sample_world_def sample_db_def sample_settings_def sample_gateway_def
  sample_invoice_def sample_line_def


lemma sample_quote:
  "\<lbrakk>i_taxRateBpApplied iv = 0; i_cardFeeRateBpApplied iv = 0; l_quantity l = 10000; l_unitPriceMinor l = 1000; \<not> l_taxExempt l\<rbrakk> \<Longrightarrow>
   calculate (attempt_quote iv [l] m) = Inr \<lparr> cr_lines = [\<lparr> lr_lineTotalMinor = 1000, lr_taxExempt = False \<rparr>],
      cr_subtotalMinor = 1000, cr_taxableBaseMinor = 1000, cr_taxRateBpApplied = 0, cr_taxMinor = 0, cr_preFeeTotalMinor = 1000,
      cr_cardFeeRateBpApplied = 0, cr_cardFeeMinor = 0, cr_cardFeeApplied = incursCardFee m, cr_totalMinor = 1000,
      cr_settledMinor = 0, cr_balanceMinor = 1000 \<rparr>"
  unfolding calculate_eq_Inr
  by (simp add: attempt_quote_def calculate_line_def calculateLineTotal_eq sum_minor_eq_Inr safe_def max_safe_def
      round_half_away_def)

lemmas store_run = withScope_def transaction_def run_bind ecatch_def invoice_find_def invoice_updateMany_def invoice_update_def
  customer_find_def invoice_customer_def settings_find_def payment_find_def payment_create_def payment_update_def
  payment_setReference_def event_create_def now_ms_def draw_id_def call_gateway_def money_def decide_def enqueue_def
  map_rows_def lines_of_def Let_def

lemmas sees_run = sees_def visible_to_def app_brand_visible_def brand_merchant_def app_merchant_id_def app_all_brands_def app_brand_ids_def


section \<open>Properties\<close>


lemma sample_ledger: "ledger_ok (sample_db SENT 1000)"
  by (simp add: ledger_ok_def ledger_rows_def sample_db_def sample_invoice_def invoice_ok_def safe_def max_safe_def)

lemma sample_attempt:
  "\<exists>r w. createIntent (sample_env k t) page_scope CARD n (sample_world (sample_db SENT 1000)) = (Inr r, w) \<and>
     at_invoiceStatus r = PAID \<and> length (payments (w_db w)) = 1"
  apply (simp add: createIntent_def createIntent_tx_def store_run sample_defs sees_run sample_quote)
  apply (simp add: evaluateTransition_def)
  apply (simp add: applySettlement_def fake_createIntent_def resolveScenario_def attempt_outcome_def fake_adapter_def store_run
      sees_run settle_full_decision)
  done

lemma attempted_paid: "i_status iv \<noteq> PAID \<Longrightarrow> PAID = i_status (attempted_invoice g t iv) \<longleftrightarrow> g = SUCCEEDED"
  by (cases g) auto




text \<open>C5: nothing but a verified, attributed and current event reaches the ledger. A delivery that
  throws leaves the database as it was. One that returns leaves database and queue as they were,
  unless the gateway verified its signature, the event parsed from it names a stored payment of
  the brand it was attributed to, is not of the unknown type and is later than the last event
  applied to that payment; and then at most that payment's row and its invoice's row differ.\<close>

theorem webhook_guarded:
  "case handleWebhook env raw hdrs b w of
     (Inl e, w') \<Rightarrow> w_db w' = w_db w
   | (Inr _, w') \<Rightarrow> w_db w' = w_db w \<and> w_jobs w' = w_jobs w \<or>
      (\<exists>g1 event g2 p. gw_verifySignature (pe_gateway env) raw hdrs b (w_gateway w) = (Inr True, g1) \<and>
        gw_parseWebhook (pe_gateway env) raw b g1 = (Inr event, g2) \<and> attributed_to env event b g2 (p_brandId p) \<and>
        find (\<lambda>q. p_gatewayReference q = Some (we_gatewayReference event)) (payments (w_db w)) = Some p \<and>
        event_applied event p (w_db w) (w_db w'))"
  using handleWebhook_effect[of env raw hdrs b w] unfolding wp_def .

definition delivers :: "'g pay_env \<Rightarrow> string \<Rightarrow> headers \<Rightarrow> string option \<Rightarrow> 'g world \<Rightarrow> webhook_event \<Rightarrow> bool" where
  "delivers env raw hdrs b w event \<longleftrightarrow> (\<exists>g1 g2. gw_verifySignature (pe_gateway env) raw hdrs b (w_gateway w) = (Inr True, g1) \<and>
     gw_parseWebhook (pe_gateway env) raw b g1 = (Inr event, g2))"

lemma handleWebhook_stale:
  assumes "delivers env raw hdrs b w event" "stale p event"
    and "find (\<lambda>q. p_gatewayReference q = Some (we_gatewayReference event)) (payments (w_db w)) = Some p"
  shows "w_db (snd (handleWebhook env raw hdrs b w)) = w_db w \<and> w_jobs (snd (handleWebhook env raw hdrs b w)) = w_jobs w"
proof -
  have P: "wp (process_event event a) Q E (w\<lparr> w_gateway := g \<rparr>) = Q () (w\<lparr> w_gateway := g \<rparr>)" for a g Q E
    using process_event_stale[of event "w\<lparr> w_gateway := g \<rparr>" p a] assms by (simp add: wp_def)
  let ?R = "\<lambda>w'. w_db w' = w_db w \<and> w_jobs w' = w_jobs w"
  have "wp (handleWebhook env raw hdrs b) (\<lambda>_. ?R) (\<lambda>_. ?R) w"
    using assms(1) unfolding handleWebhook_def attribute_brand_def delivers_def
    by (auto simp: wp_simps P split: option.splits prod.splits sum.splits if_splits)
  then show ?thesis by (auto simp: wp_def split: prod.splits sum.splits)
qed

text \<open>C6: events are applied once and in order. After a delivery that changed the database, any
  delivery (the same one again, or an earlier event arriving late) whose event names the same
  payment and is not later changes neither the database nor the queue, whatever its type.\<close>

theorem webhook_once:
  assumes "distinct (map p_id (payments (w_db w)))" "handleWebhook env raw hdrs b w = (Inr (), w')" "w_db w' \<noteq> w_db w"
    and "delivers env raw hdrs b w event" "w_db w2 = w_db w'" "delivers env2 raw2 hdrs2 b2 w2 event2"
    and "we_gatewayReference event2 = we_gatewayReference event" "we_occurredAt event2 \<le> we_occurredAt event"
  shows "w_db (snd (handleWebhook env2 raw2 hdrs2 b2 w2)) = w_db w2 \<and> w_jobs (snd (handleWebhook env2 raw2 hdrs2 b2 w2)) = w_jobs w2"
proof -
  have "\<exists>p. find (\<lambda>q. p_gatewayReference q = Some (we_gatewayReference event)) (payments (w_db w)) = Some p \<and>
      event_applied event p (w_db w) (w_db w')"
    using wp_value[OF handleWebhook_effect assms(2)] assms(3,4) by (auto simp: delivers_def)
  then obtain p' where "find (\<lambda>q. p_gatewayReference q = Some (we_gatewayReference event)) (payments (w_db w')) = Some p'"
      "p_lastEventAt p' = Some (we_occurredAt event)"
    using applied_is_stale[OF assms(1)] by blast
  then show ?thesis
    using handleWebhook_stale[OF assms(6), of p'] assms(5,7,8) by (simp add: stale_def)
qed

definition pending_db :: db where
  "pending_db = (sample_db PENDING_PAYMENT 1000)\<lparr>
     invoices := [(sample_invoice ''i1'' ''INV-1'' PENDING_PAYMENT 1000)\<lparr> i_previousStatus := Some SENT \<rparr>],
     payments := [\<lparr> p_id = ''p1'', p_invoiceId = ''i1'', p_brandId = ''b1'', p_method = ACH, p_amountMinor = 1000,
       p_currency = ''USD'', p_status = PROCESSING, p_gatewayReference = Some ''ref'', p_idempotencyKey = ''k'',
       p_lastEventAt = Some 1000, p_declineReason = None, p_settledAt = None, p_createdAt = 900 \<rparr>] \<rparr>"

abbreviation sample_delivery :: "string \<Rightarrow> int \<Rightarrow> db \<Rightarrow> (service_error + unit) \<times> fake_gateway world" where
  "sample_delivery kind t d \<equiv> handleWebhook (sample_env kind t) ''ref'' [(''x-fake-signature'', ''ref'')] None (sample_world d)"

lemma sample_delivers:
  "\<exists>event. delivers (sample_env kind t) ''ref'' [(''x-fake-signature'', ''ref'')] None (sample_world d) event \<and>
     we_gatewayReference event = ''ref'' \<and> we_occurredAt event = (if t = 0 then 1000 else t)"
  by (simp add: delivers_def sample_env_def fake_adapter_def fake_verifySignature_def fake_parseWebhook_def json_member_def sample_world_def sample_gateway_def)

lemma sample_success:
  "\<exists>w. sample_delivery ''PAYMENT_SUCCEEDED'' 2000 pending_db = (Inr (), w) \<and>
     map i_status (invoices (w_db w)) = [PAID] \<and> map p_status (payments (w_db w)) = [SETTLED] \<and> w_jobs w = [PushPayment ''b1'' ''p1'']"
  apply (simp add: handleWebhook_def process_event_def pending_db_def sample_defs store_run fake_adapter_def fake_verifySignature_def fake_parseWebhook_def json_member_def
    attribute_brand_def payment_by_reference_def brand_merchant_def nonempty_def stale_def event_type_cast_def event_type_names_def)
  apply (simp add: applySettlement_def webhook_settlement_def webhook_scope_def event_intent_status_def store_run sees_run settle_full_decision)
  done

theorem webhook_once_witness:
  "\<exists>w. sample_delivery ''PAYMENT_SUCCEEDED'' 2000 pending_db = (Inr (), w) \<and> map i_status (invoices (w_db w)) = [PAID] \<and>
     w_db (snd (sample_delivery ''PAYMENT_FAILED'' 1500 (w_db w))) = w_db w"
proof -
  obtain w where run: "sample_delivery ''PAYMENT_SUCCEEDED'' 2000 pending_db = (Inr (), w)"
      "map i_status (invoices (w_db w)) = [PAID]" using sample_success by (elim exE conjE) (rule that)
  obtain e where e: "delivers (sample_env ''PAYMENT_SUCCEEDED'' 2000) ''ref'' [(''x-fake-signature'', ''ref'')] None (sample_world pending_db) e"
      "we_gatewayReference e = ''ref''" "we_occurredAt e = 2000"
    using sample_delivers[of "''PAYMENT_SUCCEEDED''" 2000 pending_db] by auto
  obtain e2 where e2: "delivers (sample_env ''PAYMENT_FAILED'' 1500) ''ref'' [(''x-fake-signature'', ''ref'')] None (sample_world (w_db w)) e2"
      "we_gatewayReference e2 = ''ref''" "we_occurredAt e2 = 1500"
    using sample_delivers[of "''PAYMENT_FAILED''" 1500 "w_db w"] by auto
  have "distinct (map p_id (payments (w_db (sample_world pending_db))))" "w_db w \<noteq> w_db (sample_world pending_db)"
    using run(2) by (auto simp: sample_world_def pending_db_def sample_invoice_def)
  note once = webhook_once[OF this(1) run(1) this(2) e(1) _ e2(1)]
  have same: "w_db (sample_world (w_db w)) = w_db w" "we_gatewayReference e2 = we_gatewayReference e" "we_occurredAt e2 \<le> we_occurredAt e"
    by (simp_all add: sample_world_def e e2)
  from once[OF same] have "w_db (snd (sample_delivery ''PAYMENT_FAILED'' 1500 (w_db w))) = w_db w"
    unfolding same(1) by (rule conjunct1)
  with run show ?thesis by (intro exI[of _ w] conjI)
qed

text \<open>C3: what an accepted event does. From a consistent ledger, a known, current event of the right
  brand is applied without an error: it sets the payment's status to settled, failed, or (for every
  other known type, whatever the status was) processing; a success makes a pending or part-paid
  invoice PAID with nothing owed, a failure returns a pending one to the status it came
  from, and the invoice stays as it is otherwise; nothing else changes in the two tables, and a
  push to the accounting system is queued exactly on success.\<close>

theorem webhook_outcome:
  assumes "ledger_ok (w_db w)" "distinct (map p_id (payments (w_db w)))"
    and "find (\<lambda>q. p_gatewayReference q = Some (we_gatewayReference event)) (payments (w_db w)) = Some p"
    and "find (\<lambda>i. i_id i = p_invoiceId p) (invoices (w_db w)) = Some iv"
    and "brand_merchant (w_db w) (i_brandId iv) = Some m" "id_ok m" "id_ok (i_brandId iv)"
    and "p_brandId p = i_brandId iv" "nonempty a \<longrightarrow> a = Some (p_brandId p)"
    and "we_type event \<noteq> EV_UNKNOWN" "\<not> stale p event"
  shows "\<exists>w'. process_event event a w = (Inr (), w') \<and>
      payments (w_db w') = map_rows (\<lambda>q. p_id q = p_id p) (event_payment event) (payments (w_db w)) \<and>
      invoices (w_db w') = map_rows (\<lambda>i. i_id i = i_id iv) (event_invoice event) (invoices (w_db w)) \<and>
      w_jobs w' = w_jobs w @ (if we_type event = EV_PAYMENT_SUCCEEDED then [PushPayment (i_brandId iv) (p_id p)] else [])"
proof -
  have "sees (PublicScope (webhook_scope m iv)) (w_db w) (i_brandId iv)"
    unfolding sees_def visible_to_def using assms(5-7)
    by (subst brand_visible_iff) (simp_all add: webhook_scope_def canReachBrand_def)
  then show ?thesis using assms by (intro process_event_outcome) auto
qed

text \<open>A refund notice for a settled payment of a paid invoice: the payment is processing again.\<close>

theorem webhook_outcome_witness:
  "\<exists>w. process_event \<lparr> we_id = ''e'', we_type = EV_REFUND_SUCCEEDED, we_gatewayReference = ''ref'', we_amountMinor = None,
        we_currency = None, we_occurredAt = 3000, we_declineReason = None, we_accountRef = None \<rparr> None
      (sample_world (pending_db\<lparr> payments := map (\<lambda>p. p\<lparr> p_status := SETTLED \<rparr>) (payments pending_db) \<rparr>)) = (Inr (), w) \<and>
     map p_status (payments (w_db w)) = [PROCESSING]"
proof -
  let ?e = "\<lparr> we_id = ''e'', we_type = EV_REFUND_SUCCEEDED, we_gatewayReference = ''ref'', we_amountMinor = None,
        we_currency = None, we_occurredAt = 3000, we_declineReason = None, we_accountRef = None \<rparr>"
  let ?d = "pending_db\<lparr> payments := map (\<lambda>p. p\<lparr> p_status := SETTLED \<rparr>) (payments pending_db) \<rparr>"
  have "ledger_ok ?d" "distinct (map p_id (payments ?d))"
    by (simp_all add: ledger_ok_def ledger_rows_def pending_db_def sample_invoice_def invoice_ok_def safe_def max_safe_def)
  then have "\<exists>w. process_event ?e None (sample_world ?d) = (Inr (), w) \<and>
      payments (w_db w) = map_rows (\<lambda>q. p_id q = ''p1'') (event_payment ?e) (payments ?d)"
    using webhook_outcome[of "sample_world ?d" ?e "hd (payments ?d)" "hd (invoices ?d)" "''m1''" None]
    by (auto simp: sample_world_def pending_db_def sample_db_def sample_invoice_def brand_merchant_def nonempty_def stale_def id_ok_def)
  then show ?thesis by (auto simp: pending_db_def map_rows_def event_intent_status_def)
qed

end
