(* ===== verification/EmailTemplate.thy ===== *)
theory EmailTemplate
  imports JsString
begin

text \<open>
  \<open>packages/shared/src/domain/email-receipt-template.ts\<close>: the placeholders of an e-mail template
  and their substitution. \<open>replaceAll\<close> is JavaScript's \<open>String.prototype.replaceAll\<close> with a
  string pattern: non-overlapping matches from the left, and a replacement text in which
  \<open>$$\<close>, \<open>$&\<close>, \<open>$`\<close> and \<open>$'\<close> stand for a dollar sign, the match and what is before and after it.
\<close>

section \<open>replaceAll\<close>

definition is_prefix :: "string \<Rightarrow> string \<Rightarrow> bool" where
  "is_prefix p s \<longleftrightarrow> take (length p) s = p"

fun expand_replacement :: "string \<Rightarrow> string \<Rightarrow> string \<Rightarrow> string \<Rightarrow> string" where
  "expand_replacement before matched after (c # d # t) =
     (if c = CHR ''$'' \<and> d = CHR ''$'' then CHR ''$'' # expand_replacement before matched after t
      else if c = CHR ''$'' \<and> d = CHR ''&'' then matched @ expand_replacement before matched after t
      else if c = CHR ''$'' \<and> d = CHR 0x60 then before @ expand_replacement before matched after t
      else if c = CHR ''$'' \<and> d = CHR 0x27 then after @ expand_replacement before matched after t
      else c # expand_replacement before matched after (d # t))"
| "expand_replacement before matched after t = t"

text \<open>\<open>before\<close> is the part of the subject already scanned; the pattern is not empty.\<close>

function replace_from :: "string \<Rightarrow> string \<Rightarrow> string \<Rightarrow> string \<Rightarrow> string" where
  "replace_from pat rep before s =
     (if s = [] then []
      else if pat \<noteq> [] \<and> is_prefix pat s
      then expand_replacement before pat (drop (length pat) s) rep @ replace_from pat rep (before @ pat) (drop (length pat) s)
      else hd s # replace_from pat rep (before @ [hd s]) (tl s))"
  by pat_completeness auto
termination by (relation "measure (\<lambda>(_, _, _, s). length s)") (auto simp: is_prefix_def)

declare replace_from.simps [simp del]

definition replaceAll :: "string \<Rightarrow> string \<Rightarrow> string \<Rightarrow> string" where
  "replaceAll pat rep s = replace_from pat rep [] s"

section \<open>The template\<close>

record email_variables =
  ev_brandName :: string
  ev_customerName :: string
  ev_invoiceNumber :: string
  ev_amountDue :: string
  ev_dueDate :: string

datatype email_token = BrandName | CustomerName | InvoiceNumber | AmountDue | DueDate

fun token_text :: "email_token \<Rightarrow> string" where
  "token_text BrandName = ''{{brand_name}}''"
| "token_text CustomerName = ''{{customer_name}}''"
| "token_text InvoiceNumber = ''{{invoice_number}}''"
| "token_text AmountDue = ''{{amount_due}}''"
| "token_text DueDate = ''{{due_date}}''"

fun token_value :: "email_variables \<Rightarrow> email_token \<Rightarrow> string" where
  "token_value v BrandName = ev_brandName v"
| "token_value v CustomerName = ev_customerName v"
| "token_value v InvoiceNumber = ev_invoiceNumber v"
| "token_value v AmountDue = ev_amountDue v"
| "token_value v DueDate = ev_dueDate v"

definition email_receipt_variables :: "email_token list" where
  "email_receipt_variables = [BrandName, CustomerName, InvoiceNumber, AmountDue, DueDate]"

definition renderEmailReceiptTemplate :: "string \<Rightarrow> email_variables \<Rightarrow> string" where
  "renderEmailReceiptTemplate template v =
     foldl (\<lambda>s t. replaceAll (token_text t) (token_value v t) s) template email_receipt_variables"

section \<open>Substitution of segments\<close>

text \<open>A template as its author sees it: literal text and placeholders.\<close>

datatype segment = Literal string | Token email_token

fun segment_text :: "segment \<Rightarrow> string" where
  "segment_text (Literal s) = s"
| "segment_text (Token t) = token_text t"

fun segment_value :: "email_variables \<Rightarrow> segment \<Rightarrow> string" where
  "segment_value v (Literal s) = s"
| "segment_value v (Token t) = token_value v t"

definition plain :: "string \<Rightarrow> bool" where
  "plain s \<longleftrightarrow> CHR ''{'' \<notin> set s \<and> CHR ''$'' \<notin> set s"

lemma expand_plain: "CHR ''$'' \<notin> set r \<Longrightarrow> expand_replacement b m a r = r"
  by (induction b m a r rule: expand_replacement.induct) auto

lemma token_text_shape: "\<exists>t'. token_text t = CHR ''{'' # t' \<and> length (token_text t) > 0"
  by (cases t) auto

lemma replace_Nil [simp]: "replace_from pat rep b [] = []"
  by (simp add: replace_from.simps)

lemma replace_literal:
  "CHR ''{'' \<notin> set s \<Longrightarrow> replace_from (token_text t) rep b (s @ rest) = s @ replace_from (token_text t) rep (b @ s) rest"
proof (induction s arbitrary: b)
  case (Cons c s)
  then have "\<not> is_prefix (token_text t) (c # s @ rest)"
    using token_text_shape[of t] by (auto simp: is_prefix_def)
  then show ?case using Cons by (subst replace_from.simps) simp
qed simp

lemma replace_token:
  "CHR ''$'' \<notin> set rep \<Longrightarrow>
     replace_from (token_text t) rep b (token_text t @ rest) = rep @ replace_from (token_text t) rep (b @ token_text t) rest"
  by (subst replace_from.simps) (use token_text_shape[of t] in \<open>auto simp: is_prefix_def expand_plain\<close>)

text \<open>Another token's text is passed over: no placeholder starts inside it.\<close>

lemma replace_skip:
  "\<not> is_prefix (token_text t) (c # s) \<Longrightarrow> replace_from (token_text t) rep b (c # s) = c # replace_from (token_text t) rep (b @ [c]) s"
  by (subst replace_from.simps) simp

lemma replace_other:
  "t \<noteq> u \<Longrightarrow> replace_from (token_text t) rep b (token_text u @ rest) = token_text u @ replace_from (token_text t) rep (b @ token_text u) rest"
  using replace_skip[of t]
  by (cases t; cases u; simp add: is_prefix_def)

fun fill :: "email_token \<Rightarrow> string \<Rightarrow> segment \<Rightarrow> segment" where
  "fill t r (Token u) = (if u = t then Literal r else Token u)"
| "fill t r (Literal s) = Literal s"

definition literals_plain :: "segment list \<Rightarrow> bool" where
  "literals_plain segs \<longleftrightarrow> (\<forall>s. Literal s \<in> set segs \<longrightarrow> plain s)"

lemma literals_plain_Cons [simp]:
  "literals_plain (Literal s # segs) \<longleftrightarrow> plain s \<and> literals_plain segs" "literals_plain (Token t # segs) \<longleftrightarrow> literals_plain segs"
  by (auto simp: literals_plain_def)

lemma literals_plain_fill: "\<lbrakk>literals_plain segs; plain r\<rbrakk> \<Longrightarrow> literals_plain (map (fill t r) segs)"
proof (induction segs)
  case (Cons g segs)
  then show ?case by (cases g) auto
qed (simp add: literals_plain_def)

lemma replace_segments:
  "\<lbrakk>literals_plain segs; plain r\<rbrakk> \<Longrightarrow>
     replace_from (token_text t) r b (concat (map segment_text segs)) = concat (map segment_text (map (fill t r) segs))"
proof (induction segs arbitrary: b)
  case (Cons g segs)
  then show ?case
    by (cases g) (auto simp: replace_literal replace_token replace_other plain_def)
qed simp

lemma replaceAll_segments:
  "\<lbrakk>literals_plain segs; plain r\<rbrakk> \<Longrightarrow>
     replaceAll (token_text t) r (concat (map segment_text segs)) = concat (map segment_text (map (fill t r) segs))"
  by (simp add: replaceAll_def replace_segments)

lemma fill_tokens:
  assumes "literals_plain segs" "\<And>t. t \<in> set ts \<Longrightarrow> plain (token_value v t)"
  shows "foldl (\<lambda>s t. replaceAll (token_text t) (token_value v t) s) (concat (map segment_text segs)) ts =
     concat (map segment_text (map (\<lambda>g. foldl (\<lambda>g t. fill t (token_value v t) g) g ts) segs))"
  using assms
proof (induction ts arbitrary: segs)
  case (Cons t ts)
  have "literals_plain (map (fill t (token_value v t)) segs)"
    by (rule literals_plain_fill) (use Cons.prems in auto)
  from Cons.IH[OF this] Cons.prems show ?case
    by (simp add: replaceAll_segments comp_def)
qed simp

lemma filled_segment: "segment_text (foldl (\<lambda>g t. fill t (token_value v t) g) g email_receipt_variables) = segment_value v g"
proof (cases g)
  case (Token t)
  then show ?thesis by (cases t) (simp_all add: email_receipt_variables_def)
qed (simp add: email_receipt_variables_def)

section \<open>Properties\<close>

text \<open>an e-mail template is filled in as its author reads it. When neither the literal text nor a
  value contains a brace or a dollar sign, every placeholder is replaced by its value, all
  occurrences at once, and everything else is left as it is: the five sequential replacements do
  not interfere.\<close>

theorem template_substitution:
  assumes "\<forall>s. Literal s \<in> set segs \<longrightarrow> plain s" "\<forall>t. plain (token_value v t)"
  shows "renderEmailReceiptTemplate (concat (map segment_text segs)) v = concat (map (segment_value v) segs)"
  using fill_tokens[of segs email_receipt_variables v] assms
  by (simp add: renderEmailReceiptTemplate_def literals_plain_def filled_segment comp_def)

definition sample_variables :: "string \<Rightarrow> email_variables" where
  "sample_variables name = \<lparr> ev_brandName = ''Brand'', ev_customerName = name, ev_invoiceNumber = ''INV-0007'',
     ev_amountDue = ''10'', ev_dueDate = ''May 1'' \<rparr>"

theorem template_substitution_witness:
  "renderEmailReceiptTemplate ''Dear {{customer_name}}, {{amount_due}}'' (sample_variables ''Ann'') = ''Dear Ann, 10''"
proof -
  have "\<forall>t. plain (token_value (sample_variables ''Ann'') t)"
    by (rule allI, case_tac t) (simp_all add: plain_def sample_variables_def)
  from template_substitution[OF _ this, of "[Literal ''Dear '', Token CustomerName, Literal '', '', Token AmountDue]"]
  show ?thesis by (simp add: plain_def sample_variables_def)
qed

text \<open>values are not protected from the later replacements nor from \<open>replaceAll\<close>'s own patterns. A
  customer named after a placeholder is replaced by the invoice number, and one named with two
  dollar signs loses one.\<close>

theorem template_resubstitution:
  "renderEmailReceiptTemplate ''{{customer_name}}'' (sample_variables ''{{invoice_number}}'') = ''INV-0007'' \<and>
   renderEmailReceiptTemplate ''{{customer_name}}'' (sample_variables ''A$$'') = ''A$''"
  by (simp add: renderEmailReceiptTemplate_def email_receipt_variables_def sample_variables_def replaceAll_def
      replace_from.simps is_prefix_def)

end
