(* ===== verification/Invoices.thy ===== *)
theory Invoices
  imports Payments EmailTemplate
begin

text \<open>
  \<open>apps/api/src/invoices/invoices.service.ts\<close>: drafting, issuing, e-mailing, recording money
  received outside the platform, cancelling, and the list queries. Parameters of the model
  (\<open>invoice_env\<close>): \<open>Intl\<close>'s text of an amount and of a date, the database's case-insensitive
  \<open>contains\<close>, the mail port, the renderers of the HTML alternative's logo and of the PDF, and the
  pull from Zoho that \<open>findOne\<close> falls back to. Log lines and the HTML alternative are left out.
\<close>

record 'g invoice_env =
  ie_displayMoney :: "int \<Rightarrow> currency \<Rightarrow> string"
  ie_displayDate :: "int \<Rightarrow> string"
  ie_contains :: "string \<Rightarrow> string \<Rightarrow> bool"
  ie_accepts :: "nat \<Rightarrow> mail \<Rightarrow> bool"
  ie_logo :: "string \<Rightarrow> string option"
  ie_renderPdf :: "invoice_row \<Rightarrow> line_row list \<Rightarrow> (service_error, unit) result"
  ie_enrich :: "scope \<Rightarrow> string \<Rightarrow> string \<Rightarrow> ('g, bool) service"
  ie_paymentUrl :: string
  ie_mailFrom :: string

type_synonym invoice_with_lines = "invoice_row \<times> line_row list"

section \<open>Reading\<close>

record invoice_filters =
  if_search :: "string option"
  if_from :: "int option"
  if_to :: "int option"
  if_customerId :: "string option"

text \<open>The relation filter on the customer's name runs under the same row-level security.\<close>

definition customer_name_matches :: "'g invoice_env \<Rightarrow> scope \<Rightarrow> db \<Rightarrow> string \<Rightarrow> invoice_row \<Rightarrow> bool" where
  "customer_name_matches env sc d search r =
     list_ex (\<lambda>c. sees sc d (c_brandId c) \<and> c_id c = i_customerId r \<and> ie_contains env (c_displayName c) search) (customers d)"

definition baseInvoiceWhere :: "'g invoice_env \<Rightarrow> scope \<Rightarrow> db \<Rightarrow> string \<Rightarrow> invoice_filters \<Rightarrow> invoice_row \<Rightarrow> bool" where
  "baseInvoiceWhere env sc d brandId f r =
     (i_brandId r = brandId \<and>
      (case if_customerId f of Some (c # cs) \<Rightarrow> i_customerId r = c # cs | _ \<Rightarrow> True) \<and>
      (case if_search f of
         Some (c # cs) \<Rightarrow> ie_contains env (i_number r) (c # cs) \<or> customer_name_matches env sc d (c # cs) r
       | _ \<Rightarrow> True) \<and>
      (case if_from f of None \<Rightarrow> True | Some t \<Rightarrow> t \<le> i_invoiceDate r) \<and>
      (case if_to f of None \<Rightarrow> True | Some t \<Rightarrow> i_invoiceDate r \<le> t))"

record invoice_list_query =
  iq_page :: nat
  iq_pageSize :: nat
  iq_filters :: invoice_filters
  iq_status :: "invoice_status list option"
  iq_overdueOnly :: bool
  iq_excludeOverdue :: bool

definition invoice_list_where :: "'g invoice_env \<Rightarrow> scope \<Rightarrow> db \<Rightarrow> string \<Rightarrow> invoice_list_query \<Rightarrow> invoice_row \<Rightarrow> bool" where
  "invoice_list_where env sc d brandId q r =
     (baseInvoiceWhere env sc d brandId (iq_filters q) r \<and>
      (case iq_status q of Some (s # ss) \<Rightarrow> i_status r \<in> set (s # ss) | _ \<Rightarrow> True) \<and>
      (if iq_overdueOnly q then i_overdue r else if iq_excludeOverdue q then \<not> i_overdue r else True))"

record invoice_list_row =
  il_invoice :: invoice_row
  il_lines :: "line_row list"
  il_customerName :: string

definition invoice_row_view :: "scope \<Rightarrow> invoice_row \<Rightarrow> ('g, invoice_list_row) service" where
  "invoice_row_view sc r =
     ebind (egets (\<lambda>w. lines_of (w_db w) (i_id r))) (\<lambda>ls.
     ebind (invoice_customer sc r) (\<lambda>c.
     ereturn \<lparr> il_invoice = r, il_lines = ls, il_customerName = c_displayName c \<rparr>))"

definition invoices_list :: "'g invoice_env \<Rightarrow> scope \<Rightarrow> string \<Rightarrow> invoice_list_query \<Rightarrow> ('g, invoice_list_row list_result) service" where
  "invoices_list env sc brandId q = withScope
     (ebind (egets w_db) (\<lambda>d.
      ebind (invoice_all sc (invoice_list_where env sc d brandId q)) (\<lambda>rows.
      ebind (eforeach (invoice_row_view sc) (page_of (iq_page q) (iq_pageSize q) (newest_first i_createdAt rows))) (\<lambda>data.
      ereturn \<lparr> ls_data = data, ls_page = iq_page q, ls_pageSize = iq_pageSize q, ls_total = length rows \<rparr>))))"

record tab_counts =
  tab_all :: nat
  tab_draft :: nat
  tab_unpaid :: nat
  tab_partial :: nat
  tab_paid :: nat
  tab_overdue :: nat

definition tabCounts :: "'g invoice_env \<Rightarrow> scope \<Rightarrow> string \<Rightarrow> invoice_filters \<Rightarrow> ('g, tab_counts) service" where
  "tabCounts env sc brandId f = withScope
     (ebind (egets w_db) (\<lambda>d.
      ebind (invoice_all sc (baseInvoiceWhere env sc d brandId f)) (\<lambda>base.
      let count = (\<lambda>P. length (filter P base))
      in ereturn \<lparr> tab_all = count (\<lambda>_. True), tab_draft = count (\<lambda>r. i_status r = DRAFT),
           tab_unpaid = count (\<lambda>r. i_status r \<in> {SENT, VIEWED, PENDING_PAYMENT} \<and> \<not> i_overdue r),
           tab_partial = count (\<lambda>r. i_status r = PARTIALLY_PAID \<and> \<not> i_overdue r),
           tab_paid = count (\<lambda>r. i_status r = PAID), tab_overdue = count i_overdue \<rparr>)))"

record invoice_summary =
  is_outstandingMinor :: int
  is_openCount :: nat

definition invoices_summary :: "scope \<Rightarrow> string \<Rightarrow> ('g, invoice_summary) service" where
  "invoices_summary sc brandId = withScope
     (ebind (invoice_all sc (\<lambda>r. i_brandId r = brandId \<and> isPayable (i_status r))) (\<lambda>rows.
      ereturn \<lparr> is_outstandingMinor = round_double (sum_list (map i_balanceMinor rows)), is_openCount = length rows \<rparr>))"

definition brand_invoice :: "scope \<Rightarrow> string \<Rightarrow> string \<Rightarrow> ('g, invoice_row) service" where
  "brand_invoice sc brandId iid =
     ebind (invoice_find sc (\<lambda>r. i_id r = iid \<and> i_brandId r = brandId)) (\<lambda>found.
     elift (require found (NotFoundErr ''invoice not found'')))"

record invoice_detail =
  id_invoice :: invoice_row
  id_lines :: "line_row list"
  id_customer :: customer_row

definition load_detail :: "scope \<Rightarrow> string \<Rightarrow> string \<Rightarrow> ('g, invoice_detail option) service" where
  "load_detail sc brandId iid = withScope
     (ebind (invoice_find sc (\<lambda>r. i_id r = iid \<and> i_brandId r = brandId)) (\<lambda>found.
      case found of
        None \<Rightarrow> ereturn None
      | Some iv \<Rightarrow>
          ebind (egets (\<lambda>w. lines_of (w_db w) (i_id iv))) (\<lambda>ls.
          ebind (invoice_customer sc iv) (\<lambda>c.
          ereturn (Some \<lparr> id_invoice = iv, id_lines = ls, id_customer = c \<rparr>)))))"

definition findOne :: "'g invoice_env \<Rightarrow> scope \<Rightarrow> string \<Rightarrow> string \<Rightarrow> ('g, invoice_detail) service" where
  "findOne env sc brandId iid =
     ebind (load_detail sc brandId iid) (\<lambda>found.
     ebind (elift (require found (NotFoundErr ''invoice not found''))) (\<lambda>detail.
     if nonempty (i_zohoInvoiceId (id_invoice detail)) \<and> id_lines detail = []
     then ebind (ecatch (ie_enrich env sc brandId iid) (\<lambda>_. ereturn False)) (\<lambda>enriched.
          if enriched
          then ebind (load_detail sc brandId iid) (\<lambda>again.
               ereturn (case again of Some d \<Rightarrow> d | None \<Rightarrow> detail))
          else ereturn detail)
     else ereturn detail))"

definition getActivity :: "scope \<Rightarrow> string \<Rightarrow> string \<Rightarrow> ('g, event_row list) service" where
  "getActivity sc brandId iid =
     ebind (withScope (brand_invoice sc brandId iid)) (\<lambda>_.
     withScope (egets (\<lambda>w. newest_first e_occurredAt
       (filter (\<lambda>e. e_invoiceId e = iid \<and>
          list_ex (\<lambda>i. i_id i = e_invoiceId e \<and> sees sc (w_db w) (i_brandId i)) (invoices (w_db w))) (events (w_db w))))))"

section \<open>E-mail\<close>

definition formatMinorForDisplay :: "'g invoice_env \<Rightarrow> int \<Rightarrow> currency \<Rightarrow> (money_error, string) result" where
  "formatMinorForDisplay env n cur = rbind (assertMinor (JInt n) ''amount'') (\<lambda>m. Inr (ie_displayMoney env m cur))"

definition invoice_currency :: "invoice_row \<Rightarrow> currency" where
  "invoice_currency iv = toCurrencyCode (Some (i_currency iv)) USD"

record prepared_email =
  pe_to :: string
  pe_subject :: string
  pe_body :: string

definition prepareEmail :: "'g invoice_env \<Rightarrow> scope \<Rightarrow> string \<Rightarrow> string \<Rightarrow> ('g, prepared_email) service" where
  "prepareEmail env sc brandId iid =
     ebind (withScope
       (ebind (brand_invoice sc brandId iid) (\<lambda>iv.
        ebind (invoice_customer sc iv) (\<lambda>c.
        ebind (invoice_brand sc iv) (\<lambda>b.
        ebind (settings_find sc brandId) (\<lambda>found.
        ebind (elift (require found (NotFoundErr ''brand settings not found''))) (\<lambda>st.
        ereturn (iv, c, b, st))))))))
     (\<lambda>(iv, c, b, st).
     ebind (money (formatMinorForDisplay env (i_balanceMinor iv) (invoice_currency iv))) (\<lambda>due.
     let variables = \<lparr> ev_brandName = b_displayName b, ev_customerName = c_displayName c, ev_invoiceNumber = i_number iv,
           ev_amountDue = due, ev_dueDate = ie_displayDate env (i_dueDate iv) \<rparr>
     in ereturn \<lparr> pe_to = (case c_email c of None \<Rightarrow> [] | Some e \<Rightarrow> e),
          pe_subject = renderEmailReceiptTemplate (st_emailReceiptSubject st) variables,
          pe_body = renderEmailReceiptTemplate (st_emailReceiptBody st) variables \<rparr>))"

fun method_name :: "payment_method \<Rightarrow> string" where
  "method_name CARD = ''CARD''"
| "method_name WALLET = ''WALLET''"
| "method_name ACH = ''ACH''"
| "method_name CHECK = ''CHECK''"
| "method_name MANUAL = ''MANUAL''"

record email_input =
  em_to :: string
  em_cc :: "string option"
  em_subject :: string
  em_body :: string
  em_attachPdf :: bool
  em_preferredMethod :: "payment_method option"

definition email_link :: "'g invoice_env \<Rightarrow> invoice_row \<Rightarrow> payment_method option \<Rightarrow> string" where
  "email_link env iv preferred =
     ie_paymentUrl env @ ''/i/'' @ i_publicToken iv @
     (case preferred of None \<Rightarrow> [] | Some m \<Rightarrow> ''?method='' @ method_name m)"

definition email_text :: "'g invoice_env \<Rightarrow> invoice_row \<Rightarrow> email_input \<Rightarrow> string \<Rightarrow> string" where
  "email_text env iv input due = join_with (CHR 0x0A)
     [em_body input, [], ''Invoice '' @ i_number iv, ''Amount due: '' @ due,
      ''Due date: '' @ ie_displayDate env (i_dueDate iv), [],
      ''View and pay: '' @ email_link env iv (em_preferredMethod input)]"

text \<open>The PDF's line amounts are formatted too, and throw like the balance.\<close>

definition pdf_amounts :: "'g invoice_env \<Rightarrow> invoice_row \<Rightarrow> line_row list \<Rightarrow> (money_error, unit) result" where
  "pdf_amounts env iv ls =
     rbind (rmapM (\<lambda>l. rbind (formatQuantity (JInt (l_quantity l))) (\<lambda>_.
        rbind (formatMinorForDisplay env (l_unitPriceMinor l) (invoice_currency iv)) (\<lambda>_.
        formatMinorForDisplay env (l_lineTotalMinor l) (invoice_currency iv)))) ls) (\<lambda>_.
     rbind (formatMinorForDisplay env (i_subtotalMinor iv) (invoice_currency iv)) (\<lambda>_.
     rbind (formatMinorForDisplay env (i_totalMinor iv) (invoice_currency iv)) (\<lambda>_.
     rbind (formatMinorForDisplay env (i_balanceMinor iv) (invoice_currency iv)) (\<lambda>_. Inr ()))))"

definition send_mail :: "'g invoice_env \<Rightarrow> mail \<Rightarrow> ('g, unit) service" where
  "send_mail env m = (\<lambda>w.
     if ie_accepts env (length (w_mails w)) m then (Inr (), w\<lparr> w_mails := w_mails w @ [m] \<rparr>)
     else (Inl (BadGatewayErr ''Could not send this email''), w))"

text \<open>The row that \<open>sendEmail\<close> reads, with its lines; the customer and the brand must be there.\<close>

definition email_read :: "scope \<Rightarrow> string \<Rightarrow> string \<Rightarrow> ('g, invoice_row \<times> line_row list) service" where
  "email_read sc brandId iid =
     ebind (brand_invoice sc brandId iid) (\<lambda>iv.
     ebind (invoice_customer sc iv) (\<lambda>c.
     ebind (invoice_brand sc iv) (\<lambda>b.
     ebind (egets (\<lambda>w. lines_of (w_db w) (i_id iv))) (\<lambda>ls. ereturn (iv, ls)))))"

definition invoice_mail :: "'g invoice_env \<Rightarrow> string \<Rightarrow> invoice_row \<Rightarrow> email_input \<Rightarrow> string \<Rightarrow> int \<Rightarrow> mail" where
  "invoice_mail env brandId iv input due now =
     \<lparr> m_to = em_to input, m_cc = (if nonempty (em_cc input) then em_cc input else None),
       m_from = ie_mailFrom env, m_subject = em_subject input, m_text = email_text env iv input due,
       m_attachments = (case ie_logo env (i_brandId iv) of None \<Rightarrow> [] | Some l \<Rightarrow> [l]) @
         (if em_attachPdf input then [''invoice-'' @ i_number iv @ ''.pdf''] else []),
       m_brandId = brandId, m_invoiceId = i_id iv, m_templateKey = ''email-receipt.invoice-send'',
       m_idempotencyKey = ''invoice-send:'' @ i_id iv @ '':'' @ show_int now \<rparr>"

definition email_sent_event :: "scope \<Rightarrow> string \<Rightarrow> int \<Rightarrow> event_row" where
  "email_sent_event sc iid t =
     \<lparr> e_invoiceId = iid, e_eventType = ''EMAIL_SENT'', e_fromStatus = None, e_toStatus = None,
       e_actor = scope_actor sc, e_payload = NoPayload, e_occurredAt = t \<rparr>"

definition sendEmail :: "'g invoice_env \<Rightarrow> scope \<Rightarrow> string \<Rightarrow> string \<Rightarrow> email_input \<Rightarrow> ('g, unit) service" where
  "sendEmail env sc brandId iid input =
     ebind (withScope (email_read sc brandId iid)) (\<lambda>(iv, ls).
     ebind (money (formatMinorForDisplay env (i_balanceMinor iv) (invoice_currency iv))) (\<lambda>due.
     ebind (if em_attachPdf input
            then ebind (money (pdf_amounts env iv ls)) (\<lambda>_. elift (ie_renderPdf env iv ls)) else ereturn ()) (\<lambda>_.
     ebind now_ms (\<lambda>now.
     ebind (send_mail env (invoice_mail env brandId iv input due now)) (\<lambda>_.
     withScope (ebind now_ms (\<lambda>t. event_create (email_sent_event sc iid t))))))))"

section \<open>Drafting\<close>

record draft_line =
  dl_itemName :: string
  dl_description :: "string option"
  dl_quantity :: string
  dl_unitPrice :: string
  dl_taxExempt :: bool

record invoice_draft =
  id_customerId :: string
  id_invoiceDate :: int
  id_dueDate :: int
  id_currency :: currency
  id_draftLines :: "draft_line list"
  id_taxRateBp :: int
  id_cardFeeRateBp :: int
  id_notes :: "string option"
  id_internalNotes :: "string option"

definition draft_calc_line :: "currency \<Rightarrow> draft_line \<Rightarrow> (money_error, calc_line) result" where
  "draft_calc_line cur l =
     rbind (quantityFrom (QuantityText (dl_quantity l))) (\<lambda>q.
     rbind (parseMinor (dl_unitPrice l) cur) (\<lambda>p.
     Inr \<lparr> cl_quantity = q, cl_unitPriceMinor = JInt p, cl_taxExempt = Some (dl_taxExempt l) \<rparr>))"

definition draft_quote :: "invoice_draft \<Rightarrow> (money_error, calc_line list \<times> calc_result) result" where
  "draft_quote input =
     rbind (rmapM (draft_calc_line (id_currency input)) (id_draftLines input)) (\<lambda>lines.
     rbind (calculate \<lparr> ci_lines = lines, ci_taxRateBp = JInt (id_taxRateBp input),
        ci_cardFeeRateBp = JInt (id_cardFeeRateBp input), ci_paymentMethod = MANUAL, ci_settledMinor = None \<rparr>) (\<lambda>r.
     Inr (lines, r)))"

fun number_value :: "jsnum \<Rightarrow> int" where
  "number_value (JInt n) = n"
| "number_value JOther = 0"

text \<open>
  The rows of \<open>lineItems.create\<close>, zipped by index; \<open>None\<close> is the source's invariant violation.
  A quantity or price that reaches this point has been checked to be an integer.
\<close>

fun draft_lines :: "string \<Rightarrow> nat \<Rightarrow> calc_line list \<Rightarrow> draft_line list \<Rightarrow> calc_line_result list \<Rightarrow> line_row list option" where
  "draft_lines iid position [] sources computed = Some []"
| "draft_lines iid position (l # ls) (s # ss) (c # cs) =
     map_option (\<lambda>rows. \<lparr> l_invoiceId = iid, l_position = position, l_itemName = dl_itemName s,
        l_description = dl_description s, l_quantity = number_value (cl_quantity l),
        l_unitPriceMinor = number_value (cl_unitPriceMinor l), l_lineTotalMinor = lr_lineTotalMinor c,
        l_taxExempt = (cl_taxExempt l = Some True) \<rparr> # rows) (draft_lines iid (position + 1) ls ss cs)"
| "draft_lines iid position (l # ls) _ _ = None"

definition draft_number :: "string \<Rightarrow> int \<Rightarrow> string" where
  "draft_number prefix sequence = prefix @ ''-'' @ pad_start 4 (CHR ''0'') (show_int sequence)"

definition draft_row :: "string \<Rightarrow> string \<Rightarrow> invoice_draft \<Rightarrow> string \<Rightarrow> calc_result \<Rightarrow> string \<Rightarrow> int \<Rightarrow> invoice_row" where
  "draft_row iid brandId input number r publicToken now =
     \<lparr> i_id = iid, i_brandId = brandId, i_customerId = id_customerId input, i_number = number, i_status = DRAFT,
       i_invoiceDate = id_invoiceDate input, i_dueDate = id_dueDate input, i_currency = currency_code (id_currency input),
       i_subtotalMinor = cr_subtotalMinor r, i_taxRateBpApplied = cr_taxRateBpApplied r, i_taxMinor = cr_taxMinor r,
       i_cardFeeRateBpApplied = cr_cardFeeRateBpApplied r, i_cardFeeMinor = 0, i_totalMinor = cr_totalMinor r,
       i_balanceMinor = cr_totalMinor r, i_publicToken = publicToken, i_publicTokenActive = True,
       i_notes = id_notes input, i_internalNotes = id_internalNotes input, i_zohoInvoiceId = None, i_issuedAt = None,
       i_firstViewedAt = None, i_paidAt = None, i_cancelledAt = None, i_previousStatus = None, i_overdue = False,
       i_createdAt = now \<rparr>"

fun collision :: "service_error \<Rightarrow> service_error" where
  "collision (UniqueViolation _) = ConflictWith ''invoice number collision''"
| "collision e = e"

definition create :: "scope \<Rightarrow> string \<Rightarrow> invoice_draft \<Rightarrow> ('g, invoice_with_lines) service" where
  "create sc brandId input = withScope
     (ebind (customer_find sc (\<lambda>c. c_id c = id_customerId input \<and> c_brandId c = brandId)) (\<lambda>found.
      ebind (elift (require found (NotFoundErr ''customer not found for this brand''))) (\<lambda>_.
      ebind (money (draft_quote input)) (\<lambda>(lines, r).
      ebind (settings_modify sc brandId (\<lambda>s. s\<lparr> st_nextSequence := st_nextSequence s + 1 \<rparr>)) (\<lambda>st.
      let number = draft_number (st_invoicePrefix st) (st_nextSequence st - 1) in
      ecatch
        (ebind draw_id (\<lambda>iid.
         ebind draw_id (\<lambda>publicToken.
         ebind now_ms (\<lambda>now.
         ebind (elift (require (draft_lines iid 0 lines (id_draftLines input) (cr_lines r)) (InternalErr ''line missing''))) (\<lambda>rows.
         ebind (invoice_create sc (draft_row iid brandId input number r publicToken now)) (\<lambda>_.
         ebind (lines_create rows) (\<lambda>_.
         ereturn (draft_row iid brandId input number r publicToken now, rows))))))))
        (\<lambda>e. ethrow (collision e)))))))"

section \<open>Issuing, recording money, cancelling\<close>

text \<open>\<open>include: { lineItems }\<close> of the row after its update.\<close>

definition reload :: "scope \<Rightarrow> string \<Rightarrow> ('g, invoice_with_lines) service" where
  "reload sc iid =
     ebind (invoice_find sc (\<lambda>r. i_id r = iid)) (\<lambda>found.
     ebind (elift (require found RecordNotFound)) (\<lambda>r.
     ebind (egets (\<lambda>w. lines_of (w_db w) iid)) (\<lambda>ls. ereturn (r, ls))))"

definition issue_context :: "invoice_row \<Rightarrow> line_row list \<Rightarrow> customer_row \<Rightarrow> transition_context" where
  "issue_context iv ls c =
     \<lparr> tc_status = i_status iv, tc_previousStatus = None, tc_lineItemCount = int (length ls),
       tc_totalMinor = i_totalMinor iv, tc_balanceMinor = i_balanceMinor iv, tc_settledMinor = 0,
       tc_customerHasDeliverableEmail = has_email c \<rparr>"

definition invoice_event :: "scope \<Rightarrow> string \<Rightarrow> string \<Rightarrow> invoice_status \<Rightarrow> invoice_status \<Rightarrow> event_payload \<Rightarrow> ('g, unit) service" where
  "invoice_event sc iid kind from_status to payload = ebind now_ms (\<lambda>t.
     event_create \<lparr> e_invoiceId = iid, e_eventType = kind, e_fromStatus = Some from_status, e_toStatus = Some to,
       e_actor = scope_actor sc, e_payload = payload, e_occurredAt = t \<rparr>)"

definition issue_tx :: "scope \<Rightarrow> string \<Rightarrow> string \<Rightarrow> ('g, invoice_with_lines) service" where
  "issue_tx sc brandId iid =
     ebind (brand_invoice sc brandId iid) (\<lambda>iv.
     ebind (egets (\<lambda>w. lines_of (w_db w) (i_id iv))) (\<lambda>ls.
     ebind (invoice_customer sc iv) (\<lambda>c.
     ebind (decide (evaluateTransition ISSUE (issue_context iv ls c))) (\<lambda>to.
     ebind now_ms (\<lambda>now.
     ebind (invoice_update sc iid (\<lambda>i. i\<lparr> i_status := to, i_issuedAt := Some now \<rparr>)) (\<lambda>_.
     ebind (reload sc iid) (\<lambda>updated.
     ebind (invoice_event sc iid ''ISSUE'' (i_status iv) to NoPayload) (\<lambda>_.
     ereturn updated))))))))"

definition issue :: "scope \<Rightarrow> string \<Rightarrow> string \<Rightarrow> ('g, invoice_with_lines) service" where
  "issue sc brandId iid =
     ebind (withScope (issue_tx sc brandId iid)) (\<lambda>updated.
     ebind (enqueue (PushInvoice brandId iid)) (\<lambda>_.
     ereturn updated))"

record manual_payment =
  mp_amount :: string
  mp_method :: payment_method
  mp_paidAt :: int
  mp_reference :: "string option"

definition record_context :: "invoice_row \<Rightarrow> int \<Rightarrow> transition_context" where
  "record_context iv amount =
     \<lparr> tc_status = i_status iv, tc_previousStatus = None, tc_lineItemCount = 0, tc_totalMinor = i_totalMinor iv,
       tc_balanceMinor = i_balanceMinor iv,
       tc_settledMinor = int_add (int_sub (i_totalMinor iv) (i_balanceMinor iv)) amount,
       tc_customerHasDeliverableEmail = True \<rparr>"

definition stale_invoice :: service_error where
  "stale_invoice = ConflictWith ''this invoice changed while saving''"

definition recordManualPayment_tx :: "scope \<Rightarrow> string \<Rightarrow> string \<Rightarrow> manual_payment \<Rightarrow> ('g, invoice_with_lines \<times> string) service" where
  "recordManualPayment_tx sc brandId iid input =
     ebind (brand_invoice sc brandId iid) (\<lambda>iv.
     ebind (money (parseMinor (mp_amount input) (invoice_currency iv))) (\<lambda>amount.
     ebind (decide (evaluateTransition RECORD_PAYMENT (record_context iv amount))) (\<lambda>to.
     ebind (invoice_updateMany sc (\<lambda>i. i_id i = iid \<and> i_balanceMinor i = i_balanceMinor iv)
        (\<lambda>i. i\<lparr> i_status := to, i_balanceMinor := int_sub (i_balanceMinor iv) amount, i_previousStatus := None,
               i_paidAt := (if to = PAID then Some (mp_paidAt input) else i_paidAt i) \<rparr>)) (\<lambda>count.
     ebind (elift (guard (count \<noteq> 0) stale_invoice)) (\<lambda>_.
     ebind draw_id (\<lambda>pid.
     ebind draw_id (\<lambda>key.
     ebind now_ms (\<lambda>now.
     ebind (payment_create sc \<lparr> p_id = pid, p_invoiceId = iid, p_brandId = brandId, p_method = mp_method input,
        p_amountMinor = amount, p_currency = i_currency iv, p_status = SETTLED, p_gatewayReference = None,
        p_idempotencyKey = ''manual:'' @ key, p_lastEventAt = None, p_declineReason = None,
        p_settledAt = Some (mp_paidAt input), p_createdAt = now \<rparr>) (\<lambda>_.
     ebind (invoice_event sc iid ''MANUAL_PAYMENT_RECORDED'' (i_status iv) to
        (ManualPayload pid amount (mp_method input) (if nonempty (mp_reference input) then mp_reference input else None))) (\<lambda>_.
     ebind (reload sc iid) (\<lambda>updated.
     ereturn (updated, pid))))))))))))"

definition recordManualPayment :: "scope \<Rightarrow> string \<Rightarrow> string \<Rightarrow> manual_payment \<Rightarrow> ('g, invoice_with_lines) service" where
  "recordManualPayment sc brandId iid input =
     ebind (withScope (recordManualPayment_tx sc brandId iid input)) (\<lambda>(updated, pid).
     ebind (enqueue (PushPayment brandId pid)) (\<lambda>_.
     ereturn updated))"

definition cancel_context :: "invoice_row \<Rightarrow> transition_context" where
  "cancel_context iv =
     \<lparr> tc_status = i_status iv, tc_previousStatus = None, tc_lineItemCount = 0, tc_totalMinor = i_totalMinor iv,
       tc_balanceMinor = i_balanceMinor iv, tc_settledMinor = round_double (i_totalMinor iv - i_balanceMinor iv),
       tc_customerHasDeliverableEmail = True \<rparr>"

definition cancel_tx :: "scope \<Rightarrow> string \<Rightarrow> string \<Rightarrow> ('g, invoice_with_lines) service" where
  "cancel_tx sc brandId iid =
     ebind (brand_invoice sc brandId iid) (\<lambda>iv.
     ebind (decide (evaluateTransition CANCEL (cancel_context iv))) (\<lambda>to.
     ebind now_ms (\<lambda>now.
     ebind (invoice_updateMany sc (\<lambda>i. i_id i = iid \<and> i_status i = i_status iv)
        (\<lambda>i. i\<lparr> i_status := to, i_cancelledAt := Some now, i_previousStatus := None \<rparr>)) (\<lambda>count.
     ebind (elift (guard (count \<noteq> 0) stale_invoice)) (\<lambda>_.
     ebind (invoice_event sc iid ''CANCEL'' (i_status iv) to NoPayload) (\<lambda>_.
     reload sc iid))))))"

definition cancel :: "scope \<Rightarrow> string \<Rightarrow> string \<Rightarrow> ('g, invoice_with_lines) service" where
  "cancel sc brandId iid =
     ebind (withScope (cancel_tx sc brandId iid)) (\<lambda>updated.
     ebind (if nonempty (i_zohoInvoiceId (fst updated)) then enqueue (PushInvoice brandId iid) else ereturn ()) (\<lambda>_.
     ereturn updated))"

section \<open>Bulk sending\<close>

datatype bulk_outcome = BulkSent string | BulkSkipped string string | BulkFailed string service_error

definition bulk_send_one :: "'g invoice_env \<Rightarrow> scope \<Rightarrow> string \<Rightarrow> invoice_row \<Rightarrow> ('g, unit) service" where
  "bulk_send_one env sc brandId iv =
     ebind (if i_status iv = DRAFT then ebind (issue sc brandId (i_id iv)) (\<lambda>_. ereturn ()) else ereturn ()) (\<lambda>_.
     ebind (prepareEmail env sc brandId (i_id iv)) (\<lambda>draft.
     sendEmail env sc brandId (i_id iv) \<lparr> em_to = pe_to draft, em_cc = None, em_subject = pe_subject draft,
       em_body = pe_body draft, em_attachPdf = False, em_preferredMethod = None \<rparr>))"

definition bulk_one :: "'g invoice_env \<Rightarrow> scope \<Rightarrow> string \<Rightarrow> string \<Rightarrow> ('g, bulk_outcome) service" where
  "bulk_one env sc brandId iid =
     ebind (withScope
       (ebind (invoice_find sc (\<lambda>r. i_id r = iid \<and> i_brandId r = brandId)) (\<lambda>found.
        case found of
          None \<Rightarrow> ereturn None
        | Some iv \<Rightarrow> ebind (invoice_customer sc iv) (\<lambda>c. ereturn (Some (iv, c)))))) (\<lambda>read.
     case read of
       None \<Rightarrow> ereturn (BulkFailed iid (NotFoundErr ''Invoice not found.''))
     | Some (iv, c) \<Rightarrow>
         if i_status iv = PAID then ereturn (BulkSkipped iid ''Already paid.'')
         else if i_status iv = CANCELLED then ereturn (BulkSkipped iid ''Already cancelled.'')
         else if \<not> has_email c then ereturn (BulkSkipped iid ''Customer has no email on file.'')
         else ecatch (ebind (bulk_send_one env sc brandId iv) (\<lambda>_. ereturn (BulkSent iid)))
                (\<lambda>e. ereturn (BulkFailed iid e)))"

record bulk_result =
  bs_sent :: "string list"
  bs_skipped :: "(string \<times> string) list"
  bs_failed :: "(string \<times> service_error) list"

fun bulk_add :: "bulk_result \<Rightarrow> bulk_outcome \<Rightarrow> bulk_result" where
  "bulk_add r (BulkSent i) = r\<lparr> bs_sent := bs_sent r @ [i] \<rparr>"
| "bulk_add r (BulkSkipped i reason) = r\<lparr> bs_skipped := bs_skipped r @ [(i, reason)] \<rparr>"
| "bulk_add r (BulkFailed i e) = r\<lparr> bs_failed := bs_failed r @ [(i, e)] \<rparr>"

definition bulkSend :: "'g invoice_env \<Rightarrow> scope \<Rightarrow> string \<Rightarrow> string list \<Rightarrow> ('g, bulk_result) service" where
  "bulkSend env sc brandId ids =
     ebind (eforeach (bulk_one env sc brandId) ids) (\<lambda>outcomes.
     ereturn (foldl bulk_add \<lparr> bs_sent = [], bs_skipped = [], bs_failed = [] \<rparr> outcomes))"

section \<open>The ledger under the staff's operations\<close>

lemma round_double_above:
  assumes "max_safe < n" "n \<le> 2 * max_safe"
  shows "max_safe < round_double n"
proof -
  have u: "ulp (nat n) = 2" using assms by (subst ulp_step) (auto simp: max_safe_def nat_le_iff)
  have "4503599627370496 \<le> nat n div 2" using assms by (simp add: max_safe_def)
  then have "9007199254740992 \<le> int (round_half_even (nat n) 2)"
    by (auto simp: round_half_even_def Let_def)
  then show ?thesis using assms by (simp add: round_double_def u max_safe_def)
qed

lemma record_decision:
  assumes "invoice_ok iv" "safe a" "evaluateTransition RECORD_PAYMENT (record_context iv a) = Inr to"
  shows "isPayable (i_status iv) \<and> 0 < a \<and> a \<le> i_balanceMinor iv \<and> int_sub (i_balanceMinor iv) a = i_balanceMinor iv - a \<and>
    to = (if a = i_balanceMinor iv then PAID else PARTIALLY_PAID)"
proof -
  let ?t = "i_totalMinor iv" and ?b = "i_balanceMinor iv"
  have st: "i_status iv \<in> {SENT, VIEWED, PENDING_PAYMENT, PARTIALLY_PAID}"
    using assms(3) by (simp add: evaluate_eq_Inr record_context_def)
  then have b: "0 < ?b" "?b \<le> ?t" "safe ?t" using assms(1) by (auto simp: invoice_ok_def)
  then have d: "safe ?b" "int_sub ?t ?b = ?t - ?b" by (auto simp: safe_def)
  have le: "round_double (?t - ?b + a) \<le> ?t" and gt: "?t - ?b < round_double (?t - ?b + a)"
    and to: "to = (if round_double (?t - ?b + a) = ?t then PAID else PARTIALLY_PAID)"
    using assms(3) d(2) by (auto simp: evaluate_eq_Inr record_context_def int_add_def split: if_splits)
  have "\<not> max_safe < ?t - ?b + a"
    using round_double_above[of "?t - ?b + a"] le b assms(2) by (auto simp: safe_def)
  then have s: "safe (?t - ?b + a)" using b assms(2) by (auto simp: safe_def)
  then have a: "0 < a" "a \<le> ?b" using le gt by simp_all
  then have "safe (?b - a)" using d(1) by (auto simp: safe_def)
  then show ?thesis using st a s to by auto
qed

lemma safe_parseMinor: "parseMinor s cur = Inr n \<Longrightarrow> safe n"
  by (auto simp: parseMinor_def Let_def toSafeNumber_def range_check safe_def split: option.splits if_splits prod.splits)

lemma recorded_invoice_ok:
  assumes "invoice_ok iv" "parseMinor s cur = Inr a" "evaluateTransition RECORD_PAYMENT (record_context iv a) = Inr to"
  shows "invoice_ok (iv\<lparr> i_status := to, i_balanceMinor := int_sub (i_balanceMinor iv) a, i_previousStatus := None \<rparr>)"
    "invoice_ok (iv\<lparr> i_status := to, i_balanceMinor := int_sub (i_balanceMinor iv) a, i_previousStatus := None, i_paidAt := t \<rparr>)"
  using record_decision[OF assms(1) safe_parseMinor[OF assms(2)] assms(3)] assms(1)
  by (cases "i_status iv"; auto simp: invoice_ok_def)+

lemma issue_decision:
  "evaluateTransition ISSUE (issue_context iv ls c) = Inr to \<longleftrightarrow>
     i_status iv = DRAFT \<and> ls \<noteq> [] \<and> 0 < i_totalMinor iv \<and> has_email c \<and> to = SENT"
  by (cases ls) (auto simp: evaluate_eq_Inr issue_context_def)

lemma record_accepted:
  assumes "invoice_ok iv" "isPayable (i_status iv)" "0 < a" "a \<le> i_balanceMinor iv"
  shows "evaluateTransition RECORD_PAYMENT (record_context iv a) = Inr (if a = i_balanceMinor iv then PAID else PARTIALLY_PAID)"
proof -
  have st: "i_status iv \<in> {SENT, VIEWED, PENDING_PAYMENT, PARTIALLY_PAID}"
    using assms(2) by (cases "i_status iv") (simp_all add: isPayable_def payable_statuses_def)
  then have b: "i_balanceMinor iv \<le> i_totalMinor iv" "safe (i_totalMinor iv)"
    using assms(1) by (auto simp: invoice_ok_def)
  have "round_double (i_totalMinor iv - i_balanceMinor iv) = i_totalMinor iv - i_balanceMinor iv"
    "round_double (i_totalMinor iv - i_balanceMinor iv + a) = i_totalMinor iv - i_balanceMinor iv + a"
    using b assms(3,4) by (auto intro!: round_double_safe simp: safe_def)
  then show ?thesis using st assms(3,4) by (auto simp: evaluate_eq_Inr record_context_def int_add_def int_sub_def)
qed

lemma cancel_decision:
  "invoice_ok iv \<Longrightarrow> evaluateTransition CANCEL (cancel_context iv) = Inr to \<longleftrightarrow>
     i_status iv \<in> {DRAFT, SENT, VIEWED, PENDING_PAYMENT} \<and> i_totalMinor iv \<le> i_balanceMinor iv \<and> to = CANCELLED"
proof -
  assume ok: "invoice_ok iv"
  have "round_double (i_totalMinor iv - i_balanceMinor iv) = i_totalMinor iv - i_balanceMinor iv"
    if "i_status iv \<in> {DRAFT, SENT, VIEWED, PENDING_PAYMENT}"
    using ok that by (intro round_double_safe) (auto simp: invoice_ok_def safe_def)
  then show ?thesis by (auto simp: evaluate_eq_Inr cancel_context_def)
qed

lemma cancelled_invoice_ok:
  "\<lbrakk>invoice_ok iv; i_status iv \<in> {DRAFT, SENT, VIEWED, PENDING_PAYMENT}; i_totalMinor iv \<le> i_balanceMinor iv\<rbrakk> \<Longrightarrow>
     invoice_ok (iv\<lparr> i_status := CANCELLED, i_cancelledAt := t, i_previousStatus := None \<rparr>)"
  by (auto simp: invoice_ok_def)


lemmas invoice_read = reload_def invoice_event_def

text \<open>What reading an invoice by its id and brand tells the caller of the ledger.\<close>

definition row_read :: "scope \<Rightarrow> 'g world \<Rightarrow> string \<Rightarrow> string \<Rightarrow> invoice_row \<Rightarrow> bool" where
  "row_read sc w b iid iv \<longleftrightarrow> iv \<in> set (invoices (w_db w)) \<and> i_id iv = iid \<and> i_brandId iv = b \<and> sees sc (w_db w) b \<and>
     invoice_ok iv \<and> (\<forall>r\<in>set (invoices (w_db w)). i_id r = iid \<longrightarrow> r = iv)"

lemma wp_brand_invoice:
  assumes L: "ledger_ok (w_db w)" and Q: "\<And>iv. row_read sc w b iid iv \<Longrightarrow> Q iv w" and E: "E (NotFoundErr ''invoice not found'') w"
  shows "wp (brand_invoice sc b iid) Q E w"
proof -
  have "row_read sc w b iid iv"
    if f: "find (\<lambda>r. sees sc (w_db w) (i_brandId r) \<and> i_id r = iid \<and> i_brandId r = b) (invoices (w_db w)) = Some iv" for iv
  proof -
    have iv: "iv \<in> set (invoices (w_db w))" "i_id iv = iid" "i_brandId iv = b" "sees sc (w_db w) b"
      using find_Some_iff'[OF f] by (elim conjE; simp)+
    have ok: "invoice_ok iv" by (rule ledger_rowD[OF L[unfolded ledger_ok_def]]) (use iv in simp)
    have uniq: "r = iv" if "r \<in> set (invoices (w_db w))" "i_id r = iid" for r
      by (rule found_row[OF L[unfolded ledger_ok_def] f that(1)]) (use iv that in simp)
    show ?thesis unfolding row_read_def by (intro conjI ballI impI iv ok) (rule uniq)
  qed
  then show ?thesis using Q E unfolding brand_invoice_def
    by (cases "find (\<lambda>r. sees sc (w_db w) (i_brandId r) \<and> i_id r = iid \<and> i_brandId r = b) (invoices (w_db w))")
      (simp_all add: wp_simps)
qed

lemma ledger_update_row:
  assumes "ledger_ok (w_db w)" "row_read sc w b iid iv"
    and "\<And>r. i_id (f r) = i_id r" "invoice_ok (f iv)" "\<And>r. P r \<Longrightarrow> i_id r = iid"
  shows "ledger_rows (map_rows P f (invoices (w_db w)))"
  using assms by (intro ledger_map_rows) (auto simp: ledger_ok_def row_read_def)

lemma row_readD: "row_read sc w b iid iv \<Longrightarrow> invoice_ok iv"
  by (simp add: row_read_def)

lemma issued_invoice_ok: "\<lbrakk>invoice_ok iv; i_status iv = DRAFT; 0 < i_totalMinor iv\<rbrakk> \<Longrightarrow>
    invoice_ok (iv\<lparr> i_status := SENT, i_issuedAt := t \<rparr>)"
  by (auto simp: invoice_ok_def)

lemma issue_tx_ledger:
  assumes "ledger_ok (w_db w)"
  shows "wp (issue_tx sc b iid) (\<lambda>_ w'. ledger_ok (w_db w')) (\<lambda>_ _. True) w"
  unfolding issue_tx_def invoice_read wp_bind
  by (rule wp_brand_invoice[OF assms])
   (auto simp: wp_simps issue_decision ledger_ok_def row_readD split: option.splits sum.splits
    intro!: ledger_update_row[OF assms] issued_invoice_ok)

lemma cancel_tx_ledger:
  assumes "ledger_ok (w_db w)"
  shows "wp (cancel_tx sc b iid) (\<lambda>_ w'. ledger_ok (w_db w')) (\<lambda>_ _. True) w"
  unfolding cancel_tx_def invoice_read wp_bind
  by (rule wp_brand_invoice[OF assms])
   (auto simp: wp_simps Let_def ledger_ok_def cancel_decision row_readD split: option.splits sum.splits
    intro!: ledger_update_row[OF assms] cancelled_invoice_ok)

lemma recordManualPayment_tx_ledger:
  assumes "ledger_ok (w_db w)"
  shows "wp (recordManualPayment_tx sc b iid input) (\<lambda>_ w'. ledger_ok (w_db w')) (\<lambda>_ _. True) w"
  unfolding recordManualPayment_tx_def invoice_read wp_bind
  by (rule wp_brand_invoice[OF assms])
   (auto simp: wp_simps Let_def ledger_ok_def row_readD split: option.splits sum.splits
    intro!: ledger_update_row[OF assms] recorded_invoice_ok)

lemma issue_ledger: "preserves (\<lambda>w. ledger_ok (w_db w)) (issue sc b iid)"
  unfolding preserves_wp issue_def by (auto simp: wp_simps intro!: wp_mono[OF issue_tx_ledger])

lemma cancel_ledger: "preserves (\<lambda>w. ledger_ok (w_db w)) (cancel sc b iid)"
  unfolding preserves_wp cancel_def by (auto simp: wp_simps intro!: wp_mono[OF cancel_tx_ledger])

lemma recordManualPayment_ledger: "preserves (\<lambda>w. ledger_ok (w_db w)) (recordManualPayment sc b iid input)"
  unfolding preserves_wp recordManualPayment_def
  by (auto simp: wp_simps split: prod.splits intro!: wp_mono[OF recordManualPayment_tx_ledger])

lemma create_ledger:
  assumes "\<And>ls r. draft_quote input = Inr (ls, r) \<Longrightarrow> safe (cr_totalMinor r)"
  shows "preserves (\<lambda>w. ledger_ok (w_db w)) (create sc b input)"
  unfolding preserves_wp create_def
  by (auto simp: wp_simps Let_def ledger_ok_def draft_row_def invoice_ok_def assms split: option.splits sum.splits prod.splits
    intro!: ledger_append)

section \<open>What the operations do\<close>

lemma draft_lines_shape:
  "draft_lines iid k ls ss cs = Some rows \<Longrightarrow> length rows = length ls \<and>
     map l_position rows = [k..<k + length ls] \<and> map l_lineTotalMinor rows = map lr_lineTotalMinor (take (length ls) cs) \<and>
     map l_itemName rows = map dl_itemName (take (length ls) ss) \<and> list_all (\<lambda>l. l_invoiceId l = iid) rows"
  by (induction iid k ls ss cs arbitrary: rows rule: draft_lines.induct) (auto simp: upt_conv_Cons simp del: upt_Suc)

lemma draft_quote_lengths:
  "draft_quote input = Inr (ls, r) \<Longrightarrow> length ls = length (id_draftLines input) \<and> length (cr_lines r) = length ls"
  by (auto simp: draft_quote_def rbind_eq_Inr calculate_eq_Inr dest: rmapM_length)

lemma draft_rows:
  assumes "draft_quote input = Inr (ls, r)" "draft_lines iid 0 ls (id_draftLines input) (cr_lines r) = Some rows"
  shows "map l_position rows = [0..<length (id_draftLines input)] \<and> list_all (\<lambda>l. l_invoiceId l = iid) rows \<and>
    map l_itemName rows = map dl_itemName (id_draftLines input) \<and> map l_lineTotalMinor rows = map lr_lineTotalMinor (cr_lines r)"
  using draft_lines_shape[OF assms(2)] draft_quote_lengths[OF assms(1)] by simp

definition drafted ::
  "scope \<Rightarrow> string \<Rightarrow> invoice_draft \<Rightarrow> 'g world \<Rightarrow> invoice_row \<Rightarrow> line_row list \<Rightarrow> 'g world \<Rightarrow> bool" where
  "drafted sc b input w iv rows w' \<longleftrightarrow>
     (\<exists>ls r st. draft_quote input = Inr (ls, r) \<and>
        find (\<lambda>s. sees sc (w_db w) (st_brandId s) \<and> st_brandId s = b) (settings (w_db w)) = Some st \<and>
        settings (w_db w') = map_rows (\<lambda>s. sees sc (w_db w) (st_brandId s) \<and> st_brandId s = b)
          (\<lambda>s. s\<lparr> st_nextSequence := st_nextSequence s + 1 \<rparr>) (settings (w_db w)) \<and>
        i_number iv = draft_number (st_invoicePrefix st) (st_nextSequence st) \<and> i_status iv = DRAFT \<and>
        i_totalMinor iv = cr_totalMinor r \<and> i_balanceMinor iv = cr_totalMinor r \<and> i_cardFeeMinor iv = 0 \<and>
        i_brandId iv = b \<and> i_customerId iv = id_customerId input \<and>
        \<not> list_ex (\<lambda>x. i_id x = i_id iv \<or> i_publicToken x = i_publicToken iv \<or> i_brandId x = b \<and> i_number x = i_number iv)
          (invoices (w_db w)) \<and>
        invoices (w_db w') = invoices (w_db w) @ [iv] \<and> line_items (w_db w') = line_items (w_db w) @ rows \<and>
        map l_position rows = [0..<length (id_draftLines input)] \<and> list_all (\<lambda>l. l_invoiceId l = i_id iv) rows \<and>
        map l_itemName rows = map dl_itemName (id_draftLines input) \<and>
        map l_lineTotalMinor rows = map lr_lineTotalMinor (cr_lines r)) \<and>
     payments (w_db w') = payments (w_db w) \<and> events (w_db w') = events (w_db w) \<and> outbox w' = outbox w"

lemma create_drafted:
  "wp (create sc b input) (\<lambda>(iv, rows). drafted sc b input w iv rows) (\<lambda>_ w'. w_db w' = w_db w \<and> outbox w' = outbox w) w"
  unfolding create_def
  by (auto simp: wp_simps Let_def drafted_def draft_row_def list_ex_or outbox_def
    split: option.splits sum.splits prod.splits dest: draft_rows)

definition recorded :: "scope \<Rightarrow> string \<Rightarrow> string \<Rightarrow> manual_payment \<Rightarrow> db \<Rightarrow> db \<Rightarrow> string \<Rightarrow> bool" where
  "recorded sc b iid input d d' pid \<longleftrightarrow>
     (\<exists>iv a p. iv \<in> set (invoices d) \<and> i_id iv = iid \<and> i_brandId iv = b \<and>
        parseMinor (mp_amount input) (invoice_currency iv) = Inr a \<and>
        isPayable (i_status iv) \<and> 0 < a \<and> a \<le> i_balanceMinor iv \<and>
        invoices d' = map_rows (\<lambda>i. i_id i = iid)
          (\<lambda>i. i\<lparr> i_status := (if a = i_balanceMinor iv then PAID else PARTIALLY_PAID),
                 i_balanceMinor := i_balanceMinor iv - a, i_previousStatus := None,
                 i_paidAt := (if a = i_balanceMinor iv then Some (mp_paidAt input) else i_paidAt i) \<rparr>) (invoices d) \<and>
        payments d' = payments d @ [p] \<and> p_id p = pid \<and> p_invoiceId p = iid \<and> p_brandId p = b \<and> p_amountMinor p = a \<and>
        p_status p = SETTLED \<and> p_method p = mp_method input \<and> p_settledAt p = Some (mp_paidAt input))"

lemma row_read_map_rows:
  assumes "row_read sc w b iid iv" "Q iv" "f iv = g iv"
  shows "map_rows (\<lambda>r. sees sc (w_db w) (i_brandId r) \<and> i_id r = iid \<and> Q r) f (invoices (w_db w)) =
    map_rows (\<lambda>r. i_id r = iid) g (invoices (w_db w))"
proof (rule map_rows_cong)
  fix r assume r: "r \<in> set (invoices (w_db w))"
  have "r = iv" if "i_id r = iid" using assms(1) r that unfolding row_read_def by blast
  then show "(sees sc (w_db w) (i_brandId r) \<and> i_id r = iid \<and> Q r) = (i_id r = iid) \<and>
      (sees sc (w_db w) (i_brandId r) \<and> i_id r = iid \<and> Q r \<longrightarrow> f r = g r)"
    using assms unfolding row_read_def by (cases "i_id r = iid") auto
qed

lemma recordedI:
  assumes L: "row_read sc w b iid iv"
    and dec: "evaluateTransition RECORD_PAYMENT (record_context iv a) = Inr to"
    and parse: "parseMinor (mp_amount input) (invoice_currency iv) = Inr a"
    and invs: "invoices d' = map_rows (\<lambda>r. sees sc (w_db w) (i_brandId r) \<and> i_id r = iid \<and> i_balanceMinor r = i_balanceMinor iv)
       (\<lambda>i. i\<lparr> i_status := to, i_balanceMinor := int_sub (i_balanceMinor iv) a, i_previousStatus := None,
              i_paidAt := (if to = PAID then Some (mp_paidAt input) else i_paidAt i) \<rparr>) (invoices (w_db w))"
    and pay: "payments d' = payments (w_db w) @ [p]" "p_id p = pid" "p_invoiceId p = iid" "p_brandId p = b" "p_amountMinor p = a"
      "p_status p = SETTLED" "p_method p = mp_method input" "p_settledAt p = Some (mp_paidAt input)"
  shows "recorded sc b iid input (w_db w) d' pid"
proof -
  note d = record_decision[OF row_readD[OF L] safe_parseMinor[OF parse] dec]
  have "invoices d' = map_rows (\<lambda>r. i_id r = iid)
      (\<lambda>i. i\<lparr> i_status := (if a = i_balanceMinor iv then PAID else PARTIALLY_PAID),
           i_balanceMinor := i_balanceMinor iv - a, i_previousStatus := None,
           i_paidAt := (if a = i_balanceMinor iv then Some (mp_paidAt input) else i_paidAt i) \<rparr>) (invoices (w_db w))"
    unfolding invs using d by (intro row_read_map_rows[OF L, of "\<lambda>r. i_balanceMinor r = i_balanceMinor iv"]) auto
  then show ?thesis
    unfolding recorded_def using d parse pay L
    by (intro exI[of _ iv] exI[of _ a] exI[of _ p]) (simp add: row_read_def)
qed

lemma recordManualPayment_tx_recorded:
  assumes "ledger_ok (w_db w)"
  shows "wp (recordManualPayment_tx sc b iid input) (\<lambda>(_, pid) w'. recorded sc b iid input (w_db w) (w_db w') pid) (\<lambda>_ _. True) w"
  unfolding recordManualPayment_tx_def invoice_read wp_bind
  apply (rule wp_brand_invoice[OF assms])
   apply (simp add: wp_simps Let_def split: option.splits sum.splits)
   apply (auto elim!: recordedI)
  done

lemma recordManualPayment_tx_outbox [preserves_intros]: "preserves (\<lambda>w. outbox w = o') (recordManualPayment_tx sc b iid input)"
  unfolding recordManualPayment_tx_def brand_invoice_def invoice_read by (auto intro!: preserves_intros)

lemma recordManualPayment_error:
  assumes "recordManualPayment sc b iid input w = (Inl e, w')"
  shows "w_db w' = w_db w \<and> outbox w' = outbox w"
proof -
  have "withScope (recordManualPayment_tx sc b iid input) w = (Inl e, w')"
    using assms unfolding recordManualPayment_def bind_Inl by (auto simp: enqueue_def split: prod.splits)
  then show ?thesis by (rule rollback_atomic[OF recordManualPayment_tx_outbox refl])
qed

end
