(* ===== verification/InvoiceOutcomes.thy ===== *)
theory InvoiceOutcomes
  imports Invoices "HOL-Library.Multiset"
begin

text \<open>
  What the operations of \<open>apps/api/src/invoices/invoices.service.ts\<close> (theory \<open>Invoices\<close>) do: sending
  mail, singly and in bulk, and the properties of drafting, of recording money received and of a
  bulk send.
\<close>

section \<open>Sending\<close>

abbreviation mails_are :: "mail list \<Rightarrow> 'g world \<Rightarrow> bool" where
  "mails_are ms w \<equiv> w_mails w = ms"

lemma issue_mails: "preserves (mails_are ms) (issue sc b iid)"
  unfolding issue_def issue_tx_def brand_invoice_def invoice_read preserves_wp
  by (auto simp: wp_simps Let_def split: option.splits sum.splits)

lemma prepareEmail_pure: "wp (prepareEmail env sc b iid) (\<lambda>_ w'. w' = w) (\<lambda>_ w'. w' = w) w"
  unfolding prepareEmail_def brand_invoice_def
  by (auto simp: wp_simps Let_def split: option.splits sum.splits)

definition mailed :: "'g invoice_env \<Rightarrow> scope \<Rightarrow> string \<Rightarrow> string \<Rightarrow> email_input \<Rightarrow> 'g world \<Rightarrow> 'g world \<Rightarrow> bool" where
  "mailed env sc b iid input w w' \<longleftrightarrow>
     (\<exists>iv due. row_read sc w b iid iv \<and> formatMinorForDisplay env (i_balanceMinor iv) (invoice_currency iv) = Inr due \<and>
        ie_accepts env (length (w_mails w)) (invoice_mail env b iv input due (w_now w)) \<and>
        w' = w\<lparr> w_mails := w_mails w @ [invoice_mail env b iv input due (w_now w)],
               w_db := (w_db w)\<lparr> events := events (w_db w) @ [email_sent_event sc iid (w_now w)] \<rparr> \<rparr>)"

lemma wp_send_mail [wp_simps]:
  "wp (send_mail env m) Q E = (\<lambda>w. if ie_accepts env (length (w_mails w)) m then Q () (w\<lparr> w_mails := w_mails w @ [m] \<rparr>)
     else E (BadGatewayErr ''Could not send this email'') w)"
  by (rule ext) (simp add: wp_def send_mail_def)

lemma email_read_row:
  assumes "ledger_ok (w_db w)"
  shows "wp (withScope (email_read sc b iid)) (\<lambda>(iv, ls) w'. w' = w \<and> row_read sc w b iid iv) (\<lambda>_ w'. w' = w) w"
  unfolding email_read_def withScope_def wp_transaction wp_bind
  by (rule wp_brand_invoice[OF assms]) (auto simp: wp_simps split: option.splits)

lemma sendEmail_mailed:
  assumes "ledger_ok (w_db w)"
  shows "wp (sendEmail env sc b iid input) (\<lambda>_ w'. mailed env sc b iid input w w') (\<lambda>_ w'. w' = w) w"
  unfolding sendEmail_def wp_bind
  by (rule wp_mono[OF email_read_row[OF assms]])
    (auto simp: wp_simps mailed_def split: sum.splits)


text \<open>What one step of a bulk send reports of the mails it sent.\<close>

fun outcome_mails :: "string \<Rightarrow> bulk_outcome \<Rightarrow> string list" where
  "outcome_mails iid (BulkSent _) = [iid]"
| "outcome_mails iid _ = []"

fun outcome_id :: "bulk_outcome \<Rightarrow> string" where
  "outcome_id (BulkSent i) = i"
| "outcome_id (BulkSkipped i _) = i"
| "outcome_id (BulkFailed i _) = i"

abbreviation mail_ids :: "'g world \<Rightarrow> string list" where
  "mail_ids w \<equiv> map m_invoiceId (w_mails w)"

lemma bulk_send_one_mails:
  assumes "ledger_ok (w_db w)"
  shows "wp (bulk_send_one env sc b iv) (\<lambda>_ w'. ledger_ok (w_db w') \<and> mail_ids w' = mail_ids w @ [i_id iv])
    (\<lambda>_ w'. ledger_ok (w_db w') \<and> mail_ids w' = mail_ids w) w"
proof -
  let ?n = "\<lambda>w'. ledger_ok (w_db w') \<and> mail_ids w' = mail_ids w"
  have send: "wp (sendEmail env sc b (i_id iv) input) (\<lambda>_ w'. ledger_ok (w_db w') \<and> mail_ids w' = mail_ids w @ [i_id iv]) (\<lambda>_ w'. ?n w') w1"
    if "?n w1" for w1 input
    by (rule wp_mono[OF sendEmail_mailed]) (use that in \<open>auto simp: mailed_def ledger_ok_def invoice_mail_def row_read_def\<close>)
  have prepare: "wp (prepareEmail env sc b (i_id iv)) (\<lambda>d. wp (sendEmail env sc b (i_id iv) (input d))
      (\<lambda>_ w'. ledger_ok (w_db w') \<and> mail_ids w' = mail_ids w @ [i_id iv]) (\<lambda>_ w'. ?n w')) (\<lambda>_ w'. ?n w') w1" if "?n w1" for w1 input
    by (rule wp_mono[OF prepareEmail_pure]) (use that send in auto)
  have "wp (issue sc b (i_id iv)) (\<lambda>_. ?n) (\<lambda>_. ?n) w"
    by (rule wp_mono[OF wp_preserves[OF preserves_conj[OF issue_ledger issue_mails[of "w_mails w"]]]]) (simp_all add: assms)
  then have "wp (issue sc b (i_id iv)) (\<lambda>_ w1. wp (prepareEmail env sc b (i_id iv)) (\<lambda>d. wp (sendEmail env sc b (i_id iv) (input d))
      (\<lambda>_ w'. ledger_ok (w_db w') \<and> mail_ids w' = mail_ids w @ [i_id iv]) (\<lambda>_ w'. ?n w')) (\<lambda>_ w'. ?n w') w1) (\<lambda>_ w'. ?n w') w" for input
    by (rule wp_mono) (use prepare in auto)
  then show ?thesis
    unfolding bulk_send_one_def using prepare[of w] assms by (simp add: wp_simps)
qed

lemma bulk_one_mails:
  assumes "ledger_ok (w_db w)"
  shows "wp (bulk_one env sc b iid) (\<lambda>r w'. ledger_ok (w_db w') \<and> outcome_id r = iid \<and> mail_ids w' = mail_ids w @ outcome_mails iid r)
    (\<lambda>_ w'. w' = w) w"
  unfolding bulk_one_def
  by (auto simp: wp_simps assms split: option.splits dest!: find_Some_iff'
    intro!: wp_mono[OF bulk_send_one_mails])

lemma bulk_all_mails:
  assumes "ledger_ok (w_db w)"
  shows "wp (eforeach (bulk_one env sc b) ids) (\<lambda>rs w'. map outcome_id rs = ids \<and>
      mail_ids w' = mail_ids w @ concat (map (\<lambda>r. outcome_mails (outcome_id r) r) rs)) (\<lambda>_ _. True) w"
  using assms
proof (induction ids arbitrary: w)
  case (Cons i ids)
  show ?case unfolding eforeach.simps wp_bind
    by (rule wp_mono[OF bulk_one_mails[OF Cons.prems]])
      (auto simp: wp_simps intro!: wp_mono[OF Cons.IH])
qed (simp add: wp_simps)

definition bulk_ids :: "bulk_result \<Rightarrow> string list" where
  "bulk_ids r = bs_sent r @ map fst (bs_skipped r) @ map fst (bs_failed r)"

lemma bulk_add_ids: "mset (bulk_ids (foldl bulk_add r os)) = mset (bulk_ids r) + mset (map outcome_id os)"
proof (induction os arbitrary: r)
  case (Cons x os)
  then show ?case by (cases x) (simp_all add: bulk_ids_def)
qed simp

lemma bulk_add_sent:
  "bs_sent (foldl bulk_add r os) = bs_sent r @ concat (map (\<lambda>x. outcome_mails (outcome_id x) x) os)"
proof (induction os arbitrary: r)
  case (Cons x os)
  then show ?case by (cases x) simp_all
qed simp

section \<open>Properties\<close>



text \<open>a bulk send accounts for every invoice. Started from a consistent ledger, when it returns, each
  requested id is in exactly one of the three lists (an id asked for twice is there twice), and the
  mails sent are those of the sent ids, in the order they were asked for: an id reported as skipped or failed got none.\<close>

theorem bulkSend_accounts:
  assumes "ledger_ok (w_db w)" "bulkSend env sc b ids w = (Inr r, w')"
  shows "mset (bulk_ids r) = mset ids \<and> mail_ids w' = mail_ids w @ bs_sent r"
proof -
  obtain os where os: "eforeach (bulk_one env sc b) ids w = (Inr os, w')"
      "r = foldl bulk_add \<lparr> bs_sent = [], bs_skipped = [], bs_failed = [] \<rparr> os"
    using assms(2) unfolding bulkSend_def bind_Inr by auto
  from wp_value[OF bulk_all_mails[OF assms(1)] os(1)] show ?thesis
    by (auto simp: os(2) bulk_add_ids bulk_add_sent) (simp add: bulk_ids_def)
qed

definition staff_scope :: scope where
  "staff_scope = RequestScope \<lparr> rs_merchantId = ''m1'', rs_userId = ''u1'', rs_role = MERCHANT_OWNER, rs_assignedBrandIds = [], rs_sessionId = ''s1'', rs_sourceIp = None \<rparr>"

definition sample_invoice_env :: "fake_gateway invoice_env" where
  "sample_invoice_env = \<lparr> ie_displayMoney = (\<lambda>n c. show_int n), ie_displayDate = show_int, ie_contains = (\<lambda>s t. s = t),
     ie_accepts = (\<lambda>n m. m_to m \<noteq> ''bounce''), ie_logo = (\<lambda>_. None), ie_renderPdf = (\<lambda>_ _. Inr ()),
     ie_enrich = (\<lambda>_ _ _. ereturn False), ie_paymentUrl = ''https://pay'', ie_mailFrom = ''billing'' \<rparr>"

lemma sample_amount: "parseMinor ''4.00'' USD = Inr 400"
  by code_simp

definition sample_manual :: manual_payment where
  "sample_manual = \<lparr> mp_amount = ''4.00'', mp_method = CHECK, mp_paidAt = 900, mp_reference = None \<rparr>"

lemma sample_recorded:
  "\<exists>x w'. recordManualPayment staff_scope ''b1'' ''i1'' sample_manual (sample_world (sample_db SENT 1000)) = (Inr x, w') \<and>
     map i_status (invoices (w_db w')) = [PARTIALLY_PAID]"
  by (simp add: recordManualPayment_def recordManualPayment_tx_def brand_invoice_def reload_def invoice_event_def store_run
      sample_defs sees_run staff_scope_def invoice_currency_def toCurrencyCode_def isSupportedCurrency_def supported_currencies_def
      sample_manual_def sample_amount record_context_def evaluateTransition_def safe_def max_safe_def coversAllBrands_def all_brand_roles_def)


text \<open>C29: money that can be recorded is recorded. For a payable invoice the caller can see, an amount
  that parses to something positive within the balance is always accepted, provided the database gives the
  payment fresh keys.\<close>

theorem manual_payment_accepted:
  assumes L: "ledger_ok (w_db w)" "iv \<in> set (invoices (w_db w))" "i_brandId iv = b" "sees sc (w_db w) b"
    and amount: "parseMinor (mp_amount input) (invoice_currency iv) = Inr a" "isPayable (i_status iv)" "0 < a" "a \<le> i_balanceMinor iv"
    and fresh: "w_ids w (w_drawn w) \<notin> p_id ` set (payments (w_db w))"
      "''manual:'' @ w_ids w (w_drawn w + 1) \<notin> p_idempotencyKey ` set (payments (w_db w))"
  shows "\<exists>x w'. recordManualPayment sc b (i_id iv) input w = (Inr x, w')"
proof -
  have ok: "invoice_ok iv" using ledger_rowD[OF L(1)[unfolded ledger_ok_def] L(2)] .
  have read: "find (\<lambda>r. sees sc (w_db w) (i_brandId r) \<and> i_id r = i_id iv \<and> i_brandId r = b) (invoices (w_db w)) = Some iv"
    using L by (intro read_back[OF L(1)[unfolded ledger_ok_def]]) auto
  have ex: "filter (\<lambda>r. sees sc (w_db w) (i_brandId r) \<and> i_id r = i_id iv \<and> i_balanceMinor r = i_balanceMinor iv) (invoices (w_db w)) \<noteq> []"
    using L by (auto simp: filter_empty_conv)
  have fresh': "\<not> list_ex (\<lambda>x. p_id x = w_ids w (w_drawn w)) (payments (w_db w))"
      "\<not> list_ex (\<lambda>x. p_idempotencyKey x = ''manual:'' @ w_ids w (Suc (w_drawn w))) (payments (w_db w))"
    using fresh by (force simp: list_ex_iff)+
  have "wp (recordManualPayment sc b (i_id iv) input) (\<lambda>_ _. True) (\<lambda>_ _. False) w"
    unfolding recordManualPayment_def recordManualPayment_tx_def brand_invoice_def invoice_read
    using L(3,4)
    by (simp add: wp_simps read amount record_accepted[OF ok] Let_def ex fresh'[simplified] option.case_eq_if found_again[OF L(2)])
  from wp_succeeds[OF this] show ?thesis by auto
qed
theorem manual_payment_accepted_witness:
  "\<exists>x w'. recordManualPayment staff_scope ''b1'' ''i1'' sample_manual (sample_world (sample_db SENT 1000)) = (Inr x, w')"
proof -
  let ?w = "sample_world (sample_db SENT 1000)" and ?iv = "sample_invoice ''i1'' ''INV-1'' SENT 1000"
  have "ledger_ok (w_db ?w)"
    by (simp add: sample_world_def sample_ledger)
  moreover have "parseMinor (mp_amount sample_manual) (invoice_currency ?iv) = Inr 400"
    by (simp add: sample_manual_def sample_invoice_def invoice_currency_def toCurrencyCode_def isSupportedCurrency_def supported_currencies_def sample_amount)
  moreover have "sees staff_scope (w_db ?w) ''b1''"
    by (simp add: sample_defs sees_run staff_scope_def coversAllBrands_def all_brand_roles_def)
  ultimately show ?thesis
    using manual_payment_accepted[of ?w ?iv "''b1''" staff_scope sample_manual 400]
    by (simp add: sample_world_def sample_db_def sample_invoice_def isPayable_def payable_statuses_def)
qed

lemma sample_bulk:
  "\<exists>r w'. bulkSend sample_invoice_env staff_scope ''b1'' [''i1'', ''i9''] (sample_world (sample_db SENT 1000)) = (Inr r, w') \<and>
     bs_sent r = [''i1'']"
  apply (simp add: bulkSend_def bulk_one_def bulk_send_one_def prepareEmail_def sendEmail_def email_read_def send_mail_def
    brand_invoice_def invoice_brand_def formatMinorForDisplay_def store_run sample_defs sees_run staff_scope_def coversAllBrands_def
    all_brand_roles_def sample_invoice_env_def has_email_def safe_def max_safe_def invoice_mail_def)
  done

theorem bulkSend_accounts_witness:
  "\<exists>r w'. bulkSend sample_invoice_env staff_scope ''b1'' [''i1'', ''i9''] (sample_world (sample_db SENT 1000)) = (Inr r, w') \<and>
     mset (bulk_ids r) = {#''i1'', ''i9''#} \<and> mail_ids w' = [''i1'']"
proof -
  obtain r w' where run: "bulkSend sample_invoice_env staff_scope ''b1'' [''i1'', ''i9''] (sample_world (sample_db SENT 1000)) = (Inr r, w')"
      "bs_sent r = [''i1'']" using sample_bulk by (elim exE conjE) (rule that)
  have "ledger_ok (w_db (sample_world (sample_db SENT 1000)))" by (simp add: sample_world_def sample_ledger)
  from bulkSend_accounts[OF this run(1)] run show ?thesis by (intro exI[of _ r] exI[of _ w']) (simp add: sample_world_def)
qed

end
