(* ===== verification/InvoicePresentation.thy ===== *)
theory InvoicePresentation
  imports InvoiceOutcomes
begin

text \<open>
  \<open>apps/admin/src/lib/invoice-presentation.ts\<close>: how the admin application groups and labels invoice
  statuses, and the query behind each tab of the invoice list. The properties tie the tabs to
  \<open>InvoicesService.tabCounts\<close> and \<open>list\<close>.
\<close>

section \<open>Statuses of the list and of the details screen\<close>

datatype list_status = LS_DRAFT | LS_UNPAID | LS_PARTIAL | LS_PAID | LS_OVERDUE | LS_CANCELLED

definition invoiceListStatus :: "invoice_status \<Rightarrow> bool \<Rightarrow> list_status" where
  "invoiceListStatus status overdue =
     (if status = DRAFT then LS_DRAFT
      else if status = PAID then LS_PAID
      else if status = CANCELLED then LS_CANCELLED
      else if overdue then LS_OVERDUE
      else if status = PARTIALLY_PAID then LS_PARTIAL else LS_UNPAID)"

datatype detail_status = DS_DRAFT | DS_SENT | DS_VIEWED | DS_PARTIAL | DS_OVERDUE | DS_PAID | DS_CANCELLED

definition invoiceDetailStatus :: "invoice_status \<Rightarrow> bool \<Rightarrow> detail_status" where
  "invoiceDetailStatus status overdue =
     (if status = DRAFT then DS_DRAFT
      else if status = PAID then DS_PAID
      else if status = CANCELLED then DS_CANCELLED
      else if overdue then DS_OVERDUE
      else if status = PARTIALLY_PAID then DS_PARTIAL
      else if status = VIEWED then DS_VIEWED else DS_SENT)"

fun list_status_name :: "list_status \<Rightarrow> string" where
  "list_status_name LS_DRAFT = ''DRAFT''"
| "list_status_name LS_UNPAID = ''UNPAID''"
| "list_status_name LS_PARTIAL = ''PARTIAL''"
| "list_status_name LS_PAID = ''PAID''"
| "list_status_name LS_OVERDUE = ''OVERDUE''"
| "list_status_name LS_CANCELLED = ''CANCELLED''"

text \<open>\<open>status.charAt(0) + status.slice(1).toLowerCase()\<close>.\<close>

definition title_case :: "string \<Rightarrow> string" where
  "title_case s = take 1 s @ js_lower (drop 1 s)"

definition invoiceListStatusLabel :: "list_status \<Rightarrow> string" where
  "invoiceListStatusLabel s = title_case (list_status_name s)"

fun detail_status_name :: "detail_status \<Rightarrow> string" where
  "detail_status_name DS_DRAFT = ''DRAFT''"
| "detail_status_name DS_SENT = ''SENT''"
| "detail_status_name DS_VIEWED = ''VIEWED''"
| "detail_status_name DS_PARTIAL = ''PARTIAL''"
| "detail_status_name DS_OVERDUE = ''OVERDUE''"
| "detail_status_name DS_PAID = ''PAID''"
| "detail_status_name DS_CANCELLED = ''CANCELLED''"

definition invoiceDetailStatusLabel :: "detail_status \<Rightarrow> string" where
  "invoiceDetailStatusLabel s = title_case (detail_status_name s)"

definition invoiceStatusTone :: "invoice_status \<Rightarrow> string" where
  "invoiceStatusTone s =
     (if s = PAID then ''text-success'' else if s = CANCELLED then ''text-ink-subtle''
      else if s = PENDING_PAYMENT \<or> s = PARTIALLY_PAID then ''text-warning'' else ''text-ink-strong'')"

definition invoiceListStatusTone :: "list_status \<Rightarrow> string" where
  "invoiceListStatusTone s =
     (if s = LS_PAID then ''text-success'' else if s = LS_OVERDUE then ''text-danger''
      else if s = LS_UNPAID \<or> s = LS_PARTIAL then ''text-warning'' else ''text-ink-subtle'')"

definition invoiceListStatusDot :: "list_status \<Rightarrow> string" where
  "invoiceListStatusDot s =
     (if s = LS_PAID then ''bg-success'' else if s = LS_OVERDUE then ''bg-danger''
      else if s = LS_UNPAID \<or> s = LS_PARTIAL then ''bg-warning'' else ''bg-ink-subtle'')"

definition invoiceDetailStatusBadgeClass :: "detail_status \<Rightarrow> string" where
  "invoiceDetailStatusBadgeClass s =
     (if s = DS_PAID then ''bg-success-surface text-success'' else if s = DS_OVERDUE then ''bg-danger-surface text-danger''
      else if s = DS_PARTIAL then ''bg-warning-surface text-warning'' else ''bg-surface-muted text-ink-muted'')"

definition isBulkSendable :: "list_status \<Rightarrow> bool" where
  "isBulkSendable s \<longleftrightarrow> s \<noteq> LS_PAID \<and> s \<noteq> LS_CANCELLED"

section \<open>Tabs\<close>

datatype list_tab = TabAll | TabDraft | TabUnpaid | TabPaid | TabPartial | TabOverdue

fun tab_key :: "list_tab \<Rightarrow> string" where
  "tab_key TabAll = ''all''"
| "tab_key TabDraft = ''draft''"
| "tab_key TabUnpaid = ''unpaid''"
| "tab_key TabPaid = ''paid''"
| "tab_key TabPartial = ''partial''"
| "tab_key TabOverdue = ''overdue''"

record tab_filter =
  tf_status :: "invoice_status list option"
  tf_overdueOnly :: bool
  tf_excludeOverdue :: bool

definition invoiceListTabFilter :: "string \<Rightarrow> tab_filter" where
  "invoiceListTabFilter tab =
     (if tab = ''draft'' then \<lparr> tf_status = Some [DRAFT], tf_overdueOnly = False, tf_excludeOverdue = False \<rparr>
      else if tab = ''unpaid'' then \<lparr> tf_status = Some [SENT, VIEWED, PENDING_PAYMENT], tf_overdueOnly = False, tf_excludeOverdue = True \<rparr>
      else if tab = ''paid'' then \<lparr> tf_status = Some [PAID], tf_overdueOnly = False, tf_excludeOverdue = False \<rparr>
      else if tab = ''partial'' then \<lparr> tf_status = Some [PARTIALLY_PAID], tf_overdueOnly = False, tf_excludeOverdue = True \<rparr>
      else if tab = ''overdue'' then \<lparr> tf_status = None, tf_overdueOnly = True, tf_excludeOverdue = False \<rparr>
      else \<lparr> tf_status = None, tf_overdueOnly = False, tf_excludeOverdue = False \<rparr>)"

fun tab_count :: "list_tab \<Rightarrow> tab_counts \<Rightarrow> nat" where
  "tab_count TabAll c = tab_all c"
| "tab_count TabDraft c = tab_draft c"
| "tab_count TabUnpaid c = tab_unpaid c"
| "tab_count TabPaid c = tab_paid c"
| "tab_count TabPartial c = tab_partial c"
| "tab_count TabOverdue c = tab_overdue c"

fun tab_of :: "list_status \<Rightarrow> list_tab option" where
  "tab_of LS_DRAFT = Some TabDraft"
| "tab_of LS_UNPAID = Some TabUnpaid"
| "tab_of LS_PARTIAL = Some TabPartial"
| "tab_of LS_PAID = Some TabPaid"
| "tab_of LS_OVERDUE = Some TabOverdue"
| "tab_of LS_CANCELLED = None"

text \<open>The list query that the invoices page sends for a tab.\<close>

definition tab_query :: "list_tab \<Rightarrow> invoice_filters \<Rightarrow> nat \<Rightarrow> nat \<Rightarrow> invoice_list_query" where
  "tab_query t f page psize = (let q = invoiceListTabFilter (tab_key t)
     in \<lparr> iq_page = page, iq_pageSize = psize, iq_filters = f, iq_status = tf_status q,
          iq_overdueOnly = tf_overdueOnly q, iq_excludeOverdue = tf_excludeOverdue q \<rparr>)"

section \<open>Properties\<close>

lemma list_total:
  "wp (invoices_list env sc b q) (\<lambda>r w'. w' = w \<and> ls_total r = length (filter (\<lambda>r. sees sc (w_db w) (i_brandId r) \<and>
      invoice_list_where env sc (w_db w) b q r) (invoices (w_db w)))) (\<lambda>_ _. True) w"
proof -
  have same: "wp (eforeach (invoice_row_view sc) rows) (\<lambda>_ w'. w' = w) (\<lambda>_ w'. w' = w) w" for rows
    by (rule wp_foreach_inv) (auto simp: invoice_row_view_def wp_simps split: option.splits)
  show ?thesis unfolding invoices_list_def by (auto simp: wp_simps intro!: wp_mono[OF same])
qed

text \<open>a badge and its rows agree. For every tab of the invoices page, the total of the list that
  the page requests for the tab is the number that the tab's badge shows, under the same search, customer
  and date filters.\<close>

theorem tab_badges_agree:
  assumes "tabCounts env sc b f w = (Inr c, w1)" "invoices_list env sc b (tab_query t f page psize) w = (Inr r, w2)"
  shows "ls_total r = tab_count t c \<and> w1 = w \<and> w2 = w"
proof -
  let ?rows = "filter (\<lambda>r. sees sc (w_db w) (i_brandId r) \<and> baseInvoiceWhere env sc (w_db w) b f r) (invoices (w_db w))"
  let ?d = "w_db w"
  have total: "ls_total r = length (filter (\<lambda>r. sees sc ?d (i_brandId r) \<and> invoice_list_where env sc ?d b (tab_query t f page psize) r) (invoices ?d))" "w2 = w"
    using wp_value[OF list_total assms(2)] by auto
  have "filter (\<lambda>r. sees sc ?d (i_brandId r) \<and> invoice_list_where env sc ?d b (tab_query t f page psize) r) (invoices ?d) =
      filter (\<lambda>r. (case iq_status (tab_query t f page psize) of Some (s # ss) \<Rightarrow> i_status r \<in> set (s # ss) | _ \<Rightarrow> True) \<and>
        (if iq_overdueOnly (tab_query t f page psize) then i_overdue r else if iq_excludeOverdue (tab_query t f page psize) then \<not> i_overdue r else True)) ?rows"
    unfolding filter_filter by (rule filter_cong) (auto simp: invoice_list_where_def tab_query_def Let_def)
  moreover have "tab_count t c = length (filter (\<lambda>r. (case iq_status (tab_query t f page psize) of Some (s # ss) \<Rightarrow> i_status r \<in> set (s # ss) | _ \<Rightarrow> True) \<and>
        (if iq_overdueOnly (tab_query t f page psize) then i_overdue r else if iq_excludeOverdue (tab_query t f page psize) then \<not> i_overdue r else True)) ?rows)" "w1 = w"
    using assms(1) by (cases t; auto simp: tabCounts_def invoice_all_def withScope_def transaction_def tab_query_def invoiceListTabFilter_def Let_def)+
  ultimately show ?thesis using total by simp
qed

text \<open>the tabs and the status column agree. A row whose overdue flag is set only while it is open, as
  \<open>isOverdue\<close> computes it, is listed under exactly the tab of the status shown in its row (a
  cancelled one under none but All).\<close>

theorem tab_rows_agree:
  assumes "i_overdue r \<longrightarrow> i_status r \<notin> {DRAFT, PAID, CANCELLED}" "t \<noteq> TabAll"
  shows "invoice_list_where env sc d b (tab_query t f page psize) r \<longleftrightarrow>
    baseInvoiceWhere env sc d b f r \<and> tab_of (invoiceListStatus (i_status r) (i_overdue r)) = Some t"
  using assms
  by (cases t; cases "i_status r"; cases "i_overdue r")
    (auto simp: invoice_list_where_def tab_query_def invoiceListTabFilter_def Let_def invoiceListStatus_def)

theorem tab_rows_agree_witness:
  "invoice_list_where sample_invoice_env staff_scope (sample_db VIEWED 1000) ''b1''
     (tab_query TabUnpaid \<lparr> if_search = None, if_from = None, if_to = None, if_customerId = None \<rparr> 1 25)
     (sample_invoice ''i1'' ''INV-1'' VIEWED 1000)"
  using tab_rows_agree[of "sample_invoice ''i1'' ''INV-1'' VIEWED 1000" TabUnpaid sample_invoice_env staff_scope
      "sample_db VIEWED 1000" "''b1''" "\<lparr> if_search = None, if_from = None, if_to = None, if_customerId = None \<rparr>" 1 25]
  by (simp add: sample_invoice_def baseInvoiceWhere_def invoiceListStatus_def)

theorem tab_badges_agree_witness:
  "\<exists>c r w1 w2. tabCounts sample_invoice_env staff_scope ''b1'' \<lparr> if_search = None, if_from = None, if_to = None, if_customerId = None \<rparr>
       (sample_world (sample_db VIEWED 1000)) = (Inr c, w1) \<and>
     invoices_list sample_invoice_env staff_scope ''b1''
       (tab_query TabUnpaid \<lparr> if_search = None, if_from = None, if_to = None, if_customerId = None \<rparr> 1 25)
       (sample_world (sample_db VIEWED 1000)) = (Inr r, w2) \<and> tab_unpaid c = 1 \<and> ls_total r = 1"
proof -
  let ?f = "\<lparr> if_search = None, if_from = None, if_to = None, if_customerId = None \<rparr>" and ?w = "sample_world (sample_db VIEWED 1000)"
  obtain c w1 where c: "tabCounts sample_invoice_env staff_scope ''b1'' ?f ?w = (Inr c, w1)" "tab_unpaid c = 1"
    by (simp add: tabCounts_def store_run invoice_all_def sample_defs sees_run staff_scope_def coversAllBrands_def all_brand_roles_def
        baseInvoiceWhere_def)
  have "\<exists>r w2. invoices_list sample_invoice_env staff_scope ''b1'' (tab_query TabUnpaid ?f 1 25) ?w = (Inr r, w2)"
    by (simp add: invoices_list_def invoice_row_view_def page_of_def newest_first_def invoice_list_where_def tab_query_def
        invoiceListTabFilter_def store_run invoice_all_def sample_defs sees_run staff_scope_def coversAllBrands_def
        all_brand_roles_def baseInvoiceWhere_def)
  then obtain r w2 where r: "invoices_list sample_invoice_env staff_scope ''b1'' (tab_query TabUnpaid ?f 1 25) ?w = (Inr r, w2)"
    by blast
  from tab_badges_agree[OF c(1) r] c r show ?thesis
    by (intro exI[of _ c] exI[of _ r] exI[of _ w1] exI[of _ w2]) simp
qed

end
