(* ===== verification/PublicInvoices.thy ===== *)
theory PublicInvoices
  imports InvoiceOutcomes
begin

text \<open>
  \<open>apps/api/src/public/public-invoices.service.ts\<close>: the payment page. A token is resolved to a scope, the page
  is shown and marks the invoice as viewed, and a customer submits the images of a check. Parameters
  (\<open>public_env\<close>): the ISO text of a date, the connected Stripe account and the platform key, which objects
  the store accepts, and the pull from the accounting system. The page record leaves out the brand's colours,
  logo, layout and PDF settings, which are copied from the brand row as they are. The pull runs in a
  transaction of its own in the source; here its effects are part of the view's.
\<close>

record 'g public_env =
  pb_isoDate :: "int \<Rightarrow> string"
  pb_stripeAccount :: "string \<Rightarrow> string option"
  pb_publishableKey :: "string option"
  pb_stores :: "string \<Rightarrow> bool"
  pb_enrich :: "scope \<Rightarrow> string \<Rightarrow> string \<Rightarrow> ('g, bool) service"

section \<open>Token to scope\<close>

text \<open>The lookup runs on the owner connection: no scope filters it.\<close>

definition resolveScope :: "string \<Rightarrow> ('g, public_scope option) service" where
  "resolveScope token = egets (\<lambda>w.
     case find (\<lambda>r. i_publicToken r = token) (invoices (w_db w)) of
       None \<Rightarrow> None
     | Some iv \<Rightarrow>
         if \<not> i_publicTokenActive iv then None
         else (case brand_merchant (w_db w) (i_brandId iv) of
                 None \<Rightarrow> None
               | Some m \<Rightarrow> Some \<lparr> ps_merchantId = m, ps_brandId = i_brandId iv, ps_invoiceId = i_id iv, ps_sourceIp = None \<rparr>))"

section \<open>The page\<close>

record public_line =
  pn_itemName :: string
  pn_description :: "string option"
  pn_quantity :: string
  pn_unitPriceMinor :: int
  pn_lineTotalMinor :: int

record enabled_methods =
  en_card :: bool
  en_applePay :: bool
  en_googlePay :: bool
  en_ach :: bool
  en_check :: bool

record public_view =
  pv_number :: string
  pv_status :: invoice_status
  pv_currency :: string
  pv_invoiceDate :: string
  pv_dueDate :: string
  pv_totalMinor :: int
  pv_balanceMinor :: int
  pv_brandName :: string
  pv_customerName :: string
  pv_lines :: "public_line list"
  pv_subtotalMinor :: int
  pv_taxMinor :: int
  pv_cardFeeRateBp :: int
  pv_partialPaymentEnabled :: bool
  pv_enabledMethods :: enabled_methods
  pv_stripePublishableKey :: "string option"
  pv_stripeAccountId :: "string option"

record loaded_invoice =
  lo_invoice :: invoice_row
  lo_lines :: "line_row list"
  lo_brand :: brand_row
  lo_settings :: "settings_row option"
  lo_customer :: customer_row

definition load_public :: "public_scope \<Rightarrow> ('g, loaded_invoice option) service" where
  "load_public ps =
     ebind (invoice_find (PublicScope ps) (\<lambda>r. i_id r = ps_invoiceId ps)) (\<lambda>found.
     case found of
       None \<Rightarrow> ereturn None
     | Some iv \<Rightarrow>
         ebind (egets (\<lambda>w. lines_of (w_db w) (i_id iv))) (\<lambda>ls.
         ebind (invoice_brand (PublicScope ps) iv) (\<lambda>b.
         ebind (settings_find (PublicScope ps) (i_brandId iv)) (\<lambda>st.
         ebind (invoice_customer (PublicScope ps) iv) (\<lambda>c.
         ereturn (Some \<lparr> lo_invoice = iv, lo_lines = ls, lo_brand = b, lo_settings = st, lo_customer = c \<rparr>))))))"

definition first_view :: "public_scope \<Rightarrow> loaded_invoice \<Rightarrow> ('g, invoice_status) service" where
  "first_view ps lo =
     (let iv = lo_invoice lo in
      if i_status iv \<noteq> SENT then ereturn (i_status iv)
      else case evaluateTransition FIRST_VIEW
             \<lparr> tc_status = SENT, tc_previousStatus = None, tc_lineItemCount = int (length (lo_lines lo)),
               tc_totalMinor = i_totalMinor iv, tc_balanceMinor = i_balanceMinor iv, tc_settledMinor = 0,
               tc_customerHasDeliverableEmail = True \<rparr> of
        Inl _ \<Rightarrow> ereturn (i_status iv)
      | Inr to \<Rightarrow>
          ebind now_ms (\<lambda>now.
          ebind (invoice_update (PublicScope ps) (i_id iv) (\<lambda>i. i\<lparr> i_status := to, i_firstViewedAt := Some now \<rparr>)) (\<lambda>_.
          ebind (event_create \<lparr> e_invoiceId = i_id iv, e_eventType = ''FIRST_VIEW'', e_fromStatus = Some SENT,
             e_toStatus = Some to, e_actor = ''system'', e_payload = NoPayload, e_occurredAt = now \<rparr>) (\<lambda>_.
          ereturn to))))"

definition public_line_of :: "line_row \<Rightarrow> (money_error, public_line) result" where
  "public_line_of l =
     rbind (formatQuantity (JInt (l_quantity l))) (\<lambda>q.
     Inr \<lparr> pn_itemName = l_itemName l, pn_description = l_description l, pn_quantity = q,
           pn_unitPriceMinor = l_unitPriceMinor l, pn_lineTotalMinor = l_lineTotalMinor l \<rparr>)"

definition setting :: "(settings_row \<Rightarrow> bool) \<Rightarrow> loaded_invoice \<Rightarrow> bool" where
  "setting f lo = (case lo_settings lo of None \<Rightarrow> False | Some s \<Rightarrow> f s)"

definition public_view_of :: "'g public_env \<Rightarrow> loaded_invoice \<Rightarrow> invoice_status \<Rightarrow> public_line list \<Rightarrow> public_view" where
  "public_view_of env lo status ls =
     (let iv = lo_invoice lo; account = pb_stripeAccount env (i_brandId iv)
      in \<lparr> pv_number = i_number iv, pv_status = status, pv_currency = i_currency iv,
           pv_invoiceDate = take 10 (pb_isoDate env (i_invoiceDate iv)), pv_dueDate = take 10 (pb_isoDate env (i_dueDate iv)),
           pv_totalMinor = i_totalMinor iv, pv_balanceMinor = i_balanceMinor iv, pv_brandName = b_displayName (lo_brand lo),
           pv_customerName = c_displayName (lo_customer lo), pv_lines = ls, pv_subtotalMinor = i_subtotalMinor iv,
           pv_taxMinor = i_taxMinor iv, pv_cardFeeRateBp = i_cardFeeRateBpApplied iv,
           pv_partialPaymentEnabled = setting st_partialPaymentEnabled lo,
           pv_enabledMethods = \<lparr> en_card = (setting st_cardEnabled lo \<and> nonempty account),
             en_applePay = setting st_applePayEnabled lo, en_googlePay = setting st_googlePayEnabled lo,
             en_ach = setting st_achEnabled lo, en_check = setting st_checkEnabled lo \<rparr>,
           pv_stripePublishableKey = pb_publishableKey env, pv_stripeAccountId = account \<rparr>)"

definition public_view_body :: "'g public_env \<Rightarrow> public_scope \<Rightarrow> loaded_invoice \<Rightarrow> ('g, public_view option) service" where
  "public_view_body env ps lo =
     ebind (first_view ps lo) (\<lambda>status.
     ebind (money (rmapM public_line_of (lo_lines lo))) (\<lambda>ls.
     ereturn (Some (public_view_of env lo status ls))))"

definition view :: "'g public_env \<Rightarrow> public_scope \<Rightarrow> ('g, public_view option) service" where
  "view env ps = withScope
     (ebind (load_public ps) (\<lambda>loaded.
      case loaded of
        None \<Rightarrow> ereturn None
      | Some lo \<Rightarrow>
          ebind (if nonempty (i_zohoInvoiceId (lo_invoice lo)) \<and> lo_lines lo = []
                 then ebind (ecatch (pb_enrich env (PublicScope ps) (ps_brandId ps) (i_id (lo_invoice lo))) (\<lambda>_. ereturn False)) (\<lambda>enriched.
                      if enriched
                      then ebind (load_public ps) (\<lambda>again. ereturn (case again of Some l \<Rightarrow> l | None \<Rightarrow> lo))
                      else ereturn lo)
                 else ereturn lo) (public_view_body env ps)))"

section \<open>Submitting a check\<close>

record check_input =
  ck_checkNumber :: string
  ck_customerNote :: "string option"

definition check_image_key :: "string \<Rightarrow> string \<Rightarrow> string \<Rightarrow> string" where
  "check_image_key brandId submissionId side = ''brands/'' @ brandId @ ''/checks/'' @ submissionId @ ''-'' @ side"

text \<open>Both uploads are started; what was stored stays stored when the other fails.\<close>

definition put_objects :: "'g public_env \<Rightarrow> string list \<Rightarrow> ('g, unit) service" where
  "put_objects env keys = (\<lambda>w.
     (if list_all (pb_stores env) keys then Inr () else Inl (BadGatewayErr ''storage''),
      w\<lparr> w_objects := w_objects w @ filter (pb_stores env) keys \<rparr>))"

definition submitCheck :: "'g public_env \<Rightarrow> public_scope \<Rightarrow> check_input \<Rightarrow> ('g, string) service" where
  "submitCheck env ps input = withScope
     (let sc = PublicScope ps in
      ebind (invoice_find sc (\<lambda>r. i_id r = ps_invoiceId ps)) (\<lambda>found.
      ebind (elift (require found (NotFoundErr ''invoice not found''))) (\<lambda>iv.
      ebind (settings_find sc (ps_brandId ps)) (\<lambda>st.
      ebind (elift (guard (case st of None \<Rightarrow> False | Some s \<Rightarrow> st_checkEnabled s)
               (ConflictWith ''Upload Check is not enabled for this brand''))) (\<lambda>_.
      ebind (elift (guard (0 < i_balanceMinor iv) (ConflictWith ''this invoice has already been paid in full''))) (\<lambda>_.
      ebind draw_id (\<lambda>kid.
      let front = check_image_key (ps_brandId ps) kid ''front''; back_key = check_image_key (ps_brandId ps) kid ''back''
      in ebind (put_objects env [front, back_key]) (\<lambda>_.
      ebind now_ms (\<lambda>now.
      ebind (check_create sc \<lparr> k_id = kid, k_invoiceId = i_id iv, k_brandId = ps_brandId ps,
         k_checkNumber = ck_checkNumber input, k_amountMinor = i_balanceMinor iv, k_frontImageKey = front,
         k_backImageKey = back_key, k_customerNote = ck_customerNote input, k_status = SUBMITTED, k_reviewedBy = None,
         k_reviewNote = None, k_reviewedAt = None, k_createdAt = now \<rparr>) (\<lambda>_.
      ereturn kid))))))))))"

section \<open>The ledger\<close>

lemma viewed_invoice_ok: "\<lbrakk>invoice_ok r; i_status r = SENT\<rbrakk> \<Longrightarrow> invoice_ok (r\<lparr> i_status := VIEWED, i_firstViewedAt := t \<rparr>)"
  by (auto simp: invoice_ok_def)

lemma first_view_decision: "evaluateTransition FIRST_VIEW c = (if tc_status c = SENT then Inr VIEWED else Inl ILLEGAL_FROM_STATUS)"
  by (simp add: evaluateTransition_def)

lemma wp_put_objects [wp_simps]:
  "wp (put_objects env keys) Q E = (\<lambda>w. let w' = w\<lparr> w_objects := w_objects w @ filter (pb_stores env) keys \<rparr>
     in if list_all (pb_stores env) keys then Q () w' else E (BadGatewayErr ''storage'') w')"
  by (rule ext) (simp add: wp_def put_objects_def Let_def)

lemma submitCheck_effect:
  "wp (submitCheck env ps input) (\<lambda>kid w'. \<exists>iv k.
      find (seen_invoice (PublicScope ps) w (ps_invoiceId ps)) (invoices (w_db w)) = Some iv \<and> 0 < i_balanceMinor iv \<and>
      w_db w' = (w_db w)\<lparr> checks := checks (w_db w) @ [k] \<rparr> \<and> k_id k = kid \<and> k_invoiceId k = i_id iv \<and>
      k_amountMinor k = i_balanceMinor iv \<and> k_status k = SUBMITTED \<and>
      w_objects w' = w_objects w @ [k_frontImageKey k, k_backImageKey k] \<and> w_jobs w' = w_jobs w \<and> w_mails w' = w_mails w)
    (\<lambda>_ w'. w_db w' = w_db w \<and> w_jobs w' = w_jobs w \<and> w_mails w' = w_mails w) w"
  unfolding submitCheck_def by (auto simp: wp_simps Let_def split: option.splits)


lemma load_public_Some:
  "load_public ps w = (Inr (Some lo), w') \<longleftrightarrow> w' = w \<and>
     find (seen_invoice (PublicScope ps) w (ps_invoiceId ps)) (invoices (w_db w)) = Some (lo_invoice lo) \<and>
     lo_lines lo = lines_of (w_db w) (i_id (lo_invoice lo)) \<and>
     find (\<lambda>r. sees (PublicScope ps) (w_db w) (b_id r) \<and> b_id r = i_brandId (lo_invoice lo)) (brands (w_db w)) = Some (lo_brand lo) \<and>
     lo_settings lo = find (\<lambda>r. sees (PublicScope ps) (w_db w) (st_brandId r) \<and> st_brandId r = i_brandId (lo_invoice lo)) (settings (w_db w)) \<and>
     find (\<lambda>r. sees (PublicScope ps) (w_db w) (c_brandId r) \<and> c_id r = i_customerId (lo_invoice lo)) (customers (w_db w)) = Some (lo_customer lo)"
  by (cases lo)
    (auto simp: load_public_def invoice_find_def invoice_brand_def invoice_customer_def customer_find_def settings_find_def
      run_bind case_require split: option.splits)

definition viewed :: "int \<Rightarrow> invoice_row \<Rightarrow> invoice_row" where
  "viewed t i = i\<lparr> i_status := VIEWED, i_firstViewedAt := Some t \<rparr>"

lemma viewed_simps [simp]: "i_id (viewed t i) = i_id i" "i_brandId (viewed t i) = i_brandId i" "i_customerId (viewed t i) = i_customerId i"
  "i_status (viewed t i) = VIEWED" "i_zohoInvoiceId (viewed t i) = i_zohoInvoiceId i"
  by (simp_all add: viewed_def)

text \<open>The world after the first view of a page.\<close>

definition after_view :: "public_scope \<Rightarrow> invoice_row \<Rightarrow> 'g world \<Rightarrow> 'g world" where
  "after_view ps iv w = (if i_status iv \<noteq> SENT then w else w\<lparr> w_db := (w_db w)\<lparr>
     invoices := map_rows (seen_invoice (PublicScope ps) w (i_id iv)) (viewed (w_now w)) (invoices (w_db w)),
     events := events (w_db w) @ [\<lparr> e_invoiceId = i_id iv, e_eventType = ''FIRST_VIEW'', e_fromStatus = Some SENT,
             e_toStatus = Some VIEWED, e_actor = ''system'', e_payload = NoPayload, e_occurredAt = w_now w \<rparr>] \<rparr> \<rparr>)"

lemma first_view_run:
  "list_ex (seen_invoice (PublicScope ps) w (i_id (lo_invoice lo))) (invoices (w_db w)) \<Longrightarrow>
   first_view ps lo w = (Inr (if i_status (lo_invoice lo) = SENT then VIEWED else i_status (lo_invoice lo)), after_view ps (lo_invoice lo) w)"
  by (auto simp: first_view_def first_view_decision after_view_def invoice_update_def invoice_updateMany_def run_bind now_ms_def
    event_create_def Let_def filter_empty_list_ex viewed_def[abs_def])

lemma load_after_view:
  assumes "load_public ps w = (Inr (Some lo), w)"
  shows "load_public ps (after_view ps (lo_invoice lo) w) =
    (Inr (Some (if i_status (lo_invoice lo) = SENT then lo\<lparr> lo_invoice := viewed (w_now w) (lo_invoice lo) \<rparr> else lo)),
     after_view ps (lo_invoice lo) w)"
proof -
  have "find (seen_invoice (PublicScope ps) w (ps_invoiceId ps))
      (map_rows (seen_invoice (PublicScope ps) w (i_id (lo_invoice lo))) (viewed (w_now w)) (invoices (w_db w))) = Some (viewed (w_now w) (lo_invoice lo))"
    using assms find_Some_iff'[of "seen_invoice (PublicScope ps) w (ps_invoiceId ps)" "invoices (w_db w)" "lo_invoice lo"]
    unfolding load_public_Some by (subst find_map_rows) auto
  then show ?thesis
    using assms unfolding load_public_Some after_view_def by (auto simp: lines_of_def)
qed

lemma view_without_pull:
  assumes "pb_enrich env = (\<lambda>_ _ _. ereturn False)"
  shows "view env ps w = (Inr (Some v), w') \<longleftrightarrow> (\<exists>lo ls. load_public ps w = (Inr (Some lo), w) \<and> w' = after_view ps (lo_invoice lo) w \<and>
     rmapM public_line_of (lo_lines lo) = Inr ls \<and>
     v = public_view_of env lo (if i_status (lo_invoice lo) = SENT then VIEWED else i_status (lo_invoice lo)) ls)" (is "?L = ?R")
proof -
  have load: "load_public ps w = (Inr (Some lo), w1) \<Longrightarrow> w1 = w \<and>
      list_ex (seen_invoice (PublicScope ps) w (i_id (lo_invoice lo))) (invoices (w_db w))" for lo w1
    unfolding load_public_Some by (auto dest!: find_Some_iff' simp: list_ex_iff)
  have body: "public_view_body env ps lo w = (Inr (Some v), w') \<longleftrightarrow> w' = after_view ps (lo_invoice lo) w \<and>
      (\<exists>ls. rmapM public_line_of (lo_lines lo) = Inr ls \<and>
        v = public_view_of env lo (if i_status (lo_invoice lo) = SENT then VIEWED else i_status (lo_invoice lo)) ls)"
    if "load_public ps w = (Inr (Some lo), w)" for lo
    using first_view_run[of ps w lo] load[OF that]
    by (auto simp: public_view_body_def run_bind money_def split: sum.splits)
  show ?thesis
  proof
    assume ?L
    then obtain lo w1 where lo: "load_public ps w = (Inr (Some lo), w1)" "public_view_body env ps lo w1 = (Inr (Some v), w')"
      unfolding view_def withScope_def transaction_Inr bind_Inr
      by (auto simp: assms ecatch_def run_bind split: option.splits if_splits)
    then show ?R using load body by blast
  next
    assume ?R
    then obtain lo where "load_public ps w = (Inr (Some lo), w)" "public_view_body env ps lo w = (Inr (Some v), w')"
      using body by blast
    then show ?L
      unfolding view_def withScope_def transaction_Inr by (simp add: assms ecatch_def run_bind)
  qed
qed

lemma after_view_again: "i_status iv \<noteq> SENT \<Longrightarrow> after_view ps iv w = w"
  by (simp add: after_view_def)

section \<open>Properties\<close>

text \<open>a page is marked as viewed once. When no pull from the accounting system intervenes, the first
  successful view turns a SENT invoice into VIEWED and records one event; a second view shows exactly
  the same page and changes nothing at all. In any other status a view changes nothing.\<close>

theorem view_idempotent:
  assumes "pb_enrich env = (\<lambda>_ _ _. ereturn False)" "view env ps w = (Inr (Some v), w1)"
  shows "view env ps w1 = (Inr (Some v), w1) \<and> pv_status v \<noteq> SENT \<and>
    (\<exists>iv. find (seen_invoice (PublicScope ps) w (ps_invoiceId ps)) (invoices (w_db w)) = Some iv \<and> w1 = after_view ps iv w)"
proof -
  obtain lo ls where lo: "load_public ps w = (Inr (Some lo), w)" "w1 = after_view ps (lo_invoice lo) w"
      "rmapM public_line_of (lo_lines lo) = Inr ls"
      "v = public_view_of env lo (if i_status (lo_invoice lo) = SENT then VIEWED else i_status (lo_invoice lo)) ls"
    using assms(2) unfolding view_without_pull[OF assms(1)] by blast
  let ?lo = "if i_status (lo_invoice lo) = SENT then lo\<lparr> lo_invoice := viewed (w_now w) (lo_invoice lo) \<rparr> else lo"
  have again: "load_public ps w1 = (Inr (Some ?lo), w1)"
    using load_after_view[OF lo(1)] lo(2) by simp
  have ns: "i_status (lo_invoice ?lo) \<noteq> SENT" by simp
  have "w1 = after_view ps (lo_invoice ?lo) w1" by (rule after_view_again[OF ns, symmetric])
  moreover have "rmapM public_line_of (lo_lines ?lo) = Inr ls" using lo(3) by simp
  moreover have "v = public_view_of env ?lo (i_status (lo_invoice ?lo)) ls"
    unfolding lo(4) by (simp add: public_view_of_def setting_def viewed_def Let_def)
  ultimately have "view env ps w1 = (Inr (Some v), w1)"
    unfolding view_without_pull[OF assms(1)] using again ns by (intro exI[of _ ?lo] exI[of _ ls]) simp
  moreover have "pv_status v \<noteq> SENT" by (simp add: lo(4) public_view_of_def Let_def)
  moreover have "find (seen_invoice (PublicScope ps) w (ps_invoiceId ps)) (invoices (w_db w)) = Some (lo_invoice lo)"
    using lo(1) unfolding load_public_Some by blast
  ultimately show ?thesis using lo(2) by blast
qed

definition sample_public_env :: "fake_gateway public_env" where
  "sample_public_env = \<lparr> pb_isoDate = show_int, pb_stripeAccount = (\<lambda>_. None), pb_publishableKey = None,
     pb_stores = (\<lambda>_. True), pb_enrich = (\<lambda>_ _ _. ereturn False) \<rparr>"

lemma sample_quantity: "formatQuantity (JInt 10000) = Inr ''1''"
  by code_simp

lemma sample_view: "\<exists>v w1. view sample_public_env page_scope (sample_world (sample_db SENT 1000)) = (Inr (Some v), w1) \<and>
    map i_status (invoices (w_db w1)) = [VIEWED]"
  by (simp add: view_without_pull sample_public_env_def load_public_def run_bind case_require store_run invoice_brand_def sample_defs sees_run
    public_line_of_def sample_quantity after_view_def)

theorem view_idempotent_witness:
  "\<exists>v w1. view sample_public_env page_scope (sample_world (sample_db SENT 1000)) = (Inr (Some v), w1) \<and>
     map i_status (invoices (w_db w1)) = [VIEWED] \<and> view sample_public_env page_scope w1 = (Inr (Some v), w1)"
proof -
  obtain v w1 where run: "view sample_public_env page_scope (sample_world (sample_db SENT 1000)) = (Inr (Some v), w1)"
      "map i_status (invoices (w_db w1)) = [VIEWED]" using sample_view by (elim exE conjE) (rule that)
  have "pb_enrich sample_public_env = (\<lambda>_ _ _. ereturn False)" by (simp add: sample_public_env_def)
  from view_idempotent[OF this run(1)] run show ?thesis by (intro exI[of _ v] exI[of _ w1]) simp
qed

text \<open>what a submitted check is. It is accepted only for an invoice of the page's scope that still
  owes something; it stores the two images and one SUBMITTED row for the whole balance at that moment,
  and changes no invoice, payment, queue or mail. A refused one leaves the database as it was.\<close>

theorem submitCheck_outcome:
  "case submitCheck env ps input w of
     (Inl e, w') \<Rightarrow> w_db w' = w_db w \<and> w_jobs w' = w_jobs w \<and> w_mails w' = w_mails w
   | (Inr kid, w') \<Rightarrow> \<exists>iv k.
      find (seen_invoice (PublicScope ps) w (ps_invoiceId ps)) (invoices (w_db w)) = Some iv \<and> 0 < i_balanceMinor iv \<and>
      w_db w' = (w_db w)\<lparr> checks := checks (w_db w) @ [k] \<rparr> \<and> k_id k = kid \<and> k_invoiceId k = i_id iv \<and>
      k_amountMinor k = i_balanceMinor iv \<and> k_status k = SUBMITTED \<and>
      w_objects w' = w_objects w @ [k_frontImageKey k, k_backImageKey k] \<and> w_jobs w' = w_jobs w \<and> w_mails w' = w_mails w"
  using submitCheck_effect[of env ps input w] unfolding wp_def .

text \<open>C35: a token opens exactly one invoice. The scope a token resolves to is that of the active invoice
  holding the token; under it, row-level security shows that invoice's brand and no other.\<close>

theorem resolveScope_sound:
  assumes "resolveScope token w = (Inr (Some ps), w')"
    and "\<forall>b m. brand_merchant (w_db w) b = Some m \<longrightarrow> id_ok b \<and> id_ok m"
  shows "w' = w \<and> (\<exists>iv\<in>set (invoices (w_db w)). i_publicToken iv = token \<and> i_publicTokenActive iv \<and> ps_invoiceId ps = i_id iv \<and>
     (\<forall>b. sees (PublicScope ps) (w_db w) b \<longleftrightarrow> b = i_brandId iv))"
proof -
  obtain iv where f: "find (\<lambda>r. i_publicToken r = token) (invoices (w_db w)) = Some iv"
    using assms(1) by (cases "find (\<lambda>r. i_publicToken r = token) (invoices (w_db w))") (simp_all add: resolveScope_def)
  have act: "i_publicTokenActive iv" using assms(1) by (cases "i_publicTokenActive iv") (simp_all add: resolveScope_def f)
  obtain m where m: "brand_merchant (w_db w) (i_brandId iv) = Some m"
    using assms(1) act by (cases "brand_merchant (w_db w) (i_brandId iv)") (simp_all add: resolveScope_def f)
  have ps: "ps = \<lparr> ps_merchantId = m, ps_brandId = i_brandId iv, ps_invoiceId = i_id iv, ps_sourceIp = None \<rparr>" "w' = w"
    using assms(1) act m by (simp_all add: resolveScope_def f)
  note iv = f act m ps
  have ok: "scope_ok (PublicScope ps)" unfolding iv(4) scope_ok.simps using assms(2)[THEN spec, THEN spec, THEN mp, OF iv(3)] by simp
  have "sees (PublicScope ps) (w_db w) b \<longleftrightarrow> b = i_brandId iv" for b
    unfolding sees_def visible_to_def brand_visible_iff[OF ok] using iv(3) by (auto simp: iv(4) canReachBrand_def)
  moreover have "iv \<in> set (invoices (w_db w))" "i_publicToken iv = token" using find_Some_iff'[OF iv(1)] by simp_all
  moreover have "ps_invoiceId ps = i_id iv" by (simp add: iv(4))
  ultimately show ?thesis using iv(2,5) by (intro conjI bexI[of _ iv] allI) simp_all
qed

theorem resolveScope_sound_witness:
  "\<exists>ps. resolveScope ''tok-i1'' (sample_world (sample_db SENT 1000)) = (Inr (Some ps), sample_world (sample_db SENT 1000)) \<and>
     ps_invoiceId ps = ''i1'' \<and> \<not> sees (PublicScope ps) (sample_db SENT 1000) ''b2''"
proof -
  have run: "resolveScope ''tok-i1'' (sample_world (sample_db SENT 1000)) =
      (Inr (Some page_scope), sample_world (sample_db SENT 1000))"
    by (simp add: resolveScope_def sample_defs brand_merchant_def)
  have "\<forall>b m. brand_merchant (w_db (sample_world (sample_db SENT 1000))) b = Some m \<longrightarrow> id_ok b \<and> id_ok m"
    by (simp add: sample_defs brand_merchant_def id_ok_def)
  from resolveScope_sound[OF run this] run show ?thesis
    by (intro exI[of _ page_scope]) (auto simp: sample_world_def sample_db_def sample_invoice_def)
qed

end
