(* ===== verification/Checks.thy ===== *)
theory Checks
  imports InvoiceOutcomes
begin

text \<open>
  \<open>apps/api/src/checks/checks.service.ts\<close>: the review of submitted checks. \<open>approve\<close> is modelled with its
  three steps apart (the guard, the recording, the closing), because they are separate transactions in the
  source and two reviewers can interleave. Parameters (\<open>check_env\<close>): the database's case-insensitive
  \<open>contains\<close> and the store's signed URLs.
\<close>

record 'g check_env =
  ke_contains :: "string \<Rightarrow> string \<Rightarrow> bool"
  ke_signedUrl :: "string \<Rightarrow> (service_error, string) result"

record check_query =
  kq_page :: nat
  kq_pageSize :: nat
  kq_status :: "string option"
  kq_search :: "string option"

datatype review_status = REVIEW_PENDING | REVIEW_APPROVED | REVIEW_REJECTED

fun check_status_name :: "check_status \<Rightarrow> string" where
  "check_status_name SUBMITTED = ''SUBMITTED''"
| "check_status_name UNDER_REVIEW = ''UNDER_REVIEW''"
| "check_status_name APPROVED = ''APPROVED''"
| "check_status_name REJECTED = ''REJECTED''"

section \<open>Reading\<close>

text \<open>The relation filters run under the same row-level security.\<close>

definition check_invoice_matches :: "'g check_env \<Rightarrow> scope \<Rightarrow> db \<Rightarrow> string \<Rightarrow> check_row \<Rightarrow> bool" where
  "check_invoice_matches env sc d search k =
     list_ex (\<lambda>i. sees sc d (i_brandId i) \<and> i_id i = k_invoiceId k \<and>
       (ke_contains env (i_number i) search \<or>
        list_ex (\<lambda>c. sees sc d (c_brandId c) \<and> c_id c = i_customerId i \<and> ke_contains env (c_displayName c) search) (customers d)))
     (invoices d)"

definition check_where :: "'g check_env \<Rightarrow> scope \<Rightarrow> db \<Rightarrow> string \<Rightarrow> check_query \<Rightarrow> check_row \<Rightarrow> bool" where
  "check_where env sc d brandId q k =
     (k_brandId k = brandId \<and>
      (case kq_status q of
         Some (s # ss) \<Rightarrow> (if s # ss = ''PENDING'' then k_status k \<in> {SUBMITTED, UNDER_REVIEW} else check_status_name (k_status k) = s # ss)
       | _ \<Rightarrow> True) \<and>
      (case kq_search q of
         Some (s # ss) \<Rightarrow> ke_contains env (k_checkNumber k) (s # ss) \<or> check_invoice_matches env sc d (s # ss) k
       | _ \<Rightarrow> True))"

record check_list_row =
  kr_id :: string
  kr_checkNumber :: string
  kr_amountMinor :: int
  kr_currency :: string
  kr_status :: review_status
  kr_customerName :: string
  kr_invoiceNumber :: string
  kr_createdAt :: int

text \<open>A submission with the columns of its invoice and customer that the queries join.\<close>

record joined_check =
  jc_check :: check_row
  jc_invoice :: invoice_row
  jc_customer :: customer_row

definition join_check :: "scope \<Rightarrow> check_row \<Rightarrow> ('g, joined_check) service" where
  "join_check sc k =
     ebind (invoice_find sc (\<lambda>i. i_id i = k_invoiceId k)) (\<lambda>found.
     ebind (elift (require found (MissingRelation ''invoice''))) (\<lambda>iv.
     ebind (invoice_customer sc iv) (\<lambda>c.
     ereturn \<lparr> jc_check = k, jc_invoice = iv, jc_customer = c \<rparr>)))"

definition toListRow :: "joined_check \<Rightarrow> check_list_row" where
  "toListRow j = (let k = jc_check j in
     \<lparr> kr_id = k_id k, kr_checkNumber = k_checkNumber k, kr_amountMinor = k_amountMinor k, kr_currency = i_currency (jc_invoice j),
       kr_status = (if k_status k = APPROVED then REVIEW_APPROVED else if k_status k = REJECTED then REVIEW_REJECTED else REVIEW_PENDING),
       kr_customerName = c_displayName (jc_customer j), kr_invoiceNumber = i_number (jc_invoice j), kr_createdAt = k_createdAt k \<rparr>)"

definition checks_list :: "'g check_env \<Rightarrow> scope \<Rightarrow> string \<Rightarrow> check_query \<Rightarrow> ('g, check_list_row list_result) service" where
  "checks_list env sc brandId q = withScope
     (ebind (egets w_db) (\<lambda>d.
      ebind (check_all sc (check_where env sc d brandId q)) (\<lambda>rows.
      ebind (eforeach (join_check sc) (page_of (kq_page q) (kq_pageSize q) (newest_first k_createdAt rows))) (\<lambda>joined.
      ereturn \<lparr> ls_data = map toListRow joined, ls_page = kq_page q, ls_pageSize = kq_pageSize q, ls_total = length rows \<rparr>))))"

definition findOrThrow :: "scope \<Rightarrow> string \<Rightarrow> string \<Rightarrow> ('g, joined_check) service" where
  "findOrThrow sc brandId kid = withScope
     (ebind (check_find sc (\<lambda>k. k_id k = kid \<and> k_brandId k = brandId)) (\<lambda>found.
      ebind (elift (require found (NotFoundErr ''check submission not found''))) (\<lambda>k.
      join_check sc k)))"

record check_detail =
  kd_row :: check_list_row
  kd_invoiceId :: string
  kd_customerNote :: "string option"
  kd_reviewNote :: "string option"
  kd_reviewedAt :: "int option"
  kd_frontImageUrl :: string
  kd_backImageUrl :: string

definition getDetail :: "'g check_env \<Rightarrow> scope \<Rightarrow> string \<Rightarrow> string \<Rightarrow> ('g, check_detail) service" where
  "getDetail env sc brandId kid =
     ebind (findOrThrow sc brandId kid) (\<lambda>j.
     let k = jc_check j in
     ebind (elift (ke_signedUrl env (k_frontImageKey k))) (\<lambda>front.
     ebind (elift (ke_signedUrl env (k_backImageKey k))) (\<lambda>back_url.
     ereturn \<lparr> kd_row = toListRow j, kd_invoiceId = k_invoiceId k, kd_customerNote = k_customerNote k,
       kd_reviewNote = k_reviewNote k, kd_reviewedAt = k_reviewedAt k, kd_frontImageUrl = front, kd_backImageUrl = back_url \<rparr>)))"

section \<open>Reviewing\<close>

definition requirePending :: "scope \<Rightarrow> string \<Rightarrow> string \<Rightarrow> ('g, joined_check) service" where
  "requirePending sc brandId kid =
     ebind (findOrThrow sc brandId kid) (\<lambda>j.
     ebind (elift (guard (k_status (jc_check j) = SUBMITTED \<or> k_status (jc_check j) = UNDER_REVIEW)
              (ConflictWith ''this check has already been reviewed''))) (\<lambda>_.
     ereturn j))"

definition finishReview :: "scope \<Rightarrow> string \<Rightarrow> string \<Rightarrow> check_status \<Rightarrow> string option \<Rightarrow> ('g, unit) service" where
  "finishReview sc brandId kid status note =
     (case sc of
        PublicScope _ \<Rightarrow> ethrow (ConflictWith ''check review requires an authenticated session'')
      | RequestScope r \<Rightarrow> withScope
          (ebind now_ms (\<lambda>now.
           ebind (check_updateMany sc (\<lambda>k. k_id k = kid \<and> k_brandId k = brandId \<and> k_status k \<in> {SUBMITTED, UNDER_REVIEW})
              (\<lambda>k. k\<lparr> k_status := status, k_reviewedBy := Some (rs_userId r), k_reviewNote := note, k_reviewedAt := Some now \<rparr>)) (\<lambda>count.
           elift (guard (count \<noteq> 0) (ConflictWith ''this check changed while saving''))))))"

definition check_payment :: "string \<Rightarrow> int \<Rightarrow> string \<Rightarrow> manual_payment" where
  "check_payment amount now checkNumber =
     \<lparr> mp_amount = amount, mp_method = CHECK, mp_paidAt = now, mp_reference = Some checkNumber \<rparr>"

text \<open>The recording of \<open>approve\<close>, between its two guards.\<close>

definition approve_record :: "scope \<Rightarrow> string \<Rightarrow> joined_check \<Rightarrow> ('g, invoice_with_lines) service" where
  "approve_record sc brandId j =
     ebind (money (formatMinor (JInt (k_amountMinor (jc_check j))) (invoice_currency (jc_invoice j)))) (\<lambda>amount.
     ebind now_ms (\<lambda>now.
     recordManualPayment sc brandId (k_invoiceId (jc_check j)) (check_payment amount now (k_checkNumber (jc_check j)))))"

definition approve :: "scope \<Rightarrow> string \<Rightarrow> string \<Rightarrow> string option \<Rightarrow> ('g, unit) service" where
  "approve sc brandId kid note =
     ebind (requirePending sc brandId kid) (\<lambda>j.
     ebind (approve_record sc brandId j) (\<lambda>_.
     finishReview sc brandId kid APPROVED note))"

definition reject :: "scope \<Rightarrow> string \<Rightarrow> string \<Rightarrow> string option \<Rightarrow> ('g, unit) service" where
  "reject sc brandId kid note =
     (if \<not> nonempty note then ethrow (ConflictWith ''a reason is required to reject a check'')
      else ebind (requirePending sc brandId kid) (\<lambda>_. finishReview sc brandId kid REJECTED note))"

section \<open>What a review does\<close>

lemma join_check_pure: "wp (join_check sc k) (\<lambda>j w'. w' = w \<and> jc_check j = k \<and>
    find (\<lambda>i. sees sc (w_db w) (i_brandId i) \<and> i_id i = k_invoiceId k) (invoices (w_db w)) = Some (jc_invoice j)) (\<lambda>_ w'. w' = w) w"
  unfolding join_check_def by (auto simp: wp_simps split: option.splits)

definition pending_check :: "scope \<Rightarrow> string \<Rightarrow> string \<Rightarrow> 'g world \<Rightarrow> joined_check \<Rightarrow> bool" where
  "pending_check sc b kid w j \<longleftrightarrow>
     find (\<lambda>k. sees sc (w_db w) (k_brandId k) \<and> k_id k = kid \<and> k_brandId k = b) (checks (w_db w)) = Some (jc_check j) \<and>
     k_status (jc_check j) \<in> {SUBMITTED, UNDER_REVIEW} \<and>
     find (\<lambda>i. sees sc (w_db w) (i_brandId i) \<and> i_id i = k_invoiceId (jc_check j)) (invoices (w_db w)) = Some (jc_invoice j)"

lemma requirePending_pure:
  "wp (requirePending sc b kid) (\<lambda>j w'. w' = w \<and> pending_check sc b kid w j) (\<lambda>_ w'. w' = w) w"
  unfolding requirePending_def findOrThrow_def pending_check_def
  by (auto simp: wp_simps split: option.splits intro!: wp_mono[OF join_check_pure])

definition check_recorded :: "string \<Rightarrow> joined_check \<Rightarrow> db \<Rightarrow> db \<Rightarrow> bool" where
  "check_recorded b j d d' \<longleftrightarrow>
     (\<exists>iv p. let a = k_amountMinor (jc_check j) in
        iv \<in> set (invoices d) \<and> i_id iv = k_invoiceId (jc_check j) \<and> isPayable (i_status iv) \<and> 0 < a \<and> a \<le> i_balanceMinor iv \<and>
        payments d' = payments d @ [p] \<and> p_invoiceId p = i_id iv \<and> p_brandId p = b \<and> p_amountMinor p = a \<and> p_status p = SETTLED \<and> p_method p = CHECK \<and>
        (\<exists>t. invoices d' = map_rows (\<lambda>i. i_id i = i_id iv)
          (\<lambda>i. i\<lparr> i_status := (if a = i_balanceMinor iv then PAID else PARTIALLY_PAID), i_balanceMinor := i_balanceMinor iv - a,
                 i_previousStatus := None, i_paidAt := (if a = i_balanceMinor iv then Some t else i_paidAt i) \<rparr>) (invoices d)))"

lemma formatMinor_safe: "formatMinor (JInt a) cur = Inr s \<Longrightarrow> safe a \<and> parseMinor s cur = Inr a"
proof -
  assume f: "formatMinor (JInt a) cur = Inr s"
  then have "safe a" by (auto simp: formatMinor_def rbind_eq_Inr split: if_splits)
  with minor_text.codec_roundtrip[of a cur] f show ?thesis by auto
qed

abbreviation review_frame :: "check_row list \<Rightarrow> brand_row list \<Rightarrow> 'g world \<Rightarrow> bool" where
  "review_frame ks bs w \<equiv> checks (w_db w) = ks \<and> brands (w_db w) = bs"

lemma recordManualPayment_frame: "preserves (review_frame ks bs) (recordManualPayment sc b iid input)"
  unfolding recordManualPayment_def recordManualPayment_tx_def brand_invoice_def invoice_read preserves_wp
  by (auto simp: wp_simps Let_def split: option.splits sum.splits)

lemma recordManualPayment_effect:
  assumes "ledger_ok (w_db w)"
  shows "wp (recordManualPayment sc b iid input) (\<lambda>_ w'. (\<exists>pid. recorded sc b iid input (w_db w) (w_db w') pid) \<and>
      review_frame (checks (w_db w)) (brands (w_db w)) w' \<and> ledger_ok (w_db w')) (\<lambda>_ w'. w_db w' = w_db w \<and> outbox w' = outbox w) w"
proof (rule wpI)
  fix a w' assume run: "recordManualPayment sc b iid input w = (Inr a, w')"
  then obtain pid w1 where "recordManualPayment_tx sc b iid input w = (Inr (a, pid), w1)" "w_db w' = w_db w1"
    unfolding recordManualPayment_def by (auto simp: bind_Inr withScope_def enqueue_def split: prod.splits)
  then have "recorded sc b iid input (w_db w) (w_db w') pid"
    using wp_value[OF recordManualPayment_tx_recorded[OF assms]] by fastforce
  moreover have "review_frame (checks (w_db w)) (brands (w_db w)) w'"
    by (rule preservesD[OF recordManualPayment_frame _ run]) simp
  moreover have "ledger_ok (w_db w')" by (rule preservesD[OF recordManualPayment_ledger assms run])
  ultimately show "(\<exists>pid. recorded sc b iid input (w_db w) (w_db w') pid) \<and>
      review_frame (checks (w_db w)) (brands (w_db w)) w' \<and> ledger_ok (w_db w')" by blast
qed (rule recordManualPayment_error)

lemma approve_record_effect:
  assumes L: "ledger_ok (w_db w)"
    and iv: "find (\<lambda>i. sees sc (w_db w) (i_brandId i) \<and> i_id i = k_invoiceId (jc_check j)) (invoices (w_db w)) = Some (jc_invoice j)"
  shows "wp (approve_record sc b j) (\<lambda>_ w'. check_recorded b j (w_db w) (w_db w') \<and>
      review_frame (checks (w_db w)) (brands (w_db w)) w') (\<lambda>_ w'. w_db w' = w_db w \<and> outbox w' = outbox w) w"
proof -
  have R: "check_recorded b j (w_db w) d'"
    if f: "formatMinor (JInt (k_amountMinor (jc_check j))) (invoice_currency (jc_invoice j)) = Inr s"
      and rec: "recorded sc b (k_invoiceId (jc_check j)) (check_payment s t n) (w_db w) d' pid" for s t n d' pid
  proof -
    obtain iv a p where r: "iv \<in> set (invoices (w_db w))" "i_id iv = k_invoiceId (jc_check j)" "i_brandId iv = b"
        "parseMinor s (invoice_currency iv) = Inr a" "isPayable (i_status iv)" "0 < a" "a \<le> i_balanceMinor iv"
        "invoices d' = map_rows (\<lambda>i. i_id i = i_id iv)
          (\<lambda>i. i\<lparr> i_status := (if a = i_balanceMinor iv then PAID else PARTIALLY_PAID), i_balanceMinor := i_balanceMinor iv - a,
                 i_previousStatus := None, i_paidAt := (if a = i_balanceMinor iv then Some t else i_paidAt i) \<rparr>) (invoices (w_db w))"
        "payments d' = payments (w_db w) @ [p]" "p_invoiceId p = i_id iv" "p_brandId p = b" "p_amountMinor p = a"
        "p_status p = SETTLED" "p_method p = CHECK"
      using rec unfolding recorded_def check_payment_def by auto
    have "iv = jc_invoice j"
      using found_row[OF L[unfolded ledger_ok_def] iv r(1)] find_Some_iff'[OF iv] r(2) by simp
    then have "a = k_amountMinor (jc_check j)" using formatMinor_safe[OF f] r(4) by simp
    then show ?thesis unfolding check_recorded_def Let_def using r by (intro exI[of _ iv] exI[of _ p] conjI exI[of _ t]) simp_all
  qed
  show ?thesis
    unfolding approve_record_def
    by (auto simp: wp_simps split: sum.splits intro!: wp_mono[OF recordManualPayment_effect[OF L]] elim!: R)
qed

lemma check_recorded_paid:
  assumes "check_recorded b j d d'" "ledger_ok d" "iv \<in> set (invoices d)" "i_id iv = k_invoiceId (jc_check j)"
    "i_balanceMinor iv \<le> k_amountMinor (jc_check j)"
  shows "\<forall>i\<in>set (invoices d'). i_id i = k_invoiceId (jc_check j) \<longrightarrow> i_status i = PAID"
proof -
  obtain iv2 where r: "iv2 \<in> set (invoices d)" "i_id iv2 = k_invoiceId (jc_check j)" "k_amountMinor (jc_check j) \<le> i_balanceMinor iv2"
     "\<exists>t. invoices d' = map_rows (\<lambda>i. i_id i = i_id iv2)
          (\<lambda>i. i\<lparr> i_status := (if k_amountMinor (jc_check j) = i_balanceMinor iv2 then PAID else PARTIALLY_PAID),
             i_balanceMinor := i_balanceMinor iv2 - k_amountMinor (jc_check j),
             i_previousStatus := None, i_paidAt := (if k_amountMinor (jc_check j) = i_balanceMinor iv2 then Some t else i_paidAt i) \<rparr>) (invoices d)"
    using assms(1) unfolding check_recorded_def Let_def by blast
  have "iv2 = iv" using ledger_row[OF assms(2)[unfolded ledger_ok_def] r(1) assms(3)] r(2) assms(4) by simp
  then have "k_amountMinor (jc_check j) = i_balanceMinor iv2" using r(3) assms(5) by simp
  then show ?thesis using r(2,4) by (auto simp: set_map_rows)
qed

lemma finishReview_pending:
  assumes "find (\<lambda>k. sees (RequestScope r) (w_db w) (k_brandId k) \<and> k_id k = kid \<and> k_brandId k = b) (checks (w_db w)) = Some k"
    and "k_status k \<in> {SUBMITTED, UNDER_REVIEW}"
  shows "\<exists>w'. finishReview (RequestScope r) b kid st note w = (Inr (), w') \<and>
    w_db w' = (w_db w)\<lparr> checks := map_rows (\<lambda>k. sees (RequestScope r) (w_db w) (k_brandId k) \<and> k_id k = kid \<and> k_brandId k = b \<and>
        k_status k \<in> {SUBMITTED, UNDER_REVIEW})
      (\<lambda>k. k\<lparr> k_status := st, k_reviewedBy := Some (rs_userId r), k_reviewNote := note, k_reviewedAt := Some (w_now w) \<rparr>) (checks (w_db w)) \<rparr>"
proof -
  have "k \<in> set (checks (w_db w))" "sees (RequestScope r) (w_db w) (k_brandId k)" "k_id k = kid" "k_brandId k = b"
    using find_Some_iff'[OF assms(1)] by blast+
  then have "filter (\<lambda>k. sees (RequestScope r) (w_db w) (k_brandId k) \<and> k_id k = kid \<and> k_brandId k = b \<and> (k_status k = SUBMITTED \<or> k_status k = UNDER_REVIEW)) (checks (w_db w)) \<noteq> []"
    using assms(2) by (auto simp: filter_empty_conv)
  then show ?thesis
    by (simp add: finishReview_def withScope_def transaction_def run_bind now_ms_def check_updateMany_def Let_def)
qed

definition approved :: "request_scope \<Rightarrow> string \<Rightarrow> string \<Rightarrow> string option \<Rightarrow> 'g world \<Rightarrow> 'g world \<Rightarrow> bool" where
  "approved r b kid note w w' \<longleftrightarrow>
     (\<exists>j t. pending_check (RequestScope r) b kid w j \<and> check_recorded b j (w_db w) (w_db w') \<and>
        checks (w_db w') = map_rows (\<lambda>k. sees (RequestScope r) (w_db w) (k_brandId k) \<and> k_id k = kid \<and> k_brandId k = b \<and>
          k_status k \<in> {SUBMITTED, UNDER_REVIEW})
          (\<lambda>k. k\<lparr> k_status := APPROVED, k_reviewedBy := Some (rs_userId r), k_reviewNote := note, k_reviewedAt := Some t \<rparr>) (checks (w_db w)))"

lemma sees_brands: "brands d' = brands d \<Longrightarrow> sees sc d' b = sees sc d b"
  by (simp add: sees_def brand_merchant_def[abs_def])

lemma approve_effect:
  assumes L: "ledger_ok (w_db w)"
  shows "wp (approve (RequestScope r) b kid note) (\<lambda>_ w'. approved r b kid note w w')
    (\<lambda>_ w'. w_db w' = w_db w \<and> outbox w' = outbox w) w"
proof -
  let ?sc = "RequestScope r"
  have fin: "wp (finishReview ?sc b kid APPROVED note) (\<lambda>_ w'. approved r b kid note w w') (\<lambda>_ w'. w_db w' = w_db w \<and> outbox w' = outbox w) w1"
    if j: "pending_check ?sc b kid w j" and rec: "check_recorded b j (w_db w) (w_db w1)" and fr: "review_frame (checks (w_db w)) (brands (w_db w)) w1" for j w1
  proof -
    have sees: "sees ?sc (w_db w1) x = sees ?sc (w_db w) x" for x using sees_brands fr by blast
    have "find (\<lambda>k. sees ?sc (w_db w1) (k_brandId k) \<and> k_id k = kid \<and> k_brandId k = b) (checks (w_db w1)) = Some (jc_check j)"
      "k_status (jc_check j) \<in> {SUBMITTED, UNDER_REVIEW}"
      using j fr unfolding pending_check_def sees by simp_all
    from finishReview_pending[OF this, of APPROVED "note"] obtain w2 where
      w2: "finishReview ?sc b kid APPROVED note w1 = (Inr (), w2)"
        "w_db w2 = (w_db w1)\<lparr> checks := map_rows (\<lambda>k. sees ?sc (w_db w1) (k_brandId k) \<and> k_id k = kid \<and> k_brandId k = b \<and>
           k_status k \<in> {SUBMITTED, UNDER_REVIEW})
          (\<lambda>k. k\<lparr> k_status := APPROVED, k_reviewedBy := Some (rs_userId r), k_reviewNote := note, k_reviewedAt := Some (w_now w1) \<rparr>) (checks (w_db w1)) \<rparr>"
      by blast
    have "check_recorded b j (w_db w) (w_db w2)" using rec by (simp add: w2(2) check_recorded_def Let_def)
    then have "approved r b kid note w w2"
      unfolding approved_def using j fr sees by (intro exI[of _ j] exI[of _ "w_now w1"]) (simp add: w2(2))
    then show ?thesis by (simp add: wp_def w2(1))
  qed
  have recs: "wp (approve_record ?sc b j) (\<lambda>_. wp (finishReview ?sc b kid APPROVED note) (\<lambda>_ w'. approved r b kid note w w')
      (\<lambda>_ w'. w_db w' = w_db w \<and> outbox w' = outbox w)) (\<lambda>_ w'. w_db w' = w_db w \<and> outbox w' = outbox w) w"
    if "pending_check ?sc b kid w j" for j
    by (rule wp_mono[OF approve_record_effect[OF L]]) (use that fin in \<open>auto simp: pending_check_def\<close>)
  show ?thesis unfolding approve_def wp_bind
    by (rule wp_mono[OF requirePending_pure]) (use recs in auto)
qed

section \<open>Properties\<close>

text \<open>C30: approving a check. From a consistent ledger, an approval by a signed-in reviewer that throws
  leaves the database, queue, mails and objects as they were. One that returns found the submission still pending, took
  exactly its amount off its invoice's balance (the amount survives the trip through its decimal text), added one
  settled check payment of that amount, and marked the submission, and no other, as approved by that reviewer.\<close>

theorem approve_outcome:
  assumes "ledger_ok (w_db w)"
  shows "case approve (RequestScope r) b kid note w of
     (Inl e, w') \<Rightarrow> w_db w' = w_db w \<and> outbox w' = outbox w
   | (Inr _, w') \<Rightarrow> approved r b kid note w w'"
  using approve_effect[OF assms, of r b kid "note"] unfolding wp_def .

definition sample_check :: "int \<Rightarrow> check_row" where
  "sample_check amount = \<lparr> k_id = ''k1'', k_invoiceId = ''i1'', k_brandId = ''b1'', k_checkNumber = ''1001'', k_amountMinor = amount,
     k_frontImageKey = ''f'', k_backImageKey = ''r'', k_customerNote = None, k_status = SUBMITTED, k_reviewedBy = None,
     k_reviewNote = None, k_reviewedAt = None, k_createdAt = 1 \<rparr>"

definition check_db :: db where
  "check_db = (sample_db VIEWED 1000)\<lparr> checks := [sample_check 1000] \<rparr>"

definition reviewer :: request_scope where
  "reviewer = \<lparr> rs_merchantId = ''m1'', rs_userId = ''u1'', rs_role = MERCHANT_OWNER, rs_assignedBrandIds = [], rs_sessionId = ''s1'', rs_sourceIp = None \<rparr>"

lemma check_ledger: "ledger_ok check_db"
  by (simp add: ledger_ok_def ledger_rows_def check_db_def sample_db_def sample_invoice_def invoice_ok_def safe_def max_safe_def)

lemma sample_texts: "formatMinor (JInt 1000) USD = Inr ''10.00''" "parseMinor ''10.00'' USD = Inr 1000"
  by code_simp+

lemmas review_run = requirePending_def findOrThrow_def join_check_def check_find_def approve_record_def recordManualPayment_def
  recordManualPayment_tx_def check_payment_def brand_invoice_def reload_def invoice_event_def store_run case_require case_guard sees_run
  sample_world_def check_db_def sample_db_def sample_settings_def sample_invoice_def sample_check_def reviewer_def
  coversAllBrands_def all_brand_roles_def invoice_currency_def toCurrencyCode_def isSupportedCurrency_def supported_currencies_def
  sample_texts record_context_def evaluateTransition_def safe_def max_safe_def

lemma sample_approve: "\<exists>w'. approve (RequestScope reviewer) ''b1'' ''k1'' None (sample_world check_db) = (Inr (), w')"
  by (simp add: approve_def finishReview_def check_updateMany_def review_run)

theorem approve_outcome_witness:
  "\<exists>w'. approve (RequestScope reviewer) ''b1'' ''k1'' None (sample_world check_db) = (Inr (), w') \<and>
     map k_status (checks (w_db w')) = [APPROVED] \<and> map p_amountMinor (payments (w_db w')) = [1000]"
proof -
  obtain w' where run: "approve (RequestScope reviewer) ''b1'' ''k1'' None (sample_world check_db) = (Inr (), w')"
    using sample_approve by blast
  have "ledger_ok (w_db (sample_world check_db))" by (simp add: sample_world_def check_ledger)
  from approve_outcome[OF this, of reviewer "''b1''" "''k1''" None] run
  obtain j t where j: "pending_check (RequestScope reviewer) ''b1'' ''k1'' (sample_world check_db) j"
      "check_recorded ''b1'' j check_db (w_db w')"
      "checks (w_db w') = map_rows (\<lambda>k. sees (RequestScope reviewer) check_db (k_brandId k) \<and> k_id k = ''k1'' \<and> k_brandId k = ''b1'' \<and>
          k_status k \<in> {SUBMITTED, UNDER_REVIEW})
          (\<lambda>k. k\<lparr> k_status := APPROVED, k_reviewedBy := Some (rs_userId reviewer), k_reviewNote := None, k_reviewedAt := Some t \<rparr>) (checks check_db)"
    unfolding approved_def by (auto simp: sample_world_def)
  have "jc_check j = sample_check 1000" using j(1) by (simp add: pending_check_def review_run)
  then have "map p_amountMinor (payments (w_db w')) = [1000]"
    using j(2) by (auto simp: check_recorded_def Let_def check_db_def sample_db_def sample_check_def)
  moreover have "map k_status (checks (w_db w')) = [APPROVED]" by (simp add: j(3) review_run)
  ultimately show ?thesis using run by (intro exI[of _ w'] conjI)
qed

text \<open>two reviewers cannot record one check twice. When a check covers at least what its invoice owes (it
  was submitted for the whole balance, and balances only fall), and two approvals have both found it
  pending, the second recording is refused and changes nothing, even though neither has closed the review.\<close>

theorem double_approval_refused:
  assumes "ledger_ok (w_db w)" "pending_check sc b kid w j" "i_balanceMinor (jc_invoice j) \<le> k_amountMinor (jc_check j)"
    and "approve_record sc b j w = (Inr x, w1)" "w_db w2 = w_db w1"
  shows "\<exists>e w3. approve_record sc2 b2 j w2 = (Inl e, w3) \<and> w_db w3 = w_db w2"
proof -
  have iv: "find (\<lambda>i. sees sc (w_db w) (i_brandId i) \<and> i_id i = k_invoiceId (jc_check j)) (invoices (w_db w)) = Some (jc_invoice j)"
    using assms(2) unfolding pending_check_def by blast
  have rec: "check_recorded b j (w_db w) (w_db w1)" using wp_value[OF approve_record_effect[OF assms(1) iv] assms(4)] by blast
  have paid: "\<forall>i\<in>set (invoices (w_db w2)). i_id i = k_invoiceId (jc_check j) \<longrightarrow> i_status i = PAID"
    using check_recorded_paid[OF rec assms(1)] find_Some_iff'[OF iv] assms(3,5) by auto
  have "ledger_ok (w_db w2)"
    using preservesD[OF recordManualPayment_ledger assms(1)] assms(4,5)
    by (auto simp: approve_record_def bind_Inr money_def now_ms_def split: sum.splits)
  note eff = recordManualPayment_effect[OF this]
  have "wp (recordManualPayment sc2 b2 (k_invoiceId (jc_check j)) input) (\<lambda>_ _. False) (\<lambda>_ w'. w_db w' = w_db w2) w2" for input
    by (rule wp_mono[OF eff]) (use paid in \<open>auto simp: recorded_def\<close>)
  then have "wp (approve_record sc2 b2 j) (\<lambda>_ _. False) (\<lambda>_ w'. w_db w' = w_db w2) w2"
    unfolding approve_record_def by (auto simp: wp_simps split: sum.splits)
  then show ?thesis by (auto simp: wp_def split: prod.splits sum.splits)
qed

lemma sample_pending: "\<exists>j. pending_check (RequestScope reviewer) ''b1'' ''k1'' (sample_world check_db) j \<and>
    jc_check j = sample_check 1000 \<and> i_balanceMinor (jc_invoice j) = 1000 \<and>
    (\<exists>x w1. approve_record (RequestScope reviewer) ''b1'' j (sample_world check_db) = (Inr x, w1))"
  by (rule exI[of _ "\<lparr> jc_check = sample_check 1000, jc_invoice = sample_invoice ''i1'' ''INV-1'' VIEWED 1000, jc_customer = hd (customers check_db) \<rparr>"])
    (simp add: pending_check_def review_run)

theorem double_approval_refused_witness:
  "\<exists>j x w1 e w3. approve_record (RequestScope reviewer) ''b1'' j (sample_world check_db) = (Inr x, w1) \<and>
     approve_record (RequestScope reviewer) ''b1'' j w1 = (Inl e, w3) \<and> w_db w3 = w_db w1"
proof -
  obtain j x w1 where j: "pending_check (RequestScope reviewer) ''b1'' ''k1'' (sample_world check_db) j"
      "jc_check j = sample_check 1000" "i_balanceMinor (jc_invoice j) = 1000"
      "approve_record (RequestScope reviewer) ''b1'' j (sample_world check_db) = (Inr x, w1)"
    using sample_pending by (elim exE conjE) (rule that)
  have "ledger_ok (w_db (sample_world check_db))" by (simp add: sample_world_def check_ledger)
  moreover have "i_balanceMinor (jc_invoice j) \<le> k_amountMinor (jc_check j)" by (simp add: j(2,3) sample_check_def)
  ultimately obtain e w3 where "approve_record (RequestScope reviewer) ''b1'' j w1 = (Inl e, w3)" "w_db w3 = w_db w1"
    using double_approval_refused[OF _ j(1) _ j(4) refl, of "RequestScope reviewer" "''b1''"] by blast
  with j(4) show ?thesis by (intro exI[of _ j] exI[of _ x] exI[of _ w1] exI[of _ e] exI[of _ w3]) simp
qed

end
