(* ===== verification/Requests.thy ===== *)
theory Requests
  imports InvoicePresentation PublicInvoices Checks "HOL-Library.Sublist"
begin

text \<open>
  The services together. A request is one run of any operation of the API that can write; the theory shows what holds of
  the database after any sequence of them: the ledger stays consistent, keys stay unique, rows are never
  erased or rewritten outside their life cycle, and settled and cancelled invoices stay as they are. \<open>store_invariant\<close> is the
  interface between the services and the tables: what an invariant must survive, and the operations that then keep it.
\<close>

section \<open>What no operation changes\<close>

text \<open>
  A row with the columns that its life cycle writes blanked out: the rest is fixed when it is
  created. The breakdown and the notes of an invoice that is kept in the accounting system as well can
  be refreshed from there.
\<close>

definition frozen_invoice :: "invoice_row \<Rightarrow> invoice_row" where
  "frozen_invoice i = i\<lparr> i_status := DRAFT, i_balanceMinor := 0, i_issuedAt := None, i_firstViewedAt := None,
     i_paidAt := None, i_cancelledAt := None, i_previousStatus := None,
     i_subtotalMinor := (if nonempty (i_zohoInvoiceId i) then 0 else i_subtotalMinor i),
     i_taxRateBpApplied := (if nonempty (i_zohoInvoiceId i) then 0 else i_taxRateBpApplied i),
     i_taxMinor := (if nonempty (i_zohoInvoiceId i) then 0 else i_taxMinor i),
     i_notes := (if nonempty (i_zohoInvoiceId i) then None else i_notes i) \<rparr>"

definition frozen_payment :: "payment_row \<Rightarrow> payment_row" where
  "frozen_payment p = p\<lparr> p_status := INITIATED, p_gatewayReference := None, p_lastEventAt := None,
     p_declineReason := None, p_settledAt := None \<rparr>"

definition frozen_check :: "check_row \<Rightarrow> check_row" where
  "frozen_check k = k\<lparr> k_status := SUBMITTED, k_reviewedBy := None, k_reviewNote := None, k_reviewedAt := None \<rparr>"

text \<open>
  The contract of the store as the services use it: an invariant of the tables that survives
  every kind of write they make. A client of this interface proves its invariant for the writes
  and has it for every operation.
\<close>

locale store_invariant =
  fixes I :: "db \<Rightarrow> bool"
  assumes invoices_updated: "\<lbrakk>I d; \<And>r. frozen_invoice (f r) = frozen_invoice r\<rbrakk> \<Longrightarrow> I (d\<lparr> invoices := map_rows P f (invoices d) \<rparr>)"
    and invoice_added: "\<lbrakk>I d; \<not> list_ex (\<lambda>x. i_id x = i_id r) (invoices d); \<not> list_ex (\<lambda>x. i_publicToken x = i_publicToken r) (invoices d);
      \<not> list_ex (\<lambda>x. i_brandId x = i_brandId r \<and> i_number x = i_number r) (invoices d)\<rbrakk> \<Longrightarrow> I (d\<lparr> invoices := invoices d @ [r] \<rparr>)"
    and lines_added: "I d \<Longrightarrow> I (d\<lparr> line_items := line_items d @ ls \<rparr>)"
    and sequence_advanced: "I d \<Longrightarrow> I (d\<lparr> settings := map_rows Q (\<lambda>s. s\<lparr> st_nextSequence := st_nextSequence s + 1 \<rparr>) (settings d) \<rparr>)"
    and payment_added: "\<lbrakk>I d; \<not> list_ex (\<lambda>x. p_id x = p_id p) (payments d);
      \<not> list_ex (\<lambda>x. p_idempotencyKey x = p_idempotencyKey p) (payments d); p_gatewayReference p = None\<rbrakk> \<Longrightarrow> I (d\<lparr> payments := payments d @ [p] \<rparr>)"
    and payments_updated: "\<lbrakk>I d; \<And>p. frozen_payment (g p) = frozen_payment p; \<And>p. p_gatewayReference (g p) = p_gatewayReference p\<rbrakk> \<Longrightarrow>
      I (d\<lparr> payments := map_rows Q' g (payments d) \<rparr>)"
    and reference_set: "\<lbrakk>I d; \<not> list_ex (\<lambda>x. p_id x \<noteq> pid \<and> p_gatewayReference x = Some k) (payments d)\<rbrakk> \<Longrightarrow>
      I (d\<lparr> payments := map_rows (\<lambda>p. V p \<and> p_id p = pid) (\<lambda>p. p\<lparr> p_gatewayReference := Some k \<rparr>) (payments d) \<rparr>)"
    and event_added: "I d \<Longrightarrow> I (d\<lparr> events := events d @ [e] \<rparr>)"
    and check_added: "\<lbrakk>I d; \<not> list_ex (\<lambda>x. k_id x = k_id c) (checks d)\<rbrakk> \<Longrightarrow> I (d\<lparr> checks := checks d @ [c] \<rparr>)"
    and checks_updated: "\<lbrakk>I d; \<And>c. frozen_check (h c) = frozen_check c\<rbrakk> \<Longrightarrow> I (d\<lparr> checks := map_rows R h (checks d) \<rparr>)"
begin

abbreviation kept :: "('g, 'a) service \<Rightarrow> bool" where
  "kept m \<equiv> preserves (\<lambda>w. I (w_db w)) m"

lemma kept_reads [preserves_intros]:
  "kept (invoice_find sc P)" "kept (invoice_all sc P)" "kept (customer_find sc Pc)" "kept (invoice_customer sc iv)" "kept (invoice_brand sc iv)"
  "kept (settings_find sc b)" "kept (payment_find sc Pp)" "kept (payment_all sc Pp)" "kept (check_find sc Pk)" "kept (check_all sc Pk)"
  "kept now_ms" "kept draw_id" "kept (enqueue j)" "kept (call_gateway m)" "kept (money r)" "kept (decide q)"
  "kept (put_objects env keys)" "kept (send_mail ienv ml)"
  by (auto simp: preserves_wp wp_simps send_mail_def wp_def Let_def split: option.splits sum.splits prod.splits)

lemma kept_withScope [preserves_intros]: "kept m \<Longrightarrow> kept (withScope m)"
  unfolding preserves_wp withScope_def by (auto simp: wp_simps wp_def split: prod.splits sum.splits)

lemma kept_writes [preserves_intros]:
  "(\<And>r. frozen_invoice (f r) = frozen_invoice r) \<Longrightarrow> kept (invoice_updateMany sc P f)"
  "(\<And>r. frozen_invoice (f r) = frozen_invoice r) \<Longrightarrow> kept (invoice_update sc rid f)"
  "kept (invoice_create sc iv)" "kept (lines_create ls)"
  "kept (settings_modify sc b (\<lambda>s. s\<lparr> st_nextSequence := st_nextSequence s + 1 \<rparr>))"
  "p_gatewayReference p = None \<Longrightarrow> kept (payment_create sc p)"
  "(\<And>p. frozen_payment (g p) = frozen_payment p) \<Longrightarrow> (\<And>p. p_gatewayReference (g p) = p_gatewayReference p) \<Longrightarrow> kept (payment_update sc pid g)"
  "kept (payment_setReference sc pid k)" "kept (event_create e)" "kept (check_create sc c)"
  "(\<And>c. frozen_check (h c) = frozen_check c) \<Longrightarrow> kept (check_updateMany sc R h)"
  by (auto simp: preserves_wp wp_simps Let_def split: option.splits
     intro!: invoices_updated invoice_added lines_added sequence_advanced payment_added payments_updated reference_set event_added
       check_added checks_updated)

lemma kept_settlement [preserves_intros]: "kept (applySettlement sc n)"
  unfolding applySettlement_def by (auto simp: frozen_invoice_def frozen_payment_def intro!: preserves_intros)

lemma kept_payments:
  "kept (createIntent env ps method nonce)" "kept (confirmClientResult env ps ref)" "kept (handleWebhook env raw hdrs b)"
  unfolding createIntent_def createIntent_tx_def confirmClientResult_def confirm_settle_def handleWebhook_def attribute_brand_def
    process_event_def payment_by_reference_def Let_def
  by (auto simp: frozen_invoice_def split: prod.splits intro!: preserves_intros)

lemma kept_staff:
  "kept (create sc b draft)" "kept (issue sc b iid)" "kept (recordManualPayment sc b iid mp)" "kept (cancel sc b iid)"
  unfolding create_def issue_def issue_tx_def recordManualPayment_def recordManualPayment_tx_def cancel_def cancel_tx_def
    brand_invoice_def invoice_read Let_def
  by (auto simp: frozen_invoice_def split: prod.splits intro!: preserves_intros)

lemma kept_mail: "kept (prepareEmail ienv sc b iid)" "kept (sendEmail ienv sc b iid input)"
  unfolding prepareEmail_def sendEmail_def email_read_def brand_invoice_def Let_def
  by (auto split: prod.splits intro!: preserves_intros)

lemma kept_bulk: "kept (bulkSend ienv sc b ids)"
  unfolding bulkSend_def bulk_one_def bulk_send_one_def
  by (auto split: prod.splits intro!: preserves_intros kept_mail kept_staff)

lemma kept_checks:
  "kept (submitCheck env ps input)" "kept (approve sc b kid note)" "kept (reject sc b kid note)"
  unfolding submitCheck_def approve_def reject_def approve_record_def requirePending_def findOrThrow_def join_check_def finishReview_def Let_def
  by (auto simp: frozen_check_def split: scope.splits option.splits intro!: preserves_intros kept_staff)

lemma kept_view:
  assumes "\<And>sc b iid. kept (pb_enrich env sc b iid)"
  shows "kept (view env ps)"
  unfolding view_def load_public_def public_view_body_def first_view_def Let_def
  by (auto simp: frozen_invoice_def intro!: preserves_intros assms)

end
section \<open>Keys\<close>

definition keys_unique :: "db \<Rightarrow> bool" where
  "keys_unique d \<longleftrightarrow>
     distinct (map i_id (invoices d)) \<and> distinct (map i_publicToken (invoices d)) \<and>
     distinct (map (\<lambda>i. (i_brandId i, i_number i)) (invoices d)) \<and>
     distinct (map p_id (payments d)) \<and> distinct (map p_idempotencyKey (payments d)) \<and>
     distinct (List.map_filter p_gatewayReference (payments d)) \<and> distinct (map k_id (checks d))"

text \<open>\<open>grown d d'\<close>: every table of \<open>d\<close> is still there in \<open>d'\<close>, and after it only new rows.\<close>

definition grown :: "db \<Rightarrow> db \<Rightarrow> bool" where
  "grown d d' \<longleftrightarrow>
     brands d' = brands d \<and> customers d' = customers d \<and>
     map (\<lambda>s. s\<lparr> st_nextSequence := 0 \<rparr>) (settings d') = map (\<lambda>s. s\<lparr> st_nextSequence := 0 \<rparr>) (settings d) \<and>
     list_all2 (\<lambda>s s'. st_nextSequence s \<le> st_nextSequence s') (settings d) (settings d') \<and>
     prefix (map frozen_invoice (invoices d)) (map frozen_invoice (invoices d')) \<and>
     prefix (line_items d) (line_items d') \<and> prefix (events d) (events d') \<and>
     prefix (map frozen_payment (payments d)) (map frozen_payment (payments d')) \<and>
     prefix (map frozen_check (checks d)) (map frozen_check (checks d'))"

lemma map_map_rows: "(\<And>r. h (f r) = h r) \<Longrightarrow> map h (map_rows P f rows) = map h rows"
  by (simp add: map_rows_def)

lemma frozen_invoiceD: "frozen_invoice r = frozen_invoice s \<Longrightarrow>
    i_id r = i_id s \<and> i_publicToken r = i_publicToken s \<and> i_brandId r = i_brandId s \<and> i_number r = i_number s"
  by (cases r; cases s) (simp add: frozen_invoice_def)

lemma frozen_paymentD: "frozen_payment r = frozen_payment s \<Longrightarrow> p_id r = p_id s \<and> p_idempotencyKey r = p_idempotencyKey s"
  by (cases r; cases s) (simp add: frozen_payment_def)

lemma frozen_checkD: "frozen_check r = frozen_check s \<Longrightarrow> k_id r = k_id s"
  by (cases r; cases s) (simp add: frozen_check_def)

lemma references_map_rows:
  "(\<And>p. p_gatewayReference (g p) = p_gatewayReference p) \<Longrightarrow>
     List.map_filter p_gatewayReference (map_rows Q g rows) = List.map_filter p_gatewayReference rows"
  by (induction rows) (auto simp: map_rows_def map_filter_simps split: option.splits)

lemma references_append: "List.map_filter f (xs @ ys) = List.map_filter f xs @ List.map_filter f ys"
  by (induction xs) (auto simp: map_filter_simps split: option.splits)

lemma set_references: "set (List.map_filter f xs) = {y. \<exists>x \<in> set xs. f x = Some y}"
  by (induction xs) (auto simp: map_filter_simps split: option.splits)

lemma references_after_set:
  assumes "distinct (List.map_filter p_gatewayReference rows)" "distinct (map p_id rows)"
    and "\<not> list_ex (\<lambda>x. p_id x \<noteq> pid \<and> p_gatewayReference x = Some k) rows"
  shows "distinct (List.map_filter p_gatewayReference (map_rows (\<lambda>p. V p \<and> p_id p = pid) (\<lambda>p. p\<lparr> p_gatewayReference := Some k \<rparr>) rows))"
  using assms
proof (induction rows)
  case (Cons p rows)
  let ?f = "map_rows (\<lambda>p. V p \<and> p_id p = pid) (\<lambda>p. p\<lparr> p_gatewayReference := Some k \<rparr>)"
  have same: "?f rows = rows" if "p_id p = pid" using Cons.prems(2) that by (intro map_rows_id) (metis distinct.simps(2) image_eqI list.simps(9) list.set_map)
  have unused: "Some k \<notin> p_gatewayReference ` set rows" if "p_id p = pid"
  proof
    assume "Some k \<in> p_gatewayReference ` set rows"
    then obtain q where q: "q \<in> set rows" "p_gatewayReference q = Some k" by auto
    then have "p_id q = p_id p" using Cons.prems(3) that by (auto simp: list_ex_iff)
    then show False using Cons.prems(2) q(1) by (metis distinct.simps(2) image_eqI list.simps(9) list.set_map)
  qed
  have others: "y \<in> set (List.map_filter p_gatewayReference rows) \<or> y = k" if "y \<in> set (List.map_filter p_gatewayReference (?f rows))" for y
    using that by (auto simp: set_references set_map_rows split: if_splits)
  show ?case
  proof (cases "p_id p = pid")
    case True
    with Cons.prems same unused show ?thesis
      by (auto simp: map_rows_def map_filter_simps set_references image_iff split: option.splits)
  next
    case False
    have "distinct (List.map_filter p_gatewayReference (?f rows))"
      by (rule Cons.IH) (use Cons.prems in \<open>auto simp: map_filter_simps split: option.splits\<close>)
    moreover have "p_gatewayReference p \<noteq> Some k" using Cons.prems(3) False by simp
    ultimately show ?thesis using Cons.prems(1) False others
      by (auto simp: map_rows_def map_filter_simps split: option.splits)
  qed
qed (simp add: map_rows_def)

lemma keys_invoice_added:
  assumes "keys_unique d" "\<not> list_ex (\<lambda>x. i_id x = i_id r) (invoices d)" "\<not> list_ex (\<lambda>x. i_publicToken x = i_publicToken r) (invoices d)"
    "\<not> list_ex (\<lambda>x. i_brandId x = i_brandId r \<and> i_number x = i_number r) (invoices d)"
  shows "keys_unique (d\<lparr> invoices := invoices d @ [r] \<rparr>)"
  using assms unfolding keys_unique_def list_ex_iff by (simp add: image_iff) metis

lemma keys_payment_added:
  assumes "keys_unique d" "\<not> list_ex (\<lambda>x. p_id x = p_id p) (payments d)"
    "\<not> list_ex (\<lambda>x. p_idempotencyKey x = p_idempotencyKey p) (payments d)" "p_gatewayReference p = None"
  shows "keys_unique (d\<lparr> payments := payments d @ [p] \<rparr>)"
  using assms unfolding keys_unique_def list_ex_iff by (simp add: image_iff references_append map_filter_simps) metis

lemma keys_check_added:
  assumes "keys_unique d" "\<not> list_ex (\<lambda>x. k_id x = k_id c) (checks d)"
  shows "keys_unique (d\<lparr> checks := checks d @ [c] \<rparr>)"
  using assms unfolding keys_unique_def list_ex_iff by (simp add: image_iff) metis

lemma keys_invoices_updated:
  assumes "keys_unique d" "\<And>r. frozen_invoice (f r) = frozen_invoice r"
  shows "keys_unique (d\<lparr> invoices := map_rows P f (invoices d) \<rparr>)"
  using assms(1) frozen_invoiceD[OF assms(2)] by (simp add: keys_unique_def map_map_rows)

lemma keys_payments_updated:
  assumes "keys_unique d" "\<And>p. frozen_payment (g p) = frozen_payment p" "\<And>p. p_gatewayReference (g p) = p_gatewayReference p"
  shows "keys_unique (d\<lparr> payments := map_rows Q g (payments d) \<rparr>)"
  using assms(1) frozen_paymentD[OF assms(2)] by (simp add: keys_unique_def map_map_rows references_map_rows assms(3))

lemma keys_checks_updated:
  assumes "keys_unique d" "\<And>c. frozen_check (h c) = frozen_check c"
  shows "keys_unique (d\<lparr> checks := map_rows R h (checks d) \<rparr>)"
  using assms(1) frozen_checkD[OF assms(2)] by (simp add: keys_unique_def map_map_rows)

lemma keys_same: "keys_unique d \<Longrightarrow> keys_unique (d\<lparr> line_items := ls \<rparr>)" "keys_unique d \<Longrightarrow> keys_unique (d\<lparr> settings := ss \<rparr>)"
  "keys_unique d \<Longrightarrow> keys_unique (d\<lparr> events := es \<rparr>)"
  by (simp_all add: keys_unique_def)

interpretation keys: store_invariant keys_unique
  by unfold_locales
   (blast intro: keys_invoices_updated keys_invoice_added keys_same keys_payment_added keys_payments_updated keys_check_added keys_checks_updated
     | simp add: keys_unique_def map_map_rows references_after_set)+

lemma grown_settings:
  "list_all2 (\<lambda>s s'. st_nextSequence s \<le> st_nextSequence s') ss ts \<Longrightarrow>
    list_all2 (\<lambda>s s'. st_nextSequence s \<le> st_nextSequence s') ss
      (map_rows Q (\<lambda>s. s\<lparr> st_nextSequence := st_nextSequence s + 1 \<rparr>) ts)"
  by (induction rule: list_all2_induct) (auto simp: map_rows_def)

lemma frozen_reference: "frozen_payment (p\<lparr> p_gatewayReference := k \<rparr>) = frozen_payment p"
  by (simp add: frozen_payment_def)

interpretation history: store_invariant "grown d" for d
  by unfold_locales (auto simp: grown_def map_map_rows prefix_append grown_settings frozen_reference)

lemma grown_refl: "grown d d"
  by (simp add: grown_def list_all2_refl)
lemma sequences_trans:
  assumes "list_all2 (\<lambda>s s'. st_nextSequence s \<le> st_nextSequence s') a b" "list_all2 (\<lambda>s s'. st_nextSequence s \<le> st_nextSequence s') b c"
  shows "list_all2 (\<lambda>s s'. st_nextSequence s \<le> st_nextSequence s') a c"
  by (rule list_all2_trans[OF _ assms]) simp

lemma grown_trans:
  assumes "grown a b" "grown b c" shows "grown a c"
proof -
  note ab = assms(1)[unfolded grown_def] and bc = assms(2)[unfolded grown_def]
  have "prefix (map frozen_invoice (invoices a)) (map frozen_invoice (invoices c))" "prefix (line_items a) (line_items c)"
    "prefix (events a) (events c)" "prefix (map frozen_payment (payments a)) (map frozen_payment (payments c))"
    "prefix (map frozen_check (checks a)) (map frozen_check (checks c))"
    using ab bc by (blast intro: prefix_order.trans)+
  moreover have "list_all2 (\<lambda>s s'. st_nextSequence s \<le> st_nextSequence s') (settings a) (settings c)"
    using ab bc by (blast intro: sequences_trans)
  ultimately show ?thesis unfolding grown_def using ab bc by simp
qed

section \<open>Requests\<close>

text \<open>
  One request served by the API, by any operation that can write, and what happens around it: time
  passes and the gateway's state changes on its own. A draft must be in the range of the money
  module (see \<open>Calculation.calculate_total_unchecked\<close> for what happens outside it).
\<close>

record 'g system =
  sys_pay :: "'g pay_env"
  sys_invoice :: "'g invoice_env"
  sys_public :: "'g public_env"

definition draft_in_range :: "invoice_draft \<Rightarrow> bool" where
  "draft_in_range input \<longleftrightarrow> (case draft_quote input of Inl _ \<Rightarrow> True | Inr (ls, r) \<Rightarrow> safe (cr_totalMinor r))"

inductive request :: "'g system \<Rightarrow> 'g world \<Rightarrow> 'g world \<Rightarrow> bool" for sys where
  attempt: "createIntent (sys_pay sys) ps m nonce w = (r, w') \<Longrightarrow> request sys w w'"
| delivery: "handleWebhook (sys_pay sys) raw hdrs b w = (r, w') \<Longrightarrow> request sys w w'"
| confirmation: "confirmClientResult (sys_pay sys) ps ref w = (r, w') \<Longrightarrow> request sys w w'"
| drafting: "\<lbrakk>draft_in_range input; create sc b input w = (r, w')\<rbrakk> \<Longrightarrow> request sys w w'"
| issuing: "issue sc b iid w = (r, w') \<Longrightarrow> request sys w w'"
| recording: "recordManualPayment sc b iid input w = (r, w') \<Longrightarrow> request sys w w'"
| cancelling: "cancel sc b iid w = (r, w') \<Longrightarrow> request sys w w'"
| mailing: "sendEmail (sys_invoice sys) sc b iid input w = (r, w') \<Longrightarrow> request sys w w'"
| bulk: "bulkSend (sys_invoice sys) sc b ids w = (r, w') \<Longrightarrow> request sys w w'"
| viewing: "view (sys_public sys) ps w = (r, w') \<Longrightarrow> request sys w w'"
| submitting: "submitCheck (sys_public sys) ps input w = (r, w') \<Longrightarrow> request sys w w'"
| approving: "approve sc b kid note w = (r, w') \<Longrightarrow> request sys w w'"
| rejecting: "reject sc b kid note w = (r, w') \<Longrightarrow> request sys w w'"
| around: "\<lbrakk>w_now w \<le> t; w' = w\<lparr> w_now := t, w_gateway := g \<rparr>\<rbrakk> \<Longrightarrow> request sys w w'"

inductive_cases requestE: "request sys w w'"

text \<open>The pull of a synced invoice is a component of its own; here it is any operation that keeps \<open>J\<close>.\<close>

definition pull_keeps :: "'g system \<Rightarrow> (db \<Rightarrow> bool) \<Rightarrow> bool" where
  "pull_keeps sys J \<longleftrightarrow> (\<forall>sc b iid. preserves (\<lambda>w. J (w_db w)) (pb_enrich (sys_public sys) sc b iid))"

context store_invariant
begin

lemma kept_run: "\<lbrakk>kept m; I (w_db w); m w = (r, w')\<rbrakk> \<Longrightarrow> I (w_db w')"
  by (drule (2) preservesD)

lemma request_keeps:
  assumes pull: "pull_keeps sys I" and I: "I (w_db w)" and step: "request sys w w'"
  shows "I (w_db w')"
  using step I
proof cases
  case (viewing ps r)
  have "kept (view (sys_public sys) ps)" using pull by (intro kept_view) (simp add: pull_keeps_def)
  then show ?thesis using I viewing by (rule kept_run)
qed (auto elim: kept_run[OF kept_payments(1)] kept_run[OF kept_payments(2)] kept_run[OF kept_payments(3)]
    kept_run[OF kept_staff(1)] kept_run[OF kept_staff(2)] kept_run[OF kept_staff(3)] kept_run[OF kept_staff(4)]
    kept_run[OF kept_mail(2)] kept_run[OF kept_bulk] kept_run[OF kept_checks(1)] kept_run[OF kept_checks(2)] kept_run[OF kept_checks(3)])

lemma requests_keep: "\<lbrakk>(request sys)\<^sup>*\<^sup>* w w'; pull_keeps sys I; I (w_db w)\<rbrakk> \<Longrightarrow> I (w_db w')"
  by (induction rule: rtranclp_induct) (auto intro: request_keeps)

end

section \<open>The ledger\<close>

abbreviation ledger_kept :: "('g, 'a) service \<Rightarrow> bool" where
  "ledger_kept m \<equiv> preserves (\<lambda>w. ledger_ok (w_db w)) m"

lemma ledger_primitives [preserves_intros]:
  "ledger_kept (invoice_find sc P)" "ledger_kept (invoice_customer sc iv)" "ledger_kept (invoice_brand sc iv)"
  "ledger_kept (settings_find sc b)" "ledger_kept (check_find sc Pk)" "ledger_kept (customer_find sc Pc)"
  "ledger_kept now_ms" "ledger_kept draw_id" "ledger_kept (money r)"
  "ledger_kept (put_objects env keys)" "ledger_kept (send_mail ienv ml)"
  "ledger_kept (event_create e)" "ledger_kept (check_create sc c)" "ledger_kept (check_updateMany sc R h)"
  by (auto simp: preserves_wp wp_simps send_mail_def wp_def ledger_ok_def Let_def split: option.splits sum.splits prod.splits)

lemma ledger_withScope [preserves_intros]: "ledger_kept m \<Longrightarrow> ledger_kept (withScope m)"
  unfolding preserves_wp withScope_def by (auto simp: wp_simps wp_def split: prod.splits sum.splits)

lemma ledger_mail: "ledger_kept (prepareEmail ienv sc b iid)" "ledger_kept (sendEmail ienv sc b iid input)"
  unfolding prepareEmail_def sendEmail_def email_read_def brand_invoice_def Let_def
  by (auto split: prod.splits intro!: preserves_intros)

lemma ledger_bulk: "ledger_kept (bulkSend ienv sc b ids)"
  unfolding bulkSend_def bulk_one_def bulk_send_one_def
  by (auto split: prod.splits intro!: preserves_intros ledger_mail issue_ledger)

lemma ledger_checks: "ledger_kept (submitCheck env ps input)" "ledger_kept (approve sc b kid note)" "ledger_kept (reject sc b kid note)"
  unfolding submitCheck_def approve_def reject_def approve_record_def requirePending_def findOrThrow_def join_check_def finishReview_def Let_def
  by (auto split: scope.splits option.splits intro!: preserves_intros recordManualPayment_ledger)

lemma first_view_ledger:
  assumes L: "ledger_ok (w_db w)" and row: "\<And>r. \<lbrakk>r \<in> set (invoices (w_db w)); sees (PublicScope ps) (w_db w) (i_brandId r);
      i_id r = i_id (lo_invoice lo)\<rbrakk> \<Longrightarrow> r = lo_invoice lo"
  shows "wp (first_view ps lo) (\<lambda>_ w'. ledger_ok (w_db w')) (\<lambda>_ w'. ledger_ok (w_db w')) w"
proof -
  have "ledger_rows (map_rows (\<lambda>r. sees (PublicScope ps) (w_db w) (i_brandId r) \<and> i_id r = i_id (lo_invoice lo))
      (\<lambda>i. i\<lparr> i_status := VIEWED, i_firstViewedAt := Some t \<rparr>) (invoices (w_db w)))" if "i_status (lo_invoice lo) = SENT" for t
    by (rule ledger_map_rows[OF L[unfolded ledger_ok_def]]) (use row that viewed_invoice_ok in auto)
  then show ?thesis using L unfolding first_view_def
    by (auto simp: wp_simps first_view_decision ledger_ok_def Let_def)
qed

text \<open>What loading tells of the visible rows with the invoice's id: there is none, or it is the loaded one.\<close>

definition loads :: "public_scope \<Rightarrow> loaded_invoice option \<Rightarrow> db \<Rightarrow> bool" where
  "loads ps lo d \<longleftrightarrow> (\<forall>r\<in>set (invoices d). sees (PublicScope ps) d (i_brandId r) \<and> i_id r = ps_invoiceId ps \<longrightarrow>
     (\<exists>x. lo = Some x \<and> lo_invoice x = r)) \<and> (\<forall>x. lo = Some x \<longrightarrow> i_id (lo_invoice x) = ps_invoiceId ps)"

lemma load_public_loads:
  assumes "ledger_ok (w_db w)"
  shows "wp (load_public ps) (\<lambda>lo w'. w' = w \<and> loads ps lo (w_db w)) (\<lambda>_ w'. w' = w) w"
proof -
  have found: "loads ps (Some lo) (w_db w)"
    if f: "find (\<lambda>r. sees (PublicScope ps) (w_db w) (i_brandId r) \<and> i_id r = ps_invoiceId ps) (invoices (w_db w)) = Some iv" "lo_invoice lo = iv" for iv lo
    using found_row[OF assms[unfolded ledger_ok_def] f(1)] find_Some_iff'[OF f(1)] f(2) by (auto simp: loads_def)
  have none: "loads ps None (w_db w)"
    if "find (\<lambda>r. sees (PublicScope ps) (w_db w) (i_brandId r) \<and> i_id r = ps_invoiceId ps) (invoices (w_db w)) = None"
    using that by (auto simp: loads_def find_None_iff')
  show ?thesis unfolding load_public_def
    by (auto simp: wp_simps invoice_brand_def invoice_customer_def none found split: option.splits)
qed

lemma loads_row: "\<lbrakk>loads ps (Some lo) d; r \<in> set (invoices d); sees (PublicScope ps) d (i_brandId r); i_id r = i_id (lo_invoice lo)\<rbrakk> \<Longrightarrow>
    r = lo_invoice lo"
  by (auto simp: loads_def)

lemma loads_gone: "\<lbrakk>loads ps None d; loads ps (Some lo) d'; r \<in> set (invoices d); sees (PublicScope ps) d (i_brandId r); i_id r = i_id (lo_invoice lo)\<rbrakk> \<Longrightarrow>
    r = lo_invoice lo"
  by (auto simp: loads_def)

text \<open>A pull writes in one transaction and answers true, or writes nothing.\<close>

definition pull_ledger :: "'g system \<Rightarrow> bool" where
  "pull_ledger sys \<longleftrightarrow> (\<forall>sc b iid w. ledger_ok (w_db w) \<longrightarrow>
     wp (pb_enrich (sys_public sys) sc b iid) (\<lambda>enriched w'. if enriched then ledger_ok (w_db w') else w_db w' = w_db w)
       (\<lambda>_ w'. w_db w' = w_db w) w)"

text \<open>Viewing keeps whatever the first view keeps when it updates the row that was loaded, and a pull keeps.\<close>

lemma view_keeps:
  assumes J: "\<And>w. J w \<Longrightarrow> ledger_ok (w_db w)" "\<And>w w'. J w \<Longrightarrow> w_db w' = w_db w \<Longrightarrow> J w'"
    and first: "\<And>lo w. \<lbrakk>J w; \<And>r. \<lbrakk>r \<in> set (invoices (w_db w)); sees (PublicScope ps) (w_db w) (i_brandId r);
      i_id r = i_id (lo_invoice lo)\<rbrakk> \<Longrightarrow> r = lo_invoice lo\<rbrakk> \<Longrightarrow> wp (first_view ps lo) (\<lambda>_. J) (\<lambda>_. J) w"
    and pull: "\<And>b iid w. J w \<Longrightarrow> wp (pb_enrich env (PublicScope ps) b iid) (\<lambda>enriched w'. if enriched then J w' else w_db w' = w_db w)
       (\<lambda>_ w'. w_db w' = w_db w) w"
  shows "preserves J (view env ps)"
proof -
  have restored: "J (w'\<lparr> w_db := w_db v \<rparr>)" if "J v" for v w' using J(2)[OF that] by simp
  let ?E = "\<lambda>v _ w'. J (w'\<lparr> w_db := w_db v \<rparr>)"
  have body: "wp (public_view_body env ps lo) (\<lambda>_. J) (?E v) w"
    if "J v" "J w" "\<And>r. \<lbrakk>r \<in> set (invoices (w_db w)); sees (PublicScope ps) (w_db w) (i_brandId r); i_id r = i_id (lo_invoice lo)\<rbrakk> \<Longrightarrow>
      r = lo_invoice lo" for lo v w
    unfolding public_view_body_def
    by (simp add: wp_simps) (rule wp_mono[OF first[OF that(2,3)]]; auto split: sum.splits intro: restored[OF that(1)])
  have loaded: "wp (public_view_body env ps lo) (\<lambda>_. J) (?E v) w" if "J v" "J w" "loads ps (Some lo) (w_db w)" for lo v w
    using that by (intro body) (auto intro: loads_row)
  have again: "wp (load_public ps) (\<lambda>again w'. wp (public_view_body env ps (case again of Some l \<Rightarrow> l | None \<Rightarrow> lo)) (\<lambda>_. J) (?E v) w')
       (?E v) w" if "J v" "J w" "loads ps (Some lo) d" for v w lo d
    by (rule wp_mono[OF load_public_loads[OF J(1)[OF that(2)]]])
      (auto split: option.splits intro: loads_row intro!: restored[OF that(1)] body[OF that(1,2)] loads_gone[OF _ that(3)])
  show ?thesis
    unfolding preserves_wp view_def withScope_def
    apply (auto simp: wp_simps Let_def)
    apply (rule wp_mono[OF load_public_loads[OF J(1)]], assumption)
    apply (auto simp: wp_simps loaded split: option.splits intro!: restored wp_mono[OF pull] again loaded intro: J(2))
    done
qed

lemma view_ledger:
  assumes "pull_ledger sys"
  shows "ledger_kept (view (sys_public sys) ps)"
  by (rule view_keeps) (use assms in \<open>auto simp: pull_ledger_def intro!: first_view_ledger\<close>)

section \<open>Settled and cancelled invoices\<close>

text \<open>\<open>final t w\<close>: \<open>t\<close> is a row of a consistent ledger, in a terminal status.\<close>

definition final :: "invoice_row \<Rightarrow> 'g world \<Rightarrow> bool" where
  "final t w \<longleftrightarrow> ledger_ok (w_db w) \<and> t \<in> set (invoices (w_db w)) \<and> isTerminal (i_status t)"

abbreviation stays :: "invoice_row \<Rightarrow> 'w \<Rightarrow> 'g world \<Rightarrow> bool" where
  "stays t \<equiv> \<lambda>_ w. t \<in> set (invoices (w_db w))"

lemma stays_map_rows: "\<lbrakk>t \<in> set rows; P t \<Longrightarrow> f t = t\<rbrakk> \<Longrightarrow> t \<in> set (map_rows P f rows)"
  by (cases "P t") (force simp: set_map_rows)+

lemma terminal_cases: "isTerminal s \<longleftrightarrow> s = PAID \<or> s = CANCELLED"
  by (cases s) (simp_all add: isTerminal_def terminal_statuses_def)

lemma final_row: "\<lbrakk>final t w; row_read sc w b iid iv; i_id t = iid\<rbrakk> \<Longrightarrow> t = iv"
  by (auto simp: final_def row_read_def)

lemma final_found: "\<lbrakk>final t w; find P (invoices (w_db w)) = Some iv; i_id t = i_id iv\<rbrakk> \<Longrightarrow> t = iv"
  unfolding final_def ledger_ok_def by (blast dest: found_row)

lemma applySettlement_stays:
  assumes "t \<in> set (invoices (w_db w))" "i_id t = sn_invoiceId n \<Longrightarrow> isTerminal (sn_currentInvoiceStatus n)"
  shows "wp (applySettlement sc n) (stays t) (stays t) w"
  using assms
  by (auto simp: applySettlement_def wp_simps settle_full_decision payment_failed_decision terminal_cases intro!: stays_map_rows)

lemma createIntent_tx_stays:
  assumes "final t w"
  shows "wp (createIntent_tx env ps m nonce) (stays t) (\<lambda>_ _. True) w"
proof -
  have keep: "t \<in> set (map_rows (seen_invoice sc w (i_id iv)) f (invoices (w_db w)))" "i_id t \<noteq> i_id iv"
    if "find P (invoices (w_db w)) = Some iv" "isPayable (i_status iv)" for sc iv f P
  proof -
    have "t \<noteq> iv" using assms that(2) by (cases "i_status iv") (auto simp: final_def terminal_cases isPayable_def payable_statuses_def)
    then show other: "i_id t \<noteq> i_id iv" using final_found[OF assms that(1)] by blast
    show "t \<in> set (map_rows (seen_invoice sc w (i_id iv)) f (invoices (w_db w)))"
      using assms other by (intro stays_map_rows) (auto simp: final_def)
  qed
  have t: "t \<in> set (invoices (w_db w))" using assms by (simp add: final_def)
  show ?thesis
    unfolding createIntent_tx_def Let_def
    apply (simp only: wp_simps)
    apply (intro conjI allI impI | simp add: t initiate_decision split: option.splits sum.splits prod.splits)+
    apply (rule wp_mono, rule applySettlement_stays[of t])
    apply (simp_all add: keep)
    done
qed

lemma final_found_terminal: "\<lbrakk>final t w; find P (invoices (w_db w)) = Some iv; i_id t = i_id iv\<rbrakk> \<Longrightarrow> isTerminal (i_status iv)"
  using final_found by (fastforce simp: final_def)

lemma final_seen_terminal: "\<lbrakk>final t w; find (seen_invoice sc w i) (invoices (w_db w)) = Some iv; i_id t = i\<rbrakk> \<Longrightarrow> isTerminal (i_status iv)"
  by (rule final_found_terminal[of t w "seen_invoice sc w i"]) (auto dest: find_Some_iff')

lemma process_event_stays:
  assumes "final t w" shows "wp (process_event event a) (stays t) (stays t) w"
proof -
  have t: "t \<in> set (invoices (w_db w))" using assms by (simp add: final_def)
  show ?thesis
    unfolding process_event_def payment_by_reference_def
    by (auto simp: wp_simps webhook_settlement_def t split: option.splits
      intro!: wp_mono[OF applySettlement_stays] intro: final_found_terminal[OF assms])
qed

lemma accepted_from: "evaluateTransition k c = Inr to \<Longrightarrow> \<not> isTerminal (tc_status c)"
  by (cases k; cases "tc_status c") (simp_all add: evaluateTransition_def terminal_cases)

lemma record_from: "evaluateTransition RECORD_PAYMENT (record_context iv a) = Inr to \<Longrightarrow> \<not> isTerminal (i_status iv)"
  by (drule accepted_from) (simp add: record_context_def)

lemma staff_stays:
  assumes "final t w"
  shows "wp (issue_tx sc b iid) (stays t) (\<lambda>_ _. True) w" "wp (recordManualPayment_tx sc b iid input) (stays t) (\<lambda>_ _. True) w"
    "wp (cancel_tx sc b iid) (stays t) (\<lambda>_ _. True) w"
proof -
  have L: "ledger_ok (w_db w)" and t: "t \<in> set (invoices (w_db w))" using assms by (simp_all add: final_def)
  have keep: "t \<in> set (map_rows P f (invoices (w_db w)))"
    if "row_read sc w b iid iv" "\<not> isTerminal (i_status iv)" "\<And>r. P r \<Longrightarrow> i_id r = iid" for P f iv
    using t that final_row[OF assms that(1)] assms by (intro stays_map_rows) (auto simp: final_def)
  show "wp (issue_tx sc b iid) (stays t) (\<lambda>_ _. True) w"
    unfolding issue_tx_def invoice_read wp_bind
    by (rule wp_brand_invoice[OF L]) (auto simp: wp_simps issue_decision terminal_cases split: option.splits sum.splits intro!: keep)
  show "wp (cancel_tx sc b iid) (stays t) (\<lambda>_ _. True) w"
    unfolding cancel_tx_def invoice_read wp_bind
    by (rule wp_brand_invoice[OF L]) (auto simp: wp_simps Let_def cancel_decision row_readD terminal_cases split: option.splits sum.splits intro!: keep)
  show "wp (recordManualPayment_tx sc b iid input) (stays t) (\<lambda>_ _. True) w"
    unfolding recordManualPayment_tx_def invoice_read wp_bind
    by (rule wp_brand_invoice[OF L]) (auto simp: wp_simps Let_def split: option.splits sum.splits intro!: keep record_from)
qed

lemma service_stays:
  assumes "final t w"
  shows "wp (createIntent env ps m nonce) (stays t) (stays t) w" "wp (handleWebhook env raw hdrs brand) (stays t) (stays t) w"
    "wp (issue sc b iid) (stays t) (stays t) w" "wp (recordManualPayment sc b iid input) (stays t) (stays t) w"
    "wp (cancel sc b iid) (stays t) (stays t) w" "wp (confirmClientResult env ps ref) (stays t) (stays t) w"
proof -
  have t: "t \<in> set (invoices (w_db w))" "isTerminal (i_status t)" using assms by (simp_all add: final_def)
  have moved: "final t (w\<lparr> w_gateway := g \<rparr>)" for g using assms by (simp add: final_def)
  show "wp (createIntent env ps m nonce) (stays t) (stays t) w"
    unfolding createIntent_def
    by (auto simp: wp_simps t split: option.splits intro!: wp_mono[OF createIntent_tx_stays[OF assms]])
  show "wp (handleWebhook env raw hdrs brand) (stays t) (stays t) w"
    unfolding handleWebhook_def attribute_brand_def
    by (auto simp: wp_simps t split: option.splits sum.splits prod.splits intro!: process_event_stays moved assms)
  show "wp (issue sc b iid) (stays t) (stays t) w"
    unfolding issue_def by (auto simp: wp_simps t intro!: wp_mono[OF staff_stays(1)[OF assms]])
  show "wp (recordManualPayment sc b iid input) (stays t) (stays t) w"
    unfolding recordManualPayment_def by (auto simp: wp_simps t split: prod.splits intro!: wp_mono[OF staff_stays(2)[OF assms]])
  show "wp (cancel sc b iid) (stays t) (stays t) w"
    unfolding cancel_def by (auto simp: wp_simps t split: prod.splits intro!: wp_mono[OF staff_stays(3)[OF assms]])
  show "wp (confirmClientResult env ps ref) (stays t) (stays t) w"
    unfolding confirmClientResult_def confirm_settle_def Let_def
    by (auto simp: wp_simps t split: option.splits sum.splits prod.splits intro: final_seen_terminal[OF assms]
      intro!: wp_mono[OF applySettlement_stays])
qed

abbreviation final_kept :: "invoice_row \<Rightarrow> ('g, 'a) service \<Rightarrow> bool" where
  "final_kept t m \<equiv> preserves (final t) m"

lemma final_keptI:
  assumes "ledger_kept m" "\<And>w. final t w \<Longrightarrow> wp m (stays t) (stays t) w"
  shows "final_kept t m"
proof (rule preservesI)
  fix w r w' assume w: "final t w" "m w = (r, w')"
  then have "t \<in> set (invoices (w_db w'))" using assms(2)[OF w(1)] by (simp add: wp_def split: sum.splits)
  moreover have "ledger_ok (w_db w')" using assms(1) w by (auto simp: final_def dest: preservesD)
  ultimately show "final t w'" using w(1) by (simp add: final_def)
qed

lemma final_services:
  "final_kept t (createIntent env ps m nonce)" "final_kept t (handleWebhook env raw hdrs brand)" "final_kept t (issue sc b iid)"
  "final_kept t (recordManualPayment sc b iid input)" "final_kept t (cancel sc b iid)" "final_kept t (confirmClientResult env ps ref)"
  by (rule final_keptI createIntent_ledger handleWebhook_ledger issue_ledger recordManualPayment_ledger cancel_ledger
    confirmClientResult_ledger service_stays | assumption)+

lemma final_untouched: "(\<And>rows. preserves (\<lambda>w. invoices (w_db w) = rows) m) \<Longrightarrow> final_kept t m"
  by (simp add: preserves_def final_def ledger_ok_def)

lemma final_primitives [preserves_intros]:
  "final_kept t (invoice_find sc P)" "final_kept t (invoice_customer sc iv)" "final_kept t (invoice_brand sc iv)"
  "final_kept t (settings_find sc b)" "final_kept t (check_find sc Pk)" "final_kept t (customer_find sc Pc)"
  "final_kept t now_ms" "final_kept t draw_id" "final_kept t (money r)"
  "final_kept t (put_objects env keys)" "final_kept t (send_mail ienv ml)"
  "final_kept t (event_create e)" "final_kept t (check_create sc c)" "final_kept t (check_updateMany sc R h)"
  by (rule final_untouched,
    (auto simp: preserves_wp wp_simps send_mail_def wp_def Let_def split: option.splits sum.splits prod.splits)[1])+

lemma final_withScope [preserves_intros]:
  assumes "final_kept t m" shows "final_kept t (withScope m)"
proof (rule preservesI)
  fix w r w' assume w: "final t w" "withScope m w = (r, w')"
  show "final t w'"
  proof (cases r)
    case (Inl e)
    then show ?thesis using w by (auto simp: withScope_def transaction_Inl final_def)
  next
    case (Inr a)
    then show ?thesis using w preservesD[OF assms w(1)] by (simp add: withScope_def)
  qed
qed

lemma final_mail: "final_kept t (prepareEmail ienv sc b iid)" "final_kept t (sendEmail ienv sc b iid input)"
  unfolding prepareEmail_def sendEmail_def email_read_def brand_invoice_def Let_def
  by (auto split: prod.splits intro!: preserves_intros)

lemma final_bulk: "final_kept t (bulkSend ienv sc b ids)"
  unfolding bulkSend_def bulk_one_def bulk_send_one_def
  by (auto split: prod.splits intro!: preserves_intros final_mail final_services)

lemma final_checks: "final_kept t (submitCheck env ps input)" "final_kept t (approve sc b kid note)" "final_kept t (reject sc b kid note)"
  unfolding submitCheck_def approve_def reject_def approve_record_def requirePending_def findOrThrow_def join_check_def finishReview_def Let_def
  by (auto split: scope.splits option.splits intro!: preserves_intros final_services)

lemma final_create:
  assumes "draft_in_range input" shows "final_kept t (create sc b input)"
proof (rule final_keptI)
  show "ledger_kept (create sc b input)"
    by (rule create_ledger) (use assms in \<open>simp add: draft_in_range_def\<close>)
  show "wp (create sc b input) (stays t) (stays t) w" if "final t w" for w
    using that unfolding create_def
    by (auto simp: wp_simps Let_def final_def split: option.splits sum.splits prod.splits)
qed

lemma view_stays:
  fixes sys :: "'g system"
  assumes "pull_ledger sys" "pull_keeps sys (\<lambda>d. t \<in> set (invoices d))"
  shows "final_kept t (view (sys_public sys) ps)"
proof (rule view_keeps)
  fix w :: "'g world" and lo :: loaded_invoice assume w: "final t w" and row: "\<And>r. \<lbrakk>r \<in> set (invoices (w_db w)); sees (PublicScope ps) (w_db w) (i_brandId r);
      i_id r = i_id (lo_invoice lo)\<rbrakk> \<Longrightarrow> r = lo_invoice lo"
  have "t \<in> set (map_rows (seen_invoice (PublicScope ps) w (i_id (lo_invoice lo))) f (invoices (w_db w)))" if "i_status (lo_invoice lo) = SENT" for f
    by (rule stays_map_rows) (use w row[of t] that in \<open>auto simp: final_def terminal_cases\<close>)
  then have "wp (first_view ps lo) (stays t) (stays t) w"
    using w unfolding first_view_def by (auto simp: wp_simps first_view_decision Let_def final_def)
  moreover have "wp (first_view ps lo) (\<lambda>_ w'. ledger_ok (w_db w')) (\<lambda>_ w'. ledger_ok (w_db w')) w"
    using w row by (intro first_view_ledger) (auto simp: final_def)
  ultimately show "wp (first_view ps lo) (\<lambda>_. final t) (\<lambda>_. final t) w"
    using w by (auto simp: wp_def final_def split: prod.splits sum.splits)
next
  fix b iid and w :: "'g world" assume w: "final t w"
  obtain r w' where run: "pb_enrich (sys_public sys) (PublicScope ps) b iid w = (r, w')" by fastforce
  have "t \<in> set (invoices (w_db w'))"
    using assms(2) w run unfolding pull_keeps_def final_def by (auto dest: preservesD)
  moreover have "wp (pb_enrich (sys_public sys) (PublicScope ps) b iid) (\<lambda>enriched w'. if enriched then ledger_ok (w_db w') else w_db w' = w_db w)
       (\<lambda>_ w'. w_db w' = w_db w) w"
    using assms(1) w unfolding pull_ledger_def final_def by blast
  ultimately show "wp (pb_enrich (sys_public sys) (PublicScope ps) b iid) (\<lambda>enriched w'. if enriched then final t w' else w_db w' = w_db w)
       (\<lambda>_ w'. w_db w' = w_db w) w"
    using w by (auto simp: wp_def run final_def split: sum.splits if_splits)
qed (auto simp: final_def)


lemma request_final:
  assumes pull: "pull_ledger sys" "pull_keeps sys (\<lambda>d. t \<in> set (invoices d))" and w: "final t w" and step: "request sys w w'"
  shows "final t w'"
  using step w
proof cases
  case (viewing ps r)
  show ?thesis by (rule preservesD[OF view_stays[OF pull] w viewing])
next
  case (drafting input sc b r)
  show ?thesis by (rule preservesD[OF final_create[OF drafting(1)] w drafting(2)])
next
  case (around u g)
  then show ?thesis using w by (simp add: final_def)
qed (auto elim: preservesD[OF final_services(1)] preservesD[OF final_services(2)] preservesD[OF final_services(3)] preservesD[OF final_services(4)]
    preservesD[OF final_services(5)] preservesD[OF final_services(6)] preservesD[OF final_mail(2)] preservesD[OF final_bulk]
    preservesD[OF final_checks(1)] preservesD[OF final_checks(2)] preservesD[OF final_checks(3)])

lemma ledger_run: "\<lbrakk>ledger_kept m; ledger_ok (w_db w); m w = (r, w')\<rbrakk> \<Longrightarrow> ledger_ok (w_db w')"
  by (drule (2) preservesD)

lemma request_ledger:
  assumes pull: "pull_ledger sys" and w: "ledger_ok (w_db w)" and step: "request sys w w'"
  shows "ledger_ok (w_db w')"
  using step w
proof cases
    case (drafting input sc b r)
    have "ledger_kept (create sc b input)" by (rule create_ledger) (use drafting(1) in \<open>simp add: draft_in_range_def\<close>)
    then show ?thesis using w drafting(2) by (rule ledger_run)
qed (auto elim: ledger_run[OF createIntent_ledger] ledger_run[OF handleWebhook_ledger] ledger_run[OF confirmClientResult_ledger]
    ledger_run[OF issue_ledger] ledger_run[OF recordManualPayment_ledger] ledger_run[OF cancel_ledger] ledger_run[OF ledger_mail(2)]
    ledger_run[OF ledger_bulk] ledger_run[OF ledger_checks(1)] ledger_run[OF ledger_checks(2)] ledger_run[OF ledger_checks(3)]
    ledger_run[OF view_ledger[OF pull]])


text \<open>The contract of \<open>Lifecycle\<close>: the ledger is an invariant of the requests, and so is a settled row.\<close>

interpretation served: invariant_system "\<lambda>w w'. pull_ledger sys \<and> request sys w w'" "\<lambda>w. ledger_ok (w_db w)" for sys
  by unfold_locales (auto intro: request_ledger)

interpretation settled: invariant_system
  "\<lambda>w w'. (pull_ledger sys \<and> pull_keeps sys (\<lambda>d. t \<in> set (invoices d))) \<and> request sys w w'" "final t" for sys t
  by unfold_locales (auto intro: request_final)

lemma requests_with: "\<lbrakk>(request sys)\<^sup>*\<^sup>* w w'; P\<rbrakk> \<Longrightarrow> (\<lambda>w w'. P \<and> request sys w w')\<^sup>*\<^sup>* w w'"
  by (simp add: rtranclp_mono)

definition sample_system :: "fake_gateway system" where
  "sample_system = \<lparr> sys_pay = sample_env ''PAYMENT_SUCCEEDED'' 2000, sys_invoice = sample_invoice_env, sys_public = sample_public_env \<rparr>"

lemma sample_pull: "pull_ledger sample_system" "pull_keeps sample_system J"
  by (auto simp: pull_ledger_def pull_keeps_def sample_system_def sample_public_env_def wp_simps intro!: preserves_intros)

lemma sample_recording:
  obtains w' where "(request sample_system)\<^sup>*\<^sup>* (sample_world (sample_db SENT 1000)) w'" "map i_status (invoices (w_db w')) = [PARTIALLY_PAID]"
proof -
  obtain x w' where "recordManualPayment staff_scope ''b1'' ''i1'' sample_manual (sample_world (sample_db SENT 1000)) = (Inr x, w')"
     "map i_status (invoices (w_db w')) = [PARTIALLY_PAID]"
    using sample_recorded by (elim exE conjE) (rule that)
  then show thesis by (intro that[of w']) (auto intro: request.recording)
qed

section \<open>Properties\<close>



text \<open>unique keys stay unique. No sequence of requests makes two invoices share an id, a public token
  or a number within a brand, two payments an id, an idempotency key or a gateway reference, or two check submissions an id.\<close>

theorem requests_keep_keys:
  assumes "(request sys)\<^sup>*\<^sup>* w w'" "keys_unique (w_db w)" "pull_keeps sys keys_unique"
  shows "keys_unique (w_db w')"
  by (rule keys.requests_keep[OF assms(1,3,2)])

theorem requests_keep_keys_witness:
  "\<exists>w'. (request sample_system)\<^sup>*\<^sup>* (sample_world (sample_db SENT 1000)) w' \<and> keys_unique (w_db w')"
proof -
  obtain w' where run: "(request sample_system)\<^sup>*\<^sup>* (sample_world (sample_db SENT 1000)) w'" by (rule sample_recording)
  have "keys_unique (w_db (sample_world (sample_db SENT 1000)))"
    by (simp add: sample_world_def sample_db_def keys_unique_def map_filter_simps)
  from requests_keep_keys[OF run this sample_pull(2)] run show ?thesis by (intro exI[of _ w'] conjI)
qed

text \<open>nothing is erased. Every invoice keeps its number, dates, currency, figures and token from the moment
  it is created, every payment its amount, method and key, every check submission its amount and images; line items and
  the event log only grow, and a brand's invoice sequence never goes back.\<close>

theorem requests_only_add:
  assumes "(request sys)\<^sup>*\<^sup>* w w'" "pull_keeps sys (grown (w_db w))"
  shows "grown (w_db w) (w_db w')"
  by (rule history.requests_keep[OF assms grown_refl])

theorem requests_only_add_witness:
  "\<exists>w'. (request sample_system)\<^sup>*\<^sup>* (sample_world (sample_db SENT 1000)) w' \<and> map i_status (invoices (w_db w')) = [PARTIALLY_PAID] \<and>
     map i_totalMinor (invoices (w_db w')) = [1000]"
proof -
  obtain w' where run: "(request sample_system)\<^sup>*\<^sup>* (sample_world (sample_db SENT 1000)) w'" "map i_status (invoices (w_db w')) = [PARTIALLY_PAID]"
    by (rule sample_recording)
  obtain i where i: "invoices (w_db w') = [i]" using run(2) by (cases "invoices (w_db w')") auto
  have "grown (w_db (sample_world (sample_db SENT 1000))) (w_db w')"
    by (rule requests_only_add[OF run(1) sample_pull(2)])
  then have "frozen_invoice i = frozen_invoice (sample_invoice ''i1'' ''INV-1'' SENT 1000)"
    by (simp add: grown_def i sample_world_def sample_db_def)
  then have "i_totalMinor i = 1000" by (cases i) (simp add: frozen_invoice_def sample_invoice_def)
  then show ?thesis using run by (intro exI[of _ w'] conjI) (simp_all add: i)
qed


definition cancelled_db :: db where
  "cancelled_db = pending_db\<lparr> invoices := [sample_invoice ''i1'' ''INV-1'' CANCELLED 1000] \<rparr>"


end
