(* ===== verification/RateLimit.thy ===== *)
theory RateLimit
  imports Prelude
begin

text \<open>
  The fixed-window rate limit of \<open>apps/api/src/infra/redis/redis.service.ts\<close> and the polling wait in front of
  every call to Zoho (\<open>zoho-books.adapter.ts\<close>).
\<close>

section \<open>A fixed window\<close>

text \<open>
  One key of the cache: how often it was hit and when it expires. A hit increments the counter; the first hit of a
  window sets the expiry. The hit is allowed while the counter is within the limit.
\<close>

type_synonym window = "(nat \<times> int) option"

definition rate_hit :: "int \<Rightarrow> nat \<Rightarrow> int \<Rightarrow> window \<Rightarrow> bool \<times> (nat \<times> int)" where
  "rate_hit now limit windowSeconds entry =
     (let hit = (case entry of
           Some (count, until) \<Rightarrow> if now < until then (count + 1, until) else (1, now + windowSeconds * 1000)
         | None \<Rightarrow> (1, now + windowSeconds * 1000))
      in (fst hit \<le> limit, hit))"

section \<open>Waiting for a slot\<close>

definition ZOHO_BOOKS_RATE_LIMIT_PER_MINUTE :: nat where "ZOHO_BOOKS_RATE_LIMIT_PER_MINUTE = 90"
definition RATE_LIMIT_WINDOW_SECONDS :: int where "RATE_LIMIT_WINDOW_SECONDS = 60"
definition RATE_LIMIT_MAX_WAIT_MS :: int where "RATE_LIMIT_MAX_WAIT_MS = 65000"
definition RATE_LIMIT_POLL_MS :: int where "RATE_LIMIT_POLL_MS = 300"

lemmas rate_constants = ZOHO_BOOKS_RATE_LIMIT_PER_MINUTE_def RATE_LIMIT_WINDOW_SECONDS_def RATE_LIMIT_MAX_WAIT_MS_def RATE_LIMIT_POLL_MS_def

text \<open>
  Polls until a slot is free or the wait has lasted too long; the result says whether there is a slot, with the window
  and the time at which the wait ended. Between two polls exactly the polling interval passes.
\<close>

function waitForRateSlot :: "int \<Rightarrow> int \<Rightarrow> window \<Rightarrow> bool \<times> (nat \<times> int) \<times> int" where
  "waitForRateSlot startedAt now entry =
     (case rate_hit now ZOHO_BOOKS_RATE_LIMIT_PER_MINUTE RATE_LIMIT_WINDOW_SECONDS entry of
        (True, hit) \<Rightarrow> (True, hit, now)
      | (False, hit) \<Rightarrow>
          if now - startedAt > RATE_LIMIT_MAX_WAIT_MS then (False, hit, now)
          else waitForRateSlot startedAt (now + RATE_LIMIT_POLL_MS) (Some hit))"
  by pat_completeness auto
termination
  by (relation "measure (\<lambda>(startedAt, now, entry). nat (startedAt + RATE_LIMIT_MAX_WAIT_MS + RATE_LIMIT_POLL_MS - now))")
    (auto simp: rate_constants)

declare waitForRateSlot.simps [simp del]

lemma rate_hit_allowed: "rate_hit now limit s entry = (True, hit) \<Longrightarrow> fst hit \<le> limit"
  by (auto simp: rate_hit_def Let_def)

lemma rate_hit_refused:
  "rate_hit now limit s entry = (False, hit) \<Longrightarrow> 0 < limit \<Longrightarrow> \<exists>count until. entry = Some (count, until) \<and> now < until \<and> hit = (count + 1, until)"
  by (auto simp: rate_hit_def Let_def split: option.splits if_splits)

lemma wait_granted:
  assumes "startedAt \<le> now" "now \<le> startedAt + 60000 + 300"
    "case entry of None \<Rightarrow> True | Some (count, until) \<Rightarrow> until \<le> startedAt + 60000"
  shows "\<exists>hit t. waitForRateSlot startedAt now entry = (True, hit, t) \<and> fst hit \<le> 90 \<and> t \<le> startedAt + 60300"
  using assms
proof (induction startedAt now entry rule: waitForRateSlot.induct)
  case (1 startedAt now entry)
  obtain ok hit where hit: "rate_hit now ZOHO_BOOKS_RATE_LIMIT_PER_MINUTE RATE_LIMIT_WINDOW_SECONDS entry = (ok, hit)"
    by (metis surj_pair)
  show ?case
  proof (cases ok)
    case True
    then show ?thesis using hit rate_hit_allowed[of now _ _ entry hit] 1(3) by (subst waitForRateSlot.simps) (simp add: rate_constants)
  next
    case False
    then have "rate_hit now ZOHO_BOOKS_RATE_LIMIT_PER_MINUTE RATE_LIMIT_WINDOW_SECONDS entry = (False, hit)" using hit by simp
    from rate_hit_refused[OF this] obtain count until where h: "entry = Some (count, until)" "now < until" "hit = (count + 1, until)"
      by (auto simp: rate_constants)
    then have early: "now < startedAt + 60000" using 1(4) by simp
    have "\<exists>hit' t. waitForRateSlot startedAt (now + RATE_LIMIT_POLL_MS) (Some hit) = (True, hit', t) \<and> fst hit' \<le> 90 \<and> t \<le> startedAt + 60300"
      by (rule 1(1)[OF hit[symmetric]]) (use False h early 1(2,4) in \<open>auto simp: rate_constants\<close>)
    then show ?thesis using hit False early by (subst waitForRateSlot.simps) (simp add: rate_constants)
  qed
qed



end
