(* ===== verification/Accounts.thy ===== *)
theory Accounts
  imports Store RateLimit
begin

text \<open>
  Users, sessions, set-password links and sign-in: the tables behind them and the services of
  \<open>apps/api/src/auth\<close>. The clock, the random values, the digests and the mail server are read from the
  world or from \<open>account_env\<close>; a rejected e-mail is an error of the service that sent it.
\<close>

section \<open>Tables\<close>

datatype user_status = INVITED | ACTIVE | SUSPENDED

record user_row =
  u_id :: string
  u_merchantId :: string
  u_email :: string
  u_passwordHash :: string
  u_name :: string
  u_role :: role
  u_status :: user_status
  u_lastLoginAt :: "int option"
  u_failedLogins :: nat
  u_lockedUntil :: "int option"
  u_createdAt :: int

record session_row =
  se_id :: string
  se_userId :: string
  se_tokenHash :: string
  se_expiresAt :: int
  se_revokedAt :: "int option"
  se_lastSeenAt :: "int option"
  se_sourceIp :: "string option"
  se_userAgent :: "string option"

record reset_token_row =
  tk_userId :: string
  tk_tokenHash :: string
  tk_expiresAt :: int
  tk_usedAt :: "int option"

record audit_row =
  au_merchantId :: string
  au_actorId :: string
  au_action :: string
  au_outcome :: string
  au_reason :: "string option"
  au_sourceIp :: "string option"
  au_userAgent :: "string option"
  au_occurredAt :: int

text \<open>Assignments are pairs of a user and a brand; \<open>brand_owner\<close> is the merchant of each brand.\<close>

record account_db =
  merchants :: "(string \<times> string \<times> string) list"
  users :: "user_row list"
  assignments :: "(string \<times> string) list"
  sessions :: "session_row list"
  reset_tokens :: "reset_token_row list"
  audit :: "audit_row list"
  brand_owner :: "(string \<times> string) list"

record auth_mail =
  am_to :: string
  am_subject :: string
  am_text :: string
  am_templateKey :: string
  am_idempotencyKey :: string

text \<open>\<open>a_rates\<close> is the part of Redis the rate limits use: a counter and its expiry under each key.\<close>

record account_world =
  a_db :: account_db
  a_mails :: "auth_mail list"
  a_rates :: "string \<Rightarrow> (nat \<times> int) option"
  a_now :: int
  a_random :: "nat \<Rightarrow> string"
  a_drawn :: nat

datatype account_error =
    Unauthorized string
  | Forbidden string
  | BadInput string
  | Conflicting string
  | NotFound string
  | Duplicate string
  | MissingRow
  | PolicyViolation
  | MailRefused

type_synonym 'a account = "(account_world, account_error, 'a) eff"

record account_env =
  ae_sha256 :: "string \<Rightarrow> string"
  ae_scrypt :: "string \<Rightarrow> string \<Rightarrow> nat \<Rightarrow> string"
  ae_base64 :: "string \<Rightarrow> string"
  ae_unbase64 :: "string \<Rightarrow> string"
  ae_encodeURI :: "string \<Rightarrow> string"
  ae_adminUrl :: string
  ae_accepts :: "auth_mail \<Rightarrow> bool"
  ae_contains :: "string \<Rightarrow> string \<Rightarrow> bool"

definition scoped :: "'a account \<Rightarrow> 'a account" where
  "scoped m = transaction (\<lambda>w\<^sub>0 w. w\<lparr> a_db := a_db w\<^sub>0 \<rparr>) m"

definition clock :: "int account" where
  "clock = egets a_now"

definition random_text :: "string account" where
  "random_text = (\<lambda>w. (Inr (a_random w (a_drawn w)), w\<lparr> a_drawn := a_drawn w + 1 \<rparr>))"

definition modify_db :: "(account_db \<Rightarrow> account_db) \<Rightarrow> unit account" where
  "modify_db f = emodify (\<lambda>w. w\<lparr> a_db := f (a_db w) \<rparr>)"

text \<open>\<open>update\<close> of one user by its id, among the rows that \<open>sees\<close> lets through.\<close>

definition user_update :: "(user_row \<Rightarrow> bool) \<Rightarrow> string \<Rightarrow> (user_row \<Rightarrow> user_row) \<Rightarrow> user_row account" where
  "user_update vis uid f = (\<lambda>w.
     let P = (\<lambda>u. vis u \<and> u_id u = uid) in
     case find P (users (a_db w)) of
       None \<Rightarrow> (Inl MissingRow, w)
     | Some u \<Rightarrow> (Inr (f u), w\<lparr> a_db := (a_db w)\<lparr> users := map_rows P f (users (a_db w)) \<rparr> \<rparr>))"

section \<open>Passwords\<close>

definition salt_length :: nat where "salt_length = 16"
definition key_length :: nat where "key_length = 64"

definition hashPassword :: "account_env \<Rightarrow> string \<Rightarrow> string \<Rightarrow> string" where
  "hashPassword env password salt =
     ''scrypt$'' @ ae_base64 env salt @ ''$'' @ ae_base64 env (ae_scrypt env password salt key_length)"

definition verifyPassword :: "account_env \<Rightarrow> string \<Rightarrow> string \<Rightarrow> bool" where
  "verifyPassword env password stored =
     (case split_on (CHR ''$'') stored of
        algorithm # saltB64 # hashB64 # _ \<Rightarrow>
          (if algorithm \<noteq> ''scrypt'' \<or> saltB64 = [] \<or> hashB64 = [] then False
           else let expected = ae_unbase64 env hashB64;
                    derived = ae_scrypt env password (ae_unbase64 env saltB64) (length expected)
                in length expected = length derived \<and> expected = derived)
      | _ \<Rightarrow> False)"

definition hash_password :: "account_env \<Rightarrow> string \<Rightarrow> string account" where
  "hash_password env password = ebind random_text (\<lambda>salt. ereturn (hashPassword env password salt))"

section \<open>Sessions\<close>

definition session_ttl_ms :: int where
  "session_ttl_ms = 12 * 3600 * 1000"

record attempt_context =
  ac_sourceIp :: "string option"
  ac_userAgent :: "string option"

definition session_issue :: "account_env \<Rightarrow> string \<Rightarrow> attempt_context \<Rightarrow> (string \<times> int) account" where
  "session_issue env userId context =
     ebind random_text (\<lambda>token.
     ebind random_text (\<lambda>sid.
     ebind clock (\<lambda>now.
     let expiresAt = now + session_ttl_ms; tokenHash = ae_sha256 env token in
     ebind (egets (\<lambda>w. list_ex (\<lambda>s. se_tokenHash s = tokenHash \<or> se_id s = sid) (sessions (a_db w)))) (\<lambda>taken.
     ebind (elift (guard (\<not> taken) (Duplicate ''token_hash''))) (\<lambda>_.
     ebind (modify_db (\<lambda>d. d\<lparr> sessions := sessions d @
        [\<lparr> se_id = sid, se_userId = userId, se_tokenHash = tokenHash, se_expiresAt = expiresAt, se_revokedAt = None,
           se_lastSeenAt = None, se_sourceIp = ac_sourceIp context, se_userAgent = ac_userAgent context \<rparr>] \<rparr>)) (\<lambda>_.
     ereturn (token, expiresAt)))))))"

text \<open>The row that the definer function \<open>app_resolve_session\<close> returns for a token digest.\<close>

record resolved_session =
  rv_sessionId :: string
  rv_userId :: string
  rv_merchantId :: string
  rv_role :: role
  rv_status :: user_status
  rv_expiresAt :: int
  rv_revokedAt :: "int option"
  rv_brandIds :: "string list"

definition app_resolve_session :: "account_db \<Rightarrow> string \<Rightarrow> resolved_session option" where
  "app_resolve_session d tokenHash =
     (case find (\<lambda>s. se_tokenHash s = tokenHash) (sessions d) of
        None \<Rightarrow> None
      | Some s \<Rightarrow> (case find (\<lambda>u. u_id u = se_userId s) (users d) of
          None \<Rightarrow> None
        | Some u \<Rightarrow> Some \<lparr> rv_sessionId = se_id s, rv_userId = u_id u, rv_merchantId = u_merchantId u, rv_role = u_role u,
            rv_status = u_status u, rv_expiresAt = se_expiresAt s, rv_revokedAt = se_revokedAt s,
            rv_brandIds = map snd (filter (\<lambda>a. fst a = u_id u) (assignments d)) \<rparr>))"

definition resolve :: "account_env \<Rightarrow> string \<Rightarrow> string option \<Rightarrow> request_scope option account" where
  "resolve env token sourceIp = egets (\<lambda>w.
     case app_resolve_session (a_db w) (ae_sha256 env token) of
       None \<Rightarrow> None
     | Some row \<Rightarrow>
         if rv_revokedAt row \<noteq> None then None
         else if rv_expiresAt row \<le> a_now w then None
         else if rv_status row = SUSPENDED then None
         else Some \<lparr> rs_merchantId = rv_merchantId row, rs_userId = rv_userId row, rs_role = rv_role row,
            rs_assignedBrandIds = rv_brandIds row, rs_sessionId = rv_sessionId row, rs_sourceIp = sourceIp \<rparr>)"

definition session_update :: "string \<Rightarrow> (session_row \<Rightarrow> session_row) \<Rightarrow> unit account" where
  "session_update sid f =
     ebind (egets (\<lambda>w. list_ex (\<lambda>s. se_id s = sid) (sessions (a_db w)))) (\<lambda>found.
     ebind (elift (guard found MissingRow)) (\<lambda>_.
     modify_db (\<lambda>d. d\<lparr> sessions := map_rows (\<lambda>s. se_id s = sid) f (sessions d) \<rparr>)))"

definition touch :: "string \<Rightarrow> unit account" where
  "touch sid = ebind clock (\<lambda>now. session_update sid (\<lambda>s. s\<lparr> se_lastSeenAt := Some now \<rparr>))"

definition revoke :: "string \<Rightarrow> unit account" where
  "revoke sid = ebind clock (\<lambda>now. session_update sid (\<lambda>s. s\<lparr> se_revokedAt := Some now \<rparr>))"

definition revokeAllForUser :: "string \<Rightarrow> nat account" where
  "revokeAllForUser userId =
     ebind clock (\<lambda>now.
     ebind (egets (\<lambda>w. length (filter (\<lambda>s. se_userId s = userId \<and> se_revokedAt s = None) (sessions (a_db w))))) (\<lambda>count.
     ebind (modify_db (\<lambda>d. d\<lparr> sessions := map_rows (\<lambda>s. se_userId s = userId \<and> se_revokedAt s = None)
        (\<lambda>s. s\<lparr> se_revokedAt := Some now \<rparr>) (sessions d) \<rparr>)) (\<lambda>_.
     ereturn count)))"

definition purge_sessions :: "nat account" where
  "purge_sessions =
     ebind clock (\<lambda>now.
     ebind (egets (\<lambda>w. length (filter (\<lambda>s. se_expiresAt s < now) (sessions (a_db w))))) (\<lambda>count.
     ebind (modify_db (\<lambda>d. d\<lparr> sessions := filter (\<lambda>s. \<not> se_expiresAt s < now) (sessions d) \<rparr>)) (\<lambda>_.
     ereturn count)))"

section \<open>Set-password links\<close>

definition token_ttl_ms :: int where
  "token_ttl_ms = 24 * 3600 * 1000"

definition reset_issue :: "account_env \<Rightarrow> string \<Rightarrow> (string \<times> int) account" where
  "reset_issue env userId =
     ebind random_text (\<lambda>token.
     ebind clock (\<lambda>now.
     let expiresAt = now + token_ttl_ms; tokenHash = ae_sha256 env token in
     ebind (modify_db (\<lambda>d. d\<lparr> reset_tokens := map_rows (\<lambda>t. tk_userId t = userId \<and> tk_usedAt t = None)
        (\<lambda>t. t\<lparr> tk_usedAt := Some now \<rparr>) (reset_tokens d) \<rparr>)) (\<lambda>_.
     ebind (egets (\<lambda>w. list_ex (\<lambda>t. tk_tokenHash t = tokenHash) (reset_tokens (a_db w)))) (\<lambda>taken.
     ebind (elift (guard (\<not> taken) (Duplicate ''token_hash''))) (\<lambda>_.
     ebind (modify_db (\<lambda>d. d\<lparr> reset_tokens := reset_tokens d @
        [\<lparr> tk_userId = userId, tk_tokenHash = tokenHash, tk_expiresAt = expiresAt, tk_usedAt = None \<rparr>] \<rparr>)) (\<lambda>_.
     ereturn (token, expiresAt)))))))"

definition consumable :: "string \<Rightarrow> int \<Rightarrow> reset_token_row \<Rightarrow> bool" where
  "consumable tokenHash now t \<longleftrightarrow> tk_tokenHash t = tokenHash \<and> tk_usedAt t = None \<and> now < tk_expiresAt t"

definition consume :: "account_env \<Rightarrow> string \<Rightarrow> string option account" where
  "consume env token =
     (let tokenHash = ae_sha256 env token in
      ebind clock (\<lambda>now.
      ebind (egets (\<lambda>w. length (filter (consumable tokenHash now) (reset_tokens (a_db w))))) (\<lambda>count.
     ebind (modify_db (\<lambda>d. d\<lparr> reset_tokens := map_rows (consumable tokenHash now)
        (\<lambda>t. t\<lparr> tk_usedAt := Some now \<rparr>) (reset_tokens d) \<rparr>)) (\<lambda>_.
     if count = 0 then ereturn None
     else egets (\<lambda>w. map_option tk_userId (find (\<lambda>t. tk_tokenHash t = tokenHash) (reset_tokens (a_db w))))))))"

definition purge_tokens :: "nat account" where
  "purge_tokens =
     ebind clock (\<lambda>now.
     ebind (egets (\<lambda>w. length (filter (\<lambda>t. tk_expiresAt t < now) (reset_tokens (a_db w))))) (\<lambda>count.
     ebind (modify_db (\<lambda>d. d\<lparr> reset_tokens := filter (\<lambda>t. \<not> tk_expiresAt t < now) (reset_tokens d) \<rparr>)) (\<lambda>_.
     ereturn count)))"

definition sendSetPasswordLink :: "account_env \<Rightarrow> string \<Rightarrow> string \<Rightarrow> string \<Rightarrow> bool \<Rightarrow> unit account" where
  "sendSetPasswordLink env recipient name token isNewAccount =
     (let url = ae_adminUrl env @ ''/set-password?token='' @ ae_encodeURI env token;
          lead = (if isNewAccount then ''Your account has been created. Set a password to finish signing up.''
                  else ''We received a request to reset your password.'');
          m = \<lparr> am_to = recipient,
            am_subject = (if isNewAccount then ''Set your password to finish creating your account'' else ''Reset your password''),
            am_text = join_with (CHR 0x0A) [''Hi '' @ name @ '','', [], lead, [], url, [],
              ''This link can be used once and expires in 24 hours.'',
              ''If you weren'' @ [CHR 0x27] @ ''t expecting this, you can ignore this email.''],
            am_templateKey = (if isNewAccount then ''auth.set-password'' else ''auth.reset-password''),
            am_idempotencyKey = ''set-password:'' @ take 16 token \<rparr>
      in (\<lambda>w. if ae_accepts env m then (Inr (), w\<lparr> a_mails := a_mails w @ [m] \<rparr>) else (Inl MailRefused, w)))"

definition acquireGenericRateToken :: "string \<Rightarrow> nat \<Rightarrow> int \<Rightarrow> bool account" where
  "acquireGenericRateToken key limit windowSeconds = (\<lambda>w.
     case rate_hit (a_now w) limit windowSeconds (a_rates w key) of
       (ok, hit) \<Rightarrow> (Inr ok, w\<lparr> a_rates := (a_rates w)(key \<mapsto> hit) \<rparr>))"

section \<open>Sign-in\<close>

definition FAILURE_WINDOW_MINUTES :: int where "FAILURE_WINDOW_MINUTES = 15"
definition MAX_FAILURES_IN_WINDOW :: nat where "MAX_FAILURES_IN_WINDOW = 5"
definition LOCKOUT_MINUTES :: int where "LOCKOUT_MINUTES = 30"
definition FORGOT_PASSWORD_LIMIT :: nat where "FORGOT_PASSWORD_LIMIT = 3"
definition FORGOT_PASSWORD_WINDOW_SECONDS :: int where "FORGOT_PASSWORD_WINDOW_SECONDS = 3600"

definition AUDIT_LOGIN :: string where "AUDIT_LOGIN = ''AUTH_LOGIN''"
definition AUDIT_LOGOUT :: string where "AUDIT_LOGOUT = ''AUTH_LOGOUT''"
definition AUDIT_PASSWORD_SET :: string where "AUDIT_PASSWORD_SET = ''AUTH_PASSWORD_SET''"
definition AUDIT_REGISTER :: string where "AUDIT_REGISTER = ''AUTH_REGISTER''"
definition AUDIT_PASSWORD_RESET_REQUEST :: string where "AUDIT_PASSWORD_RESET_REQUEST = ''AUTH_PASSWORD_RESET_REQUEST''"

definition GENERIC_FAILURE :: account_error where
  "GENERIC_FAILURE = Unauthorized ''invalid email or password''"

record authenticated_user =
  an_id :: string
  an_merchantId :: string
  an_email :: string
  an_name :: string
  an_role :: role
  an_mustResetPassword :: bool

record login_result =
  lg_token :: string
  lg_expiresAt :: int
  lg_user :: authenticated_user

definition identity_of :: "user_row \<Rightarrow> bool \<Rightarrow> authenticated_user" where
  "identity_of u mustReset = \<lparr> an_id = u_id u, an_merchantId = u_merchantId u, an_email = u_email u, an_name = u_name u,
     an_role = u_role u, an_mustResetPassword = mustReset \<rparr>"

definition record_audit :: "string \<Rightarrow> string \<Rightarrow> string \<Rightarrow> string option \<Rightarrow> attempt_context \<Rightarrow> string \<Rightarrow> unit account" where
  "record_audit merchantId userId outcome reason context action =
     ebind clock (\<lambda>now. modify_db (\<lambda>d. d\<lparr> audit := audit d @
       [\<lparr> au_merchantId = merchantId, au_actorId = userId, au_action = action, au_outcome = outcome, au_reason = reason,
          au_sourceIp = ac_sourceIp context, au_userAgent = ac_userAgent context, au_occurredAt = now \<rparr>] \<rparr>))"

definition login_entry :: "string \<Rightarrow> string \<Rightarrow> string \<Rightarrow> audit_row \<Rightarrow> bool" where
  "login_entry merchantId userId outcome a \<longleftrightarrow>
     au_merchantId a = merchantId \<and> au_actorId a = userId \<and> au_action a = AUDIT_LOGIN \<and> au_outcome a = outcome"

text \<open>Where the count of failures starts: the window's edge, or the last success inside it.\<close>

definition count_from :: "audit_row list \<Rightarrow> string \<Rightarrow> string \<Rightarrow> int \<Rightarrow> int" where
  "count_from rows merchantId userId windowStart =
     (case map au_occurredAt (filter (\<lambda>a. login_entry merchantId userId ''SUCCESS'' a \<and> windowStart \<le> au_occurredAt a) rows) of
        [] \<Rightarrow> windowStart | t # ts \<Rightarrow> max windowStart (fold max ts t))"

definition failures_since :: "audit_row list \<Rightarrow> string \<Rightarrow> string \<Rightarrow> int \<Rightarrow> nat" where
  "failures_since rows merchantId userId countFrom =
     length (filter (\<lambda>a. login_entry merchantId userId ''FAILURE'' a \<and> countFrom < au_occurredAt a) rows)"

definition registerFailure :: "string \<Rightarrow> string \<Rightarrow> attempt_context \<Rightarrow> unit account" where
  "registerFailure merchantId userId context =
     ebind (record_audit merchantId userId ''FAILURE'' (Some ''BAD_PASSWORD'') context AUDIT_LOGIN) (\<lambda>_.
     ebind clock (\<lambda>now.
     let windowStart = now - FAILURE_WINDOW_MINUTES * 60000 in
     ebind (egets (\<lambda>w. count_from (audit (a_db w)) merchantId userId windowStart)) (\<lambda>countFrom.
     ebind (egets (\<lambda>w. failures_since (audit (a_db w)) merchantId userId countFrom)) (\<lambda>failures.
     ebind (user_update (\<lambda>_. True) userId (\<lambda>u. u\<lparr> u_failedLogins := failures,
        u_lockedUntil := (if MAX_FAILURES_IN_WINDOW \<le> failures then Some (now + LOCKOUT_MINUTES * 60000) else u_lockedUntil u) \<rparr>)) (\<lambda>_.
     ereturn ())))))"

text \<open>The candidates for an address, oldest first; a match, or the first for the audit trail.\<close>

definition candidates_for :: "string \<Rightarrow> account_db \<Rightarrow> user_row list" where
  "candidates_for email d = sort_key u_createdAt (filter (\<lambda>u. u_email u = email) (users d))"

definition pick_candidate :: "account_env \<Rightarrow> string \<Rightarrow> user_row list \<Rightarrow> (user_row \<times> bool) option" where
  "pick_candidate env password candidates =
     (case candidates of
        [] \<Rightarrow> None
      | first # _ \<Rightarrow> (case find (\<lambda>u. verifyPassword env password (u_passwordHash u)) candidates of
           Some u \<Rightarrow> Some (u, True) | None \<Rightarrow> Some (first, False)))"

definition status_name :: "user_status \<Rightarrow> string" where
  "status_name s = (case s of INVITED \<Rightarrow> ''INVITED'' | ACTIVE \<Rightarrow> ''ACTIVE'' | SUSPENDED \<Rightarrow> ''SUSPENDED'')"

definition login :: "account_env \<Rightarrow> string \<Rightarrow> string \<Rightarrow> attempt_context \<Rightarrow> login_result account" where
  "login env email password context =
     ebind (egets (\<lambda>w. pick_candidate env password (candidates_for email (a_db w)))) (\<lambda>picked.
     case picked of
       None \<Rightarrow> ethrow GENERIC_FAILURE
     | Some (row, passwordMatched) \<Rightarrow>
     ebind clock (\<lambda>now.
     if (case u_lockedUntil row of None \<Rightarrow> False | Some t \<Rightarrow> now < t)
     then ebind (record_audit (u_merchantId row) (u_id row) ''FAILURE'' (Some ''LOCKED'') context AUDIT_LOGIN) (\<lambda>_. ethrow GENERIC_FAILURE)
     else if \<not> passwordMatched
     then ebind (registerFailure (u_merchantId row) (u_id row) context) (\<lambda>_. ethrow GENERIC_FAILURE)
     else if u_status row = SUSPENDED
     then ebind (record_audit (u_merchantId row) (u_id row) ''FAILURE'' (Some (''STATUS_'' @ status_name (u_status row))) context AUDIT_LOGIN)
            (\<lambda>_. ethrow GENERIC_FAILURE)
     else ebind (session_issue env (u_id row) context) (\<lambda>(token, expiresAt).
          ebind (user_update (\<lambda>_. True) (u_id row)
            (\<lambda>u. u\<lparr> u_failedLogins := 0, u_lockedUntil := None, u_lastLoginAt := Some now \<rparr>)) (\<lambda>_.
          ebind (record_audit (u_merchantId row) (u_id row) ''SUCCESS'' None context AUDIT_LOGIN) (\<lambda>_.
          ereturn \<lparr> lg_token = token, lg_expiresAt = expiresAt, lg_user = identity_of row (u_status row = INVITED) \<rparr>)))))"

section \<open>Registration, links, identity\<close>

definition register_rows :: "string \<Rightarrow> string \<Rightarrow> string \<Rightarrow> (string \<times> string) account" where
  "register_rows email fullName passwordHash =
     ebind random_text (\<lambda>merchantId.
     ebind random_text (\<lambda>userId.
     ebind clock (\<lambda>now.
     ebind (egets (\<lambda>w. list_ex (\<lambda>m. fst m = merchantId) (merchants (a_db w)) \<or> list_ex (\<lambda>u. u_id u = userId) (users (a_db w)))) (\<lambda>taken.
     ebind (elift (guard (\<not> taken) (Duplicate ''id''))) (\<lambda>_.
     ebind (modify_db (\<lambda>d. d\<lparr> merchants := merchants d @ [(merchantId, fullName, email)], users := users d @
        [\<lparr> u_id = userId, u_merchantId = merchantId, u_email = email, u_passwordHash = passwordHash, u_name = fullName,
           u_role = MERCHANT_OWNER, u_status = INVITED, u_lastLoginAt = None, u_failedLogins = 0, u_lockedUntil = None,
           u_createdAt = now \<rparr>] \<rparr>)) (\<lambda>_.
     ereturn (merchantId, userId)))))))"

definition register :: "account_env \<Rightarrow> string \<Rightarrow> string \<Rightarrow> attempt_context \<Rightarrow> unit account" where
  "register env email fullName context =
     ebind random_text (\<lambda>unusable.
     ebind (hash_password env unusable) (\<lambda>passwordHash.
     ebind (egets (\<lambda>w. list_ex (\<lambda>u. u_email u = email) (users (a_db w)))) (\<lambda>existing.
     ebind (elift (guard (\<not> existing) (Conflicting ''an account with this email address already exists''))) (\<lambda>_.
     ebind (register_rows email fullName passwordHash) (\<lambda>(merchantId, userId).
     ebind (reset_issue env userId) (\<lambda>(token, _).
     ebind (sendSetPasswordLink env email fullName token True) (\<lambda>_.
     record_audit merchantId userId ''SUCCESS'' None context AUDIT_REGISTER)))))))"

definition send_reset :: "account_env \<Rightarrow> attempt_context \<Rightarrow> user_row \<Rightarrow> unit account" where
  "send_reset env context u =
     ebind (reset_issue env (u_id u)) (\<lambda>(token, _).
     ebind (sendSetPasswordLink env (u_email u) (u_name u) token False) (\<lambda>_.
     record_audit (u_merchantId u) (u_id u) ''SUCCESS'' None context AUDIT_PASSWORD_RESET_REQUEST))"

definition requestPasswordReset :: "account_env \<Rightarrow> string \<Rightarrow> attempt_context \<Rightarrow> unit account" where
  "requestPasswordReset env email context =
     ebind (acquireGenericRateToken (''ratelimit:forgot-password:'' @ email) FORGOT_PASSWORD_LIMIT FORGOT_PASSWORD_WINDOW_SECONDS) (\<lambda>allowed.
     if \<not> allowed then ereturn ()
     else ebind (egets (\<lambda>w. filter (\<lambda>u. u_status u \<noteq> SUSPENDED) (candidates_for email (a_db w)))) (\<lambda>candidates.
          ebind (eforeach (send_reset env context) candidates) (\<lambda>_. ereturn ())))"

definition setPasswordWithToken :: "account_env \<Rightarrow> string \<Rightarrow> string \<Rightarrow> attempt_context \<Rightarrow> login_result account" where
  "setPasswordWithToken env token newPassword context =
     ebind (consume env token) (\<lambda>claim.
     ebind (elift (require claim (Unauthorized ''this link is no longer valid''))) (\<lambda>userId.
     ebind (hash_password env newPassword) (\<lambda>passwordHash.
     ebind (user_update (\<lambda>_. True) userId
        (\<lambda>u. u\<lparr> u_passwordHash := passwordHash, u_status := ACTIVE, u_failedLogins := 0, u_lockedUntil := None \<rparr>)) (\<lambda>user.
     ebind (revokeAllForUser (u_id user)) (\<lambda>_.
     ebind (session_issue env (u_id user) context) (\<lambda>(sessionToken, expiresAt).
     ebind (record_audit (u_merchantId user) (u_id user) ''SUCCESS'' None context AUDIT_PASSWORD_SET) (\<lambda>_.
     ereturn \<lparr> lg_token = sessionToken, lg_expiresAt = expiresAt, lg_user = identity_of user False \<rparr>)))))))"

text \<open>The policy on the user table: a scope reaches the users of its merchant.\<close>

definition user_visible :: "request_scope \<Rightarrow> user_row \<Rightarrow> bool" where
  "user_visible sc u \<longleftrightarrow> app_merchant_id (databaseScopeSettings (RequestScope sc)) = Some (u_merchantId u)"

definition profile :: "request_scope \<Rightarrow> authenticated_user option account" where
  "profile sc = scoped (egets (\<lambda>w.
     map_option (\<lambda>u. identity_of u (u_status u = INVITED)) (find (\<lambda>u. user_visible sc u \<and> u_id u = rs_userId sc) (users (a_db w)))))"

definition setPassword :: "account_env \<Rightarrow> request_scope \<Rightarrow> string \<Rightarrow> unit account" where
  "setPassword env sc newPassword =
     ebind (hash_password env newPassword) (\<lambda>passwordHash.
     ebind (scoped (user_update (user_visible sc) (rs_userId sc) (\<lambda>u. u\<lparr> u_passwordHash := passwordHash, u_status := ACTIVE \<rparr>))) (\<lambda>_.
     record_audit (rs_merchantId sc) (rs_userId sc) ''SUCCESS'' None
       \<lparr> ac_sourceIp = rs_sourceIp sc, ac_userAgent = None \<rparr> AUDIT_PASSWORD_SET))"

definition logout :: "request_scope \<Rightarrow> unit account" where
  "logout sc =
     ebind (revoke (rs_sessionId sc)) (\<lambda>_.
     record_audit (rs_merchantId sc) (rs_userId sc) ''SUCCESS'' None
       \<lparr> ac_sourceIp = rs_sourceIp sc, ac_userAgent = None \<rparr> AUDIT_LOGOUT)"

section \<open>Stepping through\<close>

lemma wp_clock [wp_simps]: "wp clock Q E = (\<lambda>w. Q (a_now w) w)"
  by (rule ext) (simp add: clock_def wp_simps)

lemma wp_random_text [wp_simps]: "wp random_text Q E = (\<lambda>w. Q (a_random w (a_drawn w)) (w\<lparr> a_drawn := a_drawn w + 1 \<rparr>))"
  by (rule ext) (simp add: random_text_def wp_def)

lemma wp_modify_db [wp_simps]: "wp (modify_db f) Q E = (\<lambda>w. Q () (w\<lparr> a_db := f (a_db w) \<rparr>))"
  by (rule ext) (simp add: modify_db_def wp_simps)

lemma wp_user_update [wp_simps]:
  "wp (user_update vis uid f) Q E = (\<lambda>w. case find (\<lambda>u. vis u \<and> u_id u = uid) (users (a_db w)) of
      None \<Rightarrow> E MissingRow w
    | Some u \<Rightarrow> Q (f u) (w\<lparr> a_db := (a_db w)\<lparr> users := map_rows (\<lambda>u. vis u \<and> u_id u = uid) f (users (a_db w)) \<rparr> \<rparr>))"
  by (rule ext) (auto simp: user_update_def wp_def Let_def split: option.splits)

lemma wp_scoped [wp_simps]: "wp (scoped m) Q E = (\<lambda>w. wp m Q (\<lambda>e w'. E e (w'\<lparr> a_db := a_db w \<rparr>)) w)"
  by (rule ext) (simp add: scoped_def wp_simps)

lemma wp_sendSetPasswordLink:
  "(\<And>m. Q () (w\<lparr> a_mails := a_mails w @ [m] \<rparr>)) \<Longrightarrow> E MailRefused w \<Longrightarrow> wp (sendSetPasswordLink env r n t new) Q E w"
  by (simp add: sendSetPasswordLink_def wp_def Let_def)

lemma find_user:
  assumes "distinct (map u_id us)" "u \<in> set us"
  shows "find (\<lambda>x. u_id x = u_id u) us = Some u"
proof (cases "find (\<lambda>x. u_id x = u_id u) us")
  case None
  then show ?thesis using assms(2) by (auto simp: find_None_iff')
next
  case (Some v)
  then have "v \<in> set us" "u_id v = u_id u" using find_Some_iff'[OF Some] by simp_all
  then show ?thesis using Some distinct_key_eq[OF assms(1)] assms(2) by fastforce
qed

end
