(* ===== verification/Auth.thy ===== *)
theory Auth
  imports Accounts
begin

text \<open>
  Sign-in and set-password links: what a successful sign-in gives, when wrong passwords lock an account,
  what following a link changes; each over the services of \<open>Accounts\<close>.
\<close>

section \<open>Signing in\<close>

definition locked_at :: "int \<Rightarrow> user_row \<Rightarrow> bool" where
  "locked_at now u \<longleftrightarrow> (case u_lockedUntil u of None \<Rightarrow> False | Some t \<Rightarrow> now < t)"

text \<open>What a successful sign-in leaves: \<open>u\<close> owns the account and the new session.\<close>

definition signed_in :: "account_env \<Rightarrow> string \<Rightarrow> string \<Rightarrow> account_world \<Rightarrow> login_result \<Rightarrow> account_world \<Rightarrow> user_row \<Rightarrow> bool" where
  "signed_in env email pw w r w' u \<longleftrightarrow>
     u \<in> set (users (a_db w)) \<and> u_email u = email \<and> verifyPassword env pw (u_passwordHash u) \<and>
     u_status u \<noteq> SUSPENDED \<and> \<not> locked_at (a_now w) u \<and>
     lg_user r = identity_of u (u_status u = INVITED) \<and> lg_expiresAt r = a_now w + session_ttl_ms \<and>
     \<not> list_ex (\<lambda>s. se_tokenHash s = ae_sha256 env (lg_token r)) (sessions (a_db w)) \<and>
     (\<exists>s. sessions (a_db w') = sessions (a_db w) @ [s] \<and> se_userId s = u_id u \<and> se_tokenHash s = ae_sha256 env (lg_token r) \<and>
        se_expiresAt s = lg_expiresAt r \<and> se_revokedAt s = None) \<and>
     users (a_db w') = map_rows (\<lambda>v. u_id v = u_id u)
       (\<lambda>v. v\<lparr> u_failedLogins := 0, u_lockedUntil := None, u_lastLoginAt := Some (a_now w) \<rparr>) (users (a_db w)) \<and>
     assignments (a_db w') = assignments (a_db w)"

lemma pick_candidateD:
  "pick_candidate env pw cs = Some (u, ok) \<Longrightarrow> u \<in> set cs \<and> (ok \<longrightarrow> verifyPassword env pw (u_passwordHash u)) \<and>
     (\<not> ok \<longrightarrow> u = hd cs \<and> (\<forall>v \<in> set cs. \<not> verifyPassword env pw (u_passwordHash v)))"
  by (auto simp: pick_candidate_def find_None_iff' split: list.splits option.splits if_splits dest: find_Some_iff')

lemma candidates_set: "u \<in> set (candidates_for email d) \<longleftrightarrow> u \<in> set (users d) \<and> u_email u = email"
  by (auto simp: candidates_for_def)

lemma login_wp:
  "wp (login env email pw ctx) (\<lambda>r w'. \<exists>u. signed_in env email pw w r w' u)
     (\<lambda>e w'. sessions (a_db w') = sessions (a_db w) \<and> (e = GENERIC_FAILURE \<or> e = Duplicate ''token_hash'')) w"
proof (cases "pick_candidate env pw (candidates_for email (a_db w))")
  case None
  then show ?thesis by (simp add: login_def wp_simps)
next
  case (Some p)
  obtain u ok where p: "p = (u, ok)" by fastforce
  have u: "u \<in> set (users (a_db w))" "u_email u = email" "ok \<Longrightarrow> verifyPassword env pw (u_passwordHash u)"
    using pick_candidateD[OF Some[unfolded p]] by (auto simp: candidates_set)
  obtain v where v: "find (\<lambda>x. u_id x = u_id u) (users (a_db w)) = Some v"
    using u(1) by (cases "find (\<lambda>x. u_id x = u_id u) (users (a_db w))") (auto simp: find_None_iff')
  show ?thesis
    unfolding login_def registerFailure_def record_audit_def session_issue_def Let_def
    by (auto simp: wp_simps Some p v u signed_in_def locked_at_def list_ex_or split: option.splits intro!: exI[of _ u])
qed

lemma find_append: "find P (xs @ ys) = (case find P xs of None \<Rightarrow> find P ys | Some x \<Rightarrow> Some x)"
  by (induction xs) auto

lemma signed_in_resolves:
  assumes r: "signed_in env email pw w r w' u" and ids: "distinct (map u_id (users (a_db w)))" and t: "t < lg_expiresAt r"
  shows "resolve env (lg_token r) ip (w'\<lparr> a_now := t \<rparr>) =
    (Inr (Some \<lparr> rs_merchantId = u_merchantId u, rs_userId = u_id u, rs_role = u_role u,
       rs_assignedBrandIds = map snd (filter (\<lambda>a. fst a = u_id u) (assignments (a_db w))),
       rs_sessionId = se_id (last (sessions (a_db w'))), rs_sourceIp = ip \<rparr>), w'\<lparr> a_now := t \<rparr>)"
proof -
  note r = r[unfolded signed_in_def]
  obtain s where s: "sessions (a_db w') = sessions (a_db w) @ [s]" "se_userId s = u_id u" "se_tokenHash s = ae_sha256 env (lg_token r)"
      "se_expiresAt s = lg_expiresAt r" "se_revokedAt s = None" using r by blast
  have "find (\<lambda>s. se_tokenHash s = ae_sha256 env (lg_token r)) (sessions (a_db w)) = None"
    using r by (auto simp: find_None_iff' list_ex_iff)
  then have fs: "find (\<lambda>s. se_tokenHash s = ae_sha256 env (lg_token r)) (sessions (a_db w')) = Some s"
    by (simp add: s find_append)
  let ?f = "\<lambda>v. v\<lparr> u_failedLogins := 0, u_lockedUntil := None, u_lastLoginAt := Some (a_now w) \<rparr>"
  have "find (\<lambda>x. u_id x = u_id u) (users (a_db w)) = Some u" using find_user[OF ids] r by blast
  then have fu: "find (\<lambda>x. u_id x = se_userId s) (users (a_db w')) = Some (?f u)"
    using r by (subst s(2)) (simp add: find_map_rows)
  have "app_resolve_session (a_db w') (ae_sha256 env (lg_token r)) = Some \<lparr> rv_sessionId = se_id s, rv_userId = u_id u,
      rv_merchantId = u_merchantId u, rv_role = u_role u, rv_status = u_status u, rv_expiresAt = se_expiresAt s,
      rv_revokedAt = se_revokedAt s, rv_brandIds = map snd (filter (\<lambda>a. fst a = u_id u) (assignments (a_db w'))) \<rparr>"
    unfolding app_resolve_session_def by (simp add: fs fu)
  then show ?thesis
    using r t s by (simp add: resolve_def egets_def)
qed

section \<open>Lockout\<close>

fun attempts :: "account_env \<Rightarrow> string \<Rightarrow> (int \<times> string \<times> attempt_context) list \<Rightarrow> account_world \<Rightarrow> account_world" where
  "attempts env email [] w = w"
| "attempts env email ((t, pw, ctx) # rest) w = attempts env email rest (snd (login env email pw ctx (w\<lparr> a_now := t \<rparr>)))"

definition sole :: "string \<Rightarrow> user_row \<Rightarrow> account_db \<Rightarrow> bool" where
  "sole email u d \<longleftrightarrow> distinct (map u_id (users d)) \<and> filter (\<lambda>v. u_email v = email) (users d) = [u]"

lemma sole_candidates: "sole email u d \<Longrightarrow> candidates_for email d = [u]"
  by (simp add: sole_def candidates_for_def)

lemma sole_member: "sole email u d \<Longrightarrow> u \<in> set (users d) \<and> u_email u = email"
proof -
  assume "sole email u d"
  then have "u \<in> set (filter (\<lambda>v. u_email v = email) (users d))" by (simp add: sole_def)
  then show ?thesis by simp
qed

lemma sole_find: "sole email u d \<Longrightarrow> find (\<lambda>x. u_id x = u_id u) (users d) = Some u"
  by (frule sole_member) (simp add: find_user sole_def)

lemma sole_update:
  assumes "sole email u d" "\<And>v. u_id (f v) = u_id v" "\<And>v. u_email (f v) = u_email v"
  shows "sole email (f u) (d\<lparr> users := map_rows (\<lambda>v. u_id v = u_id u) f (users d), audit := a \<rparr>)"
proof -
  have flt: "filter (\<lambda>v. u_email v = email) (map_rows (\<lambda>v. u_id v = u_id u) f rows) =
      map_rows (\<lambda>v. u_id v = u_id u) f (filter (\<lambda>v. u_email v = email) rows)" for rows
    by (induction rows) (auto simp: map_rows_def assms)
  have ids: "map u_id (map_rows P f rows) = map u_id rows" for P rows
    by (simp add: map_rows_def assms)
  show ?thesis using assms(1) by (simp add: sole_def flt ids) (simp add: map_rows_def)
qed

definition failure_row :: "user_row \<Rightarrow> int \<Rightarrow> string \<Rightarrow> attempt_context \<Rightarrow> audit_row" where
  "failure_row u t reason ctx = \<lparr> au_merchantId = u_merchantId u, au_actorId = u_id u, au_action = AUDIT_LOGIN,
     au_outcome = ''FAILURE'', au_reason = Some reason, au_sourceIp = ac_sourceIp ctx, au_userAgent = ac_userAgent ctx, au_occurredAt = t \<rparr>"

definition window_failures :: "user_row \<Rightarrow> int \<Rightarrow> audit_row list \<Rightarrow> nat" where
  "window_failures u t rows = failures_since rows (u_merchantId u) (u_id u)
     (count_from rows (u_merchantId u) (u_id u) (t - FAILURE_WINDOW_MINUTES * 60000))"

definition failed_user :: "int \<Rightarrow> nat \<Rightarrow> user_row \<Rightarrow> user_row" where
  "failed_user t n v = v\<lparr> u_failedLogins := n,
     u_lockedUntil := (if MAX_FAILURES_IN_WINDOW \<le> n then Some (t + LOCKOUT_MINUTES * 60000) else u_lockedUntil v) \<rparr>"

text \<open>One rejected attempt, for an account that is locked and for one that is not.\<close>

lemma login_locked:
  assumes "sole email u (a_db w)" "locked_at (a_now w) u"
  shows "login env email pw ctx w = (Inl GENERIC_FAILURE,
     w\<lparr> a_db := (a_db w)\<lparr> audit := audit (a_db w) @ [failure_row u (a_now w) ''LOCKED'' ctx] \<rparr> \<rparr>)"
proof -
  obtain ok where "pick_candidate env pw [u] = Some (u, ok)" by (cases "verifyPassword env pw (u_passwordHash u)") (simp_all add: pick_candidate_def)
  then show ?thesis using assms sole_candidates[OF assms(1)]
    by (auto simp: login_def run_bind locked_at_def clock_def record_audit_def modify_db_def failure_row_def split: option.splits)
qed

lemma login_wrong:
  assumes "sole email u (a_db w)" "\<not> locked_at (a_now w) u" "\<not> verifyPassword env pw (u_passwordHash u)"
  shows "login env email pw ctx w = (let rows = audit (a_db w) @ [failure_row u (a_now w) ''BAD_PASSWORD'' ctx]
     in (Inl GENERIC_FAILURE, w\<lparr> a_db := (a_db w)\<lparr> audit := rows,
      users := map_rows (\<lambda>v. u_id v = u_id u) (failed_user (a_now w) (window_failures u (a_now w) rows)) (users (a_db w)) \<rparr> \<rparr>))"
proof -
  have "pick_candidate env pw [u] = Some (u, False)" using assms(3) by (simp add: pick_candidate_def)
  then show ?thesis using assms(2) sole_candidates[OF assms(1)] sole_find[OF assms(1)]
    by (auto simp: login_def run_bind locked_at_def clock_def record_audit_def modify_db_def failure_row_def failed_user_def[abs_def] window_failures_def
      registerFailure_def user_update_def Let_def cong: if_cong split: option.splits)
qed

lemma fold_max_less: "x < t \<Longrightarrow> \<forall>y \<in> set ts. y < t \<Longrightarrow> fold max ts x < t"
  for x :: int
  by (induction ts arbitrary: x) auto

lemma count_from_less:
  assumes "\<And>a. a \<in> set rows \<Longrightarrow> login_entry m i ''SUCCESS'' a \<Longrightarrow> au_occurredAt a < t" "ws < t"
  shows "count_from rows m i ws < t"
proof -
  have "\<forall>y \<in> set (map au_occurredAt (filter (\<lambda>a. login_entry m i ''SUCCESS'' a \<and> ws \<le> au_occurredAt a) rows)). y < t"
    (is "\<forall>y \<in> set ?ts. y < t") using assms(1) by auto
  then show ?thesis
    unfolding count_from_def using assms(2) by (cases ?ts) (simp_all add: fold_max_less)
qed

definition failures_from :: "user_row \<Rightarrow> int \<Rightarrow> audit_row list \<Rightarrow> nat" where
  "failures_from u t rows = length (filter (\<lambda>a. login_entry (u_merchantId u) (u_id u) ''FAILURE'' a \<and> t \<le> au_occurredAt a) rows)"

lemma length_filter_mono: "(\<And>x. P x \<Longrightarrow> Q x) \<Longrightarrow> length (filter P xs) \<le> length (filter Q xs)"
  by (induction xs) (auto intro: le_SucI)

lemma failures_from_window:
  assumes "\<And>a. a \<in> set rows \<Longrightarrow> login_entry (u_merchantId u) (u_id u) ''SUCCESS'' a \<Longrightarrow> au_occurredAt a < t\<^sub>0"
    "t < t\<^sub>0 + FAILURE_WINDOW_MINUTES * 60000"
  shows "failures_from u t\<^sub>0 rows \<le> window_failures u t rows"
proof -
  have "count_from rows (u_merchantId u) (u_id u) (t - FAILURE_WINDOW_MINUTES * 60000) < t\<^sub>0"
    by (rule count_from_less) (use assms in auto)
  then show ?thesis unfolding failures_from_def window_failures_def failures_since_def
    by (intro length_filter_mono) auto
qed

text \<open>
  The state after some wrong attempts from \<open>t\<^sub>0\<close> on: nobody has signed in since, there are at least \<open>k\<close> failures on
  record, and the account is locked for half an hour from \<open>t\<^sub>0\<close> or there are fewer than five.
\<close>

definition failing :: "account_env \<Rightarrow> string \<Rightarrow> user_row \<Rightarrow> int \<Rightarrow> nat \<Rightarrow> account_world \<Rightarrow> bool" where
  "failing env email u t\<^sub>0 k w \<longleftrightarrow> (\<exists>v. sole email v (a_db w) \<and>
     u_id v = u_id u \<and> u_merchantId v = u_merchantId u \<and> u_passwordHash v = u_passwordHash u \<and>
     (\<forall>a \<in> set (audit (a_db w)). login_entry (u_merchantId u) (u_id u) ''SUCCESS'' a \<longrightarrow> au_occurredAt a < t\<^sub>0) \<and>
     k \<le> failures_from u t\<^sub>0 (audit (a_db w)) \<and>
     ((\<exists>l. u_lockedUntil v = Some l \<and> t\<^sub>0 + LOCKOUT_MINUTES * 60000 \<le> l) \<or> k < MAX_FAILURES_IN_WINDOW \<and> \<not> locked_at t\<^sub>0 v))"

lemma failing_step:
  assumes k: "failing env email u t\<^sub>0 k w" and t: "t\<^sub>0 \<le> t" "t < t\<^sub>0 + FAILURE_WINDOW_MINUTES * 60000"
    and wrong: "\<not> verifyPassword env pw (u_passwordHash u)"
  shows "failing env email u t\<^sub>0 (Suc k) (snd (login env email pw ctx (w\<lparr> a_now := t \<rparr>)))"
proof -
  obtain v where v: "sole email v (a_db w)" "u_id v = u_id u" "u_merchantId v = u_merchantId u" "u_passwordHash v = u_passwordHash u"
      "\<And>a. a \<in> set (audit (a_db w)) \<Longrightarrow> login_entry (u_merchantId u) (u_id u) ''SUCCESS'' a \<Longrightarrow> au_occurredAt a < t\<^sub>0"
      "k \<le> failures_from u t\<^sub>0 (audit (a_db w))"
    and lock: "(\<exists>l. u_lockedUntil v = Some l \<and> t\<^sub>0 + LOCKOUT_MINUTES * 60000 \<le> l) \<or> k < MAX_FAILURES_IN_WINDOW \<and> \<not> locked_at t\<^sub>0 v"
    using k unfolding failing_def by blast
  let ?row = "\<lambda>reason. failure_row v t reason ctx"
  have row: "\<not> login_entry m i ''SUCCESS'' (?row reason)" "failures_from u t\<^sub>0 (audit (a_db w) @ [?row reason]) = Suc (failures_from u t\<^sub>0 (audit (a_db w)))"
    for m i reason using v t(1) by (simp_all add: failure_row_def login_entry_def failures_from_def)
  show ?thesis
  proof (cases "locked_at t v")
    case True
    then have l: "login env email pw ctx (w\<lparr> a_now := t \<rparr>) = (Inl GENERIC_FAILURE,
        w\<lparr> a_now := t, a_db := (a_db w)\<lparr> audit := audit (a_db w) @ [?row ''LOCKED''] \<rparr> \<rparr>)"
      using login_locked[of email v "w\<lparr> a_now := t \<rparr>"] v(1) by simp
    have "\<exists>l. u_lockedUntil v = Some l \<and> t\<^sub>0 + LOCKOUT_MINUTES * 60000 \<le> l"
      using True lock t(1) by (auto simp: locked_at_def split: option.splits)
    then show ?thesis unfolding failing_def l using v row
      by (intro exI[of _ v]) (auto simp: sole_def)
  next
    case False
    let ?rows = "audit (a_db w) @ [?row ''BAD_PASSWORD'']"
    let ?n = "window_failures v t ?rows"
    have l: "login env email pw ctx (w\<lparr> a_now := t \<rparr>) = (Inl GENERIC_FAILURE, w\<lparr> a_now := t, a_db := (a_db w)\<lparr> audit := ?rows,
        users := map_rows (\<lambda>x. u_id x = u_id v) (failed_user t ?n) (users (a_db w)) \<rparr> \<rparr>)"
      using login_wrong[of email v "w\<lparr> a_now := t \<rparr>" env pw ctx] v(1,4) False wrong by (simp add: Let_def)
    have "failures_from v t\<^sub>0 ?rows \<le> ?n"
      by (rule failures_from_window) (use v row t(2) in auto)
    moreover have "failures_from v t\<^sub>0 ?rows = failures_from u t\<^sub>0 ?rows"
      by (simp only: failures_from_def v(2,3))
    ultimately have n: "Suc k \<le> ?n" using v(6) row(2)[of "''BAD_PASSWORD''"] by simp
    have "sole email (failed_user t ?n v) ((a_db w)\<lparr> audit := ?rows, users := map_rows (\<lambda>x. u_id x = u_id v) (failed_user t ?n) (users (a_db w)) \<rparr>)"
      using sole_update[OF v(1), of "failed_user t ?n" ?rows] by (simp add: failed_user_def sole_def)
    moreover have "(\<exists>l. u_lockedUntil (failed_user t ?n v) = Some l \<and> t\<^sub>0 + LOCKOUT_MINUTES * 60000 \<le> l) \<or>
        Suc k < MAX_FAILURES_IN_WINDOW \<and> \<not> locked_at t\<^sub>0 (failed_user t ?n v)"
      using n lock t(1) by (auto simp: failed_user_def locked_at_def split: option.splits)
    ultimately show ?thesis unfolding failing_def l using v row
      by (intro exI[of _ "failed_user t ?n v"]) (auto simp: failed_user_def)
  qed
qed

lemma failing_attempts:
  assumes "failing env email u t\<^sub>0 k w"
    "\<And>t pw ctx. (t, pw, ctx) \<in> set tries \<Longrightarrow> t\<^sub>0 \<le> t \<and> t < t\<^sub>0 + FAILURE_WINDOW_MINUTES * 60000 \<and> \<not> verifyPassword env pw (u_passwordHash u)"
  shows "failing env email u t\<^sub>0 (k + length tries) (attempts env email tries w)"
  using assms
proof (induction tries arbitrary: k w)
  case (Cons x tries)
  obtain t pw ctx where x: "x = (t, pw, ctx)" by (cases x)
  have "failing env email u t\<^sub>0 (Suc k) (snd (login env email pw ctx (w\<lparr> a_now := t \<rparr>)))"
    by (rule failing_step) (use Cons.prems x in auto)
  then have "failing env email u t\<^sub>0 (Suc k + length tries)
      (attempts env email tries (snd (login env email pw ctx (w\<lparr> a_now := t \<rparr>))))"
  proof (rule Cons.IH)
    fix t' pw' ctx' assume "(t', pw', ctx') \<in> set tries"
    then show "t\<^sub>0 \<le> t' \<and> t' < t\<^sub>0 + FAILURE_WINDOW_MINUTES * 60000 \<and> \<not> verifyPassword env pw' (u_passwordHash u)"
      using Cons.prems(2)[of t' pw' ctx'] by simp
  qed
  then show ?case by (simp add: x)
qed simp

lemma lockout_holds:
  assumes "sole email u (a_db w)" "\<not> locked_at t\<^sub>0 u"
    "\<And>a. a \<in> set (audit (a_db w)) \<Longrightarrow> login_entry (u_merchantId u) (u_id u) ''SUCCESS'' a \<Longrightarrow> au_occurredAt a < t\<^sub>0"
    "\<And>t pw ctx. (t, pw, ctx) \<in> set tries \<Longrightarrow> t\<^sub>0 \<le> t \<and> t < t\<^sub>0 + FAILURE_WINDOW_MINUTES * 60000 \<and> \<not> verifyPassword env pw (u_passwordHash u)"
    "MAX_FAILURES_IN_WINDOW \<le> length tries" "t < t\<^sub>0 + LOCKOUT_MINUTES * 60000"
  shows "\<exists>w'. login env email pw ctx ((attempts env email tries w)\<lparr> a_now := t \<rparr>) = (Inl GENERIC_FAILURE, w')"
proof -
  have "failing env email u t\<^sub>0 0 w"
    unfolding failing_def using assms(1-3) by (intro exI[of _ u]) (auto simp: MAX_FAILURES_IN_WINDOW_def)
  then have "failing env email u t\<^sub>0 (0 + length tries) (attempts env email tries w)"
    using assms(4) by (rule failing_attempts)
  then obtain v l where "sole email v (a_db (attempts env email tries w))" "u_lockedUntil v = Some l" "t\<^sub>0 + LOCKOUT_MINUTES * 60000 \<le> l"
    using assms(5) unfolding failing_def by auto
  then show ?thesis
    using login_locked[of email v "(attempts env email tries w)\<lparr> a_now := t \<rparr>" env pw ctx] assms(6) by (auto simp: locked_at_def)
qed

section \<open>Passwords and links\<close>

text \<open>What the code relies on of the digest library: a text encoding that can be undone and never holds a dollar sign.\<close>

definition codec_ok :: "account_env \<Rightarrow> bool" where
  "codec_ok env \<longleftrightarrow> (\<forall>x. ae_unbase64 env (ae_base64 env x) = x) \<and> (\<forall>x. CHR ''$'' \<notin> set (ae_base64 env x)) \<and>
     (\<forall>x. x \<noteq> [] \<longrightarrow> ae_base64 env x \<noteq> []) \<and> (\<forall>p s n. length (ae_scrypt env p s n) = n)"

lemma verify_hash_iff:
  assumes "codec_ok env" "salt \<noteq> []"
  shows "verifyPassword env q (hashPassword env p salt) \<longleftrightarrow> ae_scrypt env q salt key_length = ae_scrypt env p salt key_length"
proof -
  note codec = assms(1)[unfolded codec_ok_def]
  have ne: "ae_scrypt env p salt key_length \<noteq> []" using codec by (metis key_length_def length_0_conv zero_neq_numeral)
  have "hashPassword env p salt = ''scrypt'' @ CHR ''$'' # ae_base64 env salt @ CHR ''$'' # ae_base64 env (ae_scrypt env p salt key_length)"
    by (simp add: hashPassword_def)
  then have "split_on (CHR ''$'') (hashPassword env p salt) =
      [''scrypt'', ae_base64 env salt, ae_base64 env (ae_scrypt env p salt key_length)]"
    using codec by (simp only: split_on_append split_on_plain) (simp add: split_on_append)
  then show ?thesis
    using codec assms(2) ne by (auto simp: verifyPassword_def Let_def)
qed

definition spent :: "account_env \<Rightarrow> string \<Rightarrow> int \<Rightarrow> account_db \<Rightarrow> bool" where
  "spent env token t d \<longleftrightarrow> (\<forall>r \<in> set (reset_tokens d). tk_tokenHash r = ae_sha256 env token \<longrightarrow> tk_usedAt r \<noteq> None \<or> tk_expiresAt r \<le> t)"

lemma spent_filter: "spent env token t d \<Longrightarrow> filter (consumable (ae_sha256 env token) t) (reset_tokens d) = []"
  by (auto simp: spent_def consumable_def filter_empty_conv)

lemma consume_spent: "spent env token (a_now w) (a_db w) \<Longrightarrow> consume env token w = (Inr None, w)"
proof -
  assume "spent env token (a_now w) (a_db w)"
  then have none: "filter (consumable (ae_sha256 env token) (a_now w)) (reset_tokens (a_db w)) = []" by (rule spent_filter)
  then have "map_rows (consumable (ae_sha256 env token) (a_now w)) f (reset_tokens (a_db w)) = reset_tokens (a_db w)" for f
    by (intro map_rows_none) (simp add: list_ex_iff filter_empty_conv)
  then show ?thesis by (simp add: consume_def Let_def run_bind clock_def modify_db_def none)
qed

lemma consume_spends:
  "consume env token w = (r, w') \<Longrightarrow> spent env token (a_now w) (a_db w') \<and> a_now w' = a_now w"
  by (auto simp: consume_def Let_def run_bind clock_def modify_db_def spent_def map_rows_def consumable_def split: if_splits)

lemma spent_link:
  assumes "spent env token (a_now w) (a_db w)"
  shows "setPasswordWithToken env token pw ctx w = (Inl (Unauthorized ''this link is no longer valid''), w)"
  by (simp add: setPasswordWithToken_def run_bind consume_spent[OF assms])

lemma link_spends:
  "wp (setPasswordWithToken env token pw ctx) (\<lambda>_ w'. spent env token (a_now w) (a_db w')) (\<lambda>_ w'. spent env token (a_now w) (a_db w')) w"
proof -
  obtain r w\<^sub>1 where c: "consume env token w = (r, w\<^sub>1)" by fastforce
  show ?thesis
    unfolding setPasswordWithToken_def wp_bind
    by (rule wpI; drule consume_spends)
      (auto simp: wp_simps hash_password_def revokeAllForUser_def session_issue_def record_audit_def Let_def spent_def split: option.splits)
qed

text \<open>What a set-password link leaves behind.\<close>

definition link_result :: "account_env \<Rightarrow> string \<Rightarrow> account_world \<Rightarrow> login_result \<Rightarrow> account_world \<Rightarrow> string \<Rightarrow> bool" where
  "link_result env pw w r w' uid \<longleftrightarrow>
     (\<exists>h n u s. find (\<lambda>u. u_id u = uid) (users (a_db w)) = Some u \<and> h = hashPassword env pw (a_random w n) \<and>
        users (a_db w') = map_rows (\<lambda>u. u_id u = uid) (\<lambda>u. u\<lparr> u_passwordHash := h, u_status := ACTIVE, u_failedLogins := 0, u_lockedUntil := None \<rparr>) (users (a_db w)) \<and>
        lg_user r = identity_of (u\<lparr> u_passwordHash := h, u_status := ACTIVE, u_failedLogins := 0, u_lockedUntil := None \<rparr>) False \<and>
        lg_expiresAt r = a_now w + session_ttl_ms \<and>
        sessions (a_db w') = map_rows (\<lambda>s. se_userId s = uid \<and> se_revokedAt s = None) (\<lambda>s. s\<lparr> se_revokedAt := Some (a_now w) \<rparr>) (sessions (a_db w)) @ [s] \<and>
        se_userId s = uid \<and> se_tokenHash s = ae_sha256 env (lg_token r) \<and> se_expiresAt s = lg_expiresAt r \<and> se_revokedAt s = None \<and>
        \<not> list_ex (\<lambda>s. se_tokenHash s = ae_sha256 env (lg_token r)) (sessions (a_db w)) \<and> assignments (a_db w') = assignments (a_db w))"

lemma consume_frame:
  "consume env token w = (r, w') \<Longrightarrow> \<exists>ts. w' = w\<lparr> a_db := (a_db w)\<lparr> reset_tokens := ts \<rparr> \<rparr>"
  by (auto simp: consume_def Let_def run_bind clock_def modify_db_def split: if_splits)

lemma link_wp:
  "wp (setPasswordWithToken env token pw ctx) (\<lambda>r w'. \<exists>uid. link_result env pw w r w' uid) (\<lambda>_ _. True) w"
  unfolding setPasswordWithToken_def wp_bind
  apply (rule wpI; drule consume_frame)
   apply (auto simp: wp_simps hash_password_def revokeAllForUser_def session_issue_def record_audit_def Let_def list_ex_or list_ex_map_rows
      split: option.splits)
  subgoal for ts uid u
    by (rule exI[of _ uid], frule find_Some_iff') (auto simp: link_result_def)
  done


text \<open>The session of a row that resolves.\<close>

lemma resolve_row:
  assumes "find (\<lambda>s. se_tokenHash s = ae_sha256 env tok) (sessions (a_db w)) = Some s"
    "find (\<lambda>u. u_id u = se_userId s) (users (a_db w)) = Some u"
    "se_revokedAt s = None" "a_now w < se_expiresAt s" "u_status u \<noteq> SUSPENDED"
  shows "resolve env tok ip w = (Inr (Some \<lparr> rs_merchantId = u_merchantId u, rs_userId = u_id u, rs_role = u_role u,
       rs_assignedBrandIds = map snd (filter (\<lambda>a. fst a = u_id u) (assignments (a_db w))),
       rs_sessionId = se_id s, rs_sourceIp = ip \<rparr>), w)"
  using assms by (simp add: resolve_def egets_def app_resolve_session_def)

lemma resolveD:
  assumes "resolve env tok ip w = (Inr (Some sc), w')"
  obtains s u where "s \<in> set (sessions (a_db w))" "se_tokenHash s = ae_sha256 env tok" "se_revokedAt s = None"
    "a_now w < se_expiresAt s" "u \<in> set (users (a_db w))" "u_id u = se_userId s" "u_status u \<noteq> SUSPENDED"
    "rs_userId sc = u_id u" "rs_merchantId sc = u_merchantId u" "rs_role sc = u_role u" "rs_sessionId sc = se_id s"
  using assms that
  by (auto simp: resolve_def egets_def app_resolve_session_def split: option.splits if_splits dest!: find_Some_iff')

section \<open>Properties\<close>

text \<open>The token of a successful sign-in belongs to an account with that e-mail address and password that is
  neither suspended nor locked, and it resolves to that account's user, merchant, role and brands until it expires.\<close>

theorem login_resolves:
  assumes "login env email pw ctx w = (Inr r, w')" "distinct (map u_id (users (a_db w)))" "t < lg_expiresAt r"
  shows "\<exists>u \<in> set (users (a_db w)). u_email u = email \<and> verifyPassword env pw (u_passwordHash u) \<and>
    u_status u \<noteq> SUSPENDED \<and> \<not> locked_at (a_now w) u \<and>
    (\<exists>sid. resolve env (lg_token r) ip (w'\<lparr> a_now := t \<rparr>) =
      (Inr (Some \<lparr> rs_merchantId = u_merchantId u, rs_userId = u_id u, rs_role = u_role u,
         rs_assignedBrandIds = map snd (filter (\<lambda>a. fst a = u_id u) (assignments (a_db w))),
         rs_sessionId = sid, rs_sourceIp = ip \<rparr>), w'\<lparr> a_now := t \<rparr>))"
proof -
  obtain u where u: "signed_in env email pw w r w' u" using wp_value[OF login_wp assms(1)] by blast
  then show ?thesis
    using signed_in_resolves[OF u assms(2,3)] unfolding signed_in_def by (intro bexI[of _ u]) auto
qed

text \<open>Five wrong passwords within fifteen minutes lock an account: whatever is tried until half an hour
  after the first of them, the right password included, is answered with the generic failure.\<close>

theorem wrong_passwords_lock:
  assumes "sole email u (a_db w)" "\<not> locked_at t\<^sub>0 u"
    "\<And>a. a \<in> set (audit (a_db w)) \<Longrightarrow> login_entry (u_merchantId u) (u_id u) ''SUCCESS'' a \<Longrightarrow> au_occurredAt a < t\<^sub>0"
    "\<And>t pw ctx. (t, pw, ctx) \<in> set tries \<Longrightarrow> t\<^sub>0 \<le> t \<and> t < t\<^sub>0 + FAILURE_WINDOW_MINUTES * 60000 \<and> \<not> verifyPassword env pw (u_passwordHash u)"
    "MAX_FAILURES_IN_WINDOW \<le> length tries" "t < t\<^sub>0 + LOCKOUT_MINUTES * 60000"
  shows "\<exists>w'. login env email pw ctx ((attempts env email tries w)\<lparr> a_now := t \<rparr>) = (Inl GENERIC_FAILURE, w')"
  using assms by (rule lockout_holds)

text \<open>Following a set-password link hands the account over: the new password is the one that verifies, the
  account is active, the new session resolves to it, and no session issued before resolves to it any more.\<close>

theorem link_takes_over:
  assumes "setPasswordWithToken env token pw ctx w = (Inr r, w')" "distinct (map u_id (users (a_db w)))"
    "codec_ok env" "\<And>n. a_random w n \<noteq> []" "t < lg_expiresAt r"
  shows "\<exists>u \<in> set (users (a_db w')). u_id u = an_id (lg_user r) \<and> u_status u = ACTIVE \<and> verifyPassword env pw (u_passwordHash u) \<and>
    (\<exists>sc. resolve env (lg_token r) ip (w'\<lparr> a_now := t \<rparr>) = (Inr (Some sc), w'\<lparr> a_now := t \<rparr>) \<and> rs_userId sc = u_id u) \<and>
    (\<forall>tok sc w''. ae_sha256 env tok \<noteq> ae_sha256 env (lg_token r) \<and>
       resolve env tok ip (w'\<lparr> a_now := t \<rparr>) = (Inr (Some sc), w'') \<longrightarrow> rs_userId sc \<noteq> u_id u)"
proof -
  obtain uid where l: "link_result env pw w r w' uid" using wp_value[OF link_wp assms(1)] by blast
  let ?f = "\<lambda>h u. u\<lparr> u_passwordHash := h, u_status := ACTIVE, u_failedLogins := 0, u_lockedUntil := None \<rparr>"
  from l obtain h n u s where r: "find (\<lambda>u. u_id u = uid) (users (a_db w)) = Some u" "h = hashPassword env pw (a_random w n)"
      "users (a_db w') = map_rows (\<lambda>u. u_id u = uid) (?f h) (users (a_db w))" "lg_user r = identity_of (?f h u) False"
      "sessions (a_db w') = map_rows (\<lambda>s. se_userId s = uid \<and> se_revokedAt s = None) (\<lambda>s. s\<lparr> se_revokedAt := Some (a_now w) \<rparr>) (sessions (a_db w)) @ [s]"
      "se_userId s = uid" "se_tokenHash s = ae_sha256 env (lg_token r)" "se_expiresAt s = lg_expiresAt r" "se_revokedAt s = None"
      "\<not> list_ex (\<lambda>s. se_tokenHash s = ae_sha256 env (lg_token r)) (sessions (a_db w))"
    unfolding link_result_def by blast
  have id: "u_id u = uid" using find_Some_iff'[OF r(1)] by simp
  have fu: "find (\<lambda>u. u_id u = uid) (users (a_db w')) = Some (?f h u)"
    using r(1) id by (simp add: r(3) find_map_rows)
  have "find (\<lambda>s. se_tokenHash s = ae_sha256 env (lg_token r))
      (map_rows (\<lambda>s. se_userId s = uid \<and> se_revokedAt s = None) (\<lambda>s. s\<lparr> se_revokedAt := Some (a_now w) \<rparr>) (sessions (a_db w))) = None"
    using r(10) by (auto simp: find_None_iff' list_ex_iff map_rows_def)
  then have fs: "find (\<lambda>s. se_tokenHash s = ae_sha256 env (lg_token r)) (sessions (a_db w')) = Some s"
    by (simp add: r(5,7) find_append)
  have "\<exists>sc. resolve env (lg_token r) ip (w'\<lparr> a_now := t \<rparr>) = (Inr (Some sc), w'\<lparr> a_now := t \<rparr>) \<and> rs_userId sc = uid"
    using resolve_row[of env "lg_token r" "w'\<lparr> a_now := t \<rparr>" s "?f h u" ip] fs fu r(6,8,9) assms(5) id by simp
  moreover have "rs_userId sc \<noteq> uid"
    if "ae_sha256 env tok \<noteq> ae_sha256 env (lg_token r)" "resolve env tok ip (w'\<lparr> a_now := t \<rparr>) = (Inr (Some sc), w'')" for tok sc w''
    using that(2) by (rule resolveD) (use that(1) r(5,6,7) in \<open>auto simp: map_rows_def split: if_splits\<close>)
  moreover have "?f h u \<in> set (users (a_db w'))" using find_Some_iff'[OF fu] by simp
  moreover have "verifyPassword env pw h" unfolding r(2) using verify_hash_iff[OF assms(3,4)] by simp
  ultimately show ?thesis by (intro bexI[of _ "?f h u"]) (auto simp: r(4) id identity_of_def)
qed

section \<open>A small account database\<close>

fun sample_encode :: "string \<Rightarrow> string" where
  "sample_encode [] = []"
| "sample_encode (c # s) = (if c = CHR ''$'' then ''%d'' else if c = CHR ''%'' then ''%p'' else [c]) @ sample_encode s"

fun sample_decode :: "string \<Rightarrow> string" where
  "sample_decode [] = []"
| "sample_decode [c] = [c]"
| "sample_decode (c # d # s) = (if c = CHR ''%'' then (if d = CHR ''d'' then CHR ''$'' else CHR ''%'') # sample_decode s else c # sample_decode (d # s))"

definition sample_account_env :: account_env where
  "sample_account_env = \<lparr> ae_sha256 = rev, ae_scrypt = (\<lambda>p s n. take n (p @ s @ replicate n (CHR ''x''))),
     ae_base64 = sample_encode, ae_unbase64 = sample_decode, ae_encodeURI = (\<lambda>s. s), ae_adminUrl = ''https://admin'',
     ae_accepts = (\<lambda>_. True), ae_contains = (\<lambda>needle hay. needle = hay) \<rparr>"

lemma sample_codec: "codec_ok sample_account_env"
proof -
  have dec: "c \<noteq> CHR ''%'' \<Longrightarrow> sample_decode (c # s) = c # sample_decode s" for c s by (cases s) simp_all
  have "sample_decode (sample_encode x) = x" for x by (induction x) (simp_all add: dec)
  moreover have "CHR ''$'' \<notin> set (sample_encode x)" for x by (induction x) auto
  moreover have "x \<noteq> [] \<Longrightarrow> sample_encode x \<noteq> []" for x by (cases x) simp_all
  ultimately show ?thesis by (auto simp: codec_ok_def sample_account_env_def min_def)
qed

definition sample_user :: "string \<Rightarrow> string \<Rightarrow> role \<Rightarrow> user_status \<Rightarrow> string \<Rightarrow> user_row" where
  "sample_user uid email r st password = \<lparr> u_id = uid, u_merchantId = ''m1'', u_email = email,
     u_passwordHash = hashPassword sample_account_env password ''salt'', u_name = uid, u_role = r, u_status = st,
     u_lastLoginAt = None, u_failedLogins = 0, u_lockedUntil = None, u_createdAt = 0 \<rparr>"

definition sample_accounts :: account_world where
  "sample_accounts = \<lparr> a_db = \<lparr> merchants = [(''m1'', ''Acme'', ''o@acme'')],
       users = [sample_user ''owner'' ''o@acme'' MERCHANT_OWNER ACTIVE ''pw'', sample_user ''ann'' ''a@acme'' BRAND_ADMIN SUSPENDED ''pw''],
       assignments = [(''ann'', ''b1'')],
       sessions = [\<lparr> se_id = ''s1'', se_userId = ''ann'', se_tokenHash = rev ''cookie1'', se_expiresAt = 10000000, se_revokedAt = None,
         se_lastSeenAt = None, se_sourceIp = None, se_userAgent = None \<rparr>,
         \<lparr> se_id = ''s2'', se_userId = ''owner'', se_tokenHash = rev ''cookie2'', se_expiresAt = 10000000, se_revokedAt = None,
         se_lastSeenAt = None, se_sourceIp = None, se_userAgent = None \<rparr>],
       reset_tokens = [\<lparr> tk_userId = ''ann'', tk_tokenHash = rev ''link1'', tk_expiresAt = 86400000, tk_usedAt = None \<rparr>],
       audit = [], brand_owner = [(''b1'', ''m1''), (''b2'', ''m1'')] \<rparr>,
     a_mails = [], a_rates = (\<lambda>_. None), a_now = 1000, a_random = (\<lambda>n. replicate (Suc n) (CHR ''r'')), a_drawn = 0 \<rparr>"

definition sample_attempt :: attempt_context where
  "sample_attempt = \<lparr> ac_sourceIp = None, ac_userAgent = None \<rparr>"

lemma sample_ids: "distinct (map u_id (users (a_db sample_accounts)))"
  by (simp add: sample_accounts_def sample_user_def)


lemma run_case: "(case m w of (Inl e, w') \<Rightarrow> False | (Inr a, w') \<Rightarrow> P a w') \<Longrightarrow> \<exists>a w'. m w = (Inr a, w') \<and> P a w'"
  by (auto split: prod.splits sum.splits)

lemma sample_login:
  "\<exists>r w'. login sample_account_env ''o@acme'' ''pw'' sample_attempt sample_accounts = (Inr r, w') \<and> lg_expiresAt r = 43201000"
  by (rule run_case) code_simp

lemma sample_link:
  "\<exists>r w'. setPasswordWithToken sample_account_env ''link1'' ''new'' sample_attempt sample_accounts = (Inr r, w') \<and>
     lg_expiresAt r = 43201000 \<and> an_id (lg_user r) = ''ann''"
  by (rule run_case) code_simp


theorem login_resolves_witness:
  "\<exists>r w' u sc. login sample_account_env ''o@acme'' ''pw'' sample_attempt sample_accounts = (Inr r, w') \<and>
     u \<in> set (users (a_db sample_accounts)) \<and> u_email u = ''o@acme'' \<and>
     resolve sample_account_env (lg_token r) None (w'\<lparr> a_now := 43200999 \<rparr>) = (Inr (Some sc), w'\<lparr> a_now := 43200999 \<rparr>) \<and> rs_userId sc = u_id u"
proof -
  obtain r w' where r: "login sample_account_env ''o@acme'' ''pw'' sample_attempt sample_accounts = (Inr r, w')" "lg_expiresAt r = 43201000"
    using sample_login by blast
  have "43200999 < lg_expiresAt r" by (simp add: r)
  from login_resolves[OF r(1) sample_ids this, of None] show ?thesis using r(1) by fastforce
qed

definition sample_owner :: user_row where
  "sample_owner = sample_user ''owner'' ''o@acme'' MERCHANT_OWNER ACTIVE ''pw''"

definition sample_tries :: "(int \<times> string \<times> attempt_context) list" where
  "sample_tries = [(1000, ''a'', sample_attempt), (2000, ''b'', sample_attempt), (3000, ''c'', sample_attempt),
     (4000, ''d'', sample_attempt), (5000, ''e'', sample_attempt)]"

theorem wrong_passwords_lock_witness:
  "\<exists>w'. login sample_account_env ''o@acme'' ''pw'' sample_attempt
     ((attempts sample_account_env ''o@acme'' sample_tries sample_accounts)\<lparr> a_now := 1800999 \<rparr>) = (Inl GENERIC_FAILURE, w')"
proof (rule wrong_passwords_lock)
  show "sole ''o@acme'' sample_owner (a_db sample_accounts)"
    by (simp add: sole_def sample_accounts_def sample_user_def sample_owner_def)
  show "\<not> locked_at 1000 sample_owner" by (simp add: locked_at_def sample_owner_def sample_user_def)
  show "au_occurredAt a < 1000" if "a \<in> set (audit (a_db sample_accounts))" for a
    using that by (simp add: sample_accounts_def)
  have bad: "\<forall>x \<in> set sample_tries. \<not> verifyPassword sample_account_env (fst (snd x)) (u_passwordHash sample_owner)"
    by code_simp
  show "1000 \<le> t \<and> t < 1000 + FAILURE_WINDOW_MINUTES * 60000 \<and> \<not> verifyPassword sample_account_env pw (u_passwordHash sample_owner)"
    if "(t, pw, ctx) \<in> set sample_tries" for t pw ctx
    using that bad by (auto simp: sample_tries_def FAILURE_WINDOW_MINUTES_def)
qed (simp_all add: sample_tries_def MAX_FAILURES_IN_WINDOW_def LOCKOUT_MINUTES_def)

theorem link_takes_over_witness:
  "\<exists>r w' u. setPasswordWithToken sample_account_env ''link1'' ''new'' sample_attempt sample_accounts = (Inr r, w') \<and>
     u \<in> set (users (a_db w')) \<and> u_id u = ''ann'' \<and> u_status u = ACTIVE \<and> verifyPassword sample_account_env ''new'' (u_passwordHash u)"
proof -
  obtain r w' where r: "setPasswordWithToken sample_account_env ''link1'' ''new'' sample_attempt sample_accounts = (Inr r, w')"
      "lg_expiresAt r = 43201000" "an_id (lg_user r) = ''ann''"
    using sample_link by blast
  have "a_random sample_accounts n \<noteq> []" for n by (simp add: sample_accounts_def)
  moreover have "2000 < lg_expiresAt r" by (simp add: r)
  ultimately show ?thesis using link_takes_over[OF r(1) sample_ids sample_codec, of 2000 None] r by fastforce
qed

end
