(* ===== verification/Users.thy ===== *)
theory Users
  imports Accounts
begin

text \<open>
  User management (\<open>apps/api/src/users/users.service.ts\<close>): invitations, roles, brand assignments and suspension,
  each under the seniority rule and the row policies on users and assignments.
\<close>

section \<open>The service\<close>

record managed_user =
  mu_id :: string
  mu_email :: string
  mu_name :: string
  mu_role :: role
  mu_status :: user_status
  mu_assignedBrandIds :: "string list"
  mu_createdAt :: int
  mu_lastLoginAt :: "int option"

record managed_user_list =
  ml_data :: "managed_user list"
  ml_page :: nat
  ml_pageSize :: nat
  ml_total :: nat

record user_list_query =
  uq_search :: "string option"
  uq_role :: "role option"
  uq_status :: "user_status option"
  uq_page :: nat
  uq_pageSize :: nat

record invite_input =
  iv_email :: string
  iv_name :: string
  iv_role :: role
  iv_brandIds :: "string list"

text \<open>The policy on assignments, and the assignments of a user that a scope can read.\<close>

definition assignment_visible :: "request_scope \<Rightarrow> account_db \<Rightarrow> string \<times> string \<Rightarrow> bool" where
  "assignment_visible sc d a \<longleftrightarrow> app_brand_visible (map_of (brand_owner d)) (databaseScopeSettings (RequestScope sc)) (snd a)"

definition assignments_of :: "request_scope \<Rightarrow> account_db \<Rightarrow> string \<Rightarrow> string list" where
  "assignments_of sc d uid = map snd (filter (\<lambda>a. assignment_visible sc d a \<and> fst a = uid) (assignments d))"

definition toManagedUser :: "request_scope \<Rightarrow> account_db \<Rightarrow> user_row \<Rightarrow> managed_user" where
  "toManagedUser sc d row = \<lparr> mu_id = u_id row, mu_email = u_email row, mu_name = u_name row, mu_role = u_role row,
     mu_status = u_status row, mu_assignedBrandIds = assignments_of sc d (u_id row), mu_createdAt = u_createdAt row,
     mu_lastLoginAt = u_lastLoginAt row \<rparr>"

fun dedupe_from :: "string list \<Rightarrow> string list \<Rightarrow> string list" where
  "dedupe_from seen [] = []"
| "dedupe_from seen (x # xs) = (if x \<in> set seen then dedupe_from seen xs else x # dedupe_from (x # seen) xs)"

definition dedupe :: "string list \<Rightarrow> string list" where
  "dedupe = dedupe_from []"

definition visibilityWhere :: "request_scope \<Rightarrow> account_db \<Rightarrow> user_row \<Rightarrow> bool" where
  "visibilityWhere sc d u \<longleftrightarrow> coversAllBrands (rs_role sc) \<or> u_id u = rs_userId sc \<or>
     list_ex (\<lambda>b. b \<in> set (rs_assignedBrandIds sc)) (assignments_of sc d (u_id u))"

definition listWhere :: "account_env \<Rightarrow> request_scope \<Rightarrow> user_list_query \<Rightarrow> account_db \<Rightarrow> user_row \<Rightarrow> bool" where
  "listWhere env sc q d u \<longleftrightarrow> visibilityWhere sc d u \<and>
     (case uq_search q of None \<Rightarrow> True | Some s \<Rightarrow> s = [] \<or> ae_contains env s (u_name u) \<or> ae_contains env s (u_email u)) \<and>
     (case uq_role q of None \<Rightarrow> True | Some r \<Rightarrow> u_role u = r) \<and>
     (case uq_status q of None \<Rightarrow> True | Some s \<Rightarrow> u_status u = s)"

definition list_users :: "account_env \<Rightarrow> request_scope \<Rightarrow> user_list_query \<Rightarrow> managed_user_list account" where
  "list_users env sc q = scoped (egets (\<lambda>w.
     let d = a_db w;
         matching = filter (\<lambda>u. user_visible sc u \<and> listWhere env sc q d u) (users d);
         rows = take (uq_pageSize q) (drop ((uq_page q - 1) * uq_pageSize q) (sort_key (\<lambda>u. - u_createdAt u) matching))
     in \<lparr> ml_data = map (toManagedUser sc d) rows, ml_page = uq_page q, ml_pageSize = uq_pageSize q, ml_total = length matching \<rparr>))"

definition requireVisible :: "request_scope \<Rightarrow> string \<Rightarrow> user_row account" where
  "requireVisible sc uid =
     ebind (egets (\<lambda>w. find (\<lambda>u. user_visible sc u \<and> u_id u = uid \<and> visibilityWhere sc (a_db w) u) (users (a_db w)))) (\<lambda>row.
     elift (require row (NotFound ''user not found'')))"

definition managed :: "request_scope \<Rightarrow> user_row \<Rightarrow> managed_user account" where
  "managed sc u = egets (\<lambda>w. toManagedUser sc (a_db w) u)"

definition find_user_or_throw :: "request_scope \<Rightarrow> string \<Rightarrow> user_row account" where
  "find_user_or_throw sc uid =
     ebind (egets (\<lambda>w. find (\<lambda>u. user_visible sc u \<and> u_id u = uid) (users (a_db w)))) (\<lambda>row. elift (require row MissingRow))"

definition find_managed_user :: "request_scope \<Rightarrow> string \<Rightarrow> managed_user account" where
  "find_managed_user sc uid = scoped (ebind (requireVisible sc uid) (managed sc))"

definition translateWriteError :: "account_error \<Rightarrow> account_error" where
  "translateWriteError e = (case e of
     Duplicate _ \<Rightarrow> Conflicting ''a user with this email address already exists''
   | PolicyViolation \<Rightarrow> Forbidden ''insufficient permissions''
   | _ \<Rightarrow> e)"

text \<open>Writes on the assignment table, under its policy and its primary key.\<close>

definition assignments_delete :: "request_scope \<Rightarrow> (string \<times> string \<Rightarrow> bool) \<Rightarrow> unit account" where
  "assignments_delete sc P = modify_db (\<lambda>d. d\<lparr> assignments := filter (\<lambda>a. \<not> (assignment_visible sc d a \<and> P a)) (assignments d) \<rparr>)"

definition assignments_create :: "request_scope \<Rightarrow> string \<Rightarrow> string list \<Rightarrow> unit account" where
  "assignments_create sc uid brandIds =
     ebind (egets a_db) (\<lambda>d.
     ebind (elift (guard (list_all (\<lambda>b. assignment_visible sc d (uid, b)) brandIds) PolicyViolation)) (\<lambda>_.
     ebind (elift (guard (distinct brandIds \<and> list_all (\<lambda>b. (uid, b) \<notin> set (assignments d)) brandIds)
       (Duplicate ''user_brand_assignment''))) (\<lambda>_.
     modify_db (\<lambda>d. d\<lparr> assignments := assignments d @ map (Pair uid) brandIds \<rparr>))))"

definition assignments_create_new :: "request_scope \<Rightarrow> string \<Rightarrow> string list \<Rightarrow> unit account" where
  "assignments_create_new sc uid brandIds =
     ebind (egets a_db) (\<lambda>d.
     ebind (elift (guard (list_all (\<lambda>b. assignment_visible sc d (uid, b)) brandIds) PolicyViolation)) (\<lambda>_.
     modify_db (\<lambda>d. d\<lparr> assignments := assignments d @
       map (Pair uid) (filter (\<lambda>b. (uid, b) \<notin> set (assignments d)) (dedupe brandIds)) \<rparr>)))"

definition replaceAssignments :: "request_scope \<Rightarrow> string \<Rightarrow> string list \<Rightarrow> unit account" where
  "replaceAssignments sc uid brandIds =
     (if coversAllBrands (rs_role sc)
      then if brandIds = [] then ethrow (BadInput ''this role needs at least one assigned brand'')
           else ebind (user_update (user_visible sc) uid (\<lambda>u. u)) (\<lambda>_.
                ebind (assignments_delete sc (\<lambda>a. fst a = uid)) (\<lambda>_.
                assignments_create sc uid brandIds))
      else if list_ex (\<lambda>b. b \<notin> set (rs_assignedBrandIds sc)) brandIds
      then ethrow (Forbidden ''you may only assign brands you administer'')
      else ebind (assignments_delete sc (\<lambda>a. fst a = uid \<and> snd a \<in> set (rs_assignedBrandIds sc))) (\<lambda>_.
           if brandIds \<noteq> [] then assignments_create_new sc uid brandIds else ereturn ()))"

definition assertNotLastOwner :: "request_scope \<Rightarrow> string \<Rightarrow> unit account" where
  "assertNotLastOwner sc excludingUserId =
     ebind (egets (\<lambda>w. length (filter (\<lambda>u. user_visible sc u \<and> u_role u = MERCHANT_OWNER \<and> u_status u \<noteq> SUSPENDED \<and>
        u_id u \<noteq> excludingUserId) (users (a_db w))))) (\<lambda>remaining.
     elift (guard (remaining \<noteq> 0) (Conflicting ''the merchant must always have at least one active owner'')))"

definition user_create :: "request_scope \<Rightarrow> invite_input \<Rightarrow> string \<Rightarrow> string list \<Rightarrow> user_row account" where
  "user_create sc input passwordHash brandIds =
     ebind random_text (\<lambda>uid.
     ebind clock (\<lambda>now.
     let u = \<lparr> u_id = uid, u_merchantId = rs_merchantId sc, u_email = iv_email input, u_passwordHash = passwordHash,
           u_name = iv_name input, u_role = iv_role input, u_status = INVITED, u_lastLoginAt = None, u_failedLogins = 0,
           u_lockedUntil = None, u_createdAt = now \<rparr> in
     ebind (egets (\<lambda>w. list_ex (\<lambda>v. u_id v = uid \<or> u_merchantId v = rs_merchantId sc \<and> u_email v = iv_email input) (users (a_db w)))) (\<lambda>taken.
     ebind (elift (guard (user_visible sc u) PolicyViolation)) (\<lambda>_.
     ebind (elift (guard (\<not> taken) (Duplicate ''user''))) (\<lambda>_.
     ebind (modify_db (\<lambda>d. d\<lparr> users := users d @ [u] \<rparr>)) (\<lambda>_.
     ebind (assignments_create sc uid brandIds) (\<lambda>_. ereturn u)))))))"

definition invite :: "account_env \<Rightarrow> request_scope \<Rightarrow> invite_input \<Rightarrow> managed_user account" where
  "invite env sc input =
     (if \<not> mayAssignRole (rs_role sc) (iv_role input)
      then ethrow (Forbidden ''you may not assign a role above your own'') else
      let brandIds = (if coversAllBrands (iv_role input) then [] else dedupe (iv_brandIds input)) in
      if \<not> coversAllBrands (iv_role input) \<and> brandIds = []
      then ethrow (BadInput ''this role needs at least one assigned brand'')
      else if \<not> coversAllBrands (rs_role sc) \<and> list_ex (\<lambda>b. b \<notin> set (rs_assignedBrandIds sc)) brandIds
      then ethrow (Forbidden ''you may only assign brands you administer'')
      else ebind random_text (\<lambda>unusable.
           ebind (hash_password env unusable) (\<lambda>passwordHash.
           ebind (scoped (ebind (ecatch (user_create sc input passwordHash brandIds) (\<lambda>e. ethrow (translateWriteError e)))
              (\<lambda>u. ebind (managed sc u) (\<lambda>m. ereturn (u, m))))) (\<lambda>(created, m).
           ebind (reset_issue env (u_id created)) (\<lambda>(token, _).
           ebind (sendSetPasswordLink env (u_email created) (u_name created) token True) (\<lambda>_.
           ereturn m))))))"

text \<open>The writes of a role change: the role, and the assignments that go with it.\<close>

definition role_writes :: "request_scope \<Rightarrow> string \<Rightarrow> role \<Rightarrow> string list option \<Rightarrow> unit account" where
  "role_writes sc uid new_role brandIds =
     ebind (user_update (user_visible sc) uid (\<lambda>u. u\<lparr> u_role := new_role \<rparr>)) (\<lambda>_.
     ebind (if coversAllBrands new_role then assignments_delete sc (\<lambda>a. fst a = uid) else ereturn ()) (\<lambda>_.
     case brandIds of
       Some bs \<Rightarrow> (if \<not> coversAllBrands new_role then replaceAssignments sc uid (dedupe bs) else ereturn ())
     | None \<Rightarrow> ereturn ()))"

definition updateRole :: "request_scope \<Rightarrow> string \<Rightarrow> role \<Rightarrow> string list option \<Rightarrow> managed_user account" where
  "updateRole sc uid new_role brandIds =
     (if uid = rs_userId sc then ethrow (Forbidden ''you cannot change your own role'') else
      scoped (
        ebind (requireVisible sc uid) (\<lambda>existing.
        if \<not> mayAssignRole (rs_role sc) new_role \<or> \<not> mayAssignRole (rs_role sc) (u_role existing)
        then ethrow (Forbidden ''you may not assign a role above your own'') else
        ebind (if u_role existing = MERCHANT_OWNER \<and> new_role \<noteq> MERCHANT_OWNER
               then assertNotLastOwner sc (u_id existing) else ereturn ()) (\<lambda>_.
        let becomesBrandScoped = coversAllBrands (u_role existing) \<and> \<not> coversAllBrands new_role in
        if becomesBrandScoped \<and> (case brandIds of None \<Rightarrow> True | Some bs \<Rightarrow> bs = [])
        then ethrow (BadInput ''this role needs at least one assigned brand'') else
        ebind (ecatch (role_writes sc (u_id existing) new_role brandIds) (\<lambda>e. ethrow (translateWriteError e))) (\<lambda>_.
        ebind (find_user_or_throw sc (u_id existing)) (managed sc))))))"

definition updateBrands :: "request_scope \<Rightarrow> string \<Rightarrow> string list \<Rightarrow> managed_user account" where
  "updateBrands sc uid brandIds =
     (if uid = rs_userId sc then ethrow (Forbidden ''you cannot change your own brand assignments'') else
      let deduped = dedupe brandIds in
      scoped (
        ebind (requireVisible sc uid) (\<lambda>existing.
        if \<not> mayAssignRole (rs_role sc) (u_role existing) then ethrow (Forbidden ''insufficient permissions for this user'')
        else if coversAllBrands (u_role existing) then ethrow (Forbidden ''this role already covers every brand'')
        else ebind (replaceAssignments sc (u_id existing) deduped) (\<lambda>_.
             ebind (find_user_or_throw sc (u_id existing)) (managed sc)))))"

definition with_status :: "user_status \<Rightarrow> user_row \<Rightarrow> user_row" where
  "with_status status u = (if status = SUSPENDED
     then u\<lparr> u_status := status, u_failedLogins := 0, u_lockedUntil := None \<rparr> else u\<lparr> u_status := status \<rparr>)"

definition updateStatus :: "request_scope \<Rightarrow> string \<Rightarrow> user_status \<Rightarrow> managed_user account" where
  "updateStatus sc uid status =
     (if uid = rs_userId sc then ethrow (Forbidden ''you cannot change your own account status'') else
      scoped (
        ebind (requireVisible sc uid) (\<lambda>existing.
        if \<not> mayAssignRole (rs_role sc) (u_role existing) then ethrow (Forbidden ''insufficient permissions for this user'') else
        ebind (if status = SUSPENDED \<and> u_role existing = MERCHANT_OWNER then assertNotLastOwner sc (u_id existing) else ereturn ()) (\<lambda>_.
        ebind (user_update (user_visible sc) (u_id existing) (with_status status)) (managed sc)))))"


section \<open>Who may change whom\<close>

text \<open>\<open>answers_to\<close>: an account of the actor's merchant, not above the actor and not the actor's own.\<close>

definition answers_to :: "request_scope \<Rightarrow> user_row \<Rightarrow> bool" where
  "answers_to sc u \<longleftrightarrow> u_merchantId u = rs_merchantId sc \<and> u_role u \<le> rs_role sc \<and> u_id u \<noteq> rs_userId sc"

definition same_account :: "user_row \<Rightarrow> user_row \<Rightarrow> bool" where
  "same_account u v \<longleftrightarrow> u_id v = u_id u \<and> u_merchantId v = u_merchantId u \<and> u_email v = u_email u \<and> u_passwordHash v = u_passwordHash u"

definition users_within :: "request_scope \<Rightarrow> user_row list \<Rightarrow> user_row list \<Rightarrow> bool" where
  "users_within sc us us' \<longleftrightarrow>
     (\<exists>f new. us' = map f us @ new \<and> (\<forall>u \<in> set us. f u = u \<or> same_account u (f u) \<and> answers_to sc u \<and> answers_to sc (f u)) \<and>
        (\<forall>u \<in> set new. answers_to sc u \<and> u_status u = INVITED))"

definition may_assign_brand :: "request_scope \<Rightarrow> account_db \<Rightarrow> string \<Rightarrow> bool" where
  "may_assign_brand sc d b \<longleftrightarrow> assignment_visible sc d ([], b) \<and> (coversAllBrands (rs_role sc) \<or> b \<in> set (rs_assignedBrandIds sc))"

definition brands_within :: "request_scope \<Rightarrow> account_db \<Rightarrow> account_db \<Rightarrow> bool" where
  "brands_within sc d d' \<longleftrightarrow> brand_owner d' = brand_owner d \<and>
     (\<forall>uid b. ((uid, b) \<in> set (assignments d)) \<noteq> ((uid, b) \<in> set (assignments d')) \<longrightarrow> uid \<noteq> rs_userId sc \<and> may_assign_brand sc d b)"

lemma users_within_refl: "users_within sc us us"
  unfolding users_within_def by (intro exI[of _ id] exI[of _ "[]"]) simp

lemma users_within_update:
  assumes "\<And>u. u \<in> set us \<Longrightarrow> P u \<Longrightarrow> same_account u (f u) \<and> answers_to sc u \<and> answers_to sc (f u)"
  shows "users_within sc us (map_rows P f us)"
  unfolding users_within_def using assms by (intro exI[of _ "\<lambda>u. if P u then f u else u"] exI[of _ "[]"]) (auto simp: map_rows_def)

lemma users_within_new: "answers_to sc u \<Longrightarrow> u_status u = INVITED \<Longrightarrow> users_within sc us (us @ [u])"
  unfolding users_within_def by (intro exI[of _ id] exI[of _ "[u]"]) simp

lemma brands_within_refl: "assignments d' = assignments d \<Longrightarrow> brand_owner d' = brand_owner d \<Longrightarrow> brands_within sc d d'"
  by (simp add: brands_within_def)

lemma visible_owner: "brand_owner d' = brand_owner d \<Longrightarrow> assignment_visible sc d' (i, b) = assignment_visible sc d ([], b)"
  by (simp add: assignment_visible_def)

lemma may_assign_same: "brand_owner d' = brand_owner d \<Longrightarrow> may_assign_brand sc d' b = may_assign_brand sc d b"
  by (simp add: may_assign_brand_def assignment_visible_def)

lemma brands_within_trans: "brands_within sc d d' \<Longrightarrow> brands_within sc d' d'' \<Longrightarrow> brands_within sc d d''"
  unfolding brands_within_def using may_assign_same[of d' d] by metis

lemma wp_assignments_delete [wp_simps]:
  "wp (assignments_delete sc P) Q E = (\<lambda>w. Q () (w\<lparr> a_db := (a_db w)\<lparr> assignments := filter (\<lambda>a. \<not> (assignment_visible sc (a_db w) a \<and> P a)) (assignments (a_db w)) \<rparr> \<rparr>))"
  by (simp add: assignments_delete_def wp_simps)

lemma mem_dedupe: "x \<in> set (dedupe xs) \<longleftrightarrow> x \<in> set xs"
proof -
  have "x \<in> set (dedupe_from seen xs) \<longleftrightarrow> x \<in> set xs \<and> x \<notin> set seen" for seen
    by (induction xs arbitrary: seen) auto
  then show ?thesis by (simp add: dedupe_def)
qed

lemma replaceAssignments_within:
  assumes "uid \<noteq> rs_userId sc"
  shows "wp (replaceAssignments sc uid bs) (\<lambda>_ w'. users (a_db w') = users (a_db w) \<and> brands_within sc (a_db w) (a_db w')) (\<lambda>_ _. True) w"
proof -
  have same: "map_rows P (\<lambda>u. u) rows = rows" for P and rows :: "user_row list" by (simp add: map_rows_def)
  show ?thesis
    unfolding replaceAssignments_def assignments_create_def assignments_create_new_def
    using assms
    by (auto simp: wp_simps same brands_within_def may_assign_brand_def assignment_visible_def list_all_iff list_ex_iff mem_dedupe split: option.splits)
qed

lemma user_visible_merchant: "user_visible sc u \<Longrightarrow> u_merchantId u = rs_merchantId sc"
  using app_merchant_id_settings[of "RequestScope sc"] by (simp add: user_visible_def del: databaseScopeSettings.simps)

definition found_user :: "request_scope \<Rightarrow> string \<Rightarrow> account_world \<Rightarrow> user_row \<Rightarrow> bool" where
  "found_user sc uid w u \<longleftrightarrow> u \<in> set (users (a_db w)) \<and> user_visible sc u \<and> u_id u = uid"

lemma wp_requireVisible:
  "(\<And>u. found_user sc uid w u \<Longrightarrow> visibilityWhere sc (a_db w) u \<Longrightarrow> Q u w) \<Longrightarrow> (\<And>e. E e w) \<Longrightarrow> wp (requireVisible sc uid) Q E w"
  by (auto simp: requireVisible_def wp_simps found_user_def split: option.splits dest!: find_Some_iff')

lemma only_found:
  "\<lbrakk>distinct (map u_id (users (a_db w))); found_user sc uid w u; v \<in> set (users (a_db w)); u_id v = uid\<rbrakk> \<Longrightarrow> v = u"
  unfolding found_user_def using distinct_key_eq by fastforce

definition kept_within :: "request_scope \<Rightarrow> account_world \<Rightarrow> account_world \<Rightarrow> bool" where
  "kept_within sc w w' \<longleftrightarrow> users_within sc (users (a_db w)) (users (a_db w')) \<and> brands_within sc (a_db w) (a_db w')"

lemma kept_within_db: "a_db w' = a_db w \<Longrightarrow> kept_within sc w w'"
  by (simp add: kept_within_def users_within_refl brands_within_refl)

lemma kept_within_update:
  assumes "distinct (map u_id (users (a_db w)))" "found_user sc uid w u" "uid \<noteq> rs_userId sc" "u_role u \<le> rs_role sc"
    "same_account u (f u)" "u_role (f u) \<le> rs_role sc"
  shows "users_within sc (users (a_db w)) (map_rows (\<lambda>v. user_visible sc v \<and> u_id v = uid) f (users (a_db w)))"
proof (rule users_within_update)
  fix v assume "v \<in> set (users (a_db w))" "user_visible sc v \<and> u_id v = uid"
  then have v: "v = u" using only_found[OF assms(1,2)] by blast
  show "same_account v (f v) \<and> answers_to sc v \<and> answers_to sc (f v)"
    unfolding v using assms user_visible_merchant[of sc u] by (auto simp: answers_to_def same_account_def found_user_def)
qed

lemma mayAssign_le: "mayAssignRole a t \<Longrightarrow> t \<le> a"
  by (simp add: mayAssignRole_iff)

lemma wp_scoped_visible:
  assumes "\<And>u. found_user sc uid w u \<Longrightarrow> wp (f u) (\<lambda>_. kept_within sc w) (\<lambda>_ _. True) w"
  shows "wp (scoped (ebind (requireVisible sc uid) f)) (\<lambda>_. kept_within sc w) (\<lambda>_. kept_within sc w) w"
proof -
  have "wp (ebind (requireVisible sc uid) f) (\<lambda>_. kept_within sc w) (\<lambda>_ _. True) w"
    unfolding wp_bind by (rule wp_requireVisible) (use assms in auto)
  then show ?thesis by (auto simp: wp_simps wp_def kept_within_db split: prod.splits sum.splits)
qed

lemma updateStatus_within:
  assumes "distinct (map u_id (users (a_db w)))"
  shows "wp (updateStatus sc uid status) (\<lambda>_. kept_within sc w) (\<lambda>_. kept_within sc w) w"
proof (cases "uid = rs_userId sc")
  case False
  have upd: "wp (user_update (user_visible sc) (u_id u) f) (\<lambda>_. kept_within sc w) (\<lambda>_ _. True) w"
    if "found_user sc uid w u" "mayAssignRole (rs_role sc) (u_role u)" "same_account u (f u)" "u_role (f u) = u_role u" for u f
  proof -
    have "users_within sc (users (a_db w)) (map_rows (\<lambda>v. user_visible sc v \<and> u_id v = uid) f (users (a_db w)))"
      by (rule kept_within_update) (use assms that mayAssign_le[OF that(2)] False in auto)
    then show ?thesis using that(1)
      by (auto simp: wp_simps kept_within_def brands_within_def found_user_def split: option.splits)
  qed
  have managed: "wp (ebind m (managed sc)) (\<lambda>_. kept_within sc w) E w" if "wp m (\<lambda>_. kept_within sc w) E w" for m E
    using that by (simp add: managed_def wp_simps)
  have "wp (ebind (user_update (user_visible sc) (u_id u) (with_status status)) (managed sc))
       (\<lambda>_. kept_within sc w) (\<lambda>_ _. True) w"
    if "found_user sc uid w u" "mayAssignRole (rs_role sc) (u_role u)" for u
    by (rule managed[OF upd]) (use that in \<open>auto simp: same_account_def with_status_def\<close>)
  then show ?thesis
    unfolding updateStatus_def using False
    by (auto intro!: wp_scoped_visible simp: wp_if wp_pure wp_bind[of "if _ then _ else _"] assertNotLastOwner_def wp_bind[of "egets _"] wp_guard)
qed (simp add: updateStatus_def wp_simps kept_within_db)

lemma updateBrands_within:
  "wp (updateBrands sc uid bs) (\<lambda>_. kept_within sc w) (\<lambda>_. kept_within sc w) w"
proof (cases "uid = rs_userId sc")
  case False
  have "wp (ebind (replaceAssignments sc (u_id u) bs') (\<lambda>_. ebind (find_user_or_throw sc (u_id u)) (managed sc)))
      (\<lambda>_. kept_within sc w) (\<lambda>_ _. True) w" if "found_user sc uid w u" for u bs'
    unfolding wp_bind
    by (rule wp_mono[OF replaceAssignments_within])
      (use that False in \<open>auto simp: found_user_def kept_within_def users_within_refl find_user_or_throw_def managed_def wp_simps split: option.splits\<close>)
  then show ?thesis
    unfolding updateBrands_def Let_def using False
    by (auto intro!: wp_scoped_visible simp: wp_if wp_pure)
qed (simp add: updateBrands_def wp_simps kept_within_db)


lemma brands_within_delete:
  assumes "uid \<noteq> rs_userId sc" "coversAllBrands (rs_role sc)" "brand_owner d' = brand_owner d"
    "assignments d' = filter (\<lambda>a. \<not> (assignment_visible sc d a \<and> fst a = uid)) (assignments d)"
  shows "brands_within sc d d'"
  using assms by (auto simp: brands_within_def may_assign_brand_def assignment_visible_def)

lemma updateRole_core:
  assumes "distinct (map u_id (users (a_db w)))" "found_user sc uid w u" "uid \<noteq> rs_userId sc"
    "mayAssignRole (rs_role sc) new_role" "mayAssignRole (rs_role sc) (u_role u)"
  shows "wp (role_writes sc (u_id u) new_role brandIds) (\<lambda>_. kept_within sc w) (\<lambda>_ _. True) w"
proof -
  let ?us = "map_rows (\<lambda>v. user_visible sc v \<and> u_id v = uid) (\<lambda>u. u\<lparr> u_role := new_role \<rparr>) (users (a_db w))"
  let ?w = "w\<lparr> a_db := (a_db w)\<lparr> users := ?us \<rparr> \<rparr>"
  have us: "users_within sc (users (a_db w)) ?us"
    by (rule kept_within_update) (use assms mayAssign_le in \<open>auto simp: same_account_def\<close>)
  have replaced: "wp (replaceAssignments sc uid bs) (\<lambda>_. kept_within sc w) (\<lambda>_ _. True) ?w" for bs
    by (rule wp_mono[OF replaceAssignments_within]) (use us assms(3) in \<open>auto simp: kept_within_def brands_within_def may_assign_brand_def assignment_visible_def\<close>)
  have actor: "coversAllBrands new_role \<Longrightarrow> coversAllBrands (rs_role sc)"
    using mayAssign_le[OF assms(4)] by (auto simp: coversAllBrands_iff)
  have id: "u_id u = uid" using assms(2) by (simp add: found_user_def)
  have deleted: "kept_within sc w (w\<lparr> a_db := (a_db w)\<lparr> users := ?us, assignments := filter (\<lambda>a. assignment_visible sc (a_db ?w) a \<longrightarrow> fst a \<noteq> uid) (assignments (a_db w)) \<rparr> \<rparr>)"
    if "coversAllBrands new_role"
    unfolding kept_within_def using us
    by (auto intro!: brands_within_delete[OF assms(3) actor[OF that]] simp: assignment_visible_def)
  have kept: "kept_within sc w ?w" using us by (simp add: kept_within_def brands_within_refl)
  show ?thesis
    by (cases brandIds) (use replaced deleted kept in \<open>auto simp: role_writes_def wp_simps id split: option.splits\<close>)
qed

lemma updateRole_within:
  assumes "distinct (map u_id (users (a_db w)))"
  shows "wp (updateRole sc uid new_role brandIds) (\<lambda>_. kept_within sc w) (\<lambda>_. kept_within sc w) w"
proof (cases "uid = rs_userId sc")
  case False
  have "wp (ebind (ecatch m (\<lambda>e. ethrow (translateWriteError e))) (\<lambda>_. ebind (find_user_or_throw sc (u_id u)) (managed sc)))
      (\<lambda>_. kept_within sc w) (\<lambda>_ _. True) w" if "wp m (\<lambda>_. kept_within sc w) (\<lambda>_ _. True) w" for m :: "unit account" and u
    unfolding wp_bind wp_catch
    by (rule wp_mono[OF that]) (auto simp: find_user_or_throw_def managed_def wp_simps split: option.splits)
  note step = this[OF updateRole_core[OF assms _ False]]
  show ?thesis
    unfolding updateRole_def Let_def using False
    by (auto intro!: wp_scoped_visible step simp: wp_if wp_pure wp_bind[of "if _ then _ else _"] assertNotLastOwner_def wp_bind[of "egets _"] wp_guard)
qed (simp add: updateRole_def wp_simps kept_within_db)

lemma user_create_within:
  assumes "\<exists>u \<in> set (users (a_db w)). u_id u = rs_userId sc" "iv_role input \<le> rs_role sc"
    "\<forall>b \<in> set bs. coversAllBrands (rs_role sc) \<or> b \<in> set (rs_assignedBrandIds sc)"
  shows "wp (user_create sc input h bs) (\<lambda>_. kept_within sc w) (\<lambda>_ _. True) w"
proof -
  have new: "users_within sc us (us @ [u])" if "u_role u = iv_role input" "u_merchantId u = rs_merchantId sc" "u_id u \<noteq> rs_userId sc" "u_status u = INVITED" for us u
    by (rule users_within_new) (use that assms(2) in \<open>simp_all add: answers_to_def\<close>)
  show ?thesis
    unfolding user_create_def assignments_create_def Let_def
    using assms(1,3)
    by (auto simp: wp_simps kept_within_def list_ex_iff list_all_iff brands_within_def may_assign_brand_def assignment_visible_def intro!: new)
qed


lemma invite_within:
  assumes "\<exists>u \<in> set (users (a_db w)). u_id u = rs_userId sc"
  shows "wp (invite env sc input) (\<lambda>_. kept_within sc w) (\<lambda>_. kept_within sc w) w"
proof -
  have created: "wp (scoped (ebind (ecatch (user_create sc input h bs) (\<lambda>e. ethrow (translateWriteError e)))
      (\<lambda>u. ebind (managed sc u) (\<lambda>m. ereturn (u, m))))) (\<lambda>_ w'. kept_within sc w w') (\<lambda>_ w'. kept_within sc w w') (w\<lparr> a_drawn := n \<rparr>)"
    if "mayAssignRole (rs_role sc) (iv_role input)" "\<forall>b \<in> set bs. coversAllBrands (rs_role sc) \<or> b \<in> set (rs_assignedBrandIds sc)" for h bs n
  proof -
    have "wp (user_create sc input h bs) (\<lambda>_. kept_within sc w) (\<lambda>_ _. True) (w\<lparr> a_drawn := n \<rparr>)"
      by (rule wp_mono[OF user_create_within]) (use assms that mayAssign_le in \<open>auto simp: kept_within_def\<close>)
    from wp_mono[OF this, where Q' = "\<lambda>_. kept_within sc w" and E' = "\<lambda>_ w'. kept_within sc w (w'\<lparr> a_db := a_db w \<rparr>)"]
    show ?thesis by (simp add: wp_simps managed_def kept_within_db)
  qed
  have mailed: "wp (ebind (reset_issue env uid) (\<lambda>(token, _). ebind (sendSetPasswordLink env e nm token True) (\<lambda>_. ereturn m)))
      (\<lambda>_. kept_within sc w) (\<lambda>_. kept_within sc w) w'" if "kept_within sc w w'" for uid e nm m w'
  proof -
    have "wp (reset_issue env uid) (\<lambda>_. kept_within sc w) (\<lambda>_. kept_within sc w) w'"
      using that by (simp add: reset_issue_def Let_def wp_simps kept_within_def brands_within_def)
    moreover have "wp (ebind (sendSetPasswordLink env e nm token True) (\<lambda>_. ereturn m)) (\<lambda>_. kept_within sc w) (\<lambda>_. kept_within sc w) w''"
      if "kept_within sc w w''" for token w''
      unfolding wp_bind wp_pure by (rule wp_sendSetPasswordLink) (use that in \<open>simp_all add: kept_within_def\<close>)
    ultimately show ?thesis
      unfolding wp_bind[of "reset_issue env uid"] by (elim wp_mono) auto
  qed
  have rest: "wp (ebind random_text (\<lambda>unusable. ebind (hash_password env unusable) (\<lambda>passwordHash.
       ebind (scoped (ebind (ecatch (user_create sc input passwordHash bs) (\<lambda>e. ethrow (translateWriteError e)))
              (\<lambda>u. ebind (managed sc u) (\<lambda>m. ereturn (u, m))))) (\<lambda>(created, m).
           ebind (reset_issue env (u_id created)) (\<lambda>(token, _).
           ebind (sendSetPasswordLink env (u_email created) (u_name created) token True) (\<lambda>_.
           ereturn m)))))) (\<lambda>_. kept_within sc w) (\<lambda>_. kept_within sc w) w"
    if "mayAssignRole (rs_role sc) (iv_role input)" "\<forall>b \<in> set bs. coversAllBrands (rs_role sc) \<or> b \<in> set (rs_assignedBrandIds sc)" for bs
    unfolding hash_password_def wp_bind[of random_text] wp_random_text wp_bind[of "ebind random_text _"] wp_pure wp_bind[of "scoped _"]
    by simp (rule wp_mono[OF created[OF that]], auto simp: split_def intro!: mailed[unfolded split_def])
  show ?thesis
    unfolding invite_def Let_def
    by (auto simp: wp_if wp_pure kept_within_db list_ex_iff coversAllBrands_iff intro!: rest)
qed

text \<open>One management request on behalf of a signed-in user.\<close>

inductive management :: "account_env \<Rightarrow> request_scope \<Rightarrow> account_world \<Rightarrow> account_world \<Rightarrow> bool" for env sc where
  invites: "invite env sc input w = (r, w') \<Longrightarrow> management env sc w w'"
| sets_role: "updateRole sc uid new_role brandIds w = (r, w') \<Longrightarrow> management env sc w w'"
| sets_brands: "updateBrands sc uid bs w = (r, w') \<Longrightarrow> management env sc w w'"
| sets_status: "updateStatus sc uid status w = (r, w') \<Longrightarrow> management env sc w w'"

inductive_cases managementE: "management env sc w w'"

lemma wp_any_run: "wp m (\<lambda>_. P) (\<lambda>_. P) w \<Longrightarrow> m w = (r, w') \<Longrightarrow> P w'"
  using wp_any by fastforce

lemma management_kept:
  assumes "management env sc w w'" "distinct (map u_id (users (a_db w)))" "\<exists>u \<in> set (users (a_db w)). u_id u = rs_userId sc"
  shows "kept_within sc w w'"
  using assms(1)
  by cases (auto intro: wp_any_run[OF invite_within[OF assms(3)]] wp_any_run[OF updateRole_within[OF assms(2)]]
    wp_any_run[OF updateBrands_within] wp_any_run[OF updateStatus_within[OF assms(2)]])

section \<open>Owners\<close>

definition active_owner :: "string \<Rightarrow> user_row \<Rightarrow> bool" where
  "active_owner m u \<longleftrightarrow> u_merchantId u = m \<and> u_role u = MERCHANT_OWNER \<and> u_status u \<noteq> SUSPENDED"

definition has_owner :: "string \<Rightarrow> account_world \<Rightarrow> bool" where
  "has_owner m w \<longleftrightarrow> list_ex (active_owner m) (users (a_db w))"

definition other_owner :: "request_scope \<Rightarrow> string \<Rightarrow> account_world \<Rightarrow> bool" where
  "other_owner sc uid w \<longleftrightarrow> (\<exists>v \<in> set (users (a_db w)). u_id v \<noteq> uid \<and> active_owner (rs_merchantId sc) v)"

lemma wp_assertNotLastOwner:
  "(other_owner sc uid w \<Longrightarrow> Q () w) \<Longrightarrow> (\<And>e. E e w) \<Longrightarrow> wp (assertNotLastOwner sc uid) Q E w"
  by (auto simp: assertNotLastOwner_def wp_simps other_owner_def active_owner_def filter_empty_conv dest: user_visible_merchant)

lemma has_owner_update:
  assumes "has_owner m w" "distinct (map u_id (users (a_db w)))" "found_user sc uid w u" "other_owner sc uid w \<or> (active_owner m u \<longrightarrow> active_owner m (f u))"
  shows "list_ex (active_owner m) (map_rows (\<lambda>v. user_visible sc v \<and> u_id v = uid) f (users (a_db w)))"
proof -
  obtain v where v: "v \<in> set (users (a_db w))" "active_owner m v" using assms(1) by (auto simp: has_owner_def list_ex_iff)
  have "\<exists>v \<in> set (users (a_db w)). active_owner m v \<and> \<not> (user_visible sc v \<and> u_id v = uid) \<or> active_owner m (f v) \<and> user_visible sc v \<and> u_id v = uid"
  proof (cases "user_visible sc v \<and> u_id v = uid")
    case True
    then have "v = u" "rs_merchantId sc = m" using only_found[OF assms(2,3) v(1)] user_visible_merchant[of sc v] v(2) by (auto simp: active_owner_def)
    then show ?thesis using assms(4) v True by (auto simp: other_owner_def)
  qed (use v in blast)
  then show ?thesis by (auto simp: list_ex_iff map_rows_def)
qed

end
