(* ===== verification/AccountRequests.thy ===== *)
theory AccountRequests
  imports Auth Users
begin

text \<open>
  The account services as a running system: one step per request, purge or tick of the clock; what survives
  every sequence of steps: each merchant's owner, and the end of a used link and of a session signed out of.
\<close>

section \<open>Invariants of the account services\<close>

text \<open>
  What an invariant of the account tables has to survive: the writes of the services. The first group leaves the
  users alone, the second changes a user without moving or suspending them, the third adds one; the two writes
  that can take an owner away are laws of their own.
\<close>

locale account_invariant =
  fixes env :: account_env and I :: "account_world \<Rightarrow> bool"
  assumes law_random: "preserves I random_text"
    and law_rollback: "I w \<Longrightarrow> I w' \<Longrightarrow> I (w'\<lparr> a_db := a_db w \<rparr>)"
    and law_audit: "preserves I (record_audit merchant uid outcome reason ctx action)"
    and law_mail: "preserves I (sendSetPasswordLink env recipient name token new)"
    and law_rate: "preserves I (acquireGenericRateToken key limit seconds)"
    and law_session: "preserves I (session_issue env uid ctx)"
    and law_touch: "preserves I (touch sid)"
    and law_revoke: "preserves I (revoke sid)"
    and law_revoke_all: "preserves I (revokeAllForUser uid)"
    and law_link: "preserves I (reset_issue env uid)"
    and law_consume: "preserves I (consume env token)"
    and law_purge: "preserves I purge_sessions" "preserves I purge_tokens"
    and law_assignments: "preserves I (modify_db (\<lambda>d. d\<lparr> assignments := as d \<rparr>))"
    and law_user: "(\<And>u. u_id (f u) = u_id u \<and> u_merchantId (f u) = u_merchantId u \<and> u_role (f u) = u_role u \<and>
        (u_status (f u) = u_status u \<or> u_status (f u) \<noteq> SUSPENDED)) \<Longrightarrow> preserves I (user_update vis uid f)"
    and law_registered: "preserves I (register_rows email name hash)"
    and law_created: "preserves I (user_create sc input hash bs)"
    and law_role: "preserves I (updateRole sc uid new_role brandIds)"
    and law_status: "preserves I (updateStatus sc uid status)"
    and law_time: "I w \<Longrightarrow> a_now w \<le> t \<Longrightarrow> I (w\<lparr> a_now := t \<rparr>)"
begin

lemmas kept_writes [preserves_intros] = law_random law_audit law_mail law_rate law_session law_touch law_revoke law_revoke_all law_link
  law_consume law_purge law_assignments law_registered law_created law_role law_status

lemma kept_reads [preserves_intros]: "preserves I clock" "preserves I (managed sc u)"
  by (simp_all add: clock_def managed_def preserves_intros)

lemma kept_scoped [preserves_intros]: "preserves I m \<Longrightarrow> preserves I (scoped m)"
  unfolding scoped_def transaction_def preserves_def
  by (auto split: prod.splits sum.splits) (metis law_rollback snd_conv)+

lemma kept_password [preserves_intros]: "preserves I (hash_password env pw)"
  unfolding hash_password_def by (intro preserves_intros)

lemma kept_split [preserves_intros]: "(\<And>a b. preserves I (f a b)) \<Longrightarrow> preserves I (case x of (a, b) \<Rightarrow> f a b)"
  by (cases x) simp

lemma kept_login: "preserves I (login env email pw ctx)"
  unfolding login_def registerFailure_def Let_def
  by (intro preserves_intros law_user) simp_all

lemma kept_register: "preserves I (register env email name ctx)"
  unfolding register_def by (intro preserves_intros)

lemma kept_forgot: "preserves I (requestPasswordReset env email ctx)"
  unfolding requestPasswordReset_def send_reset_def by (intro preserves_intros)

lemma kept_by_link: "preserves I (setPasswordWithToken env token pw ctx)"
  unfolding setPasswordWithToken_def by (intro preserves_intros law_user) simp_all

lemma kept_own: "preserves I (setPassword env sc pw)" "preserves I (logout sc)"
  unfolding setPassword_def logout_def by (intro preserves_intros law_user; simp)+

lemma kept_replace [preserves_intros]: "preserves I (replaceAssignments sc uid bs)"
  unfolding replaceAssignments_def assignments_delete_def assignments_create_def assignments_create_new_def
  by (intro preserves_intros law_user) simp_all

lemma kept_brands: "preserves I (updateBrands sc uid bs)"
  unfolding updateBrands_def Let_def requireVisible_def find_user_or_throw_def by (intro preserves_intros)

lemma kept_invite: "preserves I (invite env sc input)"
  unfolding invite_def Let_def by (intro preserves_intros)

end

section \<open>The running service\<close>

text \<open>
  One request, a scheduled purge, or the clock moving on. A request that needs a signed-in user runs in the scope
  its session resolves to.
\<close>

definition signed_in_as :: "account_env \<Rightarrow> account_world \<Rightarrow> request_scope \<Rightarrow> bool" where
  "signed_in_as env w sc \<longleftrightarrow> (\<exists>token ip. resolve env token ip w = (Inr (Some sc), w))"

inductive account_step :: "account_env \<Rightarrow> account_world \<Rightarrow> account_world \<Rightarrow> bool" for env where
  signs_in: "login env email pw ctx w = (r, w') \<Longrightarrow> account_step env w w'"
| registers: "register env email name ctx w = (r, w') \<Longrightarrow> account_step env w w'"
| forgets: "requestPasswordReset env email ctx w = (r, w') \<Longrightarrow> account_step env w w'"
| follows_link: "setPasswordWithToken env token pw ctx w = (r, w') \<Longrightarrow> account_step env w w'"
| sets_password: "\<lbrakk>signed_in_as env w sc; setPassword env sc pw w = (r, w')\<rbrakk> \<Longrightarrow> account_step env w w'"
| signs_out: "\<lbrakk>signed_in_as env w sc; logout sc w = (r, w')\<rbrakk> \<Longrightarrow> account_step env w w'"
| is_seen: "\<lbrakk>signed_in_as env w sc; touch (rs_sessionId sc) w = (r, w')\<rbrakk> \<Longrightarrow> account_step env w w'"
| manages: "\<lbrakk>signed_in_as env w sc; management env sc w w'\<rbrakk> \<Longrightarrow> account_step env w w'"
| purges_sessions: "purge_sessions w = (r, w') \<Longrightarrow> account_step env w w'"
| purges_tokens: "purge_tokens w = (r, w') \<Longrightarrow> account_step env w w'"
| time_passes: "a_now w \<le> t \<Longrightarrow> account_step env w (w\<lparr> a_now := t \<rparr>)"

context account_invariant
begin

lemma management_keeps: "management env sc w w' \<Longrightarrow> I w \<Longrightarrow> I w'"
  by (elim managementE) (auto elim: preservesD[rotated -1] intro: preservesD[OF kept_invite] preservesD[OF law_role] preservesD[OF kept_brands] preservesD[OF law_status])

lemma step_keeps: "account_step env w w' \<Longrightarrow> I w \<Longrightarrow> I w'"
proof (induction rule: account_step.induct)
  case (manages w sc w') then show ?case by (blast intro: management_keeps)
next
  case (time_passes w t) then show ?case by (blast intro: law_time)
qed (blast intro: preservesD kept_login kept_register kept_forgot kept_by_link kept_own law_touch law_purge)+

lemma steps_keep: "(account_step env)\<^sup>*\<^sup>* w w' \<Longrightarrow> I w \<Longrightarrow> I w'"
  by (induction rule: rtranclp_induct) (auto dest: step_keeps)

end


section \<open>Every merchant keeps an owner\<close>

definition owned :: "string \<Rightarrow> account_world \<Rightarrow> bool" where
  "owned m w \<longleftrightarrow> distinct (map u_id (users (a_db w))) \<and> has_owner m w"

lemma owned_users: "users (a_db w') = users (a_db w) \<Longrightarrow> owned m w' = owned m w"
  by (simp add: owned_def has_owner_def)

lemma owned_same: "owned m w \<Longrightarrow> users (a_db w') = users (a_db w) \<Longrightarrow> owned m w'"
  by (simp add: owned_def has_owner_def)

lemma owned_wp: "(\<And>w. wp m (\<lambda>_ w'. users (a_db w') = users (a_db w)) (\<lambda>_ w'. users (a_db w') = users (a_db w)) w) \<Longrightarrow> preserves (owned i) m"
proof -
  assume users: "\<And>w. wp m (\<lambda>_ w'. users (a_db w') = users (a_db w)) (\<lambda>_ w'. users (a_db w') = users (a_db w)) w"
  have "wp m (\<lambda>_. owned i) (\<lambda>_. owned i) w" if "owned i w" for w
    by (rule wp_mono[OF users]) (auto intro: owned_same[OF that])
  then show ?thesis by (simp add: preserves_wp)
qed

lemma list_ex_rows: "list_ex P rows \<Longrightarrow> (\<And>r. P r \<Longrightarrow> P (f r)) \<Longrightarrow> list_ex P (map_rows Q f rows)"
  by (induction rows) (auto simp: map_rows_def)

lemma map_rows_ids: "(\<And>u. u_id (f u) = u_id u) \<Longrightarrow> map u_id (map_rows P f us) = map u_id us"
  by (rule map_rows_keys)

lemma owned_update:
  assumes "\<And>u. u_id (f u) = u_id u" "\<And>u. active_owner m u \<Longrightarrow> active_owner m (f u)"
  shows "preserves (owned m) (user_update vis uid f)"
  unfolding preserves_wp using assms
  by (auto simp: wp_simps owned_def has_owner_def map_rows_ids list_ex_rows split: option.splits)

lemma owned_added:
  assumes "owned m w" "\<not> list_ex (\<lambda>v. u_id v = u_id u) (users (a_db w))" "users (a_db w') = users (a_db w) @ [u]"
  shows "owned m w'"
  using assms by (auto simp: owned_def has_owner_def list_ex_iff)

lemma owned_rows:
  assumes "owned m w" "found_user sc uid w u" "other_owner sc uid w \<or> (active_owner m u \<longrightarrow> active_owner m (f u))"
    "\<And>u. u_id (f u) = u_id u" "users (a_db w') = map_rows (\<lambda>v. user_visible sc v \<and> u_id v = uid) f (users (a_db w))"
  shows "owned m w'"
  using assms has_owner_update[of m w sc uid u f] by (auto simp: owned_def has_owner_def map_rows_ids)

lemma owned_scoped: "(\<And>w. owned m w \<Longrightarrow> wp n (\<lambda>_. owned m) (\<lambda>_ _. True) w) \<Longrightarrow> preserves (owned m) (scoped n)"
proof -
  assume n: "\<And>w. owned m w \<Longrightarrow> wp n (\<lambda>_. owned m) (\<lambda>_ _. True) w"
  have "wp n (\<lambda>_. owned m) (\<lambda>e w'. owned m (w'\<lparr> a_db := a_db w \<rparr>)) w" if "owned m w" for w
    by (rule wp_mono[OF n[OF that]]) (auto intro: owned_same[OF that])
  then show ?thesis by (simp add: preserves_wp wp_scoped)
qed

lemma owned_status: "preserves (owned m) (updateStatus sc uid status)"
proof -
  have upd: "wp (ebind (user_update (user_visible sc) (u_id u) (with_status status)) (managed sc)) (\<lambda>_. owned m) (\<lambda>_ _. True) w"
    if "owned m w" "found_user sc uid w u" "other_owner sc (u_id u) w \<or> \<not> (status = SUSPENDED \<and> u_role u = MERCHANT_OWNER)" for u w status
  proof -
    have "u_id u = uid" using that(2) by (simp add: found_user_def)
    then show ?thesis using that
      by (auto simp: wp_simps managed_def active_owner_def with_status_def split: option.splits intro!: owned_rows[OF that(1,2), of "with_status status"])
  qed
  show ?thesis
    unfolding updateStatus_def
    by (cases "uid = rs_userId sc")
      (auto simp: preserves_intros wp_if wp_pure wp_bind[of "if _ then _ else _"] wp_bind[of "requireVisible _ _"]
        intro!: owned_scoped wp_requireVisible wp_assertNotLastOwner upd)
qed


lemma owned_role: "preserves (owned m) (updateRole sc uid new_role brandIds)"
proof -
  have replaced: "wp (replaceAssignments sc i bs) (\<lambda>_. owned m) (\<lambda>_ _. True) w" if "owned m w" "i \<noteq> rs_userId sc" for i bs w
    by (rule wp_mono[OF replaceAssignments_within]) (auto intro: owned_same[OF that(1)] simp: that(2))
  have writes: "wp (role_writes sc (u_id u) new_role bs) (\<lambda>_. owned m) (\<lambda>_ _. True) w"
    if "owned m w" "found_user sc uid w u" "other_owner sc (u_id u) w \<or> \<not> (u_role u = MERCHANT_OWNER \<and> new_role \<noteq> MERCHANT_OWNER)"
      "uid \<noteq> rs_userId sc" for u w new_role bs
  proof -
    have id: "u_id u = uid" using that(2) by (simp add: found_user_def)
    let ?f = "\<lambda>u. u\<lparr> u_role := new_role \<rparr>"
    have set: "owned m w'" if "users (a_db w') = map_rows (\<lambda>v. user_visible sc v \<and> u_id v = uid) ?f (users (a_db w))" for w'
      by (rule owned_rows[OF \<open>owned m w\<close> \<open>found_user sc uid w u\<close>, of ?f])
        (use that \<open>_ \<or> _\<close> id in \<open>auto simp: active_owner_def\<close>)
    show ?thesis
      unfolding role_writes_def
      by (cases bs) (use id that(4) in \<open>auto simp: wp_simps set intro!: replaced split: option.splits\<close>)
  qed
  have rest: "wp (ebind (ecatch m' (\<lambda>e. ethrow (translateWriteError e))) (\<lambda>_. ebind (find_user_or_throw sc i) (managed sc)))
      (\<lambda>_. owned m) (\<lambda>_ _. True) w" if "wp m' (\<lambda>_. owned m) (\<lambda>_ _. True) w" for m' :: "unit account" and i w
    unfolding wp_bind wp_catch
    by (rule wp_mono[OF that]) (auto simp: find_user_or_throw_def managed_def wp_simps split: option.splits)
  have writes': "wp (role_writes sc (u_id u) new_role bs) (\<lambda>_. owned m) (\<lambda>_ _. True) w"
    if "owned m w" "found_user sc uid w u" "other_owner sc (u_id u) w" "uid \<noteq> rs_userId sc" for u w new_role bs
    using writes that by blast
  show ?thesis
    unfolding updateRole_def Let_def
    by (cases "uid = rs_userId sc")
      (auto simp: preserves_intros wp_if wp_pure wp_bind[of "if _ then _ else _"] wp_bind[of "requireVisible _ _"]
        intro!: owned_scoped wp_requireVisible wp_assertNotLastOwner rest intro: writes writes')
qed

lemma owned_created: "preserves (owned m) (user_create sc input hash bs)"
proof -
  have "wp (user_create sc input hash bs) (\<lambda>_. owned m) (\<lambda>_. owned m) w" if "owned m w" for w
    unfolding user_create_def assignments_create_def Let_def using that
    by (auto simp: wp_simps owned_def has_owner_def list_ex_iff)
  then show ?thesis by (simp add: preserves_wp)
qed

lemma owned_registered: "preserves (owned m) (register_rows email name hash)"
proof -
  have "wp (register_rows email name hash) (\<lambda>_. owned m) (\<lambda>_. owned m) w" if "owned m w" for w
    unfolding register_rows_def using that
    by (auto simp: wp_simps owned_def has_owner_def list_ex_iff)
  then show ?thesis by (simp add: preserves_wp)
qed

text \<open>The writes that leave the users alone.\<close>

lemma owned_writes:
  "preserves (owned m) random_text" "preserves (owned m) (record_audit merchant uid outcome reason ctx action)"
  "preserves (owned m) (session_issue env uid ctx)" "preserves (owned m) (touch sid)" "preserves (owned m) (revoke sid)"
  "preserves (owned m) (revokeAllForUser uid)" "preserves (owned m) (reset_issue env uid)" "preserves (owned m) (consume env token)"
  "preserves (owned m) purge_sessions" "preserves (owned m) purge_tokens"
  "preserves (owned m) (modify_db (\<lambda>d. d\<lparr> assignments := as d \<rparr>))"
  by (rule owned_wp; simp add: wp_simps record_audit_def session_issue_def Let_def touch_def revoke_def session_update_def
    revokeAllForUser_def reset_issue_def consume_def purge_sessions_def purge_tokens_def)+

lemma owned_outside:
  "preserves (owned m) (sendSetPasswordLink env recipient name token new)" "preserves (owned m) (acquireGenericRateToken key limit seconds)"
  by (rule owned_wp; simp add: wp_def sendSetPasswordLink_def acquireGenericRateToken_def Let_def split_def)+

interpretation owners: account_invariant env "owned m" for env m
proof unfold_locales
  show "preserves (owned m) (user_update vis uid f)"
    if "\<And>u. u_id (f u) = u_id u \<and> u_merchantId (f u) = u_merchantId u \<and> u_role (f u) = u_role u \<and>
        (u_status (f u) = u_status u \<or> u_status (f u) \<noteq> SUSPENDED)" for vis uid f
  proof (rule owned_update)
    show "u_id (f u) = u_id u" for u using that[of u] by simp
    show "active_owner m u \<Longrightarrow> active_owner m (f u)" for u using that[of u] by (auto simp: active_owner_def)
  qed
  show "owned m (w'\<lparr> a_db := a_db w \<rparr>)" if "owned m w" for w w' by (rule owned_same[OF that]) simp
  show "owned m (w\<lparr> a_now := t \<rparr>)" if "owned m w" for w t by (rule owned_same[OF that]) simp
qed (fact owned_writes owned_outside owned_role owned_status owned_created owned_registered)+


section \<open>Credentials that stay dead\<close>

text \<open>An invariant of sessions and links alone: whatever the services do to users and brands leaves it.\<close>

definition same_credentials :: "account_world \<Rightarrow> account_world \<Rightarrow> bool" where
  "same_credentials w w' \<longleftrightarrow> sessions (a_db w') = sessions (a_db w) \<and> reset_tokens (a_db w') = reset_tokens (a_db w) \<and>
     a_now w' = a_now w \<and> a_random w' = a_random w \<and> a_drawn w \<le> a_drawn w'"

locale credential_invariant =
  fixes env :: account_env and I :: "account_world \<Rightarrow> bool"
  assumes frame: "I w \<Longrightarrow> same_credentials w w' \<Longrightarrow> I w'"
    and rollback: "I w \<Longrightarrow> I w' \<Longrightarrow> I (w'\<lparr> a_db := a_db w \<rparr>)"
    and writes: "preserves I (session_issue env uid ctx)" "preserves I (touch sid)" "preserves I (revoke sid)"
      "preserves I (revokeAllForUser uid)" "preserves I (reset_issue env uid)" "preserves I (consume env token)"
      "preserves I purge_sessions" "preserves I purge_tokens"
    and time: "I w \<Longrightarrow> a_now w \<le> t \<Longrightarrow> I (w\<lparr> a_now := t \<rparr>)"
begin

lemma framed: "(\<And>w. wp m (\<lambda>_. same_credentials w) (\<lambda>_. same_credentials w) w) \<Longrightarrow> preserves I m"
proof -
  assume m: "\<And>w. wp m (\<lambda>_. same_credentials w) (\<lambda>_. same_credentials w) w"
  have "wp m (\<lambda>_. I) (\<lambda>_. I) w" if "I w" for w
    by (rule wp_mono[OF m]) (auto intro: frame[OF that])
  then show ?thesis by (simp add: preserves_wp)
qed

lemma unframed:
  "preserves I random_text" "preserves I (record_audit merchant uid outcome reason ctx action)"
  "preserves I (modify_db (\<lambda>d. d\<lparr> assignments := as d \<rparr>))"
  by (rule framed; simp add: wp_simps record_audit_def same_credentials_def)+

lemma user_writes: "preserves I (user_update vis uid f)"
  by (rule framed) (simp add: wp_user_update same_credentials_def split: option.split)

lemma registered: "preserves I (register_rows email name hash)"
  unfolding register_rows_def by (rule framed) (auto simp: wp_simps same_credentials_def)

lemma sent: "preserves I (sendSetPasswordLink env recipient name token new)" "preserves I (acquireGenericRateToken key limit seconds)"
  by (rule framed; simp add: wp_def sendSetPasswordLink_def acquireGenericRateToken_def Let_def split_def same_credentials_def)+

lemma created: "preserves I (user_create sc input hash bs)"
  unfolding user_create_def assignments_create_def Let_def
  by (rule framed; auto simp: wp_simps same_credentials_def)

lemma scoped_kept: "preserves I m \<Longrightarrow> preserves I (scoped m)"
  unfolding scoped_def transaction_def preserves_def
  by (auto split: prod.splits sum.splits) (metis rollback snd_conv)+

lemma replaced: "preserves I (replaceAssignments sc uid bs)"
  unfolding replaceAssignments_def assignments_delete_def assignments_create_def assignments_create_new_def
  by (intro preserves_intros unframed user_writes)

lemma role: "preserves I (updateRole sc uid new_role brandIds)"
  unfolding updateRole_def role_writes_def assignments_delete_def Let_def requireVisible_def find_user_or_throw_def managed_def assertNotLastOwner_def
  by (intro preserves_intros unframed user_writes scoped_kept replaced)

lemma status: "preserves I (updateStatus sc uid st)"
  unfolding updateStatus_def requireVisible_def managed_def assertNotLastOwner_def
  by (intro preserves_intros unframed user_writes scoped_kept)

end

sublocale credential_invariant \<subseteq> account_invariant env I
proof unfold_locales
  show "preserves I (user_update vis uid f)" for vis uid f by (fact user_writes)
qed (fact unframed sent writes registered created role status rollback time)+

definition fresh_from :: "account_env \<Rightarrow> string \<Rightarrow> account_world \<Rightarrow> bool" where
  "fresh_from env token w \<longleftrightarrow> (\<forall>n \<ge> a_drawn w. ae_sha256 env (a_random w n) \<noteq> ae_sha256 env token)"

definition dead_link :: "account_env \<Rightarrow> string \<Rightarrow> int \<Rightarrow> account_world \<Rightarrow> bool" where
  "dead_link env token t w \<longleftrightarrow> fresh_from env token w \<and> t \<le> a_now w \<and> spent env token t (a_db w)"

definition ended :: "account_env \<Rightarrow> string \<Rightarrow> int \<Rightarrow> account_db \<Rightarrow> bool" where
  "ended env token t d \<longleftrightarrow> (\<forall>s \<in> set (sessions d). se_tokenHash s = ae_sha256 env token \<longrightarrow> se_revokedAt s \<noteq> None \<or> se_expiresAt s \<le> t)"

definition dead_session :: "account_env \<Rightarrow> string \<Rightarrow> int \<Rightarrow> account_world \<Rightarrow> bool" where
  "dead_session env token t w \<longleftrightarrow> fresh_from env token w \<and> t \<le> a_now w \<and> ended env token t (a_db w)"

lemmas dead_defs = dead_link_def dead_session_def fresh_from_def spent_def ended_def

lemmas credential_writes = session_issue_def touch_def revoke_def session_update_def revokeAllForUser_def reset_issue_def consume_def
  purge_sessions_def purge_tokens_def

interpretation used_links: credential_invariant env "dead_link env token t" for env token t
  by unfold_locales
    (auto simp: preserves_wp wp_simps credential_writes Let_def dead_defs same_credentials_def map_rows_def consumable_def)

interpretation ended_sessions: credential_invariant env "dead_session env token t" for env token t
  by unfold_locales
    (auto simp: preserves_wp wp_simps credential_writes Let_def dead_defs same_credentials_def map_rows_def)


lemma link_dies:
  assumes "setPasswordWithToken env token pw ctx w = (r, w')" "fresh_from env token w"
  shows "dead_link env token (a_now w) w'"
proof -
  obtain c w\<^sub>1 where c: "consume env token w = (c, w\<^sub>1)" by fastforce
  have dead: "dead_link env token (a_now w) w\<^sub>1"
    using consume_spends[OF c] consume_frame[OF c] assms(2) by (auto simp: dead_link_def fresh_from_def)
  have rest: "preserves (dead_link env token (a_now w)) (setPasswordWithToken env token pw ctx)" by (rule used_links.kept_by_link)
  show ?thesis
  proof (cases c)
    case (Inl e)
    then show ?thesis using assms(1) c dead by (simp add: setPasswordWithToken_def run_bind)
  next
    case (Inr claim)
    let ?rest = "\<lambda>claim. ebind (elift (require claim (Unauthorized ''this link is no longer valid''))) (\<lambda>userId.
     ebind (hash_password env pw) (\<lambda>passwordHash.
     ebind (user_update (\<lambda>_. True) userId
        (\<lambda>u. u\<lparr> u_passwordHash := passwordHash, u_status := ACTIVE, u_failedLogins := 0, u_lockedUntil := None \<rparr>)) (\<lambda>user.
     ebind (revokeAllForUser (u_id user)) (\<lambda>_.
     ebind (session_issue env (u_id user) ctx) (\<lambda>(sessionToken, expiresAt).
     ebind (record_audit (u_merchantId user) (u_id user) ''SUCCESS'' None ctx AUDIT_PASSWORD_SET) (\<lambda>_.
     ereturn \<lparr> lg_token = sessionToken, lg_expiresAt = expiresAt, lg_user = identity_of user False \<rparr>))))))"
    have "preserves (dead_link env token (a_now w)) (?rest claim)"
      by (intro preserves_intros used_links.kept_writes used_links.kept_password used_links.kept_split used_links.law_user) simp_all
    then show ?thesis
      using assms(1) c Inr dead by (auto simp: setPasswordWithToken_def run_bind intro: preservesD)
  qed
qed

section \<open>Properties\<close>

text \<open>C8: Inviting, changing a role, assigning brands and suspending stay within the actor's reach: every account
  they change or create belongs to the actor's merchant, is not the actor's own, and ranks no higher than the actor, before
  and after; no address or password changes; and every assignment they add or remove is another user's, for a brand the
  actor may assign.\<close>

theorem management_within:
  assumes "management env sc w w'" "distinct (map u_id (users (a_db w)))" "\<exists>u \<in> set (users (a_db w)). u_id u = rs_userId sc"
  shows "users_within sc (users (a_db w)) (users (a_db w')) \<and> brands_within sc (a_db w) (a_db w')"
  using management_kept[OF assms] by (simp add: kept_within_def)

text \<open>C9: A merchant with an owner that is not suspended has one after any sequence of sign-ins, registrations, links,
  invitations, role changes, suspensions and purges.\<close>

theorem merchant_keeps_owner:
  assumes "(account_step env)\<^sup>*\<^sup>* w w'" "distinct (map u_id (users (a_db w)))" "has_owner m w"
  shows "has_owner m w'"
  using owners.steps_keep[OF assms(1), of m] assms(2,3) by (simp add: owned_def)

text \<open>C10: A set-password link works once: after it has been tried, whatever requests come in between, trying it
  again is refused and changes nothing.\<close>

theorem link_works_once:
  assumes "setPasswordWithToken env token pw ctx w = (r, w\<^sub>1)" "fresh_from env token w" "(account_step env)\<^sup>*\<^sup>* w\<^sub>1 w\<^sub>2"
  shows "setPasswordWithToken env token pw' ctx' w\<^sub>2 = (Inl (Unauthorized ''this link is no longer valid''), w\<^sub>2)"
proof -
  have "dead_link env token (a_now w) w\<^sub>2"
    by (rule used_links.steps_keep[OF assms(3)]) (rule link_dies[OF assms(1,2)])
  then have "spent env token (a_now w\<^sub>2) (a_db w\<^sub>2)" by (fastforce simp: dead_link_def spent_def)
  then show ?thesis by (rule spent_link)
qed

text \<open>C11: Signing out is final: the token of the session never resolves again, whatever requests follow.\<close>

theorem logout_is_final:
  assumes "resolve env token ip w = (Inr (Some sc), w)" "logout sc w = (Inr (), w\<^sub>1)" "distinct (map se_tokenHash (sessions (a_db w)))"
    "fresh_from env token w" "(account_step env)\<^sup>*\<^sup>* w\<^sub>1 w\<^sub>2"
  shows "resolve env token ip' w\<^sub>2 = (Inr None, w\<^sub>2)"
proof -
  obtain s where s: "s \<in> set (sessions (a_db w))" "se_tokenHash s = ae_sha256 env token" "rs_sessionId sc = se_id s"
    using assms(1) by (rule resolveD)
  have only: "x = s" if "x \<in> set (sessions (a_db w))" "se_tokenHash x = ae_sha256 env token" for x
    using that s distinct_key_eq[OF assms(3)] by metis
  have "wp (logout sc) (\<lambda>_. dead_session env token (a_now w)) (\<lambda>_ _. True) w"
    using assms(4) only s(3) by (auto simp: logout_def revoke_def session_update_def record_audit_def wp_simps dead_defs map_rows_def)
  from wp_value[OF this assms(2)] have "dead_session env token (a_now w) w\<^sub>2" by (rule ended_sessions.steps_keep[OF assms(5)])
  then have "ended env token (a_now w\<^sub>2) (a_db w\<^sub>2)" by (fastforce simp: dead_session_def ended_def)
  then show ?thesis
    by (auto simp: resolve_def egets_def app_resolve_session_def ended_def split: option.splits dest!: find_Some_iff')
qed


section \<open>Instances\<close>

definition sample_owner_scope :: request_scope where
  "sample_owner_scope = \<lparr> rs_merchantId = ''m1'', rs_userId = ''owner'', rs_role = MERCHANT_OWNER, rs_assignedBrandIds = [],
     rs_sessionId = ''s2'', rs_sourceIp = None \<rparr>"

lemma sample_resolves: "resolve sample_account_env ''cookie2'' None sample_accounts = (Inr (Some sample_owner_scope), sample_accounts)"
  by (simp add: resolve_def egets_def app_resolve_session_def sample_accounts_def sample_account_env_def sample_owner_scope_def sample_user_def)

lemma sample_fresh: "fresh_from sample_account_env token sample_accounts" if "hd (rev token) \<noteq> CHR ''r''" for token
proof -
  have "rev (replicate (Suc n) (CHR ''r'')) \<noteq> rev token" for n
    using that by (metis hd_replicate rev_replicate nat.distinct(1))
  then show ?thesis by (simp add: fresh_from_def sample_accounts_def sample_account_env_def)
qed

definition sample_reinstated :: account_world where
  "sample_reinstated = snd (updateStatus sample_owner_scope ''ann'' ACTIVE sample_accounts)"

lemma sample_management: "management sample_account_env sample_owner_scope sample_accounts sample_reinstated"
  unfolding sample_reinstated_def by (rule sets_status) (rule prod.collapse[symmetric])

lemma sample_change: "map u_status (users (a_db sample_reinstated)) = [ACTIVE, ACTIVE]"
  unfolding sample_reinstated_def by code_simp

lemma sample_actor: "\<exists>u \<in> set (users (a_db sample_accounts)). u_id u = rs_userId sample_owner_scope"
  by (simp add: sample_accounts_def sample_owner_scope_def sample_user_def)

theorem management_within_witness:
  "map u_status (users (a_db sample_reinstated)) = [ACTIVE, ACTIVE] \<and>
     users_within sample_owner_scope (users (a_db sample_accounts)) (users (a_db sample_reinstated))"
  using management_within[OF sample_management sample_ids sample_actor] sample_change by simp

lemma sample_step: "account_step sample_account_env sample_accounts sample_reinstated"
  by (rule manages[OF _ sample_management]) (use sample_resolves in \<open>auto simp: signed_in_as_def\<close>)

theorem merchant_keeps_owner_witness: "has_owner ''m1'' sample_reinstated"
  by (rule merchant_keeps_owner[OF r_into_rtranclp[where r = "account_step sample_account_env", OF sample_step] sample_ids])
    (simp add: has_owner_def active_owner_def sample_accounts_def sample_user_def)

theorem link_works_once_witness:
  "\<exists>r w\<^sub>1 t. setPasswordWithToken sample_account_env ''link1'' ''new'' sample_attempt sample_accounts = (Inr r, w\<^sub>1) \<and> a_now w\<^sub>1 < t \<and>
     setPasswordWithToken sample_account_env ''link1'' ''other'' sample_attempt (w\<^sub>1\<lparr> a_now := t \<rparr>) =
       (Inl (Unauthorized ''this link is no longer valid''), w\<^sub>1\<lparr> a_now := t \<rparr>)"
proof -
  obtain r w\<^sub>1 where r: "setPasswordWithToken sample_account_env ''link1'' ''new'' sample_attempt sample_accounts = (Inr r, w\<^sub>1)"
    using sample_link by blast
  have "account_step sample_account_env w\<^sub>1 (w\<^sub>1\<lparr> a_now := a_now w\<^sub>1 + 1 \<rparr>)" by (rule time_passes) simp
  from link_works_once[OF r sample_fresh r_into_rtranclp[where r = "account_step sample_account_env", OF this]] show ?thesis
    using r by (intro exI[of _ r] exI[of _ w\<^sub>1] exI[of _ "a_now w\<^sub>1 + 1"]) simp
qed

lemma sample_logout: "\<exists>r w'. logout sample_owner_scope sample_accounts = (Inr r, w') \<and> a_now w' = 1000"
  by (rule run_case) code_simp

theorem logout_is_final_witness:
  "\<exists>w\<^sub>1. logout sample_owner_scope sample_accounts = (Inr (), w\<^sub>1) \<and> resolve sample_account_env ''cookie2'' None w\<^sub>1 = (Inr None, w\<^sub>1)"
proof -
  obtain w\<^sub>1 where l: "logout sample_owner_scope sample_accounts = (Inr (), w\<^sub>1)" using sample_logout by (metis unit.exhaust)
  have "distinct (map se_tokenHash (sessions (a_db sample_accounts)))" by (simp add: sample_accounts_def)
  from logout_is_final[OF sample_resolves l this sample_fresh rtranclp.rtrancl_refl] show ?thesis using l by simp
qed

end
