(* ===== verification/JsDecimal.thy ===== *)
theory JsDecimal
  imports Complex_Main JsNumber
begin

text \<open>
  JavaScript numbers that are not integers, as decimal amounts meet them: rounding to double, Math.round and toFixed,
  and that an amount in minor units survives the trip through a decimal number.
\<close>

section \<open>Doubles\<close>

text \<open>
  A finite JavaScript number is a rational; an arithmetic operation rounds its exact result to the nearest number of
  53 significant bits, ties to even. Subnormal numbers and overflow are out of the range of amounts and left out.
\<close>

fun bit_length :: "nat \<Rightarrow> nat" where
  "bit_length n = (if n = 0 then 0 else Suc (bit_length (n div 2)))"

declare bit_length.simps [simp del]

definition binary_exponent :: "rat \<Rightarrow> int" where
  "binary_exponent x = (case quotient_of \<bar>x\<bar> of (p, q) \<Rightarrow>
     let k = int (bit_length (nat p)) - int (bit_length (nat q)) in
     if \<bar>x\<bar> < 2 powi k then k - 1 else k)"

definition round_even :: "rat \<Rightarrow> int" where
  "round_even x = (let n = \<lfloor>x\<rfloor>; r = x - of_int n in
     if r < 1 / 2 then n else if 1 / 2 < r then n + 1 else if even n then n else n + 1)"

definition to_double :: "rat \<Rightarrow> rat" where
  "to_double x = (if x = 0 then 0 else
     let u = 2 powi (binary_exponent x - 52) in of_int (round_even (x / u)) * u)"

definition js_times :: "rat \<Rightarrow> rat \<Rightarrow> rat" where
  "js_times a b = to_double (a * b)"

definition js_divide :: "rat \<Rightarrow> rat \<Rightarrow> rat" where
  "js_divide a b = to_double (a / b)"

text \<open>\<open>Math.round\<close>: halves go up.\<close>

definition math_round :: "rat \<Rightarrow> int" where
  "math_round x = \<lfloor>x + 1 / 2\<rfloor>"

text \<open>\<open>Number(x.toFixed(k))\<close>: the decimal of \<open>k\<close> digits nearest to \<open>x\<close>, the larger one on a tie, read back as a number.\<close>

definition number_of_fixed :: "nat \<Rightarrow> rat \<Rightarrow> rat" where
  "number_of_fixed k x = to_double (of_int ((if x < 0 then - 1 else 1) * \<lfloor>\<bar>x\<bar> * 10 ^ k + 1 / 2\<rfloor>) / 10 ^ k)"


section \<open>The rounding error\<close>

lemma bit_length_bounds: "0 < n \<Longrightarrow> 2 ^ (bit_length n - 1) \<le> n \<and> n < 2 ^ bit_length n \<and> 0 < bit_length n"
proof (induction n rule: bit_length.induct)
  case (1 n)
  show ?case
  proof (cases "n div 2 = 0")
    case True
    then have "n = 1" using 1(2) by simp
    then show ?thesis by (simp add: bit_length.simps)
  next
    case False
    then have IH: "2 ^ (bit_length (n div 2) - 1) \<le> n div 2" "n div 2 < 2 ^ bit_length (n div 2)" "0 < bit_length (n div 2)"
      using 1 by auto
    then obtain l where l: "bit_length (n div 2) = Suc l" by (cases "bit_length (n div 2)") auto
    have "bit_length n = Suc (Suc l)" using 1(2) l by (subst bit_length.simps) simp
    moreover have "2 ^ l \<le> n div 2" "n div 2 < 2 ^ Suc l" using IH l by simp_all
    ultimately show ?thesis by (simp; arith)
  qed
qed

lemma binary_exponent_le:
  assumes "x \<noteq> 0"
  shows "2 powi binary_exponent x \<le> \<bar>x\<bar>"
proof -
  obtain p q where pq: "quotient_of \<bar>x\<bar> = (p, q)" by fastforce
  have q: "0 < q" using pq by (rule quotient_of_denom_pos)
  have x: "\<bar>x\<bar> = of_int p / of_int q" using pq by (rule quotient_of_div)
  then have "0 < of_int p / (of_int q :: rat)" using assms by (metis zero_less_abs_iff)
  then have p: "0 < p" using q by (simp add: zero_less_divide_iff)
  let ?a = "bit_length (nat p)" and ?b = "bit_length (nat q)"
  have a: "2 ^ (?a - 1) \<le> nat p" "0 < ?a" using bit_length_bounds[of "nat p"] p by auto
  have b: "nat q < 2 ^ ?b" using bit_length_bounds[of "nat q"] q by auto
  have "int (2 ^ (?a - 1)) \<le> p" using a(1) p by (simp only: le_nat_iff[OF less_imp_le])
  then have "of_int (int (2 ^ (?a - 1))) \<le> (of_int p :: rat)" by (simp only: of_int_le_iff)
  then have pa: "(2::rat) ^ (?a - 1) \<le> of_int p" by simp
  have "q < int (2 ^ ?b)" using b q by (simp only: nat_less_iff[OF less_imp_le])
  then have "of_int q < (of_int (int (2 ^ ?b)) :: rat)" by (simp only: of_int_less_iff)
  then have qb: "of_int q < (2::rat) ^ ?b" by simp
  have "2 powi (int ?a - int ?b - 1) = (2::rat) ^ (?a - 1) / 2 ^ ?b"
  proof -
    have "int ?a - int ?b - 1 = int (?a - 1) - int ?b" using a(2) by simp
    then have "2 powi (int ?a - int ?b - 1) = (2::rat) powi (int (?a - 1) - int ?b)" by (simp only:)
    then show ?thesis by (simp only: power_int_diff power_int_of_nat zero_neq_numeral[symmetric] if_False simp_thms)
  qed
  also have "\<dots> \<le> of_int p / of_int q"
    by (intro frac_le) (use pa qb q p in auto)
  finally show ?thesis
    unfolding binary_exponent_def pq Let_def prod.case x[symmetric] by auto
qed

lemma round_even_close: "\<bar>of_int (round_even x) - x\<bar> \<le> 1 / 2"
  unfolding round_even_def Let_def by (auto simp: abs_if) (linarith | simp add: field_simps)+

lemma abs_scaled: "0 < u \<Longrightarrow> y = z * u \<Longrightarrow> \<bar>a * u - y\<bar> = \<bar>a - z\<bar> * u" for u :: rat
  by (simp add: abs_mult flip: left_diff_distrib)

lemma to_double_close: "\<bar>to_double x - x\<bar> \<le> \<bar>x\<bar> / 2 ^ 53"
proof (cases "x = 0")
  case False
  let ?u = "2 powi (binary_exponent x - 52) :: rat"
  have u: "0 < ?u" by simp
  have "\<bar>of_int (round_even (x / ?u)) * ?u - x\<bar> = \<bar>of_int (round_even (x / ?u)) - x / ?u\<bar> * ?u"
    by (rule abs_scaled) (use u in auto)
  also have "\<dots> \<le> 1 / 2 * ?u" using round_even_close u by (intro mult_right_mono) auto
  also have "\<dots> = 2 powi binary_exponent x / 2 ^ 53" by (simp add: power_int_diff)
  also have "\<dots> \<le> \<bar>x\<bar> / 2 ^ 53" using binary_exponent_le[OF False] by (simp add: divide_right_mono)
  finally show ?thesis using False by (simp add: to_double_def Let_def)
qed (simp add: to_double_def)

lemma math_round_close: "\<bar>x - of_int n\<bar> < 1 / 2 \<Longrightarrow> math_round x = n"
  unfolding math_round_def by (rule floor_unique) (auto simp: abs_if split: if_splits)

lemma fixed_round: "\<bar>x - of_int n / 10 ^ k\<bar> * 10 ^ k < 1 / 2 \<Longrightarrow> number_of_fixed k x = to_double (of_int n / 10 ^ k)"
proof -
  assume a: "\<bar>x - of_int n / 10 ^ k\<bar> * 10 ^ k < 1 / 2"
  have "\<bar>x * 10 ^ k - of_int n\<bar> = \<bar>x - of_int n / 10 ^ k\<bar> * 10 ^ k"
    using abs_scaled[of "10 ^ k" "of_int n" "of_int n / 10 ^ k" x] by (simp add: abs_minus_commute)
  then have "\<bar>x * 10 ^ k - of_int n\<bar> < 1 / 2" using a by simp
  then have "(if x < 0 then - 1 else 1) * \<lfloor>\<bar>x\<bar> * 10 ^ k + 1 / 2\<rfloor> = n"
    using floor_unique[of "- n" "- (x * 10 ^ k) + 1 / 2"] by (cases "x < 0") (auto intro!: floor_unique simp: abs_if split: if_splits)
  then show ?thesis by (simp add: number_of_fixed_def)
qed


section \<open>Amounts at the boundary\<close>

text \<open>An amount of \<open>n\<close> minor units sent as a decimal number and read back is the same amount.\<close>

lemma minor_decimal:
  assumes "\<bar>n\<bar> \<le> 2 ^ 50"
  shows "number_of_fixed k (js_divide (of_int n) (10 ^ k)) = to_double (of_int n / 10 ^ k)"
proof (rule fixed_round)
  have "\<bar>to_double (of_int n / 10 ^ k) - of_int n / 10 ^ k\<bar> * 10 ^ k \<le> \<bar>of_int n / 10 ^ k\<bar> / 2 ^ 53 * 10 ^ k"
    by (rule mult_right_mono[OF to_double_close]) simp
  also have "\<dots> = of_int \<bar>n\<bar> / 2 ^ 53" by (simp add: abs_divide)
  also have "\<dots> \<le> of_int (2 ^ 50) / 2 ^ 53" using assms by (intro divide_right_mono) (simp_all only: of_int_le_iff, simp)
  also have "\<dots> < 1 / 2" by simp
  finally show "\<bar>js_divide (of_int n) (10 ^ k) - of_int n / 10 ^ k\<bar> * 10 ^ k < 1 / 2"
    by (simp add: js_divide_def)
qed

lemma decimal_minor:
  assumes "\<bar>n\<bar> \<le> 2 ^ 50"
  shows "math_round (js_times (to_double (of_int n / 10 ^ k)) (10 ^ k)) = n"
proof (rule math_round_close)
  let ?E = "10 ^ k :: rat" and ?y = "to_double (of_int n / 10 ^ k)"
  let ?m = "of_int \<bar>n\<bar> :: rat"
  have "\<bar>?y - of_int n / ?E\<bar> * ?E \<le> \<bar>of_int n / ?E\<bar> / 2 ^ 53 * ?E"
    by (rule mult_right_mono[OF to_double_close]) simp
  then have y: "\<bar>?y * ?E - of_int n\<bar> \<le> ?m / 2 ^ 53"
    using abs_scaled[of ?E "of_int n" "of_int n / ?E" ?y] by (simp add: abs_divide)
  have z: "\<bar>js_times ?y ?E - ?y * ?E\<bar> \<le> \<bar>?y * ?E\<bar> / 2 ^ 53"
    unfolding js_times_def by (rule to_double_close)
  have m: "?m \<le> 2 ^ 50" using assms by (metis of_int_le_iff of_int_numeral of_int_power)
  have "\<bar>?y * ?E\<bar> \<le> ?m + ?m / 2 ^ 53" using y by (simp add: abs_if split: if_splits)
  then have "\<bar>?y * ?E\<bar> / 2 ^ 53 \<le> (?m + ?m / 2 ^ 53) / 2 ^ 53" by (intro divide_right_mono) auto
  then have "\<bar>js_times ?y ?E - of_int n\<bar> \<le> (?m + ?m / 2 ^ 53) / 2 ^ 53 + ?m / 2 ^ 53" using y z by linarith
  also have "\<dots> < 1 / 2" using m by simp
  finally show "\<bar>js_times ?y ?E - of_int n\<bar> < 1 / 2" .
qed

lemma to_double_twice: "\<bar>to_double (to_double x) - x\<bar> \<le> 5 / 2 * \<bar>x\<bar> / 2 ^ 53"
proof -
  have a: "\<bar>to_double x - x\<bar> \<le> \<bar>x\<bar> / 2 ^ 53" by (rule to_double_close)
  have b: "\<bar>to_double (to_double x) - to_double x\<bar> \<le> \<bar>to_double x\<bar> / 2 ^ 53" by (rule to_double_close)
  have "\<bar>to_double x\<bar> \<le> \<bar>x\<bar> + \<bar>x\<bar> / 2 ^ 53" using a by linarith
  then have "\<bar>to_double x\<bar> / 2 ^ 53 \<le> (\<bar>x\<bar> + \<bar>x\<bar> / 2 ^ 53) / 2 ^ 53" by (rule divide_right_mono) simp
  then have "\<bar>to_double (to_double x) - x\<bar> \<le> (\<bar>x\<bar> + \<bar>x\<bar> / 2 ^ 53) / 2 ^ 53 + \<bar>x\<bar> / 2 ^ 53" using a b by linarith
  then show ?thesis by simp
qed

lemma decimal_minor_near:
  assumes n: "\<bar>n\<bar> \<le> 2 ^ 50" and y: "\<bar>y - of_int n / 10 ^ k\<bar> \<le> 5 / 2 * \<bar>of_int n / 10 ^ k\<bar> / 2 ^ 53"
  shows "math_round (js_times y (10 ^ k)) = n"
proof (rule math_round_close)
  let ?E = "10 ^ k :: rat" and ?m = "of_int \<bar>n\<bar> :: rat"
  have "\<bar>y - of_int n / ?E\<bar> * ?E \<le> 5 / 2 * \<bar>of_int n / ?E\<bar> / 2 ^ 53 * ?E"
    by (rule mult_right_mono[OF y]) simp
  then have y: "\<bar>y * ?E - of_int n\<bar> \<le> 5 / 2 * ?m / 2 ^ 53"
    using abs_scaled[of ?E "of_int n" "of_int n / ?E" y] by (simp add: abs_divide)
  have z: "\<bar>js_times y ?E - y * ?E\<bar> \<le> \<bar>y * ?E\<bar> / 2 ^ 53"
    unfolding js_times_def by (rule to_double_close)
  have m: "?m \<le> 2 ^ 50" using n by (metis of_int_le_iff of_int_numeral of_int_power)
  have "\<bar>y * ?E\<bar> \<le> ?m + 5 / 2 * ?m / 2 ^ 53" using y by (simp add: abs_if split: if_splits)
  then have "\<bar>y * ?E\<bar> / 2 ^ 53 \<le> (?m + 5 / 2 * ?m / 2 ^ 53) / 2 ^ 53" by (intro divide_right_mono) auto
  then have "\<bar>js_times y ?E - of_int n\<bar> \<le> (?m + 5 / 2 * ?m / 2 ^ 53) / 2 ^ 53 + 5 / 2 * ?m / 2 ^ 53" using y z by linarith
  also have "\<dots> < 1 / 2" using m by simp
  finally show "\<bar>js_times y ?E - of_int n\<bar> < 1 / 2" .
qed


section \<open>Bounds and exact values\<close>

lemma binary_exponent_less:
  assumes "x \<noteq> 0"
  shows "\<bar>x\<bar> < 2 powi (binary_exponent x + 1)"
proof -
  obtain p q where pq: "quotient_of \<bar>x\<bar> = (p, q)" by fastforce
  have q: "0 < q" using pq by (rule quotient_of_denom_pos)
  have x: "\<bar>x\<bar> = of_int p / of_int q" using pq by (rule quotient_of_div)
  then have "0 < of_int p / (of_int q :: rat)" using assms by (metis zero_less_abs_iff)
  then have p: "0 < p" using q by (simp add: zero_less_divide_iff)
  let ?a = "bit_length (nat p)" and ?b = "bit_length (nat q)"
  have a: "nat p < 2 ^ ?a" using bit_length_bounds[of "nat p"] p by auto
  have b: "2 ^ (?b - 1) \<le> nat q" "0 < ?b" using bit_length_bounds[of "nat q"] q by auto
  have "p < int (2 ^ ?a)" using a p by (simp only: nat_less_iff[OF less_imp_le])
  then have "of_int p < (of_int (int (2 ^ ?a)) :: rat)" by (simp only: of_int_less_iff)
  then have pa: "of_int p < (2::rat) ^ ?a" by simp
  have "int (2 ^ (?b - 1)) \<le> q" using b(1) q by (simp only: le_nat_iff[OF less_imp_le])
  then have "of_int (int (2 ^ (?b - 1))) \<le> (of_int q :: rat)" by (simp only: of_int_le_iff)
  then have qb: "(2::rat) ^ (?b - 1) \<le> of_int q" by simp
  have "of_int p / of_int q < (2::rat) ^ ?a / 2 ^ (?b - 1)"
    by (intro frac_less) (use pa qb p in auto)
  also have "(2::rat) ^ ?a / 2 ^ (?b - 1) = 2 powi (int ?a - int ?b + 1)"
  proof -
    have e: "int ?a - int ?b + 1 = int ?a - int (?b - 1)" using b(2) by simp
    show ?thesis unfolding e by (simp only: power_int_diff power_int_of_nat zero_neq_numeral[symmetric] if_False simp_thms)
  qed
  finally show ?thesis
    unfolding binary_exponent_def pq Let_def prod.case x[symmetric] by auto
qed

lemma round_even_mono_bounds: "0 \<le> x \<Longrightarrow> 0 \<le> round_even x" "x \<le> of_int n \<Longrightarrow> round_even x \<le> n"
proof -
  show "0 \<le> x \<Longrightarrow> 0 \<le> round_even x" by (auto simp: round_even_def Let_def)
  assume x: "x \<le> of_int n"
  then have f: "\<lfloor>x\<rfloor> \<le> n" by (simp add: floor_le_iff)
  show "round_even x \<le> n"
  proof (cases "\<lfloor>x\<rfloor> = n")
    case True
    then have "x = of_int n" using x of_int_floor_le[of x] by simp
    then show ?thesis by (simp add: round_even_def)
  next
    case False
    then show ?thesis using f by (auto simp: round_even_def Let_def)
  qed
qed

lemma to_double_nonneg: "0 \<le> x \<Longrightarrow> 0 \<le> to_double x"
  by (auto simp: to_double_def Let_def intro!: mult_nonneg_nonneg round_even_mono_bounds)

lemma to_double_1: "to_double 1 = 1"
proof -
  have e: "binary_exponent 1 = 0" by (simp add: binary_exponent_def bit_length.simps)
  have u: "1 / (2 powi (0 - 52)) = (of_int (2 ^ 52) :: rat)" by (simp add: power_int_def field_simps)
  have r: "round_even (of_int (2 ^ 52)) = 2 ^ 52" by (simp only: round_even_def floor_of_int Let_def) simp
  show ?thesis unfolding to_double_def Let_def e u r by (simp add: power_int_def field_simps)
qed

lemma to_double_le_1:
  assumes "0 \<le> x" "x \<le> 1"
  shows "to_double x \<le> 1"
proof (cases "x = 0 \<or> x = 1")
  case True
  moreover have "to_double 0 = 0" by (simp add: to_double_def)
  ultimately show ?thesis using to_double_1 by auto
next
  case False
  then have x: "x \<noteq> 0" "0 < x" "x < 1" using assms by auto
  let ?e = "binary_exponent x" and ?u = "2 powi (binary_exponent x - 52) :: rat"
  have e: "?e < 0"
  proof (rule ccontr)
    assume "\<not> ?e < 0"
    then have "2 powi 0 \<le> (2 powi ?e :: rat)" by (intro power_int_increasing) auto
    then show False using binary_exponent_le[OF x(1)] x by simp
  qed
  have s: "2 powi (?e + 1) = (2 powi 53 :: rat) * ?u"
  proof -
    have "?e + 1 = 53 + (?e - 52)" by simp
    then show ?thesis by (metis power_int_add zero_neq_numeral)
  qed
  then have "x < of_int (2 ^ 53) * ?u" using binary_exponent_less[OF x(1)] x unfolding s by (simp add: power_int_def)
  then have "x / ?u \<le> of_int (2 ^ 53)" by (simp add: divide_le_eq)
  then have "round_even (x / ?u) \<le> 2 ^ 53" by (rule round_even_mono_bounds(2))
  then have "of_int (round_even (x / ?u)) \<le> (of_int (2 ^ 53) :: rat)" by (simp only: of_int_le_iff)
  then have "to_double x \<le> of_int (2 ^ 53) * ?u"
    unfolding to_double_def Let_def using x by (simp add: mult_right_mono)
  also have "\<dots> = 2 powi (?e + 1)" unfolding s by (simp add: power_int_def)
  also have "\<dots> \<le> 2 powi 0" using e by (intro power_int_increasing) auto
  finally show ?thesis by simp
qed

lemma to_double_of_int:
  assumes "\<bar>n\<bar> < 2 ^ 53"
  shows "to_double (of_int n) = of_int n"
proof (cases "n = 0")
  case True
  then show ?thesis by (simp add: to_double_def)
next
  case False
  let ?x = "of_int n :: rat" and ?e = "binary_exponent (of_int n)"
  have x: "?x \<noteq> 0" using False by simp
  have lt: "2 powi ?e < (2 powi 53 :: rat)"
  proof -
    have "\<bar>?x\<bar> < of_int (2 ^ 53)" using assms by (simp only: of_int_less_iff flip: of_int_abs)
    then show ?thesis using binary_exponent_le[OF x] by (simp add: power_int_def)
  qed
  have e: "?e < 53"
  proof (rule ccontr)
    assume "\<not> ?e < 53"
    then have "2 powi 53 \<le> (2 powi ?e :: rat)" by (intro power_int_increasing) auto
    then show False using lt by simp
  qed
  define k where "k = nat (52 - ?e)"
  have u: "(2 powi (?e - 52) :: rat) = 1 / 2 ^ k"
  proof -
    have "?e - 52 = - int k" using e by (simp add: k_def)
    then show ?thesis by (simp only: power_int_minus power_int_of_nat inverse_eq_divide)
  qed
  have scaled: "?x / (1 / 2 ^ k) = of_int (n * 2 ^ k)" by simp
  have r: "round_even (of_int m) = m" for m by (simp add: round_even_def)
  show ?thesis unfolding to_double_def Let_def u scaled r using x by simp
qed

end
