(* ===== verification/Zoho.thy ===== *)
theory Zoho
  imports JsDecimal Gateway Quantity Store RateLimit
begin

text \<open>
  The adapter to Zoho Books (\<open>apps/api/src/adapters/accounting/zoho-books.adapter.ts\<close>): what Zoho sends and
  receives, the classification of its failures, and the mappings in both directions. The Books API itself is a
  parameter, one operation per endpoint used.
\<close>

section \<open>What Zoho returns\<close>

text \<open>A timestamp field of a response: missing, text that is no date, or the instant it names.\<close>

datatype zoho_time = NoTime | BadTime | AtTime int

record zoho_address =
  za_address :: "string option"
  za_street2 :: "string option"
  za_city :: "string option"
  za_state :: "string option"
  za_zip :: "string option"
  za_country :: "string option"

record contact_item =
  ci_contact_id :: string
  ci_contact_name :: string
  ci_company_name :: "string option"
  ci_email :: "string option"
  ci_phone :: "string option"
  ci_first_name :: "string option"
  ci_last_name :: "string option"
  ci_modified :: zoho_time
  ci_status :: "string option"

record contact_person =
  cp_id :: string
  cp_salutation :: "string option"
  cp_first_name :: string
  cp_last_name :: "string option"
  cp_email :: "string option"
  cp_phone :: "string option"
  cp_mobile :: "string option"
  cp_skype :: "string option"
  cp_designation :: "string option"
  cp_department :: "string option"
  cp_is_primary :: "bool option"

record contact_detail = contact_item +
  cd_sub_type :: "string option"
  cd_billing :: "zoho_address option"
  cd_shipping :: "zoho_address option"
  cd_persons :: "contact_person list option"

text \<open>Dates are days; amounts, rates and quantities are numbers.\<close>

record invoice_item =
  zi_invoice_id :: string
  zi_customer_id :: string
  zi_number :: string
  zi_status :: string
  zi_date :: int
  zi_due_date :: int
  zi_currency :: string
  zi_total :: rat
  zi_balance :: rat
  zi_modified :: zoho_time

record zoho_line =
  zl_name :: "string option"
  zl_description :: "string option"
  zl_rate :: rat
  zl_quantity :: rat
  zl_tax_id :: "string option"

record zoho_invoice_detail = invoice_item +
  zd_sub_total :: rat
  zd_tax_total :: rat
  zd_lines :: "zoho_line list"
  zd_notes :: "string option"

section \<open>What is sent\<close>

record sent_address =
  sa_address :: "string option"
  sa_city :: "string option"
  sa_state :: "string option"
  sa_zip :: "string option"

record sent_person =
  sp_first_name :: string
  sp_last_name :: "string option"
  sp_email :: "string option"
  sp_phone :: "string option"

record contact_payload =
  cl_contact_name :: string
  cl_company_name :: "string option"
  cl_sub_type :: string
  cl_email :: "string option"
  cl_phone :: "string option"
  cl_billing :: "sent_address option"
  cl_shipping :: "sent_address option"
  cl_persons :: "sent_person option"

record invoice_payload =
  il_customer_id :: string
  il_number :: string
  il_date :: int
  il_due_date :: int
  il_lines :: "zoho_line list"
  il_notes :: "string option"

record payment_payload =
  pl_customer_id :: string
  pl_mode :: string
  pl_amount :: rat
  pl_date :: int
  pl_reference :: "string option"
  pl_invoice_id :: string
  pl_amount_applied :: rat

section \<open>The transport\<close>

text \<open>
  A request to the Books API on the state \<open>'z\<close> of the organisation ends with the body, with a response of a status
  other than 2xx, without a slot of the rate limit after the longest wait, or without a response at all. The fields
  of \<open>http_failure\<close> after its text are those of a JSON body, when it is one.
\<close>

record http_failure =
  hf_status :: int
  hf_text :: string
  hf_message :: "string option"
  hf_error_description :: "string option"
  hf_error :: "string option"
  hf_code :: "string option"
  hf_retryAfter :: "int option"

datatype request_failure = Refused http_failure | NoSlot int | Unreachable string

datatype port_error = PortIntegration integration_error | PortBroken string

record 'z zoho =
  zh_postContact :: "contact_payload \<Rightarrow> ('z, request_failure, string \<times> zoho_time) eff"
  zh_putContact :: "string \<Rightarrow> contact_payload \<Rightarrow> ('z, request_failure, string \<times> zoho_time) eff"
  zh_postInvoice :: "invoice_payload \<Rightarrow> ('z, request_failure, string \<times> zoho_time \<times> string option) eff"
  zh_putInvoice :: "string \<Rightarrow> invoice_payload \<Rightarrow> ('z, request_failure, string \<times> zoho_time \<times> string option) eff"
  zh_postStatus :: "string \<Rightarrow> string \<Rightarrow> ('z, request_failure, unit) eff"
  zh_postPayment :: "payment_payload \<Rightarrow> ('z, request_failure, string) eff"
  zh_getContact :: "string \<Rightarrow> ('z, request_failure, contact_detail) eff"
  zh_getInvoice :: "string \<Rightarrow> ('z, request_failure, zoho_invoice_detail) eff"
  zh_listContacts :: "nat \<Rightarrow> ('z, request_failure, contact_item list \<times> bool) eff"
  zh_listInvoices :: "nat \<Rightarrow> int option \<Rightarrow> ('z, request_failure, invoice_item list \<times> bool) eff"

definition first_some :: "'a option \<Rightarrow> 'a option \<Rightarrow> 'a option" where
  "first_some a b = (case a of None \<Rightarrow> b | Some _ \<Rightarrow> a)"

text \<open>The same computation with its errors renamed.\<close>

definition rename_errors :: "('e \<Rightarrow> 'f) \<Rightarrow> ('w, 'e, 'a) eff \<Rightarrow> ('w, 'f, 'a) eff" where
  "rename_errors g m = (\<lambda>w. case m w of (Inl e, w') \<Rightarrow> (Inl (g e), w') | (Inr a, w') \<Rightarrow> (Inr a, w'))"

definition toIntegrationError :: "http_failure \<Rightarrow> string \<Rightarrow> integration_error" where
  "toIntegrationError f context =
     (let isOAuthRateLimit = hf_status f = 400 \<and> hf_error f = Some ''Access Denied'' in
      \<lparr> ie_message = ''Zoho Books: '' @ context @ '' failed with '' @ show_int (hf_status f),
        ie_errorClass = (if isOAuthRateLimit then TRANSIENT else classifyHttpStatus (hf_status f)),
        ie_provider = ''zoho-books'',
        ie_providerMessage = first_some (first_some (hf_message f) (hf_error_description f)) (Some (hf_text f)),
        ie_providerCode = hf_code f,
        ie_httpStatus = Some (hf_status f),
        ie_retryAfterMs = map_option (\<lambda>s. s * 1000) (hf_retryAfter f) \<rparr>)"

definition rate_slot_timeout :: "string \<Rightarrow> int \<Rightarrow> integration_error" where
  "rate_slot_timeout context waited =
     \<lparr> ie_message = ''Zoho Books: local rate limit still exhausted after '' @ show_int waited @ ''ms waiting for '' @ context,
       ie_errorClass = TRANSIENT, ie_provider = ''zoho-books'', ie_providerMessage = None, ie_providerCode = None,
       ie_httpStatus = None, ie_retryAfterMs = Some (RATE_LIMIT_WINDOW_SECONDS * 1000) \<rparr>"

definition request_zoho :: "string \<Rightarrow> ('z, request_failure, 'a) eff \<Rightarrow> ('z, port_error, 'a) eff" where
  "request_zoho context call = rename_errors (\<lambda>failure. case failure of
       Refused f \<Rightarrow> PortIntegration (toIntegrationError f context)
     | NoSlot waited \<Rightarrow> PortIntegration (rate_slot_timeout context waited)
     | Unreachable s \<Rightarrow> PortBroken s) call"

text \<open>The body of a token response, and the refresh of an access token at \<open>now\<close>.\<close>

record token_body =
  tb_access_token :: "string option"
  tb_expires_in :: "int option"
  tb_error :: "string option"
  tb_error_description :: "string option"

definition refreshAccessToken :: "(string \<Rightarrow> ('z, request_failure, token_body) eff) \<Rightarrow> int \<Rightarrow> string \<Rightarrow> ('z, port_error, string \<times> int) eff" where
  "refreshAccessToken post now refreshToken =
     ebind (request_zoho ''token refresh'' (post refreshToken)) (\<lambda>body.
     case tb_access_token body of
       Some (c # t) \<Rightarrow> ereturn (c # t, now + (case tb_expires_in body of None \<Rightarrow> 3600 | Some s \<Rightarrow> s) * 1000)
     | _ \<Rightarrow> ethrow (PortIntegration \<lparr> ie_message = ''token refresh returned no access token'', ie_errorClass = AUTHENTICATION,
         ie_provider = ''zoho-books'', ie_providerMessage = first_some (tb_error_description body) (tb_error body),
         ie_providerCode = None, ie_httpStatus = None, ie_retryAfterMs = None \<rparr>))"

section \<open>The port's objects\<close>

record address =
  ad_line1 :: "string option"
  ad_line2 :: "string option"
  ad_city :: "string option"
  ad_region :: "string option"
  ad_postalCode :: "string option"
  ad_country :: "string option"

record accounting_customer =
  acu_localId :: string
  acu_remoteId :: "string option"
  acu_business :: bool
  acu_displayName :: string
  acu_companyName :: "string option"
  acu_firstName :: "string option"
  acu_lastName :: "string option"
  acu_email :: "string option"
  acu_phone :: "string option"
  acu_billing :: "address option"
  acu_shipping :: "address option"

record accounting_line =
  al_name :: string
  al_description :: "string option"
  al_quantity :: int
  al_unitPriceMinor :: int
  al_lineTotalMinor :: int
  al_taxExempt :: bool
  al_remoteTaxId :: "string option"

datatype accounting_status = AS_DRAFT | AS_SENT | AS_PAID | AS_PARTIALLY_PAID | AS_VOID

record accounting_invoice =
  ain_localId :: string
  ain_remoteId :: "string option"
  ain_number :: string
  ain_customerRemoteId :: string
  ain_currency :: string
  ain_invoiceDate :: int
  ain_dueDate :: int
  ain_lines :: "accounting_line list"
  ain_subtotalMinor :: int
  ain_taxRateBpApplied :: int
  ain_taxMinor :: int
  ain_cardFeeMinor :: int
  ain_totalMinor :: int
  ain_notes :: "string option"
  ain_status :: accounting_status

record accounting_payment =
  apa_localId :: string
  apa_remoteId :: "string option"
  apa_invoiceRemoteId :: string
  apa_customerRemoteId :: string
  apa_amountMinor :: int
  apa_currency :: string
  apa_settledAt :: int
  apa_method :: payment_method
  apa_reference :: "string option"

record remote_ref =
  rr_remoteId :: string
  rr_updatedAt :: zoho_time


section \<open>Conversions\<close>

definition currency_exponent :: "string \<Rightarrow> nat" where
  "currency_exponent currency = minorUnitExponent (toCurrencyCode (Some currency) USD)"

definition minorToDecimal :: "int \<Rightarrow> string \<Rightarrow> rat" where
  "minorToDecimal minor currency =
     (let exponent = currency_exponent currency in number_of_fixed exponent (js_divide (of_int minor) (10 ^ exponent)))"

definition decimalToMinor :: "rat \<Rightarrow> string \<Rightarrow> int" where
  "decimalToMinor amount currency = math_round (js_times amount (10 ^ currency_exponent currency))"

definition day_ms :: int where "day_ms = 86400000"

definition toZohoDate :: "int \<Rightarrow> int" where
  "toZohoDate date = date div day_ms"

text \<open>\<open>Number(formatQuantity(q))\<close>, and back: quantities are ten-thousandths.\<close>

definition quantity_number :: "int \<Rightarrow> rat" where
  "quantity_number q = to_double (of_int q / 10000)"

definition present :: "string option \<Rightarrow> bool" where
  "present s = (case s of None \<Rightarrow> False | Some t \<Rightarrow> t \<noteq> [])"

definition toZohoAddress :: "address \<Rightarrow> sent_address" where
  "toZohoAddress a =
     (let streetLines = filter (\<lambda>l. js_trim l \<noteq> []) (List.map_filter id [ad_line1 a, ad_line2 a]) in
      \<lparr> sa_address = (if streetLines \<noteq> [] then Some (join_with (CHR 0x0A) streetLines) else None),
        sa_city = ad_city a, sa_state = ad_region a, sa_zip = ad_postalCode a \<rparr>)"

text \<open>An address object without keys counts as none.\<close>

definition zoho_address_empty :: "zoho_address \<Rightarrow> bool" where
  "zoho_address_empty a \<longleftrightarrow> za_address a = None \<and> za_street2 a = None \<and> za_city a = None \<and> za_state a = None \<and>
     za_zip a = None \<and> za_country a = None"

definition fromZohoAddress :: "zoho_address option \<Rightarrow> address option" where
  "fromZohoAddress address = (case address of
      None \<Rightarrow> None
    | Some a \<Rightarrow> if zoho_address_empty a then None
        else Some \<lparr> ad_line1 = za_address a, ad_line2 = None, ad_city = za_city a, ad_region = za_state a,
          ad_postalCode = za_zip a, ad_country = None \<rparr>)"

fun mapPaymentMode :: "payment_method \<Rightarrow> string" where
  "mapPaymentMode CARD = ''creditcard''"
| "mapPaymentMode WALLET = ''creditcard''"
| "mapPaymentMode ACH = ''banktransfer''"
| "mapPaymentMode CHECK = ''check''"
| "mapPaymentMode MANUAL = ''others''"

section \<open>Writing\<close>

text \<open>The version of a record just written: from the write's own response, or read back; a read that fails is no version.\<close>

definition resolveWriteVersion :: "zoho_time \<Rightarrow> ('z, port_error, zoho_time) eff \<Rightarrow> ('z, port_error, zoho_time) eff" where
  "resolveWriteVersion fromWriteResponse readBack =
     (if fromWriteResponse \<noteq> NoTime then ereturn fromWriteResponse
      else ecatch readBack (\<lambda>_. ereturn NoTime))"

definition getContact :: "'z zoho \<Rightarrow> string \<Rightarrow> ('z, port_error, contact_detail) eff" where
  "getContact zo contactId = request_zoho (''GET /books/v3/contacts/'' @ contactId) (zh_getContact zo contactId)"

definition getInvoice :: "'z zoho \<Rightarrow> string \<Rightarrow> ('z, port_error, zoho_invoice_detail) eff" where
  "getInvoice zo invoiceId = request_zoho (''GET /books/v3/invoices/'' @ invoiceId) (zh_getInvoice zo invoiceId)"

definition listContactsPage :: "'z zoho \<Rightarrow> nat \<Rightarrow> ('z, port_error, contact_item list \<times> bool) eff" where
  "listContactsPage zo page = request_zoho ''GET /books/v3/contacts'' (zh_listContacts zo page)"

definition listInvoicesPage :: "'z zoho \<Rightarrow> nat \<Rightarrow> int option \<Rightarrow> ('z, port_error, invoice_item list \<times> bool) eff" where
  "listInvoicesPage zo page since = request_zoho ''GET /books/v3/invoices'' (zh_listInvoices zo page since)"

definition contact_payload_of :: "accounting_customer \<Rightarrow> contact_payload" where
  "contact_payload_of c =
     \<lparr> cl_contact_name = acu_displayName c, cl_company_name = acu_companyName c,
       cl_sub_type = (if acu_business c then ''business'' else ''individual''),
       cl_email = acu_email c, cl_phone = acu_phone c,
       cl_billing = map_option toZohoAddress (acu_billing c), cl_shipping = map_option toZohoAddress (acu_shipping c),
       cl_persons = (if present (acu_firstName c) \<or> present (acu_lastName c) \<or> present (acu_email c) \<or> present (acu_phone c)
         then Some \<lparr> sp_first_name = (case acu_firstName c of None \<Rightarrow> acu_displayName c | Some n \<Rightarrow> n),
           sp_last_name = acu_lastName c, sp_email = acu_email c, sp_phone = acu_phone c \<rparr>
         else None) \<rparr>"

definition upsertCustomer :: "'z zoho \<Rightarrow> accounting_customer \<Rightarrow> ('z, port_error, remote_ref) eff" where
  "upsertCustomer zo c =
     (let payload = contact_payload_of c in
      ebind (if present (acu_remoteId c)
             then request_zoho (''PUT /books/v3/contacts/'' @ the (acu_remoteId c)) (zh_putContact zo (the (acu_remoteId c)) payload)
             else request_zoho ''POST /books/v3/contacts'' (zh_postContact zo payload)) (\<lambda>(contactId, modified).
      ebind (resolveWriteVersion modified (ebind (getContact zo contactId) (\<lambda>d. ereturn (ci_modified d)))) (\<lambda>version.
      ereturn \<lparr> rr_remoteId = contactId, rr_updatedAt = version \<rparr>)))"

definition PUSHED_TAX_LINE_NAME :: string where "PUSHED_TAX_LINE_NAME = ''Tax''"
definition PUSHED_TAX_LINE_DESCRIPTION_PREFIX :: string where
  "PUSHED_TAX_LINE_DESCRIPTION_PREFIX = ''Tax at the rate applied when this invoice was issued''"
definition PUSHED_CARD_FEE_LINE_NAME :: string where "PUSHED_CARD_FEE_LINE_NAME = ''Card processing fee''"
definition PUSHED_CARD_FEE_LINE_DESCRIPTION :: string where
  "PUSHED_CARD_FEE_LINE_DESCRIPTION = ''Applied because this invoice was paid by card or digital wallet''"

text \<open>\<open>(bp / 100).toFixed(2)\<close>, for a rate that is not negative.\<close>

definition rate_text :: "int \<Rightarrow> string" where
  "rate_text bp = show_int (bp div 100) @ ''.'' @ pad_start 2 (CHR ''0'') (show_int (bp mod 100))"

definition sent_line :: "string \<Rightarrow> accounting_line \<Rightarrow> zoho_line" where
  "sent_line currency l = \<lparr> zl_name = Some (al_name l), zl_description = al_description l,
     zl_rate = minorToDecimal (al_unitPriceMinor l) currency, zl_quantity = quantity_number (al_quantity l),
     zl_tax_id = (if al_taxExempt l then None else al_remoteTaxId l) \<rparr>"

definition tax_line :: "accounting_invoice \<Rightarrow> zoho_line" where
  "tax_line iv = \<lparr> zl_name = Some PUSHED_TAX_LINE_NAME,
     zl_description = Some (PUSHED_TAX_LINE_DESCRIPTION_PREFIX @ '' ('' @ rate_text (ain_taxRateBpApplied iv) @ ''%)''),
     zl_rate = minorToDecimal (ain_taxMinor iv) (ain_currency iv), zl_quantity = 1, zl_tax_id = None \<rparr>"

definition fee_line :: "accounting_invoice \<Rightarrow> zoho_line" where
  "fee_line iv = \<lparr> zl_name = Some PUSHED_CARD_FEE_LINE_NAME, zl_description = Some PUSHED_CARD_FEE_LINE_DESCRIPTION,
     zl_rate = minorToDecimal (ain_cardFeeMinor iv) (ain_currency iv), zl_quantity = 1, zl_tax_id = None \<rparr>"

definition sent_lines :: "accounting_invoice \<Rightarrow> zoho_line list" where
  "sent_lines iv = map (sent_line (ain_currency iv)) (ain_lines iv) @
     (if 0 < ain_taxMinor iv \<and> list_all (\<lambda>l. \<not> present (al_remoteTaxId l)) (ain_lines iv) then [tax_line iv] else []) @
     (if 0 < ain_cardFeeMinor iv then [fee_line iv] else [])"

definition invoice_payload_of :: "accounting_invoice \<Rightarrow> invoice_payload" where
  "invoice_payload_of iv = \<lparr> il_customer_id = ain_customerRemoteId iv, il_number = ain_number iv,
     il_date = toZohoDate (ain_invoiceDate iv), il_due_date = toZohoDate (ain_dueDate iv), il_lines = sent_lines iv,
     il_notes = ain_notes iv \<rparr>"

definition markInvoiceSent :: "'z zoho \<Rightarrow> string \<Rightarrow> ('z, port_error, unit) eff" where
  "markInvoiceSent zo invoiceId = request_zoho (''POST /books/v3/invoices/'' @ invoiceId @ ''/status/sent'') (zh_postStatus zo invoiceId ''sent'')"

definition voidInvoice :: "'z zoho \<Rightarrow> string \<Rightarrow> ('z, port_error, unit) eff" where
  "voidInvoice zo invoiceId = request_zoho (''POST /books/v3/invoices/'' @ invoiceId @ ''/status/void'') (zh_postStatus zo invoiceId ''void'')"

definition invoice_version :: "'z zoho \<Rightarrow> string \<Rightarrow> ('z, port_error, zoho_time) eff" where
  "invoice_version zo invoiceId = ebind (getInvoice zo invoiceId) (\<lambda>d. ereturn (zi_modified d))"

definition integration_failure :: "error_class \<Rightarrow> string \<Rightarrow> integration_error" where
  "integration_failure c message = \<lparr> ie_message = message, ie_errorClass = c, ie_provider = ''zoho-books'',
     ie_providerMessage = None, ie_providerCode = None, ie_httpStatus = None, ie_retryAfterMs = None \<rparr>"

definition zoho_pushInvoice :: "'z zoho \<Rightarrow> accounting_invoice \<Rightarrow> ('z, port_error, remote_ref) eff" where
  "zoho_pushInvoice zo iv =
     (if ain_status iv = AS_VOID then
        (if \<not> present (ain_remoteId iv)
         then ethrow (PortIntegration (integration_failure PERMANENT ''cannot void an invoice in Zoho that was never synced there''))
         else let remoteId = the (ain_remoteId iv) in
           ebind (voidInvoice zo remoteId) (\<lambda>_.
           ebind (resolveWriteVersion NoTime (invoice_version zo remoteId)) (\<lambda>version.
           ereturn \<lparr> rr_remoteId = remoteId, rr_updatedAt = version \<rparr>)))
      else
        let payload = invoice_payload_of iv in
        ebind (if present (ain_remoteId iv)
               then request_zoho (''PUT /books/v3/invoices/'' @ the (ain_remoteId iv)) (zh_putInvoice zo (the (ain_remoteId iv)) payload)
               else request_zoho ''POST /books/v3/invoices'' (zh_postInvoice zo payload)) (\<lambda>(invoiceId, modified, status).
        ebind (if ain_status iv \<noteq> AS_DRAFT \<and> status = Some ''draft''
               then ebind (markInvoiceSent zo invoiceId) (\<lambda>_. ereturn NoTime) else ereturn modified) (\<lambda>lastModifiedFromWrite.
        ebind (resolveWriteVersion lastModifiedFromWrite (invoice_version zo invoiceId)) (\<lambda>version.
        ereturn \<lparr> rr_remoteId = invoiceId, rr_updatedAt = version \<rparr>))))"

definition payment_payload_of :: "accounting_payment \<Rightarrow> payment_payload" where
  "payment_payload_of p =
     (let amount = minorToDecimal (apa_amountMinor p) (apa_currency p) in
      \<lparr> pl_customer_id = apa_customerRemoteId p, pl_mode = mapPaymentMode (apa_method p), pl_amount = amount,
        pl_date = toZohoDate (apa_settledAt p), pl_reference = apa_reference p,
        pl_invoice_id = apa_invoiceRemoteId p, pl_amount_applied = amount \<rparr>)"

definition zoho_pushPayment :: "'z zoho \<Rightarrow> accounting_payment \<Rightarrow> ('z, port_error, remote_ref) eff" where
  "zoho_pushPayment zo p =
     ebind (request_zoho ''POST /books/v3/customerpayments'' (zh_postPayment zo (payment_payload_of p))) (\<lambda>paymentId.
     ereturn \<lparr> rr_remoteId = paymentId, rr_updatedAt = NoTime \<rparr>)"

lemma amount_roundtrip: "\<bar>n\<bar> \<le> 2 ^ 50 \<Longrightarrow> decimalToMinor (minorToDecimal n c) c = n"
  by (simp add: decimalToMinor_def minorToDecimal_def Let_def minor_decimal decimal_minor)

end
