(* ===== verification/SyncStore.thy ===== *)
theory SyncStore
  imports Zoho
begin

text \<open>
  The tables the accounting sync works on, the world of its workers and the connection to Zoho
  (\<open>integration-connection.service.ts\<close>, \<open>system-scope.ts\<close> and the keys of \<open>redis.service.ts\<close> under
  \<open>apps/api/src\<close>). \<open>se_pages\<close> bounds the pages one scan reads; a scan beyond it ends with \<open>PagesExhausted\<close>,
  which the code does not have.
\<close>

section \<open>Tables\<close>

text \<open>The rows of the store with the columns the sync adds to them.\<close>

record synced_customer = customer_row +
  c_business :: bool
  c_companyName :: "string option"
  c_firstName :: "string option"
  c_lastName :: "string option"
  c_phone :: "string option"
  c_billing :: "address option"
  c_shipping :: "address option"
  c_active :: bool
  c_createdAt :: int
  c_zohoContactId :: "string option"
  c_zohoSyncedVersion :: "int option"
  c_zohoUnsyncedReason :: "string option"

record person_row =
  pn_customerId :: string
  pn_zohoPersonId :: "string option"
  pn_person :: contact_person

record synced_invoice = invoice_row +
  i_zohoTaxId :: "string option"
  i_zohoSyncedVersion :: "int option"
  i_zohoMissingSince :: "int option"
  i_zohoUnsyncedReason :: "string option"

record synced_payment = payment_row +
  p_zohoPaymentId :: "string option"
  p_zohoUnsyncedReason :: "string option"

record connection_row =
  cn_brandId :: string
  cn_connected :: bool
  cn_refreshToken :: "string option"
  cn_organizationId :: "string option"
  cn_health :: "string option"
  cn_lastSyncAt :: "int option"
  cn_lastPulledAt :: "int option"
  cn_customerSyncEnabled :: bool
  cn_invoiceSyncEnabled :: bool

datatype direction = PUSH | PULL
datatype job_status = JOB_RUNNING | JOB_SUCCEEDED | JOB_SKIPPED | JOB_FAILED

record sync_job =
  sj_id :: string
  sj_brandId :: string
  sj_direction :: direction
  sj_objectType :: string
  sj_objectId :: string
  sj_status :: job_status
  sj_errorClass :: "error_class option"
  sj_lastError :: "string option"
  sj_completedAt :: "int option"

record pending_row =
  pd_id :: string
  pd_merchantId :: string
  pd_organizationId :: string
  pd_objectType :: string
  pd_remoteId :: string
  pd_reason :: string
  pd_status :: string
  pd_payload :: "string option"
  pd_assignedBrandId :: "string option"
  pd_assignedAt :: "int option"
  pd_createdAt :: int

text \<open>\<open>sd_brands\<close> gives each brand its merchant.\<close>

record sync_db =
  sd_brands :: "(string \<times> string) list"
  sd_customers :: "synced_customer list"
  sd_persons :: "person_row list"
  sd_invoices :: "synced_invoice list"
  sd_lines :: "line_row list"
  sd_payments :: "synced_payment list"
  sd_connections :: "connection_row list"
  sd_jobs :: "sync_job list"
  sd_pending :: "pending_row list"

section \<open>The world of the workers\<close>

datatype sync_task = PushCustomerTask string string | PushInvoiceTask string string | PushPaymentTask string string

text \<open>The last webhook delivery of an organisation.\<close>

record delivery =
  de_time :: int
  de_objectType :: string
  de_event :: string
  de_remoteId :: string
  de_outcome :: string

text \<open>
  \<open>sw_guards\<close> are the short-lived marks of own pushes, \<open>sw_flags\<close> the throttles, \<open>sw_tokens\<close> the cached access
  tokens: each with the time at which the key expires.
\<close>

record 'z sync_world =
  sw_db :: sync_db
  sw_zoho :: 'z
  sw_queue :: "sync_task list"
  sw_guards :: "string \<times> string \<times> string \<Rightarrow> int option"
  sw_flags :: "string \<Rightarrow> int option"
  sw_tokens :: "string \<Rightarrow> (string \<times> int \<times> int) option"
  sw_deliveries :: "string \<Rightarrow> (delivery \<times> int) option"
  sw_now :: int
  sw_ids :: "nat \<Rightarrow> string"
  sw_drawn :: nat

datatype sync_error =
    Integration integration_error
  | Unrecoverable string
  | Conflicts string
  | NotFoundThrown string
  | BadRequestThrown string
  | UniqueThrown string
  | ErrorThrown string
  | PagesExhausted

type_synonym ('z, 'a) sync = "('z sync_world, sync_error, 'a) eff"

definition error_message :: "sync_error \<Rightarrow> string" where
  "error_message e = (case e of Integration i \<Rightarrow> ie_message i | Unrecoverable s \<Rightarrow> s | Conflicts s \<Rightarrow> s | NotFoundThrown s \<Rightarrow> s
     | BadRequestThrown s \<Rightarrow> s | UniqueThrown s \<Rightarrow> s | ErrorThrown s \<Rightarrow> s | PagesExhausted \<Rightarrow> [])"

definition in_scope :: "('z, 'a) sync \<Rightarrow> ('z, 'a) sync" where
  "in_scope m = transaction (\<lambda>w\<^sub>0 w. w\<lparr> sw_db := sw_db w\<^sub>0 \<rparr>) m"

definition sync_now :: "('z, int) sync" where
  "sync_now = egets sw_now"

definition fresh_id :: "('z, string) sync" where
  "fresh_id = (\<lambda>w. (Inr (sw_ids w (sw_drawn w)), w\<lparr> sw_drawn := sw_drawn w + 1 \<rparr>))"

definition change_db :: "(sync_db \<Rightarrow> sync_db) \<Rightarrow> ('z, unit) sync" where
  "change_db f = emodify (\<lambda>w. w\<lparr> sw_db := f (sw_db w) \<rparr>)"

definition enqueue_task :: "sync_task \<Rightarrow> ('z, unit) sync" where
  "enqueue_task t = emodify (\<lambda>w. w\<lparr> sw_queue := sw_queue w @ [t] \<rparr>)"

definition call_zoho :: "('z, port_error, 'a) eff \<Rightarrow> ('z, 'a) sync" where
  "call_zoho m = (\<lambda>w. case m (sw_zoho w) of
       (Inl (PortIntegration e), z) \<Rightarrow> (Inl (Integration e), w\<lparr> sw_zoho := z \<rparr>)
     | (Inl (PortBroken s), z) \<Rightarrow> (Inl (ErrorThrown s), w\<lparr> sw_zoho := z \<rparr>) | (Inr a, z) \<Rightarrow> (Inr a, w\<lparr> sw_zoho := z \<rparr>))"

definition sync_scope :: "string \<Rightarrow> string \<Rightarrow> ('z, request_scope option) sync" where
  "sync_scope brandId actor = egets (\<lambda>w. forBrand (map_of (sd_brands (sw_db w))) brandId actor)"

text \<open>The row policy of the tables: the brands a scope reaches.\<close>

definition reaches :: "request_scope \<Rightarrow> sync_db \<Rightarrow> string \<Rightarrow> bool" where
  "reaches sc d b = visible_to (map_of (sd_brands d)) (RequestScope sc) b"

definition customer_or_throw :: "request_scope \<Rightarrow> string \<Rightarrow> ('z, synced_customer) sync" where
  "customer_or_throw sc cid =
     ebind (egets (\<lambda>w. find (\<lambda>c. reaches sc (sw_db w) (c_brandId c) \<and> c_id c = cid) (sd_customers (sw_db w)))) (\<lambda>row.
     elift (require row (NotFoundThrown ''no record was found'')))"

definition customer_change :: "request_scope \<Rightarrow> string \<Rightarrow> (synced_customer \<Rightarrow> synced_customer) \<Rightarrow> ('z, unit) sync" where
  "customer_change sc cid f =
     ebind (customer_or_throw sc cid) (\<lambda>_. change_db (\<lambda>d. d\<lparr> sd_customers :=
       map_rows (\<lambda>c. reaches sc d (c_brandId c) \<and> c_id c = cid) f (sd_customers d) \<rparr>))"

definition invoice_or_throw :: "request_scope \<Rightarrow> string \<Rightarrow> ('z, synced_invoice) sync" where
  "invoice_or_throw sc iid =
     ebind (egets (\<lambda>w. find (\<lambda>i. reaches sc (sw_db w) (i_brandId i) \<and> i_id i = iid) (sd_invoices (sw_db w)))) (\<lambda>row.
     elift (require row (NotFoundThrown ''no record was found'')))"

definition invoice_change :: "request_scope \<Rightarrow> string \<Rightarrow> (synced_invoice \<Rightarrow> synced_invoice) \<Rightarrow> ('z, unit) sync" where
  "invoice_change sc iid f =
     ebind (invoice_or_throw sc iid) (\<lambda>_. change_db (\<lambda>d. d\<lparr> sd_invoices :=
       map_rows (\<lambda>i. reaches sc d (i_brandId i) \<and> i_id i = iid) f (sd_invoices d) \<rparr>))"

definition payment_or_throw :: "request_scope \<Rightarrow> string \<Rightarrow> ('z, synced_payment) sync" where
  "payment_or_throw sc pid =
     ebind (egets (\<lambda>w. find (\<lambda>p. reaches sc (sw_db w) (p_brandId p) \<and> p_id p = pid) (sd_payments (sw_db w)))) (\<lambda>row.
     elift (require row (NotFoundThrown ''no record was found'')))"

definition payment_change :: "request_scope \<Rightarrow> string \<Rightarrow> (synced_payment \<Rightarrow> synced_payment) \<Rightarrow> ('z, unit) sync" where
  "payment_change sc pid f =
     ebind (payment_or_throw sc pid) (\<lambda>_. change_db (\<lambda>d. d\<lparr> sd_payments :=
       map_rows (\<lambda>p. reaches sc d (p_brandId p) \<and> p_id p = pid) f (sd_payments d) \<rparr>))"

text \<open>A version that is no date cannot be stored.\<close>

definition storable :: "zoho_time \<Rightarrow> ('z, int option) sync" where
  "storable t = (case t of NoTime \<Rightarrow> ereturn None | AtTime v \<Rightarrow> ereturn (Some v) | BadTime \<Rightarrow> ethrow (ErrorThrown ''Invalid Date''))"

section \<open>Marks of own pushes\<close>

definition markSyncAction :: "string \<Rightarrow> string \<Rightarrow> string \<Rightarrow> ('z, unit) sync" where
  "markSyncAction brandId recordId action =
     emodify (\<lambda>w. w\<lparr> sw_guards := (sw_guards w)((brandId, recordId, action) \<mapsto> sw_now w + 30 * 1000) \<rparr>)"

definition hasSyncAction :: "string \<Rightarrow> string \<Rightarrow> string \<Rightarrow> ('z, bool) sync" where
  "hasSyncAction brandId recordId action = egets (\<lambda>w.
     case sw_guards w (brandId, recordId, action) of None \<Rightarrow> False | Some until \<Rightarrow> sw_now w < until)"

definition flag_set :: "string \<Rightarrow> 'z sync_world \<Rightarrow> bool" where
  "flag_set key w = (case sw_flags w key of None \<Rightarrow> False | Some until \<Rightarrow> sw_now w < until)"

definition set_flag :: "string \<Rightarrow> int \<Rightarrow> ('z, unit) sync" where
  "set_flag key ttlSeconds = emodify (\<lambda>w. w\<lparr> sw_flags := (sw_flags w)(key \<mapsto> sw_now w + ttlSeconds * 1000) \<rparr>)"

section \<open>The connection\<close>

record accounting_connection =
  aco_brandId :: string
  aco_organisationId :: string
  aco_accessToken :: string
  aco_refreshToken :: string

record 'z sync_env =
  se_zoho :: "accounting_connection \<Rightarrow> 'z zoho"
  se_pages :: nat
  se_refresh :: "string \<Rightarrow> ('z, request_failure, token_body) eff"

definition connection_of :: "request_scope \<Rightarrow> sync_db \<Rightarrow> string \<Rightarrow> connection_row option" where
  "connection_of sc d brandId = find (\<lambda>n. reaches sc d (cn_brandId n) \<and> cn_brandId n = brandId) (sd_connections d)"

definition connections_change :: "request_scope \<Rightarrow> string \<Rightarrow> (connection_row \<Rightarrow> connection_row) \<Rightarrow> ('z, unit) sync" where
  "connections_change sc brandId f = in_scope (change_db (\<lambda>d. d\<lparr> sd_connections :=
     map_rows (\<lambda>n. reaches sc d (cn_brandId n) \<and> cn_brandId n = brandId) f (sd_connections d) \<rparr>))"

definition getSyncFlags :: "request_scope \<Rightarrow> string \<Rightarrow> ('z, (bool \<times> bool) option) sync" where
  "getSyncFlags sc brandId = in_scope (egets (\<lambda>w.
     map_option (\<lambda>n. (cn_customerSyncEnabled n, cn_invoiceSyncEnabled n)) (connection_of sc (sw_db w) brandId)))"

definition getLastPulledAt :: "request_scope \<Rightarrow> string \<Rightarrow> ('z, int option) sync" where
  "getLastPulledAt sc brandId = in_scope (egets (\<lambda>w. Option.bind (connection_of sc (sw_db w) brandId) cn_lastPulledAt))"

definition recordPullRun :: "request_scope \<Rightarrow> string \<Rightarrow> int \<Rightarrow> ('z, unit) sync" where
  "recordPullRun sc brandId pullStartedAt =
     connections_change sc brandId (\<lambda>n. n\<lparr> cn_lastPulledAt := Some pullStartedAt, cn_health := Some ''Healthy'' \<rparr>)"

definition recordSyncRun :: "request_scope \<Rightarrow> string \<Rightarrow> ('z, unit) sync" where
  "recordSyncRun sc brandId = ebind sync_now (\<lambda>now.
     connections_change sc brandId (\<lambda>n. n\<lparr> cn_lastSyncAt := Some now, cn_health := Some ''Healthy'' \<rparr>))"

definition markUnhealthy :: "request_scope \<Rightarrow> string \<Rightarrow> string \<Rightarrow> ('z, unit) sync" where
  "markUnhealthy sc brandId reason = connections_change sc brandId (\<lambda>n. n\<lparr> cn_health := Some (take 500 reason) \<rparr>)"

definition TOKEN_CACHE_SAFETY_BUFFER_MS :: int where "TOKEN_CACHE_SAFETY_BUFFER_MS = 2 * 60 * 1000"

definition buildAccountingConnection :: "'z sync_env \<Rightarrow> request_scope \<Rightarrow> string \<Rightarrow> ('z, accounting_connection option) sync" where
  "buildAccountingConnection env sc brandId =
     ebind (in_scope (egets (\<lambda>w. connection_of sc (sw_db w) brandId))) (\<lambda>row.
     case row of
       None \<Rightarrow> ereturn None
     | Some n \<Rightarrow>
       (case cn_refreshToken n of
          Some (t # ts) \<Rightarrow>
            if \<not> cn_connected n then ereturn None
            else let connection = (\<lambda>token. \<lparr> aco_brandId = brandId, aco_organisationId = (case cn_organizationId n of None \<Rightarrow> [] | Some g \<Rightarrow> g),
                   aco_accessToken = token, aco_refreshToken = t # ts \<rparr>) in
            ebind (egets (\<lambda>w. (sw_tokens w brandId, sw_now w))) (\<lambda>(cached, now).
            case (case cached of None \<Rightarrow> None | Some (token, expiresAt, until) \<Rightarrow> if now < until \<and> now < expiresAt then Some token else None) of
              Some token \<Rightarrow> ereturn (Some (connection token))
            | None \<Rightarrow>
              ebind (call_zoho (refreshAccessToken (se_refresh env) now (t # ts))) (\<lambda>(token, expiresAt).
              let ttlSeconds = max 60 (math_round (of_int (expiresAt - TOKEN_CACHE_SAFETY_BUFFER_MS - now) / 1000)) in
              ebind (emodify (\<lambda>w. w\<lparr> sw_tokens := (sw_tokens w)(brandId \<mapsto> (token, expiresAt, now + ttlSeconds * 1000)) \<rparr>)) (\<lambda>_.
              ereturn (Some (connection token)))))
        | _ \<Rightarrow> ereturn None))"

section \<open>Jobs\<close>

definition job_create :: "string \<Rightarrow> direction \<Rightarrow> string \<Rightarrow> string \<Rightarrow> ('z, string) sync" where
  "job_create brandId dir objectType objectId =
     ebind fresh_id (\<lambda>jid.
     ebind (change_db (\<lambda>d. d\<lparr> sd_jobs := sd_jobs d @
       [\<lparr> sj_id = jid, sj_brandId = brandId, sj_direction = dir, sj_objectType = objectType, sj_objectId = objectId,
          sj_status = JOB_RUNNING, sj_errorClass = None, sj_lastError = None, sj_completedAt = None \<rparr>] \<rparr>)) (\<lambda>_. ereturn jid))"

definition job_change :: "string \<Rightarrow> (sync_job \<Rightarrow> sync_job) \<Rightarrow> ('z, unit) sync" where
  "job_change jid f = change_db (\<lambda>d. d\<lparr> sd_jobs := map_rows (\<lambda>j. sj_id j = jid) f (sd_jobs d) \<rparr>)"

definition integration_of :: "sync_error \<Rightarrow> integration_error option" where
  "integration_of e = (case e of Integration i \<Rightarrow> Some i | _ \<Rightarrow> None)"

definition failure_text :: "sync_error \<Rightarrow> string" where
  "failure_text e = (case integration_of e of
     Some i \<Rightarrow> (case ie_providerMessage i of None \<Rightarrow> ie_message i | Some m \<Rightarrow> m) | None \<Rightarrow> error_message e)"

definition failure_class :: "sync_error \<Rightarrow> error_class" where
  "failure_class e = (case integration_of e of Some i \<Rightarrow> ie_errorClass i | None \<Rightarrow> PERMANENT)"

definition job_failed :: "string \<Rightarrow> sync_error \<Rightarrow> ('z, unit) sync" where
  "job_failed jid e = job_change jid (\<lambda>j. j\<lparr> sj_status := JOB_FAILED, sj_errorClass := Some (failure_class e), sj_lastError := Some (failure_text e) \<rparr>)"

end
