(* ===== verification/ZohoPush.thy ===== *)
theory ZohoPush
  imports SyncStore
begin

text \<open>
  Pushing customers, invoices and payments to Zoho, and the backfill
  (\<open>apps/api/src/integrations/zoho-sync.service.ts\<close>).
\<close>

section \<open>Recording a push\<close>

definition recordFailure :: "request_scope \<Rightarrow> string \<Rightarrow> string \<Rightarrow> sync_error \<Rightarrow> ('z, 'a) sync" where
  "recordFailure sc brandId jid e =
     ebind (ecatch (job_failed jid e) (\<lambda>_. ereturn ())) (\<lambda>_.
     ebind (case integration_of e of
         Some i \<Rightarrow> (if ie_errorClass i = AUTHENTICATION
           then ecatch (markUnhealthy sc brandId (case ie_providerMessage i of None \<Rightarrow> ie_message i | Some m \<Rightarrow> m)) (\<lambda>_. ereturn ())
           else ereturn ())
       | None \<Rightarrow> ereturn ()) (\<lambda>_.
     case integration_of e of
       Some i \<Rightarrow> (if \<not> error_retryable i then ethrow (Unrecoverable (ie_message i)) else ethrow e)
     | None \<Rightarrow> ethrow e))"

definition runJob :: "request_scope \<Rightarrow> string \<Rightarrow> string \<Rightarrow> string \<Rightarrow> ('z, unit) sync \<Rightarrow> ('z, unit) sync" where
  "runJob sc brandId objectType objectId work =
     ebind (job_create brandId PUSH objectType objectId) (\<lambda>jid.
     ecatch
       (ebind work (\<lambda>_.
        ebind sync_now (\<lambda>now.
        ebind (ecatch (job_change jid (\<lambda>j. j\<lparr> sj_status := JOB_SUCCEEDED, sj_completedAt := Some now \<rparr>)) (\<lambda>_. ereturn ())) (\<lambda>_.
        ecatch (recordSyncRun sc brandId) (\<lambda>_. ereturn ())))))
       (recordFailure sc brandId jid))"

definition resolveConnection :: "'z sync_env \<Rightarrow> request_scope \<Rightarrow> string \<Rightarrow> string \<Rightarrow> string \<Rightarrow> ('z, accounting_connection option) sync" where
  "resolveConnection env sc brandId objectType objectId =
     ecatch (buildAccountingConnection env sc brandId)
       (\<lambda>e. ebind (job_create brandId PUSH objectType objectId) (\<lambda>jid. recordFailure sc brandId jid e))"

section \<open>What may be pushed\<close>

definition validateCustomerForSync :: "accounting_customer \<Rightarrow> string option" where
  "validateCustomerForSync c = (if js_trim (acu_displayName c) = [] then Some ''customer has no display name'' else None)"

definition validateInvoiceForSync :: "accounting_invoice \<Rightarrow> string option" where
  "validateInvoiceForSync iv =
     (if \<not> isSupportedCurrency (Some (ain_currency iv)) then Some (''invoice currency '' @ ain_currency iv @ '' is not supported for Zoho sync'')
      else if ain_lines iv = [] then Some ''invoice has no line items''
      else if js_trim (ain_number iv) = [] then Some ''invoice has no invoice number''
      else if ain_customerRemoteId iv = [] then Some ''invoice has no synced customer to bill''
      else None)"

definition validatePaymentForSync :: "accounting_payment \<Rightarrow> string option" where
  "validatePaymentForSync p =
     (if apa_amountMinor p \<le> 0 then Some ''payment amount must be greater than zero''
      else if \<not> isSupportedCurrency (Some (apa_currency p)) then Some (''payment currency '' @ apa_currency p @ '' is not supported for Zoho sync'')
      else None)"

definition toAccountingInvoiceStatus :: "invoice_status \<Rightarrow> accounting_status" where
  "toAccountingInvoiceStatus s = (case s of DRAFT \<Rightarrow> AS_DRAFT | PAID \<Rightarrow> AS_PAID | PARTIALLY_PAID \<Rightarrow> AS_PARTIALLY_PAID
     | CANCELLED \<Rightarrow> AS_VOID | _ \<Rightarrow> AS_SENT)"

text \<open>A record that fails the check is marked with the reason and refused; nothing is sent.\<close>

definition refuse_unsynced :: "('z, unit) sync \<Rightarrow> string option \<Rightarrow> ('z, unit) sync" where
  "refuse_unsynced markUnsynced unsyncedReason = (case unsyncedReason of
      None \<Rightarrow> ereturn ()
    | Some reason \<Rightarrow> ebind (in_scope markUnsynced) (\<lambda>_. ethrow (Integration (integration_failure VALIDATION reason))))"

section \<open>Pushing\<close>

definition customer_dto :: "synced_customer \<Rightarrow> accounting_customer" where
  "customer_dto c = \<lparr> acu_localId = c_id c, acu_remoteId = c_zohoContactId c, acu_business = c_business c,
     acu_displayName = c_displayName c, acu_companyName = c_companyName c, acu_firstName = c_firstName c,
     acu_lastName = c_lastName c, acu_email = c_email c, acu_phone = c_phone c, acu_billing = c_billing c,
     acu_shipping = c_shipping c \<rparr>"

definition push_customer_work :: "'z zoho \<Rightarrow> request_scope \<Rightarrow> string \<Rightarrow> string \<Rightarrow> ('z, unit) sync" where
  "push_customer_work zo sc brandId customerId =
     ebind (in_scope (customer_or_throw sc customerId)) (\<lambda>customer.
     let dto = customer_dto customer; reason = validateCustomerForSync dto in
     ebind (refuse_unsynced (customer_change sc (c_id customer) (\<lambda>c. c\<lparr> c_zohoUnsyncedReason := reason \<rparr>)) reason) (\<lambda>_.
     ebind (markSyncAction brandId (c_id customer) ''customer'') (\<lambda>_.
     ebind (call_zoho (upsertCustomer zo dto)) (\<lambda>result.
     ebind (storable (rr_updatedAt result)) (\<lambda>version.
     in_scope (customer_change sc (c_id customer) (\<lambda>c. c\<lparr> c_zohoContactId := Some (rr_remoteId result),
       c_zohoSyncedVersion := version, c_zohoUnsyncedReason := None \<rparr>)))))))"

definition pushCustomer :: "'z sync_env \<Rightarrow> string \<Rightarrow> string \<Rightarrow> bool \<Rightarrow> ('z, unit) sync" where
  "pushCustomer env brandId customerId viaCascade =
     ebind (sync_scope brandId ''zoho-sync'') (\<lambda>scope.
     case scope of None \<Rightarrow> ereturn () | Some sc \<Rightarrow>
     ebind (resolveConnection env sc brandId ''CUSTOMER'' customerId) (\<lambda>connection.
     case connection of None \<Rightarrow> ereturn () | Some con \<Rightarrow>
     ebind (if viaCascade then ereturn None else getSyncFlags sc brandId) (\<lambda>flags.
     if (case flags of None \<Rightarrow> False | Some (customerSync, _) \<Rightarrow> \<not> customerSync) then ereturn ()
     else runJob sc brandId ''CUSTOMER'' customerId (push_customer_work (se_zoho env con) sc brandId customerId))))"

definition invoice_dto :: "synced_invoice \<Rightarrow> line_row list \<Rightarrow> string \<Rightarrow> accounting_invoice" where
  "invoice_dto iv rows customerRemoteId = \<lparr> ain_localId = i_id iv, ain_remoteId = i_zohoInvoiceId iv, ain_number = i_number iv,
     ain_customerRemoteId = customerRemoteId, ain_currency = i_currency iv, ain_invoiceDate = i_invoiceDate iv,
     ain_dueDate = i_dueDate iv,
     ain_lines = map (\<lambda>l. \<lparr> al_name = l_itemName l, al_description = l_description l, al_quantity = l_quantity l,
        al_unitPriceMinor = l_unitPriceMinor l, al_lineTotalMinor = l_lineTotalMinor l, al_taxExempt = l_taxExempt l,
        al_remoteTaxId = i_zohoTaxId iv \<rparr>) rows,
     ain_subtotalMinor = i_subtotalMinor iv, ain_taxRateBpApplied = i_taxRateBpApplied iv, ain_taxMinor = i_taxMinor iv,
     ain_cardFeeMinor = i_cardFeeMinor iv, ain_totalMinor = i_totalMinor iv, ain_notes = i_notes iv,
     ain_status = toAccountingInvoiceStatus (i_status iv) \<rparr>"

definition synced_lines_of :: "sync_db \<Rightarrow> string \<Rightarrow> line_row list" where
  "synced_lines_of d iid = sort_key l_position (filter (\<lambda>l. l_invoiceId l = iid) (sd_lines d))"

definition push_invoice_work :: "'z sync_env \<Rightarrow> 'z zoho \<Rightarrow> request_scope \<Rightarrow> string \<Rightarrow> string \<Rightarrow> ('z, unit) sync" where
  "push_invoice_work env zo sc brandId invoiceId =
     ebind (in_scope (ebind (invoice_or_throw sc invoiceId) (\<lambda>iv. ebind (customer_or_throw sc (i_customerId iv)) (\<lambda>c.
        egets (\<lambda>w. (iv, synced_lines_of (sw_db w) (i_id iv), c)))))) (\<lambda>(iv, rows, c).
     ebind (if \<not> present (c_zohoContactId c) then pushCustomer env brandId (i_customerId iv) True else ereturn ()) (\<lambda>_.
     ebind (in_scope (customer_or_throw sc (i_customerId iv))) (\<lambda>customer.
     ebind (elift (guard (present (c_zohoContactId customer))
        (Integration (integration_failure PERMANENT ''customer push did not yield a Zoho contact id'')))) (\<lambda>_.
     let dto = invoice_dto iv rows (the (c_zohoContactId customer)); reason = validateInvoiceForSync dto in
     ebind (refuse_unsynced (invoice_change sc (i_id iv) (\<lambda>i. i\<lparr> i_zohoUnsyncedReason := reason \<rparr>)) reason) (\<lambda>_.
     ebind (markSyncAction brandId (i_id iv) ''invoice'') (\<lambda>_.
     ebind (call_zoho (zoho_pushInvoice zo dto)) (\<lambda>result.
     ebind (storable (rr_updatedAt result)) (\<lambda>version.
     in_scope (invoice_change sc (i_id iv) (\<lambda>i. i\<lparr> i_zohoInvoiceId := Some (rr_remoteId result),
       i_zohoSyncedVersion := version, i_zohoUnsyncedReason := None \<rparr>))))))))))"

definition pushInvoice :: "'z sync_env \<Rightarrow> string \<Rightarrow> string \<Rightarrow> ('z, unit) sync" where
  "pushInvoice env brandId invoiceId =
     ebind (sync_scope brandId ''zoho-sync'') (\<lambda>scope.
     case scope of None \<Rightarrow> ereturn () | Some sc \<Rightarrow>
     ebind (resolveConnection env sc brandId ''INVOICE'' invoiceId) (\<lambda>connection.
     case connection of None \<Rightarrow> ereturn () | Some con \<Rightarrow>
     ebind (getSyncFlags sc brandId) (\<lambda>flags.
     if (case flags of None \<Rightarrow> False | Some (_, invoiceSync) \<Rightarrow> \<not> invoiceSync) then ereturn ()
     else runJob sc brandId ''INVOICE'' invoiceId (push_invoice_work env (se_zoho env con) sc brandId invoiceId))))"

text \<open>The payment with its invoice and the invoice's customer.\<close>

definition payment_chain :: "request_scope \<Rightarrow> string \<Rightarrow> ('z, synced_payment \<times> synced_invoice \<times> synced_customer) sync" where
  "payment_chain sc paymentId =
     ebind (payment_or_throw sc paymentId) (\<lambda>p.
     ebind (invoice_or_throw sc (p_invoiceId p)) (\<lambda>iv.
     ebind (customer_or_throw sc (i_customerId iv)) (\<lambda>c. ereturn (p, iv, c))))"

definition payment_dto :: "synced_payment \<Rightarrow> string \<Rightarrow> string \<Rightarrow> accounting_payment" where
  "payment_dto p invoiceRemoteId customerRemoteId = \<lparr> apa_localId = p_id p, apa_remoteId = p_zohoPaymentId p,
     apa_invoiceRemoteId = invoiceRemoteId, apa_customerRemoteId = customerRemoteId, apa_amountMinor = p_amountMinor p,
     apa_currency = p_currency p, apa_settledAt = (case p_settledAt p of None \<Rightarrow> p_createdAt p | Some t \<Rightarrow> t),
     apa_method = p_method p, apa_reference = p_gatewayReference p \<rparr>"

definition send_payment :: "'z zoho \<Rightarrow> request_scope \<Rightarrow> string \<Rightarrow> synced_payment \<Rightarrow> synced_invoice \<Rightarrow> synced_customer \<Rightarrow> ('z, unit) sync" where
  "send_payment zo sc brandId refreshed invoice customer =
     ebind (elift (guard (present (i_zohoInvoiceId invoice) \<and> present (c_zohoContactId customer))
        (Integration (integration_failure PERMANENT ''invoice or customer push did not yield the remote ids this payment needs'')))) (\<lambda>_.
     let dto = payment_dto refreshed (the (i_zohoInvoiceId invoice)) (the (c_zohoContactId customer));
         reason = validatePaymentForSync dto in
     ebind (refuse_unsynced (payment_change sc (p_id refreshed) (\<lambda>p. p\<lparr> p_zohoUnsyncedReason := reason \<rparr>)) reason) (\<lambda>_.
     ebind (markSyncAction brandId (p_id refreshed) ''payment'') (\<lambda>_.
     ebind (call_zoho (zoho_pushPayment zo dto)) (\<lambda>result.
     in_scope (payment_change sc (p_id refreshed) (\<lambda>p. p\<lparr> p_zohoPaymentId := Some (rr_remoteId result), p_zohoUnsyncedReason := None \<rparr>))))))"

definition push_payment_work :: "'z sync_env \<Rightarrow> 'z zoho \<Rightarrow> request_scope \<Rightarrow> string \<Rightarrow> string \<Rightarrow> ('z, unit) sync" where
  "push_payment_work env zo sc brandId paymentId =
     ebind (in_scope (payment_chain sc paymentId)) (\<lambda>(p, iv, c).
     ebind (if \<not> present (i_zohoInvoiceId iv) then pushInvoice env brandId (p_invoiceId p) else ereturn ()) (\<lambda>_.
     ebind (in_scope (payment_chain sc paymentId)) (\<lambda>(refreshed, invoice, customer).
     send_payment zo sc brandId refreshed invoice customer)))"

definition pushPayment :: "'z sync_env \<Rightarrow> string \<Rightarrow> string \<Rightarrow> ('z, unit) sync" where
  "pushPayment env brandId paymentId =
     ebind (sync_scope brandId ''zoho-sync'') (\<lambda>scope.
     case scope of None \<Rightarrow> ereturn () | Some sc \<Rightarrow>
     ebind (resolveConnection env sc brandId ''PAYMENT'' paymentId) (\<lambda>connection.
     case connection of None \<Rightarrow> ereturn () | Some con \<Rightarrow>
     ebind (getSyncFlags sc brandId) (\<lambda>flags.
     if (case flags of None \<Rightarrow> False | Some (_, invoiceSync) \<Rightarrow> \<not> invoiceSync) then ereturn ()
     else runJob sc brandId ''PAYMENT'' paymentId (push_payment_work env (se_zoho env con) sc brandId paymentId))))"

section \<open>Backfill\<close>

record backfill_payment =
  bp_id :: string
  bp_invoiceId :: string
  bp_customerId :: string

record backfill_invoice =
  bi_id :: string
  bi_customerId :: string

definition computeBackfillTargets ::
  "backfill_payment list \<Rightarrow> backfill_invoice list \<Rightarrow> string list \<Rightarrow> string list \<times> backfill_invoice list \<times> backfill_payment list" where
  "computeBackfillTargets pays invs custs =
     (let invoiceIdsCoveredByPayments = set (map bp_invoiceId pays);
          invoicesToEnqueue = filter (\<lambda>i. bi_id i \<notin> invoiceIdsCoveredByPayments) invs;
          customerIdsCovered = set (map bp_customerId pays) \<union> set (map bi_customerId invoicesToEnqueue);
          customersToEnqueue = filter (\<lambda>c. c \<notin> customerIdsCovered) custs
      in (customersToEnqueue, invoicesToEnqueue, pays))"

definition settled_statuses :: "payment_status set" where
  "settled_statuses = {SETTLED, PARTIALLY_REFUNDED, REFUNDED}"

definition backfill_rows :: "request_scope \<Rightarrow> string \<Rightarrow> bool \<Rightarrow> sync_db \<Rightarrow> backfill_payment list \<times> backfill_invoice list \<times> string list" where
  "backfill_rows sc brandId skipPayments d =
     (let own = (\<lambda>b. reaches sc d b \<and> b = brandId);
          customer_of = (\<lambda>iid. case find (\<lambda>i. i_id i = iid) (sd_invoices d) of None \<Rightarrow> [] | Some i \<Rightarrow> i_customerId i)
      in (if skipPayments then [] else map (\<lambda>p. \<lparr> bp_id = p_id p, bp_invoiceId = p_invoiceId p, bp_customerId = customer_of (p_invoiceId p) \<rparr>)
            (filter (\<lambda>p. own (p_brandId p) \<and> p_zohoPaymentId p = None \<and> p_status p \<in> settled_statuses) (sd_payments d)),
          map (\<lambda>i. \<lparr> bi_id = i_id i, bi_customerId = i_customerId i \<rparr>)
            (filter (\<lambda>i. own (i_brandId i) \<and> i_zohoInvoiceId i = None \<and> i_status i \<noteq> DRAFT) (sd_invoices d)),
          map c_id (filter (\<lambda>c. own (c_brandId c) \<and> c_zohoContactId c = None) (sd_customers d))))"

definition enqueueBackfill :: "'z sync_env \<Rightarrow> string \<Rightarrow> bool \<Rightarrow> ('z, nat \<times> nat \<times> nat) sync" where
  "enqueueBackfill env brandId skipPayments =
     ebind (sync_scope brandId ''zoho-backfill'') (\<lambda>scope.
     ebind (elift (require scope (Conflicts ''unknown brand''))) (\<lambda>sc.
     ebind (buildAccountingConnection env sc brandId) (\<lambda>connection.
     ebind (elift (require connection (Conflicts ''brand is not connected to Zoho''))) (\<lambda>_.
     ebind (in_scope (egets (\<lambda>w. backfill_rows sc brandId skipPayments (sw_db w)))) (\<lambda>(pays, invs, custs).
     case computeBackfillTargets pays invs custs of (cs, is, ps) \<Rightarrow>
     ebind (eforeach enqueue_task (map (PushCustomerTask brandId) cs @ map (\<lambda>i. PushInvoiceTask brandId (bi_id i)) is @
       map (\<lambda>p. PushPaymentTask brandId (bp_id p)) ps)) (\<lambda>_.
     ereturn (length cs, length is, length ps)))))))"

end
