(* ===== verification/ZohoPull.thy ===== *)
theory ZohoPull
  imports ZohoPush EmailTemplate
begin

text \<open>
  Pulling customers and invoices from Zoho (\<open>apps/api/src/integrations/zoho-pull.service.ts\<close>). The records of a page
  are pulled one after the other, and so are the phases of a brand; the texts of the refusals are shortened.
\<close>

section \<open>Reading Zoho's values\<close>

text \<open>The lines the push added for tax and the card fee.\<close>

datatype pushed_kind = TAX_LINE | CARD_FEE_LINE

definition syntheticPushedLineKind :: "zoho_line \<Rightarrow> pushed_kind option" where
  "syntheticPushedLineKind l =
     (if present (zl_tax_id l) then None
      else if zl_name l = Some PUSHED_TAX_LINE_NAME \<and>
        (case zl_description l of None \<Rightarrow> False | Some d \<Rightarrow> is_prefix PUSHED_TAX_LINE_DESCRIPTION_PREFIX d) then Some TAX_LINE
      else if zl_name l = Some PUSHED_CARD_FEE_LINE_NAME \<and> zl_description l = Some PUSHED_CARD_FEE_LINE_DESCRIPTION then Some CARD_FEE_LINE
      else None)"

definition INVOICE_RECONCILE_FLOOR_SECONDS :: int where "INVOICE_RECONCILE_FLOOR_SECONDS = 60 * 60"
definition RECONCILE_CREATION_GRACE_MS :: int where "RECONCILE_CREATION_GRACE_MS = 10 * 60 * 1000"

text \<open>Active or archived.\<close>

definition mapContactStatus :: "string option \<Rightarrow> bool" where
  "mapContactStatus status = (status \<noteq> Some ''inactive'')"

definition INVOICE_STATUS_MAP :: "(string \<times> invoice_status) list" where
  "INVOICE_STATUS_MAP = [(''draft'', DRAFT), (''sent'', SENT), (''viewed'', VIEWED), (''unpaid'', PENDING_PAYMENT),
     (''overdue'', PENDING_PAYMENT), (''partially_paid'', PARTIALLY_PAID), (''paid'', PAID), (''void'', CANCELLED)]"

definition isOwnPushEcho :: "zoho_time \<Rightarrow> int option \<Rightarrow> bool" where
  "isOwnPushEcho zohoLastModified syncedVersion = (case (zohoLastModified, syncedVersion) of
      (AtTime remote, Some version) \<Rightarrow> remote \<le> version | _ \<Rightarrow> False)"

definition parseZohoTimestamp :: "zoho_time \<Rightarrow> int option" where
  "parseZohoTimestamp t = (case t of AtTime v \<Rightarrow> Some v | _ \<Rightarrow> None)"

definition preserveLocalCountry :: "address option \<Rightarrow> address option \<Rightarrow> address option" where
  "preserveLocalCountry pulled existing =
     map_option (\<lambda>a. a\<lparr> ad_country := Option.bind existing ad_country \<rparr>) pulled"

section \<open>Recording a pull\<close>

text \<open>A failure of one record, as opposed to one of the connection or one nobody recognises.\<close>

definition record_specific :: "sync_error \<Rightarrow> bool" where
  "record_specific e = (case integration_of e of None \<Rightarrow> False | Some i \<Rightarrow> ie_errorClass i \<notin> {AUTHENTICATION, TRANSIENT})"

definition pullRecordTolerantly :: "('z, bool) sync \<Rightarrow> ('z, bool) sync" where
  "pullRecordTolerantly work = ecatch work (\<lambda>e. if record_specific e then ereturn False else ethrow e)"

definition job_done :: "string \<Rightarrow> bool \<Rightarrow> ('z, unit) sync" where
  "job_done jid skipped = ebind sync_now (\<lambda>now. job_change jid (\<lambda>j. j\<lparr>
     sj_status := (if skipped then JOB_SKIPPED else JOB_SUCCEEDED), sj_completedAt := Some now \<rparr>))"

definition report_unhealthy :: "string \<Rightarrow> sync_error \<Rightarrow> ('z, unit) sync" where
  "report_unhealthy brandId e =
     (if failure_class e = AUTHENTICATION
      then ecatch (ebind (sync_scope brandId ''zoho-pull-health'') (\<lambda>scope.
             case scope of None \<Rightarrow> ereturn () | Some sc \<Rightarrow> markUnhealthy sc brandId (failure_text e))) (\<lambda>_. ereturn ())
      else ereturn ())"

definition recordPull :: "string \<Rightarrow> string \<Rightarrow> string \<Rightarrow> ('a \<Rightarrow> bool) \<Rightarrow> ('z, 'a) sync \<Rightarrow> ('z, 'a) sync" where
  "recordPull brandId objectType objectId skippedWhen work =
     ebind (job_create brandId PULL objectType objectId) (\<lambda>jid.
     ecatch
       (ebind work (\<lambda>result.
        ebind (ecatch (job_done jid (skippedWhen result)) (\<lambda>_. ereturn ())) (\<lambda>_.
        ereturn result)))
       (\<lambda>e. ebind (ecatch (job_failed jid e) (\<lambda>_. ereturn ())) (\<lambda>_.
        ebind (report_unhealthy brandId e) (\<lambda>_. ethrow e))))"

section \<open>Customers\<close>

definition customer_by_contact :: "request_scope \<Rightarrow> string \<Rightarrow> string \<Rightarrow> sync_db \<Rightarrow> synced_customer option" where
  "customer_by_contact sc brandId contactId d =
     find (\<lambda>c. reaches sc d (c_brandId c) \<and> c_brandId c = brandId \<and> c_zohoContactId c = Some contactId) (sd_customers d)"

definition contact_data :: "contact_detail \<Rightarrow> synced_customer option \<Rightarrow> synced_customer \<Rightarrow> synced_customer" where
  "contact_data contact existing c = c\<lparr>
     c_business := (cd_sub_type contact \<noteq> Some ''individual''), c_displayName := ci_contact_name contact,
     c_companyName := ci_company_name contact, c_firstName := ci_first_name contact, c_lastName := ci_last_name contact,
     c_email := ci_email contact, c_phone := ci_phone contact, c_active := mapContactStatus (ci_status contact),
     c_zohoSyncedVersion := parseZohoTimestamp (ci_modified contact),
     c_billing := preserveLocalCountry (fromZohoAddress (cd_billing contact)) (Option.bind existing c_billing),
     c_shipping := preserveLocalCountry (fromZohoAddress (cd_shipping contact)) (Option.bind existing c_shipping) \<rparr>"

definition imported_customer :: "string \<Rightarrow> string \<Rightarrow> string \<Rightarrow> int \<Rightarrow> synced_customer" where
  "imported_customer cid brandId contactId now = \<lparr> c_id = cid, c_brandId = brandId, c_displayName = [], c_email = None,
     c_business = True, c_companyName = None, c_firstName = None, c_lastName = None, c_phone = None, c_billing = None,
     c_shipping = None, c_active = True, c_createdAt = now, c_zohoContactId = Some contactId, c_zohoSyncedVersion = None,
     c_zohoUnsyncedReason = None \<rparr>"

definition customer_upsert :: "request_scope \<Rightarrow> string \<Rightarrow> string \<Rightarrow> (synced_customer \<Rightarrow> synced_customer) \<Rightarrow> ('z, string) sync" where
  "customer_upsert sc brandId contactId f =
     ebind (egets (\<lambda>w. customer_by_contact sc brandId contactId (sw_db w))) (\<lambda>row.
     case row of
       Some c \<Rightarrow> ebind (customer_change sc (c_id c) f) (\<lambda>_. ereturn (c_id c))
     | None \<Rightarrow>
       ebind (egets (\<lambda>w. reaches sc (sw_db w) brandId)) (\<lambda>ok.
       ebind (elift (guard ok (ErrorThrown ''row-level security''))) (\<lambda>_.
       ebind fresh_id (\<lambda>cid.
       ebind sync_now (\<lambda>now.
       ebind (change_db (\<lambda>d. d\<lparr> sd_customers := sd_customers d @ [f (imported_customer cid brandId contactId now)] \<rparr>)) (\<lambda>_.
       ereturn cid))))))"

definition same_person :: "string \<Rightarrow> string \<Rightarrow> person_row \<Rightarrow> bool" where
  "same_person cid personId r \<longleftrightarrow> pn_customerId r = cid \<and> pn_zohoPersonId r = Some personId"

definition person_upsert :: "string \<Rightarrow> contact_person \<Rightarrow> ('z, unit) sync" where
  "person_upsert cid p = change_db (\<lambda>d.
     let data = p\<lparr> cp_is_primary := Some (case cp_is_primary p of None \<Rightarrow> False | Some b \<Rightarrow> b) \<rparr> in
     if list_ex (same_person cid (cp_id p)) (sd_persons d)
     then d\<lparr> sd_persons := map_rows (same_person cid (cp_id p)) (\<lambda>r. r\<lparr> pn_person := data \<rparr>) (sd_persons d) \<rparr>
     else d\<lparr> sd_persons := sd_persons d @ [\<lparr> pn_customerId = cid, pn_zohoPersonId = Some (cp_id p), pn_person = data \<rparr>] \<rparr>)"

definition persons_keep :: "string \<Rightarrow> string list \<Rightarrow> ('z, unit) sync" where
  "persons_keep cid personIds = change_db (\<lambda>d. d\<lparr> sd_persons := filter (\<lambda>r.
     \<not> (pn_customerId r = cid \<and> (case pn_zohoPersonId r of None \<Rightarrow> False | Some z \<Rightarrow> z \<notin> set personIds))) (sd_persons d) \<rparr>)"

definition pull_customer_work :: "'z zoho \<Rightarrow> request_scope \<Rightarrow> string \<Rightarrow> string \<Rightarrow> ('z, bool) sync" where
  "pull_customer_work zo sc brandId contactId =
     ebind (call_zoho (getContact zo contactId)) (\<lambda>contact.
     ebind (in_scope (egets (\<lambda>w. customer_by_contact sc brandId contactId (sw_db w)))) (\<lambda>existing.
     if isOwnPushEcho (ci_modified contact) (Option.bind existing c_zohoSyncedVersion) then ereturn False
     else
       let contactPersons = (case cd_persons contact of None \<Rightarrow> [] | Some ps \<Rightarrow> ps) in
       ebind (in_scope
         (ebind (customer_upsert sc brandId contactId (contact_data contact existing)) (\<lambda>cid.
          ebind (eforeach (person_upsert cid) contactPersons) (\<lambda>_.
          persons_keep cid (map cp_id contactPersons))))) (\<lambda>_.
       ereturn True)))"

definition pullOneCustomer :: "'z zoho \<Rightarrow> request_scope \<Rightarrow> string \<Rightarrow> string \<Rightarrow> ('z, bool) sync" where
  "pullOneCustomer zo sc brandId contactId =
     recordPull brandId ''CUSTOMER'' contactId (\<lambda>_. False) (pull_customer_work zo sc brandId contactId)"

definition isContactDue :: "contact_item \<Rightarrow> (string \<Rightarrow> int option option) \<Rightarrow> int option \<Rightarrow> bool \<Rightarrow> bool" where
  "isContactDue item versions cursor force =
     (case parseZohoTimestamp (ci_modified item) of
        None \<Rightarrow> True
      | Some remote \<Rightarrow>
        (case versions (ci_contact_id item) of
           None \<Rightarrow> True
         | Some (Some stored) \<Rightarrow> stored < remote
         | Some None \<Rightarrow> force \<or> (case cursor of None \<Rightarrow> True | Some since \<Rightarrow> since < remote)))"

definition localContactVersions :: "request_scope \<Rightarrow> string \<Rightarrow> string list \<Rightarrow> ('z, string \<Rightarrow> int option option) sync" where
  "localContactVersions sc brandId contactIds =
     (if contactIds = [] then ereturn (\<lambda>_. None)
      else in_scope (egets (\<lambda>w cid. if cid \<in> set contactIds
        then map_option c_zohoSyncedVersion (customer_by_contact sc brandId cid (sw_db w)) else None)))"

text \<open>
  \<open>while (hasMore)\<close> over the pages of a list, from \<open>page\<close> on; the result has one value per page. At most \<open>fuel\<close>
  pages are read.
\<close>

fun each_page :: "nat \<Rightarrow> nat \<Rightarrow> (nat \<Rightarrow> ('z, 'a \<times> bool) sync) \<Rightarrow> ('z, 'a list) sync" where
  "each_page 0 page body = ethrow PagesExhausted"
| "each_page (Suc fuel) page body =
     ebind (body page) (\<lambda>(a, hasMorePage).
     if hasMorePage then ebind (each_page fuel (page + 1) body) (\<lambda>as. ereturn (a # as)) else ereturn [a])"

definition customers_page :: "'z zoho \<Rightarrow> request_scope \<Rightarrow> string \<Rightarrow> int option \<Rightarrow> bool \<Rightarrow> nat \<Rightarrow>
    ('z, (nat \<times> (string \<times> string option) list) \<times> bool) sync" where
  "customers_page zo sc brandId cursor force page =
     ebind (call_zoho (listContactsPage zo page)) (\<lambda>(contacts, hasMorePage).
     ebind (localContactVersions sc brandId (map ci_contact_id contacts)) (\<lambda>versions.
     let due = filter (\<lambda>item. isContactDue item versions cursor force) contacts in
     ebind (eforeach (\<lambda>item. pullRecordTolerantly (pullOneCustomer zo sc brandId (ci_contact_id item))) due) (\<lambda>applied.
     ereturn ((length (filter id applied), map (\<lambda>item. (ci_contact_id item, ci_status item)) contacts), hasMorePage))))"

definition pullCustomers :: "nat \<Rightarrow> 'z zoho \<Rightarrow> request_scope \<Rightarrow> string \<Rightarrow> int option \<Rightarrow> bool \<Rightarrow>
    ('z, nat \<times> (string \<times> string option) list) sync" where
  "pullCustomers pages zo sc brandId cursor force =
     recordPull brandId ''CUSTOMER'' ''list'' (\<lambda>_. False)
       (ebind (each_page pages 1 (customers_page zo sc brandId cursor force)) (\<lambda>read.
        ereturn (sum_list (map fst read), concat (map snd read))))"

section \<open>Presence of customers\<close>

definition contact_presence :: "int \<Rightarrow> (string \<times> string option) list \<Rightarrow> synced_customer \<Rightarrow> bool option" where
  "contact_presence createdBefore seen c =
     (let contactId = the (c_zohoContactId c);
          shouldBeActive = contactId \<in> set (map fst (filter (\<lambda>(_, status). mapContactStatus status) seen)) in
      if contactId \<notin> set (map fst seen) \<and> createdBefore < c_createdAt c then None
      else if \<not> shouldBeActive \<and> c_active c then Some False
      else if shouldBeActive \<and> \<not> c_active c then Some True
      else None)"

definition customers_set_active :: "request_scope \<Rightarrow> string list \<Rightarrow> bool \<Rightarrow> ('z, unit) sync" where
  "customers_set_active sc ids active =
     (if ids = [] then ereturn ()
      else in_scope (change_db (\<lambda>d. d\<lparr> sd_customers :=
        map_rows (\<lambda>c. reaches sc d (c_brandId c) \<and> c_id c \<in> set ids) (\<lambda>c. c\<lparr> c_active := active \<rparr>) (sd_customers d) \<rparr>)))"

definition reconcileContactPresence :: "request_scope \<Rightarrow> string \<Rightarrow> (string \<times> string option) list \<Rightarrow> ('z, unit) sync" where
  "reconcileContactPresence sc brandId seen =
     (if seen = [] then ereturn ()
      else
        ebind (in_scope (egets (\<lambda>w. filter (\<lambda>c. reaches sc (sw_db w) (c_brandId c) \<and> c_brandId c = brandId \<and>
          c_zohoContactId c \<noteq> None) (sd_customers (sw_db w))))) (\<lambda>local.
        ebind sync_now (\<lambda>now.
        let decided = contact_presence (now - RECONCILE_CREATION_GRACE_MS) seen;
            toArchive = map c_id (filter (\<lambda>c. decided c = Some False) local);
            toActivate = map c_id (filter (\<lambda>c. decided c = Some True) local) in
        ebind (customers_set_active sc toArchive False) (\<lambda>_. customers_set_active sc toActivate True))))"

definition pullAndReconcileCustomers :: "nat \<Rightarrow> 'z zoho \<Rightarrow> request_scope \<Rightarrow> string \<Rightarrow> int option \<Rightarrow> bool \<Rightarrow> ('z, nat) sync" where
  "pullAndReconcileCustomers pages zo sc brandId cursor force =
     ebind (pullCustomers pages zo sc brandId cursor force) (\<lambda>(touched, seen).
     ebind (ecatch (reconcileContactPresence sc brandId seen) (\<lambda>_. ereturn ())) (\<lambda>_.
     ereturn touched))"

section \<open>Invoices\<close>

definition invoice_by_remote :: "request_scope \<Rightarrow> string \<Rightarrow> string \<Rightarrow> sync_db \<Rightarrow> synced_invoice option" where
  "invoice_by_remote sc brandId remoteId d =
     find (\<lambda>i. reaches sc d (i_brandId i) \<and> i_brandId i = brandId \<and> i_zohoInvoiceId i = Some remoteId) (sd_invoices d)"

definition localCustomerId :: "request_scope \<Rightarrow> string \<Rightarrow> string \<Rightarrow> ('z, string option) sync" where
  "localCustomerId sc brandId contactId =
     in_scope (egets (\<lambda>w. map_option c_id (customer_by_contact sc brandId contactId (sw_db w))))"

definition line_amount :: "string \<Rightarrow> zoho_line \<Rightarrow> int" where
  "line_amount currency l = decimalToMinor (js_times (zl_rate l) (zl_quantity l)) currency"

definition toLocalLineItems :: "string \<Rightarrow> zoho_line list \<Rightarrow> string \<Rightarrow> line_row list" where
  "toLocalLineItems invoiceId ls currency =
     map (\<lambda>(position, l). \<lparr> l_invoiceId = invoiceId, l_position = position,
        l_itemName = (case zl_name l of None \<Rightarrow> ''Line '' @ show_nat (position + 1) | Some n \<Rightarrow> n),
        l_description = zl_description l, l_quantity = math_round (js_times (zl_quantity l) 10000),
        l_unitPriceMinor = decimalToMinor (zl_rate l) currency, l_lineTotalMinor = line_amount currency l,
        l_taxExempt = (\<not> present (zl_tax_id l)) \<rparr>) (enumerate 0 ls)"

definition pushed_amount :: "pushed_kind \<Rightarrow> string \<Rightarrow> zoho_line list \<Rightarrow> int" where
  "pushed_amount kind currency ls =
     sum_list (map (line_amount currency) (filter (\<lambda>l. syntheticPushedLineKind l = Some kind) ls))"

text \<open>What the detail of an invoice says of the local one: its subtotal, tax, tax rate and lines.\<close>

definition invoice_breakdown :: "string \<Rightarrow> zoho_invoice_detail \<Rightarrow> string \<Rightarrow> int \<times> int \<times> int \<times> line_row list" where
  "invoice_breakdown invoiceId detail currency =
     (let syntheticTaxMinor = pushed_amount TAX_LINE currency (zd_lines detail);
          syntheticFeeMinor = pushed_amount CARD_FEE_LINE currency (zd_lines detail);
          realLines = filter (\<lambda>l. syntheticPushedLineKind l = None) (zd_lines detail);
          subtotalMinor = decimalToMinor (zd_sub_total detail) currency - syntheticTaxMinor - syntheticFeeMinor;
          taxMinor = decimalToMinor (zd_tax_total detail) currency + syntheticTaxMinor;
          taxRateBpApplied = (if 0 < subtotalMinor then math_round (js_times (js_divide (of_int taxMinor) (of_int subtotalMinor)) 10000) else 0)
      in (subtotalMinor, taxMinor, taxRateBpApplied, toLocalLineItems invoiceId realLines currency))"

definition line_upsert :: "line_row \<Rightarrow> ('z, unit) sync" where
  "line_upsert l =
     ebind (elift (guard (int32 (l_quantity l)) (ErrorThrown ''quantity out of range''))) (\<lambda>_.
     change_db (\<lambda>d. let same = (\<lambda>x. l_invoiceId x = l_invoiceId l \<and> l_position x = l_position l) in
       if list_ex same (sd_lines d) then d\<lparr> sd_lines := map_rows same (\<lambda>_. l) (sd_lines d) \<rparr>
       else d\<lparr> sd_lines := sd_lines d @ [l] \<rparr>))"

definition lines_keep_below :: "string \<Rightarrow> nat \<Rightarrow> ('z, unit) sync" where
  "lines_keep_below invoiceId n = change_db (\<lambda>d. d\<lparr> sd_lines :=
     filter (\<lambda>l. \<not> (l_invoiceId l = invoiceId \<and> n \<le> l_position l)) (sd_lines d) \<rparr>)"

definition applyInvoiceDetail :: "request_scope \<Rightarrow> string \<Rightarrow> zoho_invoice_detail \<Rightarrow> string \<Rightarrow> ('z, unit) sync" where
  "applyInvoiceDetail sc invoiceId detail currency =
     (case invoice_breakdown invoiceId detail currency of (subtotalMinor, taxMinor, taxRateBpApplied, lineItems) \<Rightarrow>
      in_scope
        (ebind (elift (guard (int32 taxRateBpApplied) (ErrorThrown ''tax_rate_bp_applied out of range''))) (\<lambda>_.
         ebind (invoice_change sc invoiceId (\<lambda>i. i\<lparr> i_subtotalMinor := subtotalMinor, i_taxRateBpApplied := taxRateBpApplied,
           i_taxMinor := taxMinor, i_notes := zd_notes detail \<rparr>)) (\<lambda>_.
         ebind (eforeach line_upsert lineItems) (\<lambda>_.
         lines_keep_below invoiceId (length lineItems))))))"

definition isUniqueViolation :: "sync_error \<Rightarrow> string option \<Rightarrow> bool" where
  "isUniqueViolation e target = (case e of
      UniqueThrown field \<Rightarrow> (case target of None \<Rightarrow> True | Some t \<Rightarrow> field = t) | _ \<Rightarrow> False)"

fun withUniqueViolationRetry :: "nat \<Rightarrow> string list \<Rightarrow> ('z, 'a) sync \<Rightarrow> ('z, 'a) sync" where
  "withUniqueViolationRetry 0 nonRetryable work = ethrow (ErrorThrown ''withUniqueViolationRetry: exhausted attempts without a result'')"
| "withUniqueViolationRetry (Suc left) nonRetryable work =
     ecatch work (\<lambda>e.
       if list_ex (\<lambda>t. isUniqueViolation e (Some t)) nonRetryable then ethrow e
       else if left = 0 \<or> \<not> isUniqueViolation e None then ethrow e
       else withUniqueViolationRetry left nonRetryable work)"

definition invoice_header :: "invoice_item \<Rightarrow> string \<Rightarrow> synced_invoice \<Rightarrow> synced_invoice" where
  "invoice_header item customerId i = i\<lparr>
     i_customerId := customerId, i_number := zi_number item,
     i_status := (case map_of INVOICE_STATUS_MAP (zi_status item) of None \<Rightarrow> SENT | Some s \<Rightarrow> s),
     i_invoiceDate := zi_date item * day_ms, i_dueDate := zi_due_date item * day_ms, i_currency := zi_currency item,
     i_totalMinor := decimalToMinor (zi_total item) (zi_currency item),
     i_balanceMinor := decimalToMinor (zi_balance item) (zi_currency item),
     i_zohoSyncedVersion := parseZohoTimestamp (zi_modified item) \<rparr>"

definition imported_invoice :: "string \<Rightarrow> string \<Rightarrow> invoice_item \<Rightarrow> string \<Rightarrow> int \<Rightarrow> synced_invoice" where
  "imported_invoice iid brandId item publicToken now = \<lparr> i_id = iid, i_brandId = brandId, i_customerId = [], i_number = [],
     i_status = DRAFT, i_invoiceDate = 0, i_dueDate = 0, i_currency = ''USD'',
     i_subtotalMinor = decimalToMinor (zi_total item) (zi_currency item), i_taxRateBpApplied = 0, i_taxMinor = 0,
     i_cardFeeRateBpApplied = 0, i_cardFeeMinor = 0, i_totalMinor = 0, i_balanceMinor = 0, i_publicToken = publicToken,
     i_publicTokenActive = True, i_notes = None, i_internalNotes = None, i_zohoInvoiceId = Some (zi_invoice_id item),
     i_issuedAt = None, i_firstViewedAt = None, i_paidAt = None, i_cancelledAt = None, i_previousStatus = None,
     i_overdue = False, i_createdAt = now, i_zohoTaxId = None, i_zohoSyncedVersion = None, i_zohoMissingSince = None,
     i_zohoUnsyncedReason = None \<rparr>"

definition number_taken :: "string \<Rightarrow> string \<Rightarrow> (synced_invoice \<Rightarrow> bool) \<Rightarrow> sync_db \<Rightarrow> bool" where
  "number_taken brandId number except d =
     list_ex (\<lambda>x. \<not> except x \<and> i_brandId x = brandId \<and> i_number x = number) (sd_invoices d)"

definition invoice_upsert :: "request_scope \<Rightarrow> string \<Rightarrow> invoice_item \<Rightarrow> string \<Rightarrow> ('z, unit) sync" where
  "invoice_upsert sc brandId item customerId =
     ebind fresh_id (\<lambda>publicToken.
     ebind (egets (\<lambda>w. (sw_db w, invoice_by_remote sc brandId (zi_invoice_id item) (sw_db w)))) (\<lambda>(d, row).
     case row of
       Some r \<Rightarrow>
         ebind (elift (guard (\<not> number_taken brandId (zi_number item) (\<lambda>x. i_id x = i_id r) d) (UniqueThrown ''number''))) (\<lambda>_.
         invoice_change sc (i_id r) (invoice_header item customerId))
     | None \<Rightarrow>
         ebind (elift (guard (reaches sc d brandId) (ErrorThrown ''row-level security''))) (\<lambda>_.
         ebind (elift (guard (\<not> number_taken brandId (zi_number item) (\<lambda>_. False) d) (UniqueThrown ''number''))) (\<lambda>_.
         ebind (elift (guard (\<not> list_ex (\<lambda>x. i_publicToken x = publicToken) (sd_invoices d)) (UniqueThrown ''public_token''))) (\<lambda>_.
         ebind fresh_id (\<lambda>iid.
         ebind sync_now (\<lambda>now.
         change_db (\<lambda>d. d\<lparr> sd_invoices := sd_invoices d @
           [invoice_header item customerId (imported_invoice iid brandId item publicToken now)] \<rparr>))))))))"

definition validation_failure :: "string \<Rightarrow> sync_error" where
  "validation_failure message = Integration (integration_failure VALIDATION message)"

definition pull_invoice_work :: "'z zoho \<Rightarrow> request_scope \<Rightarrow> string \<Rightarrow> invoice_item \<Rightarrow> zoho_invoice_detail option \<Rightarrow> ('z, bool) sync" where
  "pull_invoice_work zo sc brandId item prefetchedDetail =
     ebind (in_scope (egets (\<lambda>w. let existing = invoice_by_remote sc brandId (zi_invoice_id item) (sw_db w) in
        (existing, case existing of None \<Rightarrow> [] | Some i \<Rightarrow> synced_lines_of (sw_db w) (i_id i))))) (\<lambda>(existing, rows).
     if isOwnPushEcho (zi_modified item) (Option.bind existing i_zohoSyncedVersion) then ereturn False
     else
       ebind (localCustomerId sc brandId (zi_customer_id item)) (\<lambda>known.
       ebind (if present known then ereturn known
              else ebind (pullOneCustomer zo sc brandId (zi_customer_id item)) (\<lambda>_. localCustomerId sc brandId (zi_customer_id item))) (\<lambda>cid.
       ebind (elift (guard (present cid) (validation_failure (''invoice '' @ zi_invoice_id item @ '' references Zoho contact '' @
          zi_customer_id item @ '', which could not be pulled'')))) (\<lambda>_.
       ebind (elift (guard (isSupportedCurrency (Some (zi_currency item))) (validation_failure (''invoice '' @ zi_invoice_id item @
          '' is denominated in '' @ zi_currency item @ '', which this platform does not support'')))) (\<lambda>_.
       ebind (case existing of
           Some i \<Rightarrow>
             if rows \<noteq> []
             then ebind (case prefetchedDetail of Some detail \<Rightarrow> ereturn detail | None \<Rightarrow> call_zoho (getInvoice zo (zi_invoice_id item))) (\<lambda>detail.
               applyInvoiceDetail sc (i_id i) detail (zi_currency item))
             else ereturn ()
         | None \<Rightarrow> ereturn ()) (\<lambda>_.
       ebind (ecatch (withUniqueViolationRetry 5 [''number''] (in_scope (invoice_upsert sc brandId item (the cid))))
         (\<lambda>e. if isUniqueViolation e (Some ''number'')
              then ethrow (validation_failure (''Zoho invoice '' @ zi_invoice_id item @ '' uses number '' @ [CHR 0x22] @ zi_number item @ [CHR 0x22] @
                '', which already belongs to a different invoice on this brand''))
              else ethrow e)) (\<lambda>_.
       ereturn True)))))))"

definition pullOneInvoice :: "'z zoho \<Rightarrow> request_scope \<Rightarrow> string \<Rightarrow> invoice_item \<Rightarrow> zoho_invoice_detail option \<Rightarrow> ('z, bool) sync" where
  "pullOneInvoice zo sc brandId item prefetchedDetail =
     recordPull brandId ''INVOICE'' (zi_invoice_id item) Not (pull_invoice_work zo sc brandId item prefetchedDetail)"

definition invoices_page :: "'z zoho \<Rightarrow> request_scope \<Rightarrow> string \<Rightarrow> int option \<Rightarrow> nat \<Rightarrow> ('z, nat \<times> bool) sync" where
  "invoices_page zo sc brandId cursor page =
     ebind (call_zoho (listInvoicesPage zo page cursor)) (\<lambda>(items, hasMorePage).
     ebind (eforeach (\<lambda>item. pullRecordTolerantly (pullOneInvoice zo sc brandId item None)) items) (\<lambda>applied.
     ereturn (length (filter id applied), hasMorePage)))"

definition pullInvoices :: "nat \<Rightarrow> 'z zoho \<Rightarrow> request_scope \<Rightarrow> string \<Rightarrow> int option \<Rightarrow> ('z, nat) sync" where
  "pullInvoices pages zo sc brandId cursor =
     recordPull brandId ''INVOICE'' ''list'' (\<lambda>_. False)
       (ebind (each_page pages 1 (invoices_page zo sc brandId cursor)) (\<lambda>read. ereturn (sum_list read)))"

definition enrichInvoiceFromZohoOnDemand :: "'z sync_env \<Rightarrow> request_scope \<Rightarrow> string \<Rightarrow> string \<Rightarrow> ('z, bool) sync" where
  "enrichInvoiceFromZohoOnDemand env sc brandId invoiceId =
     ebind (in_scope (egets (\<lambda>w. find (\<lambda>i. reaches sc (sw_db w) (i_brandId i) \<and> i_id i = invoiceId \<and> i_brandId i = brandId)
        (sd_invoices (sw_db w))))) (\<lambda>existing.
     case existing of None \<Rightarrow> ereturn False | Some i \<Rightarrow>
     if \<not> present (i_zohoInvoiceId i) then ereturn False
     else
       let remoteId = the (i_zohoInvoiceId i) in
       ebind (buildAccountingConnection env sc brandId) (\<lambda>connection.
       case connection of None \<Rightarrow> ereturn False | Some con \<Rightarrow>
       recordPull brandId ''INVOICE'' remoteId Not
         (ebind (call_zoho (getInvoice (se_zoho env con) remoteId)) (\<lambda>detail.
          ebind (applyInvoiceDetail sc invoiceId detail (i_currency i)) (\<lambda>_. ereturn True)))))"

section \<open>Presence of invoices\<close>

definition seen_page :: "'z zoho \<Rightarrow> nat \<Rightarrow> ('z, string list \<times> bool) sync" where
  "seen_page zo page = ebind (call_zoho (listInvoicesPage zo page None)) (\<lambda>(items, hasMorePage).
     ereturn (map zi_invoice_id items, hasMorePage))"

definition now_missing :: "int \<Rightarrow> string set \<Rightarrow> synced_invoice \<Rightarrow> bool" where
  "now_missing createdBefore seen i \<longleftrightarrow>
     the (i_zohoInvoiceId i) \<notin> seen \<and> i_zohoMissingSince i = None \<and> i_createdAt i \<le> createdBefore"

definition reappeared :: "string set \<Rightarrow> synced_invoice \<Rightarrow> bool" where
  "reappeared seen i \<longleftrightarrow> the (i_zohoInvoiceId i) \<in> seen \<and> i_zohoMissingSince i \<noteq> None"

definition invoices_updateMany :: "request_scope \<Rightarrow> string list \<Rightarrow> (synced_invoice \<Rightarrow> synced_invoice) \<Rightarrow> ('z, unit) sync" where
  "invoices_updateMany sc ids f =
     (if ids = [] then ereturn ()
      else in_scope (change_db (\<lambda>d. d\<lparr> sd_invoices :=
        map_rows (\<lambda>i. reaches sc d (i_brandId i) \<and> i_id i \<in> set ids) f (sd_invoices d) \<rparr>)))"

definition reconcile_invoices_work :: "nat \<Rightarrow> 'z zoho \<Rightarrow> request_scope \<Rightarrow> string \<Rightarrow> ('z, bool) sync" where
  "reconcile_invoices_work pages zo sc brandId =
     ebind (each_page pages 1 (seen_page zo)) (\<lambda>read.
     let seen = set (concat read) in
     if concat read = [] then ereturn False
     else
       ebind (in_scope (egets (\<lambda>w. filter (\<lambda>i. reaches sc (sw_db w) (i_brandId i) \<and> i_brandId i = brandId \<and>
         i_zohoInvoiceId i \<noteq> None) (sd_invoices (sw_db w))))) (\<lambda>local.
       ebind sync_now (\<lambda>now.
       let nowMissing = map i_id (filter (now_missing (now - RECONCILE_CREATION_GRACE_MS) seen) local);
           again = map i_id (filter (reappeared seen) local) in
       ebind (invoices_updateMany sc nowMissing (\<lambda>i. i\<lparr> i_zohoMissingSince := Some now, i_publicTokenActive := False \<rparr>)) (\<lambda>_.
       ebind (invoices_updateMany sc again (\<lambda>i. i\<lparr> i_zohoMissingSince := None, i_publicTokenActive := True \<rparr>)) (\<lambda>_.
       ereturn True)))))"

definition reconcileInvoicePresence :: "nat \<Rightarrow> 'z zoho \<Rightarrow> request_scope \<Rightarrow> string \<Rightarrow> ('z, bool) sync" where
  "reconcileInvoicePresence pages zo sc brandId =
     recordPull brandId ''INVOICE'' ''reconcile'' Not (reconcile_invoices_work pages zo sc brandId)"

definition reconcileInvoicePresenceIfDue :: "nat \<Rightarrow> 'z zoho \<Rightarrow> request_scope \<Rightarrow> string \<Rightarrow> bool \<Rightarrow> ('z, unit) sync" where
  "reconcileInvoicePresenceIfDue pages zo sc brandId force =
     (let floorKey = ''zoho:invoices-reconciled:'' @ brandId;
          back_off = set_flag floorKey INVOICE_RECONCILE_FLOOR_SECONDS in
      ebind (egets (flag_set floorKey)) (\<lambda>recent.
      if \<not> force \<and> recent then ereturn ()
      else
        ebind (ecatch (reconcileInvoicePresence pages zo sc brandId) (\<lambda>e. ebind back_off (\<lambda>_. ethrow e))) (\<lambda>_.
        back_off)))"

section \<open>A brand\<close>

definition recordConnectionFailure :: "request_scope \<Rightarrow> string \<Rightarrow> sync_error \<Rightarrow> ('z, unit) sync" where
  "recordConnectionFailure sc brandId e =
     (let message = failure_text e; throttleKey = ''zoho:pull-connection-failure-logged:'' @ brandId in
      ecatch
        (ebind (if failure_class e = AUTHENTICATION then markUnhealthy sc brandId message else ereturn ()) (\<lambda>_.
         ebind (egets (flag_set throttleKey)) (\<lambda>logged.
         if logged then ereturn ()
         else
           ebind (set_flag throttleKey (60 * 60)) (\<lambda>_.
           ebind sync_now (\<lambda>now.
           ebind fresh_id (\<lambda>jid.
           change_db (\<lambda>d. d\<lparr> sd_jobs := sd_jobs d @
             [\<lparr> sj_id = jid, sj_brandId = brandId, sj_direction = PULL, sj_objectType = ''CONNECTION'', sj_objectId = ''token refresh'',
                sj_status = JOB_FAILED, sj_errorClass = Some (failure_class e),
                sj_lastError = Some (if failure_class e = AUTHENTICATION
                  then message @ '' - Zoho rejected this brand''@ [CHR 0x27] @ ''s saved login. Disconnect and connect Zoho Books again.''
                  else message),
                sj_completedAt = Some now \<rparr>] \<rparr>)))))))
        (\<lambda>_. ereturn ()))"

text \<open>
  A phase of \<open>Promise.all\<close>: its error is kept as a value, because a phase that fails does not stop the others. The
  phases run one after the other here, and the first failure in their order is the one reported.
\<close>

definition settle :: "('z, 'a) sync \<Rightarrow> ('z, (sync_error, 'a) result) sync" where
  "settle m = ecatch (ebind m (\<lambda>a. ereturn (Inr a))) (\<lambda>e. ereturn (Inl e))"

definition pull_phases :: "nat \<Rightarrow> 'z zoho \<Rightarrow> request_scope \<Rightarrow> string \<Rightarrow> int option \<Rightarrow> bool \<Rightarrow> ('z, nat \<times> nat) sync" where
  "pull_phases pages zo sc brandId cursor forceFullScan =
     ebind (settle (pullAndReconcileCustomers pages zo sc brandId cursor forceFullScan)) (\<lambda>customers.
     ebind (settle (pullInvoices pages zo sc brandId cursor)) (\<lambda>invoices.
     ebind (ecatch (reconcileInvoicePresenceIfDue pages zo sc brandId forceFullScan) (\<lambda>_. ereturn ())) (\<lambda>_.
     ebind (elift customers) (\<lambda>customers.
     ebind (elift invoices) (\<lambda>invoices. ereturn (customers, invoices))))))"

definition pullBrand :: "'z sync_env \<Rightarrow> string \<Rightarrow> bool \<Rightarrow> ('z, nat \<times> nat) sync" where
  "pullBrand env brandId forceFullScan =
     ebind (sync_scope brandId ''zoho-pull'') (\<lambda>scope.
     case scope of None \<Rightarrow> ereturn (0, 0) | Some sc \<Rightarrow>
     ebind (ecatch (buildAccountingConnection env sc brandId)
        (\<lambda>e. ebind (recordConnectionFailure sc brandId e) (\<lambda>_. ethrow e))) (\<lambda>connection.
     case connection of None \<Rightarrow> ereturn (0, 0) | Some con \<Rightarrow>
     ebind sync_now (\<lambda>pullStartedAt.
     ebind (getLastPulledAt sc brandId) (\<lambda>cursor.
     ebind (pull_phases (se_pages env) (se_zoho env con) sc brandId cursor forceFullScan) (\<lambda>counts.
     ebind (recordPullRun sc brandId pullStartedAt) (\<lambda>_. ereturn counts))))))"

definition pullOneCustomerNow :: "'z sync_env \<Rightarrow> string \<Rightarrow> string \<Rightarrow> ('z, bool) sync" where
  "pullOneCustomerNow env brandId contactId =
     ebind (sync_scope brandId ''zoho-webhook'') (\<lambda>scope.
     case scope of None \<Rightarrow> ereturn False | Some sc \<Rightarrow>
     ebind (buildAccountingConnection env sc brandId) (\<lambda>connection.
     case connection of None \<Rightarrow> ereturn False | Some con \<Rightarrow>
     pullOneCustomer (se_zoho env con) sc brandId contactId))"

definition pullOneInvoiceNow :: "'z sync_env \<Rightarrow> string \<Rightarrow> string \<Rightarrow> ('z, bool) sync" where
  "pullOneInvoiceNow env brandId invoiceId =
     ebind (sync_scope brandId ''zoho-webhook'') (\<lambda>scope.
     case scope of None \<Rightarrow> ereturn False | Some sc \<Rightarrow>
     ebind (buildAccountingConnection env sc brandId) (\<lambda>connection.
     case connection of None \<Rightarrow> ereturn False | Some con \<Rightarrow>
     ebind (call_zoho (getInvoice (se_zoho env con) invoiceId)) (\<lambda>detail.
     pullOneInvoice (se_zoho env con) sc brandId (invoice_item.truncate detail) (Some detail))))"

end
