(* ===== verification/ZohoWebhook.thy ===== *)
theory ZohoWebhook
  imports ZohoPull Tenancy
begin

text \<open>
  Inbound webhooks (\<open>apps/api/src/integrations/zoho-webhook.service.ts\<close>, \<open>zoho-webhook.controller.ts\<close> and
  \<open>zoho-webhook-token.ts\<close>): which brand an event belongs to, and the queue of the ones nobody can tell.
\<close>

section \<open>Routing\<close>

datatype webhook_object = CONTACT_RECORD | INVOICE_RECORD
datatype zoho_event = CREATED_EVENT | STATUS_UPDATED_EVENT | UNSPECIFIED_EVENT

definition object_type :: "webhook_object \<Rightarrow> string" where
  "object_type k = (case k of CONTACT_RECORD \<Rightarrow> ''CUSTOMER'' | INVOICE_RECORD \<Rightarrow> ''INVOICE'')"

definition event_text :: "zoho_event \<Rightarrow> string" where
  "event_text e = (case e of CREATED_EVENT \<Rightarrow> ''created'' | STATUS_UPDATED_EVENT \<Rightarrow> ''status_updated'' | UNSPECIFIED_EVENT \<Rightarrow> ''unspecified'')"

definition guard_action :: "webhook_object \<Rightarrow> string" where
  "guard_action k = (case k of CONTACT_RECORD \<Rightarrow> ''customer'' | INVOICE_RECORD \<Rightarrow> ''invoice'')"

text \<open>The local records with a Zoho id, each with its brand.\<close>

definition findLocalRecords :: "webhook_object \<Rightarrow> string \<Rightarrow> ('z, (string \<times> string) list) sync" where
  "findLocalRecords k remoteId = egets (\<lambda>w. case k of
      CONTACT_RECORD \<Rightarrow> map (\<lambda>c. (c_id c, c_brandId c)) (filter (\<lambda>c. c_zohoContactId c = Some remoteId) (sd_customers (sw_db w)))
    | INVOICE_RECORD \<Rightarrow> map (\<lambda>i. (i_id i, i_brandId i)) (filter (\<lambda>i. i_zohoInvoiceId i = Some remoteId) (sd_invoices (sw_db w))))"

text \<open>The connected brands of an organisation, each with its merchant.\<close>

definition candidate_brands :: "sync_db \<Rightarrow> string \<Rightarrow> (string \<times> string) list" where
  "candidate_brands d organizationId =
     map (\<lambda>n. (cn_brandId n, case map_of (sd_brands d) (cn_brandId n) of None \<Rightarrow> [] | Some m \<Rightarrow> m))
       (filter (\<lambda>n. cn_connected n \<and> cn_organizationId n = Some organizationId) (sd_connections d))"

definition candidateBrands :: "string \<Rightarrow> ('z, (string \<times> string) list) sync" where
  "candidateBrands organizationId = egets (\<lambda>w. candidate_brands (sw_db w) organizationId)"

text \<open>The targeted pull; a failure is its text.\<close>

definition webhook_pull :: "'z sync_env \<Rightarrow> webhook_object \<Rightarrow> string \<Rightarrow> string \<Rightarrow> ('z, string option) sync" where
  "webhook_pull env k brandId remoteId =
     ecatch
       (ebind (case k of CONTACT_RECORD \<Rightarrow> pullOneCustomerNow env brandId remoteId | INVOICE_RECORD \<Rightarrow> pullOneInvoiceNow env brandId remoteId)
         (\<lambda>_. ereturn None))
       (\<lambda>e. ereturn (Some (take 300 (error_message e))))"

datatype pending_reason = NEW_RECORD_MULTI_BRAND | ORPHANED_UPDATE

definition reason_text :: "pending_reason \<Rightarrow> string" where
  "reason_text r = (case r of NEW_RECORD_MULTI_BRAND \<Rightarrow> ''NEW_RECORD_MULTI_BRAND'' | ORPHANED_UPDATE \<Rightarrow> ''ORPHANED_UPDATE'')"

definition recordForManualReview ::
  "webhook_object \<Rightarrow> string \<Rightarrow> string \<Rightarrow> pending_reason \<Rightarrow> (string \<times> string) list option \<Rightarrow> string option \<Rightarrow> ('z, unit) sync" where
  "recordForManualReview k organizationId remoteId reason candidates rawPayload =
     ebind (case candidates of Some cs \<Rightarrow> ereturn cs | None \<Rightarrow> candidateBrands organizationId) (\<lambda>known.
     case known of
       [] \<Rightarrow> ereturn ()
     | (_, merchantId) # _ \<Rightarrow>
       let same = (\<lambda>p. pd_organizationId p = organizationId \<and> pd_objectType p = object_type k \<and> pd_remoteId p = remoteId) in
       if merchantId = [] then ereturn ()
       else
         ebind (egets (\<lambda>w. list_ex same (sd_pending (sw_db w)))) (\<lambda>again.
         if again
         then change_db (\<lambda>d. d\<lparr> sd_pending := map_rows same (\<lambda>p. p\<lparr> pd_reason := reason_text reason, pd_status := ''PENDING'',
                pd_payload := first_some rawPayload (pd_payload p) \<rparr>) (sd_pending d) \<rparr>)
         else
           ebind fresh_id (\<lambda>pid.
           ebind sync_now (\<lambda>now.
           change_db (\<lambda>d. d\<lparr> sd_pending := sd_pending d @ [\<lparr> pd_id = pid, pd_merchantId = merchantId,
             pd_organizationId = organizationId, pd_objectType = object_type k, pd_remoteId = remoteId,
             pd_reason = reason_text reason, pd_status = ''PENDING'', pd_payload = rawPayload, pd_assignedBrandId = None,
             pd_assignedAt = None, pd_createdAt = now \<rparr>] \<rparr>)))))"

text \<open>
  The existing records in turn: how many pulls ran without an error, and the last failure. The pull of one record
  leaves the list of records as it was read.
\<close>

fun update_existing :: "'z sync_env \<Rightarrow> webhook_object \<Rightarrow> string \<Rightarrow> nat \<Rightarrow> string option \<Rightarrow> (string \<times> string) list \<Rightarrow>
    ('z, nat \<times> string option) sync" where
  "update_existing env k remoteId n lastFailure [] = ereturn (n, lastFailure)"
| "update_existing env k remoteId n lastFailure ((rid, brandId) # rest) =
     ebind (hasSyncAction brandId rid (guard_action k)) (\<lambda>echo.
     if echo then update_existing env k remoteId n lastFailure rest
     else
       ebind (webhook_pull env k brandId remoteId) (\<lambda>failure.
       if present failure then update_existing env k remoteId n failure rest
       else update_existing env k remoteId (n + 1) lastFailure rest))"

definition existing_outcome :: "nat \<Rightarrow> string option \<Rightarrow> string" where
  "existing_outcome n lastFailure =
     (case lastFailure of
        Some (c # t) \<Rightarrow> ''failed - '' @ c # t
      | _ \<Rightarrow> if 0 < n then ''updated in '' @ show_nat n @ '' brand'' @ (if n = 1 then [] else ''s'')
             else ''ignored - echo of a change this platform just pushed'')"

definition route :: "'z sync_env \<Rightarrow> webhook_object \<Rightarrow> string \<Rightarrow> string \<Rightarrow> string option \<Rightarrow> ('z, nat \<times> string) sync" where
  "route env k organizationId remoteId rawPayload =
     ebind (findLocalRecords k remoteId) (\<lambda>existing.
     if existing \<noteq> []
     then ebind (update_existing env k remoteId 0 None existing) (\<lambda>(n, lastFailure). ereturn (200, existing_outcome n lastFailure))
     else
       ebind (candidateBrands organizationId) (\<lambda>candidates.
       case candidates of
         [] \<Rightarrow> ereturn (404, ''rejected - organization not connected to any brand'')
       | [(brandId, _)] \<Rightarrow>
         ebind (hasSyncAction brandId remoteId (guard_action k)) (\<lambda>duplicate.
         if duplicate then ereturn (200, ''ignored - duplicate delivery'')
         else
           ebind (markSyncAction brandId remoteId (guard_action k)) (\<lambda>_.
           ebind (webhook_pull env k brandId remoteId) (\<lambda>failure.
           ereturn (200, if present failure then ''failed - '' @ the failure else ''imported as a new record''))))
       | _ \<Rightarrow>
         ebind (recordForManualReview k organizationId remoteId NEW_RECORD_MULTI_BRAND (Some candidates) rawPayload) (\<lambda>_.
         ereturn (200, ''queued for brand assignment - organization is shared by '' @ show_nat (length candidates) @ '' brands''))))"

definition DELIVERY_LOG_TTL_SECONDS :: int where "DELIVERY_LOG_TTL_SECONDS = 30 * 24 * 60 * 60"

definition recordDelivery :: "string \<Rightarrow> delivery \<Rightarrow> ('z, unit) sync" where
  "recordDelivery organizationId entry = emodify (\<lambda>w. w\<lparr> sw_deliveries :=
     (sw_deliveries w)(organizationId \<mapsto> (entry, sw_now w + DELIVERY_LOG_TTL_SECONDS * 1000)) \<rparr>)"

definition lastDelivery :: "string \<Rightarrow> ('z, delivery option) sync" where
  "lastDelivery organizationId = egets (\<lambda>w. case sw_deliveries w organizationId of
      None \<Rightarrow> None | Some (entry, until) \<Rightarrow> if sw_now w < until then Some entry else None)"

definition process :: "'z sync_env \<Rightarrow> webhook_object \<Rightarrow> zoho_event \<Rightarrow> string \<Rightarrow> string \<Rightarrow> string option \<Rightarrow> ('z, nat) sync" where
  "process env k event organizationId remoteId rawPayload =
     ebind (route env k organizationId remoteId rawPayload) (\<lambda>(status, description).
     ebind sync_now (\<lambda>now.
     ebind (recordDelivery organizationId \<lparr> de_time = now, de_objectType = object_type k, de_event = event_text event,
       de_remoteId = remoteId, de_outcome = description \<rparr>) (\<lambda>_. ereturn status)))"

section \<open>Assignment by hand\<close>

text \<open>Rows waiting for a brand are visible to their merchant.\<close>

definition pending_visible :: "scope \<Rightarrow> pending_row \<Rightarrow> bool" where
  "pending_visible sc p \<longleftrightarrow> app_merchant_id (databaseScopeSettings sc) = Some (pd_merchantId p)"

definition listPendingAssignments :: "scope \<Rightarrow> ('z, pending_row list) sync" where
  "listPendingAssignments sc = in_scope (egets (\<lambda>w.
     newest_first pd_createdAt (filter (\<lambda>p. pending_visible sc p \<and> pd_status p = ''PENDING'') (sd_pending (sw_db w)))))"

definition pending_change :: "scope \<Rightarrow> string \<Rightarrow> (pending_row \<Rightarrow> pending_row) \<Rightarrow> ('z, unit) sync" where
  "pending_change sc pendingId f =
     (let Q = (\<lambda>p. pending_visible sc p \<and> pd_id p = pendingId) in
      ebind (egets (\<lambda>w. list_ex Q (sd_pending (sw_db w)))) (\<lambda>found.
      ebind (elift (guard found (NotFoundThrown ''no record was found''))) (\<lambda>_.
      change_db (\<lambda>d. d\<lparr> sd_pending := map_rows Q f (sd_pending d) \<rparr>))))"

definition assignPendingRecord :: "'z sync_env \<Rightarrow> scope \<Rightarrow> string \<Rightarrow> string \<Rightarrow> ('z, unit) sync" where
  "assignPendingRecord env sc pendingId brandId =
     ebind (in_scope (egets (\<lambda>w. find (\<lambda>p. pending_visible sc p \<and> pd_id p = pendingId) (sd_pending (sw_db w))))) (\<lambda>row.
     case row of
       None \<Rightarrow> ethrow (NotFoundThrown ''pending assignment not found'')
     | Some pending \<Rightarrow>
       ebind (elift (guard (pd_status pending = ''PENDING'') (NotFoundThrown ''pending assignment not found''))) (\<lambda>_.
       ebind (elift (guard (pd_reason pending = ''NEW_RECORD_MULTI_BRAND'')
         (BadRequestThrown ''only a new-record assignment can be resolved this way''))) (\<lambda>_.
       ebind (candidateBrands (pd_organizationId pending)) (\<lambda>candidates.
       ebind (elift (guard (list_ex (\<lambda>(b, _). b = brandId) candidates)
         (BadRequestThrown ''that brand is not connected to this Zoho organization''))) (\<lambda>_.
       ebind (if pd_objectType pending = ''CUSTOMER'' then pullOneCustomerNow env brandId (pd_remoteId pending)
              else pullOneInvoiceNow env brandId (pd_remoteId pending)) (\<lambda>_.
       ebind sync_now (\<lambda>now.
       in_scope (pending_change sc pendingId (\<lambda>p. p\<lparr> pd_status := ''ASSIGNED'', pd_assignedBrandId := Some brandId,
         pd_assignedAt := Some now \<rparr>)))))))))"

section \<open>The endpoints\<close>

text \<open>A parsed request body. The keys of an object are distinct.\<close>

datatype json = JNull | JBool bool | JNumber rat | JText string | JArray "json list" | JObject "(string \<times> json) list"

definition EVENT_ALIASES :: "(string \<times> zoho_event) list" where
  "EVENT_ALIASES = [(''created'', CREATED_EVENT), (''create'', CREATED_EVENT), (''status_updated'', STATUS_UPDATED_EVENT),
     (''updated'', STATUS_UPDATED_EVENT), (''update'', STATUS_UPDATED_EVENT), (''edited'', STATUS_UPDATED_EVENT),
     (''created_or_edited'', UNSPECIFIED_EVENT), (''created_or_updated'', UNSPECIFIED_EVENT)]"

definition parseEvent :: "string option \<Rightarrow> (sync_error, zoho_event) result" where
  "parseEvent event = (if \<not> present event then Inr UNSPECIFIED_EVENT
     else require (map_of EVENT_ALIASES (map to_lower (js_trim (the event)))) (BadRequestThrown (''unknown event '' @ the event)))"

text \<open>
  \<open>hmac\<close> is HMAC-SHA256 in hexadecimal; \<open>parse\<close> is \<open>JSON.parse\<close> and \<open>number_text\<close> is \<open>String\<close> of a number.
\<close>

record webhook_env =
  we_secret :: string
  we_sessionSecret :: string
  we_hmac :: "string \<Rightarrow> string \<Rightarrow> string"
  we_parse :: "string \<Rightarrow> json option"
  we_numberText :: "rat \<Rightarrow> string"

definition zohoWebhookToken :: "webhook_env \<Rightarrow> string \<Rightarrow> string" where
  "zohoWebhookToken we organizationId =
     (let key = (if we_secret we \<noteq> [] then we_secret we else we_sessionSecret we)
      in take 40 (we_hmac we key (''zoho-webhook:'' @ organizationId)))"

definition isValidZohoWebhookToken :: "webhook_env \<Rightarrow> string \<Rightarrow> string option \<Rightarrow> bool" where
  "isValidZohoWebhookToken we organizationId token =
     (if \<not> present token then False
      else if the token = zohoWebhookToken we organizationId then True
      else we_secret we \<noteq> [] \<and> the token = we_secret we)"

definition tryParseJson :: "webhook_env \<Rightarrow> string \<Rightarrow> json option" where
  "tryParseJson we s = (case we_parse we s of Some JNull \<Rightarrow> None | r \<Rightarrow> r)"

definition normalizeBody :: "webhook_env \<Rightarrow> json \<Rightarrow> json" where
  "normalizeBody we body = (case body of
      JText s \<Rightarrow> (case tryParseJson we s of None \<Rightarrow> body | Some v \<Rightarrow> v)
    | JObject obj \<Rightarrow>
        (case map_of obj ''JSONString'' of
           Some (JText s) \<Rightarrow> (case tryParseJson we s of None \<Rightarrow> body | Some v \<Rightarrow> v)
         | _ \<Rightarrow> body)
    | _ \<Rightarrow> body)"

definition entity :: "json \<Rightarrow> string \<Rightarrow> json" where
  "entity body entityKey = (case body of
      JObject obj \<Rightarrow> (case map_of obj entityKey of None \<Rightarrow> body | Some v \<Rightarrow> v)
    | _ \<Rightarrow> body)"

definition stringField :: "webhook_env \<Rightarrow> json \<Rightarrow> string \<Rightarrow> string option" where
  "stringField we r key = (case r of
      JObject obj \<Rightarrow>
        (case map_of obj key of
           Some (JNumber n) \<Rightarrow> Some (we_numberText we n)
         | Some (JText (c # t)) \<Rightarrow> Some (c # t)
         | _ \<Rightarrow> None)
    | _ \<Rightarrow> None)"

definition requireOrganizationId :: "webhook_env \<Rightarrow> string option \<Rightarrow> json \<Rightarrow> string \<Rightarrow> (sync_error, string) result" where
  "requireOrganizationId we organizationId payload entityKey =
     (let fromBody = first_some (stringField we payload ''organization_id'') (stringField we (entity payload entityKey) ''organization_id'');
          org = (if present organizationId then organizationId else fromBody)
      in if present org then Inr (the org) else Inl (BadRequestThrown ''missing organization_id''))"

definition extractId :: "webhook_env \<Rightarrow> json \<Rightarrow> string \<Rightarrow> string \<Rightarrow> (sync_error, string) result" where
  "extractId we body entityKey idKey =
     (let found = stringField we (entity body entityKey) idKey
      in if present found then Inr (the found) else Inl (BadRequestThrown (''webhook body carries no '' @ idKey)))"

definition verify :: "webhook_env \<Rightarrow> string \<Rightarrow> string option \<Rightarrow> (sync_error, unit) result" where
  "verify we organizationId token =
     guard (isValidZohoWebhookToken we organizationId token) (BadRequestThrown ''invalid webhook token'')"

record webhook_request =
  wr_event :: "string option"
  wr_organizationId :: "string option"
  wr_token :: "string option"
  wr_headerToken :: "string option"
  wr_body :: json

definition webhook_endpoint :: "webhook_env \<Rightarrow> 'z sync_env \<Rightarrow> (json \<Rightarrow> string option) \<Rightarrow> webhook_object \<Rightarrow> webhook_request \<Rightarrow> ('z, unit) sync" where
  "webhook_endpoint we env stored k r =
     (let key = (case k of CONTACT_RECORD \<Rightarrow> ''contact'' | INVOICE_RECORD \<Rightarrow> ''invoice'');
          payload = normalizeBody we (wr_body r) in
      ebind (elift (requireOrganizationId we (wr_organizationId r) payload key)) (\<lambda>org.
      ebind (elift (verify we org (first_some (wr_token r) (wr_headerToken r)))) (\<lambda>_.
      ebind (elift (parseEvent (wr_event r))) (\<lambda>event.
      ebind (elift (extractId we payload key (key @ ''_id''))) (\<lambda>remoteId.
      ebind (process env k event org remoteId (stored payload)) (\<lambda>status.
      if status = 404 then ethrow (NotFoundThrown ''organization is not connected to any brand on this platform'')
      else ereturn ()))))))"

definition webhook_contacts :: "webhook_env \<Rightarrow> 'z sync_env \<Rightarrow> (json \<Rightarrow> string option) \<Rightarrow> webhook_request \<Rightarrow> ('z, unit) sync" where
  "webhook_contacts we env stored = webhook_endpoint we env stored CONTACT_RECORD"

definition webhook_invoices :: "webhook_env \<Rightarrow> 'z sync_env \<Rightarrow> (json \<Rightarrow> string option) \<Rightarrow> webhook_request \<Rightarrow> ('z, unit) sync" where
  "webhook_invoices we env stored = webhook_endpoint we env stored INVOICE_RECORD"

end
