(* ===== verification/SyncSample.thy ===== *)
theory SyncSample
  imports ZohoWebhook
begin

text \<open>
  A small organisation and a platform connected to it, for the examples of the theories on the sync.
\<close>

text \<open>An organisation with the given contacts and invoices, each list on one page; the state counts the records created.\<close>

definition not_there :: request_failure where
  "not_there = Refused \<lparr> hf_status = 404, hf_text = ''not found'', hf_message = None, hf_error_description = None, hf_error = None,
     hf_code = None, hf_retryAfter = None \<rparr>"

definition sample_zoho :: "contact_detail list \<Rightarrow> zoho_invoice_detail list \<Rightarrow> nat zoho" where
  "sample_zoho cs ivs = \<lparr>
     zh_postContact = (\<lambda>_ z. (Inr (''rc'' @ show_nat z, AtTime 5), z + 1)),
     zh_putContact = (\<lambda>cid _ z. (Inr (cid, AtTime 5), z)),
     zh_postInvoice = (\<lambda>_ z. (Inr (''ri'' @ show_nat z, AtTime 5, Some ''draft''), z + 1)),
     zh_putInvoice = (\<lambda>iid _ z. (Inr (iid, AtTime 5, Some ''sent''), z)),
     zh_postStatus = (\<lambda>_ _ z. (Inr (), z)),
     zh_postPayment = (\<lambda>_ z. (Inr (''rp'' @ show_nat z), z + 1)),
     zh_getContact = (\<lambda>cid z. (case find (\<lambda>c. ci_contact_id c = cid) cs of None \<Rightarrow> Inl not_there | Some c \<Rightarrow> Inr c, z)),
     zh_getInvoice = (\<lambda>iid z. (case find (\<lambda>i. zi_invoice_id i = iid) ivs of None \<Rightarrow> Inl not_there | Some i \<Rightarrow> Inr i, z)),
     zh_listContacts = (\<lambda>p z. (Inr (map contact_item.truncate cs, False), z)),
     zh_listInvoices = (\<lambda>p since z. (Inr (map invoice_item.truncate ivs, False), z)) \<rparr>"

definition sample_refresh :: "string \<Rightarrow> (nat, request_failure, token_body) eff" where
  "sample_refresh t z = (Inr \<lparr> tb_access_token = Some ''at'', tb_expires_in = None, tb_error = None, tb_error_description = None \<rparr>, z)"

definition sample_contact :: contact_detail where
  "sample_contact = \<lparr> ci_contact_id = ''rc0'', ci_contact_name = ''Acme'', ci_company_name = None, ci_email = None, ci_phone = None,
     ci_first_name = None, ci_last_name = None, ci_modified = AtTime 7, ci_status = Some ''active'', cd_sub_type = None,
     cd_billing = None, cd_shipping = None, cd_persons = None \<rparr>"

definition sample_remote :: zoho_invoice_detail where
  "sample_remote = \<lparr> zi_invoice_id = ''ri0'', zi_customer_id = ''rc0'', zi_number = ''INV-1'', zi_status = ''sent'', zi_date = 20000,
     zi_due_date = 20010, zi_currency = ''USD'', zi_total = 10, zi_balance = 10, zi_modified = AtTime 9, zd_sub_total = 10,
     zd_tax_total = 0, zd_lines = [], zd_notes = None \<rparr>"

definition sample_sync_env :: "nat sync_env" where
  "sample_sync_env = \<lparr> se_zoho = \<lambda>_. sample_zoho [sample_contact] [sample_remote], se_pages = 1, se_refresh = sample_refresh \<rparr>"

definition sample_sync_customer :: synced_customer where
  "sample_sync_customer = (imported_customer ''c1'' ''b1'' ''rc0'' 0)\<lparr> c_displayName := ''Acme'', c_zohoSyncedVersion := Some 7 \<rparr>"

text \<open>One invoice known to Zoho, one deleted there, one never pushed.\<close>

definition sample_sync_invoice :: "string \<Rightarrow> string option \<Rightarrow> synced_invoice" where
  "sample_sync_invoice iid remote = (imported_invoice iid ''b1'' (invoice_item.truncate sample_remote) (''t'' @ iid) 0)\<lparr>
     i_customerId := ''c1'', i_number := ''N'' @ iid, i_status := SENT, i_zohoInvoiceId := remote, i_zohoSyncedVersion := Some 9 \<rparr>"

definition sample_sync_payment :: synced_payment where
  "sample_sync_payment = \<lparr> p_id = ''p1'', p_invoiceId = ''i1'', p_brandId = ''b1'', p_method = CARD, p_amountMinor = 500,
     p_currency = ''USD'', p_status = SETTLED, p_gatewayReference = None, p_idempotencyKey = ''k1'', p_lastEventAt = None,
     p_declineReason = None, p_settledAt = Some 3, p_createdAt = 2, p_zohoPaymentId = None, p_zohoUnsyncedReason = None \<rparr>"

definition sample_link :: "string \<Rightarrow> connection_row" where
  "sample_link b = \<lparr> cn_brandId = b, cn_connected = True, cn_refreshToken = Some ''rt'', cn_organizationId = Some ''org'',
     cn_health = None, cn_lastSyncAt = None, cn_lastPulledAt = None, cn_customerSyncEnabled = True, cn_invoiceSyncEnabled = True \<rparr>"

definition sample_sync_db :: "connection_row list \<Rightarrow> sync_db" where
  "sample_sync_db links = \<lparr> sd_brands = [(''b1'', ''m1''), (''b2'', ''m1'')], sd_customers = [sample_sync_customer], sd_persons = [],
     sd_invoices = [sample_sync_invoice ''i1'' (Some ''ri0''), sample_sync_invoice ''i2'' (Some ''gone''), sample_sync_invoice ''i3'' None],
     sd_lines = [], sd_payments = [sample_sync_payment], sd_connections = links, sd_jobs = [], sd_pending = [] \<rparr>"

definition sample_sync_world :: "connection_row list \<Rightarrow> nat sync_world" where
  "sample_sync_world links = \<lparr> sw_db = sample_sync_db links, sw_zoho = 1, sw_queue = [], sw_guards = \<lambda>_. None, sw_flags = \<lambda>_. None,
     sw_tokens = \<lambda>_. None, sw_deliveries = \<lambda>_. None, sw_now = 1000000, sw_ids = \<lambda>n. ''id'' @ show_nat n, sw_drawn = 0 \<rparr>"

definition sample_scope1 :: request_scope where
  "sample_scope1 = the (forBrand (map_of [(''b1'', ''m1''), (''b2'', ''m1'')]) ''b1'' ''zoho-pull'')"

definition sample_webhooks :: webhook_env where
  "sample_webhooks = \<lparr> we_secret = [], we_sessionSecret = ''s'', we_hmac = (\<lambda>k m. k @ m), we_parse = (\<lambda>_. None),
     we_numberText = (\<lambda>_. ''0'') \<rparr>"

definition sample_hook :: "string option \<Rightarrow> webhook_request" where
  "sample_hook token = \<lparr> wr_event = None, wr_organizationId = Some ''org'', wr_token = token, wr_headerToken = None,
     wr_body = JObject [(''contact_id'', JText ''rc9'')] \<rparr>"

end
