(* ===== verification/SyncContract.thy ===== *)
theory SyncContract
  imports SyncSample
begin

text \<open>
  What every push, pull and webhook of the accounting sync keeps: the contract is a locale over a property of the
  store, proved once for every operation, and interpreted on the running jobs, on the records the sync may not touch
  and on the cursors of the pulls.
\<close>

section \<open>Computations over the store\<close>

definition keeps :: "(sync_db \<Rightarrow> bool) \<Rightarrow> ('z, 'a) sync \<Rightarrow> bool" where
  "keeps J m \<longleftrightarrow> preserves (\<lambda>w. J (sw_db w)) m"

named_theorems keeps_intros \<open>computations that keep a property of the store\<close>

lemma keepsD: "\<lbrakk>keeps J m; J (sw_db w); m w = (r, w')\<rbrakk> \<Longrightarrow> J (sw_db w')"
  unfolding keeps_def by (rule preservesD)

lemma keepsI: "(\<And>w r w'. J (sw_db w) \<Longrightarrow> m w = (r, w') \<Longrightarrow> J (sw_db w')) \<Longrightarrow> keeps J m"
  unfolding keeps_def by (rule preservesI)

lemma keeps_pure [keeps_intros]:
  "keeps J (ereturn a)" "keeps J (ethrow e)" "keeps J (elift r)" "keeps J (egets g)"
  by (simp_all add: keeps_def preserves_intros)

lemma keeps_bind [keeps_intros]: "\<lbrakk>keeps J m; \<And>a. keeps J (f a)\<rbrakk> \<Longrightarrow> keeps J (ebind m f)"
  by (simp add: keeps_def preserves_intros)

lemma keeps_catch [keeps_intros]: "\<lbrakk>keeps J m; \<And>e. keeps J (h e)\<rbrakk> \<Longrightarrow> keeps J (ecatch m h)"
  by (simp add: keeps_def preserves_intros)

lemma keeps_foreach [keeps_intros]: "(\<And>x. keeps J (f x)) \<Longrightarrow> keeps J (eforeach f xs)"
  by (simp add: keeps_def preserves_intros)

lemma keeps_if [keeps_intros]: "\<lbrakk>b \<Longrightarrow> keeps J m; \<not> b \<Longrightarrow> keeps J n\<rbrakk> \<Longrightarrow> keeps J (if b then m else n)"
  by simp

lemma keeps_option [keeps_intros]:
  "\<lbrakk>x = None \<Longrightarrow> keeps J m; \<And>a. x = Some a \<Longrightarrow> keeps J (f a)\<rbrakk> \<Longrightarrow> keeps J (case x of None \<Rightarrow> m | Some a \<Rightarrow> f a)"
  by (cases x) simp_all

lemma keeps_list [keeps_intros]:
  "\<lbrakk>x = [] \<Longrightarrow> keeps J m; \<And>a as. x = a # as \<Longrightarrow> keeps J (f a as)\<rbrakk> \<Longrightarrow> keeps J (case x of [] \<Rightarrow> m | a # as \<Rightarrow> f a as)"
  by (cases x) simp_all

lemma keeps_pair [keeps_intros]: "(\<And>a b. keeps J (f a b)) \<Longrightarrow> keeps J (case x of (a, b) \<Rightarrow> f a b)"
  by (cases x) simp

lemma keeps_scope [keeps_intros]: "keeps J m \<Longrightarrow> keeps J (in_scope m)"
  unfolding keeps_def preserves_def in_scope_def transaction_def by (auto split: prod.splits sum.splits)

text \<open>The operations on the rest of the world leave the store alone.\<close>

lemma keeps_elsewhere [keeps_intros]:
  "keeps J sync_now" "keeps J fresh_id" "keeps J (enqueue_task t)" "keeps J (call_zoho p)" "keeps J (sync_scope b a)"
  "keeps J (storable v)" "keeps J (markSyncAction b r a)" "keeps J (hasSyncAction b r a)" "keeps J (set_flag k s)"
  "keeps J (emodify (\<lambda>w. w\<lparr> sw_tokens := g w \<rparr>))" "keeps J (recordDelivery organizationId entry)"
  by (simp_all add: keeps_def preserves_def sync_now_def fresh_id_def enqueue_task_def call_zoho_def sync_scope_def storable_def
      markSyncAction_def hasSyncAction_def set_flag_def recordDelivery_def split: prod.splits sum.splits zoho_time.splits port_error.splits)

lemma keeps_change: "(\<And>d. J d \<Longrightarrow> J (f d)) \<Longrightarrow> keeps J (change_db f)"
  by (simp add: keeps_def preserves_def change_db_def)

lemma keeps_connection [keeps_intros]: "keeps J (buildAccountingConnection env sc b)"
  unfolding buildAccountingConnection_def Let_def by (intro keeps_intros)

section \<open>The contract of the sync\<close>

text \<open>What no push, pull or webhook changes of an invoice: who and whose it is, its link, fee and history.\<close>

definition invoice_identity :: "synced_invoice \<Rightarrow> string \<times> string \<times> string \<times> int \<times> int \<times> string option \<times> int" where
  "invoice_identity i = (i_id i, i_brandId i, i_publicToken i, i_cardFeeRateBpApplied i, i_cardFeeMinor i, i_internalNotes i, i_createdAt i)"

text \<open>
  A property of the store that every operation of the sync keeps: it does not look at customers, persons, lines or
  pending rows; changes of an invoice that keep its identity, of a payment that keep all but its Zoho columns and of a
  connection that keep its cursor keep it; and a job that starts and ends keeps it.
\<close>

locale sync_contract =
  fixes J :: "'s \<Rightarrow> sync_db \<Rightarrow> bool"
  assumes customers: "J s d \<Longrightarrow> J s (d\<lparr> sd_customers := cs \<rparr>)"
    and persons: "J s d \<Longrightarrow> J s (d\<lparr> sd_persons := ps \<rparr>)"
    and rows: "J s d \<Longrightarrow> J s (d\<lparr> sd_lines := ls \<rparr>)"
    and pending: "J s d \<Longrightarrow> J s (d\<lparr> sd_pending := qs \<rparr>)"
    and invoices: "\<lbrakk>J s d; \<And>i. invoice_identity (f i) = invoice_identity i\<rbrakk> \<Longrightarrow>
      J s (d\<lparr> sd_invoices := map_rows P f (sd_invoices d) \<rparr>)"
    and invoices_add: "J s d \<Longrightarrow> J s (d\<lparr> sd_invoices := sd_invoices d @ [iv] \<rparr>)"
    and payments: "\<lbrakk>J s d; \<And>p. payment_row.truncate (fp p) = payment_row.truncate p\<rbrakk> \<Longrightarrow>
      J s (d\<lparr> sd_payments := map_rows P' fp (sd_payments d) \<rparr>)"
    and connections: "\<lbrakk>J s d; \<And>n. cn_brandId (fc n) = cn_brandId n \<and> cn_lastPulledAt (fc n) = cn_lastPulledAt n\<rbrakk> \<Longrightarrow>
      J s (d\<lparr> sd_connections := map_rows P'' fc (sd_connections d) \<rparr>)"
    and job_ended: "\<lbrakk>J s d; sj_status j \<noteq> JOB_RUNNING\<rbrakk> \<Longrightarrow> J s (d\<lparr> sd_jobs := sd_jobs d @ [j] \<rparr>)"
    and job_starts: "J s d \<Longrightarrow> \<exists>s'. J s' (d\<lparr> sd_jobs := sd_jobs d @ [j] \<rparr>) \<and>
      (\<forall>d' g. J s' d' \<longrightarrow> (\<forall>x. sj_status (g x) \<noteq> JOB_RUNNING) \<longrightarrow>
        J s (d'\<lparr> sd_jobs := map_rows (\<lambda>x. sj_id x = sj_id j) g (sd_jobs d') \<rparr>))"
begin

lemma change [keeps_intros]:
  "keeps (J s) (change_db (\<lambda>d. d\<lparr> sd_customers := g d \<rparr>))"
  "keeps (J s) (change_db (\<lambda>d. d\<lparr> sd_persons := g2 d \<rparr>))"
  "keeps (J s) (change_db (\<lambda>d. d\<lparr> sd_lines := g3 d \<rparr>))"
  "keeps (J s) (change_db (\<lambda>d. d\<lparr> sd_pending := g4 d \<rparr>))"
  by (rule keeps_change; erule customers persons rows pending)+

lemma change_customer [keeps_intros]:
  "keeps (J s) (customer_change sc cid f)" "keeps (J s) (customer_or_throw sc cid)"
  "keeps (J s) (invoice_or_throw sc iid)" "keeps (J s) (payment_or_throw sc pid)"
  unfolding customer_change_def customer_or_throw_def invoice_or_throw_def payment_or_throw_def by (intro keeps_intros)+

lemma change_invoice: "(\<And>i. invoice_identity (f i) = invoice_identity i) \<Longrightarrow> keeps (J s) (invoice_change sc iid f)"
  unfolding invoice_change_def by (intro keeps_intros keeps_change invoices)

lemma change_payment: "(\<And>p. payment_row.truncate (f p) = payment_row.truncate p) \<Longrightarrow> keeps (J s) (payment_change sc pid f)"
  unfolding payment_change_def by (intro keeps_intros keeps_change payments)

lemma change_connection:
  "(\<And>n. cn_brandId (f n) = cn_brandId n \<and> cn_lastPulledAt (f n) = cn_lastPulledAt n) \<Longrightarrow> keeps (J s) (connections_change sc b f)"
  unfolding connections_change_def by (intro keeps_intros keeps_change connections)

lemma connection_runs [keeps_intros]:
  "keeps (J s) (recordSyncRun sc b)" "keeps (J s) (markUnhealthy sc b r)" "keeps (J s) (getSyncFlags sc b)" "keeps (J s) (getLastPulledAt sc b)"
  unfolding recordSyncRun_def markUnhealthy_def getSyncFlags_def getLastPulledAt_def
  by (intro keeps_intros change_connection; simp)+

text \<open>A job around work that keeps the property, whether the work succeeds or fails.\<close>

definition closes :: "'s \<Rightarrow> 's \<Rightarrow> string \<Rightarrow> bool" where
  "closes s' s jid \<longleftrightarrow> (\<forall>d g. J s' d \<longrightarrow> (\<forall>x. sj_status (g x) \<noteq> JOB_RUNNING) \<longrightarrow>
     J s (d\<lparr> sd_jobs := map_rows (\<lambda>x. sj_id x = jid) g (sd_jobs d) \<rparr>))"

lemma job_opens:
  assumes "J s (sw_db w)"
  shows "\<exists>jid w' s'. job_create b dir t oid w = (Inr jid, w') \<and> J s' (sw_db w') \<and> closes s' s jid"
proof -
  let ?jid = "sw_ids w (sw_drawn w)"
  let ?j = "\<lparr> sj_id = ?jid, sj_brandId = b, sj_direction = dir, sj_objectType = t, sj_objectId = oid,
    sj_status = JOB_RUNNING, sj_errorClass = None, sj_lastError = None, sj_completedAt = None \<rparr>"
  from job_starts[OF assms, of ?j] obtain s' where "J s' ((sw_db w)\<lparr> sd_jobs := sd_jobs (sw_db w) @ [?j] \<rparr>)" "closes s' s ?jid"
    unfolding closes_def by auto
  then show ?thesis by (auto simp: job_create_def fresh_id_def change_db_def ebind_def)
qed

lemma job_closes:
  assumes "closes s' s jid" "J s' (sw_db w)" "\<And>x. sj_status (g x) \<noteq> JOB_RUNNING"
  shows "\<exists>w'. job_change jid g w = (Inr (), w') \<and> J s (sw_db w')"
  using assms unfolding closes_def job_change_def change_db_def by auto

lemma done_closes: "\<lbrakk>closes s' s jid; J s' (sw_db w)\<rbrakk> \<Longrightarrow> \<exists>w'. job_done jid sk w = (Inr (), w') \<and> J s (sw_db w')"
  unfolding job_done_def by (cases sk) (simp_all add: sync_now_def job_closes)

lemma failed_closes: "\<lbrakk>closes s' s jid; J s' (sw_db w)\<rbrakk> \<Longrightarrow> \<exists>w'. job_failed jid e w = (Inr (), w') \<and> J s (sw_db w')"
  unfolding job_failed_def by (erule job_closes, auto)

lemma recording [keeps_intros]:
  assumes work: "\<And>s. keeps (J s) work"
  shows "keeps (J s) (recordPull b t oid sk work)"
proof (rule keepsI)
  fix w r w' assume J: "J s (sw_db w)" and run: "recordPull b t oid sk work w = (r, w')"
  from job_opens[OF J] obtain jid w1 s' where o: "job_create b PULL t oid w = (Inr jid, w1)" "J s' (sw_db w1)" "closes s' s jid" by blast
  obtain q w2 where w2: "work w1 = (q, w2)" by force
  then have k: "J s' (sw_db w2)" using keepsD[OF work o(2)] by blast
  show "J s (sw_db w')"
  proof (cases q)
    case (Inr a)
    from done_closes[OF o(3) k] obtain w3 where "job_done jid (sk a) w2 = (Inr (), w3)" "J s (sw_db w3)" by blast
    then show ?thesis using run o(1) w2 Inr by (simp add: recordPull_def ebind_def ecatch_def)
  next
    case (Inl e)
    from failed_closes[OF o(3) k] obtain w3 where f: "job_failed jid e w2 = (Inr (), w3)" "J s (sw_db w3)" by blast
    obtain q4 w4 where u: "report_unhealthy b e w3 = (q4, w4)" by force
    have "keeps (J s) (report_unhealthy b e)" unfolding report_unhealthy_def by (intro keeps_intros)
    then have "J s (sw_db w4)" using f(2) u by (rule keepsD)
    moreover have "w' = w4" using run o(1) w2 Inl f(1) u
      by (cases q4) (simp_all add: recordPull_def ebind_def ecatch_def ethrow_def)
    ultimately show ?thesis by simp
  qed
qed

lemma failure_closes:
  assumes "closes s' s jid" "J s' (sw_db w)" "recordFailure sc b jid e w = (r, w')"
  shows "J s (sw_db w')"
proof -
  from failed_closes[OF assms(1,2)] obtain w1 where f: "job_failed jid e w = (Inr (), w1)" "J s (sw_db w1)" by blast
  let ?rest = "ebind (case integration_of e of
         Some i \<Rightarrow> (if ie_errorClass i = AUTHENTICATION
           then ecatch (markUnhealthy sc b (case ie_providerMessage i of None \<Rightarrow> ie_message i | Some m \<Rightarrow> m)) (\<lambda>_. ereturn ())
           else ereturn ())
       | None \<Rightarrow> ereturn ()) (\<lambda>_. case integration_of e of
       Some i \<Rightarrow> (if \<not> error_retryable i then ethrow (Unrecoverable (ie_message i)) else ethrow e)
     | None \<Rightarrow> ethrow e)"
  have "keeps (J s) ?rest" by (intro keeps_intros)
  moreover have "?rest w1 = (r, w')" using assms(3) f(1) by (simp add: recordFailure_def ebind_def ecatch_def)
  ultimately show ?thesis using f(2) keepsD by blast
qed

lemma pushing [keeps_intros]:
  assumes work: "\<And>s. keeps (J s) work"
  shows "keeps (J s) (runJob sc b t oid work)"
proof (rule keepsI)
  fix w r w' assume J: "J s (sw_db w)" and run: "runJob sc b t oid work w = (r, w')"
  from job_opens[OF J] obtain jid w1 s' where o: "job_create b PUSH t oid w = (Inr jid, w1)" "J s' (sw_db w1)" "closes s' s jid" by blast
  obtain q w2 where w2: "work w1 = (q, w2)" by force
  then have k: "J s' (sw_db w2)" using keepsD[OF work o(2)] by blast
  show "J s (sw_db w')"
  proof (cases q)
    case (Inr a)
    let ?g = "\<lambda>j. j\<lparr> sj_status := JOB_SUCCEEDED, sj_completedAt := Some (sw_now w2) \<rparr>"
    from job_closes[OF o(3) k, of ?g] obtain w3 where c: "job_change jid ?g w2 = (Inr (), w3)" "J s (sw_db w3)" by auto
    obtain q4 w4 where u: "ecatch (recordSyncRun sc b) (\<lambda>_. ereturn ()) w3 = (q4, w4)" by force
    have "keeps (J s) (ecatch (recordSyncRun sc b) (\<lambda>_. ereturn ()))" by (intro keeps_intros)
    then have "J s (sw_db w4)" using c(2) u by (rule keepsD)
    moreover have "\<exists>x. q4 = Inr x" using u by (auto simp: ecatch_def ereturn_def split: prod.splits sum.splits)
    ultimately show ?thesis using run o(1) w2 Inr c(1) u
      by (auto simp: runJob_def ebind_def ecatch_def sync_now_def egets_def ereturn_def split: prod.splits sum.splits)
  next
    case (Inl e)
    then have "recordFailure sc b jid e w2 = (r, w')" using run o(1) w2 by (simp add: runJob_def ebind_def ecatch_def)
    then show ?thesis using failure_closes[OF o(3) k] by blast
  qed
qed

lemma connecting [keeps_intros]: "keeps (J s) (resolveConnection env sc b t oid)"
proof -
  have "keeps (J s) (ebind (job_create b PUSH t oid) (\<lambda>jid. recordFailure sc b jid e))" for e :: sync_error
  proof (rule keepsI)
    fix w r w' assume J: "J s (sw_db w)" and run: "ebind (job_create b PUSH t oid) (\<lambda>jid. recordFailure sc b jid e) w = (r, w')"
    from job_opens[OF J] obtain jid w1 s' where o: "job_create b PUSH t oid w = (Inr jid, w1)" "J s' (sw_db w1)" "closes s' s jid" by blast
    then show "J s (sw_db w')" using run failure_closes[OF o(3,2)] by (simp add: ebind_def)
  qed
  then show ?thesis unfolding resolveConnection_def by (rule keeps_catch[OF keeps_connection])
qed

section \<open>Every operation\<close>

lemma refusing [keeps_intros]: "(\<And>s. keeps (J s) m) \<Longrightarrow> keeps (J s) (refuse_unsynced m reason)"
  unfolding refuse_unsynced_def by (intro keeps_intros)

lemma push_customer [keeps_intros]: "keeps (J s) (pushCustomer env b cid c)"
  unfolding pushCustomer_def push_customer_work_def Let_def by (intro keeps_intros)

lemma push_invoice [keeps_intros]: "keeps (J s) (pushInvoice env b iid)"
  unfolding pushInvoice_def push_invoice_work_def Let_def
  by (intro keeps_intros change_invoice) (simp_all add: invoice_identity_def)

lemma push_payment [keeps_intros]: "keeps (J s) (pushPayment env b pid)"
  unfolding pushPayment_def push_payment_work_def send_payment_def payment_chain_def Let_def
  by (intro keeps_intros change_payment) (simp_all add: payment_row.truncate_def)

lemma backfill [keeps_intros]: "keeps (J s) (enqueueBackfill env b sk)"
  unfolding enqueueBackfill_def by (intro keeps_intros)

lemma change_persons [keeps_intros]: "keeps (J s) (person_upsert cid p)" "keeps (J s) (persons_keep cid ids)"
  unfolding person_upsert_def persons_keep_def by (intro keeps_change; auto simp: Let_def intro: persons)+

lemma upsert_customer [keeps_intros]: "keeps (J s) (customer_upsert sc b contactId f)"
  unfolding customer_upsert_def by (intro keeps_intros)

lemma pull_customer [keeps_intros]: "keeps (J s) (pullOneCustomer zo sc b contactId)"
  unfolding pullOneCustomer_def pull_customer_work_def Let_def by (intro keeps_intros)

lemma tolerant [keeps_intros]: "keeps (J s) m \<Longrightarrow> keeps (J s) (pullRecordTolerantly m)"
  unfolding pullRecordTolerantly_def by (intro keeps_intros)

lemma pages [keeps_intros]: "(\<And>p. keeps (J s) (body p)) \<Longrightarrow> keeps (J s) (each_page fuel page body)"
  by (induction fuel arbitrary: page) (auto intro!: keeps_intros)

lemma pull_customers [keeps_intros]: "keeps (J s) (pullAndReconcileCustomers pages zo sc b cursor force)"
  unfolding pullAndReconcileCustomers_def pullCustomers_def customers_page_def localContactVersions_def
    reconcileContactPresence_def customers_set_active_def Let_def
  by (intro keeps_intros)

lemma change_lines [keeps_intros]: "keeps (J s) (line_upsert l)" "keeps (J s) (lines_keep_below iid n)"
proof -
  have "keeps (J s) (change_db (\<lambda>d. let same = (\<lambda>x. l_invoiceId x = l_invoiceId l \<and> l_position x = l_position l) in
       if list_ex same (sd_lines d) then d\<lparr> sd_lines := map_rows same (\<lambda>_. l) (sd_lines d) \<rparr>
       else d\<lparr> sd_lines := sd_lines d @ [l] \<rparr>))"
    by (rule keeps_change) (auto simp: Let_def intro: rows)
  then show "keeps (J s) (line_upsert l)" unfolding line_upsert_def by (rule keeps_bind[OF keeps_pure(3)])
qed (simp only: lines_keep_below_def change)

lemma apply_detail [keeps_intros]: "keeps (J s) (applyInvoiceDetail sc iid detail currency)"
  unfolding applyInvoiceDetail_def by (intro keeps_intros change_invoice) (simp_all add: invoice_identity_def)

lemma upsert_invoice [keeps_intros]: "keeps (J s) (invoice_upsert sc b item cid)"
  unfolding invoice_upsert_def
  by (intro keeps_intros change_invoice keeps_change invoices_add) (simp_all add: invoice_identity_def invoice_header_def)

lemma retried [keeps_intros]: "keeps (J s) m \<Longrightarrow> keeps (J s) (withUniqueViolationRetry n targets m)"
  by (induction n) (auto intro!: keeps_intros)

lemma pull_invoice [keeps_intros]: "keeps (J s) (pullOneInvoice zo sc b item detail)"
  unfolding pullOneInvoice_def pull_invoice_work_def localCustomerId_def by (intro keeps_intros)

lemma pull_invoices [keeps_intros]: "keeps (J s) (pullInvoices pages zo sc b cursor)"
  unfolding pullInvoices_def invoices_page_def by (intro keeps_intros)

lemma enrich [keeps_intros]: "keeps (J s) (enrichInvoiceFromZohoOnDemand env sc b iid)"
  unfolding enrichInvoiceFromZohoOnDemand_def Let_def by (intro keeps_intros)

lemma change_many: "(\<And>i. invoice_identity (f i) = invoice_identity i) \<Longrightarrow> keeps (J s) (invoices_updateMany sc ids f)"
  unfolding invoices_updateMany_def by (intro keeps_intros keeps_change invoices)

lemma reconcile [keeps_intros]: "keeps (J s) (reconcileInvoicePresenceIfDue pages zo sc b force)"
  unfolding reconcileInvoicePresenceIfDue_def reconcileInvoicePresence_def reconcile_invoices_work_def seen_page_def Let_def
  by (intro keeps_intros change_many) (simp_all add: invoice_identity_def)

lemma connection_failure [keeps_intros]: "keeps (J s) (recordConnectionFailure sc b e)"
  unfolding recordConnectionFailure_def Let_def by (intro keeps_intros keeps_change job_ended) simp_all

lemma phases [keeps_intros]: "keeps (J s) (pull_phases pages zo sc b cursor force)"
  unfolding pull_phases_def settle_def by (intro keeps_intros)

lemma pull_now [keeps_intros]: "keeps (J s) (pullOneCustomerNow env b cid)" "keeps (J s) (pullOneInvoiceNow env b iid)"
  unfolding pullOneCustomerNow_def pullOneInvoiceNow_def by (intro keeps_intros)+

lemma pull_webhook [keeps_intros]: "keeps (J s) (webhook_pull env k b rid)"
  unfolding webhook_pull_def by (cases k) (auto intro!: keeps_intros)

lemma candidates [keeps_intros]: "keeps (J s) (candidateBrands org)"
  unfolding candidateBrands_def by (intro keeps_intros)

lemma manual_review [keeps_intros]: "keeps (J s) (recordForManualReview k org rid reason cs raw)"
  unfolding recordForManualReview_def Let_def by (intro keeps_intros)

lemma update_known [keeps_intros]: "keeps (J s) (update_existing env k rid n f rs)"
proof (induction env k rid n f rs rule: update_existing.induct)
  case (2 env k remoteId n lastFailure rid brandId rest)
  then show ?case by (simp only: update_existing.simps) (intro keeps_intros; blast)
qed (simp only: update_existing.simps keeps_pure)

lemma routing [keeps_intros]: "keeps (J s) (route env k org rid raw)"
  unfolding route_def findLocalRecords_def candidateBrands_def by (intro keeps_intros)

lemma endpoint [keeps_intros]: "keeps (J s) (webhook_endpoint we env stored k r)"
  unfolding webhook_endpoint_def process_def Let_def by (intro keeps_intros)

lemma assign [keeps_intros]: "keeps (J s) (assignPendingRecord env sc pid b)"
  unfolding assignPendingRecord_def pending_change_def candidateBrands_def Let_def by (intro keeps_intros)

end
section \<open>Histories\<close>

text \<open>
  The entry points of the sync: the tasks of the queue, the scheduled pull, an invoice opened in the application, a
  webhook call and an assignment by hand.
\<close>

datatype sync_request =
    CustomerPush string string bool
  | InvoicePush string string
  | PaymentPush string string
  | Backfill string bool
  | BrandPull string bool
  | InvoiceOpened request_scope string string
  | WebhookCall webhook_object webhook_request
  | Assignment scope string string

definition ignore_result :: "('z, 'a) sync \<Rightarrow> ('z, unit) sync" where
  "ignore_result m = ebind m (\<lambda>_. ereturn ())"

fun run_request :: "webhook_env \<Rightarrow> (json \<Rightarrow> string option) \<Rightarrow> 'z sync_env \<Rightarrow> sync_request \<Rightarrow> ('z, unit) sync" where
  "run_request we stored env (CustomerPush b cid viaCascade) = pushCustomer env b cid viaCascade"
| "run_request we stored env (InvoicePush b iid) = pushInvoice env b iid"
| "run_request we stored env (PaymentPush b pid) = pushPayment env b pid"
| "run_request we stored env (Backfill b skipPayments) = ignore_result (enqueueBackfill env b skipPayments)"
| "run_request we stored env (BrandPull b force) = ignore_result (pullBrand env b force)"
| "run_request we stored env (InvoiceOpened sc b iid) = ignore_result (enrichInvoiceFromZohoOnDemand env sc b iid)"
| "run_request we stored env (WebhookCall k r) = webhook_endpoint we env stored k r"
| "run_request we stored env (Assignment sc pid b) = assignPendingRecord env sc pid b"

text \<open>Between requests time passes and the books change as Zoho likes.\<close>

inductive sync_history :: "webhook_env \<Rightarrow> (json \<Rightarrow> string option) \<Rightarrow> 'z sync_env \<Rightarrow> 'z sync_world \<Rightarrow> 'z sync_world \<Rightarrow> bool"
  for we stored env where
  no_request: "sync_history we stored env w w"
| one_request: "\<lbrakk>sync_history we stored env w w'; run_request we stored env r w' = (q, w'')\<rbrakk> \<Longrightarrow> sync_history we stored env w w''"
| elsewhere: "sync_history we stored env w w' \<Longrightarrow> sync_history we stored env w (w'\<lparr> sw_now := t, sw_zoho := z \<rparr>)"

locale sync_invariant = sync_contract +
  assumes cursors: "\<lbrakk>J s d; \<And>n. cn_brandId (fc n) = cn_brandId n\<rbrakk> \<Longrightarrow> J s (d\<lparr> sd_connections := map_rows P'' fc (sd_connections d) \<rparr>)"
begin

lemma pull_run [keeps_intros]: "keeps (J s) (recordPullRun sc b t)"
  unfolding recordPullRun_def connections_change_def by (intro keeps_intros keeps_change cursors) simp_all

lemma pull_brand [keeps_intros]: "keeps (J s) (pullBrand env b force)"
  unfolding pullBrand_def by (intro keeps_intros)

lemma request: "keeps (J s) (run_request we stored env r)"
  by (cases r) (simp_all only: run_request.simps ignore_result_def, (intro keeps_intros)+)

lemma history: "\<lbrakk>sync_history we stored env w w'; J s (sw_db w)\<rbrakk> \<Longrightarrow> J s (sw_db w')"
proof (induction rule: sync_history.induct)
  case (one_request w w' r q w'')
  then show ?case using keepsD[OF request] by blast
qed simp_all

end

definition running_jobs :: "sync_db \<Rightarrow> sync_job set" where
  "running_jobs d = {j \<in> set (sd_jobs d). sj_status j = JOB_RUNNING}"

definition records_kept :: "(string \<times> string \<times> string \<times> int \<times> int \<times> string option \<times> int) list \<times> payment_row list \<Rightarrow> sync_db \<Rightarrow> bool" where
  "records_kept s d \<longleftrightarrow> take (length (fst s)) (map invoice_identity (sd_invoices d)) = fst s \<and>
     map payment_row.truncate (sd_payments d) = snd s"

definition pull_cursors :: "sync_db \<Rightarrow> (string \<times> int option) list" where
  "pull_cursors d = map (\<lambda>n. (cn_brandId n, cn_lastPulledAt n)) (sd_connections d)"

lemma map_rows_same: "(\<And>x. g (f x) = g x) \<Longrightarrow> map g (map_rows P f xs) = map g xs"
  by (simp add: map_rows_def comp_def)

lemma length_taken: "take (length a) (map g xs) = a \<Longrightarrow> length a \<le> length xs"
  by (metis length_map length_take min.cobounded1)

interpretation open_work: sync_invariant "\<lambda>S d. running_jobs d \<subseteq> S"
proof (unfold_locales, goal_cases)
  case (10 S d j)
  then show ?case
    by (intro exI[of _ "insert j S"]) (auto simp: running_jobs_def map_rows_def)
qed (auto simp: running_jobs_def)

interpretation kept: sync_invariant records_kept
proof (unfold_locales, goal_cases)
  case (10 s d j)
  then show ?case by (intro exI[of _ s]) (simp add: records_kept_def)
qed (auto simp: records_kept_def map_rows_same intro: length_taken)

interpretation cursor: sync_contract "\<lambda>L d. pull_cursors d = L"
proof (unfold_locales, goal_cases)
  case (10 s d j)
  then show ?case by (intro exI[of _ s]) (simp add: pull_cursors_def)
qed (auto simp: pull_cursors_def map_rows_def)

section \<open>The cursor\<close>

lemma keeps_cursors: "\<lbrakk>\<And>L. keeps (\<lambda>d. pull_cursors d = L) m; m w = (r, w')\<rbrakk> \<Longrightarrow> pull_cursors (sw_db w') = pull_cursors (sw_db w)"
  using keepsD[of "\<lambda>d. pull_cursors d = pull_cursors (sw_db w)" m w r w'] by simp

lemma now_simps: "call_zoho p w = (r, w') \<Longrightarrow> sw_now w' = sw_now w" "in_scope (egets g) w = (Inr (g w), w)"
  by (auto simp: call_zoho_def in_scope_def transaction_def split: prod.splits sum.splits port_error.splits)

lemma keeps_now [preserves_intros]:
  "preserves (\<lambda>w. sw_now w = n) (call_zoho p)" "preserves (\<lambda>w. sw_now w = n) (in_scope (egets g))"
  "preserves (\<lambda>w. sw_now w = n) (emodify (\<lambda>w. w\<lparr> sw_tokens := h w \<rparr>))"
  by (auto simp: preserves_def call_zoho_def in_scope_def transaction_def split: prod.splits sum.splits port_error.splits)

lemma preserves_cases [preserves_intros]:
  "(\<And>a b. preserves I (f a b)) \<Longrightarrow> preserves I (case x of (a, b) \<Rightarrow> f a b)"
  "\<lbrakk>preserves I m; \<And>a as. preserves I (g a as)\<rbrakk> \<Longrightarrow> preserves I (case l of [] \<Rightarrow> m | a # as \<Rightarrow> g a as)"
  by (auto split: prod.split list.split)

lemma connection_now: "buildAccountingConnection env sc b w = (r, w') \<Longrightarrow> sw_now w' = sw_now w"
proof -
  have "preserves (\<lambda>w'. sw_now w' = sw_now w) (buildAccountingConnection env sc b)"
    unfolding buildAccountingConnection_def Let_def by (intro preserves_intros)
  then show "buildAccountingConnection env sc b w = (r, w') \<Longrightarrow> sw_now w' = sw_now w" by (auto dest: preservesD)
qed

lemma record_pull_run:
  "recordPullRun sc b t w = (Inr (), w') \<Longrightarrow> pull_cursors (sw_db w') =
     (if reaches sc (sw_db w) b then map (\<lambda>(c, u). (c, if c = b then Some t else u)) (pull_cursors (sw_db w)) else pull_cursors (sw_db w))"
  by (auto simp: recordPullRun_def connections_change_def in_scope_def change_db_def pull_cursors_def map_rows_def)

lemma record_pull_run_ok: "\<exists>w'. recordPullRun sc b t w = (Inr (), w')"
  by (simp add: recordPullRun_def connections_change_def in_scope_def change_db_def)



section \<open>Jobs and records\<close>

text \<open>C14: Whatever happens during a push, a pull, a webhook call or an assignment, it leaves no job running: after any
  sequence of them the running jobs are among those that ran before.\<close>

theorem no_job_left_running:
  assumes "sync_history we stored env w w'"
  shows "running_jobs (sw_db w') \<subseteq> running_jobs (sw_db w)"
  by (rule open_work.history[OF assms]) simp

theorem no_job_left_running_witness:
  "running_jobs (sw_db (snd (run_request sample_webhooks (\<lambda>_. None) sample_sync_env (BrandPull ''b1'' True) (sample_sync_world [sample_link ''b1''])))) = {}"
  using no_job_left_running[OF one_request[OF no_request surjective_pairing[of "run_request sample_webhooks (\<lambda>_. None) sample_sync_env
    (BrandPull ''b1'' True) (sample_sync_world [sample_link ''b1''])"]]]
  by (simp add: sample_sync_world_def sample_sync_db_def running_jobs_def)

text \<open>C15: The sync never deletes an invoice and never changes which brand it belongs to, its payment link, its card
  fee, its internal notes or when it was created, and it changes nothing of a payment but its Zoho columns,
  whatever Zoho sends.\<close>

theorem sync_keeps_records:
  assumes "sync_history we stored env w w'"
  shows "take (length (sd_invoices (sw_db w))) (map invoice_identity (sd_invoices (sw_db w'))) = map invoice_identity (sd_invoices (sw_db w)) \<and>
    map payment_row.truncate (sd_payments (sw_db w')) = map payment_row.truncate (sd_payments (sw_db w))"
proof -
  have "records_kept (map invoice_identity (sd_invoices (sw_db w)), map payment_row.truncate (sd_payments (sw_db w))) (sw_db w')"
    by (rule kept.history[OF assms]) (simp add: records_kept_def)
  then show ?thesis by (simp add: records_kept_def)
qed

theorem sync_keeps_records_witness:
  "map payment_row.truncate (sd_payments (sw_db (snd (run_request sample_webhooks (\<lambda>_. None) sample_sync_env (PaymentPush ''b1'' ''p1'')
     (sample_sync_world [sample_link ''b1'']))))) = [payment_row.truncate sample_sync_payment]"
  using sync_keeps_records[OF one_request[OF no_request surjective_pairing[of "run_request sample_webhooks (\<lambda>_. None) sample_sync_env
    (PaymentPush ''b1'' ''p1'') (sample_sync_world [sample_link ''b1''])"]]]
  by (simp add: sample_sync_world_def sample_sync_db_def)

end
