(* ===== verification/SyncScans.thy ===== *)
theory SyncScans
  imports SyncContract
begin

text \<open>
  The scans of a pull: they end, and one bad record does not stop them.
\<close>

section \<open>A scan ends\<close>

abbreviation ends :: "('z, 'a) sync \<Rightarrow> bool" where
  "ends \<equiv> raises_only (\<lambda>e. e \<noteq> PagesExhausted)"

lemma never_raises [raises_intros]:
  "raises_only P sync_now" "raises_only P fresh_id" "raises_only P (sync_scope b a)" "raises_only P (set_flag k t)"
  "raises_only P (change_db f)" "raises_only P (candidateBrands org)"
  by (auto simp: raises_only_def sync_now_def fresh_id_def sync_scope_def set_flag_def change_db_def candidateBrands_def)

lemma ends_call [raises_intros]: "ends (call_zoho p)"
  by (auto simp: raises_only_def call_zoho_def split: prod.splits sum.splits port_error.splits)

lemma ends_pair [raises_intros]: "(\<And>a b. raises_only P (f a b)) \<Longrightarrow> raises_only P (case x of (a, b) \<Rightarrow> f a b)"
  by (cases x) simp

lemma ends_list [raises_intros]:
  "\<lbrakk>x = [] \<Longrightarrow> raises_only P m; \<And>a as. x = a # as \<Longrightarrow> raises_only P (f a as)\<rbrakk> \<Longrightarrow> raises_only P (case x of [] \<Rightarrow> m | a # as \<Rightarrow> f a as)"
  by (cases x) simp_all

lemma ends_scope [raises_intros]: "raises_only P m \<Longrightarrow> raises_only P (in_scope m)"
  unfolding in_scope_def by (rule raises_transaction)

lemma ends_tokens [raises_intros]: "ends (buildAccountingConnection env sc b)"
  unfolding buildAccountingConnection_def Let_def by (intro raises_intros)

lemma raises_job [raises_intros]: "raises_only P (job_create b dir t oid)" "raises_only P (job_change jid g)"
  unfolding job_create_def job_change_def by (intro raises_intros)+

lemma raises_record [raises_intros]: "raises_only P m \<Longrightarrow> raises_only P (recordPull b t oid sk m)"
  unfolding recordPull_def report_unhealthy_def
  by (intro raises_intros raises_catch[where Q = P])

lemma ends_changes [raises_intros]:
  "ends (customer_change sc cid f)" "ends (invoice_change sc iid h)" "ends (markUnhealthy sc b r)" "ends (recordPullRun sc b t)"
  "ends (getLastPulledAt sc b)"
  unfolding customer_change_def customer_or_throw_def invoice_change_def invoice_or_throw_def markUnhealthy_def recordPullRun_def
    connections_change_def getLastPulledAt_def by (intro raises_intros sync_error.distinct)+

lemma ends_pull_customer [raises_intros]: "ends (pullOneCustomer zo sc b cid)"
  unfolding pullOneCustomer_def pull_customer_work_def customer_upsert_def person_upsert_def persons_keep_def Let_def
  by (intro raises_intros sync_error.distinct)

lemma ends_retry [raises_intros]: "ends m \<Longrightarrow> ends (withUniqueViolationRetry n targets m)"
proof (induction n)
  case (Suc n)
  have again: "ends (withUniqueViolationRetry n targets m)" by (rule Suc.IH[OF Suc.prems])
  show ?case unfolding withUniqueViolationRetry.simps
    by (rule raises_catch[OF Suc.prems]) (intro raises_intros again; assumption)
qed (simp add: raises_intros)

lemma ends_pull_invoice [raises_intros]: "ends (pullOneInvoice zo sc b item detail)"
  unfolding pullOneInvoice_def pull_invoice_work_def localCustomerId_def validation_failure_def applyInvoiceDetail_def
    line_upsert_def lines_keep_below_def invoice_upsert_def
  by (intro raises_intros raises_catch[where Q = "\<lambda>e. e \<noteq> PagesExhausted"] sync_error.distinct)

lemma ends_tolerant [raises_intros]: "ends m \<Longrightarrow> ends (pullRecordTolerantly m)"
  unfolding pullRecordTolerantly_def by (intro raises_catch[where Q = "\<lambda>e. e \<noteq> PagesExhausted"] raises_intros)

text \<open>When no page from \<open>N\<close> on announces another, \<open>N\<close> pages are enough.\<close>

lemma ends_pages:
  assumes "\<And>p. raises_only P (body p)" "\<And>p w a w'. N \<le> p \<Longrightarrow> body p w \<noteq> (Inr (a, True), w')" "0 < fuel" "N < page + fuel"
  shows "raises_only P (each_page fuel page body)"
  using assms(3,4)
proof (induction fuel arbitrary: page)
  case (Suc fuel)
  show ?case
  proof (cases "N \<le> page")
    case True
    show ?thesis unfolding raises_only_def
    proof (intro allI impI)
      fix w e w' assume "each_page (Suc fuel) page body w = (Inl e, w')"
      then show "P e"
        using assms(2)[OF True] raises_onlyD[OF assms(1), of page w e]
        by (auto simp: ebind_def ereturn_def split: prod.splits sum.splits if_splits)
    qed
  next
    case False
    then have "raises_only P (each_page fuel (page + 1) body)" using Suc by (intro Suc.IH) auto
    then show ?thesis by (simp only: each_page.simps) (intro raises_intros assms(1))
  qed
qed simp

lemma pages_enough:
  assumes "\<And>p w a w'. N \<le> p \<Longrightarrow> body p w \<noteq> (Inr (a, True), w')" "0 < fuel" "N < page + fuel" "0 < fuel'" "N < page + fuel'"
  shows "each_page fuel page body = each_page fuel' page body"
  using assms(2-5)
proof (induction fuel arbitrary: page fuel')
  case (Suc fuel)
  then obtain k where k: "fuel' = Suc k" by (cases fuel') auto
  show ?case
  proof (cases "N \<le> page")
    case True
    then show ?thesis unfolding k
      by (intro ext) (auto simp: ebind_def split: prod.splits sum.splits dest: assms(1))
  next
    case False
    then have "each_page fuel (page + 1) body = each_page k (page + 1) body" using Suc.prems k by (intro Suc.IH) auto
    then show ?thesis unfolding k by (simp only: each_page.simps)
  qed
qed simp

definition lists_end :: "nat \<Rightarrow> 'z zoho \<Rightarrow> bool" where
  "lists_end N zo \<longleftrightarrow>
     (\<forall>p items z z'. N \<le> p \<longrightarrow> zh_listContacts zo p z \<noteq> (Inr (items, True), z')) \<and>
     (\<forall>p since items z z'. N \<le> p \<longrightarrow> zh_listInvoices zo p since z \<noteq> (Inr (items, True), z'))"

lemma call_page:
  "call_zoho (request_zoho c m) w = (Inr x, w') \<Longrightarrow> m (sw_zoho w) = (Inr x, sw_zoho w')"
  by (auto simp: call_zoho_def request_zoho_def rename_errors_def split: prod.splits sum.splits port_error.splits)

lemma last_pages:
  assumes "lists_end N zo" "N \<le> p"
  shows "customers_page zo sc b cursor force p w \<noteq> (Inr (a, True), w')"
    "invoices_page zo sc b cursor p w \<noteq> (Inr (n, True), w')"
    "seen_page zo p w \<noteq> (Inr (ids, True), w')"
  using assms unfolding lists_end_def customers_page_def invoices_page_def seen_page_def listContactsPage_def listInvoicesPage_def
  by (auto simp: bind_Inr ereturn_def Let_def dest!: call_page split: prod.splits if_splits)

lemma ends_page [raises_intros]:
  "ends (customers_page zo sc b cursor force p)" "ends (invoices_page zo sc b cursor p)" "ends (seen_page zo p)"
  unfolding customers_page_def invoices_page_def seen_page_def localContactVersions_def Let_def by (intro raises_intros)+

lemma settle_run: "settle m w = (Inr (fst (m w)), snd (m w))"
  by (simp add: settle_def ebind_def ecatch_def ereturn_def split: prod.splits sum.splits)

lemma phases_failed:
  assumes "pull_phases pages zo sc b cursor force w = (Inl e, w')"
  shows "(\<exists>w1. pullAndReconcileCustomers pages zo sc b cursor force w = (Inl e, w1)) \<or>
    (\<exists>w1 w2. pullInvoices pages zo sc b cursor w1 = (Inl e, w2))"
proof -
  obtain c w1 where c: "pullAndReconcileCustomers pages zo sc b cursor force w = (c, w1)" by force
  obtain i w2 where i: "pullInvoices pages zo sc b cursor w1 = (i, w2)" by force
  obtain r w3 where r: "reconcileInvoicePresenceIfDue pages zo sc b force w2 = (r, w3)" by force
  have "c = Inl e \<or> i = Inl e"
    using assms c i r unfolding pull_phases_def
    by (cases c; cases i; cases r) (simp_all add: ebind_def settle_run ecatch_def)
  then show ?thesis using c i by blast
qed

lemma ends_phases:
  assumes "lists_end N zo" "0 < N" "N \<le> pages"
  shows "ends (pull_phases pages zo sc b cursor force)"
proof -
  have scan: "0 < pages" "N < 1 + pages" using assms(2,3) by auto
  have c: "ends (pullAndReconcileCustomers pages zo sc b cursor force)"
    unfolding pullAndReconcileCustomers_def pullCustomers_def
    by (intro raises_intros ends_pages[OF ends_page(1) last_pages(1)[OF assms(1)] scan]) assumption
  have i: "ends (pullInvoices pages zo sc b cursor)"
    unfolding pullInvoices_def
    by (intro raises_intros ends_pages[OF ends_page(2) last_pages(2)[OF assms(1)] scan]) assumption
  show ?thesis unfolding raises_only_def
  proof (intro allI impI)
    fix w e w' assume run: "pull_phases pages zo sc b cursor force w = (Inl e, w')"
    note phases_failed[OF run]
    then show "e \<noteq> PagesExhausted" using raises_onlyD[OF c] raises_onlyD[OF i] by blast
  qed
qed

lemma phases_enough:
  assumes "lists_end N zo" "0 < N" "N \<le> pages"
  shows "pull_phases pages zo sc b cursor force = pull_phases N zo sc b cursor force"
proof -
  have "each_page pages 1 (customers_page zo sc b cursor force) = each_page N 1 (customers_page zo sc b cursor force)" for cursor force
    by (rule pages_enough[OF last_pages(1)[OF assms(1)]]) (use assms in auto)
  moreover have "each_page pages 1 (invoices_page zo sc b cursor) = each_page N 1 (invoices_page zo sc b cursor)" for cursor
    by (rule pages_enough[OF last_pages(2)[OF assms(1)]]) (use assms in auto)
  moreover have "each_page pages 1 (seen_page zo) = each_page N 1 (seen_page zo)"
    by (rule pages_enough[OF last_pages(3)[OF assms(1)]]) (use assms in auto)
  ultimately show ?thesis
    by (simp only: pull_phases_def pullAndReconcileCustomers_def pullCustomers_def pullInvoices_def reconcileInvoicePresenceIfDue_def
        reconcileInvoicePresence_def reconcile_invoices_work_def)
qed

text \<open>C17: A pull of a brand ends: when Zoho's lists have at most \<open>N\<close> pages, a scan never reads beyond them, and
  any larger bound gives the same pull, with the same counts and the same rows.\<close>

theorem pull_ends:
  assumes "\<And>con. lists_end N (se_zoho env con)" "0 < N" "N \<le> pages"
  shows "pullBrand (env\<lparr> se_pages := pages \<rparr>) b force = pullBrand (env\<lparr> se_pages := N \<rparr>) b force \<and>
    fst (pullBrand (env\<lparr> se_pages := pages \<rparr>) b force w) \<noteq> Inl PagesExhausted"
proof (intro conjI)
  show "pullBrand (env\<lparr> se_pages := pages \<rparr>) b force = pullBrand (env\<lparr> se_pages := N \<rparr>) b force"
  proof (cases env)
    case (fields zo n refresh)
    have "pull_phases pages (zo con) sc b cursor f = pull_phases N (zo con) sc b cursor f" for con sc cursor f
      by (rule phases_enough) (use assms fields in auto)
    then show ?thesis
      unfolding fields pullBrand_def buildAccountingConnection_def sync_env.update_convs sync_env.select_convs by (simp only:)
  qed
  have "ends (recordConnectionFailure sc b e)" for sc e
    unfolding recordConnectionFailure_def Let_def by (intro raises_intros)
  then have con: "ends (ecatch (buildAccountingConnection env' sc b) (\<lambda>e. ebind (recordConnectionFailure sc b e) (\<lambda>_. ethrow e)))"
    for env' :: "'a sync_env" and sc
    by (intro raises_catch[OF ends_tokens]) (intro raises_intros; assumption)
  have ph: "ends (pull_phases (se_pages (env\<lparr> se_pages := pages \<rparr>)) (se_zoho (env\<lparr> se_pages := pages \<rparr>) con) sc b cursor force)"
    for con sc cursor
    by (rule ends_phases[of N]) (simp_all add: assms)
  have "ends (pullBrand (env\<lparr> se_pages := pages \<rparr>) b force)"
    unfolding pullBrand_def
    by (rule raises_bind[OF never_raises(3)], rule raises_option, rule raises_pure, rule raises_bind, rule con, intro raises_intros ph)
  then show "fst (pullBrand (env\<lparr> se_pages := pages \<rparr>) b force w) \<noteq> Inl PagesExhausted"
    by (cases "pullBrand (env\<lparr> se_pages := pages \<rparr>) b force w") (auto dest: raises_onlyD)
qed

theorem pull_ends_witness:
  "pullBrand (sample_sync_env\<lparr> se_pages := 40 \<rparr>) ''b1'' True = pullBrand (sample_sync_env\<lparr> se_pages := 1 \<rparr>) ''b1'' True \<and>
    fst (pullBrand (sample_sync_env\<lparr> se_pages := 40 \<rparr>) ''b1'' True (sample_sync_world [sample_link ''b1''])) \<noteq> Inl PagesExhausted"
proof (rule pull_ends)
  show "lists_end 1 (se_zoho sample_sync_env con)" for con
    by (simp add: lists_end_def sample_sync_env_def sample_zoho_def)
qed simp_all

section \<open>One bad record\<close>

definition lists_answer :: "'z zoho \<Rightarrow> bool" where
  "lists_answer zo \<longleftrightarrow> (\<forall>p z. \<exists>x z'. zh_listContacts zo p z = (Inr x, z')) \<and> (\<forall>p since z. \<exists>x z'. zh_listInvoices zo p since z = (Inr x, z'))"

lemma raises_answer [raises_intros]:
  assumes "lists_answer zo"
  shows "raises_only P (call_zoho (listContactsPage zo p))" "raises_only P (call_zoho (listInvoicesPage zo p since))"
proof -
  have "\<exists>x z'. zh_listContacts zo p z = (Inr x, z')" "\<exists>x z'. zh_listInvoices zo p since z = (Inr x, z')" for z
    using assms unfolding lists_answer_def by blast+
  then show "raises_only P (call_zoho (listContactsPage zo p))" "raises_only P (call_zoho (listInvoicesPage zo p since))"
    by (auto simp: raises_only_def call_zoho_def listContactsPage_def listInvoicesPage_def request_zoho_def rename_errors_def
        split: prod.splits sum.splits) (metis prod.inject sum.distinct(1))+
qed

lemma raises_tolerant [raises_intros]: "raises_only (\<lambda>e. \<not> record_specific e) (pullRecordTolerantly m)"
  unfolding pullRecordTolerantly_def by (rule raises_catch[OF raises_any]) (intro raises_intros)

lemma raises_each_page [raises_intros]:
  "\<lbrakk>P PagesExhausted; \<And>p. raises_only P (body p)\<rbrakk> \<Longrightarrow> raises_only P (each_page fuel page body)"
  by (induction fuel arbitrary: page) (simp_all only: each_page.simps, (intro raises_intros; simp)+)


text \<open>An organisation with one new contact that cannot be read.\<close>

definition broken_zoho :: "nat zoho" where
  "broken_zoho = (sample_zoho [sample_contact] [])\<lparr> zh_getContact := \<lambda>_ z. (Inl (Unreachable ''down''), z) \<rparr>"

definition new_platform :: "nat sync_world" where
  "new_platform = (sample_sync_world [])\<lparr> sw_db := (sample_sync_db [])\<lparr> sd_customers := [], sd_invoices := [], sd_payments := [] \<rparr> \<rparr>"

lemma broken_pull: "fst (pull_phases 1 broken_zoho sample_scope1 ''b2'' None False new_platform) = Inl (ErrorThrown ''down'')"
  by code_simp


end
