(* ===== verification/SyncOutcomes.thy ===== *)
theory SyncOutcomes
  imports SyncContract
begin

text \<open>
  What single operations of the sync do: the echo of an own push, the reading back of a pushed invoice, the backfill,
  the payments sent, the invoices deleted in Zoho and the routing of webhooks.
\<close>

section \<open>The echo of an own push\<close>

lemma job_create_run: "\<exists>jid js. job_create b dir t oid w = (Inr jid, w\<lparr> sw_drawn := sw_drawn w + 1, sw_db := (sw_db w)\<lparr> sd_jobs := js \<rparr> \<rparr>)"
  by (auto simp: job_create_def fresh_id_def change_db_def ebind_def)

lemma job_done_run: "\<exists>js. job_done jid sk w = (Inr (), w\<lparr> sw_db := (sw_db w)\<lparr> sd_jobs := js \<rparr> \<rparr>)"
  by (auto simp: job_done_def sync_now_def job_change_def change_db_def)

lemma invoice_by_remote_jobs [simp]:
  "invoice_by_remote sc b rid (d\<lparr> sd_jobs := js \<rparr>) = invoice_by_remote sc b rid d" "reaches sc (d\<lparr> sd_jobs := js \<rparr>) c = reaches sc d c"
  by (simp_all add: invoice_by_remote_def reaches_def)



section \<open>Backfill\<close>

text \<open>A backfill reaches every unsynced record exactly once: an invoice is enqueued itself or with one of its
  payments, a customer itself or with one of its invoices or payments, never both ways.\<close>

theorem backfill_covers_once:
  "case computeBackfillTargets pays invs custs of (cs, ivs, ps) \<Rightarrow>
     ps = pays \<and>
     (\<forall>i \<in> set invs. (i \<in> set ivs) \<noteq> (bi_id i \<in> bp_invoiceId ` set ps)) \<and>
     (\<forall>c \<in> set custs. (c \<in> set cs) \<noteq> (c \<in> bp_customerId ` set ps \<union> bi_customerId ` set ivs)) \<and>
     set ivs \<subseteq> set invs \<and> set cs \<subseteq> set custs \<and>
     (distinct custs \<longrightarrow> distinct cs) \<and> (distinct invs \<longrightarrow> distinct ivs)"
  by (auto simp: computeBackfillTargets_def Let_def)

section \<open>Reading a pushed invoice back\<close>

lemma tax_line_kind: "syntheticPushedLineKind (tax_line iv) = Some TAX_LINE"
  by (simp add: syntheticPushedLineKind_def tax_line_def present_def is_prefix_def)

lemma fee_line_kind: "syntheticPushedLineKind (fee_line iv) = Some CARD_FEE_LINE"
  by (simp add: syntheticPushedLineKind_def fee_line_def present_def PUSHED_CARD_FEE_LINE_NAME_def PUSHED_TAX_LINE_NAME_def)

lemma quantity_one: "\<bar>n\<bar> \<le> 2 ^ 50 \<Longrightarrow> decimalToMinor (js_times (minorToDecimal n c) 1) c = n"
proof -
  assume n: "\<bar>n\<bar> \<le> 2 ^ 50"
  let ?x = "of_int n / 10 ^ currency_exponent c :: rat"
  have "minorToDecimal n c = to_double ?x" using minor_decimal[OF n] by (simp add: minorToDecimal_def Let_def)
  then show ?thesis
    using decimal_minor_near[OF n, of "to_double (to_double ?x)" "currency_exponent c"] to_double_twice[of ?x]
    by (simp add: decimalToMinor_def js_times_def)
qed

definition plain_lines :: "accounting_invoice \<Rightarrow> bool" where
  "plain_lines iv \<longleftrightarrow> list_all (\<lambda>l. al_remoteTaxId l = None \<and> syntheticPushedLineKind (sent_line (ain_currency iv) l) = None \<and>
     \<bar>al_quantity l\<bar> \<le> 2 ^ 31 \<and> \<bar>al_unitPriceMinor l\<bar> \<le> 2 ^ 50) (ain_lines iv)"

lemma sent_line_back:
  assumes "\<bar>al_quantity l\<bar> \<le> 2 ^ 31" "\<bar>al_unitPriceMinor l\<bar> \<le> 2 ^ 50"
  shows "math_round (js_times (zl_quantity (sent_line c l)) 10000) = al_quantity l"
    "decimalToMinor (zl_rate (sent_line c l)) c = al_unitPriceMinor l"
  using decimal_minor[of "al_quantity l" 4] assms amount_roundtrip[OF assms(2)]
  by (simp_all add: sent_line_def quantity_number_def)


definition sample_pushed :: accounting_invoice where
  "sample_pushed = \<lparr> ain_localId = ''i1'', ain_remoteId = None, ain_number = ''N1'', ain_customerRemoteId = ''rc0'', ain_currency = ''USD'',
     ain_invoiceDate = 0, ain_dueDate = 0,
     ain_lines = [\<lparr> al_name = ''Desk'', al_description = None, al_quantity = 15000, al_unitPriceMinor = 20001, al_lineTotalMinor = 30002,
       al_taxExempt = False, al_remoteTaxId = None \<rparr>],
     ain_subtotalMinor = 30002, ain_taxRateBpApplied = 700, ain_taxMinor = 2100, ain_cardFeeMinor = 963, ain_totalMinor = 33065,
     ain_notes = None, ain_status = AS_SENT \<rparr>"


section \<open>Deleted in Zoho\<close>

lemma reaches_same [simp]:
  "reaches sc (d\<lparr> sd_invoices := x \<rparr>) b = reaches sc d b" "reaches sc (d\<lparr> sd_jobs := js \<rparr>) b = reaches sc d b"
  by (simp_all add: reaches_def)

lemma call_list:
  "zh_listInvoices zo p None (sw_zoho w) = (Inr r, sw_zoho w) \<Longrightarrow> call_zoho (listInvoicesPage zo p None) w = (Inr r, w)"
  by (simp add: call_zoho_def listInvoicesPage_def request_zoho_def rename_errors_def)

lemma pages_seen:
  assumes "\<And>p z. 1 \<le> p \<Longrightarrow> p \<le> N \<Longrightarrow> zh_listInvoices zo p None z = (Inr (items p, p < N), z)"
  shows "1 \<le> p \<Longrightarrow> p \<le> N \<Longrightarrow> N < p + fuel \<Longrightarrow>
    each_page fuel p (seen_page zo) w = (Inr (map (\<lambda>q. map zi_invoice_id (items q)) [p..<Suc N]), w)"
proof (induction fuel arbitrary: p)
  case (Suc fuel)
  have page: "seen_page zo p w = (Inr (map zi_invoice_id (items p), p < N), w)"
    using call_list[of zo p w "(items p, p < N)"] assms[of p "sw_zoho w"] Suc.prems by (simp add: seen_page_def ebind_def)
  show ?case
  proof (cases "p < N")
    case True
    have cons: "[p..<Suc N] = p # [Suc p..<Suc N]" using Suc.prems by (simp add: upt_rec)
    show ?thesis using Suc.IH[of "p + 1"] Suc.prems True page by (simp add: ebind_def cons del: upt_Suc)
  next
    case False
    then have "p = N" using Suc.prems by simp
    then show ?thesis using page by (simp add: ebind_def)
  qed
qed simp

lemma updateMany_run:
  "invoices_updateMany sc ids f w = (Inr (), w\<lparr> sw_db := (sw_db w)\<lparr> sd_invoices :=
     map_rows (\<lambda>i. reaches sc (sw_db w) (i_brandId i) \<and> i_id i \<in> set ids) f (sd_invoices (sw_db w)) \<rparr> \<rparr>)"
  by (simp add: invoices_updateMany_def in_scope_def change_db_def transaction_def map_rows_def)

lemma by_id:
  assumes "distinct (map i_id rows)" "i \<in> set rows"
  shows "i_id i \<in> i_id ` {j \<in> set rows. P j} \<longleftrightarrow> P i"
  using distinct_key_eq[OF assms(1) assms(2)] assms(2) by auto

definition presence_row :: "string \<Rightarrow> int \<Rightarrow> string set \<Rightarrow> synced_invoice \<Rightarrow> synced_invoice" where
  "presence_row b now seen i =
     (if i_brandId i = b \<and> i_zohoInvoiceId i \<noteq> None \<and> now_missing (now - RECONCILE_CREATION_GRACE_MS) seen i
      then i\<lparr> i_zohoMissingSince := Some now, i_publicTokenActive := False \<rparr>
      else if i_brandId i = b \<and> i_zohoInvoiceId i \<noteq> None \<and> reappeared seen i
      then i\<lparr> i_zohoMissingSince := None, i_publicTokenActive := True \<rparr> else i)"

lemma map_rows_twice:
  "(\<And>i. Q (f i) = Q i) \<Longrightarrow> map_rows Q g (map_rows P f xs) =
     map (\<lambda>i. if Q i then g (if P i then f i else i) else if P i then f i else i) xs"
  by (auto simp: map_rows_def)

lemma presence_row_fun:
  "presence_row b now seen = (\<lambda>i. if i_brandId i = b \<and> i_zohoInvoiceId i \<noteq> None \<and> the (i_zohoInvoiceId i) \<notin> seen \<and>
            i_zohoMissingSince i = None \<and> i_createdAt i \<le> now - 10 * 60 * 1000
          then i\<lparr> i_zohoMissingSince := Some now, i_publicTokenActive := False \<rparr>
          else if i_brandId i = b \<and> i_zohoInvoiceId i \<noteq> None \<and> the (i_zohoInvoiceId i) \<in> seen \<and> i_zohoMissingSince i \<noteq> None
          then i\<lparr> i_zohoMissingSince := None, i_publicTokenActive := True \<rparr> else i)"
  by (rule ext) (simp only: presence_row_def now_missing_def reappeared_def RECONCILE_CREATION_GRACE_MS_def)

lemma reconcile_rows:
  assumes d: "distinct (map i_id (sd_invoices (sw_db w)))" and b: "reaches sc (sw_db w) b" and ne: "concat read \<noteq> []"
    and scan: "each_page pages 1 (seen_page zo) w = (Inr read, w)"
  shows "reconcile_invoices_work pages zo sc b w = (Inr True, w\<lparr> sw_db := (sw_db w)\<lparr> sd_invoices :=
    map (presence_row b (sw_now w) (set (concat read))) (sd_invoices (sw_db w)) \<rparr> \<rparr>)"
proof -
  let ?rows = "sd_invoices (sw_db w)" and ?seen = "set (concat read)"
  let ?own = "\<lambda>i. reaches sc (sw_db w) (i_brandId i) \<and> i_brandId i = b \<and> i_zohoInvoiceId i \<noteq> None"
  let ?M = "now_missing (sw_now w - RECONCILE_CREATION_GRACE_MS) ?seen" and ?A = "reappeared ?seen"
  have in_ids: "i_id i \<in> set (map i_id (filter P (filter ?own ?rows))) \<longleftrightarrow> ?own i \<and> P i" if "i \<in> set ?rows" for i P
    using by_id[OF d that, of "\<lambda>j. ?own j \<and> P j"] by auto
  have "map_rows (\<lambda>i. reaches sc (sw_db w) (i_brandId i) \<and> i_id i \<in> set (map i_id (filter ?A (filter ?own ?rows))))
      (\<lambda>i. i\<lparr> i_zohoMissingSince := None, i_publicTokenActive := True \<rparr>)
      (map_rows (\<lambda>i. reaches sc (sw_db w) (i_brandId i) \<and> i_id i \<in> set (map i_id (filter ?M (filter ?own ?rows))))
        (\<lambda>i. i\<lparr> i_zohoMissingSince := Some (sw_now w), i_publicTokenActive := False \<rparr>) ?rows) =
    map (presence_row b (sw_now w) ?seen) ?rows"
  proof -
    have "(if reaches sc (sw_db w) (i_brandId i) \<and> i_id i \<in> set (map i_id (filter ?A (filter ?own ?rows)))
        then (if reaches sc (sw_db w) (i_brandId i) \<and> i_id i \<in> set (map i_id (filter ?M (filter ?own ?rows)))
          then i\<lparr> i_zohoMissingSince := Some (sw_now w), i_publicTokenActive := False \<rparr> else i)\<lparr> i_zohoMissingSince := None, i_publicTokenActive := True \<rparr>
        else if reaches sc (sw_db w) (i_brandId i) \<and> i_id i \<in> set (map i_id (filter ?M (filter ?own ?rows)))
          then i\<lparr> i_zohoMissingSince := Some (sw_now w), i_publicTokenActive := False \<rparr> else i) =
      presence_row b (sw_now w) ?seen i" if "i \<in> set ?rows" for i
    proof -
      have "\<not> (?M i \<and> ?A i)" unfolding now_missing_def reappeared_def by blast
      then show ?thesis unfolding in_ids[OF that] presence_row_def using b
        by (cases "i_brandId i = b"; cases "i_zohoInvoiceId i = None"; cases "?M i"; cases "?A i") simp_all
    qed
    then show ?thesis by (subst map_rows_twice) (simp, rule map_cong[OF refl], assumption)
  qed
  then show ?thesis
    using scan ne by (simp add: reconcile_invoices_work_def ebind_def Let_def now_simps sync_now_def updateMany_run)
qed

text \<open>C13: A scan of all pages marks an invoice missing, and closes its payment link, exactly when no page lists it, it is
  not marked already and it is older than ten minutes; it takes the mark off exactly when a page lists it again. Nothing
  else of any invoice changes, least of all its status, and an empty list changes nothing.\<close>

theorem missing_invoices_marked:
  assumes "\<And>p z. 1 \<le> p \<Longrightarrow> p \<le> N \<Longrightarrow> zh_listInvoices zo p None z = (Inr (items p, p < N), z)" "1 \<le> N" "N \<le> pages"
    "distinct (map i_id (sd_invoices (sw_db w)))" "reaches sc (sw_db w) b"
  defines "seen \<equiv> set (concat (map (\<lambda>p. map zi_invoice_id (items p)) [1..<Suc N]))"
  shows "\<exists>w'. reconcileInvoicePresence pages zo sc b w = (Inr (seen \<noteq> {}), w') \<and> sw_zoho w' = sw_zoho w \<and>
    sd_invoices (sw_db w') = (if seen = {} then sd_invoices (sw_db w)
      else map (\<lambda>i. if i_brandId i = b \<and> i_zohoInvoiceId i \<noteq> None \<and> the (i_zohoInvoiceId i) \<notin> seen \<and>
            i_zohoMissingSince i = None \<and> i_createdAt i \<le> sw_now w - 10 * 60 * 1000
          then i\<lparr> i_zohoMissingSince := Some (sw_now w), i_publicTokenActive := False \<rparr>
          else if i_brandId i = b \<and> i_zohoInvoiceId i \<noteq> None \<and> the (i_zohoInvoiceId i) \<in> seen \<and> i_zohoMissingSince i \<noteq> None
          then i\<lparr> i_zohoMissingSince := None, i_publicTokenActive := True \<rparr>
          else i) (sd_invoices (sw_db w)))"
proof -
  let ?read = "map (\<lambda>q. map zi_invoice_id (items q)) [1..<Suc N]"
  obtain jid js where o: "job_create b PULL ''INVOICE'' ''reconcile'' w =
      (Inr jid, w\<lparr> sw_drawn := sw_drawn w + 1, sw_db := (sw_db w)\<lparr> sd_jobs := js \<rparr> \<rparr>)" (is "_ = (_, ?w1)")
    using job_create_run by blast
  have scan: "each_page pages 1 (seen_page zo) ?w1 = (Inr ?read, ?w1)"
    by (rule pages_seen[OF assms(1)]) (use assms(2,3) in auto)
  have work: "\<exists>w2. reconcile_invoices_work pages zo sc b ?w1 = (Inr (concat ?read \<noteq> []), w2) \<and> sw_zoho w2 = sw_zoho w \<and>
      sd_invoices (sw_db w2) = (if concat ?read = [] then sd_invoices (sw_db w)
        else map (presence_row b (sw_now w) (set (concat ?read))) (sd_invoices (sw_db w)))"
  proof (cases "concat ?read = []")
    case True
    then show ?thesis using scan by (simp add: reconcile_invoices_work_def ebind_def Let_def del: upt_Suc)
  next
    case False
    from reconcile_rows[OF _ _ False scan] show ?thesis using False assms(4,5) by (simp del: upt_Suc concat_eq_Nil_conv)
  qed
  then obtain w2 where w2: "reconcile_invoices_work pages zo sc b ?w1 = (Inr (concat ?read \<noteq> []), w2)" "sw_zoho w2 = sw_zoho w"
    "sd_invoices (sw_db w2) = (if concat ?read = [] then sd_invoices (sw_db w)
        else map (presence_row b (sw_now w) (set (concat ?read))) (sd_invoices (sw_db w)))" by blast
  obtain js' where "job_done jid (concat ?read = []) w2 = (Inr (), w2\<lparr> sw_db := (sw_db w2)\<lparr> sd_jobs := js' \<rparr> \<rparr>)"
    using job_done_run by blast
  then have "reconcileInvoicePresence pages zo sc b w = (Inr (concat ?read \<noteq> []), w2\<lparr> sw_db := (sw_db w2)\<lparr> sd_jobs := js' \<rparr> \<rparr>)"
    using o w2(1) by (simp add: reconcileInvoicePresence_def recordPull_def ebind_def ecatch_def del: upt_Suc concat_eq_Nil_conv)
  moreover have seen: "seen = set (concat ?read)" "(seen = {}) = (concat ?read = [])" unfolding seen_def by (simp_all only: set_empty)
  ultimately have run: "reconcileInvoicePresence pages zo sc b w = (Inr (seen \<noteq> {}), w2\<lparr> sw_db := (sw_db w2)\<lparr> sd_jobs := js' \<rparr> \<rparr>)"
    by (simp only: seen(2))
  have rows: "sd_invoices (sw_db w2) = (if seen = {} then sd_invoices (sw_db w) else map (presence_row b (sw_now w) seen) (sd_invoices (sw_db w)))"
    using w2(3) unfolding seen(2)[symmetric] seen(1)[symmetric] .
  show ?thesis unfolding presence_row_fun[symmetric]
    by (rule exI[of _ "w2\<lparr> sw_db := (sw_db w2)\<lparr> sd_jobs := js' \<rparr> \<rparr>"]) (simp add: run rows w2(2))
qed

theorem missing_invoices_marked_witness:
  "\<exists>w'. reconcileInvoicePresence 1 (sample_zoho [] [sample_remote]) sample_scope1 ''b1'' (sample_sync_world []) = (Inr True, w') \<and>
     map (\<lambda>i. (i_id i, i_publicTokenActive i)) (sd_invoices (sw_db w')) = [(''i1'', True), (''i2'', False), (''i3'', True)]"
proof -
  have "zh_listInvoices (sample_zoho [] [sample_remote]) p None z = (Inr ([invoice_item.truncate sample_remote], p < 1), z)" if "1 \<le> p" for p z
    using that by (simp add: sample_zoho_def)
  moreover have "reaches sample_scope1 (sw_db (sample_sync_world [])) ''b1''" by code_simp
  moreover have "distinct (map i_id (sd_invoices (sw_db (sample_sync_world []))))" by code_simp
  ultimately show ?thesis
    using missing_invoices_marked[of 1 "sample_zoho [] [sample_remote]" "\<lambda>_. [invoice_item.truncate sample_remote]" 1 "sample_sync_world []" sample_scope1 "''b1''"]
    by (auto simp: sample_sync_world_def sample_sync_db_def sample_sync_invoice_def imported_invoice_def sample_remote_def invoice_item.truncate_def)
qed

section \<open>Webhooks\<close>

text \<open>Zoho's webhook for a record this platform does not have, from an organisation several brands share, is never
  given to one of them: Zoho is not called, no customer or invoice is written, and the record waits in the queue
  of its merchant.\<close>

theorem shared_organisation_waits:
  assumes "\<not> list_ex (\<lambda>c. c_zohoContactId c = Some rid) (sd_customers (sw_db w))" "\<not> list_ex (\<lambda>i. i_zohoInvoiceId i = Some rid) (sd_invoices (sw_db w))"
    "candidate_brands (sw_db w) org = (b1, merchant) # b2 # bs" "merchant \<noteq> []"
  shows "\<exists>message n ps. route env k org rid raw w = (Inr (200, message), w\<lparr> sw_drawn := n, sw_db := (sw_db w)\<lparr> sd_pending := ps \<rparr> \<rparr>) \<and>
    list_ex (\<lambda>p. pd_organizationId p = org \<and> pd_objectType p = object_type k \<and> pd_remoteId p = rid \<and> pd_status p = ''PENDING'' \<and>
      pd_reason p = ''NEW_RECORD_MULTI_BRAND'') ps"
proof -
  let ?same = "\<lambda>p. pd_organizationId p = org \<and> pd_objectType p = object_type k \<and> pd_remoteId p = rid"
  have none: "findLocalRecords k rid w = (Inr [], w)"
    using assms(1,2) by (cases k) (auto simp: findLocalRecords_def filter_empty_list_ex)
  have "\<exists>n ps. recordForManualReview k org rid NEW_RECORD_MULTI_BRAND (Some ((b1, merchant) # b2 # bs)) raw w =
      (Inr (), w\<lparr> sw_drawn := n, sw_db := (sw_db w)\<lparr> sd_pending := ps \<rparr> \<rparr>) \<and>
    list_ex (\<lambda>p. ?same p \<and> pd_status p = ''PENDING'' \<and> pd_reason p = ''NEW_RECORD_MULTI_BRAND'') ps"
  proof (cases "list_ex ?same (sd_pending (sw_db w))")
    case True
    let ?f = "\<lambda>p. p\<lparr> pd_reason := ''NEW_RECORD_MULTI_BRAND'', pd_status := ''PENDING'', pd_payload := first_some raw (pd_payload p) \<rparr>"
    have "list_ex (\<lambda>p. ?same p \<and> pd_status p = ''PENDING'' \<and> pd_reason p = ''NEW_RECORD_MULTI_BRAND'') (map_rows ?same ?f (sd_pending (sw_db w)))"
    proof -
      obtain p where "p \<in> set (sd_pending (sw_db w))" "?same p" using True by (auto simp: list_ex_iff)
      moreover from this have "?f p \<in> set (map_rows ?same ?f (sd_pending (sw_db w)))" by (force simp: set_map_rows)
      ultimately show ?thesis unfolding list_ex_iff by (intro bexI[of _ "?f p"]) simp_all
    qed
    then show ?thesis using True assms(4)
      by (intro exI[of _ "sw_drawn w"] exI[of _ "map_rows ?same ?f (sd_pending (sw_db w))"])
        (simp add: recordForManualReview_def ebind_def Let_def change_db_def reason_text_def)
  next
    case False
    then show ?thesis using assms(4)
      by (intro exI[of _ "sw_drawn w + 1"]) (auto simp: recordForManualReview_def ebind_def Let_def change_db_def reason_text_def fresh_id_def sync_now_def)
  qed
  then obtain n ps where review: "recordForManualReview k org rid NEW_RECORD_MULTI_BRAND (Some ((b1, merchant) # b2 # bs)) raw w =
      (Inr (), w\<lparr> sw_drawn := n, sw_db := (sw_db w)\<lparr> sd_pending := ps \<rparr> \<rparr>)"
    and queued: "list_ex (\<lambda>p. ?same p \<and> pd_status p = ''PENDING'' \<and> pd_reason p = ''NEW_RECORD_MULTI_BRAND'') ps" by blast
  obtain message where "route env k org rid raw w = (Inr (200, message), w\<lparr> sw_drawn := n, sw_db := (sw_db w)\<lparr> sd_pending := ps \<rparr> \<rparr>)"
    using none review assms(3) by (cases b2) (simp add: route_def ebind_def candidateBrands_def)
  then show ?thesis using queued
    by (intro exI[of _ message] exI[of _ n] exI[of _ ps]) simp
qed

theorem shared_organisation_waits_witness:
  "fst (route sample_sync_env CONTACT_RECORD ''org'' ''rc9'' None (sample_sync_world [sample_link ''b1'', sample_link ''b2''])) \<in> {Inr (200, m) |m. True} \<and>
   sw_zoho (snd (route sample_sync_env CONTACT_RECORD ''org'' ''rc9'' None (sample_sync_world [sample_link ''b1'', sample_link ''b2'']))) = 1"
proof -
  let ?w = "sample_sync_world [sample_link ''b1'', sample_link ''b2'']"
  have "candidate_brands (sw_db ?w) ''org'' = [(''b1'', ''m1''), (''b2'', ''m1'')]" by code_simp
  moreover have "\<not> list_ex (\<lambda>c. c_zohoContactId c = Some ''rc9'') (sd_customers (sw_db ?w))" "\<not> list_ex (\<lambda>i. i_zohoInvoiceId i = Some ''rc9'') (sd_invoices (sw_db ?w))"
    by code_simp+
  ultimately obtain m n ps where "route sample_sync_env CONTACT_RECORD ''org'' ''rc9'' None ?w =
      (Inr (200, m), ?w\<lparr> sw_drawn := n, sw_db := (sw_db ?w)\<lparr> sd_pending := ps \<rparr> \<rparr>)"
    using shared_organisation_waits[of "''rc9''" ?w "''org''" "''b1''" "''m1''" "(''b2'', ''m1'')" "[]" sample_sync_env CONTACT_RECORD None] by auto
  then show ?thesis by (simp add: sample_sync_world_def)
qed

text \<open>A record is assigned by hand only from the queue of the own merchant, only while it waits for a brand, and only
  to a brand connected to the organisation it came from; any other assignment is refused before anything is read from
  Zoho or written.\<close>

theorem assigned_to_candidate:
  assumes "assignPendingRecord env sc pid b w = (r, w')"
  shows "(\<exists>p \<in> set (sd_pending (sw_db w)). pd_id p = pid \<and> pending_visible sc p \<and> pd_status p = ''PENDING'' \<and>
      pd_reason p = ''NEW_RECORD_MULTI_BRAND'' \<and> b \<in> fst ` set (candidate_brands (sw_db w) (pd_organizationId p))) \<or>
    (w' = w \<and> (\<exists>e. r = Inl e))"
proof (cases "find (\<lambda>p. pending_visible sc p \<and> pd_id p = pid) (sd_pending (sw_db w))")
  case None
  then show ?thesis using assms by (auto simp: assignPendingRecord_def ebind_def now_simps)
next
  case (Some p)
  then have p: "p \<in> set (sd_pending (sw_db w))" "pending_visible sc p" "pd_id p = pid" by (auto simp: find_Some_iff)
  show ?thesis
  proof (cases "pd_status p = ''PENDING'' \<and> pd_reason p = ''NEW_RECORD_MULTI_BRAND'' \<and>
      list_ex (\<lambda>(c, _). c = b) (candidate_brands (sw_db w) (pd_organizationId p))")
    case True
    then show ?thesis using p by (fastforce simp: list_ex_iff image_iff)
  next
    case False
    then show ?thesis using assms Some
      by (auto simp: assignPendingRecord_def ebind_def now_simps candidateBrands_def run_guard guard_def split: if_splits)
  qed
qed

theorem assigned_to_candidate_witness:
  "snd (assignPendingRecord sample_sync_env (RequestScope sample_scope1) ''q1'' ''b1'' (sample_sync_world [])) = sample_sync_world []"
  using assigned_to_candidate[OF surjective_pairing[of "assignPendingRecord sample_sync_env (RequestScope sample_scope1) ''q1'' ''b1'' (sample_sync_world [])"]]
  by (simp add: sample_sync_world_def sample_sync_db_def)

lemma endpoint_checks_token:
  assumes "webhook_endpoint we env stored k r w = (q, w')"
  shows "(\<exists>org. isValidZohoWebhookToken we org (first_some (wr_token r) (wr_headerToken r)) \<and>
    wr_organizationId r \<in> {Some org, None, Some []}) \<or> (w' = w \<and> (\<exists>s. q = Inl (BadRequestThrown s)))"
proof -
  let ?key = "case k of CONTACT_RECORD \<Rightarrow> ''contact'' | INVOICE_RECORD \<Rightarrow> ''invoice''"
  let ?payload = "normalizeBody we (wr_body r)"
  show ?thesis
  proof (cases "requireOrganizationId we (wr_organizationId r) ?payload ?key")
    case (Inl e)
    then have "\<exists>s. e = BadRequestThrown s" by (auto simp: requireOrganizationId_def Let_def split: if_splits)
    then show ?thesis using assms Inl by (auto simp: webhook_endpoint_def Let_def)
  next
    case (Inr org)
    then have o: "wr_organizationId r \<in> {Some org, None, Some []}"
      by (auto simp: requireOrganizationId_def Let_def present_def split: if_splits option.splits)
    show ?thesis
    proof (cases "isValidZohoWebhookToken we org (first_some (wr_token r) (wr_headerToken r))")
      case True
      then show ?thesis using o by blast
    next
      case False
      then show ?thesis using assms Inr by (auto simp: webhook_endpoint_def Let_def verify_def guard_def)
    qed
  qed
qed

text \<open>A webhook call without the token of the organisation it names is refused and changes nothing.\<close>

theorem webhook_needs_token:
  assumes "\<And>org. wr_organizationId r \<in> {Some org, None, Some []} \<Longrightarrow>
    \<not> isValidZohoWebhookToken we org (first_some (wr_token r) (wr_headerToken r))"
  shows "\<exists>s. webhook_endpoint we env stored k r w = (Inl (BadRequestThrown s), w)"
  using endpoint_checks_token[of we env stored k r w] assms by (cases "webhook_endpoint we env stored k r w") blast

theorem webhook_needs_token_witness:
  "\<exists>s. webhook_endpoint sample_webhooks sample_sync_env (\<lambda>_. None) CONTACT_RECORD (sample_hook None) (sample_sync_world []) =
    (Inl (BadRequestThrown s), sample_sync_world [])"
  by (rule webhook_needs_token) (simp add: sample_hook_def first_some_def isValidZohoWebhookToken_def present_def)

section \<open>What is sent for a payment\<close>

text \<open>A request worth sending: a customer and an invoice Zoho knows, and a positive amount in a supported currency.\<close>

definition sendable_payment :: "payment_payload \<Rightarrow> bool" where
  "sendable_payment p \<longleftrightarrow> pl_customer_id p \<noteq> [] \<and> pl_invoice_id p \<noteq> [] \<and> pl_amount_applied p = pl_amount p \<and>
     (\<exists>n c. 0 < n \<and> isSupportedCurrency (Some c) \<and> pl_amount p = minorToDecimal n c)"

definition answering_payments :: "(accounting_connection \<Rightarrow> payment_payload \<Rightarrow> ('z, request_failure, string) eff) \<Rightarrow> 'z sync_env \<Rightarrow> 'z sync_env" where
  "answering_payments f env = env\<lparr> se_zoho := \<lambda>con. (se_zoho env con)\<lparr> zh_postPayment := f con \<rparr> \<rparr>"

lemma answering_payments_same:
  "upsertCustomer (zo\<lparr> zh_postPayment := g \<rparr>) c = upsertCustomer zo c"
  "zoho_pushInvoice (zo\<lparr> zh_postPayment := g \<rparr>) iv = zoho_pushInvoice zo iv"
proof -
  obtain a1 a2 a3 a4 a5 a6 a7 a8 a9 a10 where zo: "zo = \<lparr> zh_postContact = a1, zh_putContact = a2, zh_postInvoice = a3, zh_putInvoice = a4,
      zh_postStatus = a5, zh_postPayment = a6, zh_getContact = a7, zh_getInvoice = a8, zh_listContacts = a9, zh_listInvoices = a10 \<rparr>"
    by (cases zo)
  show "upsertCustomer (zo\<lparr> zh_postPayment := g \<rparr>) c = upsertCustomer zo c"
    unfolding zo upsertCustomer_def getContact_def zoho.update_convs zoho.select_convs by (rule refl)
  show "zoho_pushInvoice (zo\<lparr> zh_postPayment := g \<rparr>) iv = zoho_pushInvoice zo iv"
    unfolding zo zoho_pushInvoice_def getInvoice_def voidInvoice_def markInvoiceSent_def invoice_version_def
      zoho.update_convs zoho.select_convs by (rule refl)
qed

lemma answering_payments_env:
  "se_zoho (answering_payments f env) con = (se_zoho env con)\<lparr> zh_postPayment := f con \<rparr>"
  "se_refresh (answering_payments f env) = se_refresh env"
  by (simp_all add: answering_payments_def)

lemma answering_payments_invoice: "pushInvoice (answering_payments f env) b iid = pushInvoice env b iid"
  unfolding pushInvoice_def push_invoice_work_def pushCustomer_def push_customer_work_def resolveConnection_def
    buildAccountingConnection_def answering_payments_env answering_payments_same by (rule refl)

lemma payment_dto_sendable:
  assumes "x \<noteq> []" "y \<noteq> []" "validatePaymentForSync (payment_dto p x y) = None"
  shows "sendable_payment (payment_payload_of (payment_dto p x y))"
proof -
  have p: "0 < p_amountMinor p" "isSupportedCurrency (Some (p_currency p))"
    using assms(3) by (auto simp: validatePaymentForSync_def payment_dto_def split: if_splits)
  have "\<exists>n c. 0 < n \<and> isSupportedCurrency (Some c) \<and> minorToDecimal (p_amountMinor p) (p_currency p) = minorToDecimal n c"
    by (rule exI[of _ "p_amountMinor p"], rule exI[of _ "p_currency p"]) (use p in simp)
  then show ?thesis using assms(1,2) by (simp add: sendable_payment_def payment_payload_of_def payment_dto_def Let_def)
qed

lemma refused: "ebind (refuse_unsynced m (Some reason)) f = ebind (in_scope m) (\<lambda>_. ethrow (Integration (integration_failure VALIDATION reason)))"
  by (rule ext) (simp add: refuse_unsynced_def ebind_def split: prod.splits sum.splits)

text \<open>Only valid payments are sent to Zoho: what Zoho would answer to a request without an invoice, a customer, a
  positive amount or a supported currency makes no difference to any push of a payment, because none is ever made.\<close>

theorem only_valid_payments_sent:
  assumes "\<And>con p. sendable_payment p \<Longrightarrow> f con p = zh_postPayment (se_zoho env con) p"
  shows "pushPayment (answering_payments f env) b pid = pushPayment env b pid"
proof -
  have sent: "zoho_pushPayment ((se_zoho env con)\<lparr> zh_postPayment := f con \<rparr>) (payment_dto p x y) =
      zoho_pushPayment (se_zoho env con) (payment_dto p x y)"
    if "x \<noteq> []" "y \<noteq> []" "validatePaymentForSync (payment_dto p x y) = None" for con p x y
    using assms[OF payment_dto_sendable[OF that]] by (simp add: zoho_pushPayment_def)
  have same: "send_payment ((se_zoho env con)\<lparr> zh_postPayment := f con \<rparr>) sc b refreshed invoice customer =
      send_payment (se_zoho env con) sc b refreshed invoice customer" for con sc refreshed invoice customer
  proof (cases "present (i_zohoInvoiceId invoice) \<and> present (c_zohoContactId customer)")
    case True
    let ?x = "the (i_zohoInvoiceId invoice)" and ?y = "the (c_zohoContactId customer)"
    have ids: "?x \<noteq> []" "?y \<noteq> []" using True by (auto simp: present_def split: option.splits)
    show ?thesis
    proof (cases "validatePaymentForSync (payment_dto refreshed ?x ?y)")
      case None
      show ?thesis unfolding send_payment_def Let_def sent[OF ids None] by (rule refl)
    next
      case (Some reason)
      show ?thesis unfolding send_payment_def Let_def Some refused by (rule refl)
    qed
  next
    case False
    then have "(present (i_zohoInvoiceId invoice) \<and> present (c_zohoContactId customer)) = False" by simp
    then show ?thesis unfolding send_payment_def by (simp only: guard_def if_False) (rule ext, simp)
  qed
  have "push_payment_work (answering_payments f env) (se_zoho (answering_payments f env) con) sc b pid =
      push_payment_work env (se_zoho env con) sc b pid" for con sc
    unfolding push_payment_work_def answering_payments_invoice answering_payments_env same by (rule refl)
  then show ?thesis
    unfolding pushPayment_def resolveConnection_def buildAccountingConnection_def answering_payments_env(2) by (simp only:)
qed

theorem only_valid_payments_sent_witness:
  "pushPayment (answering_payments (\<lambda>con p. if sendable_payment p then zh_postPayment (se_zoho sample_sync_env con) p
     else (\<lambda>z. (Inl (Unreachable ''refused''), z))) sample_sync_env) ''b1'' ''p1'' = pushPayment sample_sync_env ''b1'' ''p1''"
  by (rule only_valid_payments_sent) simp

end
