(* ===== verification/Calendar.thy ===== *)
theory Calendar
  imports JsString
begin

text \<open>
  The UTC calendar of \<open>Date\<close>: a time is a count of milliseconds, years and months are the proleptic Gregorian ones. The
  range of \<open>Date\<close> (a hundred million days either way) is not checked. The lemmas: a month is a non-empty interval, months
  follow one another, and every time lies in the month its year and month name.
\<close>

definition DAY_MS :: int where
  "DAY_MS = 24 * 60 * 60 * 1000"

definition leap :: "int \<Rightarrow> bool" where
  "leap y \<longleftrightarrow> y mod 4 = 0 \<and> (y mod 100 \<noteq> 0 \<or> y mod 400 = 0)"

definition day_from_year :: "int \<Rightarrow> int" where
  "day_from_year y = 365 * (y - 1970) + (y - 1969) div 4 - (y - 1901) div 100 + (y - 1601) div 400"

definition month_table :: "int \<Rightarrow> int list" where
  "month_table y = (if leap y then [0, 31, 60, 91, 121, 152, 182, 213, 244, 274, 305, 335]
     else [0, 31, 59, 90, 120, 151, 181, 212, 243, 273, 304, 334])"

definition month_offset :: "int \<Rightarrow> int \<Rightarrow> int" where
  "month_offset y m = month_table y ! nat m"

text \<open>\<open>Date.UTC(year, month, 1)\<close>: a year below 100 is one of the 1900s, a month outside 0 to 11 moves the year.\<close>

definition utc_month_start :: "int \<Rightarrow> int \<Rightarrow> int" where
  "utc_month_start year month = (let y = (if 0 \<le> year \<and> year \<le> 99 then 1900 + year else year) + month div 12; m = month mod 12
     in (day_from_year y + month_offset y m) * DAY_MS)"

definition utc_day :: "int \<Rightarrow> int" where
  "utc_day t = t div DAY_MS"

text \<open>\<open>getUTCFullYear\<close>: the year whose first day is the last one not after the day; the quotient is at most two years off.\<close>

definition utc_year :: "int \<Rightarrow> int" where
  "utc_year t = (let d = utc_day t; y = 1971 + (400 * d) div 146097
     in if day_from_year y \<le> d then y else if day_from_year (y - 1) \<le> d then y - 1 else y - 2)"

definition utc_month :: "int \<Rightarrow> int" where
  "utc_month t = (let y = utc_year t; d = utc_day t - day_from_year y
     in int (length (filter (\<lambda>first. first \<le> d) (month_table y))) - 1)"

lemma div_Suc: "0 < k \<Longrightarrow> (n + 1) div k = n div k + (if k dvd n + 1 then 1 else 0)" for k n :: int
proof -
  assume k: "0 < k"
  have m: "0 \<le> n mod k" "n mod k < k" using k by simp_all
  have n: "n + 1 = k * (n div k) + (n mod k + 1)" by simp
  have "(k * (n div k) + (n mod k + 1)) div k = n div k + (n mod k + 1) div k" by (rule div_mult_self4) (use k in simp)
  then have *: "(n + 1) div k = n div k + (n mod k + 1) div k" by (simp only: n[symmetric])
  have **: "k dvd n + 1 \<longleftrightarrow> k dvd n mod k + 1"
    by (subst n) (rule dvd_add_right_iff, simp)
  show ?thesis
  proof (cases "n mod k + 1 = k")
    case True
    then show ?thesis unfolding * ** using k by simp
  next
    case False
    then have s: "n mod k + 1 < k" "0 < n mod k + 1" using m by simp_all
    have "(n mod k + 1) div k = 0" using s by (intro div_pos_pos_trivial) simp_all
    moreover have "\<not> k dvd n mod k + 1" using s by (rule zdvd_not_zless[rotated])
    ultimately show ?thesis unfolding * ** by simp
  qed
qed

lemma div_step: "0 < k \<Longrightarrow> n + 1 = n' \<Longrightarrow> (k dvd n' \<longleftrightarrow> P) \<Longrightarrow> n' div k = n div k + (if P then 1 else 0)" for k n :: int
  using div_Suc[of k n] by simp

lemma dvd_shift: "k dvd c \<Longrightarrow> k dvd y - c \<longleftrightarrow> y mod k = 0" for k c y :: int
  by (metis diff_add_cancel dvd_add_left_iff mod_eq_0_iff_dvd)

lemma arrange: "365 * (y + 1 - 1970) + (a + p) - (b + q) + (c + r) = 365 * (y - 1970) + a - b + c + 365 + p - q + r" for y :: int
  by simp

lemma leap_sum: "n' = n + 365 + (if P then 1 else 0) - (if Q then 1 else 0) + (if R then 1 else 0) \<Longrightarrow>
    (R \<Longrightarrow> Q) \<Longrightarrow> (Q \<Longrightarrow> P) \<Longrightarrow> n' = n + (if P \<and> (\<not> Q \<or> R) then 366 else 365)" for n :: int
  by (cases P; cases Q; cases R) simp_all

lemma day_from_year_Suc: "day_from_year (y + 1) = day_from_year y + (if leap y then 366 else 365)"
proof -
  have a: "4 dvd y - 1968 \<longleftrightarrow> y mod 4 = 0" "100 dvd y - 1900 \<longleftrightarrow> y mod 100 = 0" "400 dvd y - 1600 \<longleftrightarrow> y mod 400 = 0"
    by (rule dvd_shift, simp)+
  have b: "y mod 400 = 0 \<Longrightarrow> y mod 100 = 0" "y mod 100 = 0 \<Longrightarrow> y mod 4 = 0"
    using dvd_trans[of 100 400 y] dvd_trans[of 4 100 y] by (simp_all add: mod_eq_0_iff_dvd)
  have c: "y - 1969 + 1 = y - 1968" "y - 1901 + 1 = y - 1900" "y - 1601 + 1 = y - 1600"
    "y + 1 - 1969 = y - 1968" "y + 1 - 1901 = y - 1900" "y + 1 - 1601 = y - 1600" by simp_all
  have d: "(y - 1968) div 4 = (y - 1969) div 4 + (if y mod 4 = 0 then 1 else 0)"
    "(y - 1900) div 100 = (y - 1901) div 100 + (if y mod 100 = 0 then 1 else 0)"
    "(y - 1600) div 400 = (y - 1601) div 400 + (if y mod 400 = 0 then 1 else 0)"
    by (rule div_step[OF _ c(1) a(1)] div_step[OF _ c(2) a(2)] div_step[OF _ c(3) a(3)], simp)+
  have "day_from_year (y + 1) = day_from_year y + 365 +
      (if y mod 4 = 0 then 1 else 0) - (if y mod 100 = 0 then 1 else 0) + (if y mod 400 = 0 then 1 else 0)"
    unfolding day_from_year_def c d by (rule arrange)
  then show ?thesis unfolding leap_def by (rule leap_sum[OF _ b])
qed

lemma div_bounds: "0 < k \<Longrightarrow> k * (n div k) \<le> n \<and> n < k * (n div k) + k" for k n :: int
  by (metis add_strict_left_mono mult_div_mod_eq pos_mod_bound le_add_same_cancel1 pos_mod_sign)

lemma utc_year_bounds: "day_from_year (utc_year t) \<le> utc_day t \<and> utc_day t < day_from_year (utc_year t + 1)"
proof -
  let ?d = "utc_day t"
  let ?q = "(400 * ?d) div 146097"
  have q: "146097 * ?q \<le> 400 * ?d \<and> 400 * ?d < 146097 * ?q + 146097" by (rule div_bounds) simp
  have est: "400 * day_from_year y \<le> 146097 * (y - 1970) + 1200 \<and> 146097 * (y - 1970) - 1200 \<le> 400 * day_from_year y" for y
  proof -
    define a b c where "a = (y - 1969) div 4" and "b = (y - 1901) div 100" and "c = (y - 1601) div 400"
    have "4 * a \<le> y - 1969 \<and> y - 1969 < 4 * a + 4" "100 * b \<le> y - 1901 \<and> y - 1901 < 100 * b + 100"
      "400 * c \<le> y - 1601 \<and> y - 1601 < 400 * c + 400"
      unfolding a_def b_def c_def by (rule div_bounds, simp)+
    then show ?thesis unfolding day_from_year_def a_def[symmetric] b_def[symmetric] c_def[symmetric] by (simp add: algebra_simps)
  qed
  have hi: "?d < day_from_year (1971 + ?q + 1)" using est[of "1971 + ?q + 1"] q by (simp add: algebra_simps)
  have lo: "day_from_year (1971 + ?q - 2) \<le> ?d" using est[of "1971 + ?q - 2"] q by (simp add: algebra_simps)
  show ?thesis using hi lo unfolding utc_year_def Let_def by auto
qed

text \<open>The months in one row: the one of year \<open>y\<close> and month \<open>m\<close> is number \<open>12 * y + m\<close>.\<close>

definition month_day :: "int \<Rightarrow> int" where
  "month_day k = day_from_year (k div 12) + month_offset (k div 12) (k mod 12)"

definition utc_month_number :: "int \<Rightarrow> int" where
  "utc_month_number t = 12 * utc_year t + utc_month t"

lemma upto_11: "0 \<le> m \<Longrightarrow> m < 12 \<Longrightarrow> m \<in> {0, 1, 2, 3, 4, 5, 6, 7, 8, 9, 10, 11}" for m :: nat
  by (simp only: insert_iff empty_iff) arith

lemma month_table_facts:
  "length (month_table y) = 12" "sorted_wrt (<) (month_table y)" "month_table y ! 0 = 0" "month_table y ! 11 < 365"
  by (simp_all add: month_table_def)

lemma month_offset_Suc: "0 \<le> m \<Longrightarrow> m < 11 \<Longrightarrow> month_offset y m < month_offset y (m + 1)"
  unfolding month_offset_def
  by (rule sorted_wrt_nth_less[OF month_table_facts(2)]) (simp_all add: month_table_facts(1) nat_less_iff)

lemma month_day_at: "\<lbrakk>0 \<le> m; m < 12\<rbrakk> \<Longrightarrow> month_day (12 * y + m) = day_from_year y + month_offset y m"
  by (simp add: month_day_def)

lemma month_day_year: "month_day (12 * y + 12) = day_from_year y + (if leap y then 366 else 365)"
proof -
  have "12 * (y + 1) + 0 = 12 * y + 12" by simp
  then show ?thesis
    using month_day_at[of 0 "y + 1"] month_table_facts(3)[of "y + 1"] by (simp add: day_from_year_Suc month_offset_def)
qed

lemma month_day_Suc: "month_day k < month_day (k + 1)"
proof -
  obtain y m where k: "k = 12 * y + m" and m: "0 \<le> m" "m < 12"
    by (metis mult_div_mod_eq pos_mod_bound pos_mod_sign zero_less_numeral)
  show ?thesis
  proof (cases "m = 11")
    case True
    have e: "12 * y + 11 + 1 = 12 * y + 12" by simp
    have "month_offset y 11 < 365" using month_table_facts(4) by (simp add: month_offset_def)
    then show ?thesis unfolding k True e month_day_year by (simp add: month_day_at)
  next
    case False
    then have "m < 11" using m by simp
    then show ?thesis using m month_offset_Suc[of m y] unfolding k by (simp add: month_day_at add.assoc)
  qed
qed

lemma month_day_less: "j < k \<Longrightarrow> month_day j < month_day k"
  by (induction rule: int_gr_induct) (auto intro: month_day_Suc less_trans)

lemma month_day_le: "j \<le> k \<Longrightarrow> month_day j \<le> month_day k"
  using month_day_less[of j k] by (cases "j = k") auto

lemma count_sorted:
  "\<lbrakk>sorted_wrt (<) xs; n = length (filter (\<lambda>x. x \<le> d) xs)\<rbrakk> \<Longrightarrow>
     (\<forall>i < n. xs ! i \<le> d) \<and> (n < length xs \<longrightarrow> d < xs ! n)" for d :: int
proof (induction xs arbitrary: n)
  case (Cons x xs)
  show ?case
  proof (cases "x \<le> d")
    case True
    then obtain m where "n = Suc m" "m = length (filter (\<lambda>x. x \<le> d) xs)" using Cons.prems(2) by simp
    then show ?thesis using Cons.IH[of m] Cons.prems(1) True by (auto simp: nth_Cons split: nat.splits)
  next
    case False
    then have "filter (\<lambda>x. x \<le> d) xs = []" using Cons.prems(1) by (auto simp: filter_empty_conv)
    then show ?thesis using Cons.prems(2) False by simp
  qed
qed simp

lemma utc_month_number_bounds: "month_day (utc_month_number t) \<le> utc_day t \<and> utc_day t < month_day (utc_month_number t + 1)"
proof -
  define y d where "y = utc_year t" and "d = utc_day t - day_from_year y"
  define n where "n = length (filter (\<lambda>first. first \<le> d) (month_table y))"
  have d: "0 \<le> d" "d < (if leap y then 366 else 365)"
    using utc_year_bounds[of t] unfolding d_def y_def day_from_year_Suc by (simp_all split: if_splits)
  note c = count_sorted[OF month_table_facts(2) n_def]
  have n0: "0 < n" using c month_table_facts(1,3)[of y] d(1) by (cases "n = 0") auto
  have n12: "n \<le> 12" unfolding n_def using length_filter_le month_table_facts(1) by metis
  have num: "utc_month_number t = 12 * y + (int n - 1)"
    unfolding utc_month_number_def utc_month_def Let_def y_def[symmetric] d_def[symmetric] n_def[symmetric] by simp
  have "month_day (utc_month_number t) = day_from_year y + month_table y ! (n - 1)"
    unfolding num month_day_def month_offset_def using n0 n12 by (simp add: nat_diff_distrib')
  moreover have "month_table y ! (n - 1) \<le> d" using c n0 by simp
  moreover have "d < month_day (utc_month_number t + 1) - day_from_year y"
  proof (cases "n = 12")
    case True
    have e: "12 * y + (int 12 - 1) + 1 = 12 * y + 12" by simp
    show ?thesis using d(2) unfolding num True e month_day_year by simp
  next
    case False
    then have "d < month_table y ! n" using c n12 month_table_facts(1) by simp
    then show ?thesis unfolding num month_day_def month_offset_def using n12 False by simp
  qed
  ultimately show ?thesis unfolding d_def by simp
qed



lemma month_number_unique: "\<lbrakk>month_day j \<le> d; d < month_day (j + 1); month_day k \<le> d; d < month_day (k + 1)\<rbrakk> \<Longrightarrow> j = k"
  using month_day_le[of "j + 1" k] month_day_le[of "k + 1" j] by linarith

lemma utc_month_number_start: "utc_month_number (month_day k * DAY_MS) = k"
proof (rule month_number_unique)
  have d: "utc_day (month_day k * DAY_MS) = month_day k" by (simp add: utc_day_def DAY_MS_def)
  show "month_day (utc_month_number (month_day k * DAY_MS)) \<le> month_day k"
    "month_day k < month_day (utc_month_number (month_day k * DAY_MS) + 1)"
    using utc_month_number_bounds[of "month_day k * DAY_MS"] unfolding d by simp_all
qed (simp_all add: month_day_Suc)

lemma month_contains: "month_day (utc_month_number t) * DAY_MS \<le> t \<and> t < month_day (utc_month_number t + 1) * DAY_MS"
proof -
  have "utc_day t * DAY_MS \<le> t \<and> t < (utc_day t + 1) * DAY_MS"
    using div_bounds[of DAY_MS t] by (simp add: utc_day_def DAY_MS_def algebra_simps)
  moreover have "month_day (utc_month_number t) * DAY_MS \<le> utc_day t * DAY_MS"
    "(utc_day t + 1) * DAY_MS \<le> month_day (utc_month_number t + 1) * DAY_MS"
    using utc_month_number_bounds[of t] by (simp_all add: DAY_MS_def)
  ultimately show ?thesis by linarith
qed

lemma utc_month_range: "0 \<le> utc_month t \<and> utc_month t < 12"
proof -
  have "filter (\<lambda>first. first \<le> utc_day t - day_from_year (utc_year t)) (month_table (utc_year t)) \<noteq> []"
    using utc_year_bounds[of t] by (auto simp: month_table_def)
  moreover have "length (filter (\<lambda>first. first \<le> utc_day t - day_from_year (utc_year t)) (month_table (utc_year t))) \<le> 12"
    using length_filter_le month_table_facts(1) by metis
  ultimately show ?thesis unfolding utc_month_def Let_def by (cases "filter (\<lambda>first. first \<le> utc_day t - day_from_year (utc_year t)) (month_table (utc_year t))") auto
qed

lemma month_number_parts: "utc_month_number t div 12 = utc_year t" "utc_month_number t mod 12 = utc_month t"
  using utc_month_range[of t] by (simp_all add: utc_month_number_def)

lemma utc_year_modern: "0 \<le> t \<Longrightarrow> 1970 \<le> utc_year t"
proof (rule ccontr)
  assume t: "0 \<le> t" and "\<not> 1970 \<le> utc_year t"
  then have "utc_month_number t + 1 \<le> 23640" using utc_month_range[of t] by (simp add: utc_month_number_def)
  then have "month_day (utc_month_number t + 1) \<le> month_day 23640" by (rule month_day_le)
  moreover have "month_day 23640 = 0" by (simp add: month_day_def day_from_year_def month_offset_def month_table_def)
  ultimately have "month_day (utc_month_number t + 1) * DAY_MS \<le> 0" by (simp add: DAY_MS_def)
  then show False using month_contains[of t] t by linarith
qed

lemma utc_month_start_number: "100 \<le> year \<Longrightarrow> utc_month_start year month = month_day (12 * year + month) * DAY_MS"
  by (simp add: utc_month_start_def month_day_def Let_def)

lemma month_start_less: "j < k \<Longrightarrow> month_day j * DAY_MS < month_day k * DAY_MS"
  using month_day_less[of j k] by (simp add: DAY_MS_def)

lemma month_start_le: "j \<le> k \<Longrightarrow> month_day j * DAY_MS \<le> month_day k * DAY_MS"
  using month_day_le[of j k] by (simp add: DAY_MS_def)

end
