(* ===== verification/Dashboard.thy ===== *)
theory Dashboard
  imports JsDecimal SyncStore Invoices "HOL-Library.AList" Calendar
begin

text \<open>
  The dashboard (\<open>apps/api/src/dashboard/dashboard.service.ts\<close>): read-only reports over the rows a scope can see, and the
  retry of a sync job. The reports are functions of the clock and of the tables; the queries are filters under the
  row-level-security predicate, a grouping lists its groups in the order of their first rows (the code does not depend
  on that order except for ties). Sums the database computes are exact and rounded when they become numbers; sums the
  code computes add doubles.
\<close>

section \<open>Rows\<close>

record dash_brand = brand_row +
  b_currency :: string
  b_themeColor :: string
  b_createdAt :: int

record dash_customer = customer_row +
  dc_active :: bool
  dc_createdAt :: int
  dc_updatedAt :: int

datatype sync_status = SYNC_QUEUED | SYNC_RUNNING | SYNC_SUCCEEDED | SYNC_SKIPPED | SYNC_FAILED | SYNC_DEAD_LETTERED

record dash_job =
  dj_id :: string
  dj_brandId :: string
  dj_direction :: direction
  dj_objectType :: string
  dj_objectId :: "string option"
  dj_status :: sync_status
  dj_errorClass :: "error_class option"
  dj_updatedAt :: int

datatype connection_status = DISCONNECTED | CONNECTED | UNHEALTHY | REVOKED

record dash_connection =
  dn_brandId :: string
  dn_status :: connection_status
  dn_lastSyncAt :: "int option"

record dash_db =
  dd_brands :: "dash_brand list"
  dd_customers :: "dash_customer list"
  dd_invoices :: "invoice_row list"
  dd_payments :: "payment_row list"
  dd_events :: "event_row list"
  dd_jobs :: "dash_job list"
  dd_connections :: "dash_connection list"

definition dash_sees :: "scope \<Rightarrow> dash_db \<Rightarrow> string \<Rightarrow> bool" where
  "dash_sees sc d b = visible_to (\<lambda>x. map_option b_merchantId (find (\<lambda>r. b_id r = x) (dd_brands d))) sc b"

text \<open>\<open>...(brandId ? { brandId } : {})\<close>.\<close>

definition for_brand :: "string option \<Rightarrow> string \<Rightarrow> bool" where
  "for_brand brandId b = (case brandId of None \<Rightarrow> True | Some x \<Rightarrow> x = [] \<or> b = x)"

definition one_brand :: "string option \<Rightarrow> bool" where
  "one_brand brandId = (case brandId of None \<Rightarrow> False | Some x \<Rightarrow> x \<noteq> [])"

definition dash_invoices :: "scope \<Rightarrow> string option \<Rightarrow> dash_db \<Rightarrow> invoice_row list" where
  "dash_invoices sc brandId d = filter (\<lambda>r. dash_sees sc d (i_brandId r) \<and> for_brand brandId (i_brandId r)) (dd_invoices d)"

definition dash_payments :: "scope \<Rightarrow> string option \<Rightarrow> dash_db \<Rightarrow> payment_row list" where
  "dash_payments sc brandId d = filter (\<lambda>r. dash_sees sc d (p_brandId r) \<and> for_brand brandId (p_brandId r)) (dd_payments d)"

definition dash_customers :: "scope \<Rightarrow> string option \<Rightarrow> dash_db \<Rightarrow> dash_customer list" where
  "dash_customers sc brandId d = filter (\<lambda>r. dash_sees sc d (c_brandId r) \<and> for_brand brandId (c_brandId r)) (dd_customers d)"

definition dash_brands :: "scope \<Rightarrow> dash_db \<Rightarrow> dash_brand list" where
  "dash_brands sc d = filter (\<lambda>r. dash_sees sc d (b_id r)) (dd_brands d)"

text \<open>The required relations of a row already read.\<close>

definition dash_brand_of :: "scope \<Rightarrow> dash_db \<Rightarrow> string \<Rightarrow> (service_error, dash_brand) result" where
  "dash_brand_of sc d b = require (find (\<lambda>r. b_id r = b) (dash_brands sc d)) (MissingRelation ''brand'')"

definition dash_customer_of :: "scope \<Rightarrow> dash_db \<Rightarrow> string \<Rightarrow> (service_error, dash_customer) result" where
  "dash_customer_of sc d c = require (find (\<lambda>r. c_id r = c) (dash_customers sc None d)) (MissingRelation ''customer'')"

section \<open>Grouping and sums\<close>

fun add_to_group :: "'k \<Rightarrow> 'r \<Rightarrow> ('k \<times> 'r list) list \<Rightarrow> ('k \<times> 'r list) list" where
  "add_to_group k r [] = [(k, [r])]"
| "add_to_group k r ((k', rs) # gs) = (if k' = k then (k', rs @ [r]) # gs else (k', rs) # add_to_group k r gs)"

definition group_by :: "('r \<Rightarrow> 'k) \<Rightarrow> 'r list \<Rightarrow> ('k \<times> 'r list) list" where
  "group_by f rows = foldl (\<lambda>gs r. add_to_group (f r) r gs) [] rows"

text \<open>\<open>Number(row._sum.x ?? 0n)\<close> of a group, and of the group of a key that may not be there.\<close>

definition group_sum :: "('r \<Rightarrow> int) \<Rightarrow> 'r list \<Rightarrow> int" where
  "group_sum amount rows = round_double (sum_list (map amount rows))"

definition sum_of_key :: "('r \<Rightarrow> int) \<Rightarrow> ('k \<times> 'r list) list \<Rightarrow> 'k \<Rightarrow> int" where
  "sum_of_key amount gs k = (case map_of gs k of None \<Rightarrow> 0 | Some rs \<Rightarrow> group_sum amount rs)"

text \<open>\<open>reduce((sum, r) => sum + Number(x), 0)\<close>.\<close>

definition js_total :: "int list \<Rightarrow> int" where
  "js_total xs = foldl (\<lambda>s x. int_add s (round_double x)) 0 xs"

definition js_ratio :: "int \<Rightarrow> int \<Rightarrow> rat" where
  "js_ratio part whole = (if 0 < whole then js_divide (of_int part) (of_int whole) else 0)"

section \<open>Months\<close>

record date_range =
  dr_start :: int
  dr_end :: int

record month_bounds = date_range +
  mb_key :: string
  mb_label :: string

definition month_labels :: "string list" where
  "month_labels = [''Jan'', ''Feb'', ''Mar'', ''Apr'', ''May'', ''Jun'', ''Jul'', ''Aug'', ''Sep'', ''Oct'', ''Nov'', ''Dec'']"

definition monthBounds :: "int \<Rightarrow> int \<Rightarrow> month_bounds" where
  "monthBounds now monthsAgo =
     (let year = utc_year now; month = utc_month now - monthsAgo;
          start = utc_month_start year month; finish = utc_month_start year (month + 1)
      in \<lparr> dr_start = start, dr_end = finish,
           mb_key = show_int (utc_year start) @ ''-'' @ pad_start 2 (CHR ''0'') (show_int (utc_month start + 1)),
           mb_label = month_labels ! nat (utc_month start) \<rparr>)"

definition daysBetween :: "int \<Rightarrow> int \<Rightarrow> int" where
  "daysBetween earlier later = max 0 ((later - earlier) div DAY_MS)"

definition in_range :: "int \<Rightarrow> int \<Rightarrow> int option \<Rightarrow> bool" where
  "in_range start finish x = (case x of None \<Rightarrow> False | Some t \<Rightarrow> start \<le> t \<and> t < finish)"

definition range_bounds :: "int \<Rightarrow> date_range option \<Rightarrow> int \<times> int" where
  "range_bounds now r = (case r of Some x \<Rightarrow> (dr_start x, dr_end x)
     | None \<Rightarrow> (dr_start (monthBounds now 0), dr_end (monthBounds now 0)))"

text \<open>\<open>dashboard.controller.ts\<close>: both ends or none.\<close>

definition rangeFrom :: "int option \<Rightarrow> int option \<Rightarrow> date_range option" where
  "rangeFrom from_q to_q = (case (from_q, to_q) of (Some s, Some e) \<Rightarrow> Some \<lparr> dr_start = s, dr_end = e \<rparr> | _ \<Rightarrow> None)"

section \<open>The headline figures\<close>

record dash_summary =
  dm_currency :: currency
  dm_invoicedMinor :: int
  dm_collectedMinor :: int
  dm_collectionRate :: rat
  dm_overdueMinor :: int
  dm_otherCurrencyBrandCount :: nat

definition invoiced_in :: "int \<times> int \<Rightarrow> invoice_row \<Rightarrow> bool" where
  "invoiced_in rng r \<longleftrightarrow> in_range (fst rng) (snd rng) (i_issuedAt r) \<and> i_status r \<noteq> CANCELLED"

definition collected_in :: "int \<times> int \<Rightarrow> payment_row \<Rightarrow> bool" where
  "collected_in rng r \<longleftrightarrow> p_status r = SETTLED \<and> in_range (fst rng) (snd rng) (p_settledAt r)"

definition dominant_currency :: "string \<Rightarrow> (string \<times> invoice_row list) list \<Rightarrow> string" where
  "dominant_currency first gs = fst (foldl (\<lambda>(dominant, dominantTotal) (cur, rs).
       let total = group_sum i_totalMinor rs in if dominantTotal < total then (cur, total) else (dominant, dominantTotal)) (first, - 1) gs)"

definition getSummary :: "scope \<Rightarrow> int \<Rightarrow> dash_db \<Rightarrow> string option \<Rightarrow> date_range option \<Rightarrow> dash_summary" where
  "getSummary sc now d brandId r =
     (let rng = range_bounds now r;
          invoicedBy = group_by i_currency (filter (invoiced_in rng) (dash_invoices sc brandId d));
          collectedBy = group_by p_currency (filter (collected_in rng) (dash_payments sc brandId d));
          overdueBy = group_by i_currency (filter i_overdue (dash_invoices sc brandId d))
      in case map fst invoicedBy @ map fst collectedBy @ map fst overdueBy of
           [] \<Rightarrow> \<lparr> dm_currency = USD, dm_invoicedMinor = 0, dm_collectedMinor = 0, dm_collectionRate = 0,
                   dm_overdueMinor = 0, dm_otherCurrencyBrandCount = 0 \<rparr>
         | first # _ \<Rightarrow>
             let dominant = dominant_currency first invoicedBy;
                 invoiced = sum_of_key i_totalMinor invoicedBy dominant;
                 collected = sum_of_key p_amountMinor collectedBy dominant
             in \<lparr> dm_currency = toCurrencyCode (Some dominant) USD, dm_invoicedMinor = invoiced, dm_collectedMinor = collected,
                  dm_collectionRate = js_ratio collected invoiced,
                  dm_overdueMinor = sum_of_key i_balanceMinor overdueBy dominant,
                  dm_otherCurrencyBrandCount = (if one_brand brandId then 0
                    else length (filter (\<lambda>b. b_currency b \<noteq> dominant) (dash_brands sc d))) \<rparr>)"

section \<open>Six months\<close>

record trend_point =
  tp_month :: string
  tp_label :: string
  tp_invoicedMinor :: int
  tp_collectedMinor :: int
  tp_collectionRate :: rat

definition trend_months :: "int \<Rightarrow> month_bounds list" where
  "trend_months now = map (\<lambda>i. monthBounds now (5 - i)) [0, 1, 2, 3, 4, 5]"

definition since :: "int \<Rightarrow> int option \<Rightarrow> bool" where
  "since earliest x = (case x of None \<Rightarrow> False | Some t \<Rightarrow> earliest \<le> t)"

definition getTrend :: "scope \<Rightarrow> int \<Rightarrow> dash_db \<Rightarrow> string option \<Rightarrow> trend_point list" where
  "getTrend sc now d brandId =
     (let months = trend_months now; earliest = dr_start (hd months);
          invoiceRows = filter (\<lambda>r. since earliest (i_issuedAt r) \<and> i_status r \<noteq> CANCELLED) (dash_invoices sc brandId d);
          paymentRows = filter (\<lambda>r. p_status r = SETTLED \<and> since earliest (p_settledAt r)) (dash_payments sc brandId d)
      in map (\<lambda>m.
           let invoiced = js_total (map i_totalMinor (filter (\<lambda>r. in_range (dr_start m) (dr_end m) (i_issuedAt r)) invoiceRows));
               collected = js_total (map p_amountMinor (filter (\<lambda>r. in_range (dr_start m) (dr_end m) (p_settledAt r)) paymentRows))
           in \<lparr> tp_month = mb_key m, tp_label = mb_label m, tp_invoicedMinor = invoiced, tp_collectedMinor = collected,
                tp_collectionRate = js_ratio collected invoiced \<rparr>) months)"

section \<open>Status breakdown\<close>

datatype status_bucket = PaidBucket | UnpaidBucket | OverdueBucket | PartiallyPaidBucket | DraftBucket

definition status_bucket_order :: "status_bucket list" where
  "status_bucket_order = [PaidBucket, UnpaidBucket, OverdueBucket, PartiallyPaidBucket, DraftBucket]"

definition bucketFor :: "invoice_status \<Rightarrow> bool \<Rightarrow> status_bucket option" where
  "bucketFor status overdue =
     (if status = CANCELLED then None else if overdue then Some OverdueBucket else if status = DRAFT then Some DraftBucket
      else if status = PAID then Some PaidBucket else if status = PARTIALLY_PAID then Some PartiallyPaidBucket
      else Some UnpaidBucket)"

record bucket_share =
  bs_bucket :: status_bucket
  bs_amountMinor :: int
  bs_percent :: rat

definition bucket_totals :: "((invoice_status \<times> bool) \<times> invoice_row list) list \<Rightarrow> (status_bucket \<times> int) list" where
  "bucket_totals gs = foldl (\<lambda>totals ((status, overdue), rs). case bucketFor status overdue of
       None \<Rightarrow> totals
     | Some b \<Rightarrow> AList.update b (int_add (case map_of totals b of None \<Rightarrow> 0 | Some x \<Rightarrow> x) (group_sum i_totalMinor rs)) totals) [] gs"

definition getStatusBreakdown :: "scope \<Rightarrow> dash_db \<Rightarrow> string option \<Rightarrow> bucket_share list" where
  "getStatusBreakdown sc d brandId =
     (let totals = bucket_totals (group_by (\<lambda>r. (i_status r, i_overdue r))
            (filter (\<lambda>r. i_status r \<noteq> CANCELLED) (dash_invoices sc brandId d)));
          grandTotal = foldl int_add 0 (map snd totals)
      in map (\<lambda>b. let amount = the (map_of totals b)
                   in \<lparr> bs_bucket = b, bs_amountMinor = amount, bs_percent = js_ratio amount grandTotal \<rparr>)
           (filter (\<lambda>b. map_of totals b \<noteq> None) status_bucket_order))"

end
