(* ===== verification/BusinessDetails.thy ===== *)
theory BusinessDetails
  imports Tenancy
begin

text \<open>
  The checks of company and address details (\<open>packages/shared/src/domain\<close>: \<open>us-phone.ts\<close>, \<open>us-postal-code.ts\<close>,
  \<open>company-domain.ts\<close>, \<open>business-type.ts\<close>, \<open>countries.ts\<close>, \<open>regions.ts\<close>, and the refinements of \<open>schemas/entities.ts\<close>
  and \<open>schemas/common.ts\<close> that are functions of the repository). A regular expression is an executable matcher; upper
  and lower case are those of \<open>js_lower\<close> and the letters A to Z.
\<close>

section \<open>Phones and postal codes\<close>

definition phone_char :: "char \<Rightarrow> bool" where
  "phone_char c \<longleftrightarrow> is_digit c \<or> is_space c \<or> c \<in> set ''().-''"

text \<open>\<open>^\+?[\d\s().-]+$\<close>.\<close>

definition phone_chars_ok :: "string \<Rightarrow> bool" where
  "phone_chars_ok s = (let t = (case s of c # r \<Rightarrow> if c = CHR ''+'' then r else s | [] \<Rightarrow> s) in t \<noteq> [] \<and> list_all phone_char t)"

text \<open>\<open>^[2-9]\d{2}[2-9]\d{6}$\<close>.\<close>

definition nanp :: "string \<Rightarrow> bool" where
  "nanp s \<longleftrightarrow> length s = 10 \<and> list_all is_digit s \<and> 2 \<le> digit_val (s ! 0) \<and> 2 \<le> digit_val (s ! 3)"

definition normalizeUsPhone :: "string \<Rightarrow> string option" where
  "normalizeUsPhone input =
     (let trimmed = js_trim input; digits = filter is_digit trimmed;
          national = (if take 1 trimmed = ''+''
             then (if length digits \<noteq> 11 \<or> take 1 digits \<noteq> ''1'' then None else Some (drop 1 digits))
             else if length digits = 11 then (if take 1 digits \<noteq> ''1'' then None else Some (drop 1 digits))
             else if length digits = 10 then Some digits else None)
      in if trimmed = [] \<or> \<not> phone_chars_ok trimmed then None
         else case national of None \<Rightarrow> None | Some n \<Rightarrow> if nanp n then Some (''+1'' @ n) else None)"

definition isValidUsPhone :: "string \<Rightarrow> bool" where
  "isValidUsPhone input \<longleftrightarrow> normalizeUsPhone input \<noteq> None"

definition isValidUsZip :: "string \<Rightarrow> bool" where
  "isValidUsZip value = (let v = js_trim value in
     length v \<in> {5, 10} \<and> list_all is_digit (take 5 v) \<and>
     (length v = 10 \<longrightarrow> v ! 5 = CHR ''-'' \<and> list_all is_digit (drop 6 v)))"

section \<open>Tax numbers and business types\<close>

definition isValidEin :: "string \<Rightarrow> bool" where
  "isValidEin s \<longleftrightarrow> length s = 10 \<and> list_all is_digit (take 2 s) \<and> s ! 2 = CHR ''-'' \<and> list_all is_digit (drop 3 s)"

definition taxIdMatchesCountry :: "string option option \<Rightarrow> string option \<Rightarrow> bool" where
  "taxIdMatchesCountry address_country taxId \<longleftrightarrow>
     address_country \<noteq> Some (Some ''US'') \<or> taxId = None \<or> taxId = Some [] \<or> isValidEin (the taxId)"

text \<open>The refinement of \<open>addressSchema\<close>.\<close>

definition zip_matches_country :: "string option \<Rightarrow> string option \<Rightarrow> bool" where
  "zip_matches_country country postalCode \<longleftrightarrow>
     country \<noteq> Some ''US'' \<or> postalCode = None \<or> postalCode = Some [] \<or> isValidUsZip (the postalCode)"

definition business_types :: "string list" where
  "business_types = [''SOLE_PROPRIETORSHIP'', ''LLC'', ''CORPORATION'', ''PARTNERSHIP'', ''NONPROFIT'']"

definition isBusinessType :: "string \<Rightarrow> bool" where
  "isBusinessType value \<longleftrightarrow> value \<in> set business_types"

section \<open>Company domains\<close>

definition free_email_domains :: "string list" where
  "free_email_domains = [''gmail.com'', ''googlemail.com'', ''yahoo.com'', ''ymail.com'', ''outlook.com'', ''hotmail.com'', ''live.com'', ''msn.com'', ''aol.com'', ''icloud.com'', ''me.com'', ''mac.com'', ''protonmail.com'',
    ''proton.me'', ''gmx.com'', ''gmx.net'', ''mail.com'', ''yandex.com'', ''zoho.com'', ''aim.com'', ''inbox.com'']"

definition is_lower :: "char \<Rightarrow> bool" where
  "is_lower c \<longleftrightarrow> (of_char c :: nat) \<in> {97..122}"

definition alnum :: "char \<Rightarrow> bool" where
  "alnum c \<longleftrightarrow> is_lower c \<or> is_digit c"

definition domain_label :: "string \<Rightarrow> bool" where
  "domain_label s \<longleftrightarrow> s \<noteq> [] \<and> length s \<le> 63 \<and> alnum (hd s) \<and> alnum (last s) \<and> list_all (\<lambda>c. alnum c \<or> c = CHR ''-'') s"

text \<open>\<open>^(?:[a-z0-9](?:[a-z0-9-]{0,61}[a-z0-9])?\.)+[a-z]{2,63}$\<close>, label by label.\<close>

definition domain_pattern :: "string \<Rightarrow> bool" where
  "domain_pattern s = (let labels = split_on (CHR ''.'') s; top = last labels in
     2 \<le> length labels \<and> list_all domain_label (butlast labels) \<and> 2 \<le> length top \<and> length top \<le> 63 \<and> list_all is_lower top)"

definition strip_prefix :: "string \<Rightarrow> string \<Rightarrow> string" where
  "strip_prefix p s = (if take (length p) s = p then drop (length p) s else s)"

text \<open>\<open>^[a-z][a-z0-9+.-]*:\/\/\<close>.\<close>

definition strip_scheme :: "string \<Rightarrow> string" where
  "strip_scheme s = (let scheme = takeWhile (\<lambda>c. alnum c \<or> c \<in> set ''+.-'') s; rest = drop (length scheme) s in
     if scheme \<noteq> [] \<and> is_lower (hd scheme) \<and> take 3 rest = ''://'' then drop 3 rest else s)"

text \<open>\<open>:\d+$\<close>.\<close>

definition strip_port :: "string \<Rightarrow> string" where
  "strip_port s = (let digits = takeWhile is_digit (rev s); rest = drop (length digits) (rev s) in
     if digits \<noteq> [] \<and> take 1 rest = '':'' then rev (drop 1 rest) else s)"

definition strip_dot :: "string \<Rightarrow> string" where
  "strip_dot s = (if s \<noteq> [] \<and> last s = CHR ''.'' then butlast s else s)"

definition normalizeWebsiteDomain :: "string \<Rightarrow> string option" where
  "normalizeWebsiteDomain input =
     (let value = js_lower (js_trim input) in
      if value = [] then None
      else let host = strip_dot (strip_port (strip_prefix ''www.'' (takeWhile (\<lambda>c. c \<notin> set ''/?#'') (strip_scheme value))))
           in if domain_pattern host then Some host else None)"

text \<open>What follows the last \<open>@\<close>.\<close>

definition emailDomain :: "string \<Rightarrow> string option" where
  "emailDomain email = (let tail = rev (takeWhile (\<lambda>c. c \<noteq> CHR ''@'') (rev email)) in
     if CHR ''@'' \<notin> set email \<or> tail = [] then None else Some (js_lower (js_trim tail)))"

definition ends_with :: "string \<Rightarrow> string \<Rightarrow> bool" where
  "ends_with s e \<longleftrightarrow> length e \<le> length s \<and> drop (length s - length e) s = e"

definition domainMatchesWebsite :: "string \<Rightarrow> string \<Rightarrow> bool" where
  "domainMatchesWebsite candidate registeredDomain \<longleftrightarrow> candidate = registeredDomain \<or> ends_with candidate (''.'' @ registeredDomain)"

datatype email_rejection = EMAIL_FORMAT | FREE_PROVIDER | DOMAIN_MISMATCH

text \<open>\<open>Inr ()\<close> is \<open>{ ok: true }\<close>.\<close>

definition checkBusinessEmail :: "string \<Rightarrow> string option \<Rightarrow> (email_rejection, unit) result" where
  "checkBusinessEmail email websiteDomain =
     (case emailDomain email of
        None \<Rightarrow> Inl EMAIL_FORMAT
      | Some domain \<Rightarrow>
          if domain = [] then Inl EMAIL_FORMAT
          else case websiteDomain of
             Some w \<Rightarrow> if w \<noteq> [] then (if domainMatchesWebsite domain w then Inr () else Inl DOMAIN_MISMATCH)
                       else if domain \<in> set free_email_domains then Inl FREE_PROVIDER else Inr ()
           | None \<Rightarrow> if domain \<in> set free_email_domains then Inl FREE_PROVIDER else Inr ())"

definition businessEmailMatchesWebsite :: "string option \<Rightarrow> string option \<Rightarrow> bool" where
  "businessEmailMatchesWebsite email website = (case email of None \<Rightarrow> True | Some e \<Rightarrow> e = [] \<or> checkBusinessEmail e website = Inr ())"

section \<open>Countries and regions\<close>

definition us_states :: "(string \<times> string) list" where
  "us_states = [
    (''AL'', ''Alabama''), (''AK'', ''Alaska''), (''AZ'', ''Arizona''), (''AR'', ''Arkansas''), (''CA'', ''California''),
    (''CO'', ''Colorado''), (''CT'', ''Connecticut''), (''DE'', ''Delaware''), (''DC'', ''District of Columbia''),
    (''FL'', ''Florida''), (''GA'', ''Georgia''), (''HI'', ''Hawaii''), (''ID'', ''Idaho''), (''IL'', ''Illinois''),
    (''IN'', ''Indiana''), (''IA'', ''Iowa''), (''KS'', ''Kansas''), (''KY'', ''Kentucky''), (''LA'', ''Louisiana''),
    (''ME'', ''Maine''), (''MD'', ''Maryland''), (''MA'', ''Massachusetts''), (''MI'', ''Michigan''),
    (''MN'', ''Minnesota''), (''MS'', ''Mississippi''), (''MO'', ''Missouri''), (''MT'', ''Montana''),
    (''NE'', ''Nebraska''), (''NV'', ''Nevada''), (''NH'', ''New Hampshire''), (''NJ'', ''New Jersey''),
    (''NM'', ''New Mexico''), (''NY'', ''New York''), (''NC'', ''North Carolina''), (''ND'', ''North Dakota''),
    (''OH'', ''Ohio''), (''OK'', ''Oklahoma''), (''OR'', ''Oregon''), (''PA'', ''Pennsylvania''),
    (''RI'', ''Rhode Island''), (''SC'', ''South Carolina''), (''SD'', ''South Dakota''), (''TN'', ''Tennessee''),
    (''TX'', ''Texas''), (''UT'', ''Utah''), (''VT'', ''Vermont''), (''VA'', ''Virginia''), (''WA'', ''Washington''),
    (''WV'', ''West Virginia''), (''WI'', ''Wisconsin''), (''WY'', ''Wyoming'')]"

definition ca_provinces :: "(string \<times> string) list" where
  "ca_provinces = [
    (''AB'', ''Alberta''), (''BC'', ''British Columbia''), (''MB'', ''Manitoba''), (''NB'', ''New Brunswick''),
    (''NL'', ''Newfoundland and Labrador''), (''NS'', ''Nova Scotia''), (''NT'', ''Northwest Territories''),
    (''NU'', ''Nunavut''), (''ON'', ''Ontario''), (''PE'', ''Prince Edward Island''), (''QC'', ''Quebec''),
    (''SK'', ''Saskatchewan''), (''YT'', ''Yukon'')]"

definition regionsFor :: "string option \<Rightarrow> (string \<times> string) list option" where
  "regionsFor countryCode = (if countryCode = Some ''US'' then Some us_states
     else if countryCode = Some ''CA'' then Some ca_provinces else None)"

definition countries :: "(string \<times> string) list" where
  "countries = [
    (''US'', ''United States''), (''CA'', ''Canada''), (''AF'', ''Afghanistan''), (''AL'', ''Albania''),
    (''DZ'', ''Algeria''), (''AD'', ''Andorra''), (''AO'', ''Angola''), (''AG'', ''Antigua and Barbuda''),
    (''AR'', ''Argentina''), (''AM'', ''Armenia''), (''AU'', ''Australia''), (''AT'', ''Austria''),
    (''AZ'', ''Azerbaijan''), (''BS'', ''Bahamas''), (''BH'', ''Bahrain''), (''BD'', ''Bangladesh''),
    (''BB'', ''Barbados''), (''BY'', ''Belarus''), (''BE'', ''Belgium''), (''BZ'', ''Belize''), (''BJ'', ''Benin''),
    (''BT'', ''Bhutan''), (''BO'', ''Bolivia''), (''BA'', ''Bosnia and Herzegovina''), (''BW'', ''Botswana''),
    (''BR'', ''Brazil''), (''BN'', ''Brunei''), (''BG'', ''Bulgaria''), (''BF'', ''Burkina Faso''), (''BI'', ''Burundi''),
    (''CV'', ''Cabo Verde''), (''KH'', ''Cambodia''), (''CM'', ''Cameroon''), (''CF'', ''Central African Republic''),
    (''TD'', ''Chad''), (''CL'', ''Chile''), (''CN'', ''China''), (''CO'', ''Colombia''), (''KM'', ''Comoros''),
    (''CG'', ''Congo''), (''CD'', ''Congo (DRC)''), (''CR'', ''Costa Rica''),
    (''CI'', ''C'' @ [CHR 0xF4] @ ''te d'Ivoire''), (''HR'', ''Croatia''), (''CU'', ''Cuba''), (''CY'', ''Cyprus''),
    (''CZ'', ''Czechia''), (''DK'', ''Denmark''), (''DJ'', ''Djibouti''), (''DM'', ''Dominica''),
    (''DO'', ''Dominican Republic''), (''EC'', ''Ecuador''), (''EG'', ''Egypt''), (''SV'', ''El Salvador''),
    (''GQ'', ''Equatorial Guinea''), (''ER'', ''Eritrea''), (''EE'', ''Estonia''), (''SZ'', ''Eswatini''),
    (''ET'', ''Ethiopia''), (''FJ'', ''Fiji''), (''FI'', ''Finland''), (''FR'', ''France''), (''GA'', ''Gabon''),
    (''GM'', ''Gambia''), (''GE'', ''Georgia''), (''DE'', ''Germany''), (''GH'', ''Ghana''), (''GR'', ''Greece''),
    (''GD'', ''Grenada''), (''GT'', ''Guatemala''), (''GN'', ''Guinea''), (''GW'', ''Guinea-Bissau''), (''GY'', ''Guyana''),
    (''HT'', ''Haiti''), (''HN'', ''Honduras''), (''HK'', ''Hong Kong''), (''HU'', ''Hungary''), (''IS'', ''Iceland''),
    (''IN'', ''India''), (''ID'', ''Indonesia''), (''IR'', ''Iran''), (''IQ'', ''Iraq''), (''IE'', ''Ireland''),
    (''IL'', ''Israel''), (''IT'', ''Italy''), (''JM'', ''Jamaica''), (''JP'', ''Japan''), (''JO'', ''Jordan''),
    (''KZ'', ''Kazakhstan''), (''KE'', ''Kenya''), (''KI'', ''Kiribati''), (''KW'', ''Kuwait''), (''KG'', ''Kyrgyzstan''),
    (''LA'', ''Laos''), (''LV'', ''Latvia''), (''LB'', ''Lebanon''), (''LS'', ''Lesotho''), (''LR'', ''Liberia''),
    (''LY'', ''Libya''), (''LI'', ''Liechtenstein''), (''LT'', ''Lithuania''), (''LU'', ''Luxembourg''),
    (''MO'', ''Macao''), (''MG'', ''Madagascar''), (''MW'', ''Malawi''), (''MY'', ''Malaysia''), (''MV'', ''Maldives''),
    (''ML'', ''Mali''), (''MT'', ''Malta''), (''MH'', ''Marshall Islands''), (''MR'', ''Mauritania''),
    (''MU'', ''Mauritius''), (''MX'', ''Mexico''), (''FM'', ''Micronesia''), (''MD'', ''Moldova''), (''MC'', ''Monaco''),
    (''MN'', ''Mongolia''), (''ME'', ''Montenegro''), (''MA'', ''Morocco''), (''MZ'', ''Mozambique''),
    (''MM'', ''Myanmar''), (''NA'', ''Namibia''), (''NR'', ''Nauru''), (''NP'', ''Nepal''), (''NL'', ''Netherlands''),
    (''NZ'', ''New Zealand''), (''NI'', ''Nicaragua''), (''NE'', ''Niger''), (''NG'', ''Nigeria''),
    (''KP'', ''North Korea''), (''MK'', ''North Macedonia''), (''NO'', ''Norway''), (''OM'', ''Oman''),
    (''PK'', ''Pakistan''), (''PW'', ''Palau''), (''PS'', ''Palestine''), (''PA'', ''Panama''),
    (''PG'', ''Papua New Guinea''), (''PY'', ''Paraguay''), (''PE'', ''Peru''), (''PH'', ''Philippines''),
    (''PL'', ''Poland''), (''PT'', ''Portugal''), (''QA'', ''Qatar''), (''RO'', ''Romania''), (''RU'', ''Russia''),
    (''RW'', ''Rwanda''), (''KN'', ''Saint Kitts and Nevis''), (''LC'', ''Saint Lucia''),
    (''VC'', ''Saint Vincent and the Grenadines''), (''WS'', ''Samoa''), (''SM'', ''San Marino''),
    (''ST'', ''Sao Tome and Principe''), (''SA'', ''Saudi Arabia''), (''SN'', ''Senegal''), (''RS'', ''Serbia''),
    (''SC'', ''Seychelles''), (''SL'', ''Sierra Leone''), (''SG'', ''Singapore''), (''SK'', ''Slovakia''),
    (''SI'', ''Slovenia''), (''SB'', ''Solomon Islands''), (''SO'', ''Somalia''), (''ZA'', ''South Africa''),
    (''KR'', ''South Korea''), (''SS'', ''South Sudan''), (''ES'', ''Spain''), (''LK'', ''Sri Lanka''), (''SD'', ''Sudan''),
    (''SR'', ''Suriname''), (''SE'', ''Sweden''), (''CH'', ''Switzerland''), (''SY'', ''Syria''), (''TW'', ''Taiwan''),
    (''TJ'', ''Tajikistan''), (''TZ'', ''Tanzania''), (''TH'', ''Thailand''), (''TL'', ''Timor-Leste''), (''TG'', ''Togo''),
    (''TO'', ''Tonga''), (''TT'', ''Trinidad and Tobago''), (''TN'', ''Tunisia''), (''TR'', ''Turkey''),
    (''TM'', ''Turkmenistan''), (''TV'', ''Tuvalu''), (''UG'', ''Uganda''), (''UA'', ''Ukraine''),
    (''AE'', ''United Arab Emirates''), (''GB'', ''United Kingdom''), (''UY'', ''Uruguay''), (''UZ'', ''Uzbekistan''),
    (''VU'', ''Vanuatu''), (''VA'', ''Vatican City''), (''VE'', ''Venezuela''), (''VN'', ''Vietnam''), (''YE'', ''Yemen''),
    (''ZM'', ''Zambia''), (''ZW'', ''Zimbabwe'')]"

definition upper_letter :: "char \<Rightarrow> char" where
  "upper_letter c = (if is_lower c then char_of (of_char c - 32 :: nat) else c)"

text \<open>\<open>BY_CODE.get(code.toUpperCase())?.name ?? null\<close>; no code of the list occurs twice.\<close>

definition countryName :: "string option \<Rightarrow> string option" where
  "countryName code = (case code of None \<Rightarrow> None | Some c \<Rightarrow> if c = [] then None else map_of countries (map upper_letter c))"

section \<open>Normal forms\<close>

lemma dropWhile_prefix_id: "list_all (\<lambda>c. \<not> P c) s \<Longrightarrow> dropWhile P s = s"
  by (cases s) auto

lemma js_trim_no_space: "list_all (\<lambda>c. \<not> is_space c) s \<Longrightarrow> js_trim s = s"
  by (simp add: js_trim_def dropWhile_prefix_id)

lemma e164_chars:
  assumes "nanp n"
  shows "js_trim (''+1'' @ n) = ''+1'' @ n" "phone_chars_ok (''+1'' @ n)" "filter is_digit (''+1'' @ n) = ''1'' @ n"
proof -
  have d: "list_all is_digit n" "length n = 10" using assms by (auto simp: nanp_def)
  have "list_all (\<lambda>c. \<not> is_space c) (''+1'' @ n)" using d(1) by (auto simp: list_all_iff is_space_def is_digit_def)
  then show "js_trim (''+1'' @ n) = ''+1'' @ n" by (rule js_trim_no_space)
  show "phone_chars_ok (''+1'' @ n)" using d(1) by (auto simp: phone_chars_ok_def phone_char_def list_all_iff)
  show "filter is_digit (''+1'' @ n) = ''1'' @ n" using d(1) by (auto simp: list_all_iff filter_id_conv)
qed

lemma normalizeUsPhone_normal: "nanp n \<Longrightarrow> normalizeUsPhone (''+1'' @ n) = Some (''+1'' @ n)"
  unfolding normalizeUsPhone_def e164_chars Let_def by (simp add: e164_chars(2)[simplified] nanp_def)

lemma normalizeUsPhone_result: "normalizeUsPhone s = Some p \<Longrightarrow> \<exists>n. p = ''+1'' @ n \<and> nanp n"
  by (auto simp: normalizeUsPhone_def Let_def split: if_splits option.splits)

lemma normalizeUsPhone_digits: "normalizeUsPhone s = Some p \<Longrightarrow> filter is_digit s \<in> {tl p, drop 2 p}"
proof -
  have trim: "filter is_digit (js_trim s) = filter is_digit s"
  proof -
    have dw: "filter is_digit (dropWhile is_space t) = filter is_digit t" for t
      by (induction t) (auto simp: is_space_def is_digit_def)
    show ?thesis unfolding js_trim_def by (simp add: dw flip: rev_filter)
  qed
  assume "normalizeUsPhone s = Some p"
  then show ?thesis
    unfolding normalizeUsPhone_def Let_def trim
    by (cases "filter is_digit s") (auto split: if_splits option.splits)
qed

text \<open>C33:
  A telephone number that is accepted has one shape: \<open>+1\<close> and ten digits of the North American plan, the digits that were
  typed; and the stored form is accepted again and unchanged.
\<close>

theorem us_phone_e164:
  assumes "normalizeUsPhone input = Some phone"
  shows "(\<exists>n. phone = ''+1'' @ n \<and> nanp n) \<and> normalizeUsPhone phone = Some phone \<and> filter is_digit input \<in> {tl phone, drop 2 phone}"
  using normalizeUsPhone_result[OF assms] normalizeUsPhone_normal normalizeUsPhone_digits[OF assms] by blast

theorem us_phone_e164_witness:
  "normalizeUsPhone ''(212) 555-1234'' = Some ''+12125551234'' \<and> normalizeUsPhone ''+12125551234'' = Some ''+12125551234''"
proof -
  have "normalizeUsPhone ''(212) 555-1234'' = Some ''+12125551234''" by code_simp
  then show ?thesis using us_phone_e164[of "''(212) 555-1234''" "''+12125551234''"] by blast
qed

section \<open>Websites\<close>

definition domain_char :: "char \<Rightarrow> bool" where
  "domain_char c \<longleftrightarrow> alnum c \<or> c = CHR ''-'' \<or> c = CHR ''.''"

lemma domain_char_props:
  assumes "domain_char c"
  shows "\<not> is_space c" "to_lower c = c" "c \<noteq> CHR '':''" "c \<notin> set ''/?#''"
proof -
  have n: "of_char c \<in> {97..122} \<union> {48..57} \<union> {45, 46 :: nat}"
    using assms by (auto simp: domain_char_def alnum_def is_lower_def is_digit_def)
  show "\<not> is_space c" "to_lower c = c" using n by (auto simp: is_space_def to_lower_def Let_def)
  show "c \<noteq> CHR '':''" "c \<notin> set ''/?#''" using n by auto
qed

lemma split_on_chars: "x \<in> set s \<Longrightarrow> x = c \<or> (\<exists>l \<in> set (split_on c s). x \<in> set l)"
  by (induction s) (auto split: list.splits simp: split_on_nonempty)

lemma split_on_last: "last (split_on c s) \<noteq> [] \<Longrightarrow> s \<noteq> [] \<and> last s = last (last (split_on c s))"
proof (induction s)
  case (Cons x s)
  show ?case
  proof (cases "s = []")
    case True
    then show ?thesis using Cons.prems by auto
  next
    case False
    obtain l ls where split: "split_on c s = l # ls" using split_on_nonempty[of c s] by (cases "split_on c s") auto
    show ?thesis
    proof (cases "x = c")
      case True
      then show ?thesis using Cons split False by simp
    next
      case False
      show ?thesis
      proof (cases "ls = []")
        case True
        then have "l \<noteq> []" using split \<open>s \<noteq> []\<close>
          by (cases s) (auto split: if_splits list.splits simp: split_on_nonempty)
        then show ?thesis using Cons split True False \<open>s \<noteq> []\<close> by simp
      next
        case ls: False
        then show ?thesis using Cons split False \<open>s \<noteq> []\<close> by simp
      qed
    qed
  qed
qed simp

lemma domain_pattern_chars:
  assumes "domain_pattern s"
  shows "list_all domain_char s" "s \<noteq> []" "is_lower (last s)"
proof -
  let ?labels = "split_on (CHR ''.'') s"
  have lab: "list_all domain_label (butlast ?labels)" "list_all is_lower (last ?labels)" "2 \<le> length (last ?labels)"
    using assms by (auto simp: domain_pattern_def Let_def)
  have "list_all (list_all domain_char) (butlast ?labels @ [last ?labels])"
    using lab by (auto simp: list_all_iff domain_label_def domain_char_def alnum_def)
  then have "list_all (list_all domain_char) ?labels" using split_on_nonempty[of "CHR ''.''" s] by simp
  then show "list_all domain_char s"
    using split_on_chars[of _ s "CHR ''.''"] by (fastforce simp: list_all_iff domain_char_def)
  have ne: "last ?labels \<noteq> []" using lab(3) by auto
  then show "s \<noteq> []" using split_on_last by blast
  show "is_lower (last s)" using split_on_last[OF ne] ne lab(2) by (auto simp: list_all_iff)
qed

lemma takeWhile_all: "list_all P s \<Longrightarrow> takeWhile P s = s"
  by (simp add: list_all_iff takeWhile_eq_all_conv)

lemma domain_steps:
  assumes "domain_pattern s"
  shows "js_lower (js_trim s) = s" "strip_scheme s = s" "takeWhile (\<lambda>c. c \<notin> set ''/?#'') s = s" "strip_port s = s" "strip_dot s = s"
proof -
  note c = domain_pattern_chars[OF assms]
  have all: "\<forall>x \<in> set s. domain_char x" using c(1) by (simp add: list_all_iff)
  have "js_trim s = s" by (rule js_trim_no_space) (use all in \<open>auto simp: list_all_iff domain_char_props(1)\<close>)
  moreover have "js_lower s = s" unfolding js_lower_def by (rule map_idI) (use all domain_char_props(2) in blast)
  ultimately show "js_lower (js_trim s) = s" by simp
  have colon: "CHR '':'' \<notin> set s" using all domain_char_props(3) by blast
  have "take 3 (drop n s) \<noteq> ''://''" for n
  proof
    assume "take 3 (drop n s) = ''://''"
    then have "CHR '':'' \<in> set (take 3 (drop n s))" by simp
    then show False using colon by (auto dest: in_set_takeD in_set_dropD)
  qed
  then show "strip_scheme s = s" by (simp add: strip_scheme_def Let_def)
  show "takeWhile (\<lambda>c. c \<notin> set ''/?#'') s = s" by (rule takeWhile_all) (use all domain_char_props(4) in \<open>auto simp: list_all_iff\<close>)
  have "take 1 (drop n (rev s)) \<noteq> '':''" for n
  proof
    assume "take 1 (drop n (rev s)) = '':''"
    then have "CHR '':'' \<in> set (take 1 (drop n (rev s)))" by simp
    then have "CHR '':'' \<in> set (rev s)" by (blast dest: in_set_takeD in_set_dropD)
    then show False using colon by simp
  qed
  then show "strip_port s = s" by (simp add: strip_port_def Let_def)
  have "last s \<noteq> CHR ''.''" using c(3) by (auto simp: is_lower_def)
  then show "strip_dot s = s" by (simp add: strip_dot_def)
qed

text \<open>
  A website that is accepted is stored as a lower-case domain name, and the stored form is accepted again and unchanged
  (unless it still starts with \<open>www.\<close>, which is taken off once more).
\<close>

theorem website_normal_form:
  assumes "normalizeWebsiteDomain input = Some website"
  shows "domain_pattern website \<and> (take 4 website \<noteq> ''www.'' \<longrightarrow> normalizeWebsiteDomain website = Some website)"
proof -
  have d: "domain_pattern website" using assms by (auto simp: normalizeWebsiteDomain_def Let_def split: if_splits)
  moreover have "normalizeWebsiteDomain website = Some website" if w: "take 4 website \<noteq> ''www.''"
  proof -
    have "strip_prefix ''www.'' website = website" using w by (simp add: strip_prefix_def numeral_eq_Suc)
    then show ?thesis
      unfolding normalizeWebsiteDomain_def Let_def domain_steps[OF d] using d domain_pattern_chars(2)[OF d]
      by (simp add: domain_steps[OF d] del: set_simps)
  qed
  ultimately show ?thesis by blast
qed

theorem website_normal_form_witness:
  "normalizeWebsiteDomain ''https://www.Acme.com/about/'' = Some ''acme.com'' \<and> normalizeWebsiteDomain ''acme.com'' = Some ''acme.com''"
proof -
  have "normalizeWebsiteDomain ''https://www.Acme.com/about/'' = Some ''acme.com''" by code_simp
  moreover have "take 4 ''acme.com'' \<noteq> ''www.''" by (simp add: numeral_eq_Suc)
  ultimately show ?thesis using website_normal_form[of "''https://www.Acme.com/about/''" "''acme.com''"] by blast
qed

text \<open>The exception: an accepted website whose stored form is refused when it is sent again.\<close>

lemma website_twice: "normalizeWebsiteDomain ''www.www.com'' = Some ''www.com'' \<and> normalizeWebsiteDomain ''www.com'' = None"
  by code_simp

section \<open>Business e-mails\<close>

lemma business_email_domain:
  assumes "checkBusinessEmail email (Some website) = Inr ()" "website \<noteq> []"
  shows "\<exists>domain. emailDomain email = Some domain \<and> (domain = website \<or> ends_with domain (''.'' @ website))"
  using assms by (auto simp: checkBusinessEmail_def domainMatchesWebsite_def split: option.splits if_splits)

end
