(* ===== verification/DashboardLists.thy ===== *)
theory DashboardLists
  imports Dashboard BusinessDetails
begin

text \<open>
  The lists of the dashboard (\<open>apps/api/src/dashboard/dashboard.service.ts\<close>): overdue customers, what needs attention, recent
  activity, the roll-up by brand, customers shared by brands, and the retry of a sync job.
\<close>

section \<open>Overdue customers\<close>

record overdue_customer =
  oc_customerId :: string
  oc_displayName :: string
  oc_brandId :: string
  oc_brandName :: "string option"
  oc_balanceMinor :: int
  oc_daysOverdue :: int

definition shown_brand :: "string option \<Rightarrow> string \<Rightarrow> string option" where
  "shown_brand brandId name = (if one_brand brandId then None else Some name)"

definition latest_due :: "invoice_row list \<Rightarrow> int" where
  "latest_due rs = foldr (\<lambda>r t. max (i_dueDate r) t) (tl rs) (i_dueDate (hd rs))"

definition getTopOverdueCustomers :: "scope \<Rightarrow> int \<Rightarrow> dash_db \<Rightarrow> string option \<Rightarrow> (service_error, overdue_customer list) result" where
  "getTopOverdueCustomers sc now d brandId =
     (let grouped = take 5 (sort_key (\<lambda>(_, rs). - sum_list (map i_balanceMinor rs))
            (group_by i_customerId (filter i_overdue (dash_invoices sc brandId d))));
          customers = filter (\<lambda>c. c_id c \<in> fst ` set grouped) (dash_customers sc None d)
      in rbind (rmapM (\<lambda>c. rbind (dash_brand_of sc d (c_brandId c)) (\<lambda>b. Inr (c_id c, c, b))) customers) (\<lambda>byId.
         Inr (concat (map (\<lambda>(cid, rs). case map_of (rev byId) cid of
             None \<Rightarrow> []
           | Some (c, b) \<Rightarrow> [\<lparr> oc_customerId = cid, oc_displayName = c_displayName c, oc_brandId = c_brandId c,
               oc_brandName = shown_brand brandId (b_displayName b), oc_balanceMinor = group_sum i_balanceMinor rs,
               oc_daysOverdue = daysBetween (latest_due rs) now \<rparr>]) grouped))))"

section \<open>What needs attention\<close>

datatype attention_kind = STALE_DRAFT | DUE_SOON | SYNC_FAILED_ITEM

record attention_item =
  at_kind :: attention_kind
  at_brandId :: string
  at_brandName :: "string option"
  at_invoiceNumber :: "string option"
  at_subject :: string
  at_detail :: string
  at_invoiceId :: "string option"
  at_syncJobId :: "string option"
  at_occurredAt :: int

record attention_result =
  ar_items :: "attention_item list"
  ar_totalCount :: nat

definition DRAFT_UNSENT_ATTENTION_DAYS :: int where
  "DRAFT_UNSENT_ATTENTION_DAYS = 3"

definition DUE_SOON_HOURS :: int where
  "DUE_SOON_HOURS = 24"

text \<open>The dash of the third message in UTF-8.\<close>

fun sync_failure_message :: "error_class \<Rightarrow> string" where
  "sync_failure_message AUTHENTICATION = ''Zoho connection needs to be reconnected''"
| "sync_failure_message VALIDATION = ''Zoho couldn't accept some of this record's details''"
| "sync_failure_message CONFLICT = ''Zoho has a newer version of this record''"
| "sync_failure_message TRANSIENT = ''Couldn't reach Zoho '' @ [CHR 0xE2, CHR 0x80, CHR 0x94] @ '' this will retry automatically''"
| "sync_failure_message PERMANENT = ''Zoho sync failed''"

definition syncFailureMessage :: "error_class option \<Rightarrow> string" where
  "syncFailureMessage e = sync_failure_message (case e of None \<Rightarrow> PERMANENT | Some c \<Rightarrow> c)"

definition stale_drafts :: "int \<Rightarrow> invoice_row list \<Rightarrow> invoice_row list" where
  "stale_drafts now rows = take 20 (sort_key i_createdAt
     (filter (\<lambda>r. i_status r = DRAFT \<and> i_createdAt r \<le> now - DRAFT_UNSENT_ATTENTION_DAYS * DAY_MS) rows))"

definition due_soon :: "int \<Rightarrow> invoice_row list \<Rightarrow> invoice_row list" where
  "due_soon now rows = take 20 (sort_key i_dueDate
     (filter (\<lambda>r. i_status r \<in> set payable_statuses \<and> now \<le> i_dueDate r \<and> i_dueDate r \<le> now + DUE_SOON_HOURS * 60 * 60 * 1000) rows))"

definition failed_jobs :: "scope \<Rightarrow> dash_db \<Rightarrow> string option \<Rightarrow> dash_job list" where
  "failed_jobs sc d brandId = take 20 (newest_first dj_updatedAt
     (filter (\<lambda>j. dj_status j \<in> {SYNC_FAILED, SYNC_DEAD_LETTERED} \<and> dash_sees sc d (dj_brandId j) \<and> for_brand brandId (dj_brandId j)) (dd_jobs d)))"

definition attention_of_invoice :: "scope \<Rightarrow> dash_db \<Rightarrow> string option \<Rightarrow> attention_kind \<Rightarrow> (invoice_row \<Rightarrow> string) \<Rightarrow> (invoice_row \<Rightarrow> int) \<Rightarrow>
    invoice_row \<Rightarrow> (service_error, attention_item) result" where
  "attention_of_invoice sc d brandId kind detail occurred r =
     rbind (dash_brand_of sc d (i_brandId r)) (\<lambda>b. rbind (dash_customer_of sc d (i_customerId r)) (\<lambda>c.
       Inr \<lparr> at_kind = kind, at_brandId = i_brandId r, at_brandName = shown_brand brandId (b_displayName b),
             at_invoiceNumber = Some (i_number r), at_subject = c_displayName c, at_detail = detail r,
             at_invoiceId = Some (i_id r), at_syncJobId = None, at_occurredAt = occurred r \<rparr>))"

text \<open>The invoice or the customer a failed job is about, when it still exists and can be seen.\<close>

definition job_invoice :: "scope \<Rightarrow> dash_db \<Rightarrow> dash_job \<Rightarrow> (service_error, (invoice_row \<times> dash_customer) option) result" where
  "job_invoice sc d j =
     (case (if dj_objectType j = ''INVOICE'' \<and> nonempty (dj_objectId j)
            then find (\<lambda>r. Some (i_id r) = dj_objectId j) (dash_invoices sc None d) else None) of
        None \<Rightarrow> Inr None
      | Some r \<Rightarrow> rbind (dash_customer_of sc d (i_customerId r)) (\<lambda>c. Inr (Some (r, c))))"

definition job_customer :: "scope \<Rightarrow> dash_db \<Rightarrow> dash_job \<Rightarrow> dash_customer option" where
  "job_customer sc d j = (if dj_objectType j = ''CUSTOMER'' \<and> nonempty (dj_objectId j)
     then find (\<lambda>c. Some (c_id c) = dj_objectId j) (dash_customers sc None d) else None)"

definition job_item :: "scope \<Rightarrow> dash_db \<Rightarrow> string option \<Rightarrow> dash_job \<Rightarrow> (service_error, attention_item) result" where
  "job_item sc d brandId j =
     rbind (dash_brand_of sc d (dj_brandId j)) (\<lambda>b. rbind (job_invoice sc d j) (\<lambda>iv.
       Inr \<lparr> at_kind = SYNC_FAILED_ITEM, at_brandId = dj_brandId j, at_brandName = shown_brand brandId (b_displayName b),
             at_invoiceNumber = map_option (\<lambda>(r, _). i_number r) iv,
             at_subject = (case iv of Some (_, c) \<Rightarrow> c_displayName c
               | None \<Rightarrow> (case job_customer sc d j of Some c \<Rightarrow> c_displayName c | None \<Rightarrow> js_lower (dj_objectType j) @ '' sync'')),
             at_detail = syncFailureMessage (dj_errorClass j), at_invoiceId = map_option (\<lambda>(r, _). i_id r) iv,
             at_syncJobId = Some (dj_id j), at_occurredAt = dj_updatedAt j \<rparr>))"

definition getNeedsAttention :: "scope \<Rightarrow> int \<Rightarrow> dash_db \<Rightarrow> string option \<Rightarrow> (service_error, attention_result) result" where
  "getNeedsAttention sc now d brandId =
     rbind (rmapM (job_item sc d brandId) (failed_jobs sc d brandId)) (\<lambda>failed.
     rbind (rmapM (attention_of_invoice sc d brandId DUE_SOON (\<lambda>_. ''Payment due within 24 hours'') i_dueDate)
             (due_soon now (dash_invoices sc brandId d))) (\<lambda>due.
     rbind (rmapM (attention_of_invoice sc d brandId STALE_DRAFT
               (\<lambda>r. ''Draft unsent for '' @ show_int (daysBetween (i_createdAt r) now) @ '' days'') i_createdAt)
             (stale_drafts now (dash_invoices sc brandId d))) (\<lambda>drafts.
     let items = failed @ due @ drafts in Inr \<lparr> ar_items = take 5 items, ar_totalCount = length items \<rparr>)))"

section \<open>Recent activity\<close>

datatype activity_kind = PAYMENT_RECEIVED | INVOICE_SENT | CUSTOMER_ADDED | CUSTOMER_UPDATED

record activity_item =
  ac_kind :: activity_kind
  ac_brandId :: string
  ac_brandName :: "string option"
  ac_brandThemeColor :: string
  ac_brandInitial :: string
  ac_message :: string
  ac_occurredAt :: int

text \<open>\<open>(name.trim().charAt(0) || '?').toUpperCase()\<close>.\<close>

definition brandInitial :: "string \<Rightarrow> string" where
  "brandInitial name = (case js_trim name of [] \<Rightarrow> ''?'' | c # _ \<Rightarrow> [upper_letter c])"

text \<open>A descending order puts the rows without a time first.\<close>

definition newest_nulls_first :: "('r \<Rightarrow> int option) \<Rightarrow> 'r list \<Rightarrow> 'r list" where
  "newest_nulls_first time rows = filter (\<lambda>r. time r = None) rows @ newest_first (\<lambda>r. the (time r)) (filter (\<lambda>r. time r \<noteq> None) rows)"

definition newest_nulls_last :: "('r \<Rightarrow> int option) \<Rightarrow> 'r list \<Rightarrow> 'r list" where
  "newest_nulls_last time rows = newest_first (\<lambda>r. the (time r)) (filter (\<lambda>r. time r \<noteq> None) rows) @ filter (\<lambda>r. time r = None) rows"

definition brand_activity :: "scope \<Rightarrow> dash_db \<Rightarrow> string option \<Rightarrow> activity_kind \<Rightarrow> string \<Rightarrow> int \<Rightarrow> (service_error, string) result \<Rightarrow>
    (service_error, activity_item) result" where
  "brand_activity sc d brandId kind b t message =
     rbind (dash_brand_of sc d b) (\<lambda>br. rbind message (\<lambda>m.
       Inr \<lparr> ac_kind = kind, ac_brandId = b, ac_brandName = shown_brand brandId (b_displayName br),
             ac_brandThemeColor = b_themeColor br, ac_brandInitial = brandInitial (b_displayName br), ac_message = m, ac_occurredAt = t \<rparr>))"

definition dash_invoice_of :: "scope \<Rightarrow> dash_db \<Rightarrow> string \<Rightarrow> (service_error, invoice_row) result" where
  "dash_invoice_of sc d i = require (find (\<lambda>r. i_id r = i) (dash_invoices sc None d)) (MissingRelation ''invoice'')"

definition payment_activity :: "(int \<Rightarrow> currency \<Rightarrow> string) \<Rightarrow> scope \<Rightarrow> dash_db \<Rightarrow> string option \<Rightarrow> payment_row \<Rightarrow> (service_error, activity_item) result" where
  "payment_activity display sc d brandId p =
     brand_activity sc d brandId PAYMENT_RECEIVED (p_brandId p) (the (p_settledAt p))
       (rbind (dash_invoice_of sc d (p_invoiceId p)) (\<lambda>iv. rbind (dash_customer_of sc d (i_customerId iv)) (\<lambda>c.
        case assertMinor (JInt (round_double (p_amountMinor p))) ''amount'' of
          Inl e \<Rightarrow> Inl (MoneyThrew e)
        | Inr n \<Rightarrow> Inr (''Payment of '' @ display n (toCurrencyCode (Some (p_currency p)) USD) @ '' received from '' @ c_displayName c))))"

definition issue_activity :: "scope \<Rightarrow> dash_db \<Rightarrow> string option \<Rightarrow> event_row \<Rightarrow> (service_error, activity_item) result" where
  "issue_activity sc d brandId e =
     rbind (dash_invoice_of sc d (e_invoiceId e)) (\<lambda>iv.
       brand_activity sc d brandId INVOICE_SENT (i_brandId iv) (e_occurredAt e)
         (rbind (dash_customer_of sc d (i_customerId iv)) (\<lambda>c.
          Inr (''Invoice '' @ i_number iv @ '' sent to '' @ c_displayName c))))"

definition issue_events :: "scope \<Rightarrow> dash_db \<Rightarrow> string option \<Rightarrow> event_row list" where
  "issue_events sc d brandId = take 10 (newest_first e_occurredAt (filter (\<lambda>e. e_eventType e = ''ISSUE'' \<and>
     list_ex (\<lambda>i. i_id i = e_invoiceId e) (dash_invoices sc brandId d)) (dd_events d)))"

definition getRecentActivity :: "(int \<Rightarrow> currency \<Rightarrow> string) \<Rightarrow> scope \<Rightarrow> dash_db \<Rightarrow> string option \<Rightarrow> (service_error, activity_item list) result" where
  "getRecentActivity display sc d brandId =
     (let payments = take 10 (newest_nulls_first p_settledAt (filter (\<lambda>p. p_status p = SETTLED) (dash_payments sc brandId d)));
          created = take 10 (newest_first dc_createdAt (dash_customers sc brandId d));
          updated = take 10 (newest_first dc_updatedAt (dash_customers sc brandId d))
      in rbind (rmapM (payment_activity display sc d brandId) (filter (\<lambda>p. p_settledAt p \<noteq> None) payments)) (\<lambda>ps.
         rbind (rmapM (issue_activity sc d brandId) (issue_events sc d brandId)) (\<lambda>es.
         rbind (rmapM (\<lambda>c. brand_activity sc d brandId CUSTOMER_ADDED (c_brandId c) (dc_createdAt c)
             (Inr (''New customer '' @ c_displayName c @ '' added''))) created) (\<lambda>cs.
         rbind (rmapM (\<lambda>c. brand_activity sc d brandId CUSTOMER_UPDATED (c_brandId c) (dc_updatedAt c)
             (Inr (''Customer '' @ c_displayName c @ '' updated''))) (filter (\<lambda>c. dc_createdAt c < dc_updatedAt c) updated)) (\<lambda>us.
         Inr (take 10 (newest_first ac_occurredAt (ps @ es @ cs @ us))))))))"

section \<open>By brand\<close>

record brand_rollup =
  br_brandId :: string
  br_brandName :: string
  br_themeColor :: string
  br_currency :: currency
  br_invoicedMinor :: int
  br_collectedMinor :: int
  br_collectionRate :: rat
  br_overdueMinor :: int

definition getByBrand :: "scope \<Rightarrow> int \<Rightarrow> dash_db \<Rightarrow> date_range option \<Rightarrow> brand_rollup list" where
  "getByBrand sc now d r =
     (let rng = range_bounds now r;
          invoicedBy = group_by i_brandId (filter (invoiced_in rng) (dash_invoices sc None d));
          collectedBy = group_by p_brandId (filter (collected_in rng) (dash_payments sc None d));
          overdueBy = group_by i_brandId (filter i_overdue (dash_invoices sc None d))
      in map (\<lambda>b. let invoiced = sum_of_key i_totalMinor invoicedBy (b_id b); collected = sum_of_key p_amountMinor collectedBy (b_id b)
           in \<lparr> br_brandId = b_id b, br_brandName = b_displayName b, br_themeColor = b_themeColor b,
                br_currency = toCurrencyCode (Some (b_currency b)) USD, br_invoicedMinor = invoiced, br_collectedMinor = collected,
                br_collectionRate = js_ratio collected invoiced, br_overdueMinor = sum_of_key i_balanceMinor overdueBy (b_id b) \<rparr>)
         (sort_key b_createdAt (dash_brands sc d)))"

section \<open>Customers of several brands\<close>

record cross_brand_row =
  cb_email :: string
  cb_displayName :: string
  cb_perBrand :: "(string \<times> string \<times> string option) list"

record cross_brand_result =
  cr_rows :: "cross_brand_row list"
  cr_matchedCount :: nat

fun status_text :: "invoice_status \<Rightarrow> string" where
  "status_text DRAFT = ''DRAFT''" | "status_text SENT = ''SENT''" | "status_text VIEWED = ''VIEWED''"
| "status_text PENDING_PAYMENT = ''PENDING_PAYMENT''" | "status_text PARTIALLY_PAID = ''PARTIALLY_PAID''"
| "status_text PAID = ''PAID''" | "status_text CANCELLED = ''CANCELLED''"

fun bucket_text :: "status_bucket \<Rightarrow> string" where
  "bucket_text PaidBucket = ''Paid''" | "bucket_text UnpaidBucket = ''Unpaid''" | "bucket_text OverdueBucket = ''Overdue''"
| "bucket_text PartiallyPaidBucket = ''Partially Paid''" | "bucket_text DraftBucket = ''Draft''"

definition email_key :: "dash_customer \<Rightarrow> string" where
  "email_key c = js_lower (js_trim (the (c_email c)))"

definition latest_status :: "invoice_row list \<Rightarrow> string \<Rightarrow> string option" where
  "latest_status latest cid = map_option (\<lambda>r. case bucketFor (i_status r) (i_overdue r) of
     Some b \<Rightarrow> bucket_text b | None \<Rightarrow> status_text (i_status r)) (find (\<lambda>r. i_customerId r = cid) latest)"

definition getCrossBrandCustomers :: "scope \<Rightarrow> dash_db \<Rightarrow> (service_error, cross_brand_result) result" where
  "getCrossBrandCustomers sc d =
     (let customers = filter (\<lambda>c. c_email c \<noteq> None \<and> dc_active c) (dash_customers sc None d)
      in rbind (rmapM (\<lambda>c. rbind (dash_brand_of sc d (c_brandId c)) (\<lambda>b. Inr (c, b))) customers) (\<lambda>named.
         let matched = filter (\<lambda>(_, group). 2 \<le> length group) (group_by (\<lambda>(c, _). email_key c) named);
             limited = take 20 matched;
             ids = concat (map (\<lambda>(_, group). map (\<lambda>(c, _). c_id c) group) limited);
             latest = newest_first i_createdAt (filter (\<lambda>r. i_customerId r \<in> set ids) (dash_invoices sc None d))
         in Inr \<lparr> cr_rows = map (\<lambda>(email, group). \<lparr> cb_email = email, cb_displayName = c_displayName (fst (hd group)),
                    cb_perBrand = foldl (\<lambda>m (c, b). AList.update (c_brandId c) (b_displayName b, latest_status latest (c_id c)) m) [] group \<rparr>) limited,
                  cr_matchedCount = length matched \<rparr>))"

section \<open>Integrations\<close>

record integrations_status =
  ig_connected :: bool
  ig_lastSyncAt :: "int option"

definition getIntegrationsStatus :: "scope \<Rightarrow> dash_db \<Rightarrow> string option \<Rightarrow> integrations_status" where
  "getIntegrationsStatus sc d brandId =
     (let connections = take 1 (newest_nulls_last dn_lastSyncAt (filter (\<lambda>c. dn_status c = CONNECTED \<and>
            dash_sees sc d (dn_brandId c) \<and> for_brand brandId (dn_brandId c)) (dd_connections d)))
      in \<lparr> ig_connected = (connections \<noteq> []), ig_lastSyncAt = (case connections of [] \<Rightarrow> None | c # _ \<Rightarrow> dn_lastSyncAt c) \<rparr>)"

datatype retry_task = RetryPush sync_task | RetryPull string bool

definition retry_push :: "string \<Rightarrow> string \<Rightarrow> string \<Rightarrow> sync_task option" where
  "retry_push objectType brandId objectId =
     (if objectType = ''CUSTOMER'' then Some (PushCustomerTask brandId objectId)
      else if objectType = ''INVOICE'' then Some (PushInvoiceTask brandId objectId)
      else if objectType = ''PAYMENT'' then Some (PushPaymentTask brandId objectId) else None)"

text \<open>The queue is the one effect.\<close>

definition retrySyncJob :: "scope \<Rightarrow> dash_db \<Rightarrow> string \<Rightarrow> (retry_task list, service_error, unit) eff" where
  "retrySyncJob sc d jobId =
     (case find (\<lambda>j. dash_sees sc d (dj_brandId j) \<and> dj_id j = jobId) (dd_jobs d) of
        None \<Rightarrow> ethrow (NotFoundErr ''sync job not found'')
      | Some j \<Rightarrow>
          if dj_direction j = PULL then emodify (\<lambda>q. q @ [RetryPull (dj_brandId j) True])
          else (case (if nonempty (dj_objectId j) then retry_push (dj_objectType j) (dj_brandId j) (the (dj_objectId j)) else None) of
                  None \<Rightarrow> ethrow (BadRequest (''cannot retry a PUSH/'' @ dj_objectType j @ '' sync job''))
                | Some t \<Rightarrow> emodify (\<lambda>q. q @ [RetryPush t])))"

end
