(* ===== verification/DashboardTotals.thy ===== *)
theory DashboardTotals
  imports DashboardLists
begin

text \<open>
  Facts about the sums of the dashboard: grouping loses no row, sums of non-negative amounts within the safe range are
  exact, consecutive months add up to the span they cover, and a ratio of a part to its whole is a number from 0 to 1.
\<close>

section \<open>Groups\<close>

lemma add_to_group_keys: "fst ` set (add_to_group k r gs) = insert k (fst ` set gs)"
  by (induction k r gs rule: add_to_group.induct) auto

lemma add_to_group_distinct: "distinct (map fst gs) \<Longrightarrow> distinct (map fst (add_to_group k r gs))"
  by (induction k r gs rule: add_to_group.induct) (auto simp: add_to_group_keys simp flip: image_set)

lemma map_of_add_to_group:
  "map_of (add_to_group k r gs) j = (if j = k then Some ((case map_of gs k of None \<Rightarrow> [] | Some rs \<Rightarrow> rs) @ [r]) else map_of gs j)"
  by (induction k r gs rule: add_to_group.induct) (auto split: option.splits)

lemma group_by_snoc: "group_by f (rows @ [r]) = add_to_group (f r) r (group_by f rows)"
  by (simp add: group_by_def)

lemma group_by_Nil [simp]: "group_by f [] = []"
  by (simp add: group_by_def)

lemma group_by_keys: "fst ` set (group_by f rows) = f ` set rows"
  by (induction rows rule: rev_induct) (simp_all add: group_by_snoc add_to_group_keys)

lemma group_by_distinct: "distinct (map fst (group_by f rows))"
  by (induction rows rule: rev_induct) (simp_all add: group_by_snoc add_to_group_distinct)

lemma map_of_group_by:
  "map_of (group_by f rows) k = (if k \<in> f ` set rows then Some (filter (\<lambda>r. f r = k) rows) else None)"
proof (induction rows rule: rev_induct)
  case (snoc r rows)
  have "filter (\<lambda>r. f r = k) rows = [] \<longleftrightarrow> k \<notin> f ` set rows" by (auto simp: filter_empty_conv)
  then show ?case using snoc by (auto simp: group_by_snoc map_of_add_to_group)
qed simp

lemma group_by_member: "(k, rs) \<in> set (group_by f rows) \<longleftrightarrow> k \<in> f ` set rows \<and> rs = filter (\<lambda>r. f r = k) rows"
  using map_of_group_by[of f rows k] map_of_eq_Some_iff[OF group_by_distinct, of f rows k rs] by (auto split: if_splits)

lemma sum_of_key_group_by: "sum_of_key amount (group_by f rows) k = group_sum amount (filter (\<lambda>r. f r = k) rows)"
proof (cases "k \<in> f ` set rows")
  case False
  then have "filter (\<lambda>r. f r = k) rows = []" by (auto simp: filter_empty_conv)
  then show ?thesis using False by (simp add: sum_of_key_def map_of_group_by group_sum_def)
qed (simp add: sum_of_key_def map_of_group_by)

section \<open>Exact sums\<close>

definition exact_sums :: "int list \<Rightarrow> bool" where
  "exact_sums xs \<longleftrightarrow> (\<forall>x \<in> set xs. 0 \<le> x) \<and> sum_list xs \<le> max_safe"

lemma exact_sums_simps [simp]: "exact_sums []" "exact_sums (xs @ [x]) \<Longrightarrow> exact_sums xs"
  by (auto simp: exact_sums_def max_safe_def)

lemma exact_sums_safe: "exact_sums xs \<Longrightarrow> safe (sum_list xs)"
  using sum_list_nonneg_int[of xs] by (auto simp: exact_sums_def safe_def max_safe_def)

lemma exact_sums_member: "\<lbrakk>exact_sums xs; x \<in> set xs\<rbrakk> \<Longrightarrow> safe x"
  using member_le_sum_list[of x xs] by (auto simp: exact_sums_def safe_def max_safe_def)

lemma sum_filter_le: "(\<forall>x \<in> set xs. 0 \<le> f x) \<Longrightarrow> sum_list (map f (filter P xs)) \<le> sum_list (map f xs)" for f :: "'a \<Rightarrow> int"
  by (induction xs) auto

lemma exact_sums_filter: "exact_sums (map f xs) \<Longrightarrow> exact_sums (map f (filter P xs))"
  using sum_filter_le[of xs f P] by (auto simp: exact_sums_def)

lemma js_total_exact: "exact_sums xs \<Longrightarrow> js_total xs = sum_list xs"
proof (induction xs rule: rev_induct)
  case (snoc x xs)
  then have "js_total xs = sum_list xs" by simp
  moreover have "safe x" "safe (sum_list xs + x)"
    using snoc.prems exact_sums_member[of "xs @ [x]" x] exact_sums_safe[of "xs @ [x]"] by simp_all
  ultimately show ?case by (simp add: js_total_def)
qed (simp add: js_total_def)

lemma group_sum_exact: "exact_sums (map f rs) \<Longrightarrow> group_sum f rs = sum_list (map f rs)"
  by (simp add: group_sum_def exact_sums_safe)

section \<open>Months\<close>

lemma monthBounds_range:
  assumes "0 \<le> now"
  shows "dr_start (monthBounds now n) = month_day (utc_month_number now - n) * DAY_MS"
    and "dr_end (monthBounds now n) = month_day (utc_month_number now - n + 1) * DAY_MS"
  using utc_year_modern[OF assms]
  by (simp_all add: monthBounds_def Let_def utc_month_start_number utc_month_number_def algebra_simps)

lemma in_range_split: "\<lbrakk>a \<le> b; b \<le> c\<rbrakk> \<Longrightarrow> in_range a c x \<longleftrightarrow> in_range a b x \<or> in_range b c x"
  by (auto simp: in_range_def split: option.splits)

lemma sum_range_split:
  "\<lbrakk>a \<le> b; b \<le> c\<rbrakk> \<Longrightarrow> sum_list (map f (filter (\<lambda>r. in_range a c (t r)) rows)) =
     sum_list (map f (filter (\<lambda>r. in_range a b (t r)) rows)) + sum_list (map f (filter (\<lambda>r. in_range b c (t r)) rows))"
  for f :: "'r \<Rightarrow> int"
  by (induction rows) (auto simp: in_range_def split: option.splits)


text \<open>Consecutive ranges add up to the range they cover.\<close>

lemma sum_ranges:
  fixes f :: "'r \<Rightarrow> int" and s :: "int \<Rightarrow> int"
  assumes "\<And>j. a \<le> j \<Longrightarrow> j < a + int n \<Longrightarrow> s j \<le> s (j + 1)"
  shows "sum_list (map (\<lambda>i. sum_list (map f (filter (\<lambda>r. in_range (s (a + int i)) (s (a + int i + 1)) (t r)) rows))) [0..<n])
     = sum_list (map f (filter (\<lambda>r. in_range (s a) (s (a + int n)) (t r)) rows))"
  using assms
proof (induction n)
  case 0
  then show ?case by (simp add: in_range_def split: option.splits)
next
  case (Suc n)
  have mono: "s a \<le> s (a + int m)" if "m \<le> n" for m
    using that
  proof (induction m)
    case (Suc m)
    then show ?case using Suc.prems \<open>\<And>j. a \<le> j \<Longrightarrow> j < a + int (Suc n) \<Longrightarrow> s j \<le> s (j + 1)\<close>[of "a + int m"]
      by (simp add: ac_simps)
  qed simp
  have le: "s (a + int n) \<le> s (a + int n + 1)" using Suc.prems[of "a + int n"] by simp
  have e: "a + int (Suc n) = a + int n + 1" by simp
  have IH: "sum_list (map (\<lambda>i. sum_list (map f (filter (\<lambda>r. in_range (s (a + int i)) (s (a + int i + 1)) (t r)) rows))) [0..<n])
     = sum_list (map f (filter (\<lambda>r. in_range (s a) (s (a + int n)) (t r)) rows))"
    by (rule Suc.IH) (use Suc.prems in simp)
  show ?case
    unfolding e sum_range_split[OF mono[OF order_refl] le] upt_Suc_append[OF le0] map_append sum_list_append IH by simp
qed


lemma in_range_since: "in_range a b x \<Longrightarrow> c \<le> a \<Longrightarrow> since c x"
  by (auto simp: in_range_def since_def split: option.splits)

lemma filter_range_since: "c \<le> a \<Longrightarrow> filter (\<lambda>r. in_range a b (t r)) (filter (\<lambda>r. since c (t r) \<and> P r) rows) =
    filter (\<lambda>r. in_range a b (t r)) (filter P rows)"
  by (induction rows) (auto simp: in_range_since)

definition trend_invoiced :: "scope \<Rightarrow> dash_db \<Rightarrow> string option \<Rightarrow> int \<Rightarrow> int \<Rightarrow> int" where
  "trend_invoiced sc d brandId s e = js_total (map i_totalMinor (filter (\<lambda>r. in_range s e (i_issuedAt r))
     (filter (\<lambda>r. i_status r \<noteq> CANCELLED) (dash_invoices sc brandId d))))"

definition trend_collected :: "scope \<Rightarrow> dash_db \<Rightarrow> string option \<Rightarrow> int \<Rightarrow> int \<Rightarrow> int" where
  "trend_collected sc d brandId s e = js_total (map p_amountMinor (filter (\<lambda>r. in_range s e (p_settledAt r))
     (filter (\<lambda>r. p_status r = SETTLED) (dash_payments sc brandId d))))"

lemma trend_months_starts:
  assumes "0 \<le> now" "m \<in> set (trend_months now)"
  shows "dr_start (monthBounds now 5) \<le> dr_start m"
  using assms(2) by (auto simp: trend_months_def monthBounds_range[OF assms(1)] intro!: month_start_le)

lemma trend_sums:
  assumes "0 \<le> now"
  shows "map tp_invoicedMinor (getTrend sc now d brandId) = map (\<lambda>m. trend_invoiced sc d brandId (dr_start m) (dr_end m)) (trend_months now)"
    and "map tp_collectedMinor (getTrend sc now d brandId) = map (\<lambda>m. trend_collected sc d brandId (dr_start m) (dr_end m)) (trend_months now)"
proof -
  have h: "dr_start (hd (trend_months now)) = dr_start (monthBounds now 5)" by (simp add: trend_months_def)
  note f = filter_range_since[OF trend_months_starts[OF assms]]
  have c: "filter (\<lambda>r. p_status r = SETTLED \<and> since x (p_settledAt r)) rows = filter (\<lambda>r. since x (p_settledAt r) \<and> p_status r = SETTLED) rows"
    for x rows by (simp add: conj_commute)
  show "map tp_invoicedMinor (getTrend sc now d brandId) = map (\<lambda>m. trend_invoiced sc d brandId (dr_start m) (dr_end m)) (trend_months now)"
    unfolding getTrend_def Let_def h trend_invoiced_def by (simp add: f del: filter_filter cong: map_cong)
  show "map tp_collectedMinor (getTrend sc now d brandId) = map (\<lambda>m. trend_collected sc d brandId (dr_start m) (dr_end m)) (trend_months now)"
    unfolding getTrend_def Let_def h c trend_collected_def by (simp add: f del: filter_filter cong: map_cong)
qed

lemma six_months: "map (\<lambda>m. g (dr_start m) (dr_end m)) (trend_months now) =
    map (\<lambda>i. g (month_day (utc_month_number now - 5 + int i) * DAY_MS) (month_day (utc_month_number now - 5 + int i + 1) * DAY_MS)) [0..<6]"
  if "0 \<le> now"
  using that by (simp add: trend_months_def monthBounds_range upt_rec numeral_eq_Suc add.commute)

lemma trend_window:
  assumes "0 \<le> now"
  shows "dr_start (monthBounds now 5) = month_day (utc_month_number now - 5) * DAY_MS"
    "dr_end (monthBounds now 0) = month_day (utc_month_number now - 5 + int 6) * DAY_MS"
  using monthBounds_range[OF assms] by (simp_all add: algebra_simps)

lemma trend_sum_exact:
  assumes now: "0 \<le> now" and f: "exact_sums (map f rows)"
  shows "sum_list (map (\<lambda>m. js_total (map f (filter (\<lambda>r. in_range (dr_start m) (dr_end m) (t r)) rows))) (trend_months now)) =
    sum_list (map f (filter (\<lambda>r. in_range (dr_start (monthBounds now 5)) (dr_end (monthBounds now 0)) (t r)) rows))"
proof -
  have e: "js_total (map f (filter P rows)) = sum_list (map f (filter P rows))" for P
    by (intro js_total_exact exact_sums_filter f)
  show ?thesis
    unfolding e trend_window[OF now]
      six_months[OF now, where g = "\<lambda>a b. sum_list (map f (filter (\<lambda>r. in_range a b (t r)) rows))"]
    by (rule sum_ranges[where s = "\<lambda>k. month_day k * DAY_MS"]) (simp add: month_start_le)
qed


section \<open>Ratios\<close>

lemma js_ratio_bounds: "\<lbrakk>0 \<le> part; part \<le> whole\<rbrakk> \<Longrightarrow> 0 \<le> js_ratio part whole \<and> js_ratio part whole \<le> 1"
  by (auto simp: js_ratio_def js_divide_def intro!: to_double_nonneg to_double_le_1)

section \<open>Buckets\<close>

lemma sum_add_to_group:
  "sum_list (map (\<lambda>(k, rs). if Q k then sum_list (map f rs) else 0) (add_to_group k r gs)) =
   sum_list (map (\<lambda>(k, rs). if Q k then sum_list (map f rs) else 0) gs) + (if Q k then f r else (0 :: int))"
  by (induction k r gs rule: add_to_group.induct) auto

lemma sum_group_by:
  "sum_list (map (\<lambda>(k, rs). if Q k then sum_list (map f rs) else 0) (group_by key rows)) =
   sum_list (map f (filter (\<lambda>r. Q (key r)) rows))" for f :: "'r \<Rightarrow> int"
  by (induction rows rule: rev_induct) (simp_all add: group_by_snoc sum_add_to_group)

lemma sum_group_by_all:
  "sum_list (map (\<lambda>(k, rs). sum_list (map f rs)) (group_by key rows)) = sum_list (map f rows)" for f :: "'r \<Rightarrow> int"
  using sum_group_by[of "\<lambda>_. True" f key rows] by (simp add: case_prod_beta)

definition bucket_sum :: "status_bucket \<Rightarrow> ((invoice_status \<times> bool) \<times> invoice_row list) list \<Rightarrow> int" where
  "bucket_sum b gs = sum_list (map (\<lambda>(k, rs). if bucketFor (fst k) (snd k) = Some b then sum_list (map i_totalMinor rs) else 0) gs)"

definition group_sums :: "((invoice_status \<times> bool) \<times> invoice_row list) list \<Rightarrow> int list" where
  "group_sums gs = map (\<lambda>(k, rs). sum_list (map i_totalMinor rs)) gs"

lemma bucket_sum_snoc: "bucket_sum b (gs @ [((s, v), rs)]) = bucket_sum b gs + (if bucketFor s v = Some b then sum_list (map i_totalMinor rs) else 0)"
  by (simp add: bucket_sum_def)

lemma bucket_sum_le: "\<forall>x \<in> set (group_sums gs). 0 \<le> x \<Longrightarrow> 0 \<le> bucket_sum b gs \<and> bucket_sum b gs \<le> sum_list (group_sums gs)"
  by (induction gs) (auto simp: bucket_sum_def group_sums_def)

lemma bucket_totals_snoc: "bucket_totals (gs @ [((s, v), rs)]) = (case bucketFor s v of None \<Rightarrow> bucket_totals gs
     | Some b \<Rightarrow> AList.update b (int_add (case map_of (bucket_totals gs) b of None \<Rightarrow> 0 | Some x \<Rightarrow> x) (group_sum i_totalMinor rs)) (bucket_totals gs))"
  unfolding bucket_totals_def by simp

lemma bucket_totals_distinct: "distinct (map fst (bucket_totals gs))"
proof (induction gs rule: rev_induct)
  case (snoc g gs)
  obtain s v rs where g: "g = ((s, v), rs)" by (metis surj_pair)
  show ?case using snoc unfolding g bucket_totals_snoc by (auto simp: distinct_update split: option.splits)
qed (simp add: bucket_totals_def)

lemma bucket_sum_none: "\<not> (\<exists>(k, rs) \<in> set gs. bucketFor (fst k) (snd k) = Some b) \<Longrightarrow> bucket_sum b gs = 0"
  unfolding bucket_sum_def by (induction gs) (auto split: prod.splits)

lemma bucket_totals_map:
  assumes "exact_sums (group_sums gs)"
  shows "map_of (bucket_totals gs) b = (if \<exists>(k, rs) \<in> set gs. bucketFor (fst k) (snd k) = Some b then Some (bucket_sum b gs) else None)"
  using assms
proof (induction gs arbitrary: b rule: rev_induct)
  case (snoc g gs)
  obtain s v rs where g: "g = ((s, v), rs)" by (metis surj_pair)
  have ex: "exact_sums (group_sums gs)" and pos: "\<forall>x \<in> set (group_sums (gs @ [g])). 0 \<le> x"
    and total: "sum_list (group_sums gs) + sum_list (map i_totalMinor rs) \<le> max_safe" and rs: "0 \<le> sum_list (map i_totalMinor rs)"
    using snoc.prems unfolding g by (auto simp: group_sums_def exact_sums_def)
  note IH = snoc.IH[OF ex]
  have gs: "group_sum i_totalMinor rs = sum_list (map i_totalMinor rs)" and
    add: "int_add (bucket_sum x gs) (sum_list (map i_totalMinor rs)) = bucket_sum x gs + sum_list (map i_totalMinor rs)"
    "int_add 0 (sum_list (map i_totalMinor rs)) = sum_list (map i_totalMinor rs)" for x
    using bucket_sum_le[of gs x] pos total rs sum_list_nonneg_int[of "group_sums gs"]
    by (auto simp: group_sum_def safe_def max_safe_def group_sums_def intro!: int_add_safe round_double_safe)
  note none = bucket_sum_none
  show ?case
  proof (cases "bucketFor s v")
    case None
    then show ?thesis using IH unfolding g bucket_totals_snoc bucket_sum_snoc by auto
  next
    case (Some c)
    show ?thesis
      unfolding g bucket_totals_snoc bucket_sum_snoc Some option.case update_conv' IH[of c] gs
      using IH[of b] none[where b = b] by (auto simp: add Some)
  qed
qed (simp add: bucket_totals_def)

lemma foldl_int_add: "exact_sums xs \<Longrightarrow> foldl int_add 0 xs = sum_list xs"
proof (induction xs rule: rev_induct)
  case (snoc x xs)
  then show ?case using exact_sums_safe[of "xs @ [x]"] by simp
qed simp

lemma sum_map_snd: "distinct (map fst al) \<Longrightarrow> sum_list (map snd al) = (\<Sum>k \<in> dom (map_of al). the (map_of al k))" for al :: "('k \<times> int) list"
  by (simp add: dom_map_of_conv_image_fst sum.reindex distinct_map flip: sum_list_distinct_conv_sum_set)
    (smt (verit, best) map_eq_conv map_of_is_SomeI distinct_map option.sel prod.collapse)

lemma status_bucket_order_all: "set status_bucket_order = UNIV" "distinct status_bucket_order"
  by (auto simp: status_bucket_order_def intro: status_bucket.exhaust)


lemma finite_buckets [simp]: "finite (A :: status_bucket set)"
proof -
  have "finite (UNIV :: status_bucket set)" unfolding status_bucket_order_all(1)[symmetric] by (rule finite_set)
  then show ?thesis by (rule finite_subset[OF subset_UNIV])
qed

lemma sum_buckets:
  "\<forall>r \<in> set rows. \<exists>b. g r = Some b \<Longrightarrow>
     (\<Sum>b \<in> (UNIV :: status_bucket set). sum_list (map f (filter (\<lambda>r. g r = Some b) rows))) = sum_list (map f rows)" for f :: "'r \<Rightarrow> int"
proof (induction rows)
  case (Cons r rows)
  then obtain c where c: "g r = Some c" by auto
  have "sum_list (map f (filter (\<lambda>r. g r = Some b) (r # rows))) = (if c = b then f r else 0) + sum_list (map f (filter (\<lambda>r. g r = Some b) rows))" for b
    using c by auto
  then show ?case using Cons by (simp add: sum.distrib)
qed simp


end
