(* ===== verification/DashboardReports.thy ===== *)
theory DashboardReports
  imports DashboardTotals
begin

text \<open>
  What the dashboard shows: the roll-up agrees with the headline figures, the trend and the status breakdown account for
  every row once, reports name only brands the scope sees, and a retry replays the job it is asked for.
\<close>

section \<open>The roll-up and the headline figures\<close>

lemma dominant_currency_source: "dominant_currency first gs = first \<or> dominant_currency first gs \<in> fst ` set gs"
proof -
  have "fst (foldl (\<lambda>(dominant, dominantTotal) (cur, rs). let total = group_sum i_totalMinor rs in
      if dominantTotal < total then (cur, total) else (dominant, dominantTotal)) (x, n) gs) \<in> insert x (fst ` set gs)" for x n
  proof (induction gs arbitrary: x n)
    case (Cons g gs)
    obtain cur rs where g: "g = (cur, rs)" by (cases g)
    show ?case
      using Cons.IH[of cur "group_sum i_totalMinor rs"] Cons.IH[of x n] unfolding g by (auto simp: Let_def)
  qed simp
  then show ?thesis by (auto simp: dominant_currency_def)
qed

lemma group_sum_Nil [simp]: "group_sum f [] = 0"
  by (simp add: group_sum_def)

lemma brand_filter:
  assumes "b \<noteq> []"
  shows "filter (\<lambda>r. i_brandId r = b) (filter P (dash_invoices sc None d)) = filter P (dash_invoices sc (Some b) d)"
    and "filter (\<lambda>r. p_brandId r = b) (filter Q (dash_payments sc None d)) = filter Q (dash_payments sc (Some b) d)"
  using assms by (auto simp: dash_invoices_def dash_payments_def for_brand_def conj_ac cong: filter_cong)

lemma summary_one_currency:
  assumes "\<forall>r \<in> set (dash_invoices sc brandId d). i_currency r = c" "\<forall>p \<in> set (dash_payments sc brandId d). p_currency p = c"
  shows "dm_invoicedMinor (getSummary sc now d brandId rng) = group_sum i_totalMinor (filter (invoiced_in (range_bounds now rng)) (dash_invoices sc brandId d))"
    and "dm_collectedMinor (getSummary sc now d brandId rng) = group_sum p_amountMinor (filter (collected_in (range_bounds now rng)) (dash_payments sc brandId d))"
    and "dm_overdueMinor (getSummary sc now d brandId rng) = group_sum i_balanceMinor (filter i_overdue (dash_invoices sc brandId d))"
    and "dm_collectionRate (getSummary sc now d brandId rng) = js_ratio (dm_collectedMinor (getSummary sc now d brandId rng)) (dm_invoicedMinor (getSummary sc now d brandId rng))"
proof -
  define I P V where "I = filter (invoiced_in (range_bounds now rng)) (dash_invoices sc brandId d)"
    and "P = filter (collected_in (range_bounds now rng)) (dash_payments sc brandId d)"
    and "V = filter i_overdue (dash_invoices sc brandId d)"
  have one: "filter (\<lambda>r. i_currency r = c) I = I" "filter (\<lambda>p. p_currency p = c) P = P" "filter (\<lambda>r. i_currency r = c) V = V"
    using assms unfolding I_def P_def V_def by (simp_all add: filter_id_conv del: filter_filter)
  have keys: "fst ` set (group_by i_currency I) \<subseteq> {c}" "fst ` set (group_by p_currency P) \<subseteq> {c}" "fst ` set (group_by i_currency V) \<subseteq> {c}"
    using assms unfolding group_by_keys I_def P_def V_def by auto
  have empty: "I = []" "P = []" "V = []"
    if "map fst (group_by i_currency I) @ map fst (group_by p_currency P) @ map fst (group_by i_currency V) = []"
    using that group_by_keys[of i_currency I] group_by_keys[of p_currency P] group_by_keys[of i_currency V] by auto
  have dom: "dominant_currency x (group_by i_currency I) = c"
    if "map fst (group_by i_currency I) @ map fst (group_by p_currency P) @ map fst (group_by i_currency V) = x # xs" for x xs
  proof -
    have "x \<in> set (map fst (group_by i_currency I) @ map fst (group_by p_currency P) @ map fst (group_by i_currency V))"
      unfolding that by simp
    then show ?thesis using keys dominant_currency_source[of x "group_by i_currency I"] by auto
  qed
  let ?s = "getSummary sc now d brandId rng"
  let ?keys = "map fst (group_by i_currency I) @ map fst (group_by p_currency P) @ map fst (group_by i_currency V)"
  note s = getSummary_def[of sc now d brandId rng, unfolded Let_def I_def[symmetric] P_def[symmetric] V_def[symmetric]]
  have cases_s: "dm_invoicedMinor ?s = group_sum i_totalMinor I \<and> dm_collectedMinor ?s = group_sum p_amountMinor P \<and>
      dm_overdueMinor ?s = group_sum i_balanceMinor V \<and> dm_collectionRate ?s = js_ratio (dm_collectedMinor ?s) (dm_invoicedMinor ?s)"
  proof (cases ?keys)
    case Nil
    show ?thesis unfolding s Nil empty[OF Nil] by (simp add: js_ratio_def)
  next
    case (Cons x xs)
    show ?thesis unfolding s Cons by (simp add: dom[OF Cons] sum_of_key_group_by one del: filter_filter)
  qed
  show "dm_invoicedMinor (getSummary sc now d brandId rng) = group_sum i_totalMinor I"
    "dm_collectedMinor (getSummary sc now d brandId rng) = group_sum p_amountMinor P"
    "dm_overdueMinor (getSummary sc now d brandId rng) = group_sum i_balanceMinor V"
    "dm_collectionRate (getSummary sc now d brandId rng) = js_ratio (dm_collectedMinor (getSummary sc now d brandId rng)) (dm_invoicedMinor (getSummary sc now d brandId rng))"
    using cases_s by simp_all
qed

lemma getByBrand_row:
  "row \<in> set (getByBrand sc now d rng) \<Longrightarrow> \<exists>b \<in> set (dash_brands sc d). b_id b = br_brandId row \<and>
     br_invoicedMinor row = sum_of_key i_totalMinor (group_by i_brandId (filter (invoiced_in (range_bounds now rng)) (dash_invoices sc None d))) (b_id b) \<and>
     br_collectedMinor row = sum_of_key p_amountMinor (group_by p_brandId (filter (collected_in (range_bounds now rng)) (dash_payments sc None d))) (b_id b) \<and>
     br_overdueMinor row = sum_of_key i_balanceMinor (group_by i_brandId (filter i_overdue (dash_invoices sc None d))) (b_id b) \<and>
     br_collectionRate row = js_ratio (br_collectedMinor row) (br_invoicedMinor row)"
  unfolding getByBrand_def Let_def set_map set_sort by (elim imageE, erule bexI[rotated], simp)


section \<open>What a report shows\<close>

lemma dash_brand_of_sees: "dash_brand_of sc d b = Inr r \<Longrightarrow> dash_sees sc d b"
  by (auto simp: dash_brand_of_def dash_brands_def dest!: find_Some_iff')

lemma rmapM_all:
  assumes "rmapM f xs = Inr ys" "\<And>x y. f x = Inr y \<Longrightarrow> P y"
  shows "list_all P ys"
  using rmapM_source[OF assms(1)] assms(2) by (auto simp: list_all_iff)

lemma attention_items_sees:
  "job_item sc d brandId j = Inr x \<Longrightarrow> dash_sees sc d (at_brandId x)"
  "attention_of_invoice sc d brandId kind detail occurred r = Inr x \<Longrightarrow> dash_sees sc d (at_brandId x)"
  by (auto simp: job_item_def attention_of_invoice_def rbind_eq_Inr dest: dash_brand_of_sees)

lemma activity_sees: "brand_activity sc d brandId kind b t m = Inr x \<Longrightarrow> dash_sees sc d (ac_brandId x)"
  by (auto simp: brand_activity_def rbind_eq_Inr dest: dash_brand_of_sees)

lemma issue_activity_sees: "issue_activity sc d brandId e = Inr x \<Longrightarrow> dash_sees sc d (ac_brandId x)"
  by (auto simp: issue_activity_def rbind_eq_Inr dest: activity_sees)

lemma payment_activity_sees: "payment_activity display sc d brandId p = Inr x \<Longrightarrow> dash_sees sc d (ac_brandId x)"
  unfolding payment_activity_def by (rule activity_sees)

lemma overdue_customers_sees: "getTopOverdueCustomers sc now d brandId = Inr rows \<Longrightarrow> list_all (\<lambda>x. dash_sees sc d (oc_brandId x)) rows"
proof -
  assume a: "getTopOverdueCustomers sc now d brandId = Inr rows"
  then obtain grouped byId where "rmapM (\<lambda>c. rbind (dash_brand_of sc d (c_brandId c)) (\<lambda>b. Inr (c_id c, c, b)))
      (filter (\<lambda>c. c_id c \<in> fst ` set grouped) (dash_customers sc None d)) = Inr byId"
    and rows: "rows = concat (map (\<lambda>(cid, rs). case map_of (rev byId) cid of None \<Rightarrow> []
           | Some (c, b) \<Rightarrow> [\<lparr> oc_customerId = cid, oc_displayName = c_displayName c, oc_brandId = c_brandId c,
               oc_brandName = shown_brand brandId (b_displayName b), oc_balanceMinor = group_sum i_balanceMinor rs,
               oc_daysOverdue = daysBetween (latest_due rs) now \<rparr>]) grouped)"
    unfolding getTopOverdueCustomers_def Let_def by (auto simp: rbind_eq_Inr)
  then have "list_all (\<lambda>x. dash_sees sc d (c_brandId (fst (snd x)))) byId"
    by (rule_tac rmapM_all) (auto simp: rbind_eq_Inr dest: dash_brand_of_sees)
  then show ?thesis
    unfolding rows by (fastforce simp: list_all_iff split: option.splits prod.splits dest!: map_of_SomeD[OF sym])
qed

lemma attention_sees: "getNeedsAttention sc now d brandId = Inr a \<Longrightarrow> list_all (\<lambda>x. dash_sees sc d (at_brandId x)) (ar_items a)"
proof -
  assume "getNeedsAttention sc now d brandId = Inr a"
  then obtain failed due drafts detail where r: "rmapM (job_item sc d brandId) (failed_jobs sc d brandId) = Inr failed"
    "rmapM (attention_of_invoice sc d brandId DUE_SOON (\<lambda>_. ''Payment due within 24 hours'') i_dueDate) (due_soon now (dash_invoices sc brandId d)) = Inr due"
    "rmapM (attention_of_invoice sc d brandId STALE_DRAFT detail i_createdAt) (stale_drafts now (dash_invoices sc brandId d)) = Inr drafts"
    and a: "ar_items a = take 5 (failed @ due @ drafts)"
    unfolding getNeedsAttention_def Let_def by (auto simp: rbind_eq_Inr)
  have "list_all (\<lambda>x. dash_sees sc d (at_brandId x)) (failed @ due @ drafts)"
    unfolding list_all_append by (intro conjI) (rule rmapM_all[OF r(1)] rmapM_all[OF r(2)] rmapM_all[OF r(3)], erule attention_items_sees)+
  then show ?thesis unfolding a by (auto simp: list_all_iff dest: in_set_takeD)
qed

lemma recent_activity_sees: "getRecentActivity display sc d brandId = Inr rows \<Longrightarrow> list_all (\<lambda>x. dash_sees sc d (ac_brandId x)) rows"
proof -
  assume "getRecentActivity display sc d brandId = Inr rows"
  then obtain ps es cs us P and C U :: "dash_customer list" where r: "rmapM (payment_activity display sc d brandId) P = Inr ps"
    "rmapM (issue_activity sc d brandId) (issue_events sc d brandId) = Inr es"
    "rmapM (\<lambda>c. brand_activity sc d brandId CUSTOMER_ADDED (c_brandId c) (dc_createdAt c) (Inr (''New customer '' @ c_displayName c @ '' added''))) C = Inr cs"
    "rmapM (\<lambda>c. brand_activity sc d brandId CUSTOMER_UPDATED (c_brandId c) (dc_updatedAt c) (Inr (''Customer '' @ c_displayName c @ '' updated''))) U = Inr us"
    and rows: "rows = take 10 (newest_first ac_occurredAt (ps @ es @ cs @ us))"
    unfolding getRecentActivity_def Let_def rbind_eq_Inr by (elim exE conjE) (rule that, assumption, assumption, assumption, assumption, simp)
  have "list_all (\<lambda>x. dash_sees sc d (ac_brandId x)) (ps @ es @ cs @ us)"
    unfolding list_all_append
    by (intro conjI) (rule rmapM_all[OF r(1)] rmapM_all[OF r(2)] rmapM_all[OF r(3)] rmapM_all[OF r(4)],
      erule payment_activity_sees issue_activity_sees activity_sees)+
  then show ?thesis unfolding rows by (auto simp: list_all_iff newest_first_def dest: in_set_takeD)
qed

lemma by_brand_sees: "list_all (\<lambda>x. dash_sees sc d (br_brandId x)) (getByBrand sc now d rng)"
proof -
  have "dash_sees sc d (br_brandId row)" if r: "row \<in> set (getByBrand sc now d rng)" for row
  proof -
    obtain b :: dash_brand where "b \<in> set (dash_brands sc d)" "b_id b = br_brandId row" using getByBrand_row[OF r] by blast
    then show ?thesis by (auto simp: dash_brands_def)
  qed
  then show ?thesis by (simp add: list_all_iff)
qed

section \<open>The retry of a sync job\<close>

lemma retry_outcome:
  "case find (\<lambda>j. dash_sees sc d (dj_brandId j) \<and> dj_id j = jobId) (dd_jobs d) of
     None \<Rightarrow> retrySyncJob sc d jobId q = (Inl (NotFoundErr ''sync job not found''), q)
   | Some j \<Rightarrow>
       (if dj_direction j = PULL then retrySyncJob sc d jobId q = (Inr (), q @ [RetryPull (dj_brandId j) True])
        else if nonempty (dj_objectId j) \<and> dj_objectType j \<in> {''CUSTOMER'', ''INVOICE'', ''PAYMENT''}
        then \<exists>t. retry_push (dj_objectType j) (dj_brandId j) (the (dj_objectId j)) = Some t \<and>
               retrySyncJob sc d jobId q = (Inr (), q @ [RetryPush t])
        else retrySyncJob sc d jobId q = (Inl (BadRequest (''cannot retry a PUSH/'' @ dj_objectType j @ '' sync job'')), q))"
  by (auto simp: retrySyncJob_def retry_push_def ethrow_def emodify_def split: option.splits)

section \<open>A merchant with two brands\<close>

definition dash_scope :: scope where
  "dash_scope = RequestScope \<lparr> rs_merchantId = ''m1'', rs_userId = ''owner'', rs_role = MERCHANT_OWNER, rs_assignedBrandIds = [],
     rs_sessionId = ''s1'', rs_sourceIp = None \<rparr>"

text \<open>The clock stands at 12 October 2025; the invoices were issued in October and in July.\<close>

definition dash_now :: int where
  "dash_now = 1760227200000"

definition dash_sample :: dash_db where
  "dash_sample = \<lparr>
     dd_brands = [\<lparr> b_id = ''b1'', b_merchantId = ''m1'', b_displayName = ''Brand'', b_currency = ''USD'', b_themeColor = ''#2D6A6A'', b_createdAt = 1 \<rparr>,
       \<lparr> b_id = ''b2'', b_merchantId = ''m1'', b_displayName = ''Other'', b_currency = ''EUR'', b_themeColor = ''#000000'', b_createdAt = 2 \<rparr>],
     dd_customers = [\<lparr> c_id = ''c1'', c_brandId = ''b1'', c_displayName = ''Acme'', c_email = Some ''a@acme.test'', dc_active = True, dc_createdAt = 1, dc_updatedAt = 1 \<rparr>],
     dd_invoices = [(sample_invoice ''i1'' ''INV-1'' SENT 1000)\<lparr> i_issuedAt := Some 1760140800000 \<rparr>,
       (sample_invoice ''i2'' ''INV-2'' PARTIALLY_PAID 500)\<lparr> i_issuedAt := Some 1752537600000, i_overdue := True, i_balanceMinor := 200 \<rparr>,
       (sample_invoice ''i3'' ''INV-3'' CANCELLED 700)\<lparr> i_issuedAt := Some 1752537600000 \<rparr>],
     dd_payments = [\<lparr> p_id = ''p1'', p_invoiceId = ''i2'', p_brandId = ''b1'', p_method = CARD, p_amountMinor = 300, p_currency = ''USD'', p_status = SETTLED,
       p_gatewayReference = None, p_idempotencyKey = ''k1'', p_lastEventAt = None, p_declineReason = None, p_settledAt = Some 1760140800001, p_createdAt = 1 \<rparr>],
     dd_events = [], dd_jobs = [], dd_connections = [] \<rparr>"

lemma sample_rows:
  "map i_totalMinor (dash_invoices dash_scope brandId dash_sample) = [1000, 500, 700]"
  "map p_amountMinor (dash_payments dash_scope brandId dash_sample) = [300]"
  "list_all (\<lambda>r. i_currency r = ''USD'') (dash_invoices dash_scope brandId dash_sample)"
  "list_all (\<lambda>r. p_currency r = ''USD'') (dash_payments dash_scope brandId dash_sample)"
  if "brandId = None \<or> brandId = Some ''b1''"
  using that by (elim disjE; simp only:; code_simp)+

lemma sample_live: "map i_totalMinor (filter (\<lambda>r. i_status r \<noteq> CANCELLED) (dash_invoices dash_scope None dash_sample)) = [1000, 500]"
  by code_simp

lemma rollup_brands: "map br_brandId (getByBrand sc now d rng) = map b_id (sort_key b_createdAt (dash_brands sc d))"
  by (simp add: getByBrand_def Let_def comp_def)

lemma sample_brands: "map br_brandId (getByBrand dash_scope dash_now dash_sample None) = [''b1'', ''b2'']"
  unfolding rollup_brands by code_simp

section \<open>Properties\<close>

text \<open>C22: 
  The six points of the trend partition its window: it starts five months before the current month and ends with it, the
  present lies in it, and the amounts of the points add up to those of all invoices issued (payments settled) in it, each
  counted in exactly one month.
\<close>

theorem trend_covers_six_months:
  assumes "0 \<le> now"
    and "exact_sums (map i_totalMinor (dash_invoices sc brandId d))"
    and "exact_sums (map p_amountMinor (dash_payments sc brandId d))"
  shows "let points = getTrend sc now d brandId;
             window = (dr_start (monthBounds now 5), dr_end (monthBounds now 0))
         in length points = 6 \<and> fst window \<le> now \<and> now < snd window \<and>
            sum_list (map tp_invoicedMinor points) = sum_list (map i_totalMinor (filter (invoiced_in window) (dash_invoices sc brandId d))) \<and>
            sum_list (map tp_collectedMinor points) = sum_list (map p_amountMinor (filter (collected_in window) (dash_payments sc brandId d)))"
proof -
  have len: "length (getTrend sc now d brandId) = 6" by (simp add: getTrend_def trend_months_def Let_def)
  have lo: "dr_start (monthBounds now 5) \<le> now"
    using month_contains[of now] month_start_le[of "utc_month_number now - 5" "utc_month_number now"]
    unfolding monthBounds_range[OF assms(1)] by linarith
  have hi: "now < dr_end (monthBounds now 0)"
    using month_contains[of now] unfolding monthBounds_range[OF assms(1)] by simp
  have i: "filter (\<lambda>r. in_range a b (i_issuedAt r)) (filter (\<lambda>r. i_status r \<noteq> CANCELLED) rows) = filter (invoiced_in (a, b)) rows" for a b rows
    by (simp add: invoiced_in_def conj_commute cong: filter_cong)
  have p: "filter (\<lambda>r. in_range a b (p_settledAt r)) (filter (\<lambda>r. p_status r = SETTLED) rows) = filter (collected_in (a, b)) rows" for a b rows
    by (simp add: collected_in_def conj_commute cong: filter_cong)
  show ?thesis
    unfolding Let_def trend_sums[OF assms(1)] trend_invoiced_def trend_collected_def
      trend_sum_exact[OF assms(1) exact_sums_filter[OF assms(2)]] trend_sum_exact[OF assms(1) exact_sums_filter[OF assms(3)]]
    unfolding i p using len lo hi by simp
qed

theorem trend_covers_six_months_witness:
  "sum_list (map tp_invoicedMinor (getTrend dash_scope dash_now dash_sample None)) = 1500 \<and>
   sum_list (map tp_collectedMinor (getTrend dash_scope dash_now dash_sample None)) = 300"
proof -
  have w: "(dr_start (monthBounds dash_now 5), dr_end (monthBounds dash_now 0)) = (1746057600000, 1761955200000)" by code_simp
  have s: "sum_list (map i_totalMinor (filter (invoiced_in (1746057600000, 1761955200000)) (dash_invoices dash_scope None dash_sample))) = 1500"
    "sum_list (map p_amountMinor (filter (collected_in (1746057600000, 1761955200000)) (dash_payments dash_scope None dash_sample))) = 300"
    by code_simp+
  have e: "exact_sums (map i_totalMinor (dash_invoices dash_scope None dash_sample))" "exact_sums (map p_amountMinor (dash_payments dash_scope None dash_sample))"
    by (simp_all add: sample_rows exact_sums_def max_safe_def)
  show ?thesis using trend_covers_six_months[OF _ e, of dash_now] unfolding w Let_def s by (simp add: dash_now_def)
qed

text \<open>C23: 
  The status breakdown splits the non-cancelled invoices: every bucket appears once, its amount is the total of exactly the
  invoices that fall in it, the amounts add up to the total, and every share is a number from 0 to 1.
\<close>

theorem status_breakdown_shares:
  assumes "exact_sums (map i_totalMinor (dash_invoices sc brandId d))"
  shows "let shares = getStatusBreakdown sc d brandId;
             live = filter (\<lambda>r. i_status r \<noteq> CANCELLED) (dash_invoices sc brandId d)
         in distinct (map bs_bucket shares) \<and> sum_list (map bs_amountMinor shares) = sum_list (map i_totalMinor live) \<and>
            list_all (\<lambda>s. bs_amountMinor s = sum_list (map i_totalMinor (filter (\<lambda>r. bucketFor (i_status r) (i_overdue r) = Some (bs_bucket s)) live)) \<and>
              0 \<le> bs_percent s \<and> bs_percent s \<le> 1) shares"
proof -
  define live where "live = filter (\<lambda>r. i_status r \<noteq> CANCELLED) (dash_invoices sc brandId d)"
  define gs where "gs = group_by (\<lambda>r. (i_status r, i_overdue r)) live"
  define totals where "totals = bucket_totals gs"
  have ex: "exact_sums (map i_totalMinor live)" unfolding live_def by (rule exact_sums_filter[OF assms])
  have pos: "\<forall>x \<in> set (group_sums gs). 0 \<le> x"
    using ex by (auto simp: group_sums_def gs_def group_by_member exact_sums_def intro!: sum_list_nonneg_int)
  have total: "sum_list (group_sums gs) = sum_list (map i_totalMinor live)"
    by (simp add: group_sums_def gs_def sum_group_by_all)
  have exg: "exact_sums (group_sums gs)" using ex pos total by (simp add: exact_sums_def)
  have amount: "bucket_sum b gs = sum_list (map i_totalMinor (filter (\<lambda>r. bucketFor (i_status r) (i_overdue r) = Some b) live))" for b
    using sum_group_by[of "\<lambda>k. bucketFor (fst k) (snd k) = Some b" i_totalMinor "\<lambda>r. (i_status r, i_overdue r)" live]
    by (simp add: bucket_sum_def gs_def)
  note m = bucket_totals_map[OF exg, folded totals_def]
  have bounds: "0 \<le> bucket_sum b gs" "bucket_sum b gs \<le> sum_list (map i_totalMinor live)" for b
    using bucket_sum_le[OF pos, of b] total by simp_all
  have dist: "distinct (map fst totals)" unfolding totals_def by (rule bucket_totals_distinct)
  have live_bucket: "\<exists>b. bucketFor (i_status r) (i_overdue r) = Some b" if "r \<in> set live" for r
    using that by (auto simp: live_def bucketFor_def)
  have "sum_list (map snd totals) = (\<Sum>b \<in> dom (map_of totals). bucket_sum b gs)"
    unfolding sum_map_snd[OF dist] by (intro sum.cong) (auto simp: m split: if_splits)
  also have "\<dots> = (\<Sum>b \<in> UNIV. bucket_sum b gs)"
    by (rule sum.mono_neutral_left) (auto simp: m dom_def intro!: bucket_sum_none)
  also have "\<dots> = sum_list (map i_totalMinor live)"
    unfolding amount by (rule sum_buckets) (use live_bucket in blast)
  finally have grand: "sum_list (map snd totals) = sum_list (map i_totalMinor live)" .
  have exs: "exact_sums (map snd totals)"
    using dist bounds grand ex by (auto simp: exact_sums_def m split: if_splits dest!: map_of_is_SomeI)
  have order: "filter (\<lambda>b. map_of totals b \<noteq> None) status_bucket_order = bs" "set bs = dom (map_of totals)" "distinct bs"
    if "bs = filter (\<lambda>b. map_of totals b \<noteq> None) status_bucket_order" for bs
    using that status_bucket_order_all by auto
  define bs where "bs = filter (\<lambda>b. map_of totals b \<noteq> None) status_bucket_order"
  note b = order[OF bs_def]
  have shares: "getStatusBreakdown sc d brandId = map (\<lambda>b. \<lparr> bs_bucket = b, bs_amountMinor = bucket_sum b gs,
      bs_percent = js_ratio (bucket_sum b gs) (sum_list (map i_totalMinor live)) \<rparr>) bs"
    unfolding getStatusBreakdown_def Let_def live_def[symmetric] gs_def[symmetric] totals_def[symmetric] bs_def[symmetric]
      foldl_int_add[OF exs] grand
    by (rule map_cong[OF refl]) (use b in \<open>auto simp: m split: if_splits\<close>)
  have "sum_list (map (\<lambda>x. bucket_sum x gs) bs) = (\<Sum>x \<in> dom (map_of totals). bucket_sum x gs)"
    using b by (simp add: sum_list_distinct_conv_sum_set)
  also have "\<dots> = sum_list (map snd totals)"
    unfolding sum_map_snd[OF dist] by (intro sum.cong) (auto simp: m split: if_splits)
  finally have sum: "sum_list (map (\<lambda>x. bucket_sum x gs) bs) = sum_list (map i_totalMinor live)" unfolding grand .
  show ?thesis
    unfolding Let_def live_def[symmetric] shares using b(3) sum
    by (simp add: list_all_iff comp_def js_ratio_bounds bounds flip: amount)
qed

theorem status_breakdown_shares_witness:
  "sum_list (map bs_amountMinor (getStatusBreakdown dash_scope dash_sample None)) = 1500 \<and>
   list_all (\<lambda>s. 0 \<le> bs_percent s \<and> bs_percent s \<le> 1) (getStatusBreakdown dash_scope dash_sample None)"
proof -
  have e: "exact_sums (map i_totalMinor (dash_invoices dash_scope None dash_sample))"
    by (simp add: sample_rows exact_sums_def max_safe_def)
  show ?thesis using status_breakdown_shares[OF e] unfolding Let_def sample_live by (simp add: list_all_iff)
qed

text \<open>
  A brand's row of the roll-up shows the figures its own dashboard shows, when the brand invoices in one currency.
\<close>

theorem brand_rollup_agrees_with_summary:
  assumes "row \<in> set (getByBrand sc now d rng)" "br_brandId row \<noteq> []"
    and "\<forall>r \<in> set (dash_invoices sc (Some (br_brandId row)) d). i_currency r = c"
    and "\<forall>p \<in> set (dash_payments sc (Some (br_brandId row)) d). p_currency p = c"
  shows "let s = getSummary sc now d (Some (br_brandId row)) rng
         in br_invoicedMinor row = dm_invoicedMinor s \<and> br_collectedMinor row = dm_collectedMinor s \<and>
            br_collectionRate row = dm_collectionRate s \<and> br_overdueMinor row = dm_overdueMinor s"
proof -
  obtain b :: dash_brand where b: "b_id b = br_brandId row"
    and r: "br_invoicedMinor row = sum_of_key i_totalMinor (group_by i_brandId (filter (invoiced_in (range_bounds now rng)) (dash_invoices sc None d))) (b_id b)"
      "br_collectedMinor row = sum_of_key p_amountMinor (group_by p_brandId (filter (collected_in (range_bounds now rng)) (dash_payments sc None d))) (b_id b)"
      "br_overdueMinor row = sum_of_key i_balanceMinor (group_by i_brandId (filter i_overdue (dash_invoices sc None d))) (b_id b)"
      "br_collectionRate row = js_ratio (br_collectedMinor row) (br_invoicedMinor row)"
    using getByBrand_row[OF assms(1)] by blast
  show ?thesis
    unfolding Let_def r(4) summary_one_currency(4)[OF assms(3,4)]
    unfolding r(1-3) sum_of_key_group_by b brand_filter[OF assms(2)] summary_one_currency(1-3)[OF assms(3,4)] by simp
qed

theorem brand_rollup_agrees_with_summary_witness:
  "\<exists>row \<in> set (getByBrand dash_scope dash_now dash_sample None). br_brandId row = ''b1'' \<and>
     br_invoicedMinor row = dm_invoicedMinor (getSummary dash_scope dash_now dash_sample (Some ''b1'') None) \<and>
     br_collectionRate row = dm_collectionRate (getSummary dash_scope dash_now dash_sample (Some ''b1'') None)"
proof -
  have "''b1'' \<in> set (map br_brandId (getByBrand dash_scope dash_now dash_sample None))" unfolding sample_brands by simp
  then obtain row where row: "row \<in> set (getByBrand dash_scope dash_now dash_sample None)" "br_brandId row = ''b1''" by auto
  have c: "\<forall>r \<in> set (dash_invoices dash_scope (Some (br_brandId row)) dash_sample). i_currency r = ''USD''"
    "\<forall>p \<in> set (dash_payments dash_scope (Some (br_brandId row)) dash_sample). p_currency p = ''USD''"
    using sample_rows(3,4) unfolding row(2) by (auto simp: list_all_iff)
  have "br_brandId row \<noteq> []" using row(2) by simp
  from brand_rollup_agrees_with_summary[OF row(1) this c] show ?thesis
    unfolding Let_def row(2) using row by (intro bexI[of _ row]) simp_all
qed




end
