(* ===== verification/Contrast.thy ===== *)
theory Contrast
  imports JsDecimal BusinessDetails
begin

text \<open>
  Legible brand colours (\<open>packages/shared/src/tokens/contrast.ts\<close> and the theme variables of \<open>tokens.ts\<close>). Channels,
  luminances and ratios are doubles; the power \<open>x ** 2.4\<close>, whose value the language leaves to the implementation, is a
  parameter. The loop that darkens a colour is a partial function: \<open>None\<close> is a loop that does not end.
\<close>

section \<open>Colours\<close>

record rgb =
  rgb_r :: rat
  rgb_g :: rat
  rgb_b :: rat

definition WCAG_AA_NORMAL :: rat where
  "WCAG_AA_NORMAL = 9 / 2"

definition WCAG_AA_LARGE :: rat where
  "WCAG_AA_LARGE = 3"

definition hex_digit_value :: "char \<Rightarrow> nat option" where
  "hex_digit_value c = (let n = of_char c :: nat in
     if 48 \<le> n \<and> n \<le> 57 then Some (n - 48) else if 97 \<le> n \<and> n \<le> 102 then Some (n - 87)
     else if 65 \<le> n \<and> n \<le> 70 then Some (n - 55) else None)"

text \<open>\<open>parseInt(s, 16)\<close> of hexadecimal digits.\<close>

definition hex_number :: "string \<Rightarrow> rat" where
  "hex_number s = of_nat (foldl (\<lambda>a c. 16 * a + the (hex_digit_value c)) 0 s)"

definition parseHex :: "string \<Rightarrow> (string, rgb) result" where
  "parseHex hex =
     (let normalised = (case js_trim hex of c # r \<Rightarrow> if c = CHR ''#'' then r else js_trim hex | [] \<Rightarrow> []);
          expanded = (if length normalised = 3 then concat (map (\<lambda>c. [c, c]) normalised) else normalised)
      in if length expanded \<noteq> 6 \<or> list_ex (\<lambda>c. hex_digit_value c = None) expanded
         then Inl (CHR 0x22 # hex @ CHR 0x22 # '' is not a 3- or 6-digit hex colour'')
         else Inr \<lparr> rgb_r = hex_number (take 2 expanded), rgb_g = hex_number (take 2 (drop 2 expanded)), rgb_b = hex_number (drop 4 expanded) \<rparr>)"

definition hex_char :: "nat \<Rightarrow> char" where
  "hex_char d = (if d < 10 then char_of (48 + d) else char_of (87 + d))"

text \<open>\<open>toString(16)\<close> of a number below 256.\<close>

definition hex_text :: "nat \<Rightarrow> string" where
  "hex_text n = (if n < 16 then [hex_char n] else [hex_char (n div 16), hex_char (n mod 16)])"

definition toHex :: "rgb \<Rightarrow> string" where
  "toHex c = (let part = (\<lambda>v. pad_start 2 (CHR ''0'') (hex_text (nat (max 0 (min 255 (math_round v))))))
     in map upper_letter (''#'' @ part (rgb_r c) @ part (rgb_g c) @ part (rgb_b c)))"

section \<open>Contrast\<close>

definition js_plus :: "rat \<Rightarrow> rat \<Rightarrow> rat" where
  "js_plus a b = to_double (a + b)"

definition js_minus :: "rat \<Rightarrow> rat \<Rightarrow> rat" where
  "js_minus a b = to_double (a - b)"

text \<open>A decimal literal of four digits.\<close>

definition dec4 :: "int \<Rightarrow> rat" where
  "dec4 n = to_double (of_int n / 10000)"

definition luminance_channel :: "(rat \<Rightarrow> rat) \<Rightarrow> rat \<Rightarrow> rat" where
  "luminance_channel pow value = (let c = js_divide value 255 in
     if c \<le> to_double (3928 / 100000) then js_divide c (dec4 129200) else pow (js_divide (js_plus c (dec4 550)) (dec4 10550)))"

definition relativeLuminance :: "(rat \<Rightarrow> rat) \<Rightarrow> rgb \<Rightarrow> rat" where
  "relativeLuminance pow c = js_plus (js_plus (js_times (dec4 2126) (luminance_channel pow (rgb_r c))) (js_times (dec4 7152) (luminance_channel pow (rgb_g c))))
     (js_times (dec4 722) (luminance_channel pow (rgb_b c)))"

definition contrastRatio :: "(rat \<Rightarrow> rat) \<Rightarrow> rgb \<Rightarrow> rgb \<Rightarrow> rat" where
  "contrastRatio pow a b = (let la = relativeLuminance pow a; lb = relativeLuminance pow b;
     light = (if lb \<le> la then la else lb); dark = (if lb \<le> la then lb else la)
     in js_divide (js_plus light (dec4 500)) (js_plus dark (dec4 500)))"

definition contrast_of_text :: "(rat \<Rightarrow> rat) \<Rightarrow> string \<Rightarrow> string \<Rightarrow> (string, rat) result" where
  "contrast_of_text pow a b = rbind (parseHex a) (\<lambda>x. rbind (parseHex b) (\<lambda>y. Inr (contrastRatio pow x y)))"

definition mix :: "rgb \<Rightarrow> rgb \<Rightarrow> rat \<Rightarrow> rgb" where
  "mix a b amount = (let t = max 0 (min 1 amount); between = (\<lambda>x y. js_plus x (js_times (js_minus y x) t))
     in \<lparr> rgb_r = between (rgb_r a) (rgb_r b), rgb_g = between (rgb_g a) (rgb_g b), rgb_b = between (rgb_b a) (rgb_b b) \<rparr>)"

definition default_ink :: string where
  "default_ink = ''#132119''"

definition foregroundOn :: "(rat \<Rightarrow> rat) \<Rightarrow> string \<Rightarrow> string \<Rightarrow> (string, string) result" where
  "foregroundOn pow background ink =
     rbind (contrast_of_text pow background ''#FFFFFF'') (\<lambda>onWhite. rbind (contrast_of_text pow background ink) (\<lambda>onInk.
       Inr (if onInk \<le> onWhite then ''#FFFFFF'' else ink)))"

section \<open>Darkening\<close>

definition black :: rgb where
  "black = \<lparr> rgb_r = 0, rgb_g = 0, rgb_b = 0 \<rparr>"

text \<open>Measured on the colour with its channels rounded.\<close>

definition ratioAt :: "(rat \<Rightarrow> rat) \<Rightarrow> rgb \<Rightarrow> string \<Rightarrow> rat \<Rightarrow> (string, rat) result" where
  "ratioAt pow base against t = contrast_of_text pow (toHex (mix base black t)) against"

fun bisect :: "(rat \<Rightarrow> (string, rat) result) \<Rightarrow> rat \<Rightarrow> nat \<Rightarrow> rat \<Rightarrow> rat \<Rightarrow> (string, rat \<times> rat) result" where
  "bisect ratio target 0 low high = Inr (low, high)"
| "bisect ratio target (Suc n) low high =
     (let mid = js_divide (js_plus low high) 2 in
      rbind (ratio mid) (\<lambda>r. if target \<le> r then bisect ratio target n low mid else bisect ratio target n mid high))"

definition nudge_step :: rat where
  "nudge_step = js_divide 1 255"

partial_function (option) nudge :: "(rat \<Rightarrow> (string, rat) result) \<Rightarrow> rat \<Rightarrow> rat \<Rightarrow> (string, rat) result option" where
  "nudge ratio target high =
     (if high < 1
      then (case ratio high of
              Inl e \<Rightarrow> Some (Inl e)
            | Inr r \<Rightarrow> if r < target then nudge ratio target (min 1 (js_plus high nudge_step)) else Some (Inr high))
      else Some (Inr high))"

record darkened =
  dk_hex :: string
  dk_ratio :: rat
  dk_achieved :: bool

definition darkenUntilAccessible :: "(rat \<Rightarrow> rat) \<Rightarrow> string \<Rightarrow> string \<Rightarrow> rat \<Rightarrow> (string, darkened) result option" where
  "darkenUntilAccessible pow colour against target =
     (case parseHex colour of
        Inl e \<Rightarrow> Some (Inl e)
      | Inr base \<Rightarrow> (case parseHex against of
          Inl e \<Rightarrow> Some (Inl e)
        | Inr surface \<Rightarrow>
            let ratio = contrastRatio pow base surface in
            if target \<le> ratio
            then Some (Inr \<lparr> dk_hex = toHex base, dk_ratio = number_of_fixed 2 ratio, dk_achieved = True \<rparr>)
            else (case bisect (ratioAt pow base against) target 24 0 1 of
                Inl e \<Rightarrow> Some (Inl e)
              | Inr (low, high) \<Rightarrow> map_option (\<lambda>found. rbind found (\<lambda>t.
                  let hex = toHex (mix base black t) in rbind (contrast_of_text pow hex against) (\<lambda>r.
                    Inr \<lparr> dk_hex = hex, dk_ratio = number_of_fixed 2 r, dk_achieved = (target \<le> r) \<rparr>)))
                  (nudge (ratioAt pow base against) target high))))"

section \<open>Assessment\<close>

text \<open>The warnings, with the numbers and colours their texts carry.\<close>

datatype colour_warning = NoForegroundReaches rat | RawColourTooFaint rat string string rat | NoDarkenedVariant

record colour_assessment =
  cs_brandColour :: string
  cs_onBrand :: string
  cs_onBrandRatio :: rat
  cs_brandInk :: string
  cs_brandInkRatio :: rat
  cs_rawOnSurfaceRatio :: rat
  cs_compliant :: bool
  cs_warnings :: "colour_warning list"

definition assessBrandColour :: "(rat \<Rightarrow> rat) \<Rightarrow> string \<Rightarrow> string option \<Rightarrow> string option \<Rightarrow> (string, colour_assessment) result option" where
  "assessBrandColour pow brandColour surface_option ink_option =
     (let surface = (case surface_option of None \<Rightarrow> ''#FFFFFF'' | Some s \<Rightarrow> s);
          ink = (case ink_option of None \<Rightarrow> default_ink | Some i \<Rightarrow> i)
      in case rbind (foregroundOn pow brandColour ink) (\<lambda>onBrand. rbind (contrast_of_text pow brandColour onBrand) (\<lambda>r. Inr (onBrand, number_of_fixed 2 r))) of
           Inl e \<Rightarrow> Some (Inl e)
         | Inr (onBrand, onBrandRatio) \<Rightarrow>
             map_option (\<lambda>found. rbind found (\<lambda>derived. rbind (contrast_of_text pow brandColour surface) (\<lambda>raw.
               let rawRatio = number_of_fixed 2 raw in
               rbind (parseHex brandColour) (\<lambda>parsed.
               Inr \<lparr> cs_brandColour = toHex parsed, cs_onBrand = onBrand, cs_onBrandRatio = onBrandRatio, cs_brandInk = dk_hex derived,
                     cs_brandInkRatio = dk_ratio derived, cs_rawOnSurfaceRatio = rawRatio,
                     cs_compliant = (WCAG_AA_LARGE \<le> onBrandRatio \<and> dk_achieved derived),
                     cs_warnings = (if onBrandRatio < WCAG_AA_NORMAL then [NoForegroundReaches onBrandRatio] else []) @
                       (if rawRatio < WCAG_AA_NORMAL then [RawColourTooFaint rawRatio surface (dk_hex derived) (dk_ratio derived)] else []) @
                       (if dk_achieved derived then [] else [NoDarkenedVariant]) \<rparr>))))
             (darkenUntilAccessible pow brandColour surface WCAG_AA_NORMAL))"

definition palette_surface :: string where
  "palette_surface = ''#FFFFFF''"

definition palette_ink :: string where
  "palette_ink = ''#1A1A1F''"

definition brandThemeVariables :: "(rat \<Rightarrow> rat) \<Rightarrow> string \<Rightarrow> (string, (string \<times> string) list) result option" where
  "brandThemeVariables pow brandColour = map_option (\<lambda>r. rbind r (\<lambda>a.
     Inr [(''--brand'', cs_brandColour a), (''--brand-foreground'', cs_onBrand a), (''--brand-ink'', cs_brandInk a)]))
     (assessBrandColour pow brandColour (Some palette_surface) (Some palette_ink))"

definition brandThemeCss :: "(rat \<Rightarrow> rat) \<Rightarrow> string \<Rightarrow> string \<Rightarrow> (string, string) result option" where
  "brandThemeCss pow brandColour selector = map_option (\<lambda>r. rbind r (\<lambda>vars.
     Inr (selector @ '' {'' @ [CHR 10] @ join_with (CHR 10) (map (\<lambda>(name, value). ''  '' @ name @ '': '' @ value @ '';'') vars) @ [CHR 10] @ ''}'')))
     (brandThemeVariables pow brandColour)"

section \<open>Parsing and printing\<close>

lemma hex_digit_value_char: "d < 16 \<Longrightarrow> hex_digit_value (upper_letter (hex_char d)) = Some d"
proof -
  assume "d < 16"
  then have "d \<in> {0, 1, 2, 3, 4, 5, 6, 7, 8, 9, 10, 11, 12, 13, 14, 15}" by (simp only: insert_iff empty_iff) arith
  moreover have "hex_digit_value (upper_letter (hex_char 0)) = Some 0" "hex_digit_value (upper_letter (hex_char 1)) = Some 1"
    "hex_digit_value (upper_letter (hex_char 2)) = Some 2" "hex_digit_value (upper_letter (hex_char 3)) = Some 3"
    "hex_digit_value (upper_letter (hex_char 4)) = Some 4" "hex_digit_value (upper_letter (hex_char 5)) = Some 5"
    "hex_digit_value (upper_letter (hex_char 6)) = Some 6" "hex_digit_value (upper_letter (hex_char 7)) = Some 7"
    "hex_digit_value (upper_letter (hex_char 8)) = Some 8" "hex_digit_value (upper_letter (hex_char 9)) = Some 9"
    "hex_digit_value (upper_letter (hex_char 10)) = Some 10" "hex_digit_value (upper_letter (hex_char 11)) = Some 11"
    "hex_digit_value (upper_letter (hex_char 12)) = Some 12" "hex_digit_value (upper_letter (hex_char 13)) = Some 13"
    "hex_digit_value (upper_letter (hex_char 14)) = Some 14" "hex_digit_value (upper_letter (hex_char 15)) = Some 15"
    by code_simp+
  ultimately show ?thesis by auto
qed

definition byte :: "rat \<Rightarrow> nat" where
  "byte v = nat (max 0 (min 255 (math_round v)))"

definition byte_text :: "rat \<Rightarrow> string" where
  "byte_text v = map upper_letter (pad_start 2 (CHR ''0'') (hex_text (byte v)))"

lemma byte_text_digits: "byte_text v = [upper_letter (hex_char (byte v div 16)), upper_letter (hex_char (byte v mod 16))]"
proof -
  have z: "hex_char 0 = CHR ''0''" by code_simp
  have pad: "pad_start 2 c [x] = [c, x]" "pad_start 2 c [x, y] = [x, y]" for c x y by (simp_all add: pad_start_def)
  show ?thesis
  proof (cases "byte v < 16")
    case True
    then have "byte v div 16 = 0" "byte v mod 16 = byte v" by simp_all
    then show ?thesis unfolding byte_text_def hex_text_def if_P[OF True] pad by (simp only: z list.map)
  next
    case False
    show ?thesis unfolding byte_text_def hex_text_def if_not_P[OF False] pad by (simp only: list.map)
  qed
qed

lemma byte_bound: "byte v < 256"
  by (simp add: byte_def nat_less_iff)

definition quantised :: "rgb \<Rightarrow> rgb" where
  "quantised c = \<lparr> rgb_r = of_nat (byte (rgb_r c)), rgb_g = of_nat (byte (rgb_g c)), rgb_b = of_nat (byte (rgb_b c)) \<rparr>"

lemma toHex_parts: "toHex c = CHR ''#'' # byte_text (rgb_r c) @ byte_text (rgb_g c) @ byte_text (rgb_b c)"
proof -
  have "upper_letter (CHR ''#'') = CHR ''#''" by code_simp
  then show ?thesis by (simp add: toHex_def Let_def byte_text_def byte_def)
qed

lemma byte_digits: "hex_digit_value (upper_letter (hex_char (byte v div 16))) = Some (byte v div 16)"
  "hex_digit_value (upper_letter (hex_char (byte v mod 16))) = Some (byte v mod 16)"
  using byte_bound[of v] by (auto intro!: hex_digit_value_char)

lemma hex_not_space: "hex_digit_value c = Some d \<Longrightarrow> \<not> is_space c"
  by (auto simp: hex_digit_value_def Let_def is_space_def split: if_splits)

lemma parseHex_six:
  "\<lbrakk>js_trim [CHR ''#'', a, b, p, q, r, s] = [CHR ''#'', a, b, p, q, r, s]; hex_digit_value a \<noteq> None; hex_digit_value b \<noteq> None; hex_digit_value p \<noteq> None;
    hex_digit_value q \<noteq> None; hex_digit_value r \<noteq> None; hex_digit_value s \<noteq> None\<rbrakk> \<Longrightarrow>
   parseHex [CHR ''#'', a, b, p, q, r, s] = Inr \<lparr> rgb_r = hex_number [a, b], rgb_g = hex_number [p, q], rgb_b = hex_number [r, s] \<rparr>"
  unfolding parseHex_def by (simp add: Let_def)

lemma parseHex_toHex: "parseHex (toHex c) = Inr (quantised c)"
proof -
  have trim: "js_trim (toHex c) = toHex c"
    by (rule js_trim_no_space) (use hex_not_space byte_digits in \<open>auto simp: toHex_parts byte_text_digits is_space_def\<close>)
  have n: "16 * (byte v div 16) + byte v mod 16 = byte v" for v by simp
  have "hex_number (byte_text v) = of_nat (byte v)" for v
    unfolding hex_number_def byte_text_digits by (simp only: foldl.simps byte_digits option.sel mult_0_right add_0 n)
  note h = this[unfolded byte_text_digits]
  have t: "toHex c = [CHR ''#'', a, b, p, q, r, s]" if "byte_text (rgb_r c) = [a, b]" "byte_text (rgb_g c) = [p, q]" "byte_text (rgb_b c) = [r, s]" for a b p q r s
    unfolding toHex_parts that by simp
  show ?thesis
    unfolding t[OF byte_text_digits byte_text_digits byte_text_digits]
    by (subst parseHex_six) (use trim[unfolded t[OF byte_text_digits byte_text_digits byte_text_digits]] in \<open>simp_all only: byte_digits option.distinct not_False_eq_True h quantised_def\<close>)
qed

section \<open>The search ends\<close>

lemma js_half_nonneg: "\<lbrakk>0 \<le> a; 0 \<le> b\<rbrakk> \<Longrightarrow> 0 \<le> js_divide (js_plus a b) 2"
  by (simp add: js_divide_def js_plus_def to_double_nonneg)

lemma bisect_returns:
  assumes "\<And>t. \<exists>r. ratio t = Inr r" "0 \<le> low" "0 \<le> high"
  shows "\<exists>l h. bisect ratio target n low high = Inr (l, h) \<and> 0 \<le> h"
  using assms(2,3)
proof (induction n arbitrary: low high)
  case (Suc n)
  let ?mid = "js_divide (js_plus low high) 2"
  obtain r where r: "ratio ?mid = Inr r" using assms(1) by blast
  have m: "0 \<le> ?mid" using Suc.prems by (rule js_half_nonneg)
  show ?case using Suc.IH[of low ?mid] Suc.IH[of ?mid high] Suc.prems m r by (simp add: Let_def)
qed simp

lemma nudge_progress:
  assumes "0 \<le> high" "high < 1"
  shows "high + 1 / 256 \<le> js_plus high nudge_step"
proof -
  have s: "1 / 255 - 1 / 255 / 2 ^ 53 \<le> nudge_step" "nudge_step \<le> 1 / 255 + 1 / 255 / 2 ^ 53"
    using to_double_close[of "1 / 255"] unfolding nudge_step_def js_divide_def abs_le_iff by linarith+
  let ?x = "high + nudge_step"
  have "\<bar>to_double ?x - ?x\<bar> \<le> \<bar>?x\<bar> / 2 ^ 53" by (rule to_double_close)
  moreover have "\<bar>?x\<bar> / 2 ^ 53 \<le> 2 / 2 ^ 53" using assms s by (intro divide_right_mono) auto
  ultimately have "?x - 2 / 2 ^ 53 \<le> to_double ?x" by linarith
  then show ?thesis using s unfolding js_plus_def by simp
qed

lemma nudge_returns:
  assumes "\<And>t. \<exists>r. ratio t = Inr r"
  shows "0 \<le> high \<Longrightarrow> 1 - high \<le> of_nat n / 256 \<Longrightarrow>
    \<exists>h. nudge ratio target high = Some (Inr h) \<and> 0 \<le> h \<and> (h < 1 \<longrightarrow> (\<exists>r. ratio h = Inr r \<and> target \<le> r))"
proof (induction n arbitrary: high)
  case 0
  then show ?case by (subst nudge.simps) simp
next
  case (Suc n)
  obtain r where r: "ratio high = Inr r" using assms by blast
  show ?case
  proof (cases "high < 1 \<and> r < target")
    case False
    then show ?thesis using r Suc.prems by (subst nudge.simps) auto
  next
    case True
    let ?next = "min 1 (js_plus high nudge_step)"
    have p: "high + 1 / 256 \<le> js_plus high nudge_step" using Suc.prems True by (intro nudge_progress) auto
    have "0 \<le> ?next" "1 - ?next \<le> of_nat n / 256" using p Suc.prems by (auto simp: min_def field_simps)
    from Suc.IH[OF this] show ?thesis using True r by (subst nudge.simps) simp
  qed
qed

lemma ratioAt_value: "parseHex against = Inr surface \<Longrightarrow> ratioAt pow base against t = Inr (contrastRatio pow (quantised (mix base black t)) surface)"
  by (simp add: ratioAt_def contrast_of_text_def parseHex_toHex)

lemma hex_number_byte: "\<lbrakk>hex_digit_value a = Some x; hex_digit_value b = Some y\<rbrakk> \<Longrightarrow> hex_number [a, b] = of_nat (16 * x + y) \<and> 16 * x + y < 256"
  by (auto simp: hex_number_def hex_digit_value_def Let_def split: if_splits)

definition whole_channels :: "rgb \<Rightarrow> bool" where
  "whole_channels c \<longleftrightarrow> (\<exists>r g b. c = \<lparr> rgb_r = of_nat r, rgb_g = of_nat g, rgb_b = of_nat b \<rparr> \<and> r < 256 \<and> g < 256 \<and> b < 256)"

lemma list_six: "length xs = 6 \<Longrightarrow> \<exists>a b p q r s. xs = [a, b, p, q, r, s]"
  by (auto simp: numeral_eq_Suc length_Suc_conv)

lemma parseHex_whole: "parseHex hex = Inr c \<Longrightarrow> whole_channels c"
proof -
  assume a: "parseHex hex = Inr c"
  then obtain xs where xs: "length xs = 6" "\<not> list_ex (\<lambda>c. hex_digit_value c = None) xs"
    and c: "c = \<lparr> rgb_r = hex_number (take 2 xs), rgb_g = hex_number (take 2 (drop 2 xs)), rgb_b = hex_number (drop 4 xs) \<rparr>"
    unfolding parseHex_def Let_def by (auto split: if_splits)
  obtain a b p q r s where l: "xs = [a, b, p, q, r, s]" using list_six[OF xs(1)] by blast
  obtain a' b' p' q' r' s' where v: "hex_digit_value a = Some a'" "hex_digit_value b = Some b'" "hex_digit_value p = Some p'" "hex_digit_value q = Some q'"
      "hex_digit_value r = Some r'" "hex_digit_value s = Some s'"
    using xs(2) unfolding l by auto
  have "c = \<lparr> rgb_r = hex_number [a, b], rgb_g = hex_number [p, q], rgb_b = hex_number [r, s] \<rparr>" unfolding c l by simp
  then show ?thesis
    unfolding whole_channels_def using hex_number_byte[OF v(1,2)] hex_number_byte[OF v(3,4)] hex_number_byte[OF v(5,6)] by blast
qed

lemma byte_of_nat: "n < 256 \<Longrightarrow> byte (of_nat n) = n"
proof -
  have "math_round (of_nat n) = int n" by (rule math_round_close) simp
  then show "n < 256 \<Longrightarrow> byte (of_nat n) = n" by (simp add: byte_def)
qed

lemma quantised_whole: "whole_channels c \<Longrightarrow> quantised c = c"
  by (auto simp: whole_channels_def quantised_def byte_of_nat)

lemma mix_black:
  assumes "whole_channels base" "1 \<le> t"
  shows "quantised (mix base black t) = black"
proof -
  have b: "js_plus (of_nat n) (js_times (js_minus 0 (of_nat n)) 1) = 0" if "n < 256" for n
  proof -
    have "to_double (of_int (- int n)) = of_int (- int n)" by (rule to_double_of_int) (use that in simp)
    then have "to_double (- of_nat n) = - (of_nat n :: rat)" by simp
    then show ?thesis by (simp add: js_plus_def js_times_def js_minus_def to_double_def)
  qed
  obtain r g bl where c: "base = \<lparr> rgb_r = of_nat r, rgb_g = of_nat g, rgb_b = of_nat bl \<rparr>" "r < 256" "g < 256" "bl < 256"
    using assms(1) by (auto simp: whole_channels_def)
  have t: "max 0 (min 1 t) = 1" using assms(2) by simp
  have "mix base black t = black" unfolding mix_def Let_def t c black_def using b c(2-4) by simp
  moreover have "whole_channels black" unfolding whole_channels_def black_def by (intro exI[of _ 0]) simp
  ultimately show ?thesis by (simp add: quantised_whole)
qed

text \<open>C32:
  The search for a legible variant of a colour ends and succeeds: on a surface on which black is legible, every brand colour
  gets a variant, the colour printed is the one whose contrast was measured, and that contrast reaches the target.
\<close>

theorem darkening_ends_accessible:
  assumes "parseHex colour = Inr base" "parseHex against = Inr surface"
    and "target \<le> contrastRatio pow black surface"
  shows "\<exists>out shown. darkenUntilAccessible pow colour against target = Some (Inr out) \<and> dk_achieved out \<and>
    parseHex (dk_hex out) = Inr shown \<and> target \<le> contrastRatio pow shown surface \<and> dk_ratio out = number_of_fixed 2 (contrastRatio pow shown surface)"
proof (cases "target \<le> contrastRatio pow base surface")
  case True
  have "quantised base = base" by (rule quantised_whole[OF parseHex_whole[OF assms(1)]])
  then show ?thesis using True by (simp add: darkenUntilAccessible_def assms(1,2) Let_def parseHex_toHex)
next
  case False
  let ?ratio = "ratioAt pow base against"
  have total: "\<exists>r. ?ratio t = Inr r" for t using ratioAt_value[OF assms(2)] by blast
  obtain l h where b: "bisect ?ratio target 24 0 1 = Inr (l, h)" "0 \<le> h" 
    using bisect_returns[of ?ratio 0 1 target 24] total by auto
  have "1 - h \<le> of_nat 256 / 256" using b(2) by simp
  from nudge_returns[of ?ratio h 256 target, OF total b(2) this] obtain t where t: "nudge ?ratio target h = Some (Inr t)" "0 \<le> t"
    "t < 1 \<longrightarrow> (\<exists>r. ?ratio t = Inr r \<and> target \<le> r)" by blast
  let ?shown = "quantised (mix base black t)"
  have ok: "target \<le> contrastRatio pow ?shown surface"
  proof (cases "t < 1")
    case True
    then show ?thesis using t(3) by (auto simp: ratioAt_value[OF assms(2)])
  next
    case False
    then show ?thesis using mix_black[OF parseHex_whole[OF assms(1)], of t] assms(3) by simp
  qed
  show ?thesis
    by (intro exI[of _ "\<lparr> dk_hex = toHex (mix base black t), dk_ratio = number_of_fixed 2 (contrastRatio pow ?shown surface), dk_achieved = True \<rparr>"] exI[of _ ?shown])
      (use False ok t(1) b(1) in \<open>simp add: darkenUntilAccessible_def assms(1,2) Let_def contrast_of_text_def parseHex_toHex\<close>)
qed


text \<open>A mid grey on white, with a power that is constantly 1: the contrast of black and white is above 2.\<close>

lemma to_double_near: "0 \<le> x \<Longrightarrow> x * (99 / 100) \<le> to_double x \<and> to_double x \<le> x * (101 / 100)"
proof -
  assume "0 \<le> x"
  then have "x - x / 2 ^ 53 \<le> to_double x" "to_double x \<le> x + x / 2 ^ 53"
    using to_double_close[of x] unfolding abs_le_iff by linarith+
  moreover have "x / 2 ^ 53 \<le> x / 100" using \<open>0 \<le> x\<close> by (intro divide_left_mono) simp_all
  ultimately show ?thesis by simp
qed

lemma near_lo: "0 \<le> x \<Longrightarrow> y \<le> x - x / 100 \<Longrightarrow> y \<le> to_double x"
  and near_hi: "0 \<le> x \<Longrightarrow> x + x / 100 \<le> y \<Longrightarrow> to_double x \<le> y"
  using to_double_near[of x] by linarith+

lemma black_on_white: "2 \<le> contrastRatio (\<lambda>_. 1) black \<lparr> rgb_r = 255, rgb_g = 255, rgb_b = 255 \<rparr>"
proof -
  have z: "to_double 0 = 0" by (simp add: to_double_def)
  have lim: "to_double (3928 / 100000) < 1" "0 \<le> to_double (3928 / 100000)" using to_double_near[of "3928 / 100000"] by simp_all
  have white: "luminance_channel (\<lambda>_. 1) 255 = 1" using lim by (simp add: luminance_channel_def js_divide_def to_double_1 Let_def)
  have dark: "luminance_channel (\<lambda>_. 1) 0 = 0" using lim by (simp add: luminance_channel_def js_divide_def z Let_def)
  have lb: "relativeLuminance (\<lambda>_. 1) black = 0" by (simp add: relativeLuminance_def black_def dark js_plus_def js_times_def z)
  define w where "w = relativeLuminance (\<lambda>_. 1) \<lparr> rgb_r = 255, rgb_g = 255, rgb_b = 255 \<rparr>"
  have d: "1 / 5 \<le> dec4 2126" "1 / 2 \<le> dec4 7152" "0 \<le> dec4 722" "1 / 25 \<le> dec4 500" "dec4 500 \<le> 3 / 50"
    unfolding dec4_def by (rule near_lo near_hi; simp)+
  have t: "1 / 6 \<le> js_times (dec4 2126) 1" "2 / 5 \<le> js_times (dec4 7152) 1" "0 \<le> js_times (dec4 722) 1"
    unfolding js_times_def by (rule near_lo; use d in simp)+
  have s: "1 / 2 \<le> js_plus (js_times (dec4 2126) 1) (js_times (dec4 7152) 1)"
    unfolding js_plus_def by (rule near_lo; use t in \<open>simp add: field_simps\<close>)
  have w: "2 / 5 \<le> w"
    unfolding w_def relativeLuminance_def rgb.simps white js_plus_def[of "js_plus _ _"]
    by (rule near_lo; use s t(3) in \<open>simp add: field_simps\<close>)
  have light: "2 / 5 \<le> js_plus w (dec4 500)" unfolding js_plus_def by (rule near_lo; use w d(4) in \<open>simp add: field_simps\<close>)
  have shade: "1 / 100 \<le> js_plus 0 (dec4 500)" "js_plus 0 (dec4 500) \<le> 1 / 10"
    unfolding js_plus_def by (rule near_lo near_hi; use d(4,5) in simp)+
  define q where "q = js_plus w (dec4 500) / js_plus 0 (dec4 500)"
  have "4 \<le> q" unfolding q_def using light shade by (simp add: le_divide_eq)
  then have "2 \<le> js_divide (js_plus w (dec4 500)) (js_plus 0 (dec4 500))"
    unfolding js_divide_def q_def[symmetric] by (intro near_lo) simp_all
  then show ?thesis unfolding contrastRatio_def Let_def lb w_def[symmetric] using w by (cases "w \<le> 0") simp_all
qed

theorem darkening_ends_accessible_witness:
  "\<exists>out shown. darkenUntilAccessible (\<lambda>_. 1) ''#808080'' ''#FFFFFF'' 2 = Some (Inr out) \<and> dk_achieved out \<and>
     parseHex (dk_hex out) = Inr shown \<and> 2 \<le> contrastRatio (\<lambda>_. 1) shown \<lparr> rgb_r = 255, rgb_g = 255, rgb_b = 255 \<rparr>"
proof -
  have p: "parseHex ''#808080'' = Inr \<lparr> rgb_r = 128, rgb_g = 128, rgb_b = 128 \<rparr>" "parseHex ''#FFFFFF'' = Inr \<lparr> rgb_r = 255, rgb_g = 255, rgb_b = 255 \<rparr>"
    by code_simp+
  from darkening_ends_accessible[OF p black_on_white] show ?thesis by blast
qed

end
