(* ===== verification/Company.thy ===== *)
theory Company
  imports DashboardLists
begin

text \<open>
  The merchant, its brands and their customers under \<open>apps/api/src\<close>: onboarding (\<open>merchant/merchant.service.ts\<close>), brands
  (\<open>brands/brands.service.ts\<close>, \<open>common/logo-upload.ts\<close>, \<open>brand-defaults.ts\<close>) and customers (\<open>customers/customers.service.ts\<close>),
  with the tables they share with the brand settings. The object store and the text match of the database are parameters;
  a JSON column holds an object or counts as \<open>null\<close>.
\<close>

section \<open>Tables\<close>

datatype brand_structure = SINGLE | MULTI

record company_row =
  mc_id :: string
  mc_legalName :: "string option"
  mc_dba :: "string option"
  mc_businessType :: "string option"
  mc_phone :: "string option"
  mc_email :: "string option"
  mc_website :: "string option"
  mc_mailing :: "json_object option"
  mc_billing :: "json_object option"
  mc_taxId :: "string option"
  mc_logoKey :: "string option"
  mc_structure :: "brand_structure option"
  mc_onboardingComplete :: bool

record full_brand = dash_brand +
  b_legalName :: string
  b_businessType :: "string option"
  b_salesPerson :: "string option"
  b_phone :: "string option"
  b_email :: "string option"
  b_mailing :: "json_object option"
  b_billing :: "json_object option"
  b_taxId :: "string option"
  b_timezone :: string
  b_logoKey :: "string option"

datatype page_layout = PAGE_BANNER | PAGE_CENTERED | PAGE_SPLIT
datatype receipt_layout = RECEIPT_CLASSIC | RECEIPT_HERO | RECEIPT_MINIMAL
datatype pdf_layout = PDF_CLASSIC | PDF_MODERN | PDF_MINIMAL
datatype payment_terms = DUE_ON_RECEIPT | NET_15 | NET_30 | NET_60

record full_settings = settings_row +
  st_paymentTermsDays :: int
  st_lateFeeRateBp :: int
  st_defaultTaxRateId :: "string option"
  st_cardFeeRateBp :: int
  st_reminderSchedule :: "int list"
  st_accentColor :: string
  st_paymentPageLayout :: page_layout
  st_emailReceiptLayout :: receipt_layout
  st_confirmationSubject :: string
  st_confirmationBody :: string
  st_failedSubject :: string
  st_failedBody :: string
  st_pdfLayout :: pdf_layout
  st_pdfShowAddress :: bool
  st_pdfShowTerms :: bool
  st_pdfShowTax :: bool
  st_pdfShowNotes :: bool
  st_pdfCompanyName :: "string option"
  st_pdfCompanyAddress :: "string option"
  st_pdfTerms :: payment_terms
  st_pdfNotes :: string

record full_customer = dash_customer +
  fc_type :: string
  fc_salutation :: "string option"
  fc_firstName :: "string option"
  fc_lastName :: "string option"
  fc_companyName :: "string option"
  fc_phone :: "string option"
  fc_billing :: "json_object option"
  fc_shipping :: "json_object option"

record contact_row =
  ct_customerId :: string
  ct_name :: string
  ct_primary :: bool
  ct_createdAt :: int

datatype audit_value = AuditNull | AuditBool bool | AuditNumber int | AuditText string

record brand_audit =
  ba_merchantId :: string
  ba_brandId :: string
  ba_actorType :: string
  ba_actorId :: "string option"
  ba_action :: string
  ba_sourceIp :: "string option"
  ba_changes :: "(string \<times> audit_value \<times> audit_value) list"

record company_db =
  cy_companies :: "company_row list"
  cy_brands :: "full_brand list"
  cy_settings :: "full_settings list"
  cy_customers :: "full_customer list"
  cy_contacts :: "contact_row list"
  cy_invoices :: "invoice_row list"
  cy_payments :: "payment_row list"
  cy_audit :: "brand_audit list"

record company_world =
  cw_db :: company_db
  cw_tasks :: "sync_task list"
  cw_mails :: "mail list"
  cw_objects :: "string list"
  cw_now :: int
  cw_ids :: "nat \<Rightarrow> string"
  cw_drawn :: nat

datatype company_error =
    Refused string
  | Conflicting string
  | Missing string
  | Forbidden string
  | CompanyThrew service_error

type_synonym 'a company = "(company_world, company_error, 'a) eff"

text \<open>The ports: whether the store takes an object, signed addresses, the database's case-insensitive match.\<close>

record company_env =
  ce_stores :: "string \<Rightarrow> bool"
  ce_sign :: "string \<Rightarrow> int \<Rightarrow> string"
  ce_contains :: "string \<Rightarrow> string \<Rightarrow> bool"

definition company_scope :: "'a company \<Rightarrow> 'a company" where
  "company_scope m = transaction (\<lambda>w\<^sub>0 w. w\<lparr> cw_db := cw_db w\<^sub>0 \<rparr>) m"

definition company_id :: "string company" where
  "company_id = (\<lambda>w. (Inr (cw_ids w (cw_drawn w)), w\<lparr> cw_drawn := cw_drawn w + 1 \<rparr>))"

definition cy_change :: "(company_db \<Rightarrow> company_db) \<Rightarrow> unit company" where
  "cy_change f = emodify (\<lambda>w. w\<lparr> cw_db := f (cw_db w) \<rparr>)"

definition cy_sees :: "scope \<Rightarrow> company_db \<Rightarrow> string \<Rightarrow> bool" where
  "cy_sees sc d b = visible_to (\<lambda>x. map_option b_merchantId (find (\<lambda>r. b_id r = x) (cy_brands d))) sc b"

text \<open>The policies \<open>merchant_scope\<close> and \<open>brand_scope\<close>.\<close>

definition company_policy :: "scope \<Rightarrow> string \<Rightarrow> bool" where
  "company_policy sc m = (app_merchant_id (databaseScopeSettings sc) = Some m)"

definition brand_policy :: "scope \<Rightarrow> full_brand \<Rightarrow> bool" where
  "brand_policy sc r = (let st = databaseScopeSettings sc in
     app_merchant_id st = Some (b_merchantId r) \<and> (app_all_brands st \<or> b_id r \<in> set (app_brand_ids st)))"

definition the_company :: "scope \<Rightarrow> company_row company" where
  "the_company sc = ebind (egets (\<lambda>w. find (\<lambda>r. company_policy sc (mc_id r) \<and> mc_id r = scope_merchant sc) (cy_companies (cw_db w))))
     (\<lambda>r. elift (require r (CompanyThrew RecordNotFound)))"

definition company_update :: "scope \<Rightarrow> (company_row \<Rightarrow> company_row) \<Rightarrow> unit company" where
  "company_update sc f = ebind (the_company sc) (\<lambda>_.
     cy_change (\<lambda>d. d\<lparr> cy_companies := map_rows (\<lambda>r. company_policy sc (mc_id r) \<and> mc_id r = scope_merchant sc) f (cy_companies d) \<rparr>))"

definition brands_seen :: "scope \<Rightarrow> company_db \<Rightarrow> full_brand list" where
  "brands_seen sc d = filter (brand_policy sc) (cy_brands d)"

definition brand_at :: "scope \<Rightarrow> string \<Rightarrow> full_brand option company" where
  "brand_at sc b = egets (\<lambda>w. find (\<lambda>r. b_id r = b) (brands_seen sc (cw_db w)))"

definition brand_update :: "scope \<Rightarrow> string \<Rightarrow> (full_brand \<Rightarrow> full_brand) \<Rightarrow> unit company" where
  "brand_update sc b f = ebind (brand_at sc b) (\<lambda>found. case found of
     None \<Rightarrow> ethrow (CompanyThrew RecordNotFound)
   | Some _ \<Rightarrow> cy_change (\<lambda>d. d\<lparr> cy_brands := map_rows (\<lambda>r. brand_policy sc r \<and> b_id r = b) f (cy_brands d) \<rparr>))"

section \<open>Brands\<close>

definition line_break :: string where
  "line_break = [CHR 10]"

text \<open>The column defaults of \<open>model BrandSettings\<close>.\<close>

definition default_settings :: "string \<Rightarrow> string \<Rightarrow> full_settings" where
  "default_settings b prefix = \<lparr> st_brandId = b, st_invoicePrefix = prefix, st_nextSequence = 1, st_cardEnabled = True, st_applePayEnabled = False,
     st_googlePayEnabled = False, st_achEnabled = False, st_checkEnabled = False, st_partialPaymentEnabled = False,
     st_emailReceiptSubject = ''New invoice from {{brand_name}}'',
     st_emailReceiptBody = ''Hi {{customer_name}},'' @ line_break @ line_break @
       ''This is an automated message from {{brand_name}} regarding invoice {{invoice_number}}.'' @ line_break @ line_break @
       ''Amount due: {{amount_due}}'' @ line_break @ ''Due date: {{due_date}}'' @ line_break @ line_break @
       ''Please click the button below to view and pay your invoice.'' @ line_break @ line_break @ ''Thank you for your business.'',
     st_paymentTermsDays = 30, st_lateFeeRateBp = 0, st_defaultTaxRateId = None, st_cardFeeRateBp = 0, st_reminderSchedule = [],
     st_accentColor = ''#171717'', st_paymentPageLayout = PAGE_BANNER, st_emailReceiptLayout = RECEIPT_CLASSIC,
     st_confirmationSubject = ''Payment received for invoice {{invoice_number}}'',
     st_confirmationBody = ''Hi {{customer_name}},'' @ line_break @ line_break @
       ''We've received your payment of {{amount_due}} for invoice {{invoice_number}} from {{brand_name}}.'' @ line_break @ line_break @
       ''Thank you for your business.'',
     st_failedSubject = ''Payment failed for invoice {{invoice_number}}'',
     st_failedBody = ''Hi {{customer_name}},'' @ line_break @ line_break @
       ''We were unable to process your payment of {{amount_due}} for invoice {{invoice_number}} from {{brand_name}}.'' @ line_break @ line_break @
       ''Please try again or contact us for help.'',
     st_pdfLayout = PDF_CLASSIC, st_pdfShowAddress = True, st_pdfShowTerms = True, st_pdfShowTax = True, st_pdfShowNotes = True,
     st_pdfCompanyName = None, st_pdfCompanyAddress = None, st_pdfTerms = DUE_ON_RECEIPT,
     st_pdfNotes = ''Thank you for your business. Please contact us with any questions.'' \<rparr>"

text \<open>\<open>brand.create\<close> with \<open>settings: { create }\<close>.\<close>

definition brand_insert :: "scope \<Rightarrow> full_brand \<Rightarrow> string \<Rightarrow> unit company" where
  "brand_insert sc r prefix = (\<lambda>w. let d = cw_db w in
     if \<not> brand_policy sc r then (Inl (CompanyThrew RlsViolation), w)
     else if list_ex (\<lambda>x. b_id x = b_id r) (cy_brands d) then (Inl (CompanyThrew (UniqueViolation ''id'')), w)
     else if list_ex (\<lambda>x. st_brandId x = b_id r) (cy_settings d) then (Inl (CompanyThrew (UniqueViolation ''brand_id'')), w)
     else (Inr (), w\<lparr> cw_db := d\<lparr> cy_brands := cy_brands d @ [r], cy_settings := cy_settings d @ [default_settings (b_id r) prefix] \<rparr> \<rparr>))"

record brand_input =
  bi_legalName :: string
  bi_displayName :: string
  bi_businessType :: string
  bi_salesPersonName :: "string option"
  bi_phone :: "string option"
  bi_email :: "string option"
  bi_mailing :: "json_object option"
  bi_billing :: "json_object option"
  bi_taxId :: "string option"
  bi_currency :: string
  bi_timezone :: string
  bi_themeColor :: string

definition LOGO_URL_TTL_SECONDS :: int where
  "LOGO_URL_TTL_SECONDS = 3600"

definition MAX_LOGO_BYTES :: int where
  "MAX_LOGO_BYTES = 5 * 1024 * 1024"

definition brands_list :: "company_env \<Rightarrow> scope \<Rightarrow> (full_brand \<times> string option) list company" where
  "brands_list env sc = ebind (company_scope (egets (\<lambda>w. sort_key b_createdAt (brands_seen sc (cw_db w))))) (\<lambda>rows.
     ereturn (map (\<lambda>b. (b, if nonempty (b_logoKey b) then Some (ce_sign env (the (b_logoKey b)) LOGO_URL_TTL_SECONDS) else None)) rows))"

definition brand_create :: "scope \<Rightarrow> brand_input \<Rightarrow> string \<Rightarrow> full_brand company" where
  "brand_create sc i invoicePrefix =
     (case sc of
        PublicScope _ \<Rightarrow> ethrow (CompanyThrew (InternalErr ''brand creation requires an authenticated merchant scope''))
      | RequestScope r \<Rightarrow> company_scope (ebind company_id (\<lambda>bid. ebind (egets cw_now) (\<lambda>now.
          let b = \<lparr> b_id = bid, b_merchantId = rs_merchantId r, b_displayName = bi_displayName i, b_currency = bi_currency i,
            b_themeColor = bi_themeColor i, b_createdAt = now, b_legalName = bi_legalName i, b_businessType = Some (bi_businessType i),
            b_salesPerson = bi_salesPersonName i, b_phone = bi_phone i, b_email = bi_email i, b_mailing = bi_mailing i, b_billing = bi_billing i,
            b_taxId = bi_taxId i, b_timezone = bi_timezone i, b_logoKey = None \<rparr>
          in ebind (brand_insert sc b invoicePrefix) (\<lambda>_. ereturn b)))))"

definition brand_edit :: "scope \<Rightarrow> string \<Rightarrow> brand_input \<Rightarrow> unit company" where
  "brand_edit sc brandId i =
     ebind (company_scope (brand_at sc brandId)) (\<lambda>found.
     ebind (elift (require found (Missing ''brand not found''))) (\<lambda>_.
     company_scope (brand_update sc brandId (\<lambda>b. b\<lparr> b_legalName := bi_legalName i, b_displayName := bi_displayName i,
       b_businessType := Some (bi_businessType i), b_salesPerson := bi_salesPersonName i, b_phone := bi_phone i, b_email := bi_email i,
       b_mailing := bi_mailing i, b_billing := bi_billing i, b_taxId := bi_taxId i, b_currency := bi_currency i,
       b_timezone := bi_timezone i, b_themeColor := bi_themeColor i \<rparr>))))"

record logo_upload =
  lu_mimetype :: string
  lu_size :: int

text \<open>A MIME type has a slash, so no property inherited from \<open>Object.prototype\<close> is found under one.\<close>

definition logo_extensions :: "(string \<times> string) list" where
  "logo_extensions = [(''image/jpeg'', ''jpg''), (''image/png'', ''png''), (''image/svg+xml'', ''svg'')]"

definition logoExtensionFor :: "logo_upload \<Rightarrow> (company_error, string) result" where
  "logoExtensionFor file =
     (case map_of logo_extensions (lu_mimetype file) of
        None \<Rightarrow> Inl (Refused ''logo must be a JPG, PNG, or SVG image'')
      | Some extension \<Rightarrow> if MAX_LOGO_BYTES < lu_size file then Inl (Refused ''logo must be 5MB or smaller'') else Inr extension)"

definition storeLogo :: "company_env \<Rightarrow> string \<Rightarrow> string company" where
  "storeLogo env key = (\<lambda>w. if ce_stores env key then (Inr (ce_sign env key LOGO_URL_TTL_SECONDS), w\<lparr> cw_objects := cw_objects w @ [key] \<rparr>)
     else (Inl (CompanyThrew (InternalErr ''storage'')), w))"

definition brandLogo_key :: "string \<Rightarrow> string \<Rightarrow> string" where
  "brandLogo_key brandId filename = ''brands/'' @ brandId @ ''/logo/'' @ filename"

definition merchantLogo_key :: "string \<Rightarrow> string \<Rightarrow> string" where
  "merchantLogo_key merchantId filename = ''merchants/'' @ merchantId @ ''/logo/'' @ filename"

definition brand_setLogo :: "company_env \<Rightarrow> scope \<Rightarrow> string \<Rightarrow> logo_upload \<Rightarrow> string company" where
  "brand_setLogo env sc brandId file =
     ebind (elift (logoExtensionFor file)) (\<lambda>extension.
     ebind (company_scope (brand_at sc brandId)) (\<lambda>found.
     ebind (elift (require found (Missing ''brand not found''))) (\<lambda>_.
     let key = brandLogo_key brandId (''logo.'' @ extension) in
     ebind (storeLogo env key) (\<lambda>url.
     ebind (company_scope (brand_update sc brandId (\<lambda>b. b\<lparr> b_logoKey := Some key \<rparr>))) (\<lambda>_. ereturn url)))))"

section \<open>Onboarding\<close>

record company_details =
  cd_legalName :: string
  cd_dba :: "string option"
  cd_businessType :: string
  cd_phone :: "string option"
  cd_email :: "string option"
  cd_website :: "string option"
  cd_mailing :: "json_object option"
  cd_billing :: "json_object option"
  cd_taxId :: "string option"

record company_details_view = company_details +
  cd_hasLogo :: bool

record onboarding_state =
  os_companyDetails :: "company_details_view option"
  os_brandStructure :: "brand_structure option"
  os_hasBrands :: bool
  os_onboardingComplete :: bool

definition getOnboardingState :: "scope \<Rightarrow> onboarding_state company" where
  "getOnboardingState sc = ebind (company_scope (ebind (the_company sc) (\<lambda>m. egets (\<lambda>w. (m, length (brands_seen sc (cw_db w))))))) (\<lambda>(m, brandCount).
     ereturn \<lparr> os_companyDetails = (if nonempty (mc_legalName m)
         then Some \<lparr> cd_legalName = the (mc_legalName m), cd_dba = mc_dba m,
           cd_businessType = (case mc_businessType m of None \<Rightarrow> [] | Some t \<Rightarrow> t), cd_phone = mc_phone m, cd_email = mc_email m,
           cd_website = mc_website m, cd_mailing = mc_mailing m, cd_billing = mc_billing m, cd_taxId = mc_taxId m,
           cd_hasLogo = (mc_logoKey m \<noteq> None) \<rparr>
         else None),
       os_brandStructure = mc_structure m, os_hasBrands = (0 < brandCount), os_onboardingComplete = mc_onboardingComplete m \<rparr>)"

text \<open>\<open>?? undefined\<close> leaves a column as it is.\<close>

definition setCompanyDetails :: "scope \<Rightarrow> company_details \<Rightarrow> unit company" where
  "setCompanyDetails sc i = company_scope (company_update sc (\<lambda>m. m\<lparr> mc_legalName := Some (cd_legalName i), mc_dba := cd_dba i,
     mc_businessType := Some (cd_businessType i), mc_phone := cd_phone i, mc_email := cd_email i, mc_website := cd_website i,
     mc_mailing := (if cd_mailing i = None then mc_mailing m else cd_mailing i),
     mc_billing := (if cd_billing i = None then mc_billing m else cd_billing i), mc_taxId := cd_taxId i \<rparr>))"

definition merchant_setLogo :: "company_env \<Rightarrow> scope \<Rightarrow> logo_upload \<Rightarrow> string company" where
  "merchant_setLogo env sc file =
     ebind (elift (logoExtensionFor file)) (\<lambda>extension.
     let key = merchantLogo_key (scope_merchant sc) (''logo.'' @ extension) in
     ebind (storeLogo env key) (\<lambda>url.
     ebind (company_scope (company_update sc (\<lambda>m. m\<lparr> mc_logoKey := Some key \<rparr>))) (\<lambda>_. ereturn url)))"

definition first_brand :: "scope \<Rightarrow> company_db \<Rightarrow> (string \<times> string) option" where
  "first_brand sc d = (case sort_key b_createdAt (filter (\<lambda>b. b_merchantId b = scope_merchant sc) (brands_seen sc d)) of
     [] \<Rightarrow> None | b # _ \<Rightarrow> Some (b_id b, b_displayName b))"

definition staged_brand :: "company_row \<Rightarrow> string \<Rightarrow> string \<Rightarrow> int \<Rightarrow> full_brand" where
  "staged_brand m merchantId bid now = \<lparr> b_id = bid, b_merchantId = merchantId, b_displayName = the (mc_legalName m), b_currency = ''USD'',
     b_themeColor = ''#2D6A6A'', b_createdAt = now, b_legalName = the (mc_legalName m), b_businessType = mc_businessType m, b_salesPerson = None,
     b_phone = mc_phone m, b_email = mc_email m, b_mailing = mc_mailing m, b_billing = mc_billing m, b_taxId = mc_taxId m,
     b_timezone = ''America/New_York'', b_logoKey = mc_logoKey m \<rparr>"

definition chooseBrandStructure :: "scope \<Rightarrow> brand_structure \<Rightarrow> (string \<times> string) option company" where
  "chooseBrandStructure sc structure = company_scope (ebind (the_company sc) (\<lambda>m.
     case mc_structure m of
       Some SINGLE \<Rightarrow> egets (\<lambda>w. first_brand sc (cw_db w))
     | Some MULTI \<Rightarrow> ereturn None
     | None \<Rightarrow>
         if structure = MULTI then ebind (company_update sc (\<lambda>m. m\<lparr> mc_structure := Some MULTI \<rparr>)) (\<lambda>_. ereturn None)
         else ebind (egets (\<lambda>w. first_brand sc (cw_db w))) (\<lambda>existing. case existing of
             Some b \<Rightarrow> ebind (company_update sc (\<lambda>m. m\<lparr> mc_structure := Some SINGLE, mc_onboardingComplete := True \<rparr>)) (\<lambda>_. ereturn (Some b))
           | None \<Rightarrow>
               if \<not> nonempty (mc_legalName m) \<or> mc_businessType m = None
               then ethrow (Refused ''company details must be completed before choosing single brand'')
               else ebind company_id (\<lambda>bid. ebind (egets cw_now) (\<lambda>now.
                 ebind (brand_insert sc (staged_brand m (scope_merchant sc) bid now) ''INV'') (\<lambda>_.
                 ebind (company_update sc (\<lambda>m. m\<lparr> mc_structure := Some SINGLE, mc_onboardingComplete := True \<rparr>)) (\<lambda>_.
                 ereturn (Some (bid, the (mc_legalName m)))))))))) "

definition completeOnboarding :: "scope \<Rightarrow> unit company" where
  "completeOnboarding sc = company_scope (ebind (the_company sc) (\<lambda>m. ebind (egets (\<lambda>w. length (brands_seen sc (cw_db w)))) (\<lambda>brandCount.
     if mc_structure m \<noteq> Some MULTI then ethrow (Refused ''onboarding is not in multi-brand setup'')
     else if brandCount < 1 then ethrow (Refused ''add at least one brand before finishing setup'')
     else company_update sc (\<lambda>m. m\<lparr> mc_onboardingComplete := True \<rparr>))))"

section \<open>Customers\<close>

record customer_list_row =
  cl_customer :: full_customer
  cl_outstandingMinor :: int
  cl_invoiceCount :: nat
  cl_paymentCount :: nat

record customer_list_query =
  cq_page :: nat
  cq_pageSize :: nat
  cq_search :: "string option"
  cq_from :: "int option"
  cq_to :: "int option"
  cq_hasOutstanding :: "bool option"
  cq_includeArchived :: bool

definition customers_seen :: "scope \<Rightarrow> company_db \<Rightarrow> full_customer list" where
  "customers_seen sc d = filter (\<lambda>c. cy_sees sc d (c_brandId c)) (cy_customers d)"

definition invoices_seen :: "scope \<Rightarrow> company_db \<Rightarrow> invoice_row list" where
  "invoices_seen sc d = filter (\<lambda>r. cy_sees sc d (i_brandId r)) (cy_invoices d)"

definition payments_seen :: "scope \<Rightarrow> company_db \<Rightarrow> payment_row list" where
  "payments_seen sc d = filter (\<lambda>r. cy_sees sc d (p_brandId r)) (cy_payments d)"

definition owes :: "invoice_row list \<Rightarrow> string \<Rightarrow> bool" where
  "owes rows cid = list_ex (\<lambda>r. i_customerId r = cid \<and> 0 < i_balanceMinor r \<and> i_status r \<notin> {PAID, CANCELLED}) rows"

definition customer_where :: "company_env \<Rightarrow> scope \<Rightarrow> company_db \<Rightarrow> string \<Rightarrow> customer_list_query \<Rightarrow> full_customer \<Rightarrow> bool" where
  "customer_where env sc d brandId q c \<longleftrightarrow> c_brandId c = brandId \<and> (cq_includeArchived q \<or> dc_active c) \<and>
     (case cq_search q of None \<Rightarrow> True | Some s \<Rightarrow> s = [] \<or> ce_contains env s (c_displayName c) \<or>
        (case fc_companyName c of None \<Rightarrow> False | Some n \<Rightarrow> ce_contains env s n) \<or> (case c_email c of None \<Rightarrow> False | Some e \<Rightarrow> ce_contains env s e)) \<and>
     (case cq_from q of None \<Rightarrow> True | Some t \<Rightarrow> t \<le> dc_createdAt c) \<and> (case cq_to q of None \<Rightarrow> True | Some t \<Rightarrow> dc_createdAt c \<le> t) \<and>
     (case cq_hasOutstanding q of None \<Rightarrow> True | Some b \<Rightarrow> owes (invoices_seen sc d) (c_id c) = b)"

definition withInvoiceStats :: "scope \<Rightarrow> company_db \<Rightarrow> full_customer list \<Rightarrow> customer_list_row list" where
  "withInvoiceStats sc d page =
     (let ids = map c_id page; rows = filter (\<lambda>r. i_customerId r \<in> set ids) (invoices_seen sc d);
          invoiceAgg = group_by i_customerId rows; customerIdByInvoiceId = map_of (rev (map (\<lambda>r. (i_id r, i_customerId r)) rows));
          paymentAgg = group_by p_invoiceId (filter (\<lambda>p. p_invoiceId p \<in> i_id ` set rows \<and> p_status p = SETTLED) (payments_seen sc d));
          paymentCounts = foldl (\<lambda>m (iid, ps). case customerIdByInvoiceId iid of
              None \<Rightarrow> m
            | Some cid \<Rightarrow> if cid = [] then m else AList.update cid ((case map_of m cid of None \<Rightarrow> 0 | Some n \<Rightarrow> n) + length ps) m) [] paymentAgg
      in map (\<lambda>c. \<lparr> cl_customer = c, cl_outstandingMinor = sum_of_key i_balanceMinor invoiceAgg (c_id c),
           cl_invoiceCount = (case map_of invoiceAgg (c_id c) of None \<Rightarrow> 0 | Some rs \<Rightarrow> length rs),
           cl_paymentCount = (case map_of paymentCounts (c_id c) of None \<Rightarrow> 0 | Some n \<Rightarrow> n) \<rparr>) page)"

definition customers_list :: "company_env \<Rightarrow> scope \<Rightarrow> string \<Rightarrow> customer_list_query \<Rightarrow> customer_list_row list_result company" where
  "customers_list env sc brandId q = company_scope (egets (\<lambda>w. let d = cw_db w;
       rows = filter (customer_where env sc d brandId q) (customers_seen sc d);
       page = page_of (cq_page q) (cq_pageSize q) (newest_first dc_createdAt rows)
     in \<lparr> ls_data = withInvoiceStats sc d page, ls_page = cq_page q, ls_pageSize = cq_pageSize q, ls_total = length rows \<rparr>))"

definition customer_findOne :: "scope \<Rightarrow> string \<Rightarrow> string \<Rightarrow> (full_customer \<times> contact_row list) company" where
  "customer_findOne sc brandId cid =
     ebind (company_scope (egets (\<lambda>w. map_option (\<lambda>c. (c, sort_key (\<lambda>p. (if ct_primary p then 0 else 1 :: int)) (sort_key ct_createdAt
         (filter (\<lambda>p. ct_customerId p = cid) (cy_contacts (cw_db w))))))
       (find (\<lambda>c. c_id c = cid \<and> c_brandId c = brandId) (customers_seen sc (cw_db w)))))) (\<lambda>found.
     elift (require found (Missing ''customer not found'')))"

record customer_input =
  ci_type :: string
  ci_salutation :: "string option"
  ci_firstName :: "string option"
  ci_lastName :: "string option"
  ci_companyName :: "string option"
  ci_displayName :: string
  ci_email :: "string option"
  ci_phone :: "string option"
  ci_billing :: "json_object option"
  ci_shipping :: "json_object option"

definition customer_write_error :: "company_error \<Rightarrow> company_error" where
  "customer_write_error e = (case e of
     CompanyThrew (UniqueViolation _) \<Rightarrow> Conflicting ''a customer with this identifier already exists''
   | CompanyThrew RlsViolation \<Rightarrow> Forbidden ''insufficient permissions for this brand''
   | _ \<Rightarrow> e)"

definition customer_insert :: "scope \<Rightarrow> full_customer \<Rightarrow> unit company" where
  "customer_insert sc c = (\<lambda>w. let d = cw_db w in
     if \<not> cy_sees sc d (c_brandId c) then (Inl (CompanyThrew RlsViolation), w)
     else if list_ex (\<lambda>x. c_id x = c_id c) (cy_customers d) then (Inl (CompanyThrew (UniqueViolation ''id'')), w)
     else (Inr (), w\<lparr> cw_db := d\<lparr> cy_customers := cy_customers d @ [c] \<rparr> \<rparr>))"

definition push_customer :: "string \<Rightarrow> string \<Rightarrow> unit company" where
  "push_customer brandId cid = emodify (\<lambda>w. w\<lparr> cw_tasks := cw_tasks w @ [PushCustomerTask brandId cid] \<rparr>)"

definition customer_create :: "scope \<Rightarrow> string \<Rightarrow> customer_input \<Rightarrow> full_customer company" where
  "customer_create sc brandId i =
     ebind (company_scope (ebind company_id (\<lambda>cid. ebind (egets cw_now) (\<lambda>now.
       let c = \<lparr> c_id = cid, c_brandId = brandId, c_displayName = ci_displayName i, c_email = ci_email i, dc_active = True, dc_createdAt = now,
         dc_updatedAt = now, fc_type = ci_type i, fc_salutation = ci_salutation i, fc_firstName = ci_firstName i, fc_lastName = ci_lastName i,
         fc_companyName = ci_companyName i, fc_phone = ci_phone i, fc_billing = ci_billing i, fc_shipping = ci_shipping i \<rparr>
       in ebind (ecatch (customer_insert sc c) (\<lambda>e. ethrow (customer_write_error e))) (\<lambda>_. ereturn c))))) (\<lambda>c.
     ebind (push_customer brandId (c_id c)) (\<lambda>_. ereturn c))"

definition customer_edited :: "customer_input \<Rightarrow> int \<Rightarrow> full_customer \<Rightarrow> full_customer" where
  "customer_edited i now c = c\<lparr> fc_type := ci_type i, fc_salutation := ci_salutation i, fc_firstName := ci_firstName i, fc_lastName := ci_lastName i,
     fc_companyName := ci_companyName i, c_displayName := ci_displayName i, c_email := ci_email i, fc_phone := ci_phone i,
     fc_billing := ci_billing i, fc_shipping := ci_shipping i, dc_updatedAt := now \<rparr>"

definition customer_update :: "scope \<Rightarrow> string \<Rightarrow> string \<Rightarrow> customer_input \<Rightarrow> full_customer company" where
  "customer_update sc brandId cid i =
     ebind (company_scope (ebind (egets (\<lambda>w. find (\<lambda>c. c_id c = cid \<and> c_brandId c = brandId) (customers_seen sc (cw_db w)))) (\<lambda>found.
       ebind (elift (require found (Missing ''customer not found''))) (\<lambda>c. ebind (egets cw_now) (\<lambda>now.
       ebind (cy_change (\<lambda>d. d\<lparr> cy_customers := map_rows (\<lambda>x. cy_sees sc d (c_brandId x) \<and> c_id x = cid) (customer_edited i now) (cy_customers d) \<rparr>)) (\<lambda>_.
       ereturn (customer_edited i now c))))))) (\<lambda>c.
     ebind (push_customer brandId (c_id c)) (\<lambda>_. ereturn c))"

end
