(* ===== verification/Branding.thy ===== *)
theory Branding
  imports Company
begin

text \<open>
  The settings of a brand (\<open>apps/api/src/brands/brand-settings.service.ts\<close>): payment methods, the payment page, the e-mail
  templates, the invoice document, the test send, and the audit row that every change writes in its own transaction. A character
  beyond Latin-1 is spelled by its UTF-8 bytes.
\<close>

section \<open>Reading\<close>

record payment_method_settings =
  pm_card :: bool
  pm_applePay :: bool
  pm_googlePay :: bool
  pm_ach :: bool
  pm_check :: bool

record brand_elements =
  be_themeColor :: string
  be_accentColor :: string

record payment_page_settings = brand_elements +
  pp_layout :: page_layout

record email_templates = brand_elements +
  et_layout :: receipt_layout
  et_subject :: string
  et_body :: string
  et_confirmationSubject :: string
  et_confirmationBody :: string
  et_failedSubject :: string
  et_failedBody :: string

record email_receipt_settings = email_templates +
  er_senderAddress :: string

record invoice_pdf_settings = brand_elements +
  ip_layout :: pdf_layout
  ip_showAddress :: bool
  ip_showTerms :: bool
  ip_showTax :: bool
  ip_showNotes :: bool
  ip_companyName :: string
  ip_companyAddress :: string
  ip_terms :: payment_terms
  ip_notes :: string

record branding_env =
  bv_mailFrom :: string
  bv_displayMoney :: "int \<Rightarrow> currency \<Rightarrow> string"
  bv_displayDate :: "int \<Rightarrow> string"
  bv_stored :: "string \<Rightarrow> bool"
  bv_accepts :: "nat \<Rightarrow> mail \<Rightarrow> bool"

definition load :: "scope \<Rightarrow> string \<Rightarrow> (full_brand \<times> full_settings) company" where
  "load sc brandId =
     ebind (brand_at sc brandId) (\<lambda>found.
     ebind (elift (require found (Missing ''brand not found''))) (\<lambda>b.
     ebind (egets (\<lambda>w. find (\<lambda>s. cy_sees sc (cw_db w) (st_brandId s) \<and> st_brandId s = brandId) (cy_settings (cw_db w)))) (\<lambda>found.
     ebind (elift (require found (Missing ''brand settings not found''))) (\<lambda>s. ereturn (b, s)))))"

definition elementsOf :: "full_brand \<Rightarrow> full_settings \<Rightarrow> brand_elements" where
  "elementsOf b s = \<lparr> be_themeColor = b_themeColor b, be_accentColor = st_accentColor s \<rparr>"

definition payment_methods_of :: "full_settings \<Rightarrow> payment_method_settings" where
  "payment_methods_of s = \<lparr> pm_card = st_cardEnabled s, pm_applePay = st_applePayEnabled s, pm_googlePay = st_googlePayEnabled s,
     pm_ach = st_achEnabled s, pm_check = st_checkEnabled s \<rparr>"

definition payment_page_of :: "full_brand \<Rightarrow> full_settings \<Rightarrow> payment_page_settings" where
  "payment_page_of b s = brand_elements.extend (elementsOf b s) (payment_page_settings.fields (st_paymentPageLayout s))"

text \<open>\<open>/^\s*"?([^"<]*?)"?\s*<([^>]+)>\s*$/\<close>: a name that ends at a quote keeps its spaces until it is trimmed, one that ends at the bracket gives them to \<open>\s*\<close>.\<close>

definition parseFrom :: "string \<Rightarrow> string \<times> string" where
  "parseFrom value =
     (let fallback = (''Sugrpay'', js_trim value); quote = CHR 0x22;
          s = dropWhile is_space value; t = (if take 1 s = [quote] then drop 1 s else s);
          name = takeWhile (\<lambda>c. c \<noteq> quote \<and> c \<noteq> CHR ''<'') t; rest = drop (length name) t;
          quoted = (take 1 rest = [quote]); rest' = (if quoted then dropWhile is_space (drop 1 rest) else rest);
          group1 = (if quoted then name else rev (dropWhile is_space (rev name)));
          address = takeWhile (\<lambda>c. c \<noteq> CHR ''>'') (drop 1 rest'); after = drop (length address) (drop 1 rest')
      in if take 1 rest' = ''<'' \<and> address \<noteq> [] \<and> take 1 after = ''>'' \<and> list_all is_space (drop 1 after) \<and> group1 \<noteq> []
         then (js_trim group1, js_trim address) else fallback)"

definition email_receipt_of :: "branding_env \<Rightarrow> full_brand \<Rightarrow> full_settings \<Rightarrow> email_receipt_settings" where
  "email_receipt_of env b s = \<lparr> be_themeColor = b_themeColor b, be_accentColor = st_accentColor s, et_layout = st_emailReceiptLayout s,
     et_subject = st_emailReceiptSubject s, et_body = st_emailReceiptBody s, et_confirmationSubject = st_confirmationSubject s,
     et_confirmationBody = st_confirmationBody s, et_failedSubject = st_failedSubject s, et_failedBody = st_failedBody s,
     er_senderAddress = snd (parseFrom (bv_mailFrom env)) \<rparr>"

text \<open>\<open>filter(Boolean).join(separator)\<close>.\<close>

definition join_present :: "string \<Rightarrow> string list \<Rightarrow> string" where
  "join_present separator parts = (case filter (\<lambda>s. s \<noteq> []) parts of [] \<Rightarrow> [] | p # ps \<Rightarrow> p @ concat (map (\<lambda>s. separator @ s) ps))"

definition formatBrandAddress :: "json_object option \<Rightarrow> string" where
  "formatBrandAddress address =
     (case address of
        None \<Rightarrow> []
      | Some a \<Rightarrow>
          let str = (\<lambda>k. case map_of a k of Some (JsonString s) \<Rightarrow> s | _ \<Rightarrow> []);
              line1 = join_present '', '' [str ''line1'', str ''line2''];
              cityLine = join_present '' '' [join_present '', '' [str ''city'', str ''region''], str ''postalCode'']
          in join_present line_break [line1, cityLine])"

definition toInvoicePdfSettings :: "full_settings \<Rightarrow> full_brand \<Rightarrow> invoice_pdf_settings" where
  "toInvoicePdfSettings s b = \<lparr> be_themeColor = b_themeColor b, be_accentColor = st_accentColor s, ip_layout = st_pdfLayout s,
     ip_showAddress = st_pdfShowAddress s, ip_showTerms = st_pdfShowTerms s, ip_showTax = st_pdfShowTax s, ip_showNotes = st_pdfShowNotes s,
     ip_companyName = (case st_pdfCompanyName s of None \<Rightarrow> b_displayName b | Some n \<Rightarrow> n),
     ip_companyAddress = (case st_pdfCompanyAddress s of None \<Rightarrow> formatBrandAddress (b_mailing b) | Some a \<Rightarrow> a),
     ip_terms = st_pdfTerms s, ip_notes = st_pdfNotes s \<rparr>"

definition getPaymentMethods :: "scope \<Rightarrow> string \<Rightarrow> payment_method_settings company" where
  "getPaymentMethods sc brandId = ebind (company_scope (load sc brandId)) (\<lambda>(b, s). ereturn (payment_methods_of s))"

definition getPaymentPageDisplay :: "scope \<Rightarrow> string \<Rightarrow> payment_page_settings company" where
  "getPaymentPageDisplay sc brandId = ebind (company_scope (load sc brandId)) (\<lambda>(b, s). ereturn (payment_page_of b s))"

definition getEmailReceiptSettings :: "branding_env \<Rightarrow> scope \<Rightarrow> string \<Rightarrow> email_receipt_settings company" where
  "getEmailReceiptSettings env sc brandId = ebind (company_scope (load sc brandId)) (\<lambda>(b, s). ereturn (email_receipt_of env b s))"

definition getInvoicePdfSettings :: "scope \<Rightarrow> string \<Rightarrow> invoice_pdf_settings company" where
  "getInvoicePdfSettings sc brandId = ebind (company_scope (load sc brandId)) (\<lambda>(b, s). ereturn (toInvoicePdfSettings s b))"

section \<open>The audit row\<close>

text \<open>A column as JavaScript sees it; two arrays are never the same object.\<close>

datatype column_value = ColNull | ColBool bool | ColNumber int | ColText string | ColArray "int list"

fun strict_equal :: "column_value \<Rightarrow> column_value \<Rightarrow> bool" where
  "strict_equal (ColArray _) _ = False"
| "strict_equal a b = (a = b)"

definition col_option :: "string option \<Rightarrow> column_value" where
  "col_option x = (case x of None \<Rightarrow> ColNull | Some s \<Rightarrow> ColText s)"

fun page_layout_name :: "page_layout \<Rightarrow> string" where
  "page_layout_name PAGE_BANNER = ''BANNER''" | "page_layout_name PAGE_CENTERED = ''CENTERED''" | "page_layout_name PAGE_SPLIT = ''SPLIT''"

fun receipt_layout_name :: "receipt_layout \<Rightarrow> string" where
  "receipt_layout_name RECEIPT_CLASSIC = ''CLASSIC''" | "receipt_layout_name RECEIPT_HERO = ''HERO''" | "receipt_layout_name RECEIPT_MINIMAL = ''MINIMAL''"

fun pdf_layout_name :: "pdf_layout \<Rightarrow> string" where
  "pdf_layout_name PDF_CLASSIC = ''CLASSIC''" | "pdf_layout_name PDF_MODERN = ''MODERN''" | "pdf_layout_name PDF_MINIMAL = ''MINIMAL''"

fun payment_terms_name :: "payment_terms \<Rightarrow> string" where
  "payment_terms_name DUE_ON_RECEIPT = ''DUE_ON_RECEIPT''" | "payment_terms_name NET_15 = ''NET_15''"
| "payment_terms_name NET_30 = ''NET_30''" | "payment_terms_name NET_60 = ''NET_60''"

text \<open>\<open>Object.entries\<close> of a settings row, the dates left out.\<close>

definition settings_entries :: "full_settings \<Rightarrow> (string \<times> column_value) list" where
  "settings_entries s =
    [(''brandId'', ColText (st_brandId s)), (''invoicePrefix'', ColText (st_invoicePrefix s)), (''nextSequence'', ColNumber (st_nextSequence s)),
     (''paymentTermsDays'', ColNumber (st_paymentTermsDays s)), (''lateFeeRateBp'', ColNumber (st_lateFeeRateBp s)),
     (''defaultTaxRateId'', col_option (st_defaultTaxRateId s)), (''cardFeeRateBp'', ColNumber (st_cardFeeRateBp s)),
     (''partialPaymentEnabled'', ColBool (st_partialPaymentEnabled s)), (''reminderSchedule'', ColArray (st_reminderSchedule s)),
     (''cardEnabled'', ColBool (st_cardEnabled s)), (''applePayEnabled'', ColBool (st_applePayEnabled s)),
     (''googlePayEnabled'', ColBool (st_googlePayEnabled s)), (''achEnabled'', ColBool (st_achEnabled s)), (''checkEnabled'', ColBool (st_checkEnabled s)),
     (''accentColor'', ColText (st_accentColor s)), (''paymentPageLayout'', ColText (page_layout_name (st_paymentPageLayout s))),
     (''emailReceiptLayout'', ColText (receipt_layout_name (st_emailReceiptLayout s))),
     (''emailReceiptSubject'', ColText (st_emailReceiptSubject s)), (''emailReceiptBody'', ColText (st_emailReceiptBody s)),
     (''paymentConfirmationSubject'', ColText (st_confirmationSubject s)), (''paymentConfirmationBody'', ColText (st_confirmationBody s)),
     (''paymentFailedSubject'', ColText (st_failedSubject s)), (''paymentFailedBody'', ColText (st_failedBody s)),
     (''invoicePdfLayout'', ColText (pdf_layout_name (st_pdfLayout s))), (''invoicePdfShowCompanyAddress'', ColBool (st_pdfShowAddress s)),
     (''invoicePdfShowPaymentTerms'', ColBool (st_pdfShowTerms s)), (''invoicePdfShowTaxBreakdown'', ColBool (st_pdfShowTax s)),
     (''invoicePdfShowNotes'', ColBool (st_pdfShowNotes s)), (''invoicePdfCompanyName'', col_option (st_pdfCompanyName s)),
     (''invoicePdfCompanyAddress'', col_option (st_pdfCompanyAddress s)), (''invoicePdfPaymentTerms'', ColText (payment_terms_name (st_pdfTerms s))),
     (''invoicePdfNotes'', ColText (st_pdfNotes s))]"

definition non_content_columns :: "string list" where
  "non_content_columns = [''createdAt'', ''updatedAt'', ''brandId'', ''nextSequence'']"

definition MAX_AUDITED_VALUE_LENGTH :: nat where
  "MAX_AUDITED_VALUE_LENGTH = 200"

definition audited_text :: "string \<Rightarrow> audit_value" where
  "audited_text t = AuditText (if MAX_AUDITED_VALUE_LENGTH < length t then ''<changed>'' else t)"

text \<open>\<open>None\<close> is \<open>undefined\<close>.\<close>

definition auditable :: "column_value option \<Rightarrow> audit_value" where
  "auditable v = (case v of
     None \<Rightarrow> AuditNull | Some ColNull \<Rightarrow> AuditNull | Some (ColBool b) \<Rightarrow> AuditBool b | Some (ColNumber n) \<Rightarrow> AuditNumber n
   | Some (ColText t) \<Rightarrow> audited_text t | Some (ColArray ns) \<Rightarrow> audited_text (join_with (CHR '','') (map show_int ns)))"

definition diffOf :: "(string \<times> column_value) list \<Rightarrow> (string \<times> column_value) list \<Rightarrow> (string \<times> audit_value \<times> audit_value) list" where
  "diffOf before after = concat (map (\<lambda>(k, v).
     if k \<in> set non_content_columns then []
     else case map_of before k of
         None \<Rightarrow> [(k, auditable None, auditable (Some v))]
       | Some previous \<Rightarrow> if strict_equal previous v then [] else [(k, auditable (Some previous), auditable (Some v))]) after)"

definition scope_ip :: "scope \<Rightarrow> string option" where
  "scope_ip sc = (case sc of RequestScope r \<Rightarrow> rs_sourceIp r | PublicScope p \<Rightarrow> ps_sourceIp p)"

definition branding_audit :: "scope \<Rightarrow> string \<Rightarrow> string \<Rightarrow> full_settings \<Rightarrow> full_brand \<Rightarrow> full_brand \<times> full_settings \<Rightarrow> brand_audit" where
  "branding_audit sc brandId action beforeSettings beforeBrand after =
     \<lparr> ba_merchantId = scope_merchant sc, ba_brandId = brandId, ba_actorType = (if isPublicScope sc then ''SYSTEM'' else ''USER''),
       ba_actorId = (case sc of PublicScope _ \<Rightarrow> None | RequestScope r \<Rightarrow> Some (rs_userId r)), ba_action = action, ba_sourceIp = scope_ip sc,
       ba_changes = diffOf (settings_entries beforeSettings) (settings_entries (snd after)) @
         diffOf [(''themeColor'', ColText (b_themeColor beforeBrand))] [(''themeColor'', ColText (b_themeColor (fst after)))] \<rparr>"

definition record_branding :: "scope \<Rightarrow> string \<Rightarrow> string \<Rightarrow> full_settings \<Rightarrow> full_brand \<Rightarrow> full_brand \<times> full_settings \<Rightarrow> unit company" where
  "record_branding sc brandId action beforeSettings beforeBrand after =
     (if company_policy sc (scope_merchant sc)
      then cy_change (\<lambda>d. d\<lparr> cy_audit := cy_audit d @ [branding_audit sc brandId action beforeSettings beforeBrand after] \<rparr>)
      else ethrow (CompanyThrew RlsViolation))"

section \<open>Writing\<close>

definition settings_update :: "scope \<Rightarrow> string \<Rightarrow> (full_settings \<Rightarrow> full_settings) \<Rightarrow> full_settings company" where
  "settings_update sc brandId f =
     ebind (egets (\<lambda>w. find (\<lambda>s. cy_sees sc (cw_db w) (st_brandId s) \<and> st_brandId s = brandId) (cy_settings (cw_db w)))) (\<lambda>found.
     ebind (elift (require found (CompanyThrew RecordNotFound))) (\<lambda>s.
     ebind (cy_change (\<lambda>d. d\<lparr> cy_settings := map_rows (\<lambda>s. cy_sees sc d (st_brandId s) \<and> st_brandId s = brandId) f (cy_settings d) \<rparr>)) (\<lambda>_.
     ereturn (f s))))"

definition writeBranding :: "scope \<Rightarrow> full_brand \<Rightarrow> full_settings \<Rightarrow> brand_elements \<Rightarrow> (full_settings \<Rightarrow> full_settings) \<Rightarrow> (full_brand \<times> full_settings) company" where
  "writeBranding sc b s elements f =
     ebind (if be_themeColor elements = b_themeColor b then ereturn b
            else ebind (brand_update sc (b_id b) (\<lambda>r. r\<lparr> b_themeColor := be_themeColor elements \<rparr>)) (\<lambda>_.
                 ereturn (b\<lparr> b_themeColor := be_themeColor elements \<rparr>))) (\<lambda>nextBrand.
     ebind (settings_update sc (st_brandId s) f) (\<lambda>nextSettings. ereturn (nextBrand, nextSettings)))"

definition any_method :: "payment_method_settings \<Rightarrow> bool" where
  "any_method i \<longleftrightarrow> pm_card i \<or> pm_applePay i \<or> pm_googlePay i \<or> pm_ach i \<or> pm_check i"

definition updatePaymentMethods :: "scope \<Rightarrow> string \<Rightarrow> payment_method_settings \<Rightarrow> payment_method_settings company" where
  "updatePaymentMethods sc brandId i = company_scope
     (ebind (load sc brandId) (\<lambda>(b, s).
      if \<not> any_method i then ethrow (Conflicting ''at least one payment method must stay enabled'')
      else ebind (settings_update sc brandId (\<lambda>s. s\<lparr> st_cardEnabled := pm_card i, st_applePayEnabled := pm_applePay i,
          st_googlePayEnabled := pm_googlePay i, st_achEnabled := pm_ach i, st_checkEnabled := pm_check i \<rparr>)) (\<lambda>updated.
        ebind (record_branding sc brandId ''BRAND_PAYMENT_METHODS_UPDATED'' s b (b, updated)) (\<lambda>_.
        ereturn (payment_methods_of updated)))))"

text \<open>A saved section: load, write both rows, audit, and show what was stored.\<close>

definition save_branding :: "scope \<Rightarrow> string \<Rightarrow> string \<Rightarrow> brand_elements \<Rightarrow> (full_settings \<Rightarrow> full_settings) \<Rightarrow> (full_brand \<Rightarrow> full_settings \<Rightarrow> 'v) \<Rightarrow> 'v company" where
  "save_branding sc brandId action elements f view = company_scope
     (ebind (load sc brandId) (\<lambda>(b, s).
      ebind (writeBranding sc b s elements f) (\<lambda>updated.
      ebind (record_branding sc brandId action s b updated) (\<lambda>_.
      ereturn (view (fst updated) (snd updated))))))"

definition updatePaymentPageDisplay :: "scope \<Rightarrow> string \<Rightarrow> payment_page_settings \<Rightarrow> payment_page_settings company" where
  "updatePaymentPageDisplay sc brandId i = save_branding sc brandId ''BRAND_PAYMENT_PAGE_UPDATED'' (brand_elements.truncate i)
     (\<lambda>s. s\<lparr> st_accentColor := be_accentColor i, st_paymentPageLayout := pp_layout i \<rparr>) payment_page_of"

definition updateEmailReceiptSettings :: "branding_env \<Rightarrow> scope \<Rightarrow> string \<Rightarrow> email_templates \<Rightarrow> email_receipt_settings company" where
  "updateEmailReceiptSettings env sc brandId i = save_branding sc brandId ''BRAND_EMAIL_RECEIPT_UPDATED'' (brand_elements.truncate i)
     (\<lambda>s. s\<lparr> st_accentColor := be_accentColor i, st_emailReceiptLayout := et_layout i, st_emailReceiptSubject := et_subject i,
        st_emailReceiptBody := et_body i, st_confirmationSubject := et_confirmationSubject i, st_confirmationBody := et_confirmationBody i,
        st_failedSubject := et_failedSubject i, st_failedBody := et_failedBody i \<rparr>) (email_receipt_of env)"

record invoice_pdf_input = brand_elements +
  pi_layout :: pdf_layout
  pi_showAddress :: bool
  pi_showTerms :: bool
  pi_showTax :: bool
  pi_showNotes :: bool
  pi_companyName :: "string option"
  pi_companyAddress :: "string option"
  pi_terms :: payment_terms
  pi_notes :: string

definition updateInvoicePdfSettings :: "scope \<Rightarrow> string \<Rightarrow> invoice_pdf_input \<Rightarrow> invoice_pdf_settings company" where
  "updateInvoicePdfSettings sc brandId i = save_branding sc brandId ''BRAND_INVOICE_PDF_UPDATED'' (brand_elements.truncate i)
     (\<lambda>s. s\<lparr> st_accentColor := be_accentColor i, st_pdfLayout := pi_layout i, st_pdfShowAddress := pi_showAddress i, st_pdfShowTerms := pi_showTerms i,
        st_pdfShowTax := pi_showTax i, st_pdfShowNotes := pi_showNotes i, st_pdfCompanyName := pi_companyName i,
        st_pdfCompanyAddress := pi_companyAddress i, st_pdfTerms := pi_terms i, st_pdfNotes := pi_notes i \<rparr>) (\<lambda>b s. toInvoicePdfSettings s b)"

section \<open>The test send\<close>

record test_send = brand_elements +
  ts_to :: string
  ts_subject :: string
  ts_body :: string

definition test_sample_variables :: "string \<Rightarrow> email_variables" where
  "test_sample_variables brandName = \<lparr> ev_brandName = brandName, ev_customerName = ''Harborline Distributors'', ev_invoiceNumber = ''INV-3021'',
     ev_amountDue = ''$4,820.00'', ev_dueDate = ''Aug 26, 2026'' \<rparr>"

definition logo_file :: "branding_env \<Rightarrow> string option \<Rightarrow> string option" where
  "logo_file env logoKey = (case logoKey of None \<Rightarrow> None | Some key \<Rightarrow>
     (let extension = js_lower (last (split_on (CHR ''.'') key)) in
      if key = [] \<or> extension \<notin> set [''jpg'', ''png'', ''svg''] \<or> \<not> bv_stored env key then None else Some (''logo.'' @ extension)))"

definition test_variables :: "branding_env \<Rightarrow> full_brand \<Rightarrow> (invoice_row \<times> full_customer) option \<Rightarrow> (company_error, email_variables) result" where
  "test_variables env b latest = (case latest of
     None \<Rightarrow> Inr (test_sample_variables (b_displayName b))
   | Some (r, c) \<Rightarrow> (case assertMinor (JInt (i_balanceMinor r)) ''amount'' of
        Inl e \<Rightarrow> Inl (CompanyThrew (MoneyThrew e))
      | Inr n \<Rightarrow> Inr \<lparr> ev_brandName = b_displayName b, ev_customerName = c_displayName c, ev_invoiceNumber = i_number r,
          ev_amountDue = bv_displayMoney env n (toCurrencyCode (Some (i_currency r)) USD), ev_dueDate = bv_displayDate env (i_dueDate r) \<rparr>))"

definition latest_invoice :: "scope \<Rightarrow> string \<Rightarrow> (invoice_row \<times> full_customer) option company" where
  "latest_invoice sc brandId = ebind (egets cw_db) (\<lambda>d.
     case newest_first i_createdAt (filter (\<lambda>r. i_brandId r = brandId) (invoices_seen sc d)) of
       [] \<Rightarrow> ereturn None
     | r # _ \<Rightarrow> ebind (elift (require (find (\<lambda>c. c_id c = i_customerId r) (customers_seen sc d)) (CompanyThrew (MissingRelation ''customer'')))) (\<lambda>c.
         ereturn (Some (r, c))))"

definition test_text :: "email_variables \<Rightarrow> string \<Rightarrow> string" where
  "test_text v body = body @ line_break @ line_break @ ''Invoice '' @ ev_invoiceNumber v @ line_break @ ''Amount due: '' @ ev_amountDue v @ line_break @
     ''Due date: '' @ ev_dueDate v @ line_break @ line_break @ ''This is a test send '' @ [CHR 0xE2, CHR 0x80, CHR 0x94] @
     '' no payment is due and this email was not sent to a real customer.''"

definition sendEmailReceiptTest :: "branding_env \<Rightarrow> scope \<Rightarrow> string \<Rightarrow> test_send \<Rightarrow> unit company" where
  "sendEmailReceiptTest env sc brandId i =
     ebind (company_scope (ebind (brand_at sc brandId) (\<lambda>found. ebind (elift (require found (Missing ''brand not found''))) (\<lambda>b.
       ebind (latest_invoice sc brandId) (\<lambda>latest. ereturn (b, latest)))))) (\<lambda>(b, latest).
     ebind (elift (test_variables env b latest)) (\<lambda>v.
     ebind (egets cw_now) (\<lambda>now.
     let m = \<lparr> m_to = ts_to i, m_cc = None, m_from = bv_mailFrom env,
       m_subject = ''[Test] '' @ renderEmailReceiptTemplate (ts_subject i) v, m_text = test_text v (renderEmailReceiptTemplate (ts_body i) v),
       m_attachments = (case logo_file env (b_logoKey b) of None \<Rightarrow> [] | Some f \<Rightarrow> [f]), m_brandId = brandId, m_invoiceId = [],
       m_templateKey = ''email-receipt.test'', m_idempotencyKey = ''email-receipt-test:'' @ brandId @ '':'' @ show_int now \<rparr>
     in (\<lambda>w. if bv_accepts env (length (cw_mails w)) m then (Inr (), w\<lparr> cw_mails := cw_mails w @ [m] \<rparr>)
             else (Inl (CompanyThrew (BadGatewayErr ''mail'')), w)))))"

end
