(* ===== verification/CompanyFacts.thy ===== *)
theory CompanyFacts
  imports Branding
begin

text \<open>
  What the services of a merchant keep of its tables: the invariant of companies, brands and settings, kept by every operation
  of \<open>Company\<close> and \<open>Branding\<close>, and the step relation over them.
\<close>

section \<open>The invariant\<close>

text \<open>
  A brand has one settings row with a payment method enabled; onboarding ends with a decided structure and a brand, and a
  single-brand merchant has ended it.
\<close>

definition company_ok :: "company_db \<Rightarrow> company_row \<Rightarrow> bool" where
  "company_ok d m \<longleftrightarrow>
     (mc_onboardingComplete m \<longrightarrow> mc_structure m \<noteq> None \<and> list_ex (\<lambda>b. b_merchantId b = mc_id m) (cy_brands d)) \<and>
     (mc_structure m = Some SINGLE \<longrightarrow> mc_onboardingComplete m)"

definition company_wf :: "company_db \<Rightarrow> bool" where
  "company_wf d \<longleftrightarrow> distinct (map mc_id (cy_companies d)) \<and> distinct (map b_id (cy_brands d)) \<and>
     map st_brandId (cy_settings d) = map b_id (cy_brands d) \<and>
     list_all (\<lambda>s. any_method (payment_methods_of s)) (cy_settings d) \<and> list_all (company_ok d) (cy_companies d)"

definition structure_of :: "company_db \<Rightarrow> string \<Rightarrow> brand_structure option" where
  "structure_of d mid = Option.bind (find (\<lambda>m. mc_id m = mid) (cy_companies d)) mc_structure"

definition decided_kept :: "company_db \<Rightarrow> company_db \<Rightarrow> bool" where
  "decided_kept d d' \<longleftrightarrow> (\<forall>mid. structure_of d mid \<noteq> None \<longrightarrow> structure_of d' mid = structure_of d mid)"

definition company_inv :: "company_db \<Rightarrow> company_world \<Rightarrow> bool" where
  "company_inv d\<^sub>0 w \<longleftrightarrow> company_wf (cw_db w) \<and> decided_kept d\<^sub>0 (cw_db w)"

lemma company_inv_start: "company_inv (cw_db w) w \<longleftrightarrow> company_wf (cw_db w)"
  by (simp add: company_inv_def decided_kept_def)

lemma decided_kept_same: "\<lbrakk>decided_kept d\<^sub>0 d; cy_companies d' = cy_companies d\<rbrakk> \<Longrightarrow> decided_kept d\<^sub>0 d'"
  by (simp add: decided_kept_def structure_of_def)

lemma structure_of_map_rows:
  "(\<And>m. mc_id (f m) = mc_id m) \<Longrightarrow>
     structure_of (d\<lparr> cy_companies := map_rows P f (cy_companies d) \<rparr>) mid =
       (case find (\<lambda>m. mc_id m = mid) (cy_companies d) of None \<Rightarrow> None | Some m \<Rightarrow> mc_structure (if P m then f m else m))"
  by (auto simp: structure_of_def find_map_rows split: option.splits)

lemma company_ok_brands:
  "\<lbrakk>company_ok d m; \<And>x. x \<in> b_merchantId ` set (cy_brands d) \<Longrightarrow> x \<in> b_merchantId ` set (cy_brands d')\<rbrakk> \<Longrightarrow> company_ok d' m"
  unfolding company_ok_def list_ex_iff by (metis (no_types, lifting) imageE imageI)

section \<open>Preservation\<close>

named_theorems company_intros \<open>operations that keep the invariant\<close>

lemma company_scope_inv [company_intros]: "preserves (company_inv d\<^sub>0) m \<Longrightarrow> preserves (company_inv d\<^sub>0) (company_scope m)"
  unfolding preserves_def company_scope_def transaction_def by (fastforce simp: company_inv_def split: prod.splits sum.splits)

lemma inv_same_db: "(\<And>w. cw_db (h w) = cw_db w) \<Longrightarrow> preserves (company_inv d\<^sub>0) (emodify h)"
  by (simp add: preserves_def company_inv_def)

lemma company_id_inv [company_intros]: "preserves (company_inv d\<^sub>0) company_id"
  by (simp add: preserves_def company_id_def company_inv_def)

lemma cy_change_inv:
  assumes "\<And>d. company_wf d \<Longrightarrow> company_wf (f d)" "\<And>d. cy_companies (f d) = cy_companies d"
  shows "preserves (company_inv d\<^sub>0) (cy_change f)"
  unfolding cy_change_def using assms by (intro preserves_modify) (auto simp: company_inv_def intro: decided_kept_same)

lemma storeLogo_inv [company_intros]: "preserves (company_inv d\<^sub>0) (storeLogo env key)"
  by (simp add: preserves_def storeLogo_def company_inv_def)

lemma the_company_inv [company_intros]: "preserves (company_inv d\<^sub>0) (the_company sc)"
  unfolding the_company_def by (intro preserves_intros)

lemma brand_at_inv [company_intros]: "preserves (company_inv d\<^sub>0) (brand_at sc b)"
  unfolding brand_at_def by (intro preserves_intros)

text \<open>An edit of the company row that leaves its identifier, structure and completion alone.\<close>

lemma company_wf_companies:
  assumes "company_wf d" "\<And>m. mc_id (f m) = mc_id m" "\<And>m. m \<in> set (cy_companies d) \<Longrightarrow> P m \<Longrightarrow> company_ok d (f m)"
  shows "company_wf (d\<lparr> cy_companies := map_rows P f (cy_companies d) \<rparr>)"
proof -
  have ok: "company_ok (d\<lparr> cy_companies := cs \<rparr>) = company_ok d" for cs
    by (simp add: company_ok_def fun_eq_iff)
  show ?thesis
    using assms unfolding company_wf_def by (auto simp: ok map_rows_keys list_all_iff set_map_rows)
qed

lemma company_update_inv [company_intros]:
  assumes "\<And>m. mc_id (f m) = mc_id m" "\<And>m. mc_structure (f m) = mc_structure m" "\<And>m. mc_onboardingComplete (f m) = mc_onboardingComplete m"
  shows "preserves (company_inv d\<^sub>0) (company_update sc f)"
proof -
  have "company_ok d (f m) = company_ok d m" for d m using assms by (simp add: company_ok_def)
  then have "company_inv d\<^sub>0 (w\<lparr> cw_db := (cw_db w)\<lparr> cy_companies := map_rows P f (cy_companies (cw_db w)) \<rparr> \<rparr>)"
    if "company_inv d\<^sub>0 w" for w P
    using that assms
    by (auto simp: company_inv_def decided_kept_def structure_of_map_rows company_wf_def[of "cw_db w"] list_all_iff
          intro!: company_wf_companies split: option.splits)
       (auto simp: structure_of_def)
  then show ?thesis
    unfolding company_update_def cy_change_def by (intro preserves_intros company_intros preserves_modify) simp
qed

lemma brand_update_inv [company_intros]:
  assumes "\<And>b. b_id (f b) = b_id b" "\<And>b. b_merchantId (f b) = b_merchantId b"
  shows "preserves (company_inv d\<^sub>0) (brand_update sc b f)"
proof -
  have "company_wf (d\<lparr> cy_brands := map_rows P f (cy_brands d) \<rparr>)" if "company_wf d" for d P
  proof -
    have "b_merchantId ` set (map_rows P f (cy_brands d)) = b_merchantId ` set (cy_brands d)"
      using map_rows_keys[of b_merchantId f P "cy_brands d"] assms(2) by (metis list.set_map)
    then have "company_ok d m \<Longrightarrow> company_ok (d\<lparr> cy_brands := map_rows P f (cy_brands d) \<rparr>) m" for m
      by (auto elim: company_ok_brands)
    then show ?thesis
      using that assms(1) unfolding company_wf_def by (auto simp: map_rows_keys list_all_iff)
  qed
  then show ?thesis
    unfolding brand_update_def by (intro preserves_intros company_intros cy_change_inv) simp_all
qed

lemma settings_update_inv [company_intros]:
  assumes "\<And>s. st_brandId (f s) = st_brandId s" "\<And>s. any_method (payment_methods_of s) \<Longrightarrow> any_method (payment_methods_of (f s))"
  shows "preserves (company_inv d\<^sub>0) (settings_update sc b f)"
proof -
  have "company_wf (d\<lparr> cy_settings := map_rows P f (cy_settings d) \<rparr>)" if "company_wf d" for d P
  proof -
    have "company_ok (d\<lparr> cy_settings := ss \<rparr>) = company_ok d" for ss by (simp add: company_ok_def fun_eq_iff)
    then show ?thesis
      using that assms unfolding company_wf_def by (auto simp: map_rows_keys list_all_iff set_map_rows)
  qed
  then show ?thesis
    unfolding settings_update_def by (intro preserves_intros company_intros cy_change_inv) simp_all
qed

lemma default_method: "any_method (payment_methods_of (default_settings b prefix))"
  by (simp add: any_method_def payment_methods_of_def default_settings_def)

lemma company_wf_insert:
  assumes "company_wf d" "\<not> list_ex (\<lambda>x. b_id x = b_id r) (cy_brands d)"
  shows "company_wf (d\<lparr> cy_brands := cy_brands d @ [r], cy_settings := cy_settings d @ [default_settings (b_id r) prefix] \<rparr>)"
proof -
  have "company_ok d m \<Longrightarrow> company_ok (d\<lparr> cy_brands := cy_brands d @ [r], cy_settings := cy_settings d @ [default_settings (b_id r) prefix] \<rparr>) m" for m
    by (auto elim: company_ok_brands)
  moreover have "st_brandId (default_settings (b_id r) prefix) = b_id r" by (simp add: default_settings_def)
  ultimately show ?thesis
    using assms unfolding company_wf_def by (auto simp: list_all_iff list_ex_iff default_method)
qed

lemma brand_insert_inv [company_intros]: "preserves (company_inv d\<^sub>0) (brand_insert sc r prefix)"
  by (auto simp: preserves_def brand_insert_def Let_def company_inv_def intro!: company_wf_insert intro: decided_kept_same)

lemma cy_audit_inv [company_intros]: "preserves (company_inv d\<^sub>0) (record_branding sc b action s r after)"
  unfolding record_branding_def
  by (intro preserves_intros cy_change_inv) (simp_all add: company_wf_def company_ok_def[abs_def])

lemma load_inv [company_intros]: "preserves (company_inv d\<^sub>0) (load sc b)"
  unfolding load_def by (intro preserves_intros company_intros)

lemma push_customer_inv [company_intros]: "preserves (company_inv d\<^sub>0) (push_customer b c)"
  unfolding push_customer_def by (rule inv_same_db) simp

lemma preserves_prod [company_intros]: "(\<And>a b. preserves I (f a b)) \<Longrightarrow> preserves I (case x of (a, b) \<Rightarrow> f a b)"
  by (cases x) simp

lemma customer_insert_inv [company_intros]: "preserves (company_inv d\<^sub>0) (customer_insert sc c)"
  by (auto simp: preserves_def customer_insert_def Let_def company_inv_def company_wf_def company_ok_def[abs_def] intro: decided_kept_same)


section \<open>Onboarding\<close>

lemma wp_company_scope [wp_simps]:
  "wp (company_scope m) Q E = (\<lambda>w. wp m Q (\<lambda>e w'. E e (w'\<lparr> cw_db := cw_db w \<rparr>)) w)"
  by (simp add: company_scope_def wp_simps)

lemma wp_the_company [wp_simps]:
  "wp (the_company sc) Q E = (\<lambda>w. case find (\<lambda>r. company_policy sc (mc_id r) \<and> mc_id r = scope_merchant sc) (cy_companies (cw_db w)) of
     None \<Rightarrow> E (CompanyThrew RecordNotFound) w | Some m \<Rightarrow> Q m w)"
  by (simp add: the_company_def wp_simps)

lemma wp_cy_change [wp_simps]: "wp (cy_change f) Q E = (\<lambda>w. Q () (w\<lparr> cw_db := f (cw_db w) \<rparr>))"
  by (simp add: cy_change_def wp_simps)

lemma wp_company_update [wp_simps]:
  "wp (company_update sc f) Q E = (\<lambda>w. case find (\<lambda>r. company_policy sc (mc_id r) \<and> mc_id r = scope_merchant sc) (cy_companies (cw_db w)) of
     None \<Rightarrow> E (CompanyThrew RecordNotFound) w
   | Some m \<Rightarrow> Q () (w\<lparr> cw_db := (cw_db w)\<lparr> cy_companies :=
       map_rows (\<lambda>r. company_policy sc (mc_id r) \<and> mc_id r = scope_merchant sc) f (cy_companies (cw_db w)) \<rparr> \<rparr>))"
  by (simp add: company_update_def wp_simps)

lemma wp_company_id [wp_simps]: "wp company_id Q E = (\<lambda>w. Q (cw_ids w (cw_drawn w)) (w\<lparr> cw_drawn := cw_drawn w + 1 \<rparr>))"
  by (simp add: company_id_def wp_def fun_eq_iff)

lemma wp_brand_insert [wp_simps]:
  "wp (brand_insert sc r prefix) Q E = (\<lambda>w. if \<not> brand_policy sc r then E (CompanyThrew RlsViolation) w
     else if list_ex (\<lambda>x. b_id x = b_id r) (cy_brands (cw_db w)) then E (CompanyThrew (UniqueViolation ''id'')) w
     else if list_ex (\<lambda>x. st_brandId x = b_id r) (cy_settings (cw_db w)) then E (CompanyThrew (UniqueViolation ''brand_id'')) w
     else Q () (w\<lparr> cw_db := (cw_db w)\<lparr> cy_brands := cy_brands (cw_db w) @ [r],
       cy_settings := cy_settings (cw_db w) @ [default_settings (b_id r) prefix] \<rparr> \<rparr>))"
  by (rule ext) (simp add: brand_insert_def wp_def Let_def)

lemma brand_policy_merchant: "brand_policy sc r \<Longrightarrow> b_merchantId r = scope_merchant sc"
  by (auto simp: brand_policy_def Let_def dest: app_merchant_id_settings)

text \<open>Deciding the structure of the merchant's own, undecided row.\<close>

lemma decide_inv:
  assumes inv: "company_inv d\<^sub>0 w"
    and own: "find (\<lambda>r. company_policy sc (mc_id r) \<and> mc_id r = scope_merchant sc) (cy_companies (cw_db w)) = Some m"
    and id: "\<And>r. mc_id (f r) = mc_id r"
    and ok: "company_ok (cw_db w) (f m)"
    and kept: "mc_structure m \<noteq> None \<Longrightarrow> mc_structure (f m) = mc_structure m"
  shows "company_inv d\<^sub>0 (w\<lparr> cw_db := (cw_db w)\<lparr> cy_companies :=
       map_rows (\<lambda>r. company_policy sc (mc_id r) \<and> mc_id r = scope_merchant sc) f (cy_companies (cw_db w)) \<rparr> \<rparr>)"
proof -
  let ?P = "\<lambda>r. company_policy sc (mc_id r) \<and> mc_id r = scope_merchant sc"
  have m: "m \<in> set (cy_companies (cw_db w))" "?P m" using find_Some_iff'[OF own] by auto
  have dist: "distinct (map mc_id (cy_companies (cw_db w)))" using inv by (simp add: company_inv_def company_wf_def)
  have only: "r = m" if "r \<in> set (cy_companies (cw_db w))" "?P r" for r
    using that m dist by (metis distinct_map inj_on_def)
  have "company_wf ((cw_db w)\<lparr> cy_companies := map_rows ?P f (cy_companies (cw_db w)) \<rparr>)"
    using inv id ok only by (intro company_wf_companies) (auto simp: company_inv_def)
  moreover have "decided_kept d\<^sub>0 ((cw_db w)\<lparr> cy_companies := map_rows ?P f (cy_companies (cw_db w)) \<rparr>)"
    unfolding decided_kept_def
  proof (intro allI impI)
    fix mid assume "structure_of d\<^sub>0 mid \<noteq> None"
    then have was: "structure_of (cw_db w) mid = structure_of d\<^sub>0 mid" and some: "structure_of (cw_db w) mid \<noteq> None"
      using inv by (simp_all add: company_inv_def decided_kept_def)
    then obtain r where r: "find (\<lambda>x. mc_id x = mid) (cy_companies (cw_db w)) = Some r" "mc_structure r = structure_of d\<^sub>0 mid" "mc_structure r \<noteq> None"
      by (auto simp: structure_of_def split: bind_splits)
    have "mc_structure (if ?P r then f r else r) = mc_structure r"
      using only[of r] find_Some_iff'[OF r(1)] kept r(3) by auto
    then show "structure_of ((cw_db w)\<lparr> cy_companies := map_rows ?P f (cy_companies (cw_db w)) \<rparr>) mid = structure_of d\<^sub>0 mid"
      using r id by (simp add: structure_of_map_rows)
  qed
  ultimately show ?thesis by (simp add: company_inv_def)
qed

lemma insert_inv:
  "\<lbrakk>company_inv d\<^sub>0 w; \<not> list_ex (\<lambda>x. b_id x = b_id r) (cy_brands (cw_db w))\<rbrakk> \<Longrightarrow>
     company_inv d\<^sub>0 (w\<lparr> cw_drawn := n, cw_db := (cw_db w)\<lparr> cy_brands := cy_brands (cw_db w) @ [r],
       cy_settings := cy_settings (cw_db w) @ [default_settings (b_id r) prefix] \<rparr> \<rparr>)"
  by (auto simp: company_inv_def intro!: company_wf_insert intro: decided_kept_same)

lemma inv_restored: "company_inv d\<^sub>0 w \<Longrightarrow> company_inv d\<^sub>0 (w'\<lparr> cw_db := cw_db w \<rparr>)"
  by (simp add: company_inv_def)

lemma first_brand_own: "first_brand sc d = Some b \<Longrightarrow> list_ex (\<lambda>b. b_merchantId b = scope_merchant sc) (cy_brands d)"
proof -
  assume "first_brand sc d = Some b"
  then have "sort_key b_createdAt (filter (\<lambda>b. b_merchantId b = scope_merchant sc) (brands_seen sc d)) \<noteq> []"
    by (auto simp: first_brand_def)
  then have "set (filter (\<lambda>b. b_merchantId b = scope_merchant sc) (brands_seen sc d)) \<noteq> {}"
    by (metis set_empty set_sort)
  then show ?thesis by (auto simp: brands_seen_def list_ex_iff)
qed

lemma staged_brand_fields: "b_id (staged_brand m mid bid now) = bid" "b_merchantId (staged_brand m mid bid now) = mid"
  "b_displayName (staged_brand m mid bid now) = the (mc_legalName m)"
  by (simp_all add: staged_brand_def)

lemma chooseBrandStructure_inv [company_intros]: "preserves (company_inv d\<^sub>0) (chooseBrandStructure sc structure)"
  unfolding preserves_wp
proof (intro allI impI)
  fix w assume inv: "company_inv d\<^sub>0 w"
  let ?find = "\<lambda>d. find (\<lambda>r. company_policy sc (mc_id r) \<and> mc_id r = scope_merchant sc) (cy_companies d)"
  show "wp (chooseBrandStructure sc structure) (\<lambda>_. company_inv d\<^sub>0) (\<lambda>_. company_inv d\<^sub>0) w"
  proof (cases "?find (cw_db w)")
    case None
    then show ?thesis by (simp add: chooseBrandStructure_def wp_simps inv)
  next
    case (Some m)
    have own: "mc_id m = scope_merchant sc" "company_ok (cw_db w) m"
      using find_Some_iff'[OF Some] inv by (auto simp: company_inv_def company_wf_def list_all_iff)
    show ?thesis
    proof (cases "mc_structure m")
      case (Some st)
      then show ?thesis using \<open>?find (cw_db w) = Some m\<close> inv
        by (cases st) (simp_all add: chooseBrandStructure_def wp_simps)
    next
      case undecided: None
      show ?thesis
      proof (cases "structure = MULTI")
        case True
        have "company_ok (cw_db w) (m\<lparr> mc_structure := Some MULTI \<rparr>)"
          using own undecided by (simp add: company_ok_def)
        with decide_inv[OF inv Some, of "\<lambda>m. m\<lparr> mc_structure := Some MULTI \<rparr>"]
        show ?thesis by (simp add: chooseBrandStructure_def wp_simps Some undecided True)
      next
        case single: False
        let ?f = "\<lambda>m :: company_row. m\<lparr> mc_structure := Some SINGLE, mc_onboardingComplete := True \<rparr>"
        show ?thesis
        proof (cases "first_brand sc (cw_db w)")
          case (Some b)
          have "company_ok (cw_db w) (?f m)"
            using first_brand_own[OF Some] own by (simp add: company_ok_def)
          with decide_inv[OF inv \<open>?find (cw_db w) = Some m\<close>, of ?f]
          show ?thesis by (simp add: chooseBrandStructure_def wp_simps Some \<open>?find (cw_db w) = _\<close> undecided single)
        next
          case nobrand: None
          let ?r = "staged_brand m (scope_merchant sc) (cw_ids w (cw_drawn w)) (cw_now w)"
          let ?w = "w\<lparr> cw_drawn := Suc (cw_drawn w), cw_db := (cw_db w)\<lparr> cy_brands := cy_brands (cw_db w) @ [?r],
            cy_settings := cy_settings (cw_db w) @ [default_settings (b_id ?r) ''INV''] \<rparr> \<rparr>"
          have ok: "company_ok (cw_db ?w) (?f m)" using own by (simp add: company_ok_def staged_brand_fields)
          have "company_inv d\<^sub>0 (?w\<lparr> cw_db := (cw_db ?w)\<lparr> cy_companies :=
              map_rows (\<lambda>r. company_policy sc (mc_id r) \<and> mc_id r = scope_merchant sc) ?f (cy_companies (cw_db ?w)) \<rparr> \<rparr>)"
            if "\<not> list_ex (\<lambda>x. b_id x = b_id ?r) (cy_brands (cw_db w))"
            by (rule decide_inv[OF insert_inv[OF inv that], where m = m]) (use \<open>?find (cw_db w) = _\<close> undecided ok in simp_all)
          then show ?thesis
            using inv by (simp add: chooseBrandStructure_def wp_simps nobrand \<open>?find (cw_db w) = _\<close> undecided single company_inv_def staged_brand_fields)
        qed
      qed
    qed
  qed
qed

lemma completeOnboarding_inv [company_intros]: "preserves (company_inv d\<^sub>0) (completeOnboarding sc)"
  unfolding preserves_wp
proof (intro allI impI)
  fix w assume inv: "company_inv d\<^sub>0 w"
  let ?find = "find (\<lambda>r. company_policy sc (mc_id r) \<and> mc_id r = scope_merchant sc) (cy_companies (cw_db w))"
  let ?f = "\<lambda>m :: company_row. m\<lparr> mc_onboardingComplete := True \<rparr>"
  show "wp (completeOnboarding sc) (\<lambda>_. company_inv d\<^sub>0) (\<lambda>_. company_inv d\<^sub>0) w"
  proof (cases ?find)
    case None
    then show ?thesis by (simp add: completeOnboarding_def wp_simps inv)
  next
    case (Some m)
    have own: "mc_id m = scope_merchant sc" using find_Some_iff'[OF Some] by simp
    have "company_ok (cw_db w) (?f m)" if multi: "mc_structure m = Some MULTI" and some: "brands_seen sc (cw_db w) \<noteq> []"
    proof -
      obtain r where "r \<in> set (brands_seen sc (cw_db w))" using some by (cases "brands_seen sc (cw_db w)") auto
      then have "r \<in> set (cy_brands (cw_db w))" "b_merchantId r = mc_id m" by (auto simp: brands_seen_def brand_policy_merchant own)
      then show ?thesis using multi by (auto simp: company_ok_def list_ex_iff)
    qed
    with decide_inv[OF inv Some, of ?f] inv
    show ?thesis by (auto simp: completeOnboarding_def wp_simps Some)
  qed
qed

section \<open>Every operation\<close>

text \<open>A step of the services of a merchant, whatever the scope, its arguments and its outcome; or time passes.\<close>

inductive company_step :: "company_env \<Rightarrow> branding_env \<Rightarrow> company_world \<Rightarrow> company_world \<Rightarrow> bool" for env benv where
  details: "company_step env benv w (snd (setCompanyDetails sc i w))"
| company_logo: "company_step env benv w (snd (merchant_setLogo env sc file w))"
| choose: "company_step env benv w (snd (chooseBrandStructure sc st w))"
| complete: "company_step env benv w (snd (completeOnboarding sc w))"
| add_brand: "company_step env benv w (snd (brand_create sc bi prefix w))"
| edit_brand: "company_step env benv w (snd (brand_edit sc b bi w))"
| brand_logo: "company_step env benv w (snd (brand_setLogo env sc b file w))"
| methods: "company_step env benv w (snd (updatePaymentMethods sc b pm w))"
| page: "company_step env benv w (snd (updatePaymentPageDisplay sc b pp w))"
| emails: "company_step env benv w (snd (updateEmailReceiptSettings benv sc b et w))"
| pdf: "company_step env benv w (snd (updateInvoicePdfSettings sc b pdf w))"
| test_mail: "company_step env benv w (snd (sendEmailReceiptTest benv sc b ts w))"
| add_customer: "company_step env benv w (snd (customer_create sc b ci w))"
| edit_customer: "company_step env benv w (snd (customer_update sc b c ci w))"
| time: "company_step env benv w (w\<lparr> cw_now := t \<rparr>)"

lemma save_branding_inv [company_intros]:
  assumes "\<And>s. st_brandId (f s) = st_brandId s" "\<And>s. payment_methods_of (f s) = payment_methods_of s"
  shows "preserves (company_inv d\<^sub>0) (save_branding sc b action el f view)"
  unfolding save_branding_def writeBranding_def using assms by (intro preserves_intros company_intros) simp_all

lemma sendEmailReceiptTest_inv [company_intros]: "preserves (company_inv d\<^sub>0) (sendEmailReceiptTest benv sc b ts)"
proof -
  have mail: "preserves (company_inv d\<^sub>0) (\<lambda>w. if P w then (Inr (), w\<lparr> cw_mails := f w \<rparr>) else (Inl e, w))" for P f e
    by (simp add: preserves_def company_inv_def)
  have "preserves (company_inv d\<^sub>0) (latest_invoice sc b)"
    unfolding latest_invoice_def by (intro preserves_intros) (auto split: list.split intro!: preserves_intros)
  then show ?thesis
    unfolding sendEmailReceiptTest_def Let_def by (intro preserves_intros company_intros mail)
qed

lemma operations_inv [company_intros]:
  "preserves (company_inv d\<^sub>0) (setCompanyDetails sc i)" "preserves (company_inv d\<^sub>0) (merchant_setLogo env sc file)"
  "preserves (company_inv d\<^sub>0) (brand_create sc bi prefix)" "preserves (company_inv d\<^sub>0) (brand_edit sc b bi)"
  "preserves (company_inv d\<^sub>0) (brand_setLogo env sc b file)" "preserves (company_inv d\<^sub>0) (updatePaymentMethods sc b pm)"
  "preserves (company_inv d\<^sub>0) (updatePaymentPageDisplay sc b pp)" "preserves (company_inv d\<^sub>0) (updateEmailReceiptSettings benv sc b et)"
  "preserves (company_inv d\<^sub>0) (updateInvoicePdfSettings sc b pdf)" "preserves (company_inv d\<^sub>0) (customer_create sc b ci)"
  "preserves (company_inv d\<^sub>0) (customer_update sc b c ci)"
proof -
  show "preserves (company_inv d\<^sub>0) (setCompanyDetails sc i)"
    unfolding setCompanyDetails_def by (intro company_intros) simp_all
  show "preserves (company_inv d\<^sub>0) (merchant_setLogo env sc file)"
    unfolding merchant_setLogo_def Let_def by (intro preserves_intros company_intros) simp_all
  show "preserves (company_inv d\<^sub>0) (brand_create sc bi prefix)"
    unfolding brand_create_def Let_def by (cases sc) (auto intro!: preserves_intros company_intros)
  show "preserves (company_inv d\<^sub>0) (brand_edit sc b bi)"
    unfolding brand_edit_def by (intro preserves_intros company_intros) simp_all
  show "preserves (company_inv d\<^sub>0) (brand_setLogo env sc b file)"
    unfolding brand_setLogo_def Let_def by (intro preserves_intros company_intros) simp_all
  show "preserves (company_inv d\<^sub>0) (updatePaymentMethods sc b pm)"
  proof (cases "any_method pm")
    case True
    then show ?thesis unfolding updatePaymentMethods_def
      by (intro preserves_intros company_intros) (simp_all add: any_method_def payment_methods_of_def)
  qed (simp add: updatePaymentMethods_def preserves_intros company_intros)
  show "preserves (company_inv d\<^sub>0) (updatePaymentPageDisplay sc b pp)"
    unfolding updatePaymentPageDisplay_def by (intro company_intros) (simp_all add: payment_methods_of_def)
  show "preserves (company_inv d\<^sub>0) (updateEmailReceiptSettings benv sc b et)"
    unfolding updateEmailReceiptSettings_def by (intro company_intros) (simp_all add: payment_methods_of_def)
  show "preserves (company_inv d\<^sub>0) (updateInvoicePdfSettings sc b pdf)"
    unfolding updateInvoicePdfSettings_def by (intro company_intros) (simp_all add: payment_methods_of_def)
  have catch: "preserves (company_inv d\<^sub>0) (ecatch (customer_insert sc x) (\<lambda>e. ethrow (customer_write_error e)))" for x
    by (intro preserves_intros company_intros)
  show "preserves (company_inv d\<^sub>0) (customer_create sc b ci)"
    unfolding customer_create_def Let_def by (intro preserves_intros company_intros catch)
  have "preserves (company_inv d\<^sub>0) (cy_change (\<lambda>d. d\<lparr> cy_customers := map_rows (\<lambda>x. cy_sees sc d (c_brandId x) \<and> c_id x = c) (customer_edited ci now) (cy_customers d) \<rparr>))" for now
    by (rule cy_change_inv) (simp_all add: company_wf_def company_ok_def[abs_def])
  then show "preserves (company_inv d\<^sub>0) (customer_update sc b c ci)"
    unfolding customer_update_def by (intro preserves_intros company_intros)
qed

lemma preserved_run: "\<lbrakk>preserves I m; I w\<rbrakk> \<Longrightarrow> I (snd (m w))"
  by (simp add: preserves_def)

lemma company_step_inv: "\<lbrakk>company_step env benv w w'; company_inv d\<^sub>0 w\<rbrakk> \<Longrightarrow> company_inv d\<^sub>0 w'"
    by (induction rule: company_step.induct) ((rule preserved_run, rule company_intros, assumption)+, simp add: company_inv_def)

end
