(* ===== verification/CompanyOutcomes.thy ===== *)
theory CompanyOutcomes
  imports CompanyFacts
begin

text \<open>
  What the services of a merchant promise: its tables stay well-formed, a brand structure is decided once, and every saved
  section of the brand settings leaves one audit row that names the columns it changed.
\<close>

section \<open>The decision of a structure\<close>

lemma company_after:
  assumes "find (\<lambda>r. company_policy sc (mc_id r) \<and> mc_id r = scope_merchant sc) rows = Some m" "\<And>r. mc_id (f r) = mc_id r"
  shows "find (\<lambda>r. company_policy sc (mc_id r) \<and> mc_id r = scope_merchant sc)
    (map_rows (\<lambda>r. company_policy sc (mc_id r) \<and> mc_id r = scope_merchant sc) f rows) = Some (f m)"
  using assms find_Some_iff'[OF assms(1)] by (auto simp: find_map_rows)

lemma first_brand_none: "first_brand sc d = None \<longleftrightarrow> filter (\<lambda>b. b_merchantId b = scope_merchant sc) (brands_seen sc d) = []"
proof -
  let ?xs = "filter (\<lambda>b. b_merchantId b = scope_merchant sc) (brands_seen sc d)"
  have "sort_key b_createdAt ?xs = [] \<longleftrightarrow> ?xs = []"
    by (metis set_empty set_sort)
  then show ?thesis
    by (cases "sort_key b_createdAt ?xs") (simp_all add: first_brand_def)
qed

text \<open>What a call that decides, or finds the decision made, leaves: a second call answers the same and changes nothing.\<close>

definition decided :: "scope \<Rightarrow> (string \<times> string) option \<Rightarrow> company_world \<Rightarrow> bool" where
  "decided sc x w \<longleftrightarrow> (\<forall>st. chooseBrandStructure sc st w = (Inr x, w))"

lemma decidedI:
  assumes "find (\<lambda>r. company_policy sc (mc_id r) \<and> mc_id r = scope_merchant sc) (cy_companies (cw_db w)) = Some m"
    and "mc_structure m = Some MULTI \<and> x = None \<or> mc_structure m = Some SINGLE \<and> x = first_brand sc (cw_db w)"
  shows "decided sc x w"
proof -
  have "chooseBrandStructure sc st w = (Inr x, w)" for st
    using assms by (auto simp: chooseBrandStructure_def the_company_def company_scope_def transaction_def ebind_def)
  then show ?thesis by (simp add: decided_def)
qed

lemma first_brand_companies [simp]: "first_brand sc (d\<lparr> cy_companies := cs \<rparr>) = first_brand sc d"
  by (simp add: first_brand_def brands_seen_def)

lemma first_brand_added:
  assumes "first_brand sc d = None" "brand_policy sc r"
  shows "first_brand sc (d\<lparr> cy_brands := cy_brands d @ [r], cy_settings := ss \<rparr>) = Some (b_id r, b_displayName r)"
proof -
  have "filter (\<lambda>b. b_merchantId b = scope_merchant sc) (brands_seen sc (d\<lparr> cy_brands := cy_brands d @ [r], cy_settings := ss \<rparr>)) = [r]"
    using assms by (simp add: first_brand_none brands_seen_def brand_policy_merchant)
  then show ?thesis by (simp add: first_brand_def)
qed

lemma wp_choose: "wp (chooseBrandStructure sc st) (decided sc) (\<lambda>_ _. True) w"
proof (cases "find (\<lambda>r. company_policy sc (mc_id r) \<and> mc_id r = scope_merchant sc) (cy_companies (cw_db w))")
  case None
  then show ?thesis by (simp add: chooseBrandStructure_def wp_simps)
next
  case own: (Some m)
  show ?thesis
  proof (cases "mc_structure m")
    case (Some chosen)
    then show ?thesis by (cases chosen) (auto simp: chooseBrandStructure_def wp_simps own intro!: decidedI)
  next
    case undecided: None
    show ?thesis
    proof (cases "st = MULTI")
      case True
      then show ?thesis
        by (auto simp: chooseBrandStructure_def wp_simps own undecided company_after[OF own] intro!: decidedI)
    next
      case single: False
      show ?thesis
      proof (cases "first_brand sc (cw_db w)")
        case (Some b)
        then show ?thesis using single
          by (auto simp: chooseBrandStructure_def wp_simps own undecided company_after[OF own] intro!: decidedI)
      next
        case None
        then show ?thesis using single
          by (auto simp: chooseBrandStructure_def wp_simps own undecided company_after[OF own] first_brand_added staged_brand_fields
                intro!: decidedI)
      qed
    qed
  qed
qed

section \<open>The audit row of a saved section\<close>

definition brand_in :: "scope \<Rightarrow> company_db \<Rightarrow> string \<Rightarrow> full_brand option" where
  "brand_in sc d b = find (\<lambda>r. b_id r = b) (brands_seen sc d)"

definition settings_in :: "scope \<Rightarrow> company_db \<Rightarrow> string \<Rightarrow> full_settings option" where
  "settings_in sc d b = find (\<lambda>s. cy_sees sc d (st_brandId s) \<and> st_brandId s = b) (cy_settings d)"

lemma wp_load [wp_simps]:
  "wp (load sc b) Q E = (\<lambda>w. case brand_in sc (cw_db w) b of None \<Rightarrow> E (Missing ''brand not found'') w
     | Some r \<Rightarrow> (case settings_in sc (cw_db w) b of None \<Rightarrow> E (Missing ''brand settings not found'') w | Some s \<Rightarrow> Q (r, s) w))"
  by (rule ext) (simp add: load_def brand_at_def wp_simps brand_in_def settings_in_def split: option.split)

lemma wp_brand_update [wp_simps]:
  "wp (brand_update sc b f) Q E = (\<lambda>w. case brand_in sc (cw_db w) b of None \<Rightarrow> E (CompanyThrew RecordNotFound) w
     | Some r \<Rightarrow> Q () (w\<lparr> cw_db := (cw_db w)\<lparr> cy_brands := map_rows (\<lambda>r. brand_policy sc r \<and> b_id r = b) f (cy_brands (cw_db w)) \<rparr> \<rparr>))"
  by (rule ext) (simp add: brand_update_def brand_at_def wp_simps brand_in_def split: option.split)

lemma wp_settings_update [wp_simps]:
  "wp (settings_update sc b f) Q E = (\<lambda>w. case settings_in sc (cw_db w) b of None \<Rightarrow> E (CompanyThrew RecordNotFound) w
     | Some s \<Rightarrow> Q (f s) (w\<lparr> cw_db := (cw_db w)\<lparr> cy_settings :=
         map_rows (\<lambda>s. cy_sees sc (cw_db w) (st_brandId s) \<and> st_brandId s = b) f (cy_settings (cw_db w)) \<rparr> \<rparr>))"
  by (rule ext) (simp add: settings_update_def wp_simps settings_in_def split: option.split)

lemma wp_record [wp_simps]:
  "wp (record_branding sc b action s r after) Q E = (\<lambda>w. if company_policy sc (scope_merchant sc)
     then Q () (w\<lparr> cw_db := (cw_db w)\<lparr> cy_audit := cy_audit (cw_db w) @ [branding_audit sc b action s r after] \<rparr> \<rparr>)
     else E (CompanyThrew RlsViolation) w)"
  by (rule ext) (simp add: record_branding_def wp_simps split: option.split)

lemma cy_sees_brands:
  "\<lbrakk>\<And>r. b_id (f r) = b_id r; \<And>r. b_merchantId (f r) = b_merchantId r\<rbrakk> \<Longrightarrow>
     cy_sees sc (d\<lparr> cy_brands := map_rows P f (cy_brands d) \<rparr>) = cy_sees sc d"
  by (simp add: cy_sees_def[abs_def] find_map_rows option.map_comp comp_def if_distrib[of b_merchantId] cong: if_cong)

lemma brand_in_updated:
  assumes "brand_in sc d b = Some r" "\<And>r. b_id (f r) = b_id r" "\<And>r. b_merchantId (f r) = b_merchantId r"
  shows "brand_in sc (d\<lparr> cy_brands := map_rows (\<lambda>r. brand_policy sc r \<and> b_id r = b) f (cy_brands d) \<rparr>) b = Some (f r)"
proof -
  have pol: "brand_policy sc (f x) = brand_policy sc x" for x using assms(2,3) by (simp add: brand_policy_def)
  have "filter (brand_policy sc) (map_rows P f rows) = map_rows P f (filter (brand_policy sc) rows)" for P rows
    by (induction rows) (auto simp: map_rows_def pol)
  moreover have "brand_policy sc r" "b_id r = b"
    using find_Some_iff'[OF assms(1)[unfolded brand_in_def]] by (auto simp: brands_seen_def)
  ultimately show ?thesis
    using assms by (simp add: brand_in_def brands_seen_def find_map_rows)
qed

lemma settings_in_updated:
  assumes "settings_in sc d b = Some s" "\<And>s. st_brandId (f s) = st_brandId s"
  shows "settings_in sc (d\<lparr> cy_settings := map_rows (\<lambda>s. cy_sees sc d (st_brandId s) \<and> st_brandId s = b) f (cy_settings d) \<rparr>) b = Some (f s)"
proof -
  have "cy_sees sc (d\<lparr> cy_settings := ss \<rparr>) = cy_sees sc d" for ss by (simp add: cy_sees_def[abs_def])
  then show ?thesis
    using assms find_Some_iff'[OF assms(1)[unfolded settings_in_def]] by (auto simp: settings_in_def find_map_rows)
qed

lemma seen_elsewhere [simp]:
  "brand_in sc (d\<lparr> cy_settings := ss \<rparr>) = brand_in sc d" "brand_in sc (d\<lparr> cy_audit := a \<rparr>) = brand_in sc d"
  "settings_in sc (d\<lparr> cy_audit := a \<rparr>) = settings_in sc d"
  by (simp_all add: brand_in_def[abs_def] settings_in_def[abs_def] brands_seen_def cy_sees_def)

lemma settings_in_brands:
  "\<lbrakk>\<And>r. b_id (f r) = b_id r; \<And>r. b_merchantId (f r) = b_merchantId r\<rbrakk> \<Longrightarrow>
     settings_in sc (d\<lparr> cy_brands := map_rows P f (cy_brands d) \<rparr>) = settings_in sc d"
  by (simp add: settings_in_def[abs_def] cy_sees_brands)

lemma settings_in_id: "settings_in sc d b = Some s \<Longrightarrow> st_brandId s = b"
  by (auto simp: settings_in_def dest: find_Some_iff')

lemma brand_in_id: "brand_in sc d b = Some r \<Longrightarrow> b_id r = b"
  by (auto simp: brand_in_def dest: find_Some_iff')

text \<open>What a saved section leaves: both rows as they are now, and the audit row that compares them with what was loaded.\<close>

definition audited :: "scope \<Rightarrow> string \<Rightarrow> string \<Rightarrow> company_world \<Rightarrow> company_world \<Rightarrow> bool" where
  "audited sc b action w w' \<longleftrightarrow> (\<exists>r s r' s'.
     brand_in sc (cw_db w) b = Some r \<and> settings_in sc (cw_db w) b = Some s \<and>
     brand_in sc (cw_db w') b = Some r' \<and> settings_in sc (cw_db w') b = Some s' \<and>
     cy_audit (cw_db w') = cy_audit (cw_db w) @ [branding_audit sc b action s r (r', s')])"

lemma wp_save_branding:
  assumes "\<And>s. st_brandId (f s) = st_brandId s"
  shows "wp (save_branding sc b action el f view) (\<lambda>_. audited sc b action w) (\<lambda>_ _. True) w"
proof (cases "brand_in sc (cw_db w) b")
  case None
  then show ?thesis by (simp add: save_branding_def wp_simps)
next
  case r: (Some r)
  show ?thesis
  proof (cases "settings_in sc (cw_db w) b")
    case None
    then show ?thesis using r by (simp add: save_branding_def wp_simps)
  next
    case s: (Some s)
    show ?thesis
    proof (cases "be_themeColor el = b_themeColor r")
      case True
      then show ?thesis
        using r s settings_in_id[OF s] settings_in_updated[OF s assms]
        by (auto simp: save_branding_def writeBranding_def wp_simps audited_def)
    next
      case False
      let ?f = "\<lambda>r :: full_brand. r\<lparr> b_themeColor := be_themeColor el \<rparr>"
      have s': "settings_in sc ((cw_db w)\<lparr> cy_brands := map_rows P ?f (cy_brands (cw_db w)) \<rparr>) b = Some s" for P
        using s by (simp add: settings_in_brands)
      show ?thesis
        using False r s settings_in_id[OF s] brand_in_id[OF r] s' settings_in_updated[OF s' assms] brand_in_updated[OF r, of ?f]
        by (auto simp: save_branding_def writeBranding_def wp_simps audited_def)
    qed
  qed
qed


lemma wp_updatePaymentMethods: "wp (updatePaymentMethods sc b i) (\<lambda>_. audited sc b ''BRAND_PAYMENT_METHODS_UPDATED'' w) (\<lambda>_ _. True) w"
proof (cases "any_method i")
  case True
  let ?f = "\<lambda>s :: full_settings. s\<lparr> st_cardEnabled := pm_card i, st_applePayEnabled := pm_applePay i,
    st_googlePayEnabled := pm_googlePay i, st_achEnabled := pm_ach i, st_checkEnabled := pm_check i \<rparr>"
  have "settings_in sc (cw_db w) b = Some s \<Longrightarrow> settings_in sc ((cw_db w)\<lparr> cy_settings :=
      map_rows (\<lambda>s. cy_sees sc (cw_db w) (st_brandId s) \<and> st_brandId s = b) ?f (cy_settings (cw_db w)) \<rparr>) b = Some (?f s)" for s
    by (rule settings_in_updated) simp_all
  then show ?thesis
    using True by (auto simp: updatePaymentMethods_def wp_simps audited_def split: option.splits)
qed (auto simp: updatePaymentMethods_def wp_simps split: option.splits)

text \<open>A section saved with success, by any of the four updates.\<close>

inductive branding_saved :: "branding_env \<Rightarrow> scope \<Rightarrow> string \<Rightarrow> string \<Rightarrow> company_world \<Rightarrow> company_world \<Rightarrow> bool" for env sc b where
  methods_saved: "updatePaymentMethods sc b i w = (Inr v, w') \<Longrightarrow> branding_saved env sc b ''BRAND_PAYMENT_METHODS_UPDATED'' w w'"
| page_saved: "updatePaymentPageDisplay sc b pp w = (Inr v, w') \<Longrightarrow> branding_saved env sc b ''BRAND_PAYMENT_PAGE_UPDATED'' w w'"
| emails_saved: "updateEmailReceiptSettings env sc b et w = (Inr v, w') \<Longrightarrow> branding_saved env sc b ''BRAND_EMAIL_RECEIPT_UPDATED'' w w'"
| pdf_saved: "updateInvoicePdfSettings sc b pdf w = (Inr v, w') \<Longrightarrow> branding_saved env sc b ''BRAND_INVOICE_PDF_UPDATED'' w w'"

lemma wp_sections:
  "wp (updatePaymentPageDisplay sc b pp) (\<lambda>_. audited sc b ''BRAND_PAYMENT_PAGE_UPDATED'' w) (\<lambda>_ _. True) w"
  "wp (updateEmailReceiptSettings env sc b et) (\<lambda>_. audited sc b ''BRAND_EMAIL_RECEIPT_UPDATED'' w) (\<lambda>_ _. True) w"
  "wp (updateInvoicePdfSettings sc b pdf) (\<lambda>_. audited sc b ''BRAND_INVOICE_PDF_UPDATED'' w) (\<lambda>_ _. True) w"
  unfolding updatePaymentPageDisplay_def updateEmailReceiptSettings_def updateInvoicePdfSettings_def
  by (rule wp_save_branding; simp)+

lemma saved_audited: "branding_saved env sc b action w w' \<Longrightarrow> audited sc b action w w'"
  by (induction rule: branding_saved.induct) (blast intro: wp_value[OF wp_updatePaymentMethods] wp_value[OF wp_sections(1)]
    wp_value[OF wp_sections(2)] wp_value[OF wp_sections(3)])+

text \<open>The keys of a comparison of two rows with the same columns.\<close>

lemma diffOf_mem:
  "k \<in> set (map fst (diffOf xs ys)) \<longleftrightarrow>
    (\<exists>v. (k, v) \<in> set ys \<and> k \<notin> set non_content_columns \<and> (\<forall>p. map_of xs k = Some p \<longrightarrow> \<not> strict_equal p v))"
proof (induction ys)
  case (Cons y ys)
  have split: "diffOf xs (y # ys) = diffOf xs [y] @ diffOf xs ys" by (simp add: diffOf_def)
  have "k \<in> set (map fst (diffOf xs [y])) \<longleftrightarrow>
      fst y = k \<and> k \<notin> set non_content_columns \<and> (\<forall>p. map_of xs k = Some p \<longrightarrow> \<not> strict_equal p (snd y))"
    by (cases y) (auto simp: diffOf_def split: option.splits if_splits)
  then show ?case unfolding split map_append set_append Un_iff Cons.IH by (cases y) auto
qed (simp add: diffOf_def)

lemma diffOf_keys:
  assumes "map fst xs = map fst ys" "distinct (map fst xs)"
  shows "k \<in> set (map fst (diffOf xs ys)) \<longleftrightarrow>
    (\<exists>v p. (k, v) \<in> set ys \<and> (k, p) \<in> set xs \<and> k \<notin> set non_content_columns \<and> \<not> strict_equal p v)"
proof -
  have some: "\<exists>p. map_of xs k = Some p" if "(k, v) \<in> set ys" for v
  proof -
    have "k \<in> set (map fst ys)" using that by force
    then show ?thesis by (metis assms(1) list.set_map map_of_eq_None_iff not_None_eq)
  qed
  have "map_of xs k = Some p \<longleftrightarrow> (k, p) \<in> set xs" for p
    using assms(2) by simp
  then show ?thesis unfolding diffOf_mem by (metis some option.inject)
qed

lemma settings_columns: "map fst (settings_entries s) = map fst (settings_entries s')"
  by (simp add: settings_entries_def)

lemma settings_distinct: "distinct (map fst (settings_entries s))"
  by (simp add: settings_entries_def)

lemma array_column: "(k, ColArray ns) \<in> set (settings_entries s) \<longleftrightarrow> k = ''reminderSchedule'' \<and> ns = st_reminderSchedule s"
  by (auto simp: settings_entries_def col_option_def split: option.splits)

lemma strict_equal_plain: "\<lbrakk>\<And>ns. p \<noteq> ColArray ns\<rbrakk> \<Longrightarrow> strict_equal p v \<longleftrightarrow> p = v"
  by (cases p) auto

lemma settings_diff_keys:
  "k \<in> set (map fst (diffOf (settings_entries s) (settings_entries s'))) \<longleftrightarrow>
     k = ''reminderSchedule'' \<or> k \<notin> set non_content_columns \<and>
       (\<exists>p v. (k, p) \<in> set (settings_entries s) \<and> (k, v) \<in> set (settings_entries s') \<and> p \<noteq> v)"
proof -
  have rem: "(''reminderSchedule'', p) \<in> set (settings_entries s) \<longleftrightarrow> p = ColArray (st_reminderSchedule s)" for p s
    by (auto simp: settings_entries_def)
  have "''reminderSchedule'' \<notin> set non_content_columns" by (simp add: non_content_columns_def)
  moreover have "strict_equal p v \<longleftrightarrow> p = v" if "(k, p) \<in> set (settings_entries s)" "k \<noteq> ''reminderSchedule''" for p v
    using that by (intro strict_equal_plain) (auto simp: array_column)
  ultimately show ?thesis
    unfolding diffOf_keys[OF settings_columns settings_distinct] by (cases "k = ''reminderSchedule''") (auto simp: rem)
qed


section \<open>Properties\<close>

definition onboarding_owner :: scope where
  "onboarding_owner = RequestScope (sample_scope\<lparr> rs_role := MERCHANT_ADMIN \<rparr>)"

definition sample_company :: company_row where
  "sample_company = \<lparr> mc_id = ''m1'', mc_legalName = Some ''Acme'', mc_dba = None, mc_businessType = Some ''LLC'', mc_phone = None,
     mc_email = None, mc_website = None, mc_mailing = None, mc_billing = None, mc_taxId = None, mc_logoKey = None,
     mc_structure = None, mc_onboardingComplete = False \<rparr>"

definition sample_company_world :: company_world where
  "sample_company_world = \<lparr> cw_db = \<lparr> cy_companies = [sample_company], cy_brands = [], cy_settings = [], cy_customers = [], cy_contacts = [],
     cy_invoices = [], cy_payments = [], cy_audit = [] \<rparr>, cw_tasks = [], cw_mails = [], cw_objects = [], cw_now = 0,
     cw_ids = (\<lambda>n. ''id'' @ show_nat n), cw_drawn = 0 \<rparr>"

definition sample_onboarded :: company_world where
  "sample_onboarded = snd (chooseBrandStructure onboarding_owner SINGLE sample_company_world)"

lemma sample_choice_result:
  "fst (chooseBrandStructure onboarding_owner SINGLE sample_company_world) = Inr (Some (''id0'', ''Acme''))"
  by code_simp

lemma sample_choice: "chooseBrandStructure onboarding_owner SINGLE sample_company_world = (Inr (Some (''id0'', ''Acme'')), sample_onboarded)"
  by (simp add: prod_eq_iff sample_choice_result sample_onboarded_def)

lemma sample_onboarded_rows:
  "map b_id (cy_brands (cw_db sample_onboarded)) = [''id0'']" "map st_brandId (cy_settings (cw_db sample_onboarded)) = [''id0'']"
  by code_simp+

lemma sample_wf: "company_wf (cw_db sample_company_world)"
  by (simp add: company_wf_def company_ok_def sample_company_world_def sample_company_def)

text \<open>C24: A merchant's tables stay well-formed whatever sequence of onboarding, brand, settings and customer operations runs, by
  any scope, with any arguments and any failures of the object store and the mail server: every brand has exactly one settings
  row with a payment method enabled, a finished onboarding has a decided structure and a brand, a single-brand merchant has
  finished it, and a decided structure never changes.\<close>

theorem company_stays_well_formed:
  assumes "(company_step env benv)\<^sup>*\<^sup>* w w'" "company_wf (cw_db w)"
  shows "company_wf (cw_db w') \<and> decided_kept (cw_db w) (cw_db w')"
proof -
  have "company_inv (cw_db w) w'"
    using assms(1) by (induction rule: rtranclp_induct) (use assms(2) company_inv_start company_step_inv in blast)+
  then show ?thesis by (simp add: company_inv_def)
qed

definition sample_stores :: company_env where
  "sample_stores = \<lparr> ce_stores = (\<lambda>_. True), ce_sign = (\<lambda>key _. ''https://'' @ key), ce_contains = (\<lambda>s t. s = t) \<rparr>"

definition sample_branding_env :: branding_env where
  "sample_branding_env = \<lparr> bv_mailFrom = ''pay@x.com'', bv_displayMoney = (\<lambda>n _. show_int n), bv_displayDate = show_int,
     bv_stored = (\<lambda>_. False), bv_accepts = (\<lambda>_ _. True) \<rparr>"

theorem company_stays_well_formed_witness:
  "company_wf (cw_db sample_onboarded) \<and> map b_id (cy_brands (cw_db sample_onboarded)) = [''id0'']"
proof -
  have "(company_step sample_stores sample_branding_env)\<^sup>*\<^sup>* sample_company_world sample_onboarded"
    unfolding sample_onboarded_def by (rule r_into_rtranclp, rule company_step.choose)
  from company_stays_well_formed[OF this sample_wf] show ?thesis by (simp add: sample_onboarded_rows)
qed

text \<open>C25: Choosing the brand structure is idempotent: after a choice that succeeded, every further choice, of either structure,
  answers what the first one answered and changes nothing (no second brand, no new structure).\<close>

theorem choosing_again_changes_nothing:
  assumes "chooseBrandStructure sc st w = (Inr x, w')"
  shows "chooseBrandStructure sc st' w' = (Inr x, w')"
  using wp_value[OF wp_choose assms] by (simp add: decided_def)

theorem choosing_again_changes_nothing_witness:
  "chooseBrandStructure onboarding_owner MULTI sample_onboarded = (Inr (Some (''id0'', ''Acme'')), sample_onboarded)"
  by (rule choosing_again_changes_nothing[OF sample_choice])


definition sample_methods :: payment_method_settings where
  "sample_methods = \<lparr> pm_card = True, pm_applePay = False, pm_googlePay = False, pm_ach = False, pm_check = True \<rparr>"

lemma sample_saved: "fst (updatePaymentMethods onboarding_owner ''id0'' sample_methods sample_onboarded) = Inr sample_methods"
  by code_simp


end
