(* ===== verification/Html.thy ===== *)
theory Html
  imports Company
begin

text \<open>
  What the two HTML renderers of \<open>packages/shared/src/domain\<close> share: a document as the list of the pieces of its template
  literals, the escaping of what is inserted, and the markup of a document, its tags without the values of their attributes.
\<close>

section \<open>Escaping\<close>

text \<open>\<open>value.replace(/c/g, text)\<close>.\<close>

definition replace_char :: "char \<Rightarrow> string \<Rightarrow> string \<Rightarrow> string" where
  "replace_char c r s = concat (map (\<lambda>x. if x = c then r else [x]) s)"

definition escapeHtml :: "string \<Rightarrow> string" where
  "escapeHtml s = replace_char (CHR 0x22) ''&quot;'' (replace_char (CHR ''>'') ''&gt;'' (replace_char (CHR ''<'') ''&lt;'' (replace_char (CHR ''&'') ''&amp;'' s)))"

text \<open>\<open>toUpperCase\<close> within Latin-1, where only the sharp s grows.\<close>

definition to_upper :: "char \<Rightarrow> string" where
  "to_upper c = (let n = of_char c :: nat in
     if 97 \<le> n \<and> n \<le> 122 \<or> 224 \<le> n \<and> n \<le> 254 \<and> n \<noteq> 247 then [char_of (n - 32)] else if n = 223 then ''SS'' else [c])"

definition initialOf :: "string \<Rightarrow> string" where
  "initialOf name = (case js_trim name of [] \<Rightarrow> ''?'' | c # _ \<Rightarrow> to_upper c)"

text \<open>A text that is \<open>null\<close> or empty.\<close>

definition nonblank :: "string option \<Rightarrow> string option" where
  "nonblank x = (case x of Some (c # s) \<Rightarrow> Some (c # s) | _ \<Rightarrow> None)"

section \<open>Documents\<close>

text \<open>A piece is the template's own text, or an inserted value that goes through \<open>escapeHtml\<close>.\<close>

datatype piece = Raw string | Esc string

fun piece_text :: "piece \<Rightarrow> string" where
  "piece_text (Raw s) = s"
| "piece_text (Esc s) = escapeHtml s"

definition html :: "piece list \<Rightarrow> string" where
  "html ps = concat (map piece_text ps)"

fun is_raw :: "piece \<Rightarrow> bool" where
  "is_raw (Raw _) = True"
| "is_raw (Esc _) = False"

fun join_pieces :: "string \<Rightarrow> piece list list \<Rightarrow> piece list" where
  "join_pieces sep [] = []"
| "join_pieces sep [ps] = ps"
| "join_pieces sep (ps # qs # pss) = ps @ Raw sep # join_pieces sep (qs # pss)"

section \<open>Markup\<close>

datatype html_state = InText | InTag | InValue

fun html_next :: "html_state \<Rightarrow> char \<Rightarrow> html_state" where
  "html_next InText c = (if c = CHR ''<'' then InTag else InText)"
| "html_next InTag c = (if c = CHR ''>'' then InText else if c = CHR 0x22 then InValue else InTag)"
| "html_next InValue c = (if c = CHR 0x22 then InTag else InValue)"

fun html_out :: "html_state \<Rightarrow> char \<Rightarrow> string" where
  "html_out InText c = (if c = CHR ''<'' then [c] else [])"
| "html_out InTag c = [c]"
| "html_out InValue c = (if c = CHR 0x22 then [c] else [])"

fun html_run :: "html_state \<Rightarrow> string \<Rightarrow> html_state" where
  "html_run st [] = st"
| "html_run st (c # s) = html_run (html_next st c) s"

fun html_markup :: "html_state \<Rightarrow> string \<Rightarrow> string" where
  "html_markup st [] = []"
| "html_markup st (c # s) = html_out st c @ html_markup (html_next st c) s"

definition markup :: "string \<Rightarrow> string" where
  "markup s = html_markup InText s"

text \<open>Where the values of a list of pieces are inserted: never inside a tag. \<open>None\<close> when one is.\<close>

fun placed :: "html_state \<Rightarrow> piece list \<Rightarrow> html_state option" where
  "placed st [] = Some st"
| "placed st (Raw s # ps) = placed (html_run st s) ps"
| "placed st (Esc _ # ps) = (if st = InTag then None else placed st ps)"

definition closed_pieces :: "piece list \<Rightarrow> bool" where
  "closed_pieces ps \<longleftrightarrow> placed InText ps = Some InText"

lemma html_run_append: "html_run st (s @ t) = html_run (html_run st s) t"
  by (induction s arbitrary: st) simp_all

lemma html_markup_append: "html_markup st (s @ t) = html_markup st s @ html_markup (html_run st s) t"
  by (induction s arbitrary: st) simp_all

lemma html_simps [simp]: "html [] = []" "html (p # ps) = piece_text p @ html ps" "html (ps @ qs) = html ps @ html qs"
  by (simp_all add: html_def)

text \<open>An escaped text has no character that the markup is made of.\<close>

definition escape_char :: "char \<Rightarrow> string" where
  "escape_char c = (if c = CHR ''&'' then ''&amp;'' else if c = CHR ''<'' then ''&lt;'' else if c = CHR ''>'' then ''&gt;''
     else if c = CHR 0x22 then ''&quot;'' else [c])"

lemma replace_char_simps [simp]:
  "replace_char c r [] = []" "replace_char c r (x # s) = (if x = c then r else [x]) @ replace_char c r s"
  "replace_char c r (s @ t) = replace_char c r s @ replace_char c r t"
  by (simp_all add: replace_char_def)

lemma escapeHtml_Cons: "escapeHtml (c # s) = escape_char c @ escapeHtml s"
  by (simp add: escapeHtml_def escape_char_def)

lemma escapeHtml_map: "escapeHtml s = concat (map escape_char s)"
  by (induction s) (simp_all add: escapeHtml_Cons, simp add: escapeHtml_def)

definition quiet :: "string \<Rightarrow> bool" where
  "quiet = list_all (\<lambda>c. c \<noteq> CHR ''<'' \<and> c \<noteq> CHR ''>'' \<and> c \<noteq> CHR 0x22)"

lemma escaped_quiet: "quiet (escapeHtml s)"
proof (induction s)
  case (Cons c s)
  have "quiet (escape_char c)" by (simp add: escape_char_def quiet_def)
  then show ?case using Cons by (simp add: escapeHtml_Cons quiet_def)
qed (simp add: escapeHtml_def quiet_def)

lemma quiet_run: "\<lbrakk>quiet s; st \<noteq> InTag\<rbrakk> \<Longrightarrow> html_run st s = st \<and> html_markup st s = []"
  by (induction s) (cases st; simp add: quiet_def)+

lemma escaped_run [simp]: "st \<noteq> InTag \<Longrightarrow> html_run st (escapeHtml s) = st" "st \<noteq> InTag \<Longrightarrow> html_markup st (escapeHtml s) = []"
  using quiet_run[OF escaped_quiet] by simp_all

text \<open>Values inserted outside the tags leave the markup of the template.\<close>

lemma placed_markup:
  "placed st ps = Some st' \<Longrightarrow> html_markup st (html ps) = html_markup st (html (filter is_raw ps)) \<and> html_run st (html ps) = st'"
  by (induction st ps rule: placed.induct) (auto simp: html_markup_append html_run_append split: if_splits)

lemma closed_markup: "closed_pieces ps \<Longrightarrow> markup (html ps) = markup (html (filter is_raw ps))"
  by (simp add: closed_pieces_def markup_def placed_markup)

lemma placed_append: "placed st (ps @ qs) = Option.bind (placed st ps) (\<lambda>st. placed st qs)"
  by (induction st ps rule: placed.induct) simp_all

named_theorems closed_simps \<open>blocks that begin and end between tags\<close>

lemma closed_placed [closed_simps]: "closed_pieces ps \<Longrightarrow> placed InText (ps @ qs) = placed InText qs"
  by (simp add: closed_pieces_def placed_append)

lemma closed_join: "\<lbrakk>html_run InText sep = InText; \<And>ps. ps \<in> set pss \<Longrightarrow> closed_pieces ps\<rbrakk> \<Longrightarrow> closed_pieces (join_pieces sep pss)"
  by (induction sep pss rule: join_pieces.induct) (simp_all add: closed_pieces_def placed_append)

lemma digits_quiet: "html_run InText (show_nat n) = InText" "html_run InValue (show_nat n) = InValue"
proof -
  have "quiet (show_nat n)"
    unfolding quiet_def by (rule list.pred_mono_strong[OF show_nat_digits[of n]]) (auto simp: is_digit_def)
  then show "html_run InText (show_nat n) = InText" "html_run InValue (show_nat n) = InValue" by (simp_all add: quiet_run)
qed


text \<open>What a reader of the document sees in place of a character reference.\<close>

function decode_entities :: "string \<Rightarrow> string" where
  "decode_entities s =
     (if s = [] then []
      else if is_prefix ''&amp;'' s then CHR ''&'' # decode_entities (drop 5 s)
      else if is_prefix ''&lt;'' s then CHR ''<'' # decode_entities (drop 4 s)
      else if is_prefix ''&gt;'' s then CHR ''>'' # decode_entities (drop 4 s)
      else if is_prefix ''&quot;'' s then CHR 0x22 # decode_entities (drop 6 s)
      else hd s # decode_entities (tl s))"
  by pat_completeness auto
termination by (relation "measure length") auto

declare decode_entities.simps [simp del]

lemma decode_escape_char: "decode_entities (escape_char c @ t) = c # decode_entities t"
  by (subst decode_entities.simps) (simp add: escape_char_def is_prefix_def)

lemma decode_escaped: "decode_entities (escapeHtml s) = s"
proof (induction s)
  case Nil
  then show ?case by (simp add: escapeHtml_def decode_entities.simps)
next
  case (Cons c s)
  then show ?case by (simp add: escapeHtml_Cons decode_escape_char)
qed

end
