(* ===== verification/InvoicePdfHtml.thy ===== *)
theory InvoicePdfHtml
  imports Html
begin

text \<open>
  \<open>packages/shared/src/domain/invoice-pdf-html.ts\<close>: the document a headless browser prints. Labels of amounts, quantities and dates
  come in formatted.
\<close>

section \<open>The document\<close>

record pdf_line =
  pl_itemName :: string
  pl_quantityLabel :: string
  pl_rateLabel :: string
  pl_amountLabel :: string

record pdf_document =
  pd_number :: string
  pd_invoiceDate :: string
  pd_dueDate :: string
  pd_displayName :: string
  pd_themeColor :: string
  pd_logoUrl :: "string option"
  pd_customerName :: string
  pd_customerAddress :: string
  pd_layout :: pdf_layout
  pd_companyName :: string
  pd_companyAddress :: string
  pd_showCompanyAddress :: bool
  pd_showPaymentTerms :: bool
  pd_showNotes :: bool
  pd_paymentTerms :: payment_terms
  pd_notes :: string
  pd_lines :: "pdf_line list"
  pd_subtotalLabel :: string
  pd_totalLabel :: string
  pd_balanceDueLabel :: string

definition font_stack :: string where
  "font_stack = ''ui-sans-serif, system-ui, -apple-system, \"Segoe UI\", Roboto, \"Helvetica Neue\", Arial, sans-serif''"

definition ink_strong :: string where
  "ink_strong = ''#0A0A0C''"

definition ink_muted :: string where
  "ink_muted = ''#6B7280''"

definition ink_subtle :: string where
  "ink_subtle = ''#8C919B''"

definition surface_muted :: string where
  "surface_muted = ''#F5F5F6''"

fun payment_terms_label :: "payment_terms \<Rightarrow> string" where
  "payment_terms_label DUE_ON_RECEIPT = ''Due on receipt''" | "payment_terms_label NET_15 = ''Net 15''"
| "payment_terms_label NET_30 = ''Net 30''" | "payment_terms_label NET_60 = ''Net 60''"

section \<open>Blocks\<close>

definition pdf_logoMark :: "pdf_document \<Rightarrow> nat \<Rightarrow> string \<Rightarrow> piece list" where
  \<open>pdf_logoMark i px border = (case nonblank (pd_logoUrl i) of
     Some url \<Rightarrow> [Raw ''<img src="'', Esc (url), Raw ''" alt="" width="'', Raw (show_nat px), Raw ''" height="'', Raw (show_nat px),
      Raw ''" style="display:block;width:'', Raw (show_nat px), Raw ''px;height:'', Raw (show_nat px), Raw ''px;border-radius:'',
      Raw (show_nat px), Raw ''px;object-fit:cover;'', Raw border, Raw ''" />'']
   | None \<Rightarrow> [Raw ''<div style="width:'', Raw (show_nat px), Raw ''px;height:'', Raw (show_nat px), Raw ''px;border-radius:'', Raw (show_nat px),
      Raw ''px;background:'', Esc (pd_themeColor i), Raw '';color:#FFFFFF;font-size:'', Raw (show_nat ((4 * px + 5) div 10)),
      Raw ''px;font-weight:700;display:flex;align-items:center;justify-content:center;'', Raw border, Raw ''">'',
      Esc (initialOf (pd_companyName i)), Raw ''</div>''])\<close>

definition companyAddressBlock :: "pdf_document \<Rightarrow> string \<Rightarrow> piece list" where
  \<open>companyAddressBlock i style = (if \<not> pd_showCompanyAddress i \<or> pd_companyAddress i = [] then [] else
     [Raw ''<p style="margin:4px 0 0;white-space:pre-line;'', Raw style, Raw ''">'', Esc (pd_companyAddress i), Raw ''</p>''])\<close>

definition billToAndDates :: "pdf_document \<Rightarrow> piece list" where
  \<open>billToAndDates i =
     [Raw ''<div class="bill-to-row">'', Raw line_break, Raw ''      <div>'', Raw line_break,
      Raw ''        <p style="margin:0;font-size:11px;font-weight:700;text-transform:uppercase;letter-spacing:0.03em;color:'',
      Raw ink_subtle, Raw '';">Bill To</p>'', Raw line_break, Raw ''        <p style="margin:4px 0 0;font-weight:600;">'',
      Esc (pd_customerName i), Raw ''</p>'', Raw line_break, Raw ''        <p class="muted" style="margin:0;white-space:pre-line;">'',
      Esc (pd_customerAddress i), Raw ''</p>'', Raw line_break, Raw ''      </div>'', Raw line_break, Raw ''      <div class="dates">'',
      Raw line_break, Raw ''        <p style="margin:0;"><span class="muted">Invoice date: </span><strong>'', Esc (pd_invoiceDate i),
      Raw ''</strong></p>'', Raw line_break, Raw ''        ''] @
     (if pd_showPaymentTerms i then [Raw ''<p style="margin:0;"><span class="muted">Terms: </span><strong>'', Esc (payment_terms_label (pd_paymentTerms i)),
         Raw ''</strong></p>''] else []) @
     [Raw line_break, Raw ''        <p style="margin:0;"><span class="muted">Due date: </span><strong>'', Esc (pd_dueDate i),
      Raw ''</strong></p>'', Raw line_break, Raw ''      </div>'', Raw line_break, Raw ''    </div>'']\<close>

definition item_row :: "nat \<Rightarrow> pdf_line \<Rightarrow> piece list" where
  \<open>item_row index l =
     [Raw ''<tr>'', Raw line_break, Raw ''          <td>'', Raw (show_nat (index + 1)), Raw ''</td>'', Raw line_break,
      Raw ''          <td>'', Esc (pl_itemName l), Raw ''</td>'', Raw line_break, Raw ''          <td class="muted">'',
      Esc (pl_quantityLabel l), Raw ''</td>'', Raw line_break, Raw ''          <td class="muted">'', Esc (pl_rateLabel l), Raw ''</td>'',
      Raw line_break, Raw ''          <td>'', Esc (pl_amountLabel l), Raw ''</td>'', Raw line_break, Raw ''        </tr>'']\<close>

definition itemsTable :: "pdf_document \<Rightarrow> piece list" where
  \<open>itemsTable i = (let rows = join_pieces line_break (map (\<lambda>(index, l). item_row index l) (List.enumerate 0 (pd_lines i))) in
     [Raw ''<table class="items">'', Raw line_break,
      Raw ''      <thead><tr><th>#</th><th>Item &amp; Description</th><th>Qty</th><th>Rate</th><th>Amount</th></tr></thead>'',
      Raw line_break, Raw ''      <tbody>''] @
     rows @
     [Raw ''</tbody>'', Raw line_break, Raw ''    </table>''])\<close>

definition totalsBlock :: "pdf_document \<Rightarrow> piece list" where
  \<open>totalsBlock i = (if pd_layout i = PDF_MODERN then
     [Raw ''<div style="margin-top:24px;display:flex;justify-content:flex-end;">'', Raw line_break,
      Raw ''        <div style="width:256px;border:1px solid #E5E7EB;border-radius:8px;overflow:hidden;font-size:14px;">'', Raw line_break,
      Raw ''          <div style="display:flex;justify-content:space-between;padding:10px 16px;"><span class="muted">Subtotal</span><span style="font-weight:600;">'',
      Esc (pd_subtotalLabel i), Raw ''</span></div>'', Raw line_break,
      Raw ''          <div style="display:flex;justify-content:space-between;padding:10px 16px;border-top:1px solid #E5E7EB;font-weight:700;"><span>Total</span><span>'',
      Esc (pd_totalLabel i), Raw ''</span></div>'', Raw line_break,
      Raw ''          <div style="display:flex;justify-content:space-between;padding:10px 16px;background:'', Raw surface_muted,
      Raw '';font-weight:700;"><span>Balance Due</span><span>'', Esc (pd_balanceDueLabel i), Raw ''</span></div>'', Raw line_break,
      Raw ''        </div>'', Raw line_break, Raw ''      </div>'']
   else
     [Raw ''<div style="margin-top:24px;display:flex;justify-content:flex-end;">'', Raw line_break,
      Raw ''      <div style="width:240px;font-size:14px;">'', Raw line_break,
      Raw ''        <div style="display:flex;justify-content:space-between;"><span class="muted">Subtotal</span><span style="font-weight:600;">'',
      Esc (pd_subtotalLabel i), Raw ''</span></div>'', Raw line_break,
      Raw ''        <div style="display:flex;justify-content:space-between;margin-top:6px;padding-top:6px;border-top:1px solid #E5E7EB;font-weight:700;"><span>Total</span><span>'',
      Esc (pd_totalLabel i), Raw ''</span></div>'', Raw line_break,
      Raw ''        <div style="display:flex;justify-content:space-between;margin-top:6px;padding-top:6px;border-top:2px solid '',
      Raw ink_strong, Raw '';font-weight:700;"><span>Balance Due</span><span>'', Esc (pd_balanceDueLabel i), Raw ''</span></div>'',
      Raw line_break, Raw ''      </div>'', Raw line_break, Raw ''    </div>''])\<close>

definition notesBlock :: "pdf_document \<Rightarrow> piece list" where
  \<open>notesBlock i = (if \<not> pd_showNotes i \<or> pd_notes i = [] then [] else
     [Raw ''<div class="notes"><p>Notes</p><p>'', Esc (pd_notes i), Raw ''</p></div>''])\<close>

section \<open>Layouts\<close>

definition modernBody :: "pdf_document \<Rightarrow> piece list" where
  \<open>modernBody i =
     [Raw ''<div style="background:'', Esc (pd_themeColor i), Raw '';padding:24px 32px;color:#FFFFFF;">'', Raw line_break,
      Raw ''      <div style="display:flex;align-items:flex-start;justify-content:space-between;gap:16px;">'', Raw line_break,
      Raw ''        <div style="display:flex;align-items:flex-start;gap:12px;">'', Raw line_break, Raw ''          ''] @
     pdf_logoMark i 50 ''border:2px solid #FFFFFF;'' @
     [Raw line_break, Raw ''          <div>'', Raw line_break, Raw ''            <p style="margin:0;font-weight:700;">'',
      Esc (pd_companyName i), Raw ''</p>'', Raw line_break, Raw ''            ''] @
     companyAddressBlock i ''font-size:12px;color:rgba(255,255,255,0.8);'' @
     [Raw line_break, Raw ''          </div>'', Raw line_break, Raw ''        </div>'', Raw line_break,
      Raw ''        <div style="text-align:right;">'', Raw line_break,
      Raw ''          <p style="margin:0;font-size:14px;text-transform:uppercase;letter-spacing:0.03em;color:rgba(255,255,255,0.7);">Invoice</p>'',
      Raw line_break, Raw ''          <p style="margin:4px 0 0;font-size:24px;font-weight:700;">#'', Esc (pd_number i), Raw ''</p>'',
      Raw line_break, Raw ''          <p style="margin:8px 0 0;font-size:14px;font-weight:700;">Balance due: '',
      Esc (pd_balanceDueLabel i), Raw ''</p>'', Raw line_break, Raw ''        </div>'', Raw line_break, Raw ''      </div>'',
      Raw line_break, Raw ''    </div>'', Raw line_break, Raw ''    <div style="padding:32px;">'', Raw line_break, Raw ''      ''] @
     billToAndDates i @
     [Raw line_break, Raw ''      ''] @
     itemsTable i @
     [Raw line_break, Raw ''      ''] @
     totalsBlock i @
     [Raw line_break, Raw ''      ''] @
     notesBlock i @
     [Raw line_break, Raw ''    </div>'']\<close>

definition minimalBody :: "pdf_document \<Rightarrow> piece list" where
  \<open>minimalBody i =
     [Raw ''<div style="padding:32px;">'', Raw line_break,
      Raw ''      <div style="display:flex;align-items:flex-start;justify-content:space-between;gap:16px;border-bottom:1px solid #E5E7EB;padding-bottom:24px;">'',
      Raw line_break, Raw ''        <div style="display:flex;align-items:flex-start;gap:12px;">'', Raw line_break, Raw ''          ''] @
     pdf_logoMark i 50 ''border:1px solid #E5E5E5;'' @
     [Raw line_break, Raw ''          <div>'', Raw line_break, Raw ''            <p style="margin:0;font-size:18px;font-weight:700;">'',
      Esc (pd_companyName i), Raw ''</p>'', Raw line_break, Raw ''            ''] @
     companyAddressBlock i ''font-size:12px;'' @
     [Raw line_break, Raw ''          </div>'', Raw line_break, Raw ''        </div>'', Raw line_break,
      Raw ''        <div style="text-align:right;">'', Raw line_break,
      Raw ''          <p class="subtle" style="margin:0;font-size:14px;text-transform:uppercase;letter-spacing:0.03em;">Invoice</p>'',
      Raw line_break, Raw ''          <p style="margin:4px 0 0;font-size:24px;font-weight:700;">#'', Esc (pd_number i), Raw ''</p>'',
      Raw line_break, Raw ''        </div>'', Raw line_break, Raw ''      </div>'', Raw line_break,
      Raw ''      <div style="margin-top:24px;display:flex;align-items:stretch;gap:12px;">'', Raw line_break,
      Raw ''        <div style="width:4px;border-radius:2px;background:'', Esc (pd_themeColor i), Raw '';"></div>'', Raw line_break,
      Raw ''        <div>'', Raw line_break, Raw ''          <p class="muted" style="margin:0;font-size:14px;">Balance due</p>'',
      Raw line_break, Raw ''          <p style="margin:0;font-size:30px;font-weight:700;">'', Esc (pd_balanceDueLabel i), Raw ''</p>'',
      Raw line_break, Raw ''        </div>'', Raw line_break, Raw ''      </div>'', Raw line_break,
      Raw ''      <div style="margin-top:24px;">'', Raw line_break, Raw ''        ''] @
     billToAndDates i @
     [Raw line_break, Raw ''      </div>'', Raw line_break, Raw ''      ''] @
     itemsTable i @
     [Raw line_break, Raw ''      ''] @
     totalsBlock i @
     [Raw line_break, Raw ''      ''] @
     notesBlock i @
     [Raw line_break, Raw ''    </div>'']\<close>

definition classicBody :: "pdf_document \<Rightarrow> piece list" where
  \<open>classicBody i =
     [Raw ''<div style="padding:32px;">'', Raw line_break,
      Raw ''      <div style="display:flex;align-items:flex-start;justify-content:space-between;gap:16px;border-bottom:1px solid #F3F4F6;padding-bottom:24px;">'',
      Raw line_break, Raw ''        <div>'', Raw line_break, Raw ''          ''] @
     pdf_logoMark i 60 ''border:1px solid #E5E5E5;'' @
     [Raw line_break, Raw ''          <p style="margin:16px 0 0;font-size:20px;font-weight:700;">'', Esc (pd_companyName i), Raw ''</p>'',
      Raw line_break, Raw ''          ''] @
     companyAddressBlock i ''font-size:14px;max-width:220px;'' @
     [Raw line_break, Raw ''        </div>'', Raw line_break, Raw ''        <div style="text-align:right;">'', Raw line_break,
      Raw ''          <p style="margin:0;font-size:20px;font-weight:800;letter-spacing:0.05em;">INVOICE</p>'', Raw line_break,
      Raw ''          <p class="muted" style="margin:4px 0 0;font-size:14px;"># '', Esc (pd_number i), Raw ''</p>'', Raw line_break,
      Raw ''          <span style="display:inline-block;margin-top:12px;border-radius:9999px;padding:8px 16px;font-size:13px;font-weight:700;color:#FFFFFF;background:'',
      Esc (pd_themeColor i), Raw '';">Balance due: '', Esc (pd_balanceDueLabel i), Raw ''</span>'', Raw line_break, Raw ''        </div>'',
      Raw line_break, Raw ''      </div>'', Raw line_break, Raw ''      <div style="margin-top:24px;">'', Raw line_break, Raw ''        ''] @
     billToAndDates i @
     [Raw line_break, Raw ''      </div>'', Raw line_break, Raw ''      ''] @
     itemsTable i @
     [Raw line_break, Raw ''      ''] @
     totalsBlock i @
     [Raw line_break, Raw ''      ''] @
     notesBlock i @
     [Raw line_break, Raw ''    </div>'', Raw line_break, Raw ''    <div style="height:8px;background:'', Esc (pd_themeColor i),
      Raw '';"></div>'']\<close>

definition invoice_pdf_pieces :: "pdf_document \<Rightarrow> piece list" where
  \<open>invoice_pdf_pieces i = (let body = (if pd_layout i = PDF_MODERN then modernBody i else if pd_layout i = PDF_MINIMAL then minimalBody i else classicBody i) in
     [Raw ''<!doctype html>'', Raw line_break, Raw ''<html>'', Raw line_break, Raw ''  <head>'', Raw line_break,
      Raw ''    <meta charset="utf-8" />'', Raw line_break, Raw ''    <style>'', Raw line_break,
      Raw ''      * { box-sizing: border-box; }'', Raw line_break, Raw ''      body { margin: 0; font-family: '', Raw font_stack,
      Raw ''; color: '', Raw ink_strong, Raw ''; -webkit-print-color-adjust: exact; print-color-adjust: exact; }'', Raw line_break,
      Raw ''      table { border-collapse: collapse; width: 100%; }'', Raw line_break, Raw ''      .muted { color: '', Raw ink_muted,
      Raw ''; }'', Raw line_break, Raw ''      .subtle { color: '', Raw ink_subtle, Raw ''; }'', Raw line_break,
      Raw ''      .bill-to-row { display: flex; align-items: flex-start; justify-content: space-between; gap: 16px; font-size: 14px; }'',
      Raw line_break, Raw ''      .dates { text-align: right; font-size: 14px; line-height: 1.6; }'', Raw line_break,
      Raw ''      .items { margin-top: 24px; font-size: 14px; }'', Raw line_break,
      Raw ''      .items thead tr { background: #E7EDF5; text-align: left; font-size: 12px; font-weight: 700; text-transform: uppercase; letter-spacing: 0.03em; color: #000000; }'',
      Raw line_break, Raw ''      .items th, .items td { padding: 10px 0; }'', Raw line_break,
      Raw ''      .items th:first-child, .items td:first-child { width: 40px; padding-left: 16px; }'', Raw line_break,
      Raw ''      .items th:last-child, .items td:last-child { text-align: right; padding-right: 16px; }'', Raw line_break,
      Raw ''      .items tbody tr { border-bottom: 1px solid #F1F5F9; }'', Raw line_break,
      Raw ''      .items tbody td:first-child { color: '', Raw ink_muted, Raw ''; }'', Raw line_break,
      Raw ''      .notes { margin-top: 24px; border-top: 1px solid #E5E7EB; padding-top: 16px; }'', Raw line_break,
      Raw ''      .notes p:first-child { margin: 0; font-size: 11px; font-weight: 700; text-transform: uppercase; letter-spacing: 0.03em; color: '',
      Raw ink_subtle, Raw ''; }'', Raw line_break, Raw ''      .notes p:last-child { margin: 4px 0 0; font-size: 12px; color: '',
      Raw ink_muted, Raw ''; white-space: pre-line; }'', Raw line_break, Raw ''    </style>'', Raw line_break, Raw ''  </head>'',
      Raw line_break, Raw ''  <body>'', Raw line_break, Raw ''    ''] @
     body @
     [Raw line_break, Raw ''  </body>'', Raw line_break, Raw ''</html>''])\<close>

definition renderInvoicePdfHtml :: "pdf_document \<Rightarrow> string" where
  "renderInvoicePdfHtml i = html (invoice_pdf_pieces i)"

section \<open>Insertion\<close>

text \<open>The constants inserted in the template's own text leave the state of the reader.\<close>

lemma constants_quiet [simp]:
  "html_run InText line_break = InText" "html_run InText font_stack = InText" "html_run InText ink_strong = InText" "html_run InText ink_muted = InText"
  "html_run InText ink_subtle = InText" "html_run InValue ink_strong = InValue" "html_run InValue ink_subtle = InValue"
  "html_run InValue surface_muted = InValue"
  by code_simp+

lemmas block_simps = closed_pieces_def placed.simps digits_quiet

lemma logo_closed: "html_run InValue border = InValue \<Longrightarrow> closed_pieces (pdf_logoMark i px border)"
  unfolding pdf_logoMark_def by (simp add: block_simps split: option.split)

lemma address_closed: "html_run InValue style = InValue \<Longrightarrow> closed_pieces (companyAddressBlock i style)"
  unfolding companyAddressBlock_def by (simp add: block_simps)

lemma bill_closed: "closed_pieces (billToAndDates i)"
  unfolding billToAndDates_def by (simp add: block_simps)

lemma row_closed: "closed_pieces (item_row n l)"
  unfolding item_row_def by (simp add: block_simps)

lemma items_closed: "closed_pieces (itemsTable i)"
proof -
  have "closed_pieces (join_pieces line_break (map (\<lambda>(index, l). item_row index l) (List.enumerate 0 (pd_lines i))))"
    by (rule closed_join) (auto simp: row_closed)
  note * = closed_placed[OF this]
  show ?thesis unfolding itemsTable_def Let_def by (simp add: block_simps *)
qed

lemma totals_closed: "closed_pieces (totalsBlock i)"
  unfolding totalsBlock_def by (simp add: block_simps)

lemma notes_closed: "closed_pieces (notesBlock i)"
  unfolding notesBlock_def by (simp add: block_simps)

lemmas blocks_closed = closed_placed[OF logo_closed] closed_placed[OF address_closed] closed_placed[OF bill_closed]
  closed_placed[OF items_closed] closed_placed[OF totals_closed] closed_placed[OF notes_closed]

lemma modern_closed: "closed_pieces (modernBody i)"
  unfolding modernBody_def by (simp add: block_simps blocks_closed)

lemma minimal_closed: "closed_pieces (minimalBody i)"
  unfolding minimalBody_def by (simp add: block_simps blocks_closed)

lemma classic_closed: "closed_pieces (classicBody i)"
  unfolding classicBody_def by (simp add: block_simps blocks_closed)

lemma invoice_pdf_closed: "closed_pieces (invoice_pdf_pieces i)"
proof -
  have "closed_pieces (if pd_layout i = PDF_MODERN then modernBody i else if pd_layout i = PDF_MINIMAL then minimalBody i else classicBody i)"
    by (simp add: modern_closed minimal_closed classic_closed)
  note * = closed_placed[OF this]
  show ?thesis unfolding invoice_pdf_pieces_def Let_def closed_pieces_def by (simp add: *)
qed

end
