(* ===== verification/EmailReceiptHtml.thy ===== *)
theory EmailReceiptHtml
  imports Html
begin

text \<open>
  \<open>packages/shared/src/domain/email-receipt-html.ts\<close>: the body of an invoice e-mail in its three layouts. The subject and the
  body come in with their variables filled.
\<close>

section \<open>The e-mail\<close>

record email_document =
  ed_layout :: receipt_layout
  ed_brandName :: string
  ed_themeColor :: string
  ed_accentColor :: string
  ed_logoSrc :: "string option"
  ed_senderAddress :: string
  ed_subject :: string
  ed_body :: string
  ed_invoiceNumber :: string
  ed_amountDue :: string
  ed_dueDate :: string
  ed_customerName :: "string option"
  ed_variableBrand :: "string option"
  ed_linkUrl :: string
  ed_badgeLabel :: "string option"

definition mail_fonts :: string where
  "mail_fonts = ''-apple-system,Segoe UI,Roboto,Helvetica,Arial,sans-serif''"

definition mail_border :: string where
  "mail_border = ''#E2E8F0''"

definition mail_ink :: string where
  "mail_ink = ''#334155''"

definition mail_muted :: string where
  "mail_muted = ''#475569''"

definition mail_strong :: string where
  "mail_strong = ''#0F172A''"

definition mail_surface :: string where
  "mail_surface = ''#F8FAFC''"

definition mail_summary_bg :: string where
  "mail_summary_bg = ''#F1F5F9''"

definition logo_border :: string where
  "logo_border = ''border:1px solid '' @ mail_border @ '';''"

definition shown_name :: "email_document \<Rightarrow> string" where
  "shown_name i = (case ed_badgeLabel i of Some b \<Rightarrow> b | None \<Rightarrow> ed_brandName i)"

section \<open>Emphasis\<close>

text \<open>The variables longer than a character, the longest first; the sort is stable.\<close>

definition emphasisValues :: "email_document \<Rightarrow> string list" where
  "emphasisValues i = sort_key (\<lambda>v. - int (length v)) (filter (\<lambda>v. 1 < length (js_trim v))
     ([ed_invoiceNumber i, ed_amountDue i, ed_dueDate i] @ (case ed_customerName i of Some n \<Rightarrow> [n] | None \<Rightarrow> []) @
      (case ed_variableBrand i of Some n \<Rightarrow> [n] | None \<Rightarrow> [])))"

text \<open>
  \<open>line.split(new RegExp('(v1|v2|...)', 'g'))\<close> with literal alternatives: at each position the first alternative that matches; the
  captured match is a part of its own. \<open>seen\<close> is the part under way, backwards. No value is empty.
\<close>

function split_values :: "string list \<Rightarrow> string \<Rightarrow> string \<Rightarrow> string list" where
  "split_values vs seen s =
     (if s = [] then [rev seen]
      else case find (\<lambda>v. v \<noteq> [] \<and> is_prefix v s) vs of
          Some v \<Rightarrow> rev seen # v # split_values vs [] (drop (length v) s)
        | None \<Rightarrow> split_values vs (hd s # seen) (tl s))"
  by pat_completeness auto
termination
  by (relation "measure (\<lambda>(_, _, s). length s)") (auto dest!: find_Some_iff')

declare split_values.simps [simp del]

definition emphasised :: "string list \<Rightarrow> piece list \<Rightarrow> string \<Rightarrow> piece list" where
  \<open>emphasised vs style part = (if part \<in> set vs then [Raw ''<strong style="''] @
     style @
     [Raw ''">'', Esc part, Raw ''</strong>''] else [Esc part])\<close>

definition emphasise :: "string \<Rightarrow> string list \<Rightarrow> piece list \<Rightarrow> piece list" where
  "emphasise line vs style = (if vs = [] then [Esc line]
     else concat (map (emphasised vs style) (filter (\<lambda>part. part \<noteq> []) (split_values vs [] line))))"

section \<open>Blocks\<close>

definition mail_logoMark :: "email_document \<Rightarrow> nat \<Rightarrow> string option \<Rightarrow> string \<Rightarrow> piece list" where
  \<open>mail_logoMark i px fallbackBg border = (case nonblank (ed_logoSrc i) of
     Some src \<Rightarrow> [Raw ''<img src="'', Esc src, Raw ''" alt="" width="'', Raw (show_nat px), Raw ''" height="'', Raw (show_nat px),
      Raw ''" style="display:inline-block;width:'', Raw (show_nat px), Raw ''px;height:'', Raw (show_nat px), Raw ''px;border-radius:'',
      Raw (show_nat px), Raw ''px;object-fit:cover;'', Raw border, Raw ''" />'']
   | None \<Rightarrow> (let background = (case fallbackBg of Some b \<Rightarrow> [Raw b] | None \<Rightarrow> [Esc (ed_themeColor i)]) in
     [Raw ''<table role="presentation" cellpadding="0" cellspacing="0" style="display:inline-table;"><tr>'', Raw line_break,
      Raw ''            <td width="'', Raw (show_nat px), Raw ''" height="'', Raw (show_nat px),
      Raw ''" align="center" valign="middle" style="width:'', Raw (show_nat px), Raw ''px;height:'', Raw (show_nat px),
      Raw ''px;background:''] @
     background @
     [Raw '';border-radius:'', Raw (show_nat px), Raw ''px;color:#FFFFFF;font-size:'', Raw (show_nat ((4 * px + 5) div 10)),
      Raw ''px;font-weight:700;font-family:'', Raw mail_fonts, Raw '';'', Raw border, Raw ''">'', Esc (initialOf (shown_name i)),
      Raw ''</td>'', Raw line_break, Raw ''          </tr></table>'']))\<close>

definition summary_row :: "string \<Rightarrow> string \<Rightarrow> piece list" where
  \<open>summary_row label shown =
     [Raw ''<tr>'', Raw line_break, Raw ''            <td style="padding:10px 16px;border-top:1px solid '', Raw mail_border,
      Raw '';font-size:14px;color:'', Raw mail_muted, Raw '';">'', Raw label, Raw ''</td>'', Raw line_break,
      Raw ''            <td style="padding:10px 16px;border-top:1px solid '', Raw mail_border,
      Raw '';font-size:14px;font-weight:700;color:'', Raw mail_strong, Raw '';text-align:right;">'', Esc shown, Raw ''</td>'',
      Raw line_break, Raw ''          </tr>'']\<close>

definition summary_card :: "email_document \<Rightarrow> piece list" where
  \<open>summary_card i =
     [Raw ''<table role="presentation" cellpadding="0" cellspacing="0" style="width:100%;margin-top:24px;border:1px solid '',
      Raw mail_border, Raw '';border-radius:8px;border-collapse:separate;overflow:hidden;">'', Raw line_break,
      Raw ''          <tr><td colspan="2" style="background:'', Raw mail_summary_bg,
      Raw '';padding:10px 16px;font-size:14px;font-weight:700;color:'', Raw mail_strong, Raw '';">Invoice summary</td></tr>'',
      Raw line_break, Raw ''          ''] @
     summary_row ''Invoice number'' (ed_invoiceNumber i) @
     [Raw line_break, Raw ''          ''] @
     summary_row ''Amount due'' (ed_amountDue i) @
     [Raw line_break, Raw ''          ''] @
     summary_row ''Due date'' (ed_dueDate i) @
     [Raw line_break, Raw ''        </table>'']\<close>

definition colour_band :: "email_document \<Rightarrow> piece list" where
  \<open>colour_band i = (if ed_layout i = RECEIPT_MINIMAL then [] else
     [Raw ''<tr><td style="background:'', Esc (ed_themeColor i), Raw '';font-size:0;line-height:0;height:6px;">&nbsp;</td></tr>''])\<close>

definition email_header :: "email_document \<Rightarrow> piece list" where
  \<open>email_header i = (if ed_layout i = RECEIPT_HERO then
     colour_band i @
     [Raw line_break, Raw ''      <tr><td style="background:'', Esc (ed_themeColor i), Raw '';padding:32px 24px;text-align:center;">'',
      Raw line_break, Raw ''        ''] @
     mail_logoMark i 60 (Some ''rgba(255,255,255,0.2)'') ''border:3px solid #FFFFFF;'' @
     [Raw line_break, Raw ''        <div style="margin-top:8px;font-size:18px;font-weight:700;color:#FFFFFF;">'', Esc (shown_name i),
      Raw ''</div>'', Raw line_break, Raw ''        <div style="margin-top:2px;font-size:12px;color:rgba(255,255,255,0.8);">'',
      Esc (ed_senderAddress i), Raw ''</div>'', Raw line_break, Raw ''      </td></tr>'']
   else
     colour_band i @
     [Raw line_break, Raw ''      <tr><td style="padding:20px 24px;border-bottom:1px solid '', Raw mail_border, Raw '';">'',
      Raw line_break, Raw ''        <table role="presentation" cellpadding="0" cellspacing="0"><tr>'', Raw line_break,
      Raw ''          <td style="padding-right:12px;">''] @
     mail_logoMark i 48 None logo_border @
     [Raw ''</td>'', Raw line_break, Raw ''          <td>'', Raw line_break,
      Raw ''            <div style="font-size:16px;font-weight:700;color:'', Raw mail_strong, Raw '';">'', Esc (shown_name i),
      Raw ''</div>'', Raw line_break, Raw ''            <div style="margin-top:2px;font-size:14px;color:'', Raw mail_muted, Raw '';">'',
      Esc (ed_senderAddress i), Raw ''</div>'', Raw line_break, Raw ''          </td>'', Raw line_break, Raw ''        </tr></table>'',
      Raw line_break, Raw ''      </td></tr>''])\<close>

definition body_paragraphs :: "email_document \<Rightarrow> piece list" where
  \<open>body_paragraphs i = join_pieces (line_break @ ''        '') (map (\<lambda>line.
     [Raw ''<p style="margin:0 0 12px;font-size:15px;line-height:1.5;color:'', Raw mail_ink, Raw '';">''] @
     emphasise line (emphasisValues i) [Raw ''font-weight:700;color:'', Raw mail_strong, Raw '';''] @
     [Raw ''</p>''])
     (filter (\<lambda>line. js_trim line \<noteq> []) (split_on (CHR 10) (ed_body i))))\<close>

definition email_receipt_pieces :: "email_document \<Rightarrow> piece list" where
  \<open>email_receipt_pieces i =
     [Raw ''<!doctype html>'', Raw line_break, Raw ''<html>'', Raw line_break, Raw ''  <body style="margin:0;padding:24px;background:'',
      Raw mail_surface, Raw '';font-family:'', Raw mail_fonts, Raw '';">'', Raw line_break,
      Raw ''    <table role="presentation" cellpadding="0" cellspacing="0" style="max-width:520px;margin:0 auto;background:#FFFFFF;border:1px solid '',
      Raw mail_border, Raw '';border-radius:12px;overflow:hidden;">'', Raw line_break, Raw ''      ''] @
     email_header i @
     [Raw line_break, Raw ''      <tr><td style="padding:24px;">'', Raw line_break, Raw ''        ''] @
     (if ed_layout i = RECEIPT_MINIMAL then [Raw ''<div style="width:40px;height:6px;border-radius:3px;background:'', Esc (ed_themeColor i), Raw '';margin:0 0 16px;"></div>''] else []) @
     [Raw line_break, Raw ''        <p style="margin:0 0 12px;font-size:16px;font-weight:700;color:'', Raw mail_strong, Raw '';">''] @
     emphasise (ed_subject i) (emphasisValues i) [Raw ''color:'', Esc (ed_themeColor i), Raw '';''] @
     [Raw ''</p>'', Raw line_break, Raw ''        ''] @
     body_paragraphs i @
     [Raw line_break, Raw ''        <a href="'', Esc (ed_linkUrl i),
      Raw ''" style="display:block;width:100%;box-sizing:border-box;margin-top:20px;background:'', Esc (ed_accentColor i),
      Raw '';color:#FFFFFF;text-decoration:none;padding:14px 20px;border-radius:8px;font-size:14px;font-weight:700;text-align:center;">'',
      Raw line_break, Raw ''          View &amp; Pay Invoice'', Raw line_break, Raw ''        </a>'', Raw line_break, Raw ''        ''] @
     summary_card i @
     [Raw line_break, Raw ''      </td></tr>'', Raw line_break, Raw ''    </table>'', Raw line_break, Raw ''  </body>'', Raw line_break,
      Raw ''</html>'']\<close>

definition renderEmailReceiptHtml :: "email_document \<Rightarrow> string" where
  "renderEmailReceiptHtml i = html (email_receipt_pieces i)"

section \<open>Insertion\<close>

lemma mail_constants_quiet [simp]:
  "html_run InText line_break = InText" "html_run InValue mail_fonts = InValue" "html_run InValue mail_border = InValue" "html_run InValue mail_ink = InValue"
  "html_run InValue mail_muted = InValue" "html_run InValue mail_strong = InValue" "html_run InValue mail_surface = InValue"
  "html_run InValue mail_summary_bg = InValue"
  by code_simp+

lemmas mail_block_simps = closed_pieces_def placed.simps digits_quiet

lemmas mail_simps = closed_pieces_def placed.simps digits_quiet placed_append html_run_append

lemma closed_concat: "(\<And>ps. ps \<in> set pss \<Longrightarrow> closed_pieces ps) \<Longrightarrow> closed_pieces (concat pss)"
  by (induction pss) (simp_all add: closed_pieces_def placed_append)

lemma emphasise_closed:
  assumes "placed InValue style = Some InValue"
  shows "closed_pieces (emphasise line vs style)"
proof -
  have "closed_pieces (emphasised vs style part)" for part
    using assms by (simp add: emphasised_def mail_simps)
  then show ?thesis unfolding emphasise_def by (auto simp: closed_pieces_def[of "[_]"] intro!: closed_concat)
qed

lemma mail_logo_closed: "html_run InValue border = InValue \<Longrightarrow> (\<And>b. bg = Some b \<Longrightarrow> html_run InValue b = InValue) \<Longrightarrow> closed_pieces (mail_logoMark i px bg border)"
  unfolding mail_logoMark_def Let_def by (simp add: mail_simps split: option.split)

lemma mail_row_closed: "html_run InText label = InText \<Longrightarrow> closed_pieces (summary_row label shown)"
  unfolding summary_row_def by (simp add: mail_simps)

lemmas row_placed = closed_placed[OF mail_row_closed]

lemma card_closed: "closed_pieces (summary_card i)"
  unfolding summary_card_def by (simp add: mail_block_simps row_placed)

lemma band_closed: "closed_pieces (colour_band i)"
  unfolding colour_band_def by (simp add: mail_simps)

lemma header_logos:
  "placed InText (mail_logoMark i 60 (Some ''rgba(255,255,255,0.2)'') ''border:3px solid #FFFFFF;'' @ ps) = placed InText ps"
  "placed InText (mail_logoMark i 48 None logo_border @ ps) = placed InText ps"
  by (rule closed_placed[OF mail_logo_closed]; simp add: html_run_append logo_border_def)+

lemma header_closed: "closed_pieces (email_header i)"
  unfolding email_header_def by (simp add: mail_block_simps closed_placed[OF band_closed] header_logos)

lemma paragraphs_closed: "closed_pieces (body_paragraphs i)"
  unfolding body_paragraphs_def
  by (rule closed_join) (auto simp: mail_block_simps closed_placed[OF emphasise_closed] html_run_append)

lemma email_receipt_closed: "closed_pieces (email_receipt_pieces i)"
  unfolding email_receipt_pieces_def
  by (simp add: mail_block_simps closed_placed[OF header_closed] closed_placed[OF emphasise_closed] closed_placed[OF paragraphs_closed]
        closed_placed[OF card_closed])

end
