(* ===== verification/HtmlDocuments.thy ===== *)
theory HtmlDocuments
  imports InvoicePdfHtml EmailReceiptHtml
begin

text \<open>
  What the two rendered documents promise: no inserted value reaches the markup.
\<close>

text \<open>Two invoices the template treats alike: the same layout and switches, as many lines, the same optional blocks.\<close>

definition same_shape :: "pdf_document \<Rightarrow> pdf_document \<Rightarrow> bool" where
  "same_shape i j \<longleftrightarrow> pd_layout i = pd_layout j \<and> (nonblank (pd_logoUrl i) = None) = (nonblank (pd_logoUrl j) = None) \<and>
     (pd_showCompanyAddress i \<and> pd_companyAddress i \<noteq> []) = (pd_showCompanyAddress j \<and> pd_companyAddress j \<noteq> []) \<and>
     pd_showPaymentTerms i = pd_showPaymentTerms j \<and> (pd_showNotes i \<and> pd_notes i \<noteq> []) = (pd_showNotes j \<and> pd_notes j \<noteq> []) \<and>
     length (pd_lines i) = length (pd_lines j)"

abbreviation template :: "piece list \<Rightarrow> piece list" where
  "template \<equiv> filter is_raw"

lemma template_join: "template (join_pieces sep pss) = join_pieces sep (map template pss)"
  by (induction sep pss rule: join_pieces.induct) simp_all

lemma template_logo: "(nonblank (pd_logoUrl i) = None) = (nonblank (pd_logoUrl j) = None) \<Longrightarrow> template (pdf_logoMark i px border) = template (pdf_logoMark j px border)"
  unfolding pdf_logoMark_def by (cases "nonblank (pd_logoUrl i)"; cases "nonblank (pd_logoUrl j)") simp_all

lemma template_address:
  "(pd_showCompanyAddress i \<and> pd_companyAddress i \<noteq> []) = (pd_showCompanyAddress j \<and> pd_companyAddress j \<noteq> []) \<Longrightarrow>
     template (companyAddressBlock i style) = template (companyAddressBlock j style)"
  unfolding companyAddressBlock_def by auto

lemma template_bill: "pd_showPaymentTerms i = pd_showPaymentTerms j \<Longrightarrow> template (billToAndDates i) = template (billToAndDates j)"
  unfolding billToAndDates_def by simp

lemma template_row: "template (item_row n l) = template (item_row n l')"
  unfolding item_row_def by simp

lemma template_items: "length (pd_lines i) = length (pd_lines j) \<Longrightarrow> template (itemsTable i) = template (itemsTable j)"
proof -
  assume len: "length (pd_lines i) = length (pd_lines j)"
  have "map template (map (\<lambda>(n, l). item_row n l) (List.enumerate 0 (pd_lines i))) =
      map template (map (\<lambda>(n, l). item_row n l) (List.enumerate 0 (pd_lines j)))"
    by (rule nth_equalityI) (use len template_row in \<open>simp_all add: nth_enumerate_eq\<close>)
  then show ?thesis unfolding itemsTable_def Let_def by (simp add: template_join)
qed

lemma template_totals: "pd_layout i = pd_layout j \<Longrightarrow> template (totalsBlock i) = template (totalsBlock j)"
  unfolding totalsBlock_def by simp

lemma template_notes:
  "(pd_showNotes i \<and> pd_notes i \<noteq> []) = (pd_showNotes j \<and> pd_notes j \<noteq> []) \<Longrightarrow> template (notesBlock i) = template (notesBlock j)"
  unfolding notesBlock_def by auto

lemma template_bodies:
  assumes "same_shape i j"
  shows "template (modernBody i) = template (modernBody j)" "template (minimalBody i) = template (minimalBody j)"
    "template (classicBody i) = template (classicBody j)"
proof -
  have sh: "pd_layout i = pd_layout j" "(nonblank (pd_logoUrl i) = None) = (nonblank (pd_logoUrl j) = None)"
    "(pd_showCompanyAddress i \<and> pd_companyAddress i \<noteq> []) = (pd_showCompanyAddress j \<and> pd_companyAddress j \<noteq> [])"
    "pd_showPaymentTerms i = pd_showPaymentTerms j" "(pd_showNotes i \<and> pd_notes i \<noteq> []) = (pd_showNotes j \<and> pd_notes j \<noteq> [])"
    "length (pd_lines i) = length (pd_lines j)"
    using assms unfolding same_shape_def by blast+
  note blocks = template_logo[OF sh(2)] template_address[OF sh(3)] template_bill[OF sh(4)] template_items[OF sh(6)]
    template_totals[OF sh(1)] template_notes[OF sh(5)]
  show "template (modernBody i) = template (modernBody j)" unfolding modernBody_def filter_append blocks by simp
  show "template (minimalBody i) = template (minimalBody j)" unfolding minimalBody_def filter_append blocks by simp
  show "template (classicBody i) = template (classicBody j)" unfolding classicBody_def filter_append blocks by simp
qed

lemma template_invoice_pdf: "same_shape i j \<Longrightarrow> template (invoice_pdf_pieces i) = template (invoice_pdf_pieces j)"
  unfolding invoice_pdf_pieces_def Let_def filter_append by (simp add: template_bodies) (simp add: same_shape_def)


definition sample_pdf :: "string \<Rightarrow> pdf_document" where
  "sample_pdf name = \<lparr> pd_number = ''INV-1'', pd_invoiceDate = ''Jan 1, 2026'', pd_dueDate = ''Jan 31, 2026'', pd_displayName = ''Acme'',
     pd_themeColor = ''#2D6A6A'', pd_logoUrl = None, pd_customerName = name, pd_customerAddress = [], pd_layout = PDF_CLASSIC,
     pd_companyName = ''Acme'', pd_companyAddress = [], pd_showCompanyAddress = True, pd_showPaymentTerms = True, pd_showNotes = True,
     pd_paymentTerms = NET_30, pd_notes = [],
     pd_lines = [\<lparr> pl_itemName = ''Item'', pl_quantityLabel = ''1'', pl_rateLabel = ''$1'', pl_amountLabel = ''$1'' \<rparr>],
     pd_subtotalLabel = ''$1'', pd_totalLabel = ''$1'', pd_balanceDueLabel = ''$1'' \<rparr>"


end
